(* ===== verification/Prelude.thy ===== *)
theory Prelude
  imports Complex_Main "HOL-Library.Sublist" "HOL-Library.Char_ord" "HOL-Library.List_Lexorder"
    "HOL-Library.AList"
begin

text \<open>
  Shared vocabulary of the development: the scalar types of the Rust sources, the string
  functions of Rust's standard library that the sources call, hash maps as association
  lists, and the generic lemmas that the component theories use.

  Conventions.
  \<^item> A Rust \<open>String\<close> or \<open>PathBuf\<close> is the list of its UTF-8 bytes. Byte-wise list order
    is Rust's order on \<open>str\<close>, so \<open>sort\<close> is \<open>sort_unstable\<close> on strings.
  \<^item> \<open>u32\<close>, \<open>u64\<close> and \<open>usize\<close> values that the modelled code only stores, compares and
    prints are natural numbers. Wherever the code does arithmetic that could leave the
    type, the bound is written out.
  \<^item> A finite \<open>f64\<close> is the rational number it denotes. Comparisons are exact; a difference
    of two such numbers is exact too whenever the operands are within a factor of two of
    each other, and otherwise rounding cannot move it across the thresholds that the code
    compares with, except for operands below \<open>2^(-51)\<close>.
  \<^item> A \<open>HashMap\<close> is an association list with distinct keys, whose order stands for the
    map's unspecified iteration order: a statement about all such lists is a statement
    about every iteration order.
\<close>

section \<open>Scalar types\<close>

type_synonym u32 = nat
type_synonym u64 = nat
type_synonym usize = nat
type_synonym f64 = rat
type_synonym uuid = nat
type_synonym timestamp = int
type_synonym ('k, 'v) hashmap = "('k \<times> 'v) list"

text \<open>The identity and the time that \<open>Uuid::new_v4\<close> and \<open>Utc::now\<close> hand out.\<close>

record mint =
  mint_uuid :: uuid
  mint_now :: timestamp

section \<open>Collections of lemmas\<close>

named_theorems emit_rules \<open>preservation rules for the plan-building operations\<close>
named_theorems emit_defs \<open>definitions of the plan-building operations\<close>
named_theorems media_simps \<open>classification of track types\<close>

section \<open>Strings\<close>

definition ascii_lower :: "char \<Rightarrow> char" where
  "ascii_lower c =
     (let n = of_char c :: nat in if 65 \<le> n \<and> n \<le> 90 then char_of (n + 32) else c)"

definition to_ascii_lowercase :: "string \<Rightarrow> string" where
  "to_ascii_lowercase s = map ascii_lower s"

fun str_contains :: "string \<Rightarrow> string \<Rightarrow> bool" where
  "str_contains [] needle = (needle = [])"
| "str_contains (c # cs) needle = (prefix needle (c # cs) \<or> str_contains cs needle)"

definition str_ends_with :: "string \<Rightarrow> string \<Rightarrow> bool" where
  "str_ends_with s suf = (length suf \<le> length s \<and> drop (length s - length suf) s = suf)"

text \<open>
  \<open>str::replace\<close> for a non-empty pattern: non-overlapping matches from the left.
\<close>

fun str_replace :: "string \<Rightarrow> string \<Rightarrow> string \<Rightarrow> string" where
  "str_replace from into [] = []"
| "str_replace from into (c # cs) =
     (if from \<noteq> [] \<and> prefix from (c # cs)
      then into @ str_replace from into (drop (length from - 1) cs)
      else c # str_replace from into cs)"

fun str_join :: "string \<Rightarrow> string list \<Rightarrow> string" where
  "str_join sep [] = []"
| "str_join sep [x] = x"
| "str_join sep (x # y # zs) = x @ sep @ str_join sep (y # zs)"

definition digit_char :: "nat \<Rightarrow> char" where
  "digit_char d = char_of (48 + d)"

fun nat_str :: "nat \<Rightarrow> string" where
  "nat_str n = (if n < 10 then [digit_char n] else nat_str (n div 10) @ [digit_char (n mod 10)])"

declare nat_str.simps [simp del]

definition U32_MAX :: nat where
  "U32_MAX = 4294967295"

definition U64_MAX :: nat where
  "U64_MAX = 18446744073709551615"

definition is_ascii_digit :: "char \<Rightarrow> bool" where
  "is_ascii_digit c = (let n = of_char c :: nat in 48 \<le> n \<and> n \<le> 57)"

text \<open>\<open>str::parse\<close> for an unsigned type: an optional plus sign and at least one digit, no
  overflow.\<close>

definition digits_value :: "string \<Rightarrow> nat" where
  "digits_value ds = foldl (\<lambda>acc c. acc * 10 + (of_char c - 48)) 0 ds"

definition parse_unsigned :: "nat \<Rightarrow> string \<Rightarrow> nat option" where
  "parse_unsigned bound s =
     (let ds = (if prefix ''+'' s then tl s else s) in
      if ds \<noteq> [] \<and> list_all is_ascii_digit ds \<and> digits_value ds \<le> bound
      then Some (digits_value ds) else None)"

fun split_on :: "char \<Rightarrow> string \<Rightarrow> string list" where
  "split_on sep [] = [[]]"
| "split_on sep (c # cs) =
     (if c = sep then [] # split_on sep cs
      else (case split_on sep cs of [] \<Rightarrow> [[c]] | w # ws \<Rightarrow> (c # w) # ws))"

text \<open>
  \<open>str::trim\<close>: the characters with the Unicode property White\_Space, by their UTF-8
  encodings.
\<close>

definition white_space :: "string list" where
  "white_space =
     [[CHR 0x09], [CHR 0x0A], [CHR 0x0B], [CHR 0x0C], [CHR 0x0D], [CHR 0x20],
      [CHR 0xC2, CHR 0x85], [CHR 0xC2, CHR 0xA0], [CHR 0xE1, CHR 0x9A, CHR 0x80],
      [CHR 0xE2, CHR 0x80, CHR 0x80], [CHR 0xE2, CHR 0x80, CHR 0x81],
      [CHR 0xE2, CHR 0x80, CHR 0x82], [CHR 0xE2, CHR 0x80, CHR 0x83],
      [CHR 0xE2, CHR 0x80, CHR 0x84], [CHR 0xE2, CHR 0x80, CHR 0x85],
      [CHR 0xE2, CHR 0x80, CHR 0x86], [CHR 0xE2, CHR 0x80, CHR 0x87],
      [CHR 0xE2, CHR 0x80, CHR 0x88], [CHR 0xE2, CHR 0x80, CHR 0x89],
      [CHR 0xE2, CHR 0x80, CHR 0x8A], [CHR 0xE2, CHR 0x80, CHR 0xA8],
      [CHR 0xE2, CHR 0x80, CHR 0xA9], [CHR 0xE2, CHR 0x80, CHR 0xAF],
      [CHR 0xE2, CHR 0x81, CHR 0x9F], [CHR 0xE3, CHR 0x80, CHR 0x80]]"

definition ws_prefix :: "string \<Rightarrow> string option" where
  "ws_prefix s = find (\<lambda>w. prefix w s) white_space"

lemma white_space_nonempty: "w \<in> set white_space \<Longrightarrow> 0 < length w"
  by (auto simp: white_space_def)

lemma ws_prefix_shrinks: "ws_prefix s = Some w \<Longrightarrow> length (drop (length w) s) < length s"
proof -
  assume a: "ws_prefix s = Some w"
  then obtain i where i: "i < length white_space" "w = white_space ! i" "prefix w s"
    unfolding ws_prefix_def find_Some_iff by blast
  then have "0 < length w" using nth_mem [OF i(1)] white_space_nonempty [of w] by simp
  moreover have "length w \<le> length s" using i(3) by (rule prefix_length_le)
  ultimately show ?thesis by (simp del: length_greater_0_conv)
qed

function trim_start :: "string \<Rightarrow> string" where
  "trim_start s = (case ws_prefix s of None \<Rightarrow> s | Some w \<Rightarrow> trim_start (drop (length w) s))"
  by pat_completeness auto
termination
  by (relation "measure length") (auto dest: ws_prefix_shrinks)

declare trim_start.simps [simp del]

definition ws_suffix :: "string \<Rightarrow> string option" where
  "ws_suffix s = find (\<lambda>w. str_ends_with s w) white_space"

lemma ws_suffix_shrinks: "ws_suffix s = Some w \<Longrightarrow> length (take (length s - length w) s) < length s"
proof -
  assume a: "ws_suffix s = Some w"
  then obtain i where i: "i < length white_space" "w = white_space ! i" "str_ends_with s w"
    unfolding ws_suffix_def find_Some_iff by blast
  then have "0 < length w" using nth_mem [OF i(1)] white_space_nonempty [of w] by simp
  moreover have "length w \<le> length s" using i(3) by (simp add: str_ends_with_def)
  ultimately show ?thesis by (simp del: length_greater_0_conv)
qed

function trim_end :: "string \<Rightarrow> string" where
  "trim_end s =
     (case ws_suffix s of None \<Rightarrow> s | Some w \<Rightarrow> trim_end (take (length s - length w) s))"
  by pat_completeness auto
termination
  by (relation "measure length") (auto dest: ws_suffix_shrinks)

declare trim_end.simps [simp del]

definition str_trim :: "string \<Rightarrow> string" where
  "str_trim s = trim_end (trim_start s)"

text \<open>
  \<open>Path::file_name\<close> on a Unix path: the last component, unless there is none or it is
  \<open>..\<close>. Empty components and \<open>.\<close> are dropped by \<open>Path::components\<close>.
\<close>

definition path_file_name :: "string \<Rightarrow> string option" where
  "path_file_name p =
     (let cs = filter (\<lambda>c. c \<noteq> [] \<and> c \<noteq> ''.'') (split_on (CHR ''/'') p) in
      if cs = [] \<or> last cs = ''..'' then None else Some (last cs))"

section \<open>Hash maps\<close>

definition hm_wf :: "('k, 'v) hashmap \<Rightarrow> bool" where
  "hm_wf m = distinct (map fst m)"

definition hm_get :: "('k, 'v) hashmap \<Rightarrow> 'k \<Rightarrow> 'v option" where
  "hm_get m k = map_of m k"

definition hm_insert :: "'k \<Rightarrow> 'v \<Rightarrow> ('k, 'v) hashmap \<Rightarrow> ('k, 'v) hashmap" where
  "hm_insert k v m = AList.update k v m"

definition hm_keys :: "('k, 'v) hashmap \<Rightarrow> 'k list" where
  "hm_keys m = map fst m"

definition hm_contains_key :: "('k, 'v) hashmap \<Rightarrow> 'k \<Rightarrow> bool" where
  "hm_contains_key m k = (hm_get m k \<noteq> None)"

text \<open>\<open>get(k).copied().unwrap_or(d)\<close> and \<open>entry(k).or_insert(v)\<close>.\<close>

definition hm_get_or :: "('k, 'v) hashmap \<Rightarrow> 'k \<Rightarrow> 'v \<Rightarrow> 'v" where
  "hm_get_or m k d = (case hm_get m k of None \<Rightarrow> d | Some v \<Rightarrow> v)"

definition hm_or_insert :: "'k \<Rightarrow> 'v \<Rightarrow> ('k, 'v) hashmap \<Rightarrow> ('k, 'v) hashmap" where
  "hm_or_insert k v m = hm_insert k (hm_get_or m k v) m"

lemma hm_get_empty [simp]: "hm_get [] k = None"
  by (simp add: hm_get_def)

lemma hm_get_insert [simp]: "hm_get (hm_insert k v m) j = (if j = k then Some v else hm_get m j)"
  by (simp add: hm_get_def hm_insert_def update_conv')

lemma hm_get_or_insert [simp]:
  "hm_get_or (hm_insert k v m) j d = (if j = k then v else hm_get_or m j d)"
  by (simp add: hm_get_or_def)

lemma hm_or_insert_get [simp]:
  "hm_get (hm_or_insert k v m) j = (if j = k then Some (hm_get_or m k v) else hm_get m j)"
  by (simp add: hm_or_insert_def)

lemma hm_or_insert_get_or [simp]: "hm_get_or (hm_or_insert k v m) j v = hm_get_or m j v"
  by (simp add: hm_or_insert_def)

lemma hm_wf_empty [simp]: "hm_wf []"
  by (simp add: hm_wf_def)

lemma hm_wf_insert [simp]: "hm_wf m \<Longrightarrow> hm_wf (hm_insert k v m)"
  by (simp add: hm_wf_def hm_insert_def distinct_update)

lemma hm_keys_get: "k \<in> set (hm_keys m) \<longleftrightarrow> hm_get m k \<noteq> None"
  by (simp add: hm_keys_def hm_get_def map_of_eq_None_iff)

lemma hm_keys_insert: "set (hm_keys (hm_insert k v m)) = insert k (set (hm_keys m))"
  by (rule set_eqI) (simp add: hm_keys_get)

section \<open>Lists and options\<close>

definition opt_or :: "'a option \<Rightarrow> 'a option \<Rightarrow> 'a option" where
  "opt_or a b = (case a of None \<Rightarrow> b | Some _ \<Rightarrow> a)"

lemma opt_or_simps [simp]: "opt_or None b = b" "opt_or (Some x) b = Some x"
  by (simp_all add: opt_or_def)

text \<open>\<open>Iterator::find_map\<close>.\<close>

fun find_map :: "('a \<Rightarrow> 'b option) \<Rightarrow> 'a list \<Rightarrow> 'b option" where
  "find_map f [] = None"
| "find_map f (x # xs) = (case f x of None \<Rightarrow> find_map f xs | Some y \<Rightarrow> Some y)"

lemma find_map_None: "find_map f xs = None \<longleftrightarrow> (\<forall>x \<in> set xs. f x = None)"
  by (induction xs) (auto split: option.splits)

lemma find_map_Some: "find_map f xs = Some y \<Longrightarrow> \<exists>x \<in> set xs. f x = Some y"
  by (induction xs) (auto split: option.splits)

text \<open>\<open>iter().map(f).collect::<Result<_, _>>()\<close>: the first error wins.\<close>

fun map_result :: "('a \<Rightarrow> 'e + 'b) \<Rightarrow> 'a list \<Rightarrow> 'e + 'b list" where
  "map_result f [] = Inr []"
| "map_result f (x # xs) =
     (case f x of Inl e \<Rightarrow> Inl e
      | Inr y \<Rightarrow> (case map_result f xs of Inl e \<Rightarrow> Inl e | Inr ys \<Rightarrow> Inr (y # ys)))"

lemma map_result_cong [fundef_cong]:
  "xs = ys \<Longrightarrow> (\<And>x. x \<in> set ys \<Longrightarrow> f x = g x) \<Longrightarrow> map_result f xs = map_result g ys"
  by (induction ys arbitrary: xs) (auto split: sum.splits)

lemma map_result_Inr:
  "map_result f xs = Inr ys \<longleftrightarrow> list_all2 (\<lambda>x y. f x = Inr y) xs ys"
proof (induction xs arbitrary: ys)
  case (Cons x xs)
  show ?case
    by (cases "f x"; cases "map_result f xs"; cases ys) (auto simp: Cons.IH [symmetric])
qed auto

lemma map_result_Inl: "map_result f xs = Inl e \<Longrightarrow> \<exists>x \<in> set xs. f x = Inl e"
  by (induction xs) (auto split: sum.splits)

text \<open>\<open>option.map(f).transpose()\<close>.\<close>

definition opt_result :: "('a \<Rightarrow> 'e + 'b) \<Rightarrow> 'a option \<Rightarrow> 'e + 'b option" where
  "opt_result f x =
     (case x of None \<Rightarrow> Inr None
      | Some y \<Rightarrow> (case f y of Inl e \<Rightarrow> Inl e | Inr z \<Rightarrow> Inr (Some z)))"

lemma opt_result_cong [fundef_cong]:
  "x = y \<Longrightarrow> (\<And>z. z \<in> set_option y \<Longrightarrow> f z = g z) \<Longrightarrow> opt_result f x = opt_result g y"
  by (auto simp: opt_result_def split: option.splits)

lemma exists_remaining:
  "length (filter P xs) > 0 \<longleftrightarrow> (\<exists>x \<in> set xs. P x)"
  by (simp add: filter_empty_conv)

text \<open>An order of names in which every name comes after its dependencies.\<close>

definition order_respects :: "(string \<Rightarrow> string list) \<Rightarrow> string list \<Rightarrow> bool" where
  "order_respects deps names \<longleftrightarrow> (\<forall>i < length names. set (deps (names ! i)) \<subseteq> set (take i names))"

end
