(* ===== verification/Media.thy ===== *)
theory Media
  imports Prelude
begin

text \<open>
  The media data model: \<open>crates/voom-domain/src/media.rs\<close> (crop rectangles, track types,
  containers, tracks, media files and their accessors) and the file status of
  \<open>crates/voom-domain/src/transition.rs\<close>.
\<close>

section \<open>Crop rectangles\<close>

record crop_rect =
  cr_left :: u32
  cr_top :: u32
  cr_right :: u32
  cr_bottom :: u32

definition CropRect_new :: "u32 \<Rightarrow> u32 \<Rightarrow> u32 \<Rightarrow> u32 \<Rightarrow> crop_rect" where
  "CropRect_new l t r b = \<lparr>cr_left = l, cr_top = t, cr_right = r, cr_bottom = b\<rparr>"

definition CropRect_is_empty :: "crop_rect \<Rightarrow> bool" where
  "CropRect_is_empty c \<longleftrightarrow> cr_left c = 0 \<and> cr_top c = 0 \<and> cr_right c = 0 \<and> cr_bottom c = 0"

record crop_detection =
  cd_rect :: crop_rect
  cd_detected_at :: timestamp
  cd_settings_fingerprint :: "string option"

definition CropDetection_new :: "crop_rect \<Rightarrow> timestamp \<Rightarrow> crop_detection" where
  "CropDetection_new r t =
     \<lparr>cd_rect = r, cd_detected_at = t, cd_settings_fingerprint = None\<rparr>"

definition with_settings_fingerprint :: "string \<Rightarrow> crop_detection \<Rightarrow> crop_detection" where
  "with_settings_fingerprint fp c = c\<lparr>cd_settings_fingerprint := Some fp\<rparr>"

section \<open>File status\<close>

datatype file_status = Active | Missing | Quarantined

definition FileStatus_as_str :: "file_status \<Rightarrow> string" where
  "FileStatus_as_str s =
     (case s of Active \<Rightarrow> ''active'' | Missing \<Rightarrow> ''missing'' | Quarantined \<Rightarrow> ''quarantined'')"

definition FileStatus_parse :: "string \<Rightarrow> file_status option" where
  "FileStatus_parse s =
     (if s = ''active'' then Some Active
      else if s = ''missing'' then Some Missing
      else if s = ''quarantined'' then Some Quarantined
      else None)"

section \<open>Track types\<close>

datatype track_type =
    Video
  | AudioMain
  | AudioAlternate
  | AudioCommentary
  | AudioMusic
  | AudioSfx
  | AudioNonSpeech
  | SubtitleMain
  | SubtitleForced
  | SubtitleCommentary
  | Attachment

definition is_audio :: "track_type \<Rightarrow> bool" where
  "is_audio t =
     (case t of AudioMain \<Rightarrow> True | AudioAlternate \<Rightarrow> True | AudioCommentary \<Rightarrow> True
      | AudioMusic \<Rightarrow> True | AudioSfx \<Rightarrow> True | AudioNonSpeech \<Rightarrow> True | _ \<Rightarrow> False)"

definition is_subtitle :: "track_type \<Rightarrow> bool" where
  "is_subtitle t =
     (case t of SubtitleMain \<Rightarrow> True | SubtitleForced \<Rightarrow> True | SubtitleCommentary \<Rightarrow> True
      | _ \<Rightarrow> False)"

definition is_video :: "track_type \<Rightarrow> bool" where
  "is_video t = (case t of Video \<Rightarrow> True | _ \<Rightarrow> False)"

definition track_category :: "track_type \<Rightarrow> string" where
  "track_category t =
     (if is_video t then ''video''
      else if is_audio t then ''audio''
      else if is_subtitle t then ''subtitle''
      else ''attachment'')"

definition TrackType_as_str :: "track_type \<Rightarrow> string" where
  "TrackType_as_str t =
     (case t of
        Video \<Rightarrow> ''video''
      | AudioMain \<Rightarrow> ''audio_main''
      | AudioAlternate \<Rightarrow> ''audio_alternate''
      | AudioCommentary \<Rightarrow> ''audio_commentary''
      | AudioMusic \<Rightarrow> ''audio_music''
      | AudioSfx \<Rightarrow> ''audio_sfx''
      | AudioNonSpeech \<Rightarrow> ''audio_non_speech''
      | SubtitleMain \<Rightarrow> ''subtitle_main''
      | SubtitleForced \<Rightarrow> ''subtitle_forced''
      | SubtitleCommentary \<Rightarrow> ''subtitle_commentary''
      | Attachment \<Rightarrow> ''attachment'')"

text \<open>\<open>VoomError\<close> of \<open>crates/voom-domain/src/errors.rs\<close>; an I/O error and a boxed error carry
  the text they display.\<close>

datatype storage_error_kind = ConstraintViolation | NotFound | OtherStorage

datatype voom_error =
    PluginError string string
  | WasmError string
  | StorageError storage_error_kind string
  | ToolNotFound string
  | ToolExecution string string
  | ValidationError string
  | IoError string
  | OtherError string

definition VoomError_display :: "voom_error \<Rightarrow> string" where
  "VoomError_display e =
     (case e of
        PluginError p m \<Rightarrow> ''plugin error: '' @ p @ '': '' @ m
      | WasmError m \<Rightarrow> ''wasm error: '' @ m
      | StorageError k m \<Rightarrow> ''storage error: '' @ m
      | ToolNotFound t \<Rightarrow> ''tool not found: '' @ t
      | ToolExecution t m \<Rightarrow> ''tool execution error: '' @ t @ '': '' @ m
      | ValidationError m \<Rightarrow> ''validation error: '' @ m
      | IoError m \<Rightarrow> ''I/O error: '' @ m
      | OtherError m \<Rightarrow> m)"

definition TrackType_from_str :: "string \<Rightarrow> voom_error + track_type" where
  "TrackType_from_str s =
     (if s = ''video'' then Inr Video
      else if s = ''audio_main'' then Inr AudioMain
      else if s = ''audio_alternate'' then Inr AudioAlternate
      else if s = ''audio_commentary'' then Inr AudioCommentary
      else if s = ''audio_music'' then Inr AudioMusic
      else if s = ''audio_sfx'' then Inr AudioSfx
      else if s = ''audio_non_speech'' then Inr AudioNonSpeech
      else if s = ''subtitle_main'' then Inr SubtitleMain
      else if s = ''subtitle_forced'' then Inr SubtitleForced
      else if s = ''subtitle_commentary'' then Inr SubtitleCommentary
      else if s = ''attachment'' then Inr Attachment
      else Inl (ValidationError (''unknown track type: '' @ s)))"

section \<open>Containers\<close>

datatype container = Mkv | Mp4 | Avi | Webm | Flv | Wmv | Mov | Ts | Other

definition Container_from_extension :: "string \<Rightarrow> container" where
  "Container_from_extension ext =
     (let e = to_ascii_lowercase ext in
      if e \<in> set [''mkv'', ''mka'', ''mks''] then Mkv
      else if e \<in> set [''mp4'', ''m4v'', ''m4a''] then Mp4
      else if e = ''avi'' then Avi
      else if e = ''webm'' then Webm
      else if e = ''flv'' then Flv
      else if e \<in> set [''wmv'', ''wma''] then Wmv
      else if e = ''mov'' then Mov
      else if e \<in> set [''ts'', ''m2ts'', ''mts''] then Ts
      else Other)"

definition known_extensions :: "string list" where
  "known_extensions =
     [''mkv'', ''mka'', ''mks'', ''mp4'', ''m4v'', ''m4a'', ''avi'', ''webm'', ''flv'',
      ''wmv'', ''wma'', ''mov'', ''ts'', ''m2ts'', ''mts'']"

definition Container_as_str :: "container \<Rightarrow> string" where
  "Container_as_str c =
     (case c of Mkv \<Rightarrow> ''mkv'' | Mp4 \<Rightarrow> ''mp4'' | Avi \<Rightarrow> ''avi'' | Webm \<Rightarrow> ''webm''
      | Flv \<Rightarrow> ''flv'' | Wmv \<Rightarrow> ''wmv'' | Mov \<Rightarrow> ''mov'' | Ts \<Rightarrow> ''ts'' | Other \<Rightarrow> ''other'')"

definition ffmpeg_format_name :: "container \<Rightarrow> string option" where
  "ffmpeg_format_name c =
     (case c of Mkv \<Rightarrow> Some ''matroska'' | Mp4 \<Rightarrow> Some ''mp4'' | Avi \<Rightarrow> Some ''avi''
      | Webm \<Rightarrow> Some ''webm'' | Flv \<Rightarrow> Some ''flv'' | Wmv \<Rightarrow> Some ''asf'' | Mov \<Rightarrow> Some ''mov''
      | Ts \<Rightarrow> Some ''mpegts'' | Other \<Rightarrow> None)"

section \<open>JSON values\<close>

text \<open>
  \<open>serde_json::Value\<close> as the sources use it. A number is stored as an unsigned integer, a
  negative integer or a float; \<open>PartialEq\<close> on numbers distinguishes the three, \<open>as_f64\<close>
  does not. An object is the sorted association list of its B-tree map.
\<close>

datatype json_number = PosInt nat | NegInt int | Float f64

datatype json =
    JNull
  | JBool bool
  | JNumber json_number
  | JString string
  | JArray "json list"
  | JObject "(string \<times> json) list"

text \<open>
  An integer cast to a 64-bit float keeps 53 binary digits: beyond them it is rounded to the nearest
  multiple of the unit in the last place, and of two equally near ones to the even one.
\<close>

fun last_place :: "nat \<Rightarrow> nat" where
  "last_place k = (if k < 9007199254740992 then 1 else 2 * last_place (k div 2))"

declare last_place.simps [simp del]

definition nat_as_f64 :: "nat \<Rightarrow> nat" where
  "nat_as_f64 k =
     (if k < 9007199254740992 then k
      else
        (let u = last_place k; q = k div u; r = k mod u in
         (if 2 * r < u \<or> 2 * r = u \<and> even q then q else q + 1) * u))"

definition json_as_f64 :: "json_number \<Rightarrow> f64 option" where
  "json_as_f64 n =
     (case n of
        PosInt k \<Rightarrow> Some (of_nat (nat_as_f64 k))
      | NegInt i \<Rightarrow> Some (- of_nat (nat_as_f64 (nat (- i))))
      | Float x \<Rightarrow> Some x)"

definition json_get :: "json \<Rightarrow> string \<Rightarrow> json option" where
  "json_get v key = (case v of JObject kvs \<Rightarrow> map_of kvs key | _ \<Rightarrow> None)"

section \<open>External text functions\<close>

text \<open>
  Functions of third-party crates and Unicode tables that the evaluator calls. They are
  arguments of the model: the \<open>regex\<close> crate's \<open>Regex::is_match\<close> of a pattern on a text,
  \<open>str::to_lowercase\<close> with the Unicode case tables, \<open>serde_json\<close>'s printing of a value,
  and the one-digit formatting \<open>{:.1}\<close> of a float.
\<close>

record text_env =
  regex_is_match :: "string \<Rightarrow> string \<Rightarrow> bool"
  str_lowercase :: "string \<Rightarrow> string"
  json_to_string :: "json \<Rightarrow> string"
  fmt_f64_1 :: "f64 \<Rightarrow> string"

section \<open>Tracks and media files\<close>

record track =
  tr_index :: u32
  tr_track_type :: track_type
  tr_codec :: string
  tr_language :: string
  tr_title :: string
  tr_is_default :: bool
  tr_is_forced :: bool
  tr_channels :: "u32 option"
  tr_channel_layout :: "string option"
  tr_sample_rate :: "u32 option"
  tr_bit_depth :: "u32 option"
  tr_loudness_integrated_lufs :: "f64 option"
  tr_loudness_true_peak_db :: "f64 option"
  tr_loudness_range_lu :: "f64 option"
  tr_loudness_measured_at :: "timestamp option"
  tr_width :: "u32 option"
  tr_height :: "u32 option"
  tr_frame_rate :: "f64 option"
  tr_is_vfr :: bool
  tr_is_hdr :: bool
  tr_hdr_format :: "string option"
  tr_pixel_format :: "string option"
  tr_color_primaries :: "string option"
  tr_color_transfer :: "string option"
  tr_color_matrix :: "string option"
  tr_max_cll :: "u32 option"
  tr_max_fall :: "u32 option"
  tr_master_display :: "string option"
  tr_dolby_vision_profile :: "nat option"
  tr_is_animation :: "bool option"

definition Track_default :: track where
  "Track_default =
     \<lparr>tr_index = 0, tr_track_type = Video, tr_codec = '''', tr_language = ''und'',
      tr_title = '''', tr_is_default = False, tr_is_forced = False, tr_channels = None,
      tr_channel_layout = None, tr_sample_rate = None, tr_bit_depth = None,
      tr_loudness_integrated_lufs = None, tr_loudness_true_peak_db = None,
      tr_loudness_range_lu = None, tr_loudness_measured_at = None, tr_width = None,
      tr_height = None, tr_frame_rate = None, tr_is_vfr = False, tr_is_hdr = False,
      tr_hdr_format = None, tr_pixel_format = None, tr_color_primaries = None,
      tr_color_transfer = None, tr_color_matrix = None, tr_max_cll = None,
      tr_max_fall = None, tr_master_display = None, tr_dolby_vision_profile = None,
      tr_is_animation = None\<rparr>"

definition Track_new :: "u32 \<Rightarrow> track_type \<Rightarrow> string \<Rightarrow> track" where
  "Track_new i ty codec = Track_default\<lparr>tr_index := i, tr_track_type := ty, tr_codec := codec\<rparr>"

record media_file =
  mf_id :: uuid
  mf_path :: string
  mf_size :: u64
  mf_content_hash :: "string option"
  mf_expected_hash :: "string option"
  mf_status :: file_status
  mf_container :: container
  mf_duration :: f64
  mf_bitrate :: "u32 option"
  mf_crop_detection :: "crop_detection option"
  mf_tracks :: "track list"
  mf_tags :: "(string, string) hashmap"
  mf_plugin_metadata :: "(string, json) hashmap"
  mf_introspected_at :: timestamp

definition MediaFile_new :: "mint \<Rightarrow> string \<Rightarrow> media_file" where
  "MediaFile_new m path =
     \<lparr>mf_id = mint_uuid m, mf_path = path, mf_size = 0, mf_content_hash = None,
      mf_expected_hash = None, mf_status = Active, mf_container = Other, mf_duration = 0,
      mf_bitrate = None, mf_crop_detection = None, mf_tracks = [], mf_tags = [],
      mf_plugin_metadata = [], mf_introspected_at = mint_now m\<rparr>"

definition tracks_of_type :: "media_file \<Rightarrow> track_type \<Rightarrow> track list" where
  "tracks_of_type f ty = filter (\<lambda>t. tr_track_type t = ty) (mf_tracks f)"

definition video_tracks :: "media_file \<Rightarrow> track list" where
  "video_tracks f = tracks_of_type f Video"

definition audio_tracks :: "media_file \<Rightarrow> track list" where
  "audio_tracks f = filter (\<lambda>t. is_audio (tr_track_type t)) (mf_tracks f)"

definition subtitle_tracks :: "media_file \<Rightarrow> track list" where
  "subtitle_tracks f = filter (\<lambda>t. is_subtitle (tr_track_type t)) (mf_tracks f)"

definition has_animation_video :: "media_file \<Rightarrow> bool" where
  "has_animation_video f \<longleftrightarrow>
     list_ex (\<lambda>t. is_video (tr_track_type t) \<and> tr_is_animation t = Some True) (mf_tracks f)"

definition with_tracks :: "track list \<Rightarrow> media_file \<Rightarrow> media_file" where
  "with_tracks ts f = f\<lparr>mf_tracks := ts\<rparr>"

definition with_container :: "container \<Rightarrow> media_file \<Rightarrow> media_file" where
  "with_container c f = f\<lparr>mf_container := c\<rparr>"

definition with_duration :: "f64 \<Rightarrow> media_file \<Rightarrow> media_file" where
  "with_duration d f = f\<lparr>mf_duration := d\<rparr>"

definition with_tags :: "(string, string) hashmap \<Rightarrow> media_file \<Rightarrow> media_file" where
  "with_tags tags f = f\<lparr>mf_tags := tags\<rparr>"

section \<open>Lemmas\<close>

lemma is_audio_simps [simp, media_simps]:
  "is_audio AudioMain" "is_audio AudioAlternate" "is_audio AudioCommentary" "is_audio AudioMusic"
  "is_audio AudioSfx" "is_audio AudioNonSpeech" "\<not> is_audio Video" "\<not> is_audio SubtitleMain"
  "\<not> is_audio SubtitleForced" "\<not> is_audio SubtitleCommentary" "\<not> is_audio Attachment"
  by (simp_all add: is_audio_def)

lemma is_video_iff [simp, media_simps]: "is_video t \<longleftrightarrow> t = Video"
  by (cases t) (simp_all add: is_video_def)

lemma is_subtitle_simps [simp, media_simps]:
  "is_subtitle SubtitleMain" "is_subtitle SubtitleForced" "is_subtitle SubtitleCommentary"
  "\<not> is_subtitle Video" "\<not> is_subtitle AudioMain" "\<not> is_subtitle AudioAlternate"
  "\<not> is_subtitle AudioCommentary" "\<not> is_subtitle AudioMusic" "\<not> is_subtitle AudioSfx"
  "\<not> is_subtitle AudioNonSpeech" "\<not> is_subtitle Attachment"
  by (simp_all add: is_subtitle_def)

lemma audio_not_video: "is_audio t \<Longrightarrow> t \<noteq> Video"
  by (cases t) simp_all

text \<open>Every track type is in exactly one of the four categories.\<close>

lemma track_category_partition:
  "(is_video t \<and> \<not> is_audio t \<and> \<not> is_subtitle t \<and> t \<noteq> Attachment)
   \<or> (\<not> is_video t \<and> is_audio t \<and> \<not> is_subtitle t \<and> t \<noteq> Attachment)
   \<or> (\<not> is_video t \<and> \<not> is_audio t \<and> is_subtitle t \<and> t \<noteq> Attachment)
   \<or> (\<not> is_video t \<and> \<not> is_audio t \<and> \<not> is_subtitle t \<and> t = Attachment)"
  by (cases t) simp_all

lemma TrackType_parse_print: "TrackType_from_str (TrackType_as_str t) = Inr t"
  by (cases t) (simp_all add: TrackType_from_str_def TrackType_as_str_def)

lemma TrackType_print_parse: "TrackType_from_str s = Inr t \<Longrightarrow> TrackType_as_str t = s"
  by (auto simp: TrackType_from_str_def TrackType_as_str_def split: if_splits)

lemma FileStatus_parse_print: "FileStatus_parse (FileStatus_as_str s) = Some s"
  by (cases s) (simp_all add: FileStatus_parse_def FileStatus_as_str_def)

lemma FileStatus_print_parse: "FileStatus_parse x = Some s \<Longrightarrow> FileStatus_as_str s = x"
  by (auto simp: FileStatus_parse_def FileStatus_as_str_def split: if_splits)

end
