(* ===== verification/Plan.thy ===== *)
theory Plan
  imports Media
begin

text \<open>
  Plans: \<open>crates/voom-domain/src/plan.rs\<close> (operation types, typed action parameters, the
  checked construction of planned actions, transcode settings, phase outputs and results),
  \<open>crates/voom-domain/src/safeguard.rs\<close> and the verification mode of
  \<open>crates/voom-domain/src/verification.rs\<close>.
\<close>

section \<open>Verification modes\<close>

datatype verification_mode = Quick | Thorough | HashMode

definition VerificationMode_as_str :: "verification_mode \<Rightarrow> string" where
  "VerificationMode_as_str m =
     (case m of Quick \<Rightarrow> ''quick'' | Thorough \<Rightarrow> ''thorough'' | HashMode \<Rightarrow> ''hash'')"

definition VerificationMode_parse :: "string \<Rightarrow> verification_mode option" where
  "VerificationMode_parse s =
     (if s = ''quick'' then Some Quick
      else if s = ''thorough'' then Some Thorough
      else if s = ''hash'' then Some HashMode
      else None)"

section \<open>Safeguards\<close>

datatype safeguard_kind =
    AllTracksRemoved
  | NoVideoTrack
  | NoAudioTrack
  | OutputLarger
  | DiskSpaceLow
  | DurationShrunk
  | ContainerIncompatible

definition SafeguardKind_as_str :: "safeguard_kind \<Rightarrow> string" where
  "SafeguardKind_as_str k =
     (case k of
        AllTracksRemoved \<Rightarrow> ''all_tracks_removed''
      | NoVideoTrack \<Rightarrow> ''no_video_track''
      | NoAudioTrack \<Rightarrow> ''no_audio_track''
      | OutputLarger \<Rightarrow> ''output_larger''
      | DiskSpaceLow \<Rightarrow> ''disk_space_low''
      | DurationShrunk \<Rightarrow> ''duration_shrunk''
      | ContainerIncompatible \<Rightarrow> ''container_incompatible'')"

record safeguard_violation =
  sv_kind :: safeguard_kind
  sv_message :: string
  sv_phase_name :: string

definition SafeguardViolation_new :: "safeguard_kind \<Rightarrow> string \<Rightarrow> string \<Rightarrow> safeguard_violation" where
  "SafeguardViolation_new k m p = \<lparr>sv_kind = k, sv_message = m, sv_phase_name = p\<rparr>"

section \<open>Transcode settings\<close>

datatype transcode_channels = ChNamed string | ChCount u32

definition to_count :: "transcode_channels \<Rightarrow> u32 option" where
  "to_count c =
     (case c of
        ChCount n \<Rightarrow> Some n
      | ChNamed name \<Rightarrow>
          (if name = ''mono'' then Some 1
           else if name = ''stereo'' then Some 2
           else if name = ''5.1'' \<or> name = ''surround'' then Some 6
           else if name = ''7.1'' then Some 8
           else None))"

datatype sample_strategy =
    Scenes u32 string
  | Uniform u32 string
  | Full

record transcode_fallback =
  tf_crf :: u32
  tf_preset :: string

definition TranscodeFallback_new :: "u32 \<Rightarrow> string \<Rightarrow> transcode_fallback" where
  "TranscodeFallback_new c p = \<lparr>tf_crf = c, tf_preset = p\<rparr>"

record loudness_measurement =
  lm_input_i :: f64
  lm_input_tp :: f64
  lm_input_lra :: f64
  lm_input_thresh :: f64
  lm_target_offset :: f64

datatype loudness_preset =
    EbuR128
  | EbuR128Broadcast
  | StreamingMovies
  | StreamingMusic
  | Mobile
  | VoiceFocused

record loudness_normalization =
  ln_preset :: loudness_preset
  ln_target_lufs :: f64
  ln_true_peak_db :: f64
  ln_lra_max :: "f64 option"
  ln_tolerance_lufs :: f64
  ln_measured :: "loudness_measurement option"

definition default_loudness_tolerance :: f64 where
  "default_loudness_tolerance = 1 / 2"

definition LoudnessNormalization_new ::
  "loudness_preset \<Rightarrow> f64 \<Rightarrow> f64 \<Rightarrow> f64 option \<Rightarrow> loudness_normalization" where
  "LoudnessNormalization_new p t tp lra =
     \<lparr>ln_preset = p, ln_target_lufs = t, ln_true_peak_db = tp, ln_lra_max = lra,
      ln_tolerance_lufs = default_loudness_tolerance, ln_measured = None\<rparr>"

definition LoudnessPreset_parse :: "string \<Rightarrow> loudness_preset option" where
  "LoudnessPreset_parse v =
     (if v = ''ebu_r128'' then Some EbuR128
      else if v = ''ebu_r128_broadcast'' then Some EbuR128Broadcast
      else if v = ''streaming_movies'' then Some StreamingMovies
      else if v = ''streaming_music'' then Some StreamingMusic
      else if v = ''mobile'' then Some Mobile
      else if v = ''voice_focused'' then Some VoiceFocused
      else None)"

definition LoudnessPreset_defaults :: "loudness_preset \<Rightarrow> loudness_normalization" where
  "LoudnessPreset_defaults p =
     (case p of
        EbuR128 \<Rightarrow> LoudnessNormalization_new p (-23) (-1) (Some 18)
      | EbuR128Broadcast \<Rightarrow> LoudnessNormalization_new p (-23) (-1) (Some 18)
      | StreamingMovies \<Rightarrow> LoudnessNormalization_new p (-24) (-2) None
      | StreamingMusic \<Rightarrow> LoudnessNormalization_new p (-14) (-1) None
      | Mobile \<Rightarrow> LoudnessNormalization_new p (-16) (-3 / 2) None
      | VoiceFocused \<Rightarrow> LoudnessNormalization_new p (-19) (-1) (Some 7))"

definition with_measurement ::
  "loudness_measurement \<Rightarrow> loudness_normalization \<Rightarrow> loudness_normalization" where
  "with_measurement m l = l\<lparr>ln_measured := Some m\<rparr>"

definition is_within_target :: "loudness_normalization \<Rightarrow> f64 \<Rightarrow> bool" where
  "is_within_target l measured \<longleftrightarrow> \<bar>measured - ln_target_lufs l\<bar> \<le> ln_tolerance_lufs l"

record crop_settings =
  cs_sample_duration_secs :: "u32 option"
  cs_sample_count :: "u32 option"
  cs_threshold :: "nat option"
  cs_minimum_crop :: "u32 option"
  cs_preserve_bottom_pixels :: "u32 option"
  cs_aspect_lock :: "string list"

definition CropSettings_auto :: crop_settings where
  "CropSettings_auto =
     \<lparr>cs_sample_duration_secs = None, cs_sample_count = None, cs_threshold = None,
      cs_minimum_crop = None, cs_preserve_bottom_pixels = None, cs_aspect_lock = []\<rparr>"

record transcode_settings =
  ts_crf :: "u32 option"
  ts_preset :: "string option"
  ts_bitrate :: "string option"
  ts_target_vmaf :: "u32 option"
  ts_max_bitrate :: "string option"
  ts_min_bitrate :: "string option"
  ts_sample_strategy :: "sample_strategy option"
  ts_fallback :: "transcode_fallback option"
  ts_vmaf_overrides :: "(string, u32) hashmap option"
  ts_channels :: "transcode_channels option"
  ts_hw :: "string option"
  ts_hw_fallback :: "bool option"
  ts_max_resolution :: "string option"
  ts_scale_algorithm :: "string option"
  ts_hdr_mode :: "string option"
  ts_preserve_hdr :: "bool option"
  ts_tonemap :: "string option"
  ts_hdr_color_metadata :: "string option"
  ts_dolby_vision :: "string option"
  ts_tune :: "string option"
  ts_crop :: "crop_settings option"
  ts_loudness :: "loudness_normalization option"

definition TranscodeSettings_default :: transcode_settings where
  "TranscodeSettings_default =
     \<lparr>ts_crf = None, ts_preset = None, ts_bitrate = None, ts_target_vmaf = None,
      ts_max_bitrate = None, ts_min_bitrate = None, ts_sample_strategy = None,
      ts_fallback = None, ts_vmaf_overrides = None, ts_channels = None, ts_hw = None,
      ts_hw_fallback = None, ts_max_resolution = None, ts_scale_algorithm = None,
      ts_hdr_mode = None, ts_preserve_hdr = None, ts_tonemap = None,
      ts_hdr_color_metadata = None, ts_dolby_vision = None, ts_tune = None,
      ts_crop = None, ts_loudness = None\<rparr>"

definition resolve_target_vmaf :: "transcode_settings \<Rightarrow> media_file \<Rightarrow> u32 option" where
  "resolve_target_vmaf s f =
     (let target = ts_target_vmaf s;
          animation_override =
            (case ts_vmaf_overrides s of None \<Rightarrow> None | Some ov \<Rightarrow> hm_get ov ''animation'')
      in if has_animation_video f then opt_or animation_override target else target)"

definition with_crf :: "u32 option \<Rightarrow> transcode_settings \<Rightarrow> transcode_settings" where
  "with_crf v s = s\<lparr>ts_crf := v\<rparr>"

definition with_preset :: "string option \<Rightarrow> transcode_settings \<Rightarrow> transcode_settings" where
  "with_preset v s = s\<lparr>ts_preset := v\<rparr>"

definition with_bitrate :: "string option \<Rightarrow> transcode_settings \<Rightarrow> transcode_settings" where
  "with_bitrate v s = s\<lparr>ts_bitrate := v\<rparr>"

definition with_target_vmaf :: "u32 option \<Rightarrow> transcode_settings \<Rightarrow> transcode_settings" where
  "with_target_vmaf v s = s\<lparr>ts_target_vmaf := v\<rparr>"

definition with_max_bitrate :: "string option \<Rightarrow> transcode_settings \<Rightarrow> transcode_settings" where
  "with_max_bitrate v s = s\<lparr>ts_max_bitrate := v\<rparr>"

definition with_min_bitrate :: "string option \<Rightarrow> transcode_settings \<Rightarrow> transcode_settings" where
  "with_min_bitrate v s = s\<lparr>ts_min_bitrate := v\<rparr>"

definition with_sample_strategy :: "sample_strategy option \<Rightarrow> transcode_settings \<Rightarrow> transcode_settings" where
  "with_sample_strategy v s = s\<lparr>ts_sample_strategy := v\<rparr>"

definition with_fallback :: "transcode_fallback option \<Rightarrow> transcode_settings \<Rightarrow> transcode_settings" where
  "with_fallback v s = s\<lparr>ts_fallback := v\<rparr>"

definition with_vmaf_overrides :: "(string, u32) hashmap option \<Rightarrow> transcode_settings \<Rightarrow> transcode_settings" where
  "with_vmaf_overrides v s = s\<lparr>ts_vmaf_overrides := v\<rparr>"

definition with_channels :: "transcode_channels option \<Rightarrow> transcode_settings \<Rightarrow> transcode_settings" where
  "with_channels v s = s\<lparr>ts_channels := v\<rparr>"

definition with_hw :: "string option \<Rightarrow> transcode_settings \<Rightarrow> transcode_settings" where
  "with_hw v s = s\<lparr>ts_hw := v\<rparr>"

definition with_hw_fallback :: "bool option \<Rightarrow> transcode_settings \<Rightarrow> transcode_settings" where
  "with_hw_fallback v s = s\<lparr>ts_hw_fallback := v\<rparr>"

definition with_max_resolution :: "string option \<Rightarrow> transcode_settings \<Rightarrow> transcode_settings" where
  "with_max_resolution v s = s\<lparr>ts_max_resolution := v\<rparr>"

definition with_scale_algorithm :: "string option \<Rightarrow> transcode_settings \<Rightarrow> transcode_settings" where
  "with_scale_algorithm v s = s\<lparr>ts_scale_algorithm := v\<rparr>"

definition with_hdr_mode :: "string option \<Rightarrow> transcode_settings \<Rightarrow> transcode_settings" where
  "with_hdr_mode v s = s\<lparr>ts_hdr_mode := v\<rparr>"

definition with_preserve_hdr :: "bool option \<Rightarrow> transcode_settings \<Rightarrow> transcode_settings" where
  "with_preserve_hdr v s = s\<lparr>ts_preserve_hdr := v\<rparr>"

definition with_tonemap :: "string option \<Rightarrow> transcode_settings \<Rightarrow> transcode_settings" where
  "with_tonemap v s = s\<lparr>ts_tonemap := v\<rparr>"

definition with_hdr_color_metadata :: "string option \<Rightarrow> transcode_settings \<Rightarrow> transcode_settings" where
  "with_hdr_color_metadata v s = s\<lparr>ts_hdr_color_metadata := v\<rparr>"

definition with_dolby_vision :: "string option \<Rightarrow> transcode_settings \<Rightarrow> transcode_settings" where
  "with_dolby_vision v s = s\<lparr>ts_dolby_vision := v\<rparr>"

definition with_tune :: "string option \<Rightarrow> transcode_settings \<Rightarrow> transcode_settings" where
  "with_tune v s = s\<lparr>ts_tune := v\<rparr>"

definition with_crop :: "crop_settings option \<Rightarrow> transcode_settings \<Rightarrow> transcode_settings" where
  "with_crop v s = s\<lparr>ts_crop := v\<rparr>"

definition with_loudness :: "loudness_normalization option \<Rightarrow> transcode_settings \<Rightarrow> transcode_settings" where
  "with_loudness v s = s\<lparr>ts_loudness := v\<rparr>"

section \<open>Operations and their parameters\<close>

datatype operation_type =
    SetDefault
  | ClearDefault
  | SetForced
  | ClearForced
  | SetTitle
  | SetLanguage
  | RemoveTrack
  | ReorderTracks
  | ConvertContainer
  | TranscodeVideo
  | TranscodeAudio
  | SynthesizeAudio
  | SetContainerTag
  | ClearContainerTags
  | DeleteContainerTag
  | MuxSubtitle
  | VerifyMedia
  | Quarantine

definition OperationType_parse :: "string \<Rightarrow> operation_type option" where
  "OperationType_parse s =
     (if s = ''set_default'' then Some SetDefault
      else if s = ''clear_default'' then Some ClearDefault
      else if s = ''set_forced'' then Some SetForced
      else if s = ''clear_forced'' then Some ClearForced
      else if s = ''set_title'' then Some SetTitle
      else if s = ''set_language'' then Some SetLanguage
      else if s = ''remove_track'' then Some RemoveTrack
      else if s = ''reorder_tracks'' then Some ReorderTracks
      else if s = ''convert_container'' then Some ConvertContainer
      else if s = ''transcode_video'' then Some TranscodeVideo
      else if s = ''transcode_audio'' then Some TranscodeAudio
      else if s = ''synthesize_audio'' then Some SynthesizeAudio
      else if s = ''set_container_tag'' then Some SetContainerTag
      else if s = ''clear_container_tags'' then Some ClearContainerTags
      else if s = ''delete_container_tag'' then Some DeleteContainerTag
      else if s = ''mux_subtitle'' then Some MuxSubtitle
      else if s = ''verify_media'' then Some VerifyMedia
      else if s = ''quarantine'' then Some Quarantine
      else None)"

definition METADATA_OPS :: "operation_type list" where
  "METADATA_OPS =
     [SetDefault, ClearDefault, SetForced, ClearForced, SetTitle, SetLanguage,
      SetContainerTag, ClearContainerTags, DeleteContainerTag]"

definition is_metadata_op :: "operation_type \<Rightarrow> bool" where
  "is_metadata_op op = List.member METADATA_OPS op"

definition OperationType_as_str :: "operation_type \<Rightarrow> string" where
  "OperationType_as_str op =
     (case op of
        SetDefault \<Rightarrow> ''set_default''
      | ClearDefault \<Rightarrow> ''clear_default''
      | SetForced \<Rightarrow> ''set_forced''
      | ClearForced \<Rightarrow> ''clear_forced''
      | SetTitle \<Rightarrow> ''set_title''
      | SetLanguage \<Rightarrow> ''set_language''
      | RemoveTrack \<Rightarrow> ''remove_track''
      | ReorderTracks \<Rightarrow> ''reorder_tracks''
      | ConvertContainer \<Rightarrow> ''convert_container''
      | TranscodeVideo \<Rightarrow> ''transcode_video''
      | TranscodeAudio \<Rightarrow> ''transcode_audio''
      | SynthesizeAudio \<Rightarrow> ''synthesize_audio''
      | SetContainerTag \<Rightarrow> ''set_container_tag''
      | ClearContainerTags \<Rightarrow> ''clear_container_tags''
      | DeleteContainerTag \<Rightarrow> ''delete_container_tag''
      | MuxSubtitle \<Rightarrow> ''mux_subtitle''
      | VerifyMedia \<Rightarrow> ''verify_media''
      | Quarantine \<Rightarrow> ''quarantine'')"

record verify_media_params =
  vmp_mode :: verification_mode

record quarantine_params =
  qp_reason :: string

record synthesize_params =
  sp_name :: string
  sp_language :: "string option"
  sp_codec :: "string option"
  sp_text :: "string option"
  sp_bitrate :: "string option"
  sp_channels :: "u32 option"
  sp_title :: "string option"
  sp_position :: "string option"
  sp_source_track :: "u32 option"
  sp_loudness :: "loudness_normalization option"

record mux_subtitle_params =
  msp_subtitle_path :: string
  msp_language :: string
  msp_forced :: bool
  msp_title :: "string option"

datatype action_params =
    ApEmpty
  | ApContainer container
  | ApRemoveTrack string track_type
  | ApReorderTracks "string list"
  | ApLanguage string
  | ApTitle string
  | ApTranscode string transcode_settings
  | ApSynthesize synthesize_params
  | ApSetTag string string
  | ApClearTags "string list"
  | ApDeleteTag string
  | ApMuxSubtitle mux_subtitle_params
  | ApVerifyMedia verify_media_params
  | ApQuarantine quarantine_params

definition ActionParams_kind :: "action_params \<Rightarrow> string" where
  "ActionParams_kind p =
     (case p of
        ApEmpty \<Rightarrow> ''empty''
      | ApContainer _ \<Rightarrow> ''container''
      | ApRemoveTrack _ _ \<Rightarrow> ''remove_track''
      | ApReorderTracks _ \<Rightarrow> ''reorder_tracks''
      | ApLanguage _ \<Rightarrow> ''language''
      | ApTitle _ \<Rightarrow> ''title''
      | ApTranscode _ _ \<Rightarrow> ''transcode''
      | ApSynthesize _ \<Rightarrow> ''synthesize''
      | ApSetTag _ _ \<Rightarrow> ''set_tag''
      | ApClearTags _ \<Rightarrow> ''clear_tags''
      | ApDeleteTag _ \<Rightarrow> ''delete_tag''
      | ApMuxSubtitle _ \<Rightarrow> ''mux_subtitle''
      | ApVerifyMedia _ \<Rightarrow> ''verify_media''
      | ApQuarantine _ \<Rightarrow> ''quarantine'')"

text \<open>The pairs of operation and parameters that \<open>validate_action_params\<close> accepts.\<close>

definition params_match :: "operation_type \<Rightarrow> action_params \<Rightarrow> bool" where
  "params_match op ps =
     (case op of
        SetDefault \<Rightarrow> ps = ApEmpty
      | ClearDefault \<Rightarrow> ps = ApEmpty
      | SetForced \<Rightarrow> ps = ApEmpty
      | ClearForced \<Rightarrow> ps = ApEmpty
      | ConvertContainer \<Rightarrow> (case ps of ApContainer _ \<Rightarrow> True | _ \<Rightarrow> False)
      | RemoveTrack \<Rightarrow> (case ps of ApRemoveTrack _ _ \<Rightarrow> True | _ \<Rightarrow> False)
      | ReorderTracks \<Rightarrow> (case ps of ApReorderTracks _ \<Rightarrow> True | _ \<Rightarrow> False)
      | SetLanguage \<Rightarrow> (case ps of ApLanguage _ \<Rightarrow> True | _ \<Rightarrow> False)
      | SetTitle \<Rightarrow> (case ps of ApTitle _ \<Rightarrow> True | _ \<Rightarrow> False)
      | TranscodeVideo \<Rightarrow> (case ps of ApTranscode _ _ \<Rightarrow> True | _ \<Rightarrow> False)
      | TranscodeAudio \<Rightarrow> (case ps of ApTranscode _ _ \<Rightarrow> True | _ \<Rightarrow> False)
      | SynthesizeAudio \<Rightarrow> (case ps of ApSynthesize _ \<Rightarrow> True | _ \<Rightarrow> False)
      | SetContainerTag \<Rightarrow> (case ps of ApSetTag _ _ \<Rightarrow> True | _ \<Rightarrow> False)
      | ClearContainerTags \<Rightarrow> (case ps of ApClearTags _ \<Rightarrow> True | _ \<Rightarrow> False)
      | DeleteContainerTag \<Rightarrow> (case ps of ApDeleteTag _ \<Rightarrow> True | _ \<Rightarrow> False)
      | MuxSubtitle \<Rightarrow> (case ps of ApMuxSubtitle _ \<Rightarrow> True | _ \<Rightarrow> False)
      | VerifyMedia \<Rightarrow> (case ps of ApVerifyMedia _ \<Rightarrow> True | _ \<Rightarrow> False)
      | Quarantine \<Rightarrow> (case ps of ApQuarantine _ \<Rightarrow> True | _ \<Rightarrow> False))"

definition validate_action_params :: "operation_type \<Rightarrow> action_params \<Rightarrow> string + unit" where
  "validate_action_params op ps =
     (if params_match op ps then Inr ()
      else Inl (''operation '' @ OperationType_as_str op @ '' cannot use ''
                @ ActionParams_kind ps @ '' parameters''))"

record planned_action =
  pa_operation :: operation_type
  pa_track_index :: "u32 option"
  pa_parameters :: action_params
  pa_description :: string

definition PlannedAction_new_checked ::
  "operation_type \<Rightarrow> u32 option \<Rightarrow> action_params \<Rightarrow> string \<Rightarrow> string + planned_action" where
  "PlannedAction_new_checked op idx ps descr =
     (case validate_action_params op ps of
        Inl e \<Rightarrow> Inl e
      | Inr _ \<Rightarrow> Inr \<lparr>pa_operation = op, pa_track_index = idx, pa_parameters = ps,
                      pa_description = descr\<rparr>)"

definition try_file_op ::
  "operation_type \<Rightarrow> action_params \<Rightarrow> string \<Rightarrow> string + planned_action" where
  "try_file_op op ps descr = PlannedAction_new_checked op None ps descr"

definition try_track_op ::
  "operation_type \<Rightarrow> u32 \<Rightarrow> action_params \<Rightarrow> string \<Rightarrow> string + planned_action" where
  "try_track_op op idx ps descr = PlannedAction_new_checked op (Some idx) ps descr"

text \<open>\<open>file_op\<close> and \<open>track_op\<close> panic on a mismatch: \<open>Inl\<close> is the panic and its message.\<close>

definition file_op ::
  "operation_type \<Rightarrow> action_params \<Rightarrow> string \<Rightarrow> string + planned_action" where
  "file_op op ps descr =
     (case try_file_op op ps descr of
        Inl e \<Rightarrow> Inl (''invalid planned action: '' @ e) | Inr a \<Rightarrow> Inr a)"

definition track_op ::
  "operation_type \<Rightarrow> u32 \<Rightarrow> action_params \<Rightarrow> string \<Rightarrow> string + planned_action" where
  "track_op op idx ps descr =
     (case try_track_op op idx ps descr of
        Inl e \<Rightarrow> Inl (''invalid planned action: '' @ e) | Inr a \<Rightarrow> Inr a)"

section \<open>Legacy payloads\<close>

text \<open>
  \<open>ActionParamsCompat\<close>: the shape that stored action parameters are read through. The
  \<open>Transcode\<close> variant has the nested settings and, beside it, the flat sibling keys of old
  payloads; the flat keys are exactly the fields of the settings record, absent keys being
  \<open>None\<close>.
\<close>

datatype action_params_compat =
    CompatEmpty
  | CompatContainer container
  | CompatRemoveTrack string track_type
  | CompatReorderTracks "string list"
  | CompatLanguage string
  | CompatTitle string
  | CompatTranscode string transcode_settings transcode_settings
  | CompatSynthesize synthesize_params
  | CompatSetTag string string
  | CompatClearTags "string list"
  | CompatDeleteTag string
  | CompatMuxSubtitle mux_subtitle_params
  | CompatVerifyMedia verify_media_params
  | CompatQuarantine quarantine_params

definition ActionParams_from_compat :: "action_params_compat \<Rightarrow> action_params" where
  "ActionParams_from_compat c =
     (case c of
        CompatEmpty \<Rightarrow> ApEmpty
      | CompatContainer k \<Rightarrow> ApContainer k
      | CompatRemoveTrack r t \<Rightarrow> ApRemoveTrack r t
      | CompatReorderTracks o' \<Rightarrow> ApReorderTracks o'
      | CompatLanguage l \<Rightarrow> ApLanguage l
      | CompatTitle t \<Rightarrow> ApTitle t
      | CompatTranscode codec settings flat \<Rightarrow>
          ApTranscode codec (if settings = TranscodeSettings_default then flat else settings)
      | CompatSynthesize s \<Rightarrow> ApSynthesize s
      | CompatSetTag t v \<Rightarrow> ApSetTag t v
      | CompatClearTags ts \<Rightarrow> ApClearTags ts
      | CompatDeleteTag t \<Rightarrow> ApDeleteTag t
      | CompatMuxSubtitle m \<Rightarrow> ApMuxSubtitle m
      | CompatVerifyMedia v \<Rightarrow> ApVerifyMedia v
      | CompatQuarantine q \<Rightarrow> ApQuarantine q)"

section \<open>Plans\<close>

record plan =
  pl_id :: uuid
  pl_file :: media_file
  pl_policy_name :: string
  pl_phase_name :: string
  pl_actions :: "planned_action list"
  pl_warnings :: "string list"
  pl_safeguard_violations :: "safeguard_violation list"
  pl_skip_reason :: "string option"
  pl_policy_hash :: "string option"
  pl_evaluated_at :: timestamp
  pl_executor_hint :: "string option"
  pl_session_id :: "uuid option"
  pl_scan_session :: "uuid option"

definition Plan_new :: "mint \<Rightarrow> media_file \<Rightarrow> string \<Rightarrow> string \<Rightarrow> plan" where
  "Plan_new m f policy_name phase_name =
     \<lparr>pl_id = mint_uuid m, pl_file = f, pl_policy_name = policy_name,
      pl_phase_name = phase_name, pl_actions = [], pl_warnings = [],
      pl_safeguard_violations = [], pl_skip_reason = None, pl_policy_hash = None,
      pl_evaluated_at = mint_now m, pl_executor_hint = None, pl_session_id = None,
      pl_scan_session = None\<rparr>"

definition Plan_is_empty :: "plan \<Rightarrow> bool" where
  "Plan_is_empty p \<longleftrightarrow> pl_actions p = []"

definition Plan_is_skipped :: "plan \<Rightarrow> bool" where
  "Plan_is_skipped p \<longleftrightarrow> pl_skip_reason p \<noteq> None"

definition with_skip_reason :: "string \<Rightarrow> plan \<Rightarrow> plan" where
  "with_skip_reason r p = p\<lparr>pl_skip_reason := Some r, pl_actions := []\<rparr>"

definition with_warning :: "string \<Rightarrow> plan \<Rightarrow> plan" where
  "with_warning w p = p\<lparr>pl_warnings := pl_warnings p @ [w]\<rparr>"

definition with_action :: "planned_action \<Rightarrow> plan \<Rightarrow> plan" where
  "with_action a p = p\<lparr>pl_actions := pl_actions p @ [a]\<rparr>"

definition with_session_id :: "uuid \<Rightarrow> plan \<Rightarrow> plan" where
  "with_session_id s p = p\<lparr>pl_session_id := Some s\<rparr>"

definition with_scan_session :: "uuid \<Rightarrow> plan \<Rightarrow> plan" where
  "with_scan_session s p = p\<lparr>pl_scan_session := Some s\<rparr>"

section \<open>Phase outputs and results\<close>

record phase_output =
  po_completed :: bool
  po_modified :: bool
  po_outcome :: "string option"
  po_error_count :: u32
  po_warning_count :: u32

definition PhaseOutput_new :: phase_output where
  "PhaseOutput_new =
     \<lparr>po_completed = False, po_modified = False, po_outcome = None, po_error_count = 0,
      po_warning_count = 0\<rparr>"

definition with_completed :: "bool \<Rightarrow> phase_output \<Rightarrow> phase_output" where
  "with_completed b q = q\<lparr>po_completed := b\<rparr>"

definition with_modified :: "bool \<Rightarrow> phase_output \<Rightarrow> phase_output" where
  "with_modified b q = q\<lparr>po_modified := b\<rparr>"

definition with_outcome :: "string \<Rightarrow> phase_output \<Rightarrow> phase_output" where
  "with_outcome s q = q\<lparr>po_outcome := Some s\<rparr>"

definition with_error_count :: "u32 \<Rightarrow> phase_output \<Rightarrow> phase_output" where
  "with_error_count n q = q\<lparr>po_error_count := n\<rparr>"

definition with_warning_count :: "u32 \<Rightarrow> phase_output \<Rightarrow> phase_output" where
  "with_warning_count n q = q\<lparr>po_warning_count := n\<rparr>"

definition PHASE_OUTPUT_FIELDS :: "string list" where
  "PHASE_OUTPUT_FIELDS =
     [''completed'', ''modified'', ''outcome'', ''error_count'', ''warning_count'']"

datatype phase_outcome = Pending | Completed | Skipped | Failed

record execution_detail =
  ed_command :: string
  ed_exit_code :: "int option"
  ed_stderr_tail :: string
  ed_duration_ms :: u64

record action_result =
  ar_operation :: operation_type
  ar_success :: bool
  ar_description :: string
  ar_error :: "string option"
  ar_execution_detail :: "execution_detail option"

definition ActionResult_success :: "operation_type \<Rightarrow> string \<Rightarrow> action_result" where
  "ActionResult_success op d =
     \<lparr>ar_operation = op, ar_success = True, ar_description = d, ar_error = None,
      ar_execution_detail = None\<rparr>"

definition ActionResult_failure :: "operation_type \<Rightarrow> string \<Rightarrow> string \<Rightarrow> action_result" where
  "ActionResult_failure op d e =
     \<lparr>ar_operation = op, ar_success = False, ar_description = d, ar_error = Some e,
      ar_execution_detail = None\<rparr>"

definition with_execution_detail :: "execution_detail \<Rightarrow> action_result \<Rightarrow> action_result" where
  "with_execution_detail d r = r\<lparr>ar_execution_detail := Some d\<rparr>"

record phase_result =
  pr_phase_name :: string
  pr_outcome :: phase_outcome
  pr_actions :: "action_result list"
  pr_file_modified :: bool
  pr_skip_reason :: "string option"
  pr_duration_ms :: u64
  pr_temp_path :: "string option"

definition PhaseResult_new :: "string \<Rightarrow> phase_outcome \<Rightarrow> phase_result" where
  "PhaseResult_new n out =
     \<lparr>pr_phase_name = n, pr_outcome = out, pr_actions = [], pr_file_modified = False,
      pr_skip_reason = None, pr_duration_ms = 0, pr_temp_path = None\<rparr>"

section \<open>Lemmas\<close>

lemma OperationType_parse_print: "OperationType_parse (OperationType_as_str op) = Some op"
  by (cases op) (simp_all add: OperationType_parse_def OperationType_as_str_def)

lemma OperationType_print_parse: "OperationType_parse s = Some op \<Longrightarrow> OperationType_as_str op = s"
  by (auto simp: OperationType_parse_def OperationType_as_str_def split: if_splits)

lemma VerificationMode_parse_print: "VerificationMode_parse (VerificationMode_as_str m) = Some m"
  by (cases m) (simp_all add: VerificationMode_parse_def VerificationMode_as_str_def)

lemma PlannedAction_new_checked_eq:
  "PlannedAction_new_checked op idx ps descr =
     (if params_match op ps
      then Inr \<lparr>pa_operation = op, pa_track_index = idx, pa_parameters = ps, pa_description = descr\<rparr>
      else Inl (''operation '' @ OperationType_as_str op @ '' cannot use ''
                @ ActionParams_kind ps @ '' parameters''))"
  by (simp add: PlannedAction_new_checked_def validate_action_params_def)

lemma file_op_ok [simp]:
  "params_match op ps \<Longrightarrow>
   file_op op ps d =
     Inr \<lparr>pa_operation = op, pa_track_index = None, pa_parameters = ps, pa_description = d\<rparr>"
  by (simp add: file_op_def try_file_op_def PlannedAction_new_checked_eq)

lemma track_op_ok [simp]:
  "params_match op ps \<Longrightarrow>
   track_op op i ps d =
     Inr \<lparr>pa_operation = op, pa_track_index = Some i, pa_parameters = ps, pa_description = d\<rparr>"
  by (simp add: track_op_def try_track_op_def PlannedAction_new_checked_eq)

lemma params_match_simps [simp]:
  "params_match SetDefault ApEmpty" "params_match ClearDefault ApEmpty"
  "params_match SetForced ApEmpty" "params_match ClearForced ApEmpty"
  "params_match ConvertContainer (ApContainer c)" "params_match RemoveTrack (ApRemoveTrack r t)"
  "params_match ReorderTracks (ApReorderTracks ord)" "params_match SetLanguage (ApLanguage l)"
  "params_match SetTitle (ApTitle ti)" "params_match TranscodeVideo (ApTranscode cd st)"
  "params_match TranscodeAudio (ApTranscode cd st)" "params_match SynthesizeAudio (ApSynthesize sy)"
  "params_match SetContainerTag (ApSetTag a b)" "params_match ClearContainerTags (ApClearTags tgs)"
  "params_match DeleteContainerTag (ApDeleteTag a)" "params_match MuxSubtitle (ApMuxSubtitle mx)"
  "params_match VerifyMedia (ApVerifyMedia v)" "params_match Quarantine (ApQuarantine q)"
  by (simp_all add: params_match_def)

end
