(* ===== verification/Compiled.thy ===== *)
theory Compiled
  imports Plan
begin

text \<open>
  The compiled policy representation, \<open>crates/voom-domain/src/compiled.rs\<close>: what the DSL
  compiler produces and the policy evaluator reads. A compiled regular expression is kept by
  its pattern; matching is the argument \<open>regex_is_match\<close> of the evaluator.
\<close>

section \<open>Strategies, triggers, targets\<close>

datatype error_strategy = Continue | Abort | Skip | QuarantineFile

datatype phase_composition_kind = KindLocal | KindInherited | KindExtended | KindOverridden

datatype run_if_trigger = Modified | CompletedTrigger

datatype track_target = TgtVideo | TgtAudio | TgtSubtitle | TgtAttachment | TgtAny

datatype default_strategy = FirstPerLanguage | NoDefaults | First | AllDefaults

datatype rules_mode = RulesFirst | RulesAll

datatype compare_op = Eq | Ne | Lt | Le | Gt | Ge | In

record compiled_regex =
  rx_pattern :: string

section \<open>Filters and conditions\<close>

datatype compiled_filter =
    FLangIn "string list"
  | FLangCompare compare_op string
  | FLangField compare_op "string list"
  | FCodecIn "string list"
  | FCodecCompare compare_op string
  | FCodecField compare_op "string list"
  | FChannels compare_op f64
  | FCommentary
  | FForced
  | FDefault
  | FFont
  | FTitleContains string
  | FTitleMatches compiled_regex
  | FAnd "compiled_filter list"
  | FOr "compiled_filter list"
  | FNot compiled_filter

datatype compiled_condition =
    CExists track_target "compiled_filter option"
  | CCount track_target "compiled_filter option" compare_op f64
  | CFieldCompare "string list" compare_op json
  | CFieldExists "string list"
  | CAudioIsMultiLanguage
  | CIsDubbed
  | CIsOriginal
  | CAnd "compiled_condition list"
  | COr "compiled_condition list"
  | CNot compiled_condition

datatype value_or_field = VofValue json | VofField "string list"

section \<open>Actions, conditionals, rules\<close>

datatype compiled_action =
    AKeep track_target "compiled_filter option"
  | ARemove track_target "compiled_filter option"
  | ASkip "string option"
  | AWarn string
  | AFail string
  | ASetDefault track_target "compiled_filter option"
  | ASetForced track_target "compiled_filter option"
  | ASetLanguage track_target "compiled_filter option" value_or_field
  | ASetTag string value_or_field

record compiled_conditional =
  cc_condition :: compiled_condition
  cc_then_actions :: "compiled_action list"
  cc_else_actions :: "compiled_action list"

record compiled_rule =
  cru_name :: string
  cru_conditional :: compiled_conditional

record compiled_default =
  cdf_target :: track_target
  cdf_strategy :: default_strategy

record clear_actions_settings =
  cas_clear_all_default :: bool
  cas_clear_all_forced :: bool
  cas_clear_all_titles :: bool

record compiled_transcode_settings =
  cts_preserve :: "string list"
  cts_crf :: "u32 option"
  cts_preset :: "string option"
  cts_bitrate :: "string option"
  cts_target_vmaf :: "u32 option"
  cts_max_bitrate :: "string option"
  cts_min_bitrate :: "string option"
  cts_sample_strategy :: "sample_strategy option"
  cts_fallback :: "transcode_fallback option"
  cts_vmaf_overrides :: "(string, u32) hashmap option"
  cts_channels :: "transcode_channels option"
  cts_hw :: "string option"
  cts_hw_fallback :: "bool option"
  cts_max_resolution :: "string option"
  cts_scale_algorithm :: "string option"
  cts_hdr_mode :: "string option"
  cts_preserve_hdr :: "bool option"
  cts_tonemap :: "string option"
  cts_hdr_color_metadata :: "string option"
  cts_dolby_vision :: "string option"
  cts_tune :: "string option"
  cts_crop :: "crop_settings option"
  cts_loudness :: "loudness_normalization option"

definition CompiledTranscodeSettings_new ::
  "string list \<Rightarrow> u32 option \<Rightarrow> string option \<Rightarrow> string option \<Rightarrow> transcode_channels option \<Rightarrow>
   compiled_transcode_settings" where
  "CompiledTranscodeSettings_new preserve crf preset bitrate channels =
     \<lparr>cts_preserve = preserve, cts_crf = crf, cts_preset = preset, cts_bitrate = bitrate,
      cts_target_vmaf = None, cts_max_bitrate = None, cts_min_bitrate = None,
      cts_sample_strategy = None, cts_fallback = None, cts_vmaf_overrides = None,
      cts_channels = channels, cts_hw = None, cts_hw_fallback = None,
      cts_max_resolution = None, cts_scale_algorithm = None, cts_hdr_mode = None,
      cts_preserve_hdr = None, cts_tonemap = None, cts_hdr_color_metadata = None,
      cts_dolby_vision = None, cts_tune = None, cts_crop = None, cts_loudness = None\<rparr>"

datatype synth_position = PosNamed string | PosIndex u32

datatype synth_language = Inherit | Fixed string

record compiled_synthesize =
  csy_name :: string
  csy_codec :: "string option"
  csy_channels :: "transcode_channels option"
  csy_source :: "compiled_filter option"
  csy_bitrate :: "string option"
  csy_skip_if_exists :: "compiled_filter option"
  csy_create_if :: "compiled_condition option"
  csy_title :: "string option"
  csy_language :: "synth_language option"
  csy_position :: "synth_position option"
  csy_loudness :: "loudness_normalization option"

definition CompiledSynthesize_new :: "string \<Rightarrow> compiled_synthesize" where
  "CompiledSynthesize_new name =
     \<lparr>csy_name = name, csy_codec = None, csy_channels = None, csy_source = None,
      csy_bitrate = None, csy_skip_if_exists = None, csy_create_if = None, csy_title = None,
      csy_language = None, csy_position = None, csy_loudness = None\<rparr>"

section \<open>Operations, phases, policies\<close>

datatype compiled_operation =
    OpSetContainer container
  | OpKeep track_target "compiled_filter option"
  | OpRemove track_target "compiled_filter option"
  | OpReorderTracks "string list"
  | OpSetDefaults "compiled_default list"
  | OpClearActions track_target clear_actions_settings
  | OpTranscode track_target string compiled_transcode_settings
  | OpNormalizeAudio track_target "compiled_filter option" loudness_normalization
  | OpSynthesize compiled_synthesize
  | OpClearTags
  | OpSetTag string value_or_field
  | OpDeleteTag string
  | OpConditional compiled_conditional
  | OpRules rules_mode "compiled_rule list"
  | OpVerify verification_mode

record compiled_run_if =
  cri_phase :: string
  cri_trigger :: run_if_trigger

record compiled_phase_composition =
  cpc_kind :: phase_composition_kind
  cpc_source :: "string option"
  cpc_added_operations :: usize

record compiled_phase =
  cp_name :: string
  cp_depends_on :: "string list"
  cp_skip_when :: "compiled_condition option"
  cp_run_if :: "compiled_run_if option"
  cp_on_error :: error_strategy
  cp_composition :: compiled_phase_composition
  cp_operations :: "compiled_operation list"

record compiled_metadata =
  cm_version :: "string option"
  cm_author :: "string option"
  cm_description :: "string option"
  cm_requires_voom :: "string option"
  cm_requires_tools :: "string list"
  cm_test_fixtures :: "string list"
  cm_extends_chain :: "string list"

record compiled_config =
  ccf_audio_languages :: "string list"
  ccf_subtitle_languages :: "string list"
  ccf_on_error :: error_strategy
  ccf_commentary_patterns :: "string list"
  ccf_keep_backups :: bool

record compiled_policy =
  pol_name :: string
  pol_metadata :: compiled_metadata
  pol_config :: compiled_config
  pol_phases :: "compiled_phase list"
  pol_phase_order :: "string list"
  pol_source_hash :: string

text \<open>The size of a filter or condition bounds the recursion of the functions on it.\<close>

lemma filter_size_list: "f \<in> set fs \<Longrightarrow> size f < Suc (size_list size fs)"
  by (induction fs) auto

end
