(* ===== verification/Capability.thy ===== *)
theory Capability
  imports Plan
begin

text \<open>
  Executor capabilities, \<open>crates/voom-domain/src/capability_map.rs\<close>: what executors
  announced at start-up, with the queries that the evaluator makes. The announcement is the
  \<open>ExecutorCapabilitiesEvent\<close> of \<open>crates/voom-domain/src/events.rs\<close>.
\<close>

record codec_capabilities =
  cdc_decoders :: "string list"
  cdc_encoders :: "string list"
  cdc_hw_decoders :: "string list"
  cdc_hw_encoders :: "string list"

record parallel_limit =
  epl_resource :: string
  epl_max_parallel :: usize

record executor_capabilities =
  ec_plugin_name :: string
  ec_codecs :: codec_capabilities
  ec_formats :: "string list"
  ec_hw_accels :: "string list"
  ec_parallel_limits :: "parallel_limit list"

record capability_map =
  cmap_executors :: "(string, executor_capabilities) hashmap"

definition CapabilityMap_new :: capability_map where
  "CapabilityMap_new = \<lparr>cmap_executors = []\<rparr>"

definition CapabilityMap_register :: "executor_capabilities \<Rightarrow> capability_map \<Rightarrow> capability_map" where
  "CapabilityMap_register ev m =
     m\<lparr>cmap_executors := hm_insert (ec_plugin_name ev) ev (cmap_executors m)\<rparr>"

definition has_encoder :: "capability_map \<Rightarrow> string \<Rightarrow> bool" where
  "has_encoder m codec \<longleftrightarrow>
     list_ex (\<lambda>(_, e). List.member (cdc_encoders (ec_codecs e)) codec) (cmap_executors m)"

definition has_format :: "capability_map \<Rightarrow> string \<Rightarrow> bool" where
  "has_format m fmt \<longleftrightarrow> list_ex (\<lambda>(_, e). List.member (ec_formats e) fmt) (cmap_executors m)"

definition encoders_for :: "capability_map \<Rightarrow> string \<Rightarrow> string list" where
  "encoders_for m codec =
     map fst (filter (\<lambda>(_, e). List.member (cdc_encoders (ec_codecs e)) codec) (cmap_executors m))"

definition CapabilityMap_is_empty :: "capability_map \<Rightarrow> bool" where
  "CapabilityMap_is_empty m \<longleftrightarrow> cmap_executors m = []"

definition executor_capabilities_of :: "capability_map \<Rightarrow> string \<Rightarrow> executor_capabilities option" where
  "executor_capabilities_of m name = hm_get (cmap_executors m) name"

definition parallel_limit_for :: "capability_map \<Rightarrow> string \<Rightarrow> usize option" where
  "parallel_limit_for m resource =
     (let ls = map epl_max_parallel
                 (filter (\<lambda>l. epl_resource l = resource \<and> epl_max_parallel l > 0)
                   (concat (map (\<lambda>(_, e). ec_parallel_limits e) (cmap_executors m))))
      in if ls = [] then None else Some (foldl min (hd ls) (tl ls)))"

definition normalize_hwaccel :: "string \<Rightarrow> string" where
  "normalize_hwaccel raw =
     (let lower = to_ascii_lowercase raw in
      if lower = ''cuda'' \<or> lower = ''nvdec'' \<or> lower = ''nvenc'' then ''nvenc''
      else if lower = ''qsv'' then ''qsv''
      else if lower = ''vaapi'' then ''vaapi''
      else if lower = ''videotoolbox'' then ''videotoolbox''
      else ''unknown'')"

text \<open>The two nested loops of \<open>hw_accels\<close>, with the \<open>seen\<close> set as the collected result.\<close>

fun hw_accels_loop :: "string list \<Rightarrow> string list \<Rightarrow> string list" where
  "hw_accels_loop acc [] = acc"
| "hw_accels_loop acc (raw # raws) =
     (let name = normalize_hwaccel raw in
      hw_accels_loop (if List.member acc name then acc else acc @ [name]) raws)"

definition hw_accels :: "capability_map \<Rightarrow> string list" where
  "hw_accels m = hw_accels_loop [] (concat (map (\<lambda>(_, e). ec_hw_accels e) (cmap_executors m)))"

definition has_hwaccel :: "capability_map \<Rightarrow> string \<Rightarrow> bool" where
  "has_hwaccel m backend \<longleftrightarrow> List.member (hw_accels m) backend"

definition hwaccel_priority :: "string list" where
  "hwaccel_priority = [''nvenc'', ''qsv'', ''vaapi'', ''videotoolbox'']"

definition best_hwaccel :: "capability_map \<Rightarrow> string" where
  "best_hwaccel m =
     (case find (\<lambda>c. List.member (hw_accels m) c) hwaccel_priority of
        Some c \<Rightarrow> c | None \<Rightarrow> ''none'')"

section \<open>Lemmas\<close>

lemma hw_accels_loop_set: "set (hw_accels_loop acc raws) = set acc \<union> normalize_hwaccel ` set raws"
  by (induction raws arbitrary: acc) (auto simp: Let_def)

lemma hw_accels_loop_distinct: "distinct acc \<Longrightarrow> distinct (hw_accels_loop acc raws)"
  by (induction raws arbitrary: acc) (auto simp: Let_def)

lemma hw_accels_distinct: "distinct (hw_accels m)"
  by (simp add: hw_accels_def hw_accels_loop_distinct)

lemma hw_accels_set:
  "set (hw_accels m) = (\<Union>(_, e) \<in> set (cmap_executors m). normalize_hwaccel ` set (ec_hw_accels e))"
  by (auto simp: hw_accels_def hw_accels_loop_set)

lemma best_hwaccel_cong:
  assumes "set (hw_accels m) = set (hw_accels m')"
  shows "best_hwaccel m = best_hwaccel m'"
  using assms by (simp add: best_hwaccel_def)

lemma encoders_for_nonempty: "encoders_for m c \<noteq> [] \<longleftrightarrow> has_encoder m c"
  by (auto simp: encoders_for_def has_encoder_def filter_empty_conv list_ex_iff)

lemma encoders_for_distinct: "hm_wf (cmap_executors m) \<Longrightarrow> distinct (encoders_for m c)"
  by (simp add: encoders_for_def hm_wf_def distinct_map_filter)

lemma foldl_min_le: "foldl min (a :: nat) xs \<le> a \<and> (\<forall>x \<in> set xs. foldl min a xs \<le> x)"
proof (induction xs arbitrary: a)
  case (Cons x xs)
  from Cons [of "min a x"] show ?case by auto
qed simp

lemma foldl_min_in: "foldl min (a :: nat) xs \<in> set (a # xs)"
proof (induction xs arbitrary: a)
  case (Cons x xs)
  from Cons [of "min a x"] show ?case by (auto simp: min_def split: if_splits)
qed simp

end
