(* ===== verification/Condition.thy ===== *)
theory Condition
  imports Compiled Capability
begin

text \<open>
  Field resolution, track filters and conditions:
  \<open>plugins/policy-evaluator/src/condition.rs\<close> and \<open>plugins/policy-evaluator/src/filter.rs\<close>.
  The functions take the environment \<open>E\<close> of external text functions as their first argument.
\<close>

section \<open>Evaluation context\<close>

record eval_context =
  ctx_capabilities :: "capability_map option"
  ctx_phase_output_lookup :: "(string \<Rightarrow> phase_output option) option"

definition EvalContext_empty :: eval_context where
  "EvalContext_empty = \<lparr>ctx_capabilities = None, ctx_phase_output_lookup = None\<rparr>"

definition EvalContext_with_capabilities :: "capability_map option \<Rightarrow> eval_context" where
  "EvalContext_with_capabilities c = \<lparr>ctx_capabilities = c, ctx_phase_output_lookup = None\<rparr>"

definition EvalContext_with_phase_outputs :: "(string \<Rightarrow> phase_output option) \<Rightarrow> eval_context" where
  "EvalContext_with_phase_outputs l =
     \<lparr>ctx_capabilities = None, ctx_phase_output_lookup = Some l\<rparr>"

section \<open>Field resolution\<close>

definition resolve_phase_field ::
  "eval_context \<Rightarrow> string \<Rightarrow> string list \<Rightarrow> json option" where
  "resolve_phase_field ctx phase path =
     (case path of
        [field] \<Rightarrow>
          (case ctx_phase_output_lookup ctx of
             None \<Rightarrow> None
           | Some lookup \<Rightarrow>
               (case lookup phase of
                  None \<Rightarrow> None
                | Some out \<Rightarrow>
                    (if field = ''outcome'' then map_option JString (po_outcome out)
                     else if field = ''completed'' then Some (JBool (po_completed out))
                     else if field = ''modified'' then Some (JBool (po_modified out))
                     else if field = ''error_count'' then
                       Some (JNumber (PosInt (po_error_count out)))
                     else if field = ''warning_count'' then
                       Some (JNumber (PosInt (po_warning_count out)))
                     else None)))
      | _ \<Rightarrow> None)"

definition resolve_system_field :: "string list \<Rightarrow> eval_context \<Rightarrow> json option" where
  "resolve_system_field path ctx =
     (case path of
        [] \<Rightarrow> None
      | field # _ \<Rightarrow>
          (case ctx_capabilities ctx of
             None \<Rightarrow> None
           | Some caps \<Rightarrow>
               (if field = ''hwaccel'' then Some (JString (best_hwaccel caps))
                else if field = ''has_hwaccel'' then Some (JBool (best_hwaccel caps \<noteq> ''none''))
                else if field = ''hwaccels'' then Some (JArray (map JString (hw_accels caps)))
                else None)))"

definition resolve_track_field :: "track \<Rightarrow> string list \<Rightarrow> json option" where
  "resolve_track_field t path =
     (case path of
        [] \<Rightarrow> None
      | field # _ \<Rightarrow>
          (if field = ''codec'' then Some (JString (tr_codec t))
           else if field = ''language'' \<or> field = ''lang'' then Some (JString (tr_language t))
           else if field = ''title'' then Some (JString (tr_title t))
           else if field = ''channels'' then map_option (\<lambda>c. JNumber (PosInt c)) (tr_channels t)
           else if field = ''width'' then map_option (\<lambda>c. JNumber (PosInt c)) (tr_width t)
           else if field = ''height'' then map_option (\<lambda>c. JNumber (PosInt c)) (tr_height t)
           else if field = ''frame_rate'' then map_option (\<lambda>x. JNumber (Float x)) (tr_frame_rate t)
           else if field = ''is_default'' then Some (JBool (tr_is_default t))
           else if field = ''is_forced'' then Some (JBool (tr_is_forced t))
           else if field = ''is_hdr'' then Some (JBool (tr_is_hdr t))
           else if field = ''is_vfr'' then Some (JBool (tr_is_vfr t))
           else if field = ''hdr_format'' then map_option JString (tr_hdr_format t)
           else None))"

definition resolve_video_field :: "media_file \<Rightarrow> string list \<Rightarrow> json option" where
  "resolve_video_field f path =
     (case video_tracks f of [] \<Rightarrow> None | v # _ \<Rightarrow> resolve_track_field v path)"

definition resolve_audio_field :: "media_file \<Rightarrow> string list \<Rightarrow> json option" where
  "resolve_audio_field f path =
     (case audio_tracks f of [] \<Rightarrow> None | a # _ \<Rightarrow> resolve_track_field a path)"

fun json_walk :: "json \<Rightarrow> string list \<Rightarrow> json option" where
  "json_walk cur [] = Some cur"
| "json_walk cur (key # keys) =
     (case json_get cur key of None \<Rightarrow> None | Some v \<Rightarrow> json_walk v keys)"

definition resolve_plugin_field :: "media_file \<Rightarrow> string list \<Rightarrow> json option" where
  "resolve_plugin_field f path =
     (case path of
        [] \<Rightarrow> None
      | p # rest \<Rightarrow>
          (case hm_get (mf_plugin_metadata f) p of
             None \<Rightarrow> None | Some data \<Rightarrow> json_walk data rest))"

definition audio_lang_count :: "media_file \<Rightarrow> usize" where
  "audio_lang_count f =
     length (remdups (filter (\<lambda>l. l \<noteq> ''und'') (map tr_language (audio_tracks f))))"

definition resolve_file_field :: "media_file \<Rightarrow> string list \<Rightarrow> json option" where
  "resolve_file_field f path =
     (case path of
        [] \<Rightarrow> None
      | field # _ \<Rightarrow>
          (if field = ''container'' then Some (JString (Container_as_str (mf_container f)))
           else if field = ''size'' then Some (JNumber (PosInt (mf_size f)))
           else if field = ''duration'' then Some (JNumber (Float (mf_duration f)))
           else if field = ''path'' then Some (JString (mf_path f))
           else if field = ''filename'' then map_option JString (path_file_name (mf_path f))
           else map_option JString (hm_get (mf_tags f) field)))"

definition resolve_field :: "media_file \<Rightarrow> string list \<Rightarrow> eval_context \<Rightarrow> json option" where
  "resolve_field f path ctx =
     (case path of
        [] \<Rightarrow> None
      | seg # rest \<Rightarrow>
          (if seg = ''video'' then resolve_video_field f rest
           else if seg = ''audio'' then resolve_audio_field f rest
           else if seg = ''plugin'' then resolve_plugin_field f rest
           else if seg = ''file'' then resolve_file_field f rest
           else if seg = ''system'' then resolve_system_field rest ctx
           else resolve_phase_field ctx seg rest))"

section \<open>Comparisons\<close>

definition f64_EPSILON :: f64 where
  "f64_EPSILON = 1 / 2 ^ 52"

text \<open>
  The \<open>In\<close> arm is a \<open>debug_assert!(false)\<close> followed by \<open>false\<close>; this is the value of a
  release build.
\<close>

definition compare_f64 :: "f64 \<Rightarrow> compare_op \<Rightarrow> f64 \<Rightarrow> bool" where
  "compare_f64 l op r =
     (case op of
        Eq \<Rightarrow> \<bar>l - r\<bar> < f64_EPSILON
      | Ne \<Rightarrow> \<bar>l - r\<bar> \<ge> f64_EPSILON
      | Lt \<Rightarrow> l < r
      | Le \<Rightarrow> l \<le> r
      | Gt \<Rightarrow> l > r
      | Ge \<Rightarrow> l \<ge> r
      | In \<Rightarrow> False)"

definition compare_string :: "string \<Rightarrow> compare_op \<Rightarrow> string \<Rightarrow> bool" where
  "compare_string l op r = (case op of Eq \<Rightarrow> l = r | Ne \<Rightarrow> l \<noteq> r | _ \<Rightarrow> False)"

definition compare_json :: "json \<Rightarrow> compare_op \<Rightarrow> json \<Rightarrow> bool" where
  "compare_json left op right =
     (case (left, right) of
        (JNumber l, JNumber r) \<Rightarrow>
          (case (json_as_f64 l, json_as_f64 r) of
             (Some lf, Some rf) \<Rightarrow> compare_f64 lf op rf
           | _ \<Rightarrow> False)
      | (JString l, JString r) \<Rightarrow>
          (case op of Eq \<Rightarrow> l = r | Ne \<Rightarrow> l \<noteq> r | Lt \<Rightarrow> l < r | Le \<Rightarrow> l \<le> r | Gt \<Rightarrow> l > r
           | Ge \<Rightarrow> l \<ge> r | In \<Rightarrow> False)
      | (JBool l, JBool r) \<Rightarrow> (case op of Eq \<Rightarrow> l = r | Ne \<Rightarrow> l \<noteq> r | _ \<Rightarrow> False)
      | _ \<Rightarrow> False)"

definition json_values_equal :: "json \<Rightarrow> json \<Rightarrow> bool" where
  "json_values_equal a b =
     (case (a, b) of
        (JNumber l, JNumber r) \<Rightarrow> json_as_f64 l = json_as_f64 r
      | _ \<Rightarrow> a = b)"

definition evaluate_field_compare ::
  "media_file \<Rightarrow> string list \<Rightarrow> compare_op \<Rightarrow> json \<Rightarrow> eval_context \<Rightarrow> bool" where
  "evaluate_field_compare f path op v ctx =
     (case resolve_field f path ctx of
        None \<Rightarrow> False
      | Some resolved \<Rightarrow>
          (if op = In then
             (case v of JArray xs \<Rightarrow> list_ex (json_values_equal resolved) xs | _ \<Rightarrow> False)
           else compare_json resolved op v))"

definition resolve_value_or_field ::
  "text_env \<Rightarrow> value_or_field \<Rightarrow> media_file \<Rightarrow> eval_context \<Rightarrow> string option" where
  "resolve_value_or_field E vof f ctx =
     (case vof of
        VofValue v \<Rightarrow> (case v of JString s \<Rightarrow> Some s | other \<Rightarrow> Some (json_to_string E other))
      | VofField path \<Rightarrow>
          map_option (\<lambda>v. case v of JString s \<Rightarrow> s | other \<Rightarrow> json_to_string E other)
            (resolve_field f path ctx))"

section \<open>Track filters\<close>

definition is_commentary_track :: "track \<Rightarrow> bool" where
  "is_commentary_track t \<longleftrightarrow>
     tr_track_type t = AudioCommentary \<or> tr_track_type t = SubtitleCommentary"

definition is_font_attachment :: "text_env \<Rightarrow> track \<Rightarrow> bool" where
  "is_font_attachment E t =
     (if tr_track_type t \<noteq> Attachment then False
      else
        (let codec_lower = str_lowercase E (tr_codec t);
             title_lower = str_lowercase E (tr_title t)
         in str_contains codec_lower ''font''
            \<or> str_contains codec_lower ''ttf''
            \<or> str_contains codec_lower ''otf''
            \<or> str_ends_with title_lower ''.ttf''
            \<or> str_ends_with title_lower ''.otf''
            \<or> str_ends_with title_lower ''.woff''))"

definition is_commentary_by_pattern :: "text_env \<Rightarrow> track \<Rightarrow> string list \<Rightarrow> bool" where
  "is_commentary_by_pattern E t patterns =
     (if patterns = [] then is_commentary_track t
      else
        (let title_lower = str_lowercase E (tr_title t) in
         list_ex (\<lambda>p. str_contains title_lower (str_lowercase E p)) patterns
         \<or> is_commentary_track t))"

definition resolve_field_str ::
  "(media_file \<times> eval_context) option \<Rightarrow> string list \<Rightarrow> string option" where
  "resolve_field_str ctx path =
     (case ctx of
        None \<Rightarrow> None
      | Some (f, ec) \<Rightarrow>
          (case resolve_field f path ec of Some (JString s) \<Rightarrow> Some s | _ \<Rightarrow> None))"

fun track_matches_impl ::
  "text_env \<Rightarrow> track \<Rightarrow> compiled_filter \<Rightarrow> (media_file \<times> eval_context) option \<Rightarrow> bool" where
  "track_matches_impl E t (FLangIn langs) ctx = list_ex (\<lambda>l. l = tr_language t) langs"
| "track_matches_impl E t (FLangCompare op lang) ctx = compare_string (tr_language t) op lang"
| "track_matches_impl E t (FLangField op path) ctx =
     (case resolve_field_str ctx path of
        None \<Rightarrow> False | Some val \<Rightarrow> compare_string (tr_language t) op val)"
| "track_matches_impl E t (FCodecIn codecs) ctx = list_ex (\<lambda>c. c = tr_codec t) codecs"
| "track_matches_impl E t (FCodecCompare op codec) ctx = compare_string (tr_codec t) op codec"
| "track_matches_impl E t (FCodecField op path) ctx =
     (case resolve_field_str ctx path of
        None \<Rightarrow> False | Some val \<Rightarrow> compare_string (tr_codec t) op val)"
| "track_matches_impl E t (FChannels op v) ctx =
     (case tr_channels t of None \<Rightarrow> False | Some ch \<Rightarrow> compare_f64 (of_nat ch) op v)"
| "track_matches_impl E t FCommentary ctx = is_commentary_track t"
| "track_matches_impl E t FForced ctx = tr_is_forced t"
| "track_matches_impl E t FDefault ctx = tr_is_default t"
| "track_matches_impl E t FFont ctx = is_font_attachment E t"
| "track_matches_impl E t (FTitleContains s) ctx =
     str_contains (str_lowercase E (tr_title t)) (str_lowercase E s)"
| "track_matches_impl E t (FTitleMatches re) ctx = regex_is_match E (rx_pattern re) (tr_title t)"
| "track_matches_impl E t (FAnd fs) ctx = list_all (\<lambda>f. track_matches_impl E t f ctx) fs"
| "track_matches_impl E t (FOr fs) ctx = list_ex (\<lambda>f. track_matches_impl E t f ctx) fs"
| "track_matches_impl E t (FNot f) ctx = (\<not> track_matches_impl E t f ctx)"

definition track_matches :: "text_env \<Rightarrow> track \<Rightarrow> compiled_filter \<Rightarrow> bool" where
  "track_matches E t flt = track_matches_impl E t flt None"

definition track_matches_with_context ::
  "text_env \<Rightarrow> track \<Rightarrow> compiled_filter \<Rightarrow> media_file \<Rightarrow> eval_context \<Rightarrow> bool" where
  "track_matches_with_context E t flt f ctx = track_matches_impl E t flt (Some (f, ctx))"

definition tracks_for_target :: "media_file \<Rightarrow> track_target \<Rightarrow> track list" where
  "tracks_for_target f target =
     (case target of
        TgtVideo \<Rightarrow> video_tracks f
      | TgtAudio \<Rightarrow> audio_tracks f
      | TgtSubtitle \<Rightarrow> subtitle_tracks f
      | TgtAttachment \<Rightarrow> tracks_of_type f Attachment
      | TgtAny \<Rightarrow> mf_tracks f)"

section \<open>Conditions\<close>

fun evaluate_condition ::
  "text_env \<Rightarrow> compiled_condition \<Rightarrow> media_file \<Rightarrow> eval_context \<Rightarrow> bool" where
  "evaluate_condition E (CExists target flt) f ctx =
     (let tracks = tracks_for_target f target in
      case flt of
        Some fl \<Rightarrow> list_ex (\<lambda>t. track_matches_with_context E t fl f ctx) tracks
      | None \<Rightarrow> tracks \<noteq> [])"
| "evaluate_condition E (CCount target flt op v) f ctx =
     (let tracks = tracks_for_target f target;
          count = (case flt of
                     Some fl \<Rightarrow> length (filter (\<lambda>t. track_matches_with_context E t fl f ctx) tracks)
                   | None \<Rightarrow> length tracks)
      in compare_f64 (of_nat count) op v)"
| "evaluate_condition E (CFieldCompare path op v) f ctx = evaluate_field_compare f path op v ctx"
| "evaluate_condition E (CFieldExists path) f ctx = (resolve_field f path ctx \<noteq> None)"
| "evaluate_condition E CAudioIsMultiLanguage f ctx = (audio_lang_count f > 1)"
| "evaluate_condition E CIsDubbed f ctx = (audio_lang_count f > 1 \<and> subtitle_tracks f \<noteq> [])"
| "evaluate_condition E CIsOriginal f ctx = (audio_lang_count f \<le> 1)"
| "evaluate_condition E (CAnd cs) f ctx = list_all (\<lambda>c. evaluate_condition E c f ctx) cs"
| "evaluate_condition E (COr cs) f ctx = list_ex (\<lambda>c. evaluate_condition E c f ctx) cs"
| "evaluate_condition E (CNot c) f ctx = (\<not> evaluate_condition E c f ctx)"

section \<open>Lemmas\<close>

text \<open>A filter without field references does not depend on the file or the context.\<close>

fun filter_field_free :: "compiled_filter \<Rightarrow> bool" where
  "filter_field_free (FLangField op path) = False"
| "filter_field_free (FCodecField op path) = False"
| "filter_field_free (FAnd fs) = list_all filter_field_free fs"
| "filter_field_free (FOr fs) = list_all filter_field_free fs"
| "filter_field_free (FNot f) = filter_field_free f"
| "filter_field_free _ = True"

lemma track_matches_field_free:
  "filter_field_free flt \<Longrightarrow> track_matches_impl E t flt c1 = track_matches_impl E t flt c2"
proof (induction flt rule: filter_field_free.induct)
  case (3 fs)
  then have "track_matches_impl E t f c1 = track_matches_impl E t f c2" if "f \<in> set fs" for f
    using that by (auto simp: list_all_iff)
  then show ?case by (auto simp: list_all_iff)
next
  case (4 fs)
  then have "track_matches_impl E t f c1 = track_matches_impl E t f c2" if "f \<in> set fs" for f
    using that by (auto simp: list_all_iff)
  then show ?case by (auto simp: list_ex_iff)
qed simp_all

text \<open>On whole numbers the tolerance of the float comparison is invisible.\<close>

lemma compare_f64_of_nat:
  "compare_f64 (of_nat m) op (of_nat n) =
     (case op of Eq \<Rightarrow> m = n | Ne \<Rightarrow> m \<noteq> n | Lt \<Rightarrow> m < n | Le \<Rightarrow> m \<le> n | Gt \<Rightarrow> m > n | Ge \<Rightarrow> m \<ge> n
      | In \<Rightarrow> False)"
proof -
  have eq: "\<bar>(of_nat m :: rat) - of_nat n\<bar> < f64_EPSILON \<longleftrightarrow> m = n"
  proof
    assume a: "\<bar>(of_nat m :: rat) - of_nat n\<bar> < f64_EPSILON"
    also have "f64_EPSILON < (1 :: rat)" by (simp add: f64_EPSILON_def)
    finally have "\<bar>(of_int (int m - int n) :: rat)\<bar> < 1" by simp
    then have "\<bar>int m - int n\<bar> < 1" by (simp only: of_int_abs [symmetric] of_int_less_1_iff)
    then show "m = n" by simp
  qed (simp add: f64_EPSILON_def)
  show ?thesis
    by (cases op) (simp_all add: compare_f64_def eq, simp add: eq not_less [symmetric])
qed

lemma tracks_for_target_subset: "set (tracks_for_target f target) \<subseteq> set (mf_tracks f)"
  by (cases target)
    (auto simp: tracks_for_target_def video_tracks_def audio_tracks_def subtitle_tracks_def
      tracks_of_type_def)

lemma set_video_tracks: "set (video_tracks f) = {t \<in> set (mf_tracks f). tr_track_type t = Video}"
  by (auto simp: video_tracks_def tracks_of_type_def)

lemma set_audio_tracks:
  "set (audio_tracks f) = {t \<in> set (mf_tracks f). is_audio (tr_track_type t)}"
  by (auto simp: audio_tracks_def)

end
