(* ===== verification/Container_Compat.thy ===== *)
theory Container_Compat
  imports Media
begin

text \<open>
  The codec/container compatibility matrix of
  \<open>plugins/policy-evaluator/src/container_compat.rs\<close>.
\<close>

definition mp4_supports :: "string \<Rightarrow> bool" where
  "mp4_supports codec \<longleftrightarrow>
     codec \<in> set [''h264'', ''avc1'', ''hevc'', ''h265'', ''hev1'', ''hvc1'', ''av1'', ''mpeg4'',
       ''mpeg2video'', ''vp9'', ''aac'', ''mp3'', ''ac3'', ''eac3'', ''opus'', ''alac'', ''flac'',
       ''mov_text'', ''tx3g'']"

definition webm_supports :: "string \<Rightarrow> bool" where
  "webm_supports codec \<longleftrightarrow>
     codec \<in> set [''vp8'', ''vp9'', ''av1'', ''opus'', ''vorbis'', ''webvtt'']"

definition avi_supports :: "string \<Rightarrow> bool" where
  "avi_supports codec \<longleftrightarrow>
     codec \<in> set [''mpeg4'', ''mpeg2video'', ''mpeg1video'', ''mjpeg'', ''h264'', ''avc1'', ''mp3'',
       ''ac3'', ''aac'', ''pcm_s16le'', ''pcm_s24le'', ''pcm_u8'']"

definition codec_supported :: "container \<Rightarrow> string \<Rightarrow> bool option" where
  "codec_supported c codec0 =
     (let codec = to_ascii_lowercase (str_trim codec0) in
      if codec = [] then None
      else
        (case c of
           Mkv \<Rightarrow> Some True
         | Mp4 \<Rightarrow> Some (mp4_supports codec)
         | Webm \<Rightarrow> Some (webm_supports codec)
         | Avi \<Rightarrow> Some (avi_supports codec)
         | Mov \<Rightarrow> None
         | Ts \<Rightarrow> None
         | Flv \<Rightarrow> None
         | Wmv \<Rightarrow> None
         | Other \<Rightarrow> None))"

lemma codec_supported_mkv: "codec_supported Mkv codec \<noteq> Some False"
  by (simp add: codec_supported_def Let_def)

lemma codec_supported_unmodelled:
  "c \<in> {Mov, Ts, Flv, Wmv, Other} \<Longrightarrow> codec_supported c codec = None"
  by (auto simp: codec_supported_def Let_def)

end
