(* ===== verification/Evaluator.thy ===== *)
theory Evaluator
  imports Condition Container_Compat
begin

text \<open>
  The policy evaluator, \<open>plugins/policy-evaluator/src/evaluator.rs\<close>, with the outcome types of
  \<open>crates/voom-domain/src/evaluation.rs\<close>. A function that mutates the plan under construction
  takes the plan and returns the changed plan together with how it stopped: normally, with a
  \<open>VoomError\<close>, or with a panic (of \<open>PlannedAction::file_op\<close> and \<open>track_op\<close>). As in the code,
  what was pushed before an error stays in the plan.
\<close>

section \<open>Building a plan\<close>

datatype emit_failure = FailedWith voom_error | Panicked string

type_synonym emit = "plan \<Rightarrow> plan \<times> emit_failure option"

definition emit_ok :: emit where
  "emit_ok p = (p, None)"

definition emit_fail :: "voom_error \<Rightarrow> emit" where
  "emit_fail e p = (p, Some (FailedWith e))"

definition emit_modify :: "(plan \<Rightarrow> plan) \<Rightarrow> emit" where
  "emit_modify g p = (g p, None)"

definition emit_push :: "(string + planned_action) \<Rightarrow> emit" where
  "emit_push r p =
     (case r of
        Inl msg \<Rightarrow> (p, Some (Panicked msg))
      | Inr a \<Rightarrow> (p\<lparr>pl_actions := pl_actions p @ [a]\<rparr>, None))"

definition emit_seq :: "emit \<Rightarrow> emit \<Rightarrow> emit" where
  "emit_seq g h p = (case g p of (p', None) \<Rightarrow> h p' | (p', Some e) \<Rightarrow> (p', Some e))"

fun emit_each :: "('a \<Rightarrow> emit) \<Rightarrow> 'a list \<Rightarrow> emit" where
  "emit_each g [] = emit_ok"
| "emit_each g (x # xs) = emit_seq (g x) (emit_each g xs)"

section \<open>Names and templates\<close>

definition target_str :: "track_target \<Rightarrow> string" where
  "target_str target =
     (case target of TgtVideo \<Rightarrow> ''video'' | TgtAudio \<Rightarrow> ''audio'' | TgtSubtitle \<Rightarrow> ''subtitle''
      | TgtAttachment \<Rightarrow> ''attachment'' | TgtAny \<Rightarrow> ''track'')"

definition file_name :: "media_file \<Rightarrow> string" where
  "file_name f = (case path_file_name (mf_path f) of None \<Rightarrow> '''' | Some n \<Rightarrow> n)"

definition expand_template :: "string \<Rightarrow> media_file \<Rightarrow> string" where
  "expand_template template f =
     str_replace ''{path}'' (mf_path f) (str_replace ''{filename}'' (file_name f) template)"

definition em_dash :: string where
  "em_dash = [CHR 0xE2, CHR 0x80, CHR 0x94]"

definition filter_matches_ctx ::
  "text_env \<Rightarrow> track \<Rightarrow> compiled_filter option \<Rightarrow> media_file \<Rightarrow> eval_context \<Rightarrow> bool" where
  "filter_matches_ctx E t flt f ctx =
     (case flt of Some fl \<Rightarrow> track_matches_with_context E t fl f ctx | None \<Rightarrow> True)"

definition transcode_settings_from :: "compiled_transcode_settings \<Rightarrow> transcode_settings" where
  "transcode_settings_from s =
     (with_loudness (cts_loudness s) \<circ> with_crop (cts_crop s) \<circ> with_tune (cts_tune s)
      \<circ> with_dolby_vision (cts_dolby_vision s)
      \<circ> with_hdr_color_metadata (cts_hdr_color_metadata s) \<circ> with_tonemap (cts_tonemap s)
      \<circ> with_preserve_hdr (cts_preserve_hdr s) \<circ> with_hdr_mode (cts_hdr_mode s)
      \<circ> with_scale_algorithm (cts_scale_algorithm s)
      \<circ> with_max_resolution (cts_max_resolution s) \<circ> with_hw_fallback (cts_hw_fallback s)
      \<circ> with_hw (cts_hw s) \<circ> with_channels (cts_channels s)
      \<circ> with_vmaf_overrides (cts_vmaf_overrides s) \<circ> with_fallback (cts_fallback s)
      \<circ> with_sample_strategy (cts_sample_strategy s) \<circ> with_min_bitrate (cts_min_bitrate s)
      \<circ> with_max_bitrate (cts_max_bitrate s) \<circ> with_target_vmaf (cts_target_vmaf s)
      \<circ> with_bitrate (cts_bitrate s) \<circ> with_preset (cts_preset s) \<circ> with_crf (cts_crf s))
     TranscodeSettings_default"

section \<open>Emitting actions\<close>

definition record_safeguard :: "safeguard_kind \<Rightarrow> string \<Rightarrow> plan \<Rightarrow> plan" where
  "record_safeguard kind msg p =
     p\<lparr>pl_warnings := pl_warnings p @ [msg],
       pl_safeguard_violations :=
         pl_safeguard_violations p @ [SafeguardViolation_new kind msg (pl_phase_name p)]\<rparr>"

definition emit_set_container :: "container \<Rightarrow> media_file \<Rightarrow> emit" where
  "emit_set_container target f =
     (if mf_container f \<noteq> target then
        emit_push (file_op ConvertContainer (ApContainer target)
          (''Convert container from '' @ Container_as_str (mf_container f) @ '' to ''
           @ Container_as_str target))
      else emit_ok)"

definition emit_verify :: "verification_mode \<Rightarrow> emit" where
  "emit_verify mode =
     emit_push (file_op VerifyMedia (ApVerifyMedia \<lparr>vmp_mode = mode\<rparr>)
       (''Verify media integrity ('' @ VerificationMode_as_str mode @ '')''))"

definition emit_remove_track :: "track \<Rightarrow> track_target \<Rightarrow> string \<Rightarrow> emit" where
  "emit_remove_track t target reason =
     emit_push (track_op RemoveTrack (tr_index t) (ApRemoveTrack reason (tr_track_type t))
       (''Remove '' @ target_str target @ '' track '' @ nat_str (tr_index t) @ '' (''
        @ tr_codec t @ '', '' @ tr_language t @ '')''))"

definition emit_normalize_audio ::
  "text_env \<Rightarrow> media_file \<Rightarrow> eval_context \<Rightarrow> track_target \<Rightarrow> compiled_filter option \<Rightarrow>
   loudness_normalization \<Rightarrow> emit" where
  "emit_normalize_audio E f ctx target flt settings =
     (if target \<noteq> TgtAudio then emit_ok
      else
        emit_each
          (\<lambda>t. let should_normalize =
                     (case flt of Some fl \<Rightarrow> track_matches_with_context E t fl f ctx
                      | None \<Rightarrow> True)
               in if \<not> should_normalize then emit_ok
                  else if (case tr_loudness_integrated_lufs t of
                             Some lufs \<Rightarrow> is_within_target settings lufs | None \<Rightarrow> False)
                  then emit_ok
                  else
                    emit_push (track_op TranscodeAudio (tr_index t)
                      (ApTranscode (tr_codec t)
                        (with_loudness (Some settings) TranscodeSettings_default))
                      (''Normalize audio track '' @ nat_str (tr_index t) @ '' to ''
                       @ fmt_f64_1 E (ln_target_lufs settings) @ '' LUFS'')))
          (tracks_for_target f target))"

definition emit_keep ::
  "text_env \<Rightarrow> media_file \<Rightarrow> eval_context \<Rightarrow> track_target \<Rightarrow> compiled_filter option \<Rightarrow> emit" where
  "emit_keep E f ctx target flt p =
     (let tracks = tracks_for_target f target;
          should_remove =
            (\<lambda>t. case flt of Some fl \<Rightarrow> \<not> track_matches_with_context E t fl f ctx
                  | None \<Rightarrow> False);
          actions_before = length (pl_actions p);
          kept = length (filter (\<lambda>t. \<not> should_remove t) tracks)
      in if tracks = [] then emit_ok p
         else
           emit_seq
             (emit_each
               (\<lambda>t. if should_remove t
                    then emit_remove_track t target ''does not match keep filter''
                    else emit_ok)
               tracks)
             (if kept = 0 then
                emit_modify (\<lambda>q.
                  record_safeguard AllTracksRemoved
                    (''Safeguard: kept all '' @ target_str target @ '' tracks in '' @ file_name f
                     @ '' '' @ em_dash
                     @ '' no tracks matched the keep filter, would have removed all'')
                    (q\<lparr>pl_actions := take actions_before (pl_actions q)\<rparr>))
              else emit_ok)
             p)"

definition emit_remove ::
  "text_env \<Rightarrow> media_file \<Rightarrow> eval_context \<Rightarrow> track_target \<Rightarrow> compiled_filter option \<Rightarrow> emit" where
  "emit_remove E f ctx target flt p =
     (let tracks = tracks_for_target f target;
          is_critical = (target = TgtVideo \<or> target = TgtAudio);
          should_remove =
            (\<lambda>t. case flt of Some fl \<Rightarrow> track_matches_with_context E t fl f ctx | None \<Rightarrow> True);
          actions_before = length (pl_actions p);
          kept = length (filter (\<lambda>t. \<not> should_remove t) tracks)
      in if tracks = [] then emit_ok p
         else
           emit_seq
             (emit_each
               (\<lambda>t. if should_remove t
                    then emit_remove_track t target ''matches remove filter''
                    else emit_ok)
               tracks)
             (if kept = 0 \<and> is_critical then
                emit_modify (\<lambda>q.
                  record_safeguard AllTracksRemoved
                    (''Safeguard: kept all '' @ target_str target @ '' tracks in '' @ file_name f
                     @ '' '' @ em_dash @ '' remove operation would have removed all'')
                    (q\<lparr>pl_actions := take actions_before (pl_actions q)\<rparr>))
              else emit_ok)
             p)"

definition emit_reorder :: "string list \<Rightarrow> emit" where
  "emit_reorder order =
     emit_push (file_op ReorderTracks (ApReorderTracks order)
       (''Reorder tracks: '' @ str_join '', '' order))"

definition emit_set_default :: "track_target \<Rightarrow> track \<Rightarrow> string \<Rightarrow> emit" where
  "emit_set_default target t detail =
     emit_push (track_op SetDefault (tr_index t) ApEmpty
       (''Set default on '' @ target_str target @ '' track '' @ nat_str (tr_index t) @ detail))"

definition emit_clear_default :: "track_target \<Rightarrow> track \<Rightarrow> string \<Rightarrow> emit" where
  "emit_clear_default target t detail =
     emit_push (track_op ClearDefault (tr_index t) ApEmpty
       (''Clear default flag on '' @ target_str target @ '' track '' @ nat_str (tr_index t)
        @ detail))"

definition emit_clear_forced :: "track_target \<Rightarrow> track \<Rightarrow> emit" where
  "emit_clear_forced target t =
     emit_push (track_op ClearForced (tr_index t) ApEmpty
       (''Clear forced flag on '' @ target_str target @ '' track '' @ nat_str (tr_index t)))"

definition emit_clear_title :: "track_target \<Rightarrow> track \<Rightarrow> emit" where
  "emit_clear_title target t =
     emit_push (track_op SetTitle (tr_index t) (ApTitle '''')
       (''Clear title on '' @ target_str target @ '' track '' @ nat_str (tr_index t)))"

definition emit_defaults_none :: "track_target \<Rightarrow> track list \<Rightarrow> emit" where
  "emit_defaults_none target tracks =
     emit_each (\<lambda>t. if tr_is_default t then emit_clear_default target t '''' else emit_ok) tracks"

definition emit_defaults_first :: "track_target \<Rightarrow> track list \<Rightarrow> emit" where
  "emit_defaults_first target tracks =
     (case tracks of
        [] \<Rightarrow> emit_ok
      | first_track # rest \<Rightarrow>
          emit_seq
            (if \<not> tr_is_default first_track then emit_set_default target first_track ''''
             else emit_ok)
            (emit_each
              (\<lambda>t. if tr_is_default t then emit_clear_default target t '''' else emit_ok) rest))"

text \<open>The loop of \<open>emit_defaults_first_per_language\<close>, with the languages seen so far.\<close>

fun emit_defaults_per_language_loop :: "track_target \<Rightarrow> string list \<Rightarrow> track list \<Rightarrow> emit" where
  "emit_defaults_per_language_loop target seen [] = emit_ok"
| "emit_defaults_per_language_loop target seen (t # ts) =
     (let is_first = (tr_language t \<notin> set seen) in
      emit_seq
        (if is_first \<and> \<not> tr_is_default t then
           emit_set_default target t ('' (first for lang '' @ [CHR 0x27] @ tr_language t @ [CHR 0x27] @ '')'')
         else if \<not> is_first \<and> tr_is_default t then
           emit_clear_default target t
             ('' (not first for lang '' @ [CHR 0x27] @ tr_language t @ [CHR 0x27] @ '')'')
         else emit_ok)
        (emit_defaults_per_language_loop target (tr_language t # seen) ts))"

definition emit_defaults_first_per_language :: "track_target \<Rightarrow> track list \<Rightarrow> emit" where
  "emit_defaults_first_per_language target tracks =
     emit_defaults_per_language_loop target [] tracks"

definition emit_defaults_all :: "track_target \<Rightarrow> track list \<Rightarrow> emit" where
  "emit_defaults_all target tracks =
     emit_each (\<lambda>t. if \<not> tr_is_default t then emit_set_default target t '''' else emit_ok) tracks"

definition emit_set_defaults :: "media_file \<Rightarrow> compiled_default list \<Rightarrow> emit" where
  "emit_set_defaults f defaults =
     emit_each
       (\<lambda>d. let target = cdf_target d; tracks = tracks_for_target f target in
            case cdf_strategy d of
              NoDefaults \<Rightarrow> emit_defaults_none target tracks
            | First \<Rightarrow> emit_defaults_first target tracks
            | FirstPerLanguage \<Rightarrow> emit_defaults_first_per_language target tracks
            | AllDefaults \<Rightarrow> emit_defaults_all target tracks)
       defaults"

definition emit_clear_actions :: "media_file \<Rightarrow> track_target \<Rightarrow> clear_actions_settings \<Rightarrow> emit" where
  "emit_clear_actions f target settings =
     emit_each
       (\<lambda>t. emit_seq
              (if cas_clear_all_default settings \<and> tr_is_default t
               then emit_clear_default target t '''' else emit_ok)
              (emit_seq
                (if cas_clear_all_forced settings \<and> tr_is_forced t
                 then emit_clear_forced target t else emit_ok)
                (if cas_clear_all_titles settings \<and> tr_title t \<noteq> []
                 then emit_clear_title target t else emit_ok)))
       (tracks_for_target f target)"

definition emit_transcode ::
  "media_file \<Rightarrow> eval_context \<Rightarrow> track_target \<Rightarrow> string \<Rightarrow> compiled_transcode_settings \<Rightarrow> emit" where
  "emit_transcode f ctx target codec settings =
     (let tracks = tracks_for_target f target;
          operation =
            (case target of TgtVideo \<Rightarrow> Some TranscodeVideo | TgtAudio \<Rightarrow> Some TranscodeAudio
             | _ \<Rightarrow> None);
          hw_blocked =
            (case cts_hw settings of
               None \<Rightarrow> None
             | Some hw \<Rightarrow>
                 (if hw \<noteq> ''auto'' \<and> hw \<noteq> ''none''
                     \<and> \<not> (case ctx_capabilities ctx of
                            None \<Rightarrow> False | Some caps \<Rightarrow> has_hwaccel caps hw)
                     \<and> cts_hw_fallback settings = Some False
                  then Some hw else None))
      in case operation of
           None \<Rightarrow> emit_ok
         | Some op \<Rightarrow>
             (case hw_blocked of
                Some hw \<Rightarrow>
                  emit_modify (\<lambda>p.
                    p\<lparr>pl_skip_reason :=
                        Some (''hw backend '' @ [CHR 0x27] @ hw @ [CHR 0x27]
                              @ '' unavailable and hw_fallback is false''),
                      pl_actions := []\<rparr>)
              | None \<Rightarrow>
                  emit_each
                    (\<lambda>t. if tr_codec t = codec then emit_ok
                         else if list_ex (\<lambda>q. q = tr_codec t) (cts_preserve settings) then emit_ok
                         else
                           emit_push (track_op op (tr_index t)
                             (ApTranscode codec (transcode_settings_from settings))
                             (''Transcode '' @ target_str target @ '' track ''
                              @ nat_str (tr_index t) @ '' from '' @ tr_codec t @ '' to '' @ codec)))
                    tracks))"

definition synth_source_index ::
  "text_env \<Rightarrow> media_file \<Rightarrow> eval_context \<Rightarrow> compiled_synthesize \<Rightarrow> u32 option" where
  "synth_source_index E f ctx synth =
     (let tracks = audio_tracks f in
      case csy_source synth of
        Some source_filter \<Rightarrow>
          map_option tr_index (find (\<lambda>t. track_matches_with_context E t source_filter f ctx) tracks)
      | None \<Rightarrow> (case tracks of [] \<Rightarrow> None | t # _ \<Rightarrow> Some (tr_index t)))"

definition emit_synthesize ::
  "text_env \<Rightarrow> media_file \<Rightarrow> eval_context \<Rightarrow> compiled_synthesize \<Rightarrow> emit" where
  "emit_synthesize E f ctx synth =
     (let tracks = audio_tracks f;
          blocked_by_condition =
            (case csy_create_if synth of
               None \<Rightarrow> False | Some cond \<Rightarrow> \<not> evaluate_condition E cond f ctx);
          exists_already =
            (case csy_skip_if_exists synth of
               None \<Rightarrow> False
             | Some skip_filter \<Rightarrow>
                 list_ex (\<lambda>t. track_matches_with_context E t skip_filter f ctx) tracks);
          source_index = synth_source_index E f ctx synth;
          language =
            (case csy_language synth of
               Some Inherit \<Rightarrow>
                 (case source_index of
                    None \<Rightarrow> None
                  | Some idx \<Rightarrow>
                      map_option tr_language (find (\<lambda>t. tr_index t = idx) (mf_tracks f)))
             | Some (Fixed l) \<Rightarrow> Some l
             | None \<Rightarrow> None);
          channels =
            map_option (\<lambda>c. case to_count c of Some n \<Rightarrow> n | None \<Rightarrow> 2) (csy_channels synth);
          position =
            map_option (\<lambda>q. case q of PosIndex n \<Rightarrow> nat_str n | PosNamed s \<Rightarrow> s)
              (csy_position synth);
          params =
            ApSynthesize
              \<lparr>sp_name = csy_name synth, sp_language = language, sp_codec = csy_codec synth,
               sp_text = None, sp_bitrate = csy_bitrate synth, sp_channels = channels,
               sp_title = csy_title synth, sp_position = position,
               sp_source_track = source_index, sp_loudness = csy_loudness synth\<rparr>;
          descr = ''Synthesize audio: '' @ csy_name synth
      in if blocked_by_condition then emit_ok
         else if exists_already then emit_ok
         else
           emit_push
             (case source_index of
                Some idx \<Rightarrow> track_op SynthesizeAudio idx params descr
              | None \<Rightarrow> file_op SynthesizeAudio params descr))"

definition emit_clear_tags :: "media_file \<Rightarrow> emit" where
  "emit_clear_tags f =
     (if mf_tags f = [] then emit_ok
      else
        (let tag_keys = sort (hm_keys (mf_tags f)) in
         emit_push (file_op ClearContainerTags (ApClearTags tag_keys)
           (''Clear all container tags ('' @ str_join '', '' tag_keys @ '')''))))"

definition emit_set_tag ::
  "text_env \<Rightarrow> media_file \<Rightarrow> eval_context \<Rightarrow> string \<Rightarrow> value_or_field \<Rightarrow> emit" where
  "emit_set_tag E f ctx tag v =
     (case resolve_value_or_field E v f ctx of
        None \<Rightarrow>
          emit_fail (ValidationError
            (''Cannot resolve tag value for '' @ [CHR 0x27] @ tag @ [CHR 0x27]))
      | Some val \<Rightarrow>
          emit_push (file_op SetContainerTag (ApSetTag tag val)
            (''Set container tag '' @ [CHR 0x27] @ tag @ [CHR 0x27] @ '' = '' @ [CHR 0x27] @ val
             @ [CHR 0x27])))"

definition emit_delete_tag :: "media_file \<Rightarrow> string \<Rightarrow> emit" where
  "emit_delete_tag f tag =
     (if hm_contains_key (mf_tags f) tag then
        emit_push (file_op DeleteContainerTag (ApDeleteTag tag)
          (''Delete container tag '' @ [CHR 0x27] @ tag @ [CHR 0x27]))
      else emit_ok)"

datatype flag_kind = FlagDefault | FlagForced

definition emit_flag_action ::
  "text_env \<Rightarrow> media_file \<Rightarrow> eval_context \<Rightarrow> track_target \<Rightarrow> compiled_filter option \<Rightarrow> flag_kind \<Rightarrow>
   emit" where
  "emit_flag_action E f ctx target flt kind =
     (let (op, label, is_set) =
            (case kind of
               FlagDefault \<Rightarrow> (SetDefault, ''default'', tr_is_default)
             | FlagForced \<Rightarrow> (SetForced, ''forced'', tr_is_forced))
      in emit_each
           (\<lambda>t. if filter_matches_ctx E t flt f ctx \<and> \<not> is_set t then
                  emit_push (track_op op (tr_index t) ApEmpty
                    (''Set '' @ label @ '' on '' @ target_str target @ '' track ''
                     @ nat_str (tr_index t)))
                else emit_ok)
           (tracks_for_target f target))"

definition emit_set_language ::
  "text_env \<Rightarrow> media_file \<Rightarrow> eval_context \<Rightarrow> track_target \<Rightarrow> compiled_filter option \<Rightarrow>
   value_or_field \<Rightarrow> emit" where
  "emit_set_language E f ctx target flt v =
     (case resolve_value_or_field E v f ctx of
        None \<Rightarrow> emit_fail (ValidationError ''Cannot resolve language value'')
      | Some lang \<Rightarrow>
          emit_each
            (\<lambda>t. if filter_matches_ctx E t flt f ctx \<and> tr_language t \<noteq> lang then
                   emit_push (track_op SetLanguage (tr_index t) (ApLanguage lang)
                     (''Set language on '' @ target_str target @ '' track ''
                      @ nat_str (tr_index t) @ '' to '' @ [CHR 0x27] @ lang @ [CHR 0x27]))
                 else emit_ok)
            (tracks_for_target f target))"

definition emit_action ::
  "text_env \<Rightarrow> media_file \<Rightarrow> eval_context \<Rightarrow> compiled_action \<Rightarrow> emit" where
  "emit_action E f ctx action =
     (case action of
        AKeep target flt \<Rightarrow> emit_keep E f ctx target flt
      | ARemove target flt \<Rightarrow> emit_remove E f ctx target flt
      | ASkip phase \<Rightarrow>
          emit_modify (\<lambda>p.
            p\<lparr>pl_skip_reason :=
                Some (case phase of
                        Some q \<Rightarrow> ''Skipped by action (phase: '' @ q @ '')''
                      | None \<Rightarrow> ''Skipped by action'')\<rparr>)
      | AWarn msg \<Rightarrow>
          emit_modify (\<lambda>p. p\<lparr>pl_warnings := pl_warnings p @ [expand_template msg f]\<rparr>)
      | AFail msg \<Rightarrow> emit_fail (ValidationError (expand_template msg f))
      | ASetDefault target flt \<Rightarrow> emit_flag_action E f ctx target flt FlagDefault
      | ASetForced target flt \<Rightarrow> emit_flag_action E f ctx target flt FlagForced
      | ASetLanguage target flt v \<Rightarrow> emit_set_language E f ctx target flt v
      | ASetTag tag v \<Rightarrow> emit_set_tag E f ctx tag v)"

definition emit_conditional ::
  "text_env \<Rightarrow> media_file \<Rightarrow> eval_context \<Rightarrow> compiled_conditional \<Rightarrow> emit" where
  "emit_conditional E f ctx cond =
     emit_each (emit_action E f ctx)
       (if evaluate_condition E (cc_condition cond) f ctx
        then cc_then_actions cond else cc_else_actions cond)"

fun emit_rules_loop ::
  "text_env \<Rightarrow> media_file \<Rightarrow> eval_context \<Rightarrow> rules_mode \<Rightarrow> compiled_rule list \<Rightarrow> emit" where
  "emit_rules_loop E f ctx mode [] = emit_ok"
| "emit_rules_loop E f ctx mode (rule # rules) =
     (if evaluate_condition E (cc_condition (cru_conditional rule)) f ctx then
        emit_seq
          (emit_each (emit_action E f ctx) (cc_then_actions (cru_conditional rule)))
          (if mode = RulesFirst then emit_ok else emit_rules_loop E f ctx mode rules)
      else
        emit_seq
          (emit_each (emit_action E f ctx) (cc_else_actions (cru_conditional rule)))
          (emit_rules_loop E f ctx mode rules))"

definition emit_operation ::
  "text_env \<Rightarrow> media_file \<Rightarrow> eval_context \<Rightarrow> compiled_operation \<Rightarrow> emit" where
  "emit_operation E f ctx op =
     (case op of
        OpSetContainer c \<Rightarrow> emit_set_container c f
      | OpKeep target flt \<Rightarrow> emit_keep E f ctx target flt
      | OpRemove target flt \<Rightarrow> emit_remove E f ctx target flt
      | OpReorderTracks order \<Rightarrow> emit_reorder order
      | OpSetDefaults defaults \<Rightarrow> emit_set_defaults f defaults
      | OpClearActions target settings \<Rightarrow> emit_clear_actions f target settings
      | OpTranscode target codec settings \<Rightarrow> emit_transcode f ctx target codec settings
      | OpNormalizeAudio target flt settings \<Rightarrow>
          emit_seq (emit_keep E f ctx target flt)
            (emit_normalize_audio E f ctx target flt settings)
      | OpSynthesize synth \<Rightarrow> emit_synthesize E f ctx synth
      | OpClearTags \<Rightarrow> emit_clear_tags f
      | OpSetTag tag v \<Rightarrow> emit_set_tag E f ctx tag v
      | OpDeleteTag tag \<Rightarrow> emit_delete_tag f tag
      | OpConditional cond \<Rightarrow> emit_conditional E f ctx cond
      | OpRules mode rules \<Rightarrow> emit_rules_loop E f ctx mode rules
      | OpVerify mode \<Rightarrow> emit_verify mode)"

section \<open>Safeguards\<close>

definition removed_indices :: "plan \<Rightarrow> u32 list" where
  "removed_indices p =
     List.map_filter (\<lambda>a. if pa_operation a = RemoveTrack then pa_track_index a else None)
       (pl_actions p)"

definition apply_safeguard_for_track_type ::
  "media_file \<Rightarrow> u32 list \<Rightarrow> string \<Rightarrow> (track_type \<Rightarrow> bool) \<Rightarrow> safeguard_kind \<Rightarrow> string \<Rightarrow> plan \<Rightarrow> plan"
  where
  "apply_safeguard_for_track_type f removed filename type_check kind label p =
     (let total = length (filter (\<lambda>t. type_check (tr_track_type t)) (mf_tracks f));
          surviving =
            length (filter (\<lambda>t. type_check (tr_track_type t) \<and> tr_index t \<notin> set removed)
                      (mf_tracks f))
      in if total = 0 then p
         else if surviving > 0 then p
         else
           record_safeguard kind
             (''Safeguard: would have removed all '' @ label @ '' tracks in '' @ filename
              @ '', keeping them instead'')
             (p\<lparr>pl_actions :=
                 filter
                   (\<lambda>a. \<not> (pa_operation a = RemoveTrack
                           \<and> (case pa_track_index a of
                                None \<Rightarrow> False
                              | Some idx \<Rightarrow>
                                  list_ex (\<lambda>t. tr_index t = idx \<and> type_check (tr_track_type t))
                                    (mf_tracks f))))
                   (pl_actions p)\<rparr>))"

definition container_target :: "planned_action list \<Rightarrow> container option" where
  "container_target as =
     find_map
       (\<lambda>a. if pa_operation a \<noteq> ConvertContainer then None
            else (case pa_parameters a of ApContainer c \<Rightarrow> Some c | _ \<Rightarrow> None))
       as"

text \<open>The map from a track index to the codec that the plan transcodes it to; a later
  transcode of the same track replaces an earlier one.\<close>

definition transcode_codecs :: "planned_action list \<Rightarrow> (u32, string) hashmap" where
  "transcode_codecs as =
     foldl
       (\<lambda>m a. if pa_operation a = TranscodeVideo \<or> pa_operation a = TranscodeAudio then
                (case (pa_track_index a, pa_parameters a) of
                   (Some idx, ApTranscode codec _) \<Rightarrow> hm_insert idx codec m
                 | _ \<Rightarrow> m)
              else m)
       [] as"

definition effective_codec :: "planned_action list \<Rightarrow> track \<Rightarrow> string" where
  "effective_codec as t =
     (case hm_get (transcode_codecs as) (tr_index t) of Some c \<Rightarrow> c | None \<Rightarrow> tr_codec t)"

definition track_offenders :: "container \<Rightarrow> media_file \<Rightarrow> plan \<Rightarrow> string list" where
  "track_offenders target f p =
     List.map_filter
       (\<lambda>t. if tr_index t \<in> set (removed_indices p) then None
            else
              (let codec = effective_codec (pl_actions p) t in
               if codec_supported target codec = Some False
               then Some (''track '' @ nat_str (tr_index t) @ '' ('' @ codec @ '')'')
               else None))
       (mf_tracks f)"

definition synth_offenders :: "container \<Rightarrow> plan \<Rightarrow> string list" where
  "synth_offenders target p =
     List.map_filter
       (\<lambda>a. if pa_operation a \<noteq> SynthesizeAudio then None
            else
              (case pa_parameters a of
                 ApSynthesize sp \<Rightarrow>
                   (case sp_codec sp of
                      Some codec \<Rightarrow>
                        (if codec_supported target codec = Some False
                         then Some (''synthesized '' @ sp_name sp @ '' ('' @ codec @ '')'')
                         else None)
                    | None \<Rightarrow> None)
               | _ \<Rightarrow> None))
       (pl_actions p)"

definition apply_container_safeguard :: "media_file \<Rightarrow> string \<Rightarrow> plan \<Rightarrow> plan" where
  "apply_container_safeguard f filename p =
     (case container_target (pl_actions p) of
        None \<Rightarrow> p
      | Some target \<Rightarrow>
          (let offenders = track_offenders target f p @ synth_offenders target p in
           if offenders = [] then p
           else
             (let details = str_join '', '' (take 4 offenders);
                  suffix =
                    (if length offenders > 4
                     then '' and '' @ nat_str (length offenders - 4) @ '' more'' else '''')
              in record_safeguard ContainerIncompatible
                   (''Safeguard: container conversion from '' @ Container_as_str (mf_container f)
                    @ '' to '' @ Container_as_str target
                    @ '' would leave incompatible codecs in '' @ filename @ '': '' @ details
                    @ suffix @ ''; keeping original container'')
                   (p\<lparr>pl_actions :=
                       filter (\<lambda>a. pa_operation a \<noteq> ConvertContainer) (pl_actions p)\<rparr>))))"

definition apply_safeguards :: "media_file \<Rightarrow> plan \<Rightarrow> plan" where
  "apply_safeguards f p =
     (if Plan_is_skipped p then p
      else
        (let removed = removed_indices p;
             filename = file_name f;
             p1 =
               (if removed \<noteq> [] then
                  apply_safeguard_for_track_type f removed filename is_audio NoAudioTrack ''audio''
                    (apply_safeguard_for_track_type f removed filename is_video NoVideoTrack
                      ''video'' p)
                else p)
         in apply_container_safeguard f filename p1))"

section \<open>Evaluating phases and policies\<close>

datatype evaluation_outcome =
    Executed bool
  | EvalSkipped
  | SafeguardFailed
  | ExecutionFailed

definition run_if_satisfied ::
  "(string, evaluation_outcome) hashmap \<Rightarrow> compiled_run_if \<Rightarrow> bool" where
  "run_if_satisfied outcomes r =
     (case hm_get outcomes (cri_phase r) of
        None \<Rightarrow> False
      | Some out \<Rightarrow>
          (case cri_trigger r of
             Modified \<Rightarrow> (case out of Executed m \<Rightarrow> m | _ \<Rightarrow> False)
           | CompletedTrigger \<Rightarrow> (case out of Executed _ \<Rightarrow> True | _ \<Rightarrow> False)))"

definition run_if_trigger_str :: "run_if_trigger \<Rightarrow> string" where
  "run_if_trigger_str t = (case t of Modified \<Rightarrow> ''modified'' | CompletedTrigger \<Rightarrow> ''completed'')"

definition dependency_reason :: "string \<Rightarrow> string" where
  "dependency_reason dep = ''dependency '' @ [CHR 0x27] @ dep @ [CHR 0x27] @ '' not yet executed''"

definition check_skip_conditions ::
  "text_env \<Rightarrow> compiled_phase \<Rightarrow> media_file \<Rightarrow> (string, evaluation_outcome) hashmap \<Rightarrow>
   eval_context \<Rightarrow> string option" where
  "check_skip_conditions E phase f outcomes ctx =
     (if (case cp_skip_when phase of
            Some cond \<Rightarrow> evaluate_condition E cond f ctx | None \<Rightarrow> False)
      then Some ''skip_when condition met''
      else
        (let run_if_reason =
               (case cp_run_if phase of
                  Some r \<Rightarrow>
                    (if run_if_satisfied outcomes r then None
                     else Some (''run_if '' @ cri_phase r @ ''.''
                                @ run_if_trigger_str (cri_trigger r) @ '' not satisfied''))
                | None \<Rightarrow> None)
         in case run_if_reason of
              Some reason \<Rightarrow> Some reason
            | None \<Rightarrow>
                map_option dependency_reason
                  (find (\<lambda>dep. hm_get outcomes dep = None) (cp_depends_on phase))))"

fun emit_operations ::
  "text_env \<Rightarrow> media_file \<Rightarrow> eval_context \<Rightarrow> error_strategy \<Rightarrow> compiled_operation list \<Rightarrow> plan \<Rightarrow>
   string + plan" where
  "emit_operations E f ctx on_error [] p = Inr p"
| "emit_operations E f ctx on_error (op # ops) p =
     (case emit_operation E f ctx op p of
        (p', None) \<Rightarrow> emit_operations E f ctx on_error ops p'
      | (p', Some (Panicked msg)) \<Rightarrow> Inl msg
      | (p', Some (FailedWith e)) \<Rightarrow>
          (case on_error of
             Abort \<Rightarrow>
               Inr (p'\<lparr>pl_warnings :=
                        pl_warnings p' @ [''Error (aborting): '' @ VoomError_display e]\<rparr>)
           | Continue \<Rightarrow>
               emit_operations E f ctx on_error ops
                 (p'\<lparr>pl_warnings :=
                      pl_warnings p' @ [''Error (continuing): '' @ VoomError_display e]\<rparr>)
           | Skip \<Rightarrow>
               Inr (p'\<lparr>pl_skip_reason :=
                        Some (''Error (skipping phase): '' @ VoomError_display e)\<rparr>)
           | QuarantineFile \<Rightarrow>
               Inr (p'\<lparr>pl_warnings :=
                        pl_warnings p' @ [''Error (aborting): '' @ VoomError_display e]\<rparr>)))"

definition evaluate_phase ::
  "text_env \<Rightarrow> mint \<Rightarrow> compiled_phase \<Rightarrow> compiled_policy \<Rightarrow> media_file \<Rightarrow>
   (string, evaluation_outcome) hashmap \<Rightarrow> eval_context \<Rightarrow> string + plan" where
  "evaluate_phase E m phase policy f outcomes ctx =
     (let plan0 =
            (Plan_new m f (pol_name policy) (cp_name phase))
              \<lparr>pl_policy_hash :=
                 (if pol_source_hash policy = [] then None else Some (pol_source_hash policy))\<rparr>
      in case check_skip_conditions E phase f outcomes ctx of
           Some reason \<Rightarrow> Inr (plan0\<lparr>pl_skip_reason := Some reason\<rparr>)
         | None \<Rightarrow>
             (case emit_operations E f ctx (cp_on_error phase) (cp_operations phase) plan0 of
                Inl msg \<Rightarrow> Inl msg
              | Inr p \<Rightarrow> Inr (apply_safeguards f p)))"

definition plan_outcome :: "plan \<Rightarrow> evaluation_outcome" where
  "plan_outcome p = (if Plan_is_skipped p then EvalSkipped else Executed (\<not> Plan_is_empty p))"

definition find_phase :: "compiled_policy \<Rightarrow> string \<Rightarrow> compiled_phase option" where
  "find_phase policy name = find (\<lambda>ph. cp_name ph = name) (pol_phases policy)"

text \<open>
  The loop over \<open>phase_order\<close>. The \<open>k\<close>-th plan takes its identity and time from \<open>mints k\<close>.
\<close>

fun evaluate_phases ::
  "text_env \<Rightarrow> (nat \<Rightarrow> mint) \<Rightarrow> compiled_policy \<Rightarrow> media_file \<Rightarrow> eval_context \<Rightarrow> string list \<Rightarrow>
   plan list \<Rightarrow> (string, evaluation_outcome) hashmap \<Rightarrow> string + plan list" where
  "evaluate_phases E mints policy f ctx [] plans outcomes = Inr plans"
| "evaluate_phases E mints policy f ctx (name # names) plans outcomes =
     (case find_phase policy name of
        None \<Rightarrow> evaluate_phases E mints policy f ctx names plans outcomes
      | Some phase \<Rightarrow>
          (case evaluate_phase E (mints (length plans)) phase policy f outcomes ctx of
             Inl msg \<Rightarrow> Inl msg
           | Inr p \<Rightarrow>
               evaluate_phases E mints policy f ctx names (plans @ [p])
                 (hm_insert name (plan_outcome p) outcomes)))"

definition evaluate_with_phase_outputs ::
  "text_env \<Rightarrow> (nat \<Rightarrow> mint) \<Rightarrow> compiled_policy \<Rightarrow> media_file \<Rightarrow> capability_map option \<Rightarrow>
   (string \<Rightarrow> phase_output option) option \<Rightarrow> string + plan list" where
  "evaluate_with_phase_outputs E mints policy f capabilities lookup =
     evaluate_phases E mints policy f
       \<lparr>ctx_capabilities = capabilities, ctx_phase_output_lookup = lookup\<rparr>
       (pol_phase_order policy) [] []"

definition evaluate_with_context ::
  "text_env \<Rightarrow> (nat \<Rightarrow> mint) \<Rightarrow> compiled_policy \<Rightarrow> media_file \<Rightarrow> capability_map option \<Rightarrow>
   string + plan list" where
  "evaluate_with_context E mints policy f capabilities =
     evaluate_with_phase_outputs E mints policy f capabilities None"

definition evaluate ::
  "text_env \<Rightarrow> (nat \<Rightarrow> mint) \<Rightarrow> compiled_policy \<Rightarrow> media_file \<Rightarrow> string + plan list" where
  "evaluate E mints policy f = evaluate_with_context E mints policy f None"

definition evaluate_single_phase_with_phase_outputs ::
  "text_env \<Rightarrow> mint \<Rightarrow> string \<Rightarrow> compiled_policy \<Rightarrow> media_file \<Rightarrow>
   (string, evaluation_outcome) hashmap \<Rightarrow> capability_map option \<Rightarrow>
   (string \<Rightarrow> phase_output option) option \<Rightarrow> (string + plan) option" where
  "evaluate_single_phase_with_phase_outputs E m name policy f outcomes capabilities lookup =
     map_option
       (\<lambda>phase. evaluate_phase E m phase policy f outcomes
                  \<lparr>ctx_capabilities = capabilities, ctx_phase_output_lookup = lookup\<rparr>)
       (find_phase policy name)"

definition evaluate_single_phase ::
  "text_env \<Rightarrow> mint \<Rightarrow> string \<Rightarrow> compiled_policy \<Rightarrow> media_file \<Rightarrow>
   (string, evaluation_outcome) hashmap \<Rightarrow> capability_map option \<Rightarrow> (string + plan) option" where
  "evaluate_single_phase E m name policy f outcomes capabilities =
     map_option
       (\<lambda>phase. evaluate_phase E m phase policy f outcomes
                  \<lparr>ctx_capabilities = capabilities, ctx_phase_output_lookup = None\<rparr>)
       (find_phase policy name)"

section \<open>Capability hints\<close>

definition intersect_executors :: "string list option \<Rightarrow> string list \<Rightarrow> string list option" where
  "intersect_executors running new =
     (let new_set = remdups new in
      case running of
        Some existing \<Rightarrow> Some (filter (\<lambda>e. List.member new_set e) existing)
      | None \<Rightarrow> Some new_set)"

text \<open>The running intersection of executors and the warnings collected so far.\<close>

definition check_action_capabilities ::
  "planned_action \<Rightarrow> capability_map \<Rightarrow> string list option \<times> string list \<Rightarrow>
   string list option \<times> string list" where
  "check_action_capabilities a caps st =
     (let (all_encoders, warnings) = st;
          check_codec =
            (\<lambda>codec. let executors = encoders_for caps codec in
               (intersect_executors all_encoders executors,
                if executors = []
                then warnings @ [''No executor supports encoder '' @ [CHR 0x27] @ codec @ [CHR 0x27]]
                else warnings))
      in case pa_parameters a of
           ApTranscode codec _ \<Rightarrow> check_codec codec
         | ApSynthesize sp \<Rightarrow>
             (case sp_codec sp of Some c \<Rightarrow> check_codec c | None \<Rightarrow> (all_encoders, warnings))
         | ApContainer c \<Rightarrow>
             (let fmt = (case ffmpeg_format_name c of Some n \<Rightarrow> n | None \<Rightarrow> Container_as_str c) in
              if \<not> has_format caps fmt
              then (all_encoders,
                    warnings @ [''No executor supports format '' @ [CHR 0x27] @ fmt @ [CHR 0x27]])
              else (all_encoders, warnings))
         | _ \<Rightarrow> (all_encoders, warnings))"

definition apply_capability_hint :: "capability_map \<Rightarrow> plan \<Rightarrow> plan" where
  "apply_capability_hint caps p =
     (if Plan_is_skipped p \<or> Plan_is_empty p then p
      else
        (let (all_encoders, warnings) =
               foldl (\<lambda>st a. check_action_capabilities a caps st) (None, []) (pl_actions p);
             p1 = p\<lparr>pl_warnings := pl_warnings p @ warnings\<rparr>
         in case all_encoders of
              Some [single] \<Rightarrow> p1\<lparr>pl_executor_hint := Some single\<rparr>
            | _ \<Rightarrow> p1))"

definition apply_capability_hints :: "plan list \<Rightarrow> capability_map \<Rightarrow> plan list" where
  "apply_capability_hints plans caps =
     (if CapabilityMap_is_empty caps then plans else map (apply_capability_hint caps) plans)"

end
