(* ===== verification/Evaluator_Invariants.thy ===== *)
theory Evaluator_Invariants
  imports Evaluator
begin

text \<open>
  The contract between the evaluator and whoever relies on its plans. \<open>action_fits\<close> says what an
  action of a plan promises: its parameters have the shape its operation needs, the track it
  names exists in the file and has the right type, and the action is not redundant where the code
  looks (it does not for tags it sets, for track orders and for verifications). The locale
  \<open>plan_invariant\<close> states what a property of plans needs to survive evaluation and proves, once,
  that every \<open>emit_*\<close> function keeps it and never panics. Its interpretations give the action
  contract, the frame of a plan and the book-keeping of safeguard violations.
\<close>

section \<open>What an emitted action promises\<close>

definition track_at :: "media_file \<Rightarrow> u32 option \<Rightarrow> (track \<Rightarrow> bool) \<Rightarrow> bool" where
  "track_at f idx P = (\<exists>t \<in> set (mf_tracks f). idx = Some (tr_index t) \<and> P t)"

text \<open>A transcode to the codec the track already has is there for its loudness: the track has no
  measured loudness, or one outside the target.\<close>

definition needs_loudness :: "track \<Rightarrow> transcode_settings \<Rightarrow> bool" where
  "needs_loudness t s \<longleftrightarrow>
     (\<exists>l. ts_loudness s = Some l
          \<and> (\<forall>lufs. tr_loudness_integrated_lufs t = Some lufs \<longrightarrow> \<not> is_within_target l lufs))"

definition action_fits :: "media_file \<Rightarrow> planned_action \<Rightarrow> bool" where
  "action_fits f a =
     (params_match (pa_operation a) (pa_parameters a)
      \<and> (case pa_operation a of
           SetDefault \<Rightarrow> track_at f (pa_track_index a) (\<lambda>t. \<not> tr_is_default t)
         | ClearDefault \<Rightarrow> track_at f (pa_track_index a) tr_is_default
         | SetForced \<Rightarrow> track_at f (pa_track_index a) (\<lambda>t. \<not> tr_is_forced t)
         | ClearForced \<Rightarrow> track_at f (pa_track_index a) tr_is_forced
         | SetTitle \<Rightarrow>
             track_at f (pa_track_index a) (\<lambda>t. tr_title t \<noteq> [])
             \<and> pa_parameters a = ApTitle []
         | SetLanguage \<Rightarrow>
             track_at f (pa_track_index a) (\<lambda>t. pa_parameters a \<noteq> ApLanguage (tr_language t))
         | RemoveTrack \<Rightarrow>
             track_at f (pa_track_index a)
               (\<lambda>t. \<exists>reason. pa_parameters a = ApRemoveTrack reason (tr_track_type t))
         | ReorderTracks \<Rightarrow> pa_track_index a = None
         | ConvertContainer \<Rightarrow>
             pa_track_index a = None \<and> pa_parameters a \<noteq> ApContainer (mf_container f)
         | TranscodeVideo \<Rightarrow>
             track_at f (pa_track_index a)
               (\<lambda>t. is_video (tr_track_type t)
                    \<and> (\<forall>s. pa_parameters a \<noteq> ApTranscode (tr_codec t) s))
         | TranscodeAudio \<Rightarrow>
             track_at f (pa_track_index a)
               (\<lambda>t. is_audio (tr_track_type t)
                    \<and> (\<forall>s. pa_parameters a = ApTranscode (tr_codec t) s \<longrightarrow> needs_loudness t s))
         | SynthesizeAudio \<Rightarrow>
             (\<exists>sp. pa_parameters a = ApSynthesize sp \<and> sp_source_track sp = pa_track_index a)
             \<and> (pa_track_index a = None
                  \<or> track_at f (pa_track_index a) (\<lambda>t. is_audio (tr_track_type t)))
         | SetContainerTag \<Rightarrow> pa_track_index a = None
         | ClearContainerTags \<Rightarrow>
             pa_track_index a = None \<and> mf_tags f \<noteq> []
             \<and> pa_parameters a = ApClearTags (sort (hm_keys (mf_tags f)))
         | DeleteContainerTag \<Rightarrow>
             pa_track_index a = None
             \<and> (\<exists>tag. pa_parameters a = ApDeleteTag tag \<and> hm_contains_key (mf_tags f) tag)
         | MuxSubtitle \<Rightarrow> False
         | VerifyMedia \<Rightarrow> pa_track_index a = None
         | Quarantine \<Rightarrow> False))"

lemma track_atI: "t \<in> set (mf_tracks f) \<Longrightarrow> P t \<Longrightarrow> track_at f (Some (tr_index t)) P"
  by (auto simp: track_at_def)

lemma target_member: "t \<in> set (tracks_for_target f target) \<Longrightarrow> t \<in> set (mf_tracks f)"
  using tracks_for_target_subset by blast

section \<open>Closed forms\<close>

lemma emit_simps [emit_defs]:
  "emit_ok p = (p, None)" "emit_fail e p = (p, Some (FailedWith e))"
  "emit_modify g p = (g p, None)"
  "emit_push (Inr a) p = (p\<lparr>pl_actions := pl_actions p @ [a]\<rparr>, None)"
  by (simp_all add: emit_ok_def emit_fail_def emit_modify_def emit_push_def)

text \<open>A loop that pushes one action for each selected element appends them in order.\<close>

lemma emit_each_push:
  assumes "\<And>x. x \<in> set xs \<Longrightarrow> g x = (if P x then emit_push (Inr (act x)) else emit_ok)"
  shows "emit_each g xs p = (p\<lparr>pl_actions := pl_actions p @ map act (filter P xs)\<rparr>, None)"
  using assms by (induction xs arbitrary: p) (auto simp: emit_defs emit_seq_def)

definition remove_action :: "track_target \<Rightarrow> string \<Rightarrow> track \<Rightarrow> planned_action" where
  "remove_action target reason t =
     \<lparr>pa_operation = RemoveTrack, pa_track_index = Some (tr_index t),
      pa_parameters = ApRemoveTrack reason (tr_track_type t),
      pa_description =
        ''Remove '' @ target_str target @ '' track '' @ nat_str (tr_index t) @ '' ('' @ tr_codec t
        @ '', '' @ tr_language t @ '')''\<rparr>"

lemma emit_remove_track_eq: "emit_remove_track t target reason = emit_push (Inr (remove_action target reason t))"
  by (simp add: emit_remove_track_def remove_action_def)

lemma emit_removals:
  "emit_each (\<lambda>t. if P t then emit_remove_track t target reason else emit_ok) ts p
   = (p\<lparr>pl_actions := pl_actions p @ map (remove_action target reason) (filter P ts)\<rparr>, None)"
  by (rule emit_each_push) (simp add: emit_remove_track_eq)

definition keep_message :: "media_file \<Rightarrow> track_target \<Rightarrow> string" where
  "keep_message f target =
     ''Safeguard: kept all '' @ target_str target @ '' tracks in '' @ file_name f @ '' '' @ em_dash
     @ '' no tracks matched the keep filter, would have removed all''"

definition remove_message :: "media_file \<Rightarrow> track_target \<Rightarrow> string" where
  "remove_message f target =
     ''Safeguard: kept all '' @ target_str target @ '' tracks in '' @ file_name f @ '' '' @ em_dash
     @ '' remove operation would have removed all''"

lemma emit_keep_eq:
  "emit_keep E f ctx target flt p =
     (let tracks = tracks_for_target f target;
          keep = (\<lambda>t. filter_matches_ctx E t flt f ctx)
      in if tracks \<noteq> [] \<and> \<not> list_ex keep tracks
         then (record_safeguard AllTracksRemoved (keep_message f target) p, None)
         else (p\<lparr>pl_actions := pl_actions p
                  @ map (remove_action target ''does not match keep filter'')
                      (filter (\<lambda>t. \<not> keep t) tracks)\<rparr>, None))"
proof -
  have rm: "(case flt of None \<Rightarrow> False | Some fl \<Rightarrow> \<not> track_matches_with_context E t fl f ctx)
      = (\<not> filter_matches_ctx E t flt f ctx)" for t
    by (simp add: filter_matches_ctx_def split: option.splits)
  show ?thesis
    by (simp add: emit_keep_def Let_def rm emit_seq_def emit_removals
        emit_defs keep_message_def filter_empty_conv list_ex_iff)
qed

lemma emit_remove_eq:
  "emit_remove E f ctx target flt p =
     (let tracks = tracks_for_target f target;
          drop = (\<lambda>t. filter_matches_ctx E t flt f ctx)
      in if tracks \<noteq> [] \<and> list_all drop tracks \<and> (target = TgtVideo \<or> target = TgtAudio)
         then (record_safeguard AllTracksRemoved (remove_message f target) p, None)
         else (p\<lparr>pl_actions := pl_actions p
                  @ map (remove_action target ''matches remove filter'') (filter drop tracks)\<rparr>,
               None))"
proof -
  have rm: "(case flt of None \<Rightarrow> True | Some fl \<Rightarrow> track_matches_with_context E t fl f ctx)
      = filter_matches_ctx E t flt f ctx" for t
    by (simp add: filter_matches_ctx_def split: option.splits)
  show ?thesis
    by (simp add: emit_remove_def Let_def rm emit_seq_def emit_removals
        emit_defs remove_message_def filter_empty_conv list_all_iff)
qed

definition initial_plan :: "mint \<Rightarrow> compiled_phase \<Rightarrow> compiled_policy \<Rightarrow> media_file \<Rightarrow> plan" where
  "initial_plan m phase policy f =
     (Plan_new m f (pol_name policy) (cp_name phase))
       \<lparr>pl_policy_hash :=
          (if pol_source_hash policy = [] then None else Some (pol_source_hash policy))\<rparr>"

lemma evaluate_phase_eq:
  "evaluate_phase E m phase policy f outcomes ctx =
     (case check_skip_conditions E phase f outcomes ctx of
        Some reason \<Rightarrow> Inr ((initial_plan m phase policy f)\<lparr>pl_skip_reason := Some reason\<rparr>)
      | None \<Rightarrow>
          (case emit_operations E f ctx (cp_on_error phase) (cp_operations phase)
                  (initial_plan m phase policy f) of
             Inl msg \<Rightarrow> Inl msg
           | Inr p \<Rightarrow> Inr (apply_safeguards f p)))"
  unfolding evaluate_phase_def initial_plan_def Let_def by simp

section \<open>Invariants of plans under construction\<close>

locale plan_invariant =
  fixes f :: media_file and I :: "plan \<Rightarrow> bool"
  assumes push: "I p \<Longrightarrow> action_fits f a \<Longrightarrow> I (p\<lparr>pl_actions := pl_actions p @ [a]\<rparr>)"
    and retract: "I p \<Longrightarrow> subseq as (pl_actions p) \<Longrightarrow> I (p\<lparr>pl_actions := as\<rparr>)"
    and warn: "I p \<Longrightarrow> I (p\<lparr>pl_warnings := pl_warnings p @ [w]\<rparr>)"
    and safeguard: "I p \<Longrightarrow> I (record_safeguard kind msg p)"
    and skip: "I p \<Longrightarrow> (\<And>d. r \<noteq> dependency_reason d) \<Longrightarrow> I (p\<lparr>pl_skip_reason := Some r\<rparr>)"
begin

definition keeps :: "emit \<Rightarrow> bool" where
  "keeps g \<longleftrightarrow> (\<forall>p. I p \<longrightarrow> I (fst (g p)) \<and> (\<forall>msg. snd (g p) \<noteq> Some (Panicked msg)))"

lemma keepsI: "(\<And>p. I p \<Longrightarrow> I (fst (g p)) \<and> (\<forall>msg. snd (g p) \<noteq> Some (Panicked msg))) \<Longrightarrow> keeps g"
  by (simp add: keeps_def)

lemma keeps_ok [intro!]: "keeps emit_ok"
  by (simp add: keeps_def emit_ok_def)

lemma keeps_fail [intro!]: "keeps (emit_fail e)"
  by (simp add: keeps_def emit_fail_def)

lemma keeps_modify [intro]: "(\<And>p. I p \<Longrightarrow> I (g p)) \<Longrightarrow> keeps (emit_modify g)"
  by (simp add: keeps_def emit_modify_def)

lemma keeps_seq [intro]: "keeps g \<Longrightarrow> keeps h \<Longrightarrow> keeps (emit_seq g h)"
  by (fastforce simp: keeps_def emit_seq_def split: prod.splits option.splits)

lemma keeps_each [intro]: "(\<And>x. x \<in> set xs \<Longrightarrow> keeps (g x)) \<Longrightarrow> keeps (emit_each g xs)"
  by (induction xs) auto

lemma keeps_push [intro]: "action_fits f a \<Longrightarrow> keeps (emit_push (Inr a))"
  by (simp add: keeps_def emit_push_def push)

lemma keeps_file_op:
  "params_match op ps \<Longrightarrow>
   action_fits f \<lparr>pa_operation = op, pa_track_index = None, pa_parameters = ps, pa_description = d\<rparr>
   \<Longrightarrow> keeps (emit_push (file_op op ps d))"
  by auto

lemma keeps_track_op:
  "params_match op ps \<Longrightarrow>
   action_fits f
     \<lparr>pa_operation = op, pa_track_index = Some i, pa_parameters = ps, pa_description = d\<rparr>
   \<Longrightarrow> keeps (emit_push (track_op op i ps d))"
  by auto

lemma keeps_if [intro]: "(b \<Longrightarrow> keeps g) \<Longrightarrow> (\<not> b \<Longrightarrow> keeps h) \<Longrightarrow> keeps (if b then g else h)"
  by simp

lemma keeps_option:
  "(\<And>y. keeps (g y)) \<Longrightarrow> keeps h \<Longrightarrow> keeps (case x of None \<Rightarrow> h | Some y \<Rightarrow> g y)"
  by (simp split: option.split)

lemma keeps_remove_track:
  "t \<in> set (mf_tracks f) \<Longrightarrow> keeps (emit_remove_track t target reason)"
  unfolding emit_remove_track_def
  by (rule keeps_track_op) (auto simp: action_fits_def intro: track_atI)

lemma keeps_set_container: "keeps (emit_set_container c f)"
  unfolding emit_set_container_def by (auto intro!: keeps_file_op simp: action_fits_def)

lemma keeps_verify: "keeps (emit_verify mode)"
  unfolding emit_verify_def by (auto intro!: keeps_file_op simp: action_fits_def)

lemma keeps_reorder: "keeps (emit_reorder order)"
  unfolding emit_reorder_def by (auto intro!: keeps_file_op simp: action_fits_def)

lemma keeps_clear_tags: "keeps (emit_clear_tags f)"
  unfolding emit_clear_tags_def Let_def by (auto intro!: keeps_file_op simp: action_fits_def)

lemma keeps_delete_tag: "keeps (emit_delete_tag f tag)"
  unfolding emit_delete_tag_def by (auto intro!: keeps_file_op simp: action_fits_def)

lemma keeps_set_tag: "keeps (emit_set_tag E f ctx tag v)"
  unfolding emit_set_tag_def
  by (cases "resolve_value_or_field E v f ctx") (auto intro!: keeps_file_op simp: action_fits_def)

lemma keeps_normalize: "keeps (emit_normalize_audio E f ctx target flt settings)"
  unfolding emit_normalize_audio_def Let_def
  by (auto intro!: keeps_if keeps_each keeps_track_op
      simp: action_fits_def needs_loudness_def tracks_for_target_def set_audio_tracks with_loudness_def
      intro!: track_atI split: option.splits)

lemma append_fits: "I p \<Longrightarrow> list_all (action_fits f) as \<Longrightarrow> I (p\<lparr>pl_actions := pl_actions p @ as\<rparr>)"
proof (induction as rule: rev_induct)
  case (snoc a as)
  then show ?case using push [of "p\<lparr>pl_actions := pl_actions p @ as\<rparr>" a] by simp
qed simp

lemma keeps_removals:
  "I p \<Longrightarrow> set ts \<subseteq> set (mf_tracks f) \<Longrightarrow>
   I (p\<lparr>pl_actions := pl_actions p @ map (remove_action target reason) ts\<rparr>)"
  by (rule append_fits)
    (auto simp: list_all_iff remove_action_def action_fits_def intro!: track_atI)

lemma keeps_keep: "keeps (emit_keep E f ctx target flt)"
  by (rule keepsI)
    (auto simp: emit_keep_eq Let_def target_member intro!: safeguard keeps_removals)

lemma keeps_remove: "keeps (emit_remove E f ctx target flt)"
  by (rule keepsI)
    (auto simp: emit_remove_eq Let_def target_member intro!: safeguard keeps_removals)

lemma keeps_flag_ops:
  assumes "t \<in> set (mf_tracks f)"
  shows "\<not> tr_is_default t \<Longrightarrow> keeps (emit_set_default target t d)"
    and "tr_is_default t \<Longrightarrow> keeps (emit_clear_default target t d)"
    and "tr_is_forced t \<Longrightarrow> keeps (emit_clear_forced target t)"
    and "tr_title t \<noteq> [] \<Longrightarrow> keeps (emit_clear_title target t)"
  unfolding emit_set_default_def emit_clear_default_def emit_clear_forced_def emit_clear_title_def
  using assms by (auto intro!: keeps_track_op track_atI simp: action_fits_def)

lemma keeps_defaults_per_language:
  "set ts \<subseteq> set (mf_tracks f) \<Longrightarrow> keeps (emit_defaults_per_language_loop target seen ts)"
  by (induction ts arbitrary: seen) (auto simp: Let_def intro!: keeps_if keeps_seq keeps_flag_ops)

lemma keeps_defaults:
  assumes "set ts \<subseteq> set (mf_tracks f)"
  shows "keeps (emit_defaults_none target ts)" "keeps (emit_defaults_first target ts)"
    "keeps (emit_defaults_first_per_language target ts)" "keeps (emit_defaults_all target ts)"
proof -
  show "keeps (emit_defaults_first target ts)"
    unfolding emit_defaults_first_def using assms
    by (cases ts) (auto intro!: keeps_if keeps_seq keeps_each keeps_flag_ops)
  show "keeps (emit_defaults_first_per_language target ts)"
    unfolding emit_defaults_first_per_language_def by (rule keeps_defaults_per_language [OF assms])
qed (use assms in \<open>auto simp: emit_defaults_none_def emit_defaults_all_def
      intro!: keeps_each keeps_if keeps_flag_ops\<close>)

lemma keeps_set_defaults: "keeps (emit_set_defaults f defaults)"
proof -
  have "keeps (case cdf_strategy d of
        NoDefaults \<Rightarrow> emit_defaults_none (cdf_target d) (tracks_for_target f (cdf_target d))
      | First \<Rightarrow> emit_defaults_first (cdf_target d) (tracks_for_target f (cdf_target d))
      | FirstPerLanguage \<Rightarrow>
          emit_defaults_first_per_language (cdf_target d) (tracks_for_target f (cdf_target d))
      | AllDefaults \<Rightarrow> emit_defaults_all (cdf_target d) (tracks_for_target f (cdf_target d)))" for d
    by (cases "cdf_strategy d") (simp_all add: keeps_defaults tracks_for_target_subset)
  then show ?thesis unfolding emit_set_defaults_def Let_def by (intro keeps_each)
qed

lemma keeps_clear_actions: "keeps (emit_clear_actions f target settings)"
  unfolding emit_clear_actions_def
  by (intro keeps_each keeps_seq keeps_if keeps_ok) (auto intro!: keeps_flag_ops target_member)

lemma keeps_transcode: "keeps (emit_transcode f ctx target codec settings)"
proof -
  have blocked: "keeps (emit_modify (\<lambda>p.
      p\<lparr>pl_skip_reason := Some (''hw backend '' @ r), pl_actions := []\<rparr>))" for r
  proof (rule keeps_modify)
    fix p assume "I p"
    then have "I (p\<lparr>pl_skip_reason := Some (''hw backend '' @ r)\<rparr>)"
      by (rule skip) (simp add: dependency_reason_def)
    from retract [OF this, of "[]"]
    show "I (p\<lparr>pl_skip_reason := Some (''hw backend '' @ r), pl_actions := []\<rparr>)" by simp
  qed
  have push: "keeps (emit_each
      (\<lambda>t. if tr_codec t = codec then emit_ok
           else if list_ex (\<lambda>q. q = tr_codec t) (cts_preserve settings) then emit_ok
           else emit_push (track_op op (tr_index t)
                  (ApTranscode codec (transcode_settings_from settings)) (d t)))
      (tracks_for_target f tg))"
    if "(tg, op) \<in> {(TgtVideo, TranscodeVideo), (TgtAudio, TranscodeAudio)}" for tg op d
    using that
    by (intro keeps_each keeps_if keeps_ok keeps_track_op)
      (auto simp: tracks_for_target_def set_video_tracks set_audio_tracks action_fits_def is_video_def
        intro!: track_atI)
  show ?thesis
    unfolding emit_transcode_def Let_def
    by (cases target; simp only: track_target.case option.case)
      ((intro keeps_option blocked push keeps_ok; simp)+)
qed

lemma synth_source_audio:
  "synth_source_index E f ctx synth = Some i \<Longrightarrow> track_at f (Some i) (\<lambda>t. is_audio (tr_track_type t))"
  by (auto simp: synth_source_index_def Let_def find_Some_iff track_at_def set_audio_tracks
      dest!: nth_mem split: option.splits list.splits)
    (metis (mono_tags, lifting) list.set_intros(1) mem_Collect_eq set_audio_tracks)+

lemma keeps_synthesize: "keeps (emit_synthesize E f ctx synth)"
proof -
  have "keeps (emit_push (case synth_source_index E f ctx synth of
      Some idx \<Rightarrow> track_op SynthesizeAudio idx (ApSynthesize sy) d
    | None \<Rightarrow> file_op SynthesizeAudio (ApSynthesize sy) d))"
    if "sp_source_track sy = synth_source_index E f ctx synth" for sy d
    using that
    by (auto split: option.split intro!: keeps_push
        simp: action_fits_def dest: synth_source_audio)
  then show ?thesis
    unfolding emit_synthesize_def Let_def by (intro keeps_if keeps_ok) simp
qed

lemma keeps_flag_action: "keeps (emit_flag_action E f ctx target flt kind)"
  unfolding emit_flag_action_def
  by (cases kind)
    (auto intro!: keeps_each keeps_if keeps_track_op track_atI target_member simp: action_fits_def)

lemma keeps_set_language: "keeps (emit_set_language E f ctx target flt v)"
  unfolding emit_set_language_def
  by (cases "resolve_value_or_field E v f ctx")
    (auto intro!: keeps_each keeps_if keeps_track_op track_atI target_member simp: action_fits_def)

lemma keeps_action: "keeps (emit_action E f ctx act)"
  unfolding emit_action_def
  by (cases act)
    (auto intro!: keeps_keep keeps_remove keeps_flag_action keeps_set_language keeps_set_tag
      keeps_modify warn skip simp: dependency_reason_def split: option.split)

lemma keeps_rules: "keeps (emit_rules_loop E f ctx mode rules)"
  by (induction rules) (auto intro!: keeps_seq keeps_each keeps_action)

lemma keeps_operation: "keeps (emit_operation E f ctx op)"
  unfolding emit_operation_def emit_conditional_def
  by (cases op)
    (auto intro!: keeps_set_container keeps_keep keeps_remove keeps_reorder keeps_set_defaults
      keeps_clear_actions keeps_transcode keeps_seq keeps_normalize keeps_synthesize keeps_clear_tags
      keeps_set_tag keeps_delete_tag keeps_each keeps_action keeps_rules keeps_verify)

lemma emit_operations_keep:
  "I p \<Longrightarrow> \<exists>q. emit_operations E f ctx on_error ops p = Inr q \<and> I q"
proof (induction ops arbitrary: p)
  case (Cons op ops)
  obtain p' r where e: "emit_operation E f ctx op p = (p', r)" by (cases "emit_operation E f ctx op p")
  with keeps_operation [of E ctx op] Cons.prems
  have "I p'" "\<And>msg. r \<noteq> Some (Panicked msg)" by (auto simp: keeps_def dest!: spec [of _ p])
  with e Cons.IH show ?case
    by (auto split: option.split emit_failure.split error_strategy.split intro!: warn skip
        simp: dependency_reason_def)
qed simp

lemma retain: "I p \<Longrightarrow> I (p\<lparr>pl_actions := filter P (pl_actions p)\<rparr>)"
  by (rule retract) (simp_all add: subseq_filter_left)

lemma safeguard_type_keep: "I p \<Longrightarrow> I (apply_safeguard_for_track_type f rm fn tc kind label p)"
  by (auto simp: apply_safeguard_for_track_type_def Let_def intro!: safeguard retain)

lemma safeguard_container_keep: "I p \<Longrightarrow> I (apply_container_safeguard f fn p)"
  by (auto simp: apply_container_safeguard_def Let_def split: option.split
      intro!: safeguard retain)

lemma safeguards_keep: "I p \<Longrightarrow> I (apply_safeguards f p)"
  by (simp add: apply_safeguards_def Let_def safeguard_container_keep safeguard_type_keep)

lemma evaluate_phase_keeps:
  assumes "I (initial_plan m phase policy f)"
    and "\<And>r. check_skip_conditions E phase f outcomes ctx = Some r \<Longrightarrow>
      I ((initial_plan m phase policy f)\<lparr>pl_skip_reason := Some r\<rparr>)"
  shows "\<exists>p. evaluate_phase E m phase policy f outcomes ctx = Inr p \<and> I p"
proof -
  obtain q where "emit_operations E f ctx (cp_on_error phase) (cp_operations phase)
      (initial_plan m phase policy f) = Inr q" "I q"
    using emit_operations_keep [OF assms(1)] by blast
  then show ?thesis
    by (auto simp: evaluate_phase_eq safeguards_keep split: option.split intro: assms)
qed

end

end
