(* ===== verification/Evaluator_Correct.thy ===== *)
theory Evaluator_Correct
  imports Evaluator_Invariants
begin

text \<open>
  What the plans of the policy evaluator guarantee: the interpretations of \<open>plan_invariant\<close>, the
  safeguards, the default-flag strategies and the order of phases.
\<close>

lemma subseq_setD: "subseq xs ys \<Longrightarrow> x \<in> set xs \<Longrightarrow> x \<in> set ys"
  by (auto dest: list_emb_set)

section \<open>Interpretations of the plan invariant\<close>

interpretation fits: plan_invariant f "\<lambda>p. list_all (action_fits f) (pl_actions p)" for f
  by unfold_locales
    (auto simp: list_all_iff record_safeguard_def dest: subseq_setD)

interpretation frame: plan_invariant f
  "\<lambda>p. pl_file p = f \<and> pl_policy_name p = n \<and> pl_phase_name p = ph \<and> pl_policy_hash p = h
       \<and> pl_id p = i \<and> pl_evaluated_at p = t \<and> pl_executor_hint p = None"
  for f n ph h i t
  by unfold_locales (simp_all add: record_safeguard_def)

definition violations_reported :: "string \<Rightarrow> plan \<Rightarrow> bool" where
  "violations_reported ph p \<longleftrightarrow>
     pl_phase_name p = ph
     \<and> list_all (\<lambda>v. sv_phase_name v = ph \<and> sv_message v \<in> set (pl_warnings p))
         (pl_safeguard_violations p)"

interpretation report: plan_invariant f "violations_reported ph" for f ph
  by unfold_locales
    (auto simp: violations_reported_def record_safeguard_def SafeguardViolation_new_def list_all_iff)

text \<open>No operation of a phase makes it look as if a dependency had not been executed.\<close>

interpretation skipped: plan_invariant f "\<lambda>p. \<forall>d. pl_skip_reason p \<noteq> Some (dependency_reason d)" for f
  by unfold_locales (simp_all add: record_safeguard_def)

lemma initial_plan_simps [simp]:
  "pl_actions (initial_plan m phase policy f) = []"
  "pl_warnings (initial_plan m phase policy f) = []"
  "pl_safeguard_violations (initial_plan m phase policy f) = []"
  "pl_skip_reason (initial_plan m phase policy f) = None"
  "pl_file (initial_plan m phase policy f) = f"
  "pl_policy_name (initial_plan m phase policy f) = pol_name policy"
  "pl_phase_name (initial_plan m phase policy f) = cp_name phase"
  "pl_id (initial_plan m phase policy f) = mint_uuid m"
  "pl_evaluated_at (initial_plan m phase policy f) = mint_now m"
  "pl_executor_hint (initial_plan m phase policy f) = None"
  "pl_policy_hash (initial_plan m phase policy f) =
     (if pol_source_hash policy = [] then None else Some (pol_source_hash policy))"
  by (simp_all add: initial_plan_def Plan_new_def)

text \<open>The promises of one evaluated phase, in one predicate.\<close>

definition phase_plan_ok :: "compiled_policy \<Rightarrow> compiled_phase \<Rightarrow> media_file \<Rightarrow> plan \<Rightarrow> bool" where
  "phase_plan_ok policy phase f p \<longleftrightarrow>
     list_all (action_fits f) (pl_actions p)
     \<and> pl_file p = f \<and> pl_policy_name p = pol_name policy \<and> pl_phase_name p = cp_name phase
     \<and> violations_reported (cp_name phase) p"

lemma evaluate_phase_ok:
  "\<exists>p. evaluate_phase E m phase policy f outcomes ctx = Inr p \<and> phase_plan_ok policy phase f p"
proof -
  obtain p where p: "evaluate_phase E m phase policy f outcomes ctx = Inr p"
    "list_all (action_fits f) (pl_actions p)"
    using fits.evaluate_phase_keeps [of f m phase policy E outcomes ctx] by auto
  moreover have "pl_file p = f \<and> pl_policy_name p = pol_name policy \<and> pl_phase_name p = cp_name phase"
    using frame.evaluate_phase_keeps [where f = f and n = "pol_name policy" and ph = "cp_name phase"
        and h = "pl_policy_hash (initial_plan m phase policy f)" and i = "mint_uuid m"
        and t = "mint_now m" and m = m and phase = phase and policy = policy and E = E
        and outcomes = outcomes and ctx = ctx] p(1) by auto
  moreover have "violations_reported (cp_name phase) p"
    using report.evaluate_phase_keeps [where f = f and ph = "cp_name phase" and m = m
        and phase = phase and policy = policy and E = E and outcomes = outcomes and ctx = ctx] p(1)
    by (auto simp: violations_reported_def)
  ultimately show ?thesis by (auto simp: phase_plan_ok_def)
qed

section \<open>Safeguards\<close>

definition survives :: "plan \<Rightarrow> track \<Rightarrow> bool" where
  "survives p t \<longleftrightarrow> tr_index t \<notin> set (removed_indices p)"

lemma set_removed_indices:
  "set (removed_indices p)
   = {i. \<exists>a \<in> set (pl_actions p). pa_operation a = RemoveTrack \<and> pa_track_index a = Some i}"
  by (auto simp: removed_indices_def map_filter_def image_iff split: if_splits) force

lemma removed_indices_mono:
  "set (pl_actions q) \<subseteq> set (pl_actions p) \<Longrightarrow> set (removed_indices q) \<subseteq> set (removed_indices p)"
  by (auto simp: set_removed_indices)

lemma record_safeguard_simps [simp]:
  "pl_actions (record_safeguard k m p) = pl_actions p"
  "pl_skip_reason (record_safeguard k m p) = pl_skip_reason p"
  by (simp_all add: record_safeguard_def)

lemma safeguard_type_actions:
  "set (pl_actions (apply_safeguard_for_track_type f rm fn tc kind label p)) \<subseteq> set (pl_actions p)"
  by (auto simp: apply_safeguard_for_track_type_def Let_def)

lemma safeguard_container_actions:
  "set (pl_actions (apply_container_safeguard f fn p)) \<subseteq> set (pl_actions p)"
  by (auto simp: apply_container_safeguard_def Let_def split: option.split)

lemma safeguard_type_survivor:
  assumes "t \<in> set (mf_tracks f)" "tc (tr_track_type t)" "set (removed_indices p) \<subseteq> set rm"
  shows "\<exists>u \<in> set (mf_tracks f). tc (tr_track_type u)
    \<and> survives (apply_safeguard_for_track_type f rm fn tc kind label p) u"
proof (cases "\<exists>u \<in> set (mf_tracks f). tc (tr_track_type u) \<and> tr_index u \<notin> set rm")
  case True
  then show ?thesis
    using removed_indices_mono [OF safeguard_type_actions, of f rm fn tc kind label p] assms(3)
    by (auto simp: survives_def)
next
  case False
  then have "survives (apply_safeguard_for_track_type f rm fn tc kind label p) t"
    using assms(1,2)
    by (auto simp: survives_def apply_safeguard_for_track_type_def Let_def set_removed_indices
        filter_empty_conv list_ex_iff)
  with assms show ?thesis by blast
qed

lemma survives_mono:
  "set (pl_actions q) \<subseteq> set (pl_actions p) \<Longrightarrow> survives p t \<Longrightarrow> survives q t"
  using removed_indices_mono by (auto simp: survives_def)

lemma apply_safeguards_survivor:
  assumes "\<not> Plan_is_skipped p" "t \<in> set (mf_tracks f)" "tc (tr_track_type t)"
    and "tc = is_video \<or> tc = is_audio"
  shows "\<exists>u \<in> set (mf_tracks f). tc (tr_track_type u) \<and> survives (apply_safeguards f p) u"
proof -
  define rm where "rm = removed_indices p"
  define v where "v = apply_safeguard_for_track_type f rm (file_name f) is_video NoVideoTrack ''video'' p"
  define a where "a = apply_safeguard_for_track_type f rm (file_name f) is_audio NoAudioTrack ''audio'' v"
  have va: "set (pl_actions a) \<subseteq> set (pl_actions v)" "set (pl_actions v) \<subseteq> set (pl_actions p)"
    unfolding a_def v_def by (rule safeguard_type_actions)+
  have "\<exists>u \<in> set (mf_tracks f). tc (tr_track_type u)
      \<and> survives (if rm \<noteq> [] then a else p) u"
  proof (cases "rm = []")
    case True
    with assms show ?thesis by (auto simp: survives_def rm_def)
  next
    case False
    have "\<exists>u \<in> set (mf_tracks f). tc (tr_track_type u) \<and> survives a u"
      using assms(4)
    proof
      assume "tc = is_video"
      with assms(2,3) safeguard_type_survivor [of t f is_video p rm] show ?thesis
        unfolding v_def [symmetric] rm_def by (metis survives_mono va(1) v_def rm_def subset_refl)
    next
      assume "tc = is_audio"
      with assms(2,3) safeguard_type_survivor [of t f is_audio v rm] removed_indices_mono [OF va(2)]
      show ?thesis unfolding a_def rm_def by blast
    qed
    with False show ?thesis by simp
  qed
  moreover have "set (pl_actions (apply_safeguards f p)) \<subseteq> set (pl_actions (if rm \<noteq> [] then a else p))"
    using assms(1) safeguard_container_actions
    by (auto simp: apply_safeguards_def Let_def rm_def a_def v_def)
  ultimately show ?thesis using survives_mono by blast
qed

lemma apply_safeguards_skip [simp]: "pl_skip_reason (apply_safeguards f p) = pl_skip_reason p"
proof -
  have t: "pl_skip_reason (apply_safeguard_for_track_type f rm fn tc kind label q) = pl_skip_reason q"
    for rm fn tc kind label q
    by (simp add: apply_safeguard_for_track_type_def Let_def)
  have "pl_skip_reason (apply_container_safeguard f fn q) = pl_skip_reason q" for fn q
    by (simp add: apply_container_safeguard_def Let_def split: option.split)
  with t show ?thesis by (simp add: apply_safeguards_def Let_def)
qed

lemma evaluate_phase_cases:
  assumes "evaluate_phase E m phase policy f outcomes ctx = Inr p" "\<not> Plan_is_skipped p"
  obtains q where "p = apply_safeguards f q" "\<not> Plan_is_skipped q"
    "emit_operations E f ctx (cp_on_error phase) (cp_operations phase)
       (initial_plan m phase policy f) = Inr q"
  using assms
  by (auto simp: evaluate_phase_eq Plan_is_skipped_def split: option.splits sum.splits)

lemma evaluate_phase_survivor:
  assumes "evaluate_phase E m phase policy f outcomes ctx = Inr p" "\<not> Plan_is_skipped p"
    and "tc = is_video \<or> tc = is_audio" "t \<in> set (mf_tracks f)" "tc (tr_track_type t)"
  shows "\<exists>u \<in> set (mf_tracks f). tc (tr_track_type u) \<and> survives p u"
  using assms(1,2)
proof (rule evaluate_phase_cases)
  fix q assume "p = apply_safeguards f q" "\<not> Plan_is_skipped q"
  with apply_safeguards_survivor [OF _ assms(4,5,3)] show ?thesis by simp
qed

text \<open>The codecs that a plan leaves in the file: those of the surviving tracks, after
  transcoding, and those of the tracks it synthesizes.\<close>

definition resulting_codecs :: "media_file \<Rightarrow> plan \<Rightarrow> string set" where
  "resulting_codecs f p =
     effective_codec (pl_actions p) ` {t \<in> set (mf_tracks f). survives p t}
     \<union> {codec. \<exists>a sp. a \<in> set (pl_actions p) \<and> pa_operation a = SynthesizeAudio
                      \<and> pa_parameters a = ApSynthesize sp \<and> sp_codec sp = Some codec}"

lemma map_filter_Nil: "List.map_filter g xs = [] \<longleftrightarrow> (\<forall>x \<in> set xs. g x = None)"
  by (induction xs) (auto simp: map_filter_simps split: option.splits)

lemma offenders_empty:
  "track_offenders c f p = [] \<and> synth_offenders c p = []
   \<longleftrightarrow> (\<forall>codec \<in> resulting_codecs f p. codec_supported c codec \<noteq> Some False)"
proof -
  have "track_offenders c f p = [] \<longleftrightarrow>
      (\<forall>t \<in> set (mf_tracks f). survives p t \<longrightarrow>
         codec_supported c (effective_codec (pl_actions p) t) \<noteq> Some False)"
    by (auto simp: track_offenders_def map_filter_Nil survives_def Let_def)
  moreover have "synth_offenders c p = [] \<longleftrightarrow>
      (\<forall>a \<in> set (pl_actions p). \<forall>sp codec. pa_operation a = SynthesizeAudio \<longrightarrow>
         pa_parameters a = ApSynthesize sp \<longrightarrow> sp_codec sp = Some codec \<longrightarrow>
         codec_supported c codec \<noteq> Some False)"
    unfolding synth_offenders_def map_filter_Nil
    by (rule ball_cong [OF refl]) (simp split: action_params.split option.split)
  ultimately show ?thesis unfolding resulting_codecs_def by blast
qed

lemma container_target_None:
  "container_target as = None \<longleftrightarrow>
     (\<forall>a \<in> set as. \<forall>c. pa_operation a = ConvertContainer \<longrightarrow> pa_parameters a \<noteq> ApContainer c)"
  by (auto simp: container_target_def find_map_None split: action_params.splits)

lemma container_safeguard_supported:
  assumes "container_target (pl_actions (apply_container_safeguard f fn q)) = Some c"
  shows "\<forall>codec \<in> resulting_codecs f (apply_container_safeguard f fn q).
    codec_supported c codec \<noteq> Some False"
proof (cases "container_target (pl_actions q)")
  case None
  with assms show ?thesis by (simp add: apply_container_safeguard_def)
next
  case (Some d)
  show ?thesis
  proof (cases "track_offenders d f q @ synth_offenders d q = []")
    case True
    with Some have "apply_container_safeguard f fn q = q"
      by (simp add: apply_container_safeguard_def)
    with assms Some True show ?thesis using offenders_empty [of d f q] by simp
  next
    case False
    with Some have "pl_actions (apply_container_safeguard f fn q)
        = filter (\<lambda>a. pa_operation a \<noteq> ConvertContainer) (pl_actions q)"
      by (auto simp: apply_container_safeguard_def Let_def)
    then have "container_target (pl_actions (apply_container_safeguard f fn q)) = None"
      by (simp add: container_target_None)
    with assms show ?thesis by simp
  qed
qed

lemma evaluate_phase_container:
  assumes "evaluate_phase E m phase policy f outcomes ctx = Inr p" "\<not> Plan_is_skipped p"
    and "container_target (pl_actions p) = Some c"
  shows "\<forall>codec \<in> resulting_codecs f p. codec_supported c codec \<noteq> Some False"
  using assms(1,2)
proof (rule evaluate_phase_cases)
  fix q assume "p = apply_safeguards f q" "\<not> Plan_is_skipped q"
  with assms(3) show ?thesis
    by (auto simp: apply_safeguards_def Let_def dest!: container_safeguard_supported)
qed

section \<open>Evaluating a whole policy\<close>

lemma hm_insert_fresh: "k \<notin> set (map fst m) \<Longrightarrow> hm_insert k v m = m @ [(k, v)]"
  by (induction m) (auto simp: hm_insert_def)

lemma hm_get_zip:
  "distinct ks \<Longrightarrow> length ks = length vs \<Longrightarrow> i < length ks \<Longrightarrow> hm_get (zip ks vs) (ks ! i) = Some (vs ! i)"
  by (simp add: hm_get_def map_of_zip_nth)

text \<open>Phase \<open>i\<close> is evaluated with the outcomes of exactly the phases before it.\<close>

definition outcomes_before :: "string list \<Rightarrow> plan list \<Rightarrow> nat \<Rightarrow> (string, evaluation_outcome) hashmap" where
  "outcomes_before names plans i = zip (take i names) (map plan_outcome (take i plans))"

lemma evaluate_phases_spec:
  assumes "distinct (map fst done @ names)" "\<forall>n \<in> set names. find_phase policy n \<noteq> None"
    and "done = zip (map fst done) (map plan_outcome plans)" "length plans = length done"
  shows "\<exists>ps. evaluate_phases E mints policy f ctx names plans done = Inr (plans @ ps)
    \<and> length ps = length names
    \<and> (\<forall>i < length names. \<exists>phase. find_phase policy (names ! i) = Some phase
         \<and> evaluate_phase E (mints (length plans + i)) phase policy f
             (done @ outcomes_before names ps i) ctx = Inr (ps ! i))"
  using assms
proof (induction names arbitrary: plans "done")
  case Nil
  then show ?case by simp
next
  case (Cons n names)
  obtain phase where ph: "find_phase policy n = Some phase" using Cons.prems by auto
  obtain p where p: "evaluate_phase E (mints (length plans)) phase policy f done ctx = Inr p"
    using evaluate_phase_ok by blast
  define done' where "done' = done @ [(n, plan_outcome p)]"
  have ins: "hm_insert n (plan_outcome p) done = done'"
    using Cons.prems(1) by (simp add: done'_def hm_insert_fresh)
  have "done' = zip (map fst done') (map plan_outcome (plans @ [p]))"
    using Cons.prems(3,4) by (simp add: done'_def)
  moreover have "distinct (map fst done' @ names)" using Cons.prems(1) by (auto simp: done'_def)
  ultimately obtain ps where ps:
    "evaluate_phases E mints policy f ctx names (plans @ [p]) done' = Inr ((plans @ [p]) @ ps)"
    "length ps = length names"
    "\<forall>i < length names. \<exists>phase. find_phase policy (names ! i) = Some phase
         \<and> evaluate_phase E (mints (length (plans @ [p]) + i)) phase policy f
             (done' @ outcomes_before names ps i) ctx = Inr (ps ! i)"
    using Cons.IH [of done' "plans @ [p]"] Cons.prems(2,4) by (auto simp: done'_def)
  have "\<exists>phase. find_phase policy ((n # names) ! i) = Some phase
      \<and> evaluate_phase E (mints (length plans + i)) phase policy f
          (done @ outcomes_before (n # names) (p # ps) i) ctx = Inr ((p # ps) ! i)"
    if "i < length (n # names)" for i
    using that ph p ps(3) by (cases i) (auto simp: outcomes_before_def done'_def)
  with ph p ps(1,2) show ?case by (intro exI [of _ "p # ps"]) (simp add: ins)
qed

text \<open>Without any assumption on the policy, evaluation returns one sound plan for each entry of the
  phase order that names a phase.\<close>

lemma evaluate_phases_total:
  "\<exists>ps. evaluate_phases E mints policy f ctx names plans done = Inr (plans @ ps)
    \<and> map pl_phase_name ps = filter (\<lambda>n. find_phase policy n \<noteq> None) names
    \<and> list_all (\<lambda>p. \<exists>phase. phase_plan_ok policy phase f p) ps"
proof (induction names arbitrary: plans "done")
  case (Cons n names)
  show ?case
  proof (cases "find_phase policy n")
    case None
    then show ?thesis using Cons.IH [of plans "done"] by simp
  next
    case (Some phase)
    obtain p where p: "evaluate_phase E (mints (length plans)) phase policy f done ctx = Inr p"
      "phase_plan_ok policy phase f p" using evaluate_phase_ok by blast
    have "cp_name phase = n" using Some by (auto simp: find_phase_def find_Some_iff)
    then have "pl_phase_name p = n" using p(2) by (simp add: phase_plan_ok_def)
    moreover obtain ps where "evaluate_phases E mints policy f ctx names (plans @ [p])
          (hm_insert n (plan_outcome p) done) = Inr ((plans @ [p]) @ ps)"
      "map pl_phase_name ps = filter (\<lambda>n. find_phase policy n \<noteq> None) names"
      "list_all (\<lambda>p. \<exists>phase. phase_plan_ok policy phase f p) ps"
      using Cons.IH [of "plans @ [p]"] by blast
    ultimately show ?thesis using Some p by (intro exI [of _ "p # ps"]) auto
  qed
qed simp

definition phase_deps :: "compiled_policy \<Rightarrow> string \<Rightarrow> string list" where
  "phase_deps policy n = (case find_phase policy n of None \<Rightarrow> [] | Some ph \<Rightarrow> cp_depends_on ph)"

lemma outcomes_before_get:
  assumes "distinct names" "length plans = length names" "i \<le> length names" "j < i"
  shows "hm_get (outcomes_before names plans i) (names ! j) = Some (plan_outcome (plans ! j))"
  using hm_get_zip [of "take i names" "map plan_outcome (take i plans)" j] assms
  by (simp add: outcomes_before_def)

lemma run_if_outcome:
  assumes "hm_get outcomes (cri_phase r) = Some (plan_outcome p)"
  shows "run_if_satisfied outcomes r \<longleftrightarrow>
    \<not> Plan_is_skipped p \<and> (cri_trigger r = Modified \<longrightarrow> \<not> Plan_is_empty p)"
  using assms by (auto simp: run_if_satisfied_def plan_outcome_def split: run_if_trigger.splits)

lemma no_dependency_skip:
  assumes "\<forall>d \<in> set (cp_depends_on phase). hm_get outcomes d \<noteq> None"
  shows "check_skip_conditions E phase f outcomes ctx \<noteq> Some (dependency_reason d)"
proof -
  have "find (\<lambda>dep. hm_get outcomes dep = None) (cp_depends_on phase) = None"
    using assms by (simp add: find_None_iff)
  then show ?thesis
    by (simp add: check_skip_conditions_def Let_def dependency_reason_def
        split: option.split)
qed

text \<open>So the reason a plan carries is that of its phase: with all dependencies evaluated, it is never
  a missing dependency.\<close>

lemma plan_not_skipped_for_dependency:
  assumes "\<forall>d \<in> set (cp_depends_on phase). hm_get outcomes d \<noteq> None"
    and "evaluate_phase E m phase policy f outcomes ctx = Inr p"
  shows "pl_skip_reason p \<noteq> Some (dependency_reason d)"
  using skipped.evaluate_phase_keeps [of m phase policy f E outcomes ctx]
    no_dependency_skip [OF assms(1), of E f ctx] assms(2) by auto

section \<open>Default flags\<close>

text \<open>The default flag of track \<open>i\<close> after the actions of a plan, from its value \<open>b\<close> before.\<close>

definition flag_after :: "planned_action list \<Rightarrow> u32 \<Rightarrow> bool \<Rightarrow> bool" where
  "flag_after as i b =
     foldl (\<lambda>b a. if pa_track_index a = Some i then
                    (case pa_operation a of SetDefault \<Rightarrow> True | ClearDefault \<Rightarrow> False | _ \<Rightarrow> b)
                  else b) b as"

lemma flag_after_simps [simp]:
  "flag_after [] i b = b"
  "flag_after (a # as) i b =
     flag_after as i
       (if pa_track_index a = Some i then
          (case pa_operation a of SetDefault \<Rightarrow> True | ClearDefault \<Rightarrow> False | _ \<Rightarrow> b)
        else b)"
  "flag_after (as @ bs) i b = flag_after bs i (flag_after as i b)"
  by (simp_all add: flag_after_def)

text \<open>\<open>sets_flags want ts g\<close>: running \<open>g\<close> gives every track of \<open>ts\<close> the wanted flag and leaves
  the others alone.\<close>

definition sets_flags :: "(track \<Rightarrow> bool) \<Rightarrow> track list \<Rightarrow> emit \<Rightarrow> bool" where
  "sets_flags want ts g \<longleftrightarrow>
     (\<forall>p. \<exists>as. g p = (p\<lparr>pl_actions := pl_actions p @ as\<rparr>, None)
        \<and> (\<forall>t \<in> set ts. flag_after as (tr_index t) (tr_is_default t) = want t)
        \<and> (\<forall>i. i \<notin> tr_index ` set ts \<longrightarrow> (\<forall>b. flag_after as i b = b)))"

lemma sets_flags_Nil: "sets_flags want [] emit_ok"
  by (auto simp: sets_flags_def emit_defs intro: exI [of _ "[]"])

lemma sets_flags_Cons:
  assumes g: "g = (if want t \<and> \<not> tr_is_default t then emit_set_default target t d
                   else if \<not> want t \<and> tr_is_default t then emit_clear_default target t d'
                   else emit_ok)"
    and h: "sets_flags want ts h" and fresh: "tr_index t \<notin> tr_index ` set ts"
  shows "sets_flags want (t # ts) (emit_seq g h)"
  unfolding sets_flags_def
proof
  fix p
  obtain a where a: "g p = (p\<lparr>pl_actions := pl_actions p @ a\<rparr>, None)"
    "flag_after a (tr_index t) (tr_is_default t) = want t"
    "\<And>i b. i \<noteq> tr_index t \<Longrightarrow> flag_after a i b = b"
  proof (cases "want t = tr_is_default t")
    case True
    then show ?thesis using that [of "[]"] by (simp add: g emit_defs)
  next
    case False
    then show ?thesis
      by (cases "want t")
        (auto simp: g emit_set_default_def emit_clear_default_def emit_defs intro: that)
  qed
  obtain as where as: "h (fst (g p)) = ((fst (g p))\<lparr>pl_actions := pl_actions (fst (g p)) @ as\<rparr>, None)"
    "\<forall>t \<in> set ts. flag_after as (tr_index t) (tr_is_default t) = want t"
    "\<forall>i. i \<notin> tr_index ` set ts \<longrightarrow> (\<forall>b. flag_after as i b = b)"
    using h unfolding sets_flags_def by blast
  show "\<exists>as. emit_seq g h p = (p\<lparr>pl_actions := pl_actions p @ as\<rparr>, None)
      \<and> (\<forall>t \<in> set (t # ts). flag_after as (tr_index t) (tr_is_default t) = want t)
      \<and> (\<forall>i. i \<notin> tr_index ` set (t # ts) \<longrightarrow> (\<forall>b. flag_after as i b = b))"
  proof (intro exI [of _ "a @ as"] conjI)
    show "emit_seq g h p = (p\<lparr>pl_actions := pl_actions p @ a @ as\<rparr>, None)"
      using a(1) as(1) by (simp add: emit_seq_def)
    have "tr_index u \<noteq> tr_index t" if "u \<in> set ts" for u using that fresh by (metis imageI)
    then show "\<forall>u \<in> set (t # ts). flag_after (a @ as) (tr_index u) (tr_is_default u) = want u"
      using a(2,3) as(2,3) fresh by simp
    show "\<forall>i. i \<notin> tr_index ` set (t # ts) \<longrightarrow> (\<forall>b. flag_after (a @ as) i b = b)"
      using a(3) as(3) by simp
  qed
qed

lemma sets_flags_each:
  assumes "distinct (map tr_index ts)"
    and "\<And>t. t \<in> set ts \<Longrightarrow>
       g t = (if want t \<and> \<not> tr_is_default t then emit_set_default target t (d t)
              else if \<not> want t \<and> tr_is_default t then emit_clear_default target t (d' t)
              else emit_ok)"
  shows "sets_flags want ts (emit_each g ts)"
  using assms by (induction ts) (auto intro!: sets_flags_Nil sets_flags_Cons)

lemma sets_flags_cong: "(\<And>t. t \<in> set ts \<Longrightarrow> w t = w' t) \<Longrightarrow> sets_flags w ts g = sets_flags w' ts g"
  by (simp add: sets_flags_def)

lemma sets_flags_per_language:
  assumes "distinct (map tr_index ts)"
  shows "sets_flags
    (\<lambda>t. tr_language t \<notin> set seen \<and> find (\<lambda>u. tr_language u = tr_language t) ts = Some t) ts
    (emit_defaults_per_language_loop target seen ts)"
  using assms
proof (induction ts arbitrary: seen)
  case Nil
  then show ?case by (simp add: sets_flags_Nil)
next
  case (Cons t ts)
  let ?w = "\<lambda>u. tr_language u \<notin> set seen \<and> find (\<lambda>v. tr_language v = tr_language u) (t # ts) = Some u"
  have "t \<notin> set ts" using Cons.prems by auto
  then have "sets_flags ?w ts (emit_defaults_per_language_loop target (tr_language t # seen) ts)
    = sets_flags (\<lambda>u. tr_language u \<notin> set (tr_language t # seen)
        \<and> find (\<lambda>v. tr_language v = tr_language u) ts = Some u) ts
        (emit_defaults_per_language_loop target (tr_language t # seen) ts)"
    by (intro sets_flags_cong) auto
  with Cons.IH [of "tr_language t # seen"] Cons.prems
  have "sets_flags ?w ts (emit_defaults_per_language_loop target (tr_language t # seen) ts)"
    by simp
  then show ?case using Cons.prems
    by (simp only: emit_defaults_per_language_loop.simps Let_def)
      (rule sets_flags_Cons [where d = "'' (first for lang '' @ [CHR 0x27] @ tr_language t
           @ [CHR 0x27] @ '')''" and d' = "'' (not first for lang '' @ [CHR 0x27]
           @ tr_language t @ [CHR 0x27] @ '')''" and target = target], auto)
qed

text \<open>The flag that a strategy wants for a track of its target.\<close>

definition wanted_default :: "default_strategy \<Rightarrow> track list \<Rightarrow> track \<Rightarrow> bool" where
  "wanted_default strategy ts t =
     (case strategy of
        NoDefaults \<Rightarrow> False
      | AllDefaults \<Rightarrow> True
      | First \<Rightarrow> t = hd ts
      | FirstPerLanguage \<Rightarrow> find (\<lambda>u. tr_language u = tr_language t) ts = Some t)"

lemma sets_flags_strategy:
  assumes "distinct (map tr_index ts)"
  shows "sets_flags (wanted_default NoDefaults ts) ts (emit_defaults_none target ts)"
    and "sets_flags (wanted_default AllDefaults ts) ts (emit_defaults_all target ts)"
    and "sets_flags (wanted_default FirstPerLanguage ts) ts (emit_defaults_first_per_language target ts)"
    and "sets_flags (wanted_default First ts) ts (emit_defaults_first target ts)"
proof -
  show "sets_flags (wanted_default NoDefaults ts) ts (emit_defaults_none target ts)"
    "sets_flags (wanted_default AllDefaults ts) ts (emit_defaults_all target ts)"
    unfolding emit_defaults_none_def emit_defaults_all_def
    by (rule sets_flags_each [OF assms, where target = target and d = "\<lambda>_. []" and d' = "\<lambda>_. []"];
        simp add: wanted_default_def)+
  show "sets_flags (wanted_default FirstPerLanguage ts) ts (emit_defaults_first_per_language target ts)"
    using sets_flags_per_language [OF assms, of "[]" target]
    by (simp add: emit_defaults_first_per_language_def wanted_default_def [abs_def])
  show "sets_flags (wanted_default First ts) ts (emit_defaults_first target ts)"
  proof (cases ts)
    case Nil
    then show ?thesis by (simp add: emit_defaults_first_def sets_flags_Nil)
  next
    case (Cons t us)
    have "t \<notin> set us" "distinct (map tr_index us)" using assms Cons by auto
    then have "sets_flags (wanted_default First ts) us
        (emit_each (\<lambda>u. if tr_is_default u then emit_clear_default target u [] else emit_ok) us)"
      by (intro sets_flags_each [where target = target and d = "\<lambda>_. []" and d' = "\<lambda>_. []"])
        (auto simp: wanted_default_def Cons)
    then show ?thesis using assms
      unfolding Cons emit_defaults_first_def list.case
      by (intro sets_flags_Cons [where target = target and d = "[]" and d' = "[]"])
        (auto simp: wanted_default_def)
  qed
qed

end
