(* ===== verification/Samples.thy ===== *)
theory Samples
  imports Evaluator_Correct
begin

text \<open>
  Concrete inputs: a Matroska file with one video and two audio tracks, and small policies, on
  which the hypotheses of the evaluator's theorems are discharged by evaluation.
\<close>

definition sample_env :: text_env where
  "sample_env =
     \<lparr>regex_is_match = (\<lambda>_ _. False), str_lowercase = to_ascii_lowercase,
      json_to_string = (\<lambda>_. []), fmt_f64_1 = (\<lambda>_. [])\<rparr>"

definition sample_mint :: mint where
  "sample_mint = \<lparr>mint_uuid = 7, mint_now = 0\<rparr>"

definition sample_track :: "u32 \<Rightarrow> track_type \<Rightarrow> string \<Rightarrow> string \<Rightarrow> track" where
  "sample_track i ty codec lang = (Track_new i ty codec)\<lparr>tr_language := lang\<rparr>"

definition sample_file :: media_file where
  "sample_file =
     (MediaFile_new sample_mint ''/m/a.mkv'')
       \<lparr>mf_container := Mkv,
         mf_tracks := [sample_track 0 Video ''h264'' ''und'', sample_track 1 AudioMain ''aac'' ''eng'',
                       sample_track 2 AudioMain ''dts'' ''jpn'']\<rparr>"

definition sample_phase :: "string \<Rightarrow> string list \<Rightarrow> compiled_operation list \<Rightarrow> compiled_phase" where
  "sample_phase name deps ops =
     \<lparr>cp_name = name, cp_depends_on = deps, cp_skip_when = None, cp_run_if = None,
      cp_on_error = Abort,
      cp_composition = \<lparr>cpc_kind = KindLocal, cpc_source = None, cpc_added_operations = 0\<rparr>,
      cp_operations = ops\<rparr>"

definition sample_policy :: "compiled_phase list \<Rightarrow> compiled_policy" where
  "sample_policy phases =
     \<lparr>pol_name = ''sample'',
      pol_metadata =
        \<lparr>cm_version = None, cm_author = None, cm_description = None, cm_requires_voom = None,
         cm_requires_tools = [], cm_test_fixtures = [], cm_extends_chain = []\<rparr>,
      pol_config =
        \<lparr>ccf_audio_languages = [], ccf_subtitle_languages = [], ccf_on_error = Abort,
         ccf_commentary_patterns = [], ccf_keep_backups = False\<rparr>,
      pol_phases = phases, pol_phase_order = map cp_name phases, pol_source_hash = []\<rparr>"

definition sample_ctx :: eval_context where
  "sample_ctx = \<lparr>ctx_capabilities = None, ctx_phase_output_lookup = None\<rparr>"

text \<open>The plan that a list of operations gives for the sample file.\<close>

definition sample_plan :: "compiled_operation list \<Rightarrow> plan" where
  "sample_plan ops =
     (case evaluate_phase sample_env sample_mint (sample_phase ''p'' [] ops) (sample_policy [])
             sample_file [] sample_ctx of
        Inr p \<Rightarrow> p
      | Inl _ \<Rightarrow> Plan_new sample_mint sample_file [] [])"

lemma sample_plan_evaluates:
  "evaluate_phase sample_env sample_mint (sample_phase ''p'' [] ops) (sample_policy [])
     sample_file [] sample_ctx = Inr (sample_plan ops)"
  using evaluate_phase_ok [of sample_env sample_mint "sample_phase ''p'' [] ops" "sample_policy []"
      sample_file "[]" sample_ctx]
  by (auto simp: sample_plan_def)

text \<open>Two removals that together would drop every audio track.\<close>

definition remove_both :: "compiled_operation list" where
  "remove_both =
     [OpRemove TgtAudio (Some (FLangIn [''eng''])), OpRemove TgtAudio (Some (FLangIn [''jpn'']))]"

end
