(* ===== verification/Evaluator_Props.thy ===== *)
theory Evaluator_Props
  imports Samples
begin

text \<open>
  The properties of the policy evaluator, each with an evaluated witness where it has
  hypotheses.
\<close>

section \<open>Plans\<close>

text \<open>
  C6: evaluating a phase always returns a plan (no \<open>PlannedAction\<close> constructor panics). The plan
  belongs to the file, policy and phase it was made for; each of its actions carries parameters
  of its operation's kind and, where it names a track, names an existing one of the right type.
  Actions on flags, titles, languages, containers and cleared or deleted tags, and transcodes, are
  emitted only where they change something: a transcode to the codec that a track has is a loudness
  normalisation of a track not measured within its target. (Setting a tag, reordering and verifying
  are emitted whatever the file has.) Each safeguard violation carries the phase name and is also
  reported as a warning.
\<close>

theorem evaluate_phase_sound:
  "\<exists>p. evaluate_phase E m phase policy f outcomes ctx = Inr p \<and> phase_plan_ok policy phase f p"
  by (rule evaluate_phase_ok)

text \<open>
  C28: for a policy whose phase order lists known phases once each, with the dependencies of a
  phase before it, evaluation returns one plan per phase, in that order. The plan of phase \<open>i\<close> is
  evaluated with the outcomes of exactly the phases before it, and no phase is ever skipped for a
  dependency that was not executed.
\<close>

theorem evaluate_in_order:
  assumes "distinct (pol_phase_order policy)"
    and "\<forall>n \<in> set (pol_phase_order policy). find_phase policy n \<noteq> None"
    and "order_respects (phase_deps policy) (pol_phase_order policy)"
  shows "\<exists>plans. evaluate_with_phase_outputs E mints policy f caps lookup = Inr plans
    \<and> length plans = length (pol_phase_order policy)
    \<and> (\<forall>i < length plans. \<exists>phase.
         find_phase policy (pol_phase_order policy ! i) = Some phase
         \<and> evaluate_phase E (mints i) phase policy f
             (outcomes_before (pol_phase_order policy) plans i)
             \<lparr>ctx_capabilities = caps, ctx_phase_output_lookup = lookup\<rparr> = Inr (plans ! i)
         \<and> (\<forall>d. check_skip_conditions E phase f
                  (outcomes_before (pol_phase_order policy) plans i)
                  \<lparr>ctx_capabilities = caps, ctx_phase_output_lookup = lookup\<rparr>
                \<noteq> Some (dependency_reason d)))"
proof -
  let ?order = "pol_phase_order policy"
  let ?ctx = "\<lparr>ctx_capabilities = caps, ctx_phase_output_lookup = lookup\<rparr>"
  obtain plans where plans: "evaluate_phases E mints policy f ?ctx ?order [] [] = Inr plans"
    "length plans = length ?order"
    "\<forall>i < length ?order. \<exists>phase. find_phase policy (?order ! i) = Some phase
       \<and> evaluate_phase E (mints i) phase policy f (outcomes_before ?order plans i) ?ctx
         = Inr (plans ! i)"
    using evaluate_phases_spec [of "[]" ?order policy "[]" E mints f ?ctx] assms(1,2) by auto
  have known: "hm_get (outcomes_before ?order plans i) d \<noteq> None"
    if "i < length ?order" "find_phase policy (?order ! i) = Some phase"
      "d \<in> set (cp_depends_on phase)" for i d phase
  proof -
    have "d \<in> set (take i ?order)"
      using assms(3) that unfolding order_respects_def phase_deps_def by fastforce
    then obtain j where "j < i" "d = ?order ! j" using that(1) by (auto simp: in_set_conv_nth)
    then show ?thesis using outcomes_before_get [OF assms(1) plans(2), of i j] that(1) by simp
  qed
  show ?thesis
  proof (intro exI [of _ plans] conjI allI impI)
    fix i assume "i < length plans"
    then have i: "i < length ?order" using plans(2) by simp
    with plans(3) obtain phase where phase: "find_phase policy (?order ! i) = Some phase"
      "evaluate_phase E (mints i) phase policy f (outcomes_before ?order plans i) ?ctx
         = Inr (plans ! i)" by blast
    moreover have "\<forall>d. check_skip_conditions E phase f (outcomes_before ?order plans i) ?ctx
        \<noteq> Some (dependency_reason d)"
      using no_dependency_skip known [OF i phase(1)] by blast
    ultimately show "\<exists>phase. find_phase policy (?order ! i) = Some phase
        \<and> evaluate_phase E (mints i) phase policy f (outcomes_before ?order plans i) ?ctx
          = Inr (plans ! i)
        \<and> (\<forall>d. check_skip_conditions E phase f (outcomes_before ?order plans i) ?ctx
             \<noteq> Some (dependency_reason d))"
      by blast
  qed (simp_all add: evaluate_with_phase_outputs_def plans(1,2))
qed

definition two_phases :: compiled_policy where
  "two_phases = sample_policy [sample_phase ''a'' [] remove_both, sample_phase ''b'' [''a''] []]"

theorem evaluate_in_order_witness:
  "\<exists>plans. evaluate_with_phase_outputs sample_env (\<lambda>_. sample_mint) two_phases sample_file None None
       = Inr plans \<and> length plans = 2"
proof -
  have "distinct (pol_phase_order two_phases)" by code_simp
  moreover have "\<forall>n \<in> set (pol_phase_order two_phases). find_phase two_phases n \<noteq> None" by code_simp
  moreover have "order_respects (phase_deps two_phases) (pol_phase_order two_phases)"
    unfolding order_respects_def by code_simp
  ultimately show ?thesis
    using evaluate_in_order [of two_phases sample_env "\<lambda>_. sample_mint" sample_file None None]
    by (auto simp: two_phases_def sample_policy_def)
qed

text \<open>
  C1: the safeguards keep a file playable. In a plan that is not skipped, if the file has a video
  track then some video track is not removed, and if it has an audio track then some audio track
  is not removed, whatever combination of keep and remove operations the phase has.
\<close>

theorem critical_tracks_survive:
  assumes "evaluate_phase E m phase policy f outcomes ctx = Inr p" "\<not> Plan_is_skipped p"
    and "type_check \<in> {is_video, is_audio}"
    and "t \<in> set (mf_tracks f)" "type_check (tr_track_type t)"
  shows "\<exists>u \<in> set (mf_tracks f). type_check (tr_track_type u) \<and> survives p u"
  using evaluate_phase_survivor assms by blast

theorem critical_tracks_survive_witness:
  "\<exists>u \<in> set (mf_tracks sample_file). is_audio (tr_track_type u)
     \<and> survives (sample_plan remove_both) u"
proof (rule critical_tracks_survive [OF sample_plan_evaluates])
  show "\<not> Plan_is_skipped (sample_plan remove_both)" by code_simp
  show "mf_tracks sample_file ! 1 \<in> set (mf_tracks sample_file)"
    by (rule nth_mem) (simp add: sample_file_def)
  show "is_audio (tr_track_type (mf_tracks sample_file ! 1))" by code_simp
qed simp

text \<open>
  C2: the container safeguard. When a plan that is not skipped converts to a container, the
  container of its (first) conversion is not known to reject any codec the plan leaves in the
  file: those of the surviving tracks after transcoding and those of synthesized tracks.
\<close>

theorem container_conversion_safe:
  assumes "evaluate_phase E m phase policy f outcomes ctx = Inr p" "\<not> Plan_is_skipped p"
    and "container_target (pl_actions p) = Some c" "codec \<in> resulting_codecs f p"
  shows "codec_supported c codec \<noteq> Some False"
  using evaluate_phase_container assms by blast

definition to_mp4 :: "compiled_operation list" where
  "to_mp4 = [OpRemove TgtAudio (Some (FCodecIn [''dts''])), OpSetContainer Mp4]"

theorem container_conversion_safe_witness:
  "codec_supported Mp4 (effective_codec (pl_actions (sample_plan to_mp4)) (mf_tracks sample_file ! 0))
   \<noteq> Some False"
proof (rule container_conversion_safe [OF sample_plan_evaluates])
  show "\<not> Plan_is_skipped (sample_plan to_mp4)" by code_simp
  show "container_target (pl_actions (sample_plan to_mp4)) = Some Mp4" by code_simp
  have "survives (sample_plan to_mp4) (mf_tracks sample_file ! 0)"
    unfolding survives_def by code_simp
  moreover have "mf_tracks sample_file ! 0 \<in> set (mf_tracks sample_file)"
    by (rule nth_mem) (simp add: sample_file_def)
  ultimately show "effective_codec (pl_actions (sample_plan to_mp4)) (mf_tracks sample_file ! 0)
      \<in> resulting_codecs sample_file (sample_plan to_mp4)"
    by (auto simp: resulting_codecs_def)
qed

text \<open>
  Only the first planned conversion is examined by the container safeguard. A phase with two
  \<open>container\<close> operations keeps the second conversion, here to WebM, although the file keeps an
  H.264 track that WebM cannot hold.
\<close>

lemma second_conversion_unchecked:
  "list_ex (\<lambda>a. case pa_parameters a of ApContainer c \<Rightarrow> c = Webm | _ \<Rightarrow> False)
     (pl_actions (sample_plan [OpSetContainer Mov, OpSetContainer Webm]))
   \<and> pl_safeguard_violations (sample_plan [OpSetContainer Mov, OpSetContainer Webm]) = []
   \<and> codec_supported Webm (tr_codec (mf_tracks sample_file ! 0)) = Some False"
proof (intro conjI)
  show "list_ex (\<lambda>a. case pa_parameters a of ApContainer c \<Rightarrow> c = Webm | _ \<Rightarrow> False)
     (pl_actions (sample_plan [OpSetContainer Mov, OpSetContainer Webm]))"
    by code_simp
  show "pl_safeguard_violations (sample_plan [OpSetContainer Mov, OpSetContainer Webm]) = []"
    by code_simp
  show "codec_supported Webm (tr_codec (mf_tracks sample_file ! 0)) = Some False" by code_simp
qed

text \<open>
  A \<open>skip\<close> action marks the plan as skipped and keeps the actions emitted before it, so a
  skipped plan can have actions.
\<close>

lemma skipped_plan_with_actions:
  "Plan_is_skipped (sample_plan
     [OpVerify Quick,
      OpConditional \<lparr>cc_condition = CIsOriginal, cc_then_actions = [ASkip None],
                     cc_else_actions = [ASkip None]\<rparr>])
   \<and> \<not> Plan_is_empty (sample_plan
     [OpVerify Quick,
      OpConditional \<lparr>cc_condition = CIsOriginal, cc_then_actions = [ASkip None],
                     cc_else_actions = [ASkip None]\<rparr>])"
  by code_simp

text \<open>
  \<open>run_if\<close>. Against an earlier phase, \<open>modified\<close> holds exactly when that phase's plan was
  not skipped and has actions, \<open>completed\<close> exactly when it was not skipped.
\<close>

theorem run_if_semantics:
  assumes "distinct names" "length plans = length names" "i \<le> length names" "j < i"
    and "cri_phase r = names ! j"
  shows "run_if_satisfied (outcomes_before names plans i) r \<longleftrightarrow>
    \<not> Plan_is_skipped (plans ! j) \<and> (cri_trigger r = Modified \<longrightarrow> \<not> Plan_is_empty (plans ! j))"
  using outcomes_before_get [OF assms(1-4)] assms(5) by (intro run_if_outcome) simp

theorem run_if_semantics_witness:
  "run_if_satisfied (outcomes_before [''a'', ''b''] [sample_plan [], sample_plan []] 1)
     \<lparr>cri_phase = ''a'', cri_trigger = CompletedTrigger\<rparr>"
proof -
  have "\<not> Plan_is_skipped (sample_plan [])" by code_simp
  then show ?thesis
    using run_if_semantics [of "[''a'', ''b'']" "[sample_plan [], sample_plan []]" 1 0
        "\<lparr>cri_phase = ''a'', cri_trigger = CompletedTrigger\<rparr>"] by simp
qed

section \<open>Operations\<close>

text \<open>
  C36: \<open>keep\<close>. The tracks of the target that do not match the filter are removed, in order, and
  the ones that match stay; if that would remove them all, nothing is removed and an
  \<open>AllTracksRemoved\<close> violation is recorded instead.
\<close>

theorem emit_keep_spec:
  "emit_keep E f ctx target flt p =
     (let tracks = tracks_for_target f target;
          keep = (\<lambda>t. filter_matches_ctx E t flt f ctx)
      in if tracks \<noteq> [] \<and> \<not> list_ex keep tracks
         then (record_safeguard AllTracksRemoved (keep_message f target) p, None)
         else (p\<lparr>pl_actions := pl_actions p
                  @ map (remove_action target ''does not match keep filter'')
                      (filter (\<lambda>t. \<not> keep t) tracks)\<rparr>, None))"
  by (rule emit_keep_eq)

text \<open>
  C37: \<open>remove\<close>. The tracks of the target that match the filter are removed, in order; only for
  video and audio is the removal of all of them refused and recorded as a violation.
\<close>

theorem emit_remove_spec:
  "emit_remove E f ctx target flt p =
     (let tracks = tracks_for_target f target;
          drop = (\<lambda>t. filter_matches_ctx E t flt f ctx)
      in if tracks \<noteq> [] \<and> list_all drop tracks \<and> (target = TgtVideo \<or> target = TgtAudio)
         then (record_safeguard AllTracksRemoved (remove_message f target) p, None)
         else (p\<lparr>pl_actions := pl_actions p
                  @ map (remove_action target ''matches remove filter'') (filter drop tracks)\<rparr>,
               None))"
  by (rule emit_remove_eq)

text \<open>
  C35: \<open>defaults\<close>. In a file whose tracks have distinct indices, one defaults setting gives every
  track of its target the default flag its strategy wants (all, none, only the first, or the
  first of each language), starting from the flags the file has, and touches no other track.
\<close>

theorem defaults_strategy_spec:
  assumes "distinct (map tr_index (tracks_for_target f (cdf_target d)))"
  shows "sets_flags (wanted_default (cdf_strategy d) (tracks_for_target f (cdf_target d)))
    (tracks_for_target f (cdf_target d)) (emit_set_defaults f [d])"
proof -
  have "emit_seq g emit_ok = g" for g
    by (rule ext) (simp add: emit_seq_def emit_ok_def split: prod.split option.split)
  then show ?thesis
    using sets_flags_strategy [OF assms]
    by (cases "cdf_strategy d") (simp_all add: emit_set_defaults_def Let_def)
qed

theorem defaults_strategy_spec_witness:
  "sets_flags (wanted_default First (tracks_for_target sample_file TgtAudio))
    (tracks_for_target sample_file TgtAudio)
    (emit_set_defaults sample_file [\<lparr>cdf_target = TgtAudio, cdf_strategy = First\<rparr>])"
proof -
  have "distinct (map tr_index (tracks_for_target sample_file TgtAudio))" by code_simp
  then show ?thesis
    using defaults_strategy_spec [of sample_file "\<lparr>cdf_target = TgtAudio, cdf_strategy = First\<rparr>"]
    by simp
qed

text \<open>
  The error strategies. When the operations before the failing one all succeed, \<open>abort\<close> and
  \<open>quarantine\<close> stop with the plan built so far and one warning, \<open>skip\<close> stops and marks the plan
  skipped, and \<open>continue\<close> warns and goes on with every remaining operation.
\<close>

theorem error_strategies:
  assumes "emit_each (emit_operation E f ctx) ops p = (q, None)"
    and "emit_operation E f ctx op q = (q', Some (FailedWith e))"
  shows "emit_operations E f ctx strategy (ops @ op # rest) p =
    (case strategy of
       Continue \<Rightarrow>
         emit_operations E f ctx Continue rest
           (with_warning (''Error (continuing): '' @ VoomError_display e) q')
     | Skip \<Rightarrow> Inr (q'\<lparr>pl_skip_reason := Some (''Error (skipping phase): '' @ VoomError_display e)\<rparr>)
     | _ \<Rightarrow> Inr (with_warning (''Error (aborting): '' @ VoomError_display e) q'))"
  using assms(1)
proof (induction ops arbitrary: p)
  case Nil
  with assms(2) show ?case
    by (cases strategy) (simp_all add: emit_defs with_warning_def)
next
  case (Cons o' ops)
  then show ?case by (auto simp: emit_seq_def split: prod.splits option.splits)
qed

definition failing_rule :: compiled_operation where
  "failing_rule =
     OpConditional \<lparr>cc_condition = CIsOriginal, cc_then_actions = [AFail ''no''],
                    cc_else_actions = [AFail ''no'']\<rparr>"

theorem error_strategies_witness:
  "emit_operations sample_env sample_file sample_ctx Skip ([] @ failing_rule # [OpVerify Quick])
     (sample_plan [])
   = Inr ((sample_plan [])\<lparr>pl_skip_reason :=
         Some (''Error (skipping phase): '' @ VoomError_display (ValidationError ''no''))\<rparr>)"
proof -
  have "emit_operation sample_env sample_file sample_ctx failing_rule p
      = (p, Some (FailedWith (ValidationError ''no'')))" for p
    by (simp add: failing_rule_def emit_operation_def emit_conditional_def emit_action_def emit_defs
        emit_seq_def expand_template_def str_replace.simps)
  then show ?thesis
    using error_strategies [of sample_env sample_file sample_ctx "[]" "sample_plan []" "sample_plan []"
        failing_rule "sample_plan []" "ValidationError ''no''" Skip "[OpVerify Quick]"]
    by (simp add: emit_defs)
qed

section \<open>Capability hints\<close>

text \<open>The encoders that an action needs, and the executors that have them all.\<close>

definition needed_codec :: "planned_action \<Rightarrow> string option" where
  "needed_codec a =
     (case pa_parameters a of
        ApTranscode codec _ \<Rightarrow> Some codec | ApSynthesize sp \<Rightarrow> sp_codec sp | _ \<Rightarrow> None)"

definition capable :: "capability_map \<Rightarrow> string list \<Rightarrow> string set" where
  "capable caps codecs = {x. \<forall>c \<in> set codecs. x \<in> set (encoders_for caps c)}"

lemma check_action_fst:
  "fst (check_action_capabilities a caps (running, w)) =
     (case needed_codec a of
        None \<Rightarrow> running | Some c \<Rightarrow> intersect_executors running (encoders_for caps c))"
  by (simp add: check_action_capabilities_def needed_codec_def Let_def
      split: action_params.split option.split)

lemma fold_capabilities:
  "fst (foldl (\<lambda>st a. check_action_capabilities a caps st) (running, w) as) = r \<Longrightarrow>
   (case running of None \<Rightarrow> cs = [] | Some ys \<Rightarrow> distinct ys \<and> cs \<noteq> [] \<and> set ys = capable caps cs) \<Longrightarrow>
   (case r of None \<Rightarrow> cs @ List.map_filter needed_codec as = []
    | Some ys \<Rightarrow> distinct ys \<and> cs @ List.map_filter needed_codec as \<noteq> []
                \<and> set ys = capable caps (cs @ List.map_filter needed_codec as))"
proof (induction as arbitrary: running w cs)
  case Nil
  then show ?case by (simp add: map_filter_simps split: option.splits)
next
  case (Cons a as)
  obtain running' w' where st: "check_action_capabilities a caps (running, w) = (running', w')"
    by (cases "check_action_capabilities a caps (running, w)")
  have r': "running' = (case needed_codec a of None \<Rightarrow> running
      | Some c \<Rightarrow> intersect_executors running (encoders_for caps c))"
    using check_action_fst [of a caps running w] st by simp
  let ?cs = "cs @ (case needed_codec a of None \<Rightarrow> [] | Some c \<Rightarrow> [c])"
  have "case running' of None \<Rightarrow> ?cs = []
      | Some ys \<Rightarrow> distinct ys \<and> ?cs \<noteq> [] \<and> set ys = capable caps ?cs"
    using Cons.prems(2) unfolding r'
    by (auto simp: intersect_executors_def Let_def capable_def split: option.splits)
  from Cons.IH [OF _ this, of w'] Cons.prems(1) st show ?case
    by (auto simp: map_filter_simps split: option.splits)
qed

text \<open>
  The executor hint. A plan with work to do gets executor \<open>e\<close> as its hint exactly when it
  needs some encoder and \<open>e\<close> is the one executor that has every encoder it needs.
\<close>

theorem executor_hint_spec:
  assumes "pl_executor_hint p = None" "\<not> Plan_is_skipped p" "\<not> Plan_is_empty p"
  shows "pl_executor_hint (apply_capability_hint caps p) = Some e \<longleftrightarrow>
    List.map_filter needed_codec (pl_actions p) \<noteq> []
    \<and> capable caps (List.map_filter needed_codec (pl_actions p)) = {e}"
proof -
  let ?cs = "List.map_filter needed_codec (pl_actions p)"
  obtain r w where fold: "foldl (\<lambda>st a. check_action_capabilities a caps st) (None, []) (pl_actions p) = (r, w)"
    by (cases "foldl (\<lambda>st a. check_action_capabilities a caps st) (None, []) (pl_actions p)")
  have r: "case r of None \<Rightarrow> ?cs = [] | Some ys \<Rightarrow> distinct ys \<and> ?cs \<noteq> [] \<and> set ys = capable caps ?cs"
    using fold_capabilities [of caps None "[]" "pl_actions p" r "[]"] fold
    by (simp split: option.splits)
  have "pl_executor_hint (apply_capability_hint caps p) = Some e \<longleftrightarrow> r = Some [e]"
    using assms fold
    by (auto simp: apply_capability_hint_def Let_def split: option.split list.split)
  moreover have "distinct ys \<Longrightarrow> ys = [e] \<longleftrightarrow> set ys = {e}" for ys
    by (cases ys; cases "tl ys") auto
  ultimately show ?thesis using r by (cases r) auto
qed

definition sample_caps :: capability_map where
  "sample_caps =
     CapabilityMap_register
       \<lparr>ec_plugin_name = ''ffmpeg'',
        ec_codecs = \<lparr>cdc_decoders = [], cdc_encoders = [''hevc''],
          cdc_hw_decoders = [], cdc_hw_encoders = []\<rparr>,
        ec_formats = [''matroska''], ec_hw_accels = [], ec_parallel_limits = []\<rparr>
       CapabilityMap_new"

definition to_hevc :: "compiled_operation list" where
  "to_hevc = [OpTranscode TgtVideo ''hevc'' (CompiledTranscodeSettings_new [] None None None None)]"

theorem executor_hint_spec_witness:
  "pl_executor_hint (apply_capability_hint sample_caps (sample_plan to_hevc)) = Some ''ffmpeg''"
proof -
  have "pl_executor_hint (sample_plan to_hevc) = None" by code_simp
  moreover have "\<not> Plan_is_skipped (sample_plan to_hevc)" by code_simp
  moreover have "\<not> Plan_is_empty (sample_plan to_hevc)" by code_simp
  moreover have cs: "List.map_filter needed_codec (pl_actions (sample_plan to_hevc)) = [''hevc'']"
    by code_simp
  moreover have "encoders_for sample_caps ''hevc'' = [''ffmpeg'']" by code_simp
  then have "capable sample_caps [''hevc''] = {''ffmpeg''}" by (auto simp: capable_def)
  ultimately show ?thesis
    using executor_hint_spec [of "sample_plan to_hevc" sample_caps "''ffmpeg''"] by simp
qed

text \<open>
  The parallel limit of a resource is the smallest positive limit that any executor states
  for it, and there is none exactly when no executor states a positive one.
\<close>

lemma parallel_limit_spec:
  "parallel_limit_for caps resource =
     (let limits = {epl_max_parallel l | l ex nm. (nm, ex) \<in> set (cmap_executors caps)
                      \<and> l \<in> set (ec_parallel_limits ex) \<and> epl_resource l = resource
                      \<and> epl_max_parallel l > 0}
      in if limits = {} then None else Some (Min limits))"
proof -
  define ls where "ls = map epl_max_parallel
    (filter (\<lambda>l. epl_resource l = resource \<and> epl_max_parallel l > 0)
      (concat (map (\<lambda>(_, e). ec_parallel_limits e) (cmap_executors caps))))"
  have "{epl_max_parallel l | l ex nm. (nm, ex) \<in> set (cmap_executors caps)
      \<and> l \<in> set (ec_parallel_limits ex) \<and> epl_resource l = resource \<and> epl_max_parallel l > 0}
      = set ls"
    by (fastforce simp: ls_def)
  moreover have "ls \<noteq> [] \<Longrightarrow> foldl min (hd ls) (tl ls) = Min (set ls)"
    using foldl_min_le [of "hd ls" "tl ls"] foldl_min_in [of "hd ls" "tl ls"]
    by (intro Min_eqI [symmetric]) (auto simp: neq_Nil_conv)
  ultimately show ?thesis by (simp add: parallel_limit_for_def ls_def [symmetric] Let_def)
qed

end
