(* ===== verification/Events.thy ===== *)
theory Events
  imports Capability
begin

text \<open>
  The events that plugins exchange, \<open>crates/voom-domain/src/events.rs\<close>: one record per payload
  struct, the \<open>Event\<close> enum, its type strings, and the \<open>EventResult\<close> a handler returns. The
  serialisation of action results into JSON (\<open>serde_json::to_value\<close>) is a parameter of
  \<open>from_plan_execution\<close>.
\<close>

section \<open>Payloads\<close>

datatype bad_file_source = BfDiscovery | BfIntrospection | BfIo | BfParse

datatype job_type = JtProcess | JtTranscode | JtScan | JtIntrospect | JtCustom string

datatype verification_outcome = VoOk | VoWarning | VoError

datatype retention_trigger = RtScheduled | RtCliEndOfRun | RtOnDemand

record table_retention_result =
  trre_table :: string
  trre_deleted :: u64
  trre_kept :: u64
  trre_error :: "string option"

record file_discovered_event =
  fde_path :: string
  fde_size :: u64
  fde_content_hash :: "string option"

record root_walk_completed_event =
  rwce_root :: string
  rwce_session :: uuid
  rwce_duration_ms :: u64

record file_introspected_event =
  fie_file :: media_file
  fie_scan_session :: "uuid option"

record file_introspection_failed_event =
  fife_path :: string
  fife_size :: u64
  fife_content_hash :: "string option"
  fife_error :: string
  fife_error_source :: bad_file_source

record metadata_enriched_event =
  mee_path :: string
  mee_source :: string
  mee_metadata :: json
  mee_scan_session :: "uuid option"

record subtitle_generated_event =
  sge_path :: string
  sge_subtitle_path :: string
  sge_language :: string
  sge_forced :: bool
  sge_title :: "string option"
  sge_scan_session :: "uuid option"

record plan_created_event =
  pce_plan :: plan

record plan_executing_event =
  pee_plan_id :: uuid
  pee_path :: string
  pee_phase_name :: string
  pee_action_count :: usize

record plan_completed_event =
  pce2_plan_id :: uuid
  pce2_path :: string
  pce2_phase_name :: string
  pce2_actions_applied :: usize
  pce2_keep_backups :: bool

record plan_skipped_event =
  pse_plan_id :: uuid
  pse_path :: string
  pse_phase_name :: string
  pse_skip_reason :: string

record plan_failed_event =
  pfe_plan_id :: uuid
  pfe_path :: string
  pfe_phase_name :: string
  pfe_error :: string
  pfe_error_code :: "string option"
  pfe_plugin_name :: "string option"
  pfe_error_chain :: "string list"
  pfe_execution_detail :: "execution_detail option"

record job_started_event =
  jse_job_id :: uuid
  jse_description :: string

record job_progress_event =
  jpe_job_id :: uuid
  jpe_progress :: f64
  jpe_message :: "string option"

record job_completed_event =
  jce_job_id :: uuid
  jce_success :: bool
  jce_message :: "string option"

record job_enqueue_requested_event =
  jere_job_type :: job_type
  jere_priority :: int
  jere_payload :: "json option"
  jere_requester :: string

record tool_detected_event =
  tde_tool_name :: string
  tde_version :: string
  tde_path :: string

record plugin_error_event =
  pee2_plugin_name :: string
  pee2_event_type :: string
  pee2_error :: string

record health_status_event =
  hse_check_name :: string
  hse_passed :: bool
  hse_details :: "string option"

record scan_complete_event =
  sce_files_discovered :: u64
  sce_files_introspected :: u64

record introspect_session_completed_event =
  isce_files_introspected :: u64

record retention_completed_event =
  rce_trigger :: retention_trigger
  rce_per_table :: "table_retention_result list"
  rce_duration_ms :: u64

record verify_completed_event =
  vce_file_id :: string
  vce_path :: string
  vce_mode :: verification_mode
  vce_outcome :: verification_outcome
  vce_error_count :: u32
  vce_warning_count :: u32
  vce_verification_id :: uuid

record file_quarantined_event =
  fqe_file_id :: string
  fqe_from :: string
  fqe_to :: string
  fqe_reason :: string

text \<open>The events of the bus.\<close>

datatype event =
    EvFileDiscovered file_discovered_event
  | EvRootWalkCompleted root_walk_completed_event
  | EvFileIntrospected file_introspected_event
  | EvFileIntrospectionFailed file_introspection_failed_event
  | EvMetadataEnriched metadata_enriched_event
  | EvSubtitleGenerated subtitle_generated_event
  | EvPlanCreated plan_created_event
  | EvPlanExecuting plan_executing_event
  | EvPlanCompleted plan_completed_event
  | EvPlanSkipped plan_skipped_event
  | EvPlanFailed plan_failed_event
  | EvJobStarted job_started_event
  | EvJobProgress job_progress_event
  | EvJobCompleted job_completed_event
  | EvJobEnqueueRequested job_enqueue_requested_event
  | EvToolDetected tool_detected_event
  | EvExecutorCapabilities executor_capabilities
  | EvPluginError plugin_error_event
  | EvHealthStatus health_status_event
  | EvScanComplete scan_complete_event
  | EvIntrospectSessionCompleted introspect_session_completed_event
  | EvRetentionCompleted retention_completed_event
  | EvVerifyCompleted verify_completed_event
  | EvFileQuarantined file_quarantined_event

definition event_type :: "event \<Rightarrow> string" where
  "event_type e =
     (case e of
        EvFileDiscovered _ \<Rightarrow> ''file.discovered''
      | EvRootWalkCompleted _ \<Rightarrow> ''root.walk.completed''
      | EvFileIntrospected _ \<Rightarrow> ''file.introspected''
      | EvFileIntrospectionFailed _ \<Rightarrow> ''file.introspection_failed''
      | EvMetadataEnriched _ \<Rightarrow> ''metadata.enriched''
      | EvSubtitleGenerated _ \<Rightarrow> ''subtitle.generated''
      | EvPlanCreated _ \<Rightarrow> ''plan.created''
      | EvPlanExecuting _ \<Rightarrow> ''plan.executing''
      | EvPlanCompleted _ \<Rightarrow> ''plan.completed''
      | EvPlanSkipped _ \<Rightarrow> ''plan.skipped''
      | EvPlanFailed _ \<Rightarrow> ''plan.failed''
      | EvJobStarted _ \<Rightarrow> ''job.started''
      | EvJobProgress _ \<Rightarrow> ''job.progress''
      | EvJobCompleted _ \<Rightarrow> ''job.completed''
      | EvJobEnqueueRequested _ \<Rightarrow> ''job.enqueue_requested''
      | EvToolDetected _ \<Rightarrow> ''tool.detected''
      | EvExecutorCapabilities _ \<Rightarrow> ''executor.capabilities''
      | EvPluginError _ \<Rightarrow> ''plugin.error''
      | EvHealthStatus _ \<Rightarrow> ''health.status''
      | EvScanComplete _ \<Rightarrow> ''scan.complete''
      | EvIntrospectSessionCompleted _ \<Rightarrow> ''introspect.session.completed''
      | EvRetentionCompleted _ \<Rightarrow> ''retention.completed''
      | EvVerifyCompleted _ \<Rightarrow> ''verify.completed''
      | EvFileQuarantined _ \<Rightarrow> ''file.quarantined'')"

section \<open>Results\<close>

record event_result =
  er_plugin_name :: string
  er_produced_events :: "event list"
  er_data :: "json option"
  er_claimed :: bool
  er_execution_error :: "string option"
  er_execution_detail :: "execution_detail option"

definition EventResult_new :: "string \<Rightarrow> event_result" where
  "EventResult_new name =
     \<lparr>er_plugin_name = name, er_produced_events = [], er_data = None, er_claimed = False,
      er_execution_error = None, er_execution_detail = None\<rparr>"

definition EventResult_with_execution_detail :: "execution_detail \<Rightarrow> event_result \<Rightarrow> event_result" where
  "EventResult_with_execution_detail d r = r\<lparr>er_execution_detail := Some d\<rparr>"

definition plan_succeeded :: "string \<Rightarrow> json option \<Rightarrow> event_result" where
  "plan_succeeded name data =
     \<lparr>er_plugin_name = name, er_produced_events = [], er_data = data, er_claimed = True,
      er_execution_error = None, er_execution_detail = None\<rparr>"

definition plan_failed :: "string \<Rightarrow> string \<Rightarrow> event_result" where
  "plan_failed name err =
     \<lparr>er_plugin_name = name, er_produced_events = [], er_data = None, er_claimed = True,
      er_execution_error = Some err, er_execution_detail = None\<rparr>"

definition from_plan_execution ::
  "(action_result list \<Rightarrow> json) \<Rightarrow> string \<Rightarrow> voom_error + action_result list \<Rightarrow> event_result" where
  "from_plan_execution to_value name outcome =
     (case outcome of
        Inr results \<Rightarrow>
          (let actions_applied = length (filter ar_success results);
               detail = find_map ar_execution_detail results
           in if actions_applied = 0 \<and> results \<noteq> [] then
                (let error_msg =
                       (case find_map ar_error results of
                          Some e \<Rightarrow> e | None \<Rightarrow> ''all actions failed'');
                     result = plan_failed name error_msg
                 in case detail of
                      Some d \<Rightarrow> EventResult_with_execution_detail d result
                    | None \<Rightarrow> result)
              else
                (plan_succeeded name
                   (Some (JObject [(''actions_applied'', JNumber (PosInt actions_applied)),
                                   (''results'', to_value results)])))
                  \<lparr>er_execution_detail := detail\<rparr>)
      | Inl e \<Rightarrow> plan_failed name (VoomError_display e))"

section \<open>Lemmas\<close>

text \<open>The type strings of distinct kinds of event are distinct.\<close>

lemma event_type_PluginError: "event_type e = ''plugin.error'' \<longleftrightarrow> (\<exists>x. e = EvPluginError x)"
  by (cases e) (simp_all add: event_type_def)

lemma from_plan_execution_claimed: "er_claimed (from_plan_execution tv name outcome)"
  by (cases outcome)
    (auto simp: from_plan_execution_def Let_def plan_failed_def plan_succeeded_def
      EventResult_with_execution_detail_def split: option.split)

end
