(* ===== verification/Claims.thy ===== *)
theory Claims
  imports Plan
begin

text \<open>
  What plugins claim to do, \<open>crates/voom-domain/src/capabilities.rs\<close> and
  \<open>capability_resolution.rs\<close>: capabilities, how a claim is resolved (exclusive, sharded by a key,
  competing), the queries of callers, and the conflict of two sharded claims
  (\<open>sharded_collision_key\<close> of \<open>crates/voom-kernel/src/lib.rs\<close>).
\<close>

datatype capability_resolution = Exclusive | Sharded | Competing

datatype capability =
    CapDiscover "string list"
  | CapIntrospect "string list"
  | CapEvaluatePolicy
  | CapExecute "operation_type list" "string list"
  | CapStore string
  | CapDetectTools
  | CapManageJobs
  | CapServeHttp
  | CapOrchestratePhases
  | CapBackup
  | CapEnrichMetadata string
  | CapTranscribe
  | CapSynthesize
  | CapGenerateSubtitle
  | CapHealthCheck
  | CapVerify "verification_mode list"

definition Capability_kind :: "capability \<Rightarrow> string" where
  "Capability_kind c =
     (case c of
        CapDiscover _ \<Rightarrow> ''discover''
      | CapIntrospect _ \<Rightarrow> ''introspect''
      | CapEvaluatePolicy \<Rightarrow> ''evaluate_policy''
      | CapExecute _ _ \<Rightarrow> ''execute''
      | CapStore _ \<Rightarrow> ''store''
      | CapDetectTools \<Rightarrow> ''detect_tools''
      | CapManageJobs \<Rightarrow> ''manage_jobs''
      | CapServeHttp \<Rightarrow> ''serve_http''
      | CapOrchestratePhases \<Rightarrow> ''orchestrate_phases''
      | CapBackup \<Rightarrow> ''backup''
      | CapEnrichMetadata _ \<Rightarrow> ''enrich_metadata''
      | CapTranscribe \<Rightarrow> ''transcribe''
      | CapSynthesize \<Rightarrow> ''synthesize''
      | CapGenerateSubtitle \<Rightarrow> ''generate_subtitle''
      | CapHealthCheck \<Rightarrow> ''health_check''
      | CapVerify _ \<Rightarrow> ''verify'')"

definition Capability_resolution :: "capability \<Rightarrow> capability_resolution" where
  "Capability_resolution c =
     (case c of
        CapDiscover _ \<Rightarrow> Sharded
      | CapIntrospect _ \<Rightarrow> Competing
      | CapEvaluatePolicy \<Rightarrow> Exclusive
      | CapExecute _ _ \<Rightarrow> Competing
      | CapStore _ \<Rightarrow> Exclusive
      | CapDetectTools \<Rightarrow> Competing
      | CapManageJobs \<Rightarrow> Exclusive
      | CapServeHttp \<Rightarrow> Exclusive
      | CapOrchestratePhases \<Rightarrow> Exclusive
      | CapBackup \<Rightarrow> Competing
      | CapEnrichMetadata _ \<Rightarrow> Sharded
      | CapTranscribe \<Rightarrow> Competing
      | CapSynthesize \<Rightarrow> Competing
      | CapGenerateSubtitle \<Rightarrow> Competing
      | CapHealthCheck \<Rightarrow> Competing
      | CapVerify _ \<Rightarrow> Competing)"

datatype capability_query =
    QExclusive string
  | QSharded string string
  | QCompeting string

definition matches_query :: "capability \<Rightarrow> capability_query \<Rightarrow> bool" where
  "matches_query c query =
     (case query of
        QExclusive kind \<Rightarrow> Capability_kind c = kind \<and> Capability_resolution c = Exclusive
      | QCompeting kind \<Rightarrow> Capability_kind c = kind \<and> Capability_resolution c = Competing
      | QSharded kind key \<Rightarrow>
          (if Capability_kind c \<noteq> kind \<or> Capability_resolution c \<noteq> Sharded then False
           else
             (case c of
                CapDiscover schemes \<Rightarrow> list_ex (\<lambda>s. s = key) schemes
              | CapEnrichMetadata source \<Rightarrow> source = key
              | _ \<Rightarrow> False)))"

definition sharded_collision_key :: "capability \<Rightarrow> capability \<Rightarrow> string option" where
  "sharded_collision_key a b =
     (case (a, b) of
        (CapDiscover a_s, CapDiscover b_s) \<Rightarrow> find (\<lambda>s. List.member b_s s) a_s
      | (CapEnrichMetadata a_src, CapEnrichMetadata b_src) \<Rightarrow>
          (if a_src = b_src then Some a_src else None)
      | _ \<Rightarrow> None)"

section \<open>Lemmas\<close>

text \<open>Two claims of different plugins that the kernel must not accept together.\<close>

definition claims_conflict :: "capability \<Rightarrow> capability \<Rightarrow> bool" where
  "claims_conflict a b \<longleftrightarrow>
     Capability_kind a = Capability_kind b
     \<and> (Capability_resolution a = Exclusive
        \<or> Capability_resolution a = Sharded \<and> sharded_collision_key a b \<noteq> None)"

lemma kind_resolution:
  "Capability_kind a = Capability_kind b \<Longrightarrow> Capability_resolution a = Capability_resolution b"
  by (cases a; cases b) (simp_all add: Capability_kind_def Capability_resolution_def)

lemma sharded_collision_iff:
  "sharded_collision_key a b \<noteq> None \<longleftrightarrow>
     (\<exists>kind key. matches_query a (QSharded kind key) \<and> matches_query b (QSharded kind key))"
  by (cases a; cases b)
    (auto simp: sharded_collision_key_def matches_query_def Capability_kind_def
      Capability_resolution_def find_None_iff list_ex_iff)

lemma claims_conflict_sym: "claims_conflict a b \<longleftrightarrow> claims_conflict b a"
proof -
  have "sharded_collision_key a b \<noteq> None \<longleftrightarrow> sharded_collision_key b a \<noteq> None"
    unfolding sharded_collision_iff by blast
  then show ?thesis using kind_resolution [of a b] by (auto simp: claims_conflict_def)
qed

lemma conflict_iff_same_query:
  "claims_conflict a b \<longleftrightarrow>
     (\<exists>q. (\<forall>kind. q \<noteq> QCompeting kind) \<and> matches_query a q \<and> matches_query b q)"
proof
  assume c: "claims_conflict a b"
  show "\<exists>q. (\<forall>kind. q \<noteq> QCompeting kind) \<and> matches_query a q \<and> matches_query b q"
  proof (cases "Capability_resolution a")
    case Exclusive
    then show ?thesis using c kind_resolution [of a b]
      by (intro exI [of _ "QExclusive (Capability_kind a)"])
        (auto simp: claims_conflict_def matches_query_def)
  next
    case Sharded
    then show ?thesis using c sharded_collision_iff [of a b] by (auto simp: claims_conflict_def)
  qed (use c in \<open>simp add: claims_conflict_def\<close>)
next
  assume "\<exists>q. (\<forall>kind. q \<noteq> QCompeting kind) \<and> matches_query a q \<and> matches_query b q"
  then obtain q where q: "\<forall>kind. q \<noteq> QCompeting kind" "matches_query a q" "matches_query b q" by blast
  show "claims_conflict a b"
  proof (cases q)
    case (QSharded kind key)
    then have "sharded_collision_key a b \<noteq> None" using q sharded_collision_iff [of a b] by blast
    then show ?thesis using q QSharded by (auto simp: claims_conflict_def matches_query_def split: if_splits)
  qed (use q in \<open>auto simp: claims_conflict_def matches_query_def\<close>)
qed

end
