(* ===== verification/Bus.thy ===== *)
theory Bus
  imports Events Claims
begin

text \<open>
  The event bus, \<open>crates/voom-kernel/src/bus.rs\<close>. A plugin is a record of what the kernel calls
  on it. Plugins keep private state behind their references, so each call takes and returns the
  state of the world \<open>'w\<close>; a call can return, fail or panic (the bus catches panics). The time
  stamps of the statistics come from a clock parameter. \<open>binary_search_by_key\<close> of the standard
  library is a parameter with its documented contract on sorted slices.
\<close>

section \<open>Plugins\<close>

datatype 'a reply = Returned 'a | Errored voom_error | PanickedReply

record ('w, 'c, 'r) plugin =
  pg_name :: string
  pg_capabilities :: "capability list"
  pg_handles :: "string \<Rightarrow> bool"
  pg_on_event :: "event \<Rightarrow> 'w \<Rightarrow> event_result option reply \<times> 'w"
  pg_init :: "'w \<Rightarrow> (voom_error + event list) \<times> 'w"
  pg_shutdown :: "'w \<Rightarrow> unit reply \<times> 'w"
  pg_on_call :: "'c \<Rightarrow> 'w \<Rightarrow> 'r reply \<times> 'w"

section \<open>Statistics\<close>

datatype plugin_invocation_outcome = InvOk | InvSkipped | InvErr string | InvPanic

definition PluginInvocationOutcome_as_label :: "plugin_invocation_outcome \<Rightarrow> string" where
  "PluginInvocationOutcome_as_label x =
     (case x of InvOk \<Rightarrow> ''ok'' | InvSkipped \<Rightarrow> ''skipped'' | InvErr _ \<Rightarrow> ''err'' | InvPanic \<Rightarrow> ''panic'')"

record plugin_stat_record =
  ps_plugin_id :: string
  ps_event_type :: string
  ps_started_at :: timestamp
  ps_duration_ms :: u64
  ps_outcome :: plugin_invocation_outcome

definition error_category :: "voom_error \<Rightarrow> string" where
  "error_category e =
     (case e of
        PluginError _ _ \<Rightarrow> ''plugin''
      | WasmError _ \<Rightarrow> ''wasm''
      | StorageError kind _ \<Rightarrow>
          (case kind of
             ConstraintViolation \<Rightarrow> ''storage.constraint''
           | NotFound \<Rightarrow> ''storage.not_found''
           | OtherStorage \<Rightarrow> ''storage.other'')
      | ToolNotFound _ \<Rightarrow> ''tool_not_found''
      | ToolExecution _ _ \<Rightarrow> ''tool_execution''
      | ValidationError _ \<Rightarrow> ''validation''
      | IoError _ \<Rightarrow> ''io''
      | OtherError _ \<Rightarrow> ''other'')"

definition make_error_result :: "string \<Rightarrow> string \<Rightarrow> string \<Rightarrow> event_result" where
  "make_error_result name etype err =
     (EventResult_new name)
       \<lparr>er_produced_events :=
          [EvPluginError \<lparr>pee2_plugin_name = name, pee2_event_type = etype, pee2_error = err\<rparr>]\<rparr>"

section \<open>The bus\<close>

definition MAX_CASCADE_DEPTH :: nat where
  "MAX_CASCADE_DEPTH = 8"

record ('w, 'c, 'r) subscriber =
  sub_plugin_name :: string
  sub_priority :: int
  sub_handler :: "('w, 'c, 'r) plugin"

type_synonym ('w, 'c, 'r) bus = "('w, 'c, 'r) subscriber list"

text \<open>\<open>Inr i\<close> is \<open>Ok(i)\<close>, the index of a match; \<open>Inl i\<close> is \<open>Err(i)\<close>, where a match could be
  inserted.\<close>

type_synonym binary_search = "int list \<Rightarrow> int \<Rightarrow> nat + nat"

text \<open>The loop \<open>while end < subs.len() && subs[end].priority == priority\<close>.\<close>

function end_of_run :: "int list \<Rightarrow> int \<Rightarrow> nat \<Rightarrow> nat" where
  "end_of_run ps p i = (if i < length ps \<and> ps ! i = p then end_of_run ps p (i + 1) else i)"
  by pat_completeness auto
termination by (relation "measure (\<lambda>(ps, p, i). length ps - i)") auto

declare end_of_run.simps [simp del]

definition subscribe_plugin ::
  "binary_search \<Rightarrow> ('w, 'c, 'r) plugin \<Rightarrow> int \<Rightarrow> ('w, 'c, 'r) bus \<Rightarrow> ('w, 'c, 'r) bus" where
  "subscribe_plugin bs p priority subs =
     (let ps = map sub_priority subs;
          pos = (case bs ps priority of Inr i \<Rightarrow> end_of_run ps priority (i + 1) | Inl i \<Rightarrow> i)
      in take pos subs
         @ \<lparr>sub_plugin_name = pg_name p, sub_priority = priority, sub_handler = p\<rparr>
         # drop pos subs)"

definition subscribers_ordered :: "('w, 'c, 'r) bus \<Rightarrow> (string \<times> ('w, 'c, 'r) plugin) list" where
  "subscribers_ordered subs = map (\<lambda>s. (sub_plugin_name s, sub_handler s)) subs"

definition subscriber_count :: "('w, 'c, 'r) bus \<Rightarrow> usize" where
  "subscriber_count subs = length subs"

section \<open>Dispatch\<close>

record 'w dispatch_state =
  ds_world :: 'w
  ds_stats :: "plugin_stat_record list"

type_synonym clock = "nat \<Rightarrow> timestamp \<times> u64"

definition record_stat ::
  "clock \<Rightarrow> string \<Rightarrow> string \<Rightarrow> plugin_invocation_outcome \<Rightarrow> 'w dispatch_state \<Rightarrow> 'w dispatch_state" where
  "record_stat clk name label out st =
     st\<lparr>ds_stats := ds_stats st
          @ [\<lparr>ps_plugin_id = name, ps_event_type = label,
              ps_started_at = fst (clk (length (ds_stats st))),
              ps_duration_ms = snd (clk (length (ds_stats st))), ps_outcome = out\<rparr>]\<rparr>"

definition invocation_outcome :: "event_result option reply \<Rightarrow> plugin_invocation_outcome" where
  "invocation_outcome r =
     (case r of
        Returned (Some _) \<Rightarrow> InvOk
      | Returned None \<Rightarrow> InvSkipped
      | Errored e \<Rightarrow> InvErr (error_category e)
      | PanickedReply \<Rightarrow> InvPanic)"

definition matching_handlers ::
  "('w, 'c, 'r) bus \<Rightarrow> string \<Rightarrow> (string \<times> ('w, 'c, 'r) plugin) list" where
  "matching_handlers subs etype =
     map (\<lambda>s. (sub_plugin_name s, sub_handler s))
       (filter (\<lambda>s. pg_handles (sub_handler s) etype) subs)"

fun run_handlers ::
  "clock \<Rightarrow> event \<Rightarrow> (string \<times> ('w, 'c, 'r) plugin) list \<Rightarrow> 'w dispatch_state \<Rightarrow>
   event_result list \<times> 'w dispatch_state" where
  "run_handlers clk ev [] st = ([], st)"
| "run_handlers clk ev ((name, h) # hs) st =
     (let (handler_result, w) = pg_on_event h ev (ds_world st);
          st' = record_stat clk name (event_type ev) (invocation_outcome handler_result)
                  (st\<lparr>ds_world := w\<rparr>)
      in case handler_result of
           Returned (Some result) \<Rightarrow>
             (if er_claimed result then ([result], st')
              else (let (rs, st'') = run_handlers clk ev hs st' in (result # rs, st'')))
         | Returned None \<Rightarrow> run_handlers clk ev hs st'
         | Errored e \<Rightarrow>
             (let (rs, st'') = run_handlers clk ev hs st'
              in (make_error_result name (event_type ev) (VoomError_display e) # rs, st''))
         | PanickedReply \<Rightarrow>
             (let (rs, st'') = run_handlers clk ev hs st'
              in (make_error_result name (event_type ev) ''plugin panicked'' # rs, st'')))"

fun cascade ::
  "(event \<Rightarrow> 'w dispatch_state \<Rightarrow> event_result list \<times> 'w dispatch_state) \<Rightarrow> event list \<Rightarrow>
   'w dispatch_state \<Rightarrow> event_result list \<times> 'w dispatch_state" where
  "cascade pub [] st = ([], st)"
| "cascade pub (e # es) st =
     (let (rs, st1) = pub e st; (rs', st2) = cascade pub es st1 in (rs @ rs', st2))"

text \<open>
  \<open>publish_recursive\<close> at depth \<open>MAX_CASCADE_DEPTH - k\<close>: at the depth limit (\<open>k = 0\<close>) produced
  events are dropped, below it they are published one level deeper, after the handlers.
\<close>

primrec publish_levels ::
  "clock \<Rightarrow> ('w, 'c, 'r) bus \<Rightarrow> nat \<Rightarrow> event \<Rightarrow> 'w dispatch_state \<Rightarrow>
   event_result list \<times> 'w dispatch_state" where
  "publish_levels clk subs 0 ev st =
     run_handlers clk ev (matching_handlers subs (event_type ev)) st"
| "publish_levels clk subs (Suc k) ev st =
     (let (results, st1) = run_handlers clk ev (matching_handlers subs (event_type ev)) st;
          produced = concat (map er_produced_events results);
          (cascaded, st2) = cascade (publish_levels clk subs k) produced st1
      in (results @ cascaded, st2))"

definition publish_recursive ::
  "clock \<Rightarrow> ('w, 'c, 'r) bus \<Rightarrow> event \<Rightarrow> nat \<Rightarrow> 'w dispatch_state \<Rightarrow>
   event_result list \<times> 'w dispatch_state" where
  "publish_recursive clk subs ev depth st = publish_levels clk subs (MAX_CASCADE_DEPTH - depth) ev st"

definition publish ::
  "clock \<Rightarrow> ('w, 'c, 'r) bus \<Rightarrow> event \<Rightarrow> 'w dispatch_state \<Rightarrow>
   event_result list \<times> 'w dispatch_state" where
  "publish clk subs ev st = publish_recursive clk subs ev 0 st"

section \<open>Subscription\<close>

text \<open>The contract of \<open>binary_search_by_key\<close> on a sorted slice.\<close>

definition bs_ok :: "binary_search \<Rightarrow> bool" where
  "bs_ok bs \<longleftrightarrow>
     (\<forall>ks k. sorted ks \<longrightarrow>
        (case bs ks k of
           Inr i \<Rightarrow> i < length ks \<and> ks ! i = k
         | Inl i \<Rightarrow> i \<le> length ks \<and> (\<forall>x \<in> set (take i ks). x < k) \<and> (\<forall>x \<in> set (drop i ks). k < x)))"

locale std_binary_search =
  fixes bs :: binary_search
  assumes search_ok: "bs_ok bs"
begin

lemma found: "sorted ks \<Longrightarrow> bs ks k = Inr i \<Longrightarrow> i < length ks \<and> ks ! i = k"
  using search_ok by (fastforce simp: bs_ok_def split: sum.splits)

lemma not_found:
  "sorted ks \<Longrightarrow> bs ks k = Inl i \<Longrightarrow>
   i \<le> length ks \<and> (\<forall>x \<in> set (take i ks). x < k) \<and> (\<forall>x \<in> set (drop i ks). k < x)"
  using search_ok by (fastforce simp: bs_ok_def split: sum.splits)

end

lemma end_of_run_sorted:
  assumes "sorted ps" "i \<le> length ps" "\<forall>x \<in> set (take i ps). x \<le> p" "\<forall>x \<in> set (drop i ps). p \<le> x"
  shows "end_of_run ps p i \<le> length ps \<and> (\<forall>x \<in> set (take (end_of_run ps p i) ps). x \<le> p)
    \<and> (\<forall>x \<in> set (drop (end_of_run ps p i) ps). p < x)"
  using assms
proof (induction ps p i rule: end_of_run.induct)
  case (1 ps p i)
  show ?case
  proof (cases "i < length ps \<and> ps ! i = p")
    case True
    then have "drop i ps = p # drop (i + 1) ps" using Cons_nth_drop_Suc [of i ps] by simp
    then have "end_of_run ps p (i + 1) \<le> length ps
      \<and> (\<forall>x \<in> set (take (end_of_run ps p (i + 1)) ps). x \<le> p)
      \<and> (\<forall>x \<in> set (drop (end_of_run ps p (i + 1)) ps). p < x)"
      using 1 True by (intro 1(1)) (auto simp: take_Suc_conv_app_nth)
    then show ?thesis using True by (subst end_of_run.simps, subst (2) end_of_run.simps,
        subst (3) end_of_run.simps) simp
  next
    case False
    then have stop: "end_of_run ps p i = i" by (subst end_of_run.simps) auto
    have "p < x" if x: "x \<in> set (drop i ps)" for x
    proof -
      have i: "i < length ps" using x by (cases "i < length ps") auto
      then have d: "drop i ps = ps ! i # drop (i + 1) ps" using Cons_nth_drop_Suc [of i ps] by simp
      have "p < ps ! i" using False i 1(5) d by (metis list.set_intros(1) order_le_less)
      moreover have "sorted (drop i ps)" using 1(2) by (rule sorted_wrt_drop)
      ultimately show ?thesis using x by (auto simp: d)
    qed
    then show ?thesis using 1 stop by auto
  qed
qed

lemma split_at_le:
  assumes "\<forall>s \<in> set (take i xs). f s \<le> (p :: int)" "\<forall>s \<in> set (drop i xs). p < f s"
  shows "take i xs = filter (\<lambda>s. f s \<le> p) xs \<and> drop i xs = filter (\<lambda>s. p < f s) xs"
proof -
  have "filter (\<lambda>s. f s \<le> p) (take i xs @ drop i xs) = take i xs"
    "filter (\<lambda>s. p < f s) (take i xs @ drop i xs) = drop i xs"
    using assms by (auto simp: filter_id_conv filter_empty_conv simp del: append_take_drop_id)
  then show ?thesis by simp
qed

context std_binary_search
begin

lemma subscribe_eq:
  assumes "sorted (map sub_priority subs)"
  shows "subscribe_plugin bs p priority subs =
    filter (\<lambda>s. sub_priority s \<le> priority) subs
    @ \<lparr>sub_plugin_name = pg_name p, sub_priority = priority, sub_handler = p\<rparr>
    # filter (\<lambda>s. priority < sub_priority s) subs"
proof -
  define ps where "ps = map sub_priority subs"
  define pos where "pos = (case bs ps priority of
      Inr i \<Rightarrow> end_of_run ps priority (i + 1) | Inl i \<Rightarrow> i)"
  have sorted: "sorted ps" using assms by (simp add: ps_def)
  have pos: "(\<forall>x \<in> set (take pos ps). x \<le> priority) \<and> (\<forall>x \<in> set (drop pos ps). priority < x)"
  proof (cases "bs ps priority")
    case (Inl i)
    then show ?thesis using not_found [OF sorted Inl] by (auto simp: pos_def less_imp_le)
  next
    case (Inr i)
    have i: "i < length ps" "ps ! i = priority" using found [OF sorted Inr] by auto
    have "x \<le> priority" if x: "x \<in> set (take (i + 1) ps)" for x
    proof -
      obtain j where "j \<le> i" "x = ps ! j" using x i(1)
        by (auto simp: in_set_conv_nth less_Suc_eq_le)
      then show ?thesis using sorted_nth_mono [OF sorted, of j i] i by simp
    qed
    moreover have "priority \<le> x" if x: "x \<in> set (drop (i + 1) ps)" for x
    proof -
      obtain j where j: "j < length (drop (i + 1) ps)" "x = drop (i + 1) ps ! j"
        using x by (metis in_set_conv_nth)
      then have "i + 1 + j < length ps" "x = ps ! (i + 1 + j)" by auto
      then show ?thesis using sorted_nth_mono [OF sorted, of i "i + 1 + j"] i by simp
    qed
    ultimately show ?thesis
      using end_of_run_sorted [OF sorted, of "i + 1" priority] i(1) Inr by (simp add: pos_def)
  qed
  then have "take pos subs = filter (\<lambda>s. sub_priority s \<le> priority) subs
      \<and> drop pos subs = filter (\<lambda>s. priority < sub_priority s) subs"
    by (intro split_at_le) (auto simp: ps_def take_map drop_map)
  then show ?thesis by (simp add: subscribe_plugin_def Let_def ps_def [symmetric] pos_def [symmetric])
qed

lemma subscribe_sorted:
  assumes "sorted (map sub_priority subs)"
  shows "sorted (map sub_priority (subscribe_plugin bs p priority subs))"
proof -
  have "sorted (map sub_priority (filter P subs))" for P
    using assms by (rule sorted_filter)
  then show ?thesis unfolding subscribe_eq [OF assms] by (auto simp: sorted_append)
qed

end

text \<open>A search that meets the contract.\<close>

definition linear_search :: binary_search where
  "linear_search ks k =
     (let i = length (takeWhile (\<lambda>x. x < k) ks)
      in if i < length ks \<and> ks ! i = k then Inr i else Inl i)"

lemma linear_search_ok: "bs_ok linear_search"
  unfolding bs_ok_def
proof (intro allI impI)
  fix ks :: "int list" and k assume sorted: "sorted ks"
  define i where "i = length (takeWhile (\<lambda>x. x < k) ks)"
  have drop: "drop i ks = dropWhile (\<lambda>x. x < k) ks" by (simp add: i_def dropWhile_eq_drop)
  have ge: "\<forall>x \<in> set (drop i ks). k \<le> x"
  proof (cases "drop i ks")
    case (Cons y ys)
    have "k \<le> y" using Cons drop hd_dropWhile [of "\<lambda>x. x < k" ks] by auto
    moreover have "sorted (y # ys)" using sorted sorted_wrt_drop [of "(\<le>)" ks i] Cons by simp
    ultimately show ?thesis unfolding Cons by auto
  qed simp
  show "case linear_search ks k of
      Inr i \<Rightarrow> i < length ks \<and> ks ! i = k
    | Inl i \<Rightarrow> i \<le> length ks \<and> (\<forall>x \<in> set (take i ks). x < k) \<and> (\<forall>x \<in> set (drop i ks). k < x)"
  proof (cases "i < length ks \<and> ks ! i = k")
    case True
    then show ?thesis by (simp add: linear_search_def i_def [symmetric])
  next
    case False
    have "k < x" if x: "x \<in> set (drop i ks)" for x
    proof -
      have "i < length ks" using x by (cases "i < length ks") auto
      then have "drop i ks = ks ! i # drop (Suc i) ks" by (simp add: Cons_nth_drop_Suc)
      moreover have "sorted (drop i ks)" using sorted by (rule sorted_wrt_drop)
      moreover have "k \<le> ks ! i" using ge calculation(1) by simp
      then have "k < ks ! i" using False \<open>i < length ks\<close> by simp
      ultimately show ?thesis using x by auto
    qed
    moreover have "take i ks = takeWhile (\<lambda>x. x < k) ks" 
      unfolding i_def by (rule takeWhile_eq_take [symmetric])
    then have "\<forall>x \<in> set (take i ks). x < k" 
      by (simp only:) (blast dest: set_takeWhileD)
    moreover have "i \<le> length ks" by (simp add: i_def length_takeWhile_le)
    moreover have "linear_search ks k = Inl i"
      using False unfolding linear_search_def i_def [symmetric] Let_def by (rule if_not_P)
    ultimately show ?thesis by simp
  qed
qed

interpretation linear_bs: std_binary_search linear_search
  by unfold_locales (rule linear_search_ok)

section \<open>Dispatch\<close>

definition new_stats :: "'w dispatch_state \<Rightarrow> 'w dispatch_state \<Rightarrow> plugin_stat_record list" where
  "new_stats st st' = drop (length (ds_stats st)) (ds_stats st')"

definition extends_stats :: "'w dispatch_state \<Rightarrow> 'w dispatch_state \<Rightarrow> bool" where
  "extends_stats st st' \<longleftrightarrow> (\<exists>xs. ds_stats st' = ds_stats st @ xs)"

lemma new_stats_append: "ds_stats st' = ds_stats st @ xs \<Longrightarrow> new_stats st st' = xs"
  by (simp add: new_stats_def)

lemma record_stat_simps [simp]:
  "ds_world (record_stat clk n l out st) = ds_world st"
  "ds_stats (record_stat clk n l out st) = ds_stats st
     @ [\<lparr>ps_plugin_id = n, ps_event_type = l, ps_started_at = fst (clk (length (ds_stats st))),
         ps_duration_ms = snd (clk (length (ds_stats st))), ps_outcome = out\<rparr>]"
  by (simp_all add: record_stat_def)

lemma make_error_result_simps [simp]:
  "\<not> er_claimed (make_error_result n t e)" "length (er_produced_events (make_error_result n t e)) = 1"
  by (simp_all add: make_error_result_def EventResult_new_def)

text \<open>What one pass over the handlers does: a prefix of them runs, one record each; it is all of
  them unless the last result claims the event; no other result claims it.\<close>

definition handler_pass ::
  "event \<Rightarrow> (string \<times> ('w, 'c, 'r) plugin) list \<Rightarrow> event_result list \<Rightarrow> plugin_stat_record list \<Rightarrow> bool" where
  "handler_pass ev hs rs xs \<longleftrightarrow>
     (\<exists>k \<le> length hs. map ps_plugin_id xs = map fst (take k hs)
        \<and> (k < length hs \<longrightarrow> rs \<noteq> [] \<and> er_claimed (last rs)))
     \<and> (\<forall>r \<in> set (butlast rs). \<not> er_claimed r)
     \<and> list_all (\<lambda>x. ps_event_type x = event_type ev) xs
     \<and> length rs = length (filter (\<lambda>x. ps_outcome x \<noteq> InvSkipped) xs)"

lemma handler_pass_Nil: "handler_pass ev [] [] []"
  by (simp add: handler_pass_def)

lemma handler_pass_claim:
  "er_claimed r \<Longrightarrow> ps_event_type x = event_type ev \<Longrightarrow> ps_plugin_id x = n \<Longrightarrow> ps_outcome x \<noteq> InvSkipped \<Longrightarrow>
   handler_pass ev ((n, h) # hs) [r] [x]"
  by (auto simp: handler_pass_def intro!: exI [of _ 1])

lemma handler_pass_step:
  assumes "handler_pass ev hs rs xs" "ps_event_type x = event_type ev" "ps_plugin_id x = n"
  shows "ps_outcome x \<noteq> InvSkipped \<Longrightarrow> \<not> er_claimed r \<Longrightarrow> handler_pass ev ((n, h) # hs) (r # rs) (x # xs)"
    and "ps_outcome x = InvSkipped \<Longrightarrow> handler_pass ev ((n, h) # hs) rs (x # xs)"
proof -
  obtain k where k: "k \<le> length hs" "map ps_plugin_id xs = map fst (take k hs)"
    "k < length hs \<longrightarrow> rs \<noteq> [] \<and> er_claimed (last rs)" using assms(1) by (auto simp: handler_pass_def)
  then have "Suc k \<le> length ((n, h) # hs)"
    "map ps_plugin_id (x # xs) = map fst (take (Suc k) ((n, h) # hs))"
    using assms(3) by simp_all
  with k assms show "ps_outcome x \<noteq> InvSkipped \<Longrightarrow> \<not> er_claimed r \<Longrightarrow>
      handler_pass ev ((n, h) # hs) (r # rs) (x # xs)"
    "ps_outcome x = InvSkipped \<Longrightarrow> handler_pass ev ((n, h) # hs) rs (x # xs)"
    unfolding handler_pass_def by (auto intro!: exI [of _ "Suc k"])
qed

lemma run_handlers_pass:
  "run_handlers clk ev hs st = (rs, st') \<Longrightarrow>
   \<exists>xs. ds_stats st' = ds_stats st @ xs \<and> handler_pass ev hs rs xs"
proof (induction hs arbitrary: st rs st')
  case Nil
  then show ?case by (simp add: handler_pass_Nil)
next
  case (Cons nh hs)
  obtain n h where nh: "nh = (n, h)" by (cases nh)
  obtain reply w where ev: "pg_on_event h ev (ds_world st) = (reply, w)"
    by (cases "pg_on_event h ev (ds_world st)")
  define st1 where "st1 = record_stat clk n (event_type ev) (invocation_outcome reply) (st\<lparr>ds_world := w\<rparr>)"
  obtain x where x: "ds_stats st1 = ds_stats st @ [x]" "ps_plugin_id x = n"
    "ps_event_type x = event_type ev" "ps_outcome x = invocation_outcome reply"
    by (simp add: st1_def)
  obtain rs1 st2 where rest: "run_handlers clk ev hs st1 = (rs1, st2)" by (cases "run_handlers clk ev hs st1")
  from Cons.IH [OF rest] x obtain xs where xs: "ds_stats st2 = ds_stats st @ x # xs"
    "handler_pass ev hs rs1 xs" by auto
  note step = handler_pass_step [where h = h, OF xs(2) x(3,2)]
  note eq = Cons.prems [unfolded nh, simplified, unfolded ev, simplified, folded st1_def,
      unfolded Let_def rest, simplified]
  show ?case
  proof (cases reply)
    case (Returned r)
    then show ?thesis using eq x xs step nh handler_pass_claim [of _ x ev n h hs]
      by (auto simp: invocation_outcome_def split: option.splits if_splits)
  qed (use eq x xs step nh in \<open>auto simp: invocation_outcome_def\<close>)
qed

text \<open>How many events a handler may produce, and the number of invocations it allows.\<close>

definition produces_at_most :: "nat \<Rightarrow> ('w, 'c, 'r) plugin \<Rightarrow> bool" where
  "produces_at_most b h \<longleftrightarrow>
     (\<forall>ev w r w'. pg_on_event h ev w = (Returned (Some r), w') \<longrightarrow> length (er_produced_events r) \<le> b)"

lemma run_handlers_produced:
  assumes "run_handlers clk ev hs st = (rs, st')" "1 \<le> b"
    and "\<forall>h \<in> set hs. produces_at_most b (snd h)"
  shows "length (concat (map er_produced_events rs)) \<le> length hs * b"
  using assms(1,3)
proof (induction hs arbitrary: st rs st')
  case (Cons nh hs)
  obtain n h where nh: "nh = (n, h)" by (cases nh)
  obtain reply w where ev: "pg_on_event h ev (ds_world st) = (reply, w)"
    by (cases "pg_on_event h ev (ds_world st)")
  define st1 where "st1 = record_stat clk n (event_type ev) (invocation_outcome reply) (st\<lparr>ds_world := w\<rparr>)"
  obtain rs1 st2 where rest: "run_handlers clk ev hs st1 = (rs1, st2)" by (cases "run_handlers clk ev hs st1")
  have IH: "length (concat (map er_produced_events rs1)) \<le> length hs * b"
    using Cons.IH [OF rest] Cons.prems(2) by simp
  have pr: "reply = Returned (Some r) \<Longrightarrow> length (er_produced_events r) \<le> b" for r
    using Cons.prems(2) ev nh by (auto simp: produces_at_most_def)
  note eq = Cons.prems(1) [unfolded nh, simplified, unfolded ev, simplified, folded st1_def,
      unfolded Let_def rest, simplified]
  show ?case
  proof (cases reply)
    case (Returned r)
    then show ?thesis using eq IH pr by (fastforce split: option.splits if_splits)
  qed (use eq IH assms(2) in auto)
qed simp

lemma length_matching: "length (matching_handlers subs t) \<le> length subs"
  by (simp add: matching_handlers_def)

lemma set_matching: "(n, h) \<in> set (matching_handlers subs t) \<Longrightarrow> \<exists>s \<in> set subs. sub_handler s = h"
  by (auto simp: matching_handlers_def)

fun max_invocations :: "nat \<Rightarrow> nat \<Rightarrow> nat \<Rightarrow> nat" where
  "max_invocations n b 0 = n"
| "max_invocations n b (Suc k) = n + n * b * max_invocations n b k"

lemma cascade_stats:
  assumes "\<And>e st rs st'. pub e st = (rs, st') \<Longrightarrow>
      \<exists>xs. ds_stats st' = ds_stats st @ xs \<and> length xs \<le> m"
  shows "cascade pub es st = (rs, st') \<Longrightarrow>
      \<exists>xs. ds_stats st' = ds_stats st @ xs \<and> length xs \<le> length es * m"
proof (induction es arbitrary: st rs st')
  case (Cons e es)
  obtain r1 st1 where p: "pub e st = (r1, st1)" by (cases "pub e st")
  obtain r2 st2 where c: "cascade pub es st1 = (r2, st2)" by (cases "cascade pub es st1")
  have "st2 = st'" using Cons.prems p c by simp
  then show ?case using assms [OF p] Cons.IH [OF c] by force
qed simp

lemma publish_levels_stats:
  assumes "\<forall>s \<in> set subs. produces_at_most b (sub_handler s)" "1 \<le> b"
  shows "publish_levels clk subs k ev st = (rs, st') \<Longrightarrow>
    \<exists>xs. ds_stats st' = ds_stats st @ xs \<and> length xs \<le> max_invocations (length subs) b k"
proof (induction k arbitrary: ev st rs st')
  case 0
  then obtain xs where "ds_stats st' = ds_stats st @ xs"
    "handler_pass ev (matching_handlers subs (event_type ev)) rs xs" by (auto dest: run_handlers_pass)
  moreover have "length xs \<le> length (matching_handlers subs (event_type ev))"
    using calculation(2) by (auto simp: handler_pass_def dest: map_eq_imp_length_eq)
  ultimately show ?case using length_matching [of subs "event_type ev"] by auto
next
  case (Suc k)
  let ?hs = "matching_handlers subs (event_type ev)"
  obtain r1 st1 where h: "run_handlers clk ev ?hs st = (r1, st1)" by (cases "run_handlers clk ev ?hs st")
  let ?es = "concat (map er_produced_events r1)"
  obtain r2 where c: "cascade (publish_levels clk subs k) ?es st1 = (r2, st')"
    using Suc.prems h by (auto simp: Let_def split: prod.splits)
  obtain xs where xs: "ds_stats st1 = ds_stats st @ xs" "handler_pass ev ?hs r1 xs"
    using run_handlers_pass [OF h] by blast
  have "length xs \<le> length ?hs" using xs(2) by (auto simp: handler_pass_def dest: map_eq_imp_length_eq)
  then have a: "length xs \<le> length subs" using length_matching [of subs "event_type ev"] by simp
  have "length ?es \<le> length ?hs * b"
    using assms set_matching by (intro run_handlers_produced [OF h]) fastforce+
  also have "\<dots> \<le> length subs * b" using length_matching [of subs "event_type ev"] by simp
  finally have e: "length ?es \<le> length subs * b" .
  obtain ys where ys: "ds_stats st' = ds_stats st1 @ ys"
    "length ys \<le> length ?es * max_invocations (length subs) b k"
    using cascade_stats [where pub = "publish_levels clk subs k", OF _ c] Suc.IH by blast
  have "length ys \<le> length subs * b * max_invocations (length subs) b k"
    using ys(2) e by (meson le_trans mult_le_mono1)
  then show ?case using xs(1) ys(1) a by auto
qed

lemma max_invocations_sum: "max_invocations n b k = n * (\<Sum>i \<le> k. (n * b) ^ i)"
proof (induction k)
  case (Suc k)
  have "(\<Sum>i \<le> Suc k. (n * b) ^ i) = 1 + n * b * (\<Sum>i \<le> k. (n * b) ^ i)"
    by (subst sum.atMost_Suc_shift) (simp add: sum_distrib_left)
  then show ?case by (simp add: Suc algebra_simps)
qed simp

section \<open>Properties\<close>

definition quiet_plugin :: "string \<Rightarrow> (unit, unit, unit) plugin" where
  "quiet_plugin name =
     \<lparr>pg_name = name, pg_capabilities = [], pg_handles = (\<lambda>_. True),
      pg_on_event = (\<lambda>_ w. (Returned (Some (EventResult_new name)), w)),
      pg_init = (\<lambda>w. (Inr [], w)), pg_shutdown = (\<lambda>w. (Returned (), w)),
      pg_on_call = (\<lambda>_ w. (PanickedReply, w))\<rparr>"

text \<open>
  subscription keeps the bus in dispatch order. On a bus sorted by priority, the new
  subscriber is placed after every subscriber of lower or equal priority value and before every
  one of higher value, the others keep their order, and the bus stays sorted, whichever matching
  index the binary search reports.
\<close>

theorem subscribe_plugin_stable:
  assumes "bs_ok bs" "sorted (map sub_priority subs)"
  shows "subscribe_plugin bs p priority subs =
      filter (\<lambda>s. sub_priority s \<le> priority) subs
      @ \<lparr>sub_plugin_name = pg_name p, sub_priority = priority, sub_handler = p\<rparr>
      # filter (\<lambda>s. priority < sub_priority s) subs
    \<and> sorted (map sub_priority (subscribe_plugin bs p priority subs))"
  using std_binary_search.subscribe_eq [OF std_binary_search.intro, OF assms]
    std_binary_search.subscribe_sorted [OF std_binary_search.intro, OF assms] by blast

definition two_subscribers :: "(unit, unit, unit) bus" where
  "two_subscribers =
     [\<lparr>sub_plugin_name = ''a'', sub_priority = 10, sub_handler = quiet_plugin ''a''\<rparr>,
      \<lparr>sub_plugin_name = ''b'', sub_priority = 20, sub_handler = quiet_plugin ''b''\<rparr>]"

theorem subscribe_plugin_stable_witness:
  "map sub_plugin_name (subscribe_plugin linear_search (quiet_plugin ''c'') 10 two_subscribers)
   = [''a'', ''c'', ''b'']"
  using subscribe_plugin_stable [OF linear_search_ok, of two_subscribers "quiet_plugin ''c''" 10]
  by (simp add: two_subscribers_def quiet_plugin_def)

text \<open>
  C39: one dispatch. The handlers that match an event run in the order of the bus, one statistics
  record each. A handler that fails or panics does not keep the later ones from running; only a
  result that claims the event does, and it is then the last one.
\<close>

theorem dispatch_order:
  "\<exists>rs st' xs. run_handlers clk ev (matching_handlers subs (event_type ev)) st = (rs, st')
     \<and> ds_stats st' = ds_stats st @ xs
     \<and> handler_pass ev (matching_handlers subs (event_type ev)) rs xs"
proof -
  obtain rs st' where "run_handlers clk ev (matching_handlers subs (event_type ev)) st = (rs, st')"
    by (cases "run_handlers clk ev (matching_handlers subs (event_type ev)) st")
  with run_handlers_pass [OF this] show ?thesis by blast
qed

text \<open>
  C38: cascades are bounded. When no handler produces more than \<open>b\<close> events in one call, one
  published event leads to at most \<open>n * (1 + nb + \<dots> + (nb)^8)\<close> handler invocations on a bus with
  \<open>n\<close> subscribers, however handlers answer each other's events.
\<close>

theorem cascade_bounded:
  assumes "\<forall>s \<in> set subs. produces_at_most b (sub_handler s)" "1 \<le> b"
    and "publish clk subs ev st = (rs, st')"
  shows "length (ds_stats st') \<le> length (ds_stats st)
    + length subs * (\<Sum>i \<le> MAX_CASCADE_DEPTH. (length subs * b) ^ i)"
proof -
  obtain xs where "ds_stats st' = ds_stats st @ xs"
    "length xs \<le> max_invocations (length subs) b MAX_CASCADE_DEPTH"
    using publish_levels_stats [OF assms(1,2), of clk MAX_CASCADE_DEPTH ev st rs st'] assms(3)
    by (auto simp: publish_def publish_recursive_def)
  then show ?thesis by (simp add: max_invocations_sum)
qed

theorem cascade_bounded_witness:
  "\<exists>rs st'. publish (\<lambda>_. (0, 0)) two_subscribers
       (EvScanComplete \<lparr>sce_files_discovered = 1, sce_files_introspected = 1\<rparr>)
       \<lparr>ds_world = (), ds_stats = []\<rparr> = (rs, st')
     \<and> length (ds_stats st') \<le> 2 * (\<Sum>i \<le> MAX_CASCADE_DEPTH. (2 * 1) ^ i)"
proof -
  have "\<forall>s \<in> set two_subscribers. produces_at_most 1 (sub_handler s)"
    by (auto simp: two_subscribers_def produces_at_most_def quiet_plugin_def EventResult_new_def)
  moreover obtain rs st' where "publish (\<lambda>_. (0, 0)) two_subscribers
      (EvScanComplete \<lparr>sce_files_discovered = 1, sce_files_introspected = 1\<rparr>)
      \<lparr>ds_world = (), ds_stats = []\<rparr> = (rs, st')" by (meson surj_pair)
  moreover have "length two_subscribers = 2" by (simp add: two_subscribers_def)
  ultimately show ?thesis using cascade_bounded [of two_subscribers 1] by fastforce
qed

end
