(* ===== verification/Kernel.thy ===== *)
theory Kernel
  imports Bus
begin

text \<open>
  The kernel, \<open>crates/voom-kernel/src/lib.rs\<close> and \<open>registry.rs\<close>: the plugin registry,
  registration with its capability checks, routing of calls to capabilities and shutdown. A
  method that changes the kernel returns the changed kernel together with its result, so that
  what a failed call leaves behind is visible. The registry is a hash map; the order in which its
  entries are visited decides only which of several conflicts is reported.
\<close>

section \<open>The registry\<close>

type_synonym ('w, 'c, 'r) registry = "(string, ('w, 'c, 'r) plugin) hashmap"

definition PluginRegistry_register ::
  "('w, 'c, 'r) plugin \<Rightarrow> ('w, 'c, 'r) registry \<Rightarrow> ('w, 'c, 'r) registry \<times> (voom_error + unit)" where
  "PluginRegistry_register p reg =
     (if hm_contains_key reg (pg_name p)
      then (reg, Inl (PluginError (pg_name p) ''a plugin with this name is already registered''))
      else (hm_insert (pg_name p) p reg, Inr ()))"

definition PluginRegistry_get ::
  "('w, 'c, 'r) registry \<Rightarrow> string \<Rightarrow> ('w, 'c, 'r) plugin option" where
  "PluginRegistry_get reg name = hm_get reg name"

definition PluginRegistry_contains :: "('w, 'c, 'r) registry \<Rightarrow> string \<Rightarrow> bool" where
  "PluginRegistry_contains reg name = hm_contains_key reg name"

definition plugin_names :: "('w, 'c, 'r) registry \<Rightarrow> string list" where
  "plugin_names reg = hm_keys reg"

definition PluginRegistry_len :: "('w, 'c, 'r) registry \<Rightarrow> usize" where
  "PluginRegistry_len reg = length reg"

definition PluginRegistry_is_empty :: "('w, 'c, 'r) registry \<Rightarrow> bool" where
  "PluginRegistry_is_empty reg \<longleftrightarrow> PluginRegistry_len reg = 0"

definition iter_all :: "('w, 'c, 'r) registry \<Rightarrow> (string \<times> ('w, 'c, 'r) plugin) list" where
  "iter_all reg = reg"

section \<open>The kernel\<close>

record ('w, 'c, 'r) kernel =
  k_registry :: "('w, 'c, 'r) registry"
  k_bus :: "('w, 'c, 'r) bus"
  k_shutdown_called :: bool

definition Kernel_new :: "('w, 'c, 'r) kernel" where
  "Kernel_new = \<lparr>k_registry = [], k_bus = [], k_shutdown_called = False\<rparr>"

text \<open>The conflict of one pair of claims, as the innermost loop body reports it.\<close>

definition capability_conflict :: "string \<Rightarrow> capability \<Rightarrow> string \<Rightarrow> capability \<Rightarrow> voom_error option" where
  "capability_conflict new_name new_cap existing_name existing_cap =
     (if Capability_kind new_cap \<noteq> Capability_kind existing_cap then None
      else
        (case Capability_resolution new_cap of
           Exclusive \<Rightarrow>
             Some (PluginError new_name
               (''capability conflict: '' @ Capability_kind new_cap @ '' already claimed by ''
                @ [CHR 0x27] @ existing_name @ [CHR 0x27]))
         | Sharded \<Rightarrow>
             map_option
               (\<lambda>key. PluginError new_name
                  (''capability conflict: '' @ Capability_kind new_cap @ '' key '' @ [CHR 0x27]
                   @ key @ [CHR 0x27] @ '' already claimed by '' @ [CHR 0x27] @ existing_name
                   @ [CHR 0x27]))
               (sharded_collision_key new_cap existing_cap)
         | Competing \<Rightarrow> None))"

definition check_capability_collisions ::
  "('w, 'c, 'r) kernel \<Rightarrow> ('w, 'c, 'r) plugin \<Rightarrow> voom_error + unit" where
  "check_capability_collisions k new_plugin =
     (case find_map
             (\<lambda>new_cap.
                find_map
                  (\<lambda>(existing_name, existing_plugin).
                     if existing_name = pg_name new_plugin then None
                     else find_map (capability_conflict (pg_name new_plugin) new_cap existing_name)
                            (pg_capabilities existing_plugin))
                  (iter_all (k_registry k)))
             (pg_capabilities new_plugin) of
        Some e \<Rightarrow> Inl e
      | None \<Rightarrow> Inr ())"

definition verify_registration_invariants ::
  "('w, 'c, 'r) kernel \<Rightarrow> ('w, 'c, 'r) plugin \<Rightarrow> voom_error + unit" where
  "verify_registration_invariants k new_plugin = check_capability_collisions k new_plugin"

definition register_plugin ::
  "binary_search \<Rightarrow> ('w, 'c, 'r) plugin \<Rightarrow> int \<Rightarrow> ('w, 'c, 'r) kernel \<Rightarrow>
   ('w, 'c, 'r) kernel \<times> (voom_error + unit)" where
  "register_plugin bs p priority k =
     (case verify_registration_invariants k p of
        Inl e \<Rightarrow> (k, Inl e)
      | Inr _ \<Rightarrow>
          (case PluginRegistry_register p (k_registry k) of
             (reg, Inl e) \<Rightarrow> (k\<lparr>k_registry := reg\<rparr>, Inl e)
           | (reg, Inr _) \<Rightarrow>
               (k\<lparr>k_registry := reg, k_bus := subscribe_plugin bs p priority (k_bus k)\<rparr>, Inr ())))"

definition dispatch ::
  "clock \<Rightarrow> ('w, 'c, 'r) kernel \<Rightarrow> event \<Rightarrow> 'w dispatch_state \<Rightarrow>
   event_result list \<times> 'w dispatch_state" where
  "dispatch clk k ev st = publish clk (k_bus k) ev st"

fun dispatch_all ::
  "clock \<Rightarrow> ('w, 'c, 'r) kernel \<Rightarrow> event list \<Rightarrow> 'w dispatch_state \<Rightarrow> 'w dispatch_state" where
  "dispatch_all clk k [] st = st"
| "dispatch_all clk k (ev # evs) st = dispatch_all clk k evs (snd (dispatch clk k ev st))"

definition finish_registration ::
  "clock \<Rightarrow> binary_search \<Rightarrow> ('w, 'c, 'r) plugin \<Rightarrow> int \<Rightarrow> event list \<Rightarrow>
   ('w, 'c, 'r) kernel \<times> 'w dispatch_state \<Rightarrow>
   (('w, 'c, 'r) kernel \<times> 'w dispatch_state) \<times> (voom_error + unit)" where
  "finish_registration clk bs p priority init_events ks =
     (let (k, st) = ks in
      case PluginRegistry_register p (k_registry k) of
        (reg, Inl e) \<Rightarrow> ((k\<lparr>k_registry := reg\<rparr>, st), Inl e)
      | (reg, Inr _) \<Rightarrow>
          (let k' = k\<lparr>k_registry := reg, k_bus := subscribe_plugin bs p priority (k_bus k)\<rparr>
           in ((k', dispatch_all clk k' init_events st), Inr ())))"

text \<open>\<open>unique\<close> says whether the caller's reference is the only one, which \<open>Arc::get_mut\<close> needs.\<close>

definition init_and_register ::
  "clock \<Rightarrow> binary_search \<Rightarrow> bool \<Rightarrow> ('w, 'c, 'r) plugin \<Rightarrow> int \<Rightarrow>
   ('w, 'c, 'r) kernel \<times> 'w dispatch_state \<Rightarrow>
   (('w, 'c, 'r) kernel \<times> 'w dispatch_state) \<times> (voom_error + unit)" where
  "init_and_register clk bs unique p priority ks =
     (let (k, st) = ks in
      if PluginRegistry_contains (k_registry k) (pg_name p)
      then (ks, Inl (PluginError (pg_name p) ''a plugin with this name is already registered''))
      else
        (case verify_registration_invariants k p of
           Inl e \<Rightarrow> (ks, Inl e)
         | Inr _ \<Rightarrow>
             (if \<not> unique
              then (ks, Inl (PluginError (pg_name p)
                     ''init requires exclusive Arc ownership (refcount must be 1)''))
              else
                (case pg_init p (ds_world st) of
                   (Inl e, w) \<Rightarrow>
                     ((k, st\<lparr>ds_world := w\<rparr>),
                      Inl (PluginError (pg_name p) (''init failed: '' @ VoomError_display e)))
                 | (Inr init_events, w) \<Rightarrow>
                     finish_registration clk bs p priority init_events (k, st\<lparr>ds_world := w\<rparr>)))))"

section \<open>Routing and shutdown\<close>

definition resolve_capability ::
  "(capability_query \<Rightarrow> string) \<Rightarrow> ('w, 'c, 'r) kernel \<Rightarrow> capability_query \<Rightarrow>
   voom_error + ('w, 'c, 'r) plugin" where
  "resolve_capability debug k query =
     (case find (\<lambda>(_, p). list_ex (\<lambda>c. matches_query c query) (pg_capabilities p))
             (subscribers_ordered (k_bus k)) of
        Some (_, p) \<Rightarrow> Inr p
      | None \<Rightarrow>
          Inl (PluginError (debug query) (''no handler for capability '' @ debug query)))"

definition dispatch_to_capability ::
  "clock \<Rightarrow> (capability_query \<Rightarrow> string) \<Rightarrow> ('c \<Rightarrow> string) \<Rightarrow> ('w, 'c, 'r) kernel \<Rightarrow>
   capability_query \<Rightarrow> 'c \<Rightarrow> 'w dispatch_state \<Rightarrow> (voom_error + 'r) \<times> 'w dispatch_state" where
  "dispatch_to_capability clk debug call_kind_str k query call st =
     (case resolve_capability debug k query of
        Inl e \<Rightarrow> (Inl e, st)
      | Inr p \<Rightarrow>
          (let (handler_result, w) = pg_on_call p call (ds_world st);
               outcome =
                 (case handler_result of
                    Returned _ \<Rightarrow> InvOk
                  | Errored e \<Rightarrow> InvErr (error_category e)
                  | PanickedReply \<Rightarrow> InvPanic);
               st' = record_stat clk (pg_name p) (call_kind_str call) outcome (st\<lparr>ds_world := w\<rparr>)
           in (case handler_result of
                 Returned response \<Rightarrow> Inr response
               | Errored e \<Rightarrow> Inl e
               | PanickedReply \<Rightarrow> Inl (PluginError (pg_name p) ''panic during dispatch_to_capability''),
               st')))"

text \<open>The shutdown loop: errors are logged, a panic of a plugin ends it.\<close>

fun shutdown_loop ::
  "(string \<times> ('w, 'c, 'r) plugin) list \<Rightarrow> 'w \<Rightarrow> string list \<Rightarrow> string list \<times> 'w" where
  "shutdown_loop [] w called = (called, w)"
| "shutdown_loop ((name, p) # ps) w called =
     (case pg_shutdown p w of
        (PanickedReply, w') \<Rightarrow> (called @ [name], w')
      | (_, w') \<Rightarrow> shutdown_loop ps w' (called @ [name]))"

text \<open>The kernel after the call, the plugins whose \<open>shutdown\<close> called, in that order, and the state
  they leave.\<close>

definition shutdown ::
  "('w, 'c, 'r) kernel \<Rightarrow> 'w \<Rightarrow> ('w, 'c, 'r) kernel \<times> string list \<times> 'w" where
  "shutdown k w =
     (if k_shutdown_called k then (k, [], w)
      else
        (k\<lparr>k_shutdown_called := True\<rparr>,
         shutdown_loop (rev (subscribers_ordered (k_bus k))) w []))"

section \<open>The kernel as a state machine\<close>

inductive kernel_step ::
  "clock \<Rightarrow> binary_search \<Rightarrow> ('w, 'c, 'r) kernel \<times> 'w dispatch_state \<Rightarrow>
   ('w, 'c, 'r) kernel \<times> 'w dispatch_state \<Rightarrow> bool" for clk bs where
  step_register: "kernel_step clk bs (k, st) (fst (register_plugin bs p priority k), st)"
| step_init: "kernel_step clk bs ks (fst (init_and_register clk bs unique p priority ks))"
| step_dispatch: "kernel_step clk bs (k, st) (k, snd (dispatch clk k ev st))"
| step_call: "kernel_step clk bs (k, st) (k, snd (dispatch_to_capability clk dbg lbl k query call st))"
| step_shutdown:
    "shutdown k (ds_world st) = (k', called, w) \<Longrightarrow> kernel_step clk bs (k, st) (k', st\<lparr>ds_world := w\<rparr>)"

inductive_cases kernel_stepE: "kernel_step clk bs ks ks'"

definition kernel_reachable ::
  "clock \<Rightarrow> binary_search \<Rightarrow> ('w, 'c, 'r) kernel \<times> 'w dispatch_state \<Rightarrow> bool" where
  "kernel_reachable clk bs ks = (\<exists>st0. (kernel_step clk bs)\<^sup>*\<^sup>* (Kernel_new, st0) ks)"

text \<open>The invariant: bus and registry hold the same plugins under their own names, the bus is in
  dispatch order, and the claims of different plugins do not conflict.\<close>

definition claims_disjoint :: "(string \<times> ('w, 'c, 'r) plugin) set \<Rightarrow> bool" where
  "claims_disjoint ps \<longleftrightarrow>
     (\<forall>(n, p) \<in> ps. \<forall>(m, q) \<in> ps. n \<noteq> m \<longrightarrow>
        (\<forall>c \<in> set (pg_capabilities p). \<forall>d \<in> set (pg_capabilities q). \<not> claims_conflict c d))"

definition kernel_ok :: "('w, 'c, 'r) kernel \<Rightarrow> bool" where
  "kernel_ok k \<longleftrightarrow>
     hm_wf (k_registry k)
     \<and> (\<forall>(n, p) \<in> set (k_registry k). n = pg_name p)
     \<and> set (subscribers_ordered (k_bus k)) = set (k_registry k)
     \<and> distinct (map sub_plugin_name (k_bus k))
     \<and> sorted (map sub_priority (k_bus k))
     \<and> claims_disjoint (set (k_registry k))"

lemma capability_conflict_None:
  "capability_conflict n c m d = None \<longleftrightarrow> \<not> claims_conflict c d"
  by (auto simp: capability_conflict_def claims_conflict_def split: capability_resolution.splits)

lemma check_collisions_ok:
  "check_capability_collisions k p = Inr () \<longleftrightarrow>
     (\<forall>(m, q) \<in> set (k_registry k). m \<noteq> pg_name p \<longrightarrow>
        (\<forall>c \<in> set (pg_capabilities p). \<forall>d \<in> set (pg_capabilities q). \<not> claims_conflict c d))"
proof -
  have "check_capability_collisions k p = Inr () \<longleftrightarrow>
      (\<forall>c \<in> set (pg_capabilities p). \<forall>(m, q) \<in> set (k_registry k).
         (if m = pg_name p then None
          else find_map (capability_conflict (pg_name p) c m) (pg_capabilities q)) = None)"
    unfolding check_capability_collisions_def iter_all_def
    by (simp only: find_map_None [symmetric] split_def) (auto split: option.split)
  also have "\<dots> \<longleftrightarrow> (\<forall>(m, q) \<in> set (k_registry k). m \<noteq> pg_name p \<longrightarrow>
        (\<forall>c \<in> set (pg_capabilities p). \<forall>d \<in> set (pg_capabilities q). \<not> claims_conflict c d))"
    by (simp add: find_map_None capability_conflict_None split_def) blast
  finally show ?thesis .
qed

lemma hm_insert_set: "hm_get m k = None \<Longrightarrow> set (hm_insert k v m) = insert (k, v) (set m)"
  by (induction m) (auto simp: hm_get_def hm_insert_def split: if_splits)

context std_binary_search
begin

lemma set_subscribe:
  assumes "sorted (map sub_priority subs)"
  shows "set (subscribe_plugin bs p priority subs)
    = insert \<lparr>sub_plugin_name = pg_name p, sub_priority = priority, sub_handler = p\<rparr> (set subs)"
  unfolding subscribe_eq [OF assms] by auto

lemma distinct_subscribe:
  assumes "sorted (map sub_priority subs)" "distinct (map sub_plugin_name subs)"
    and "pg_name p \<notin> sub_plugin_name ` set subs"
  shows "distinct (map sub_plugin_name (subscribe_plugin bs p priority subs))"
proof -
  have "sub_plugin_name ` set (filter (\<lambda>s. sub_priority s \<le> priority) subs)
      \<inter> sub_plugin_name ` set (filter (\<lambda>s. priority < sub_priority s) subs) = {}"
    using assms(2) by (fastforce simp: distinct_map dest: inj_onD)
  moreover have "distinct (map sub_plugin_name (filter P subs))" for P
    using assms(2) by (rule distinct_map_filter)
  ultimately show ?thesis unfolding subscribe_eq [OF assms(1)] using assms(3) by auto
qed

text \<open>Adding a plugin whose name is new and whose claims do not conflict keeps the invariant.\<close>

lemma add_plugin_ok:
  assumes "kernel_ok k" "hm_get (k_registry k) (pg_name p) = None"
    and "check_capability_collisions k p = Inr ()"
  shows "kernel_ok (k\<lparr>k_registry := hm_insert (pg_name p) p (k_registry k),
                      k_bus := subscribe_plugin bs p priority (k_bus k)\<rparr>)"
proof -
  note ok = assms(1) [unfolded kernel_ok_def]
  have reg: "set (hm_insert (pg_name p) p (k_registry k)) = insert (pg_name p, p) (set (k_registry k))"
    by (rule hm_insert_set [OF assms(2)])
  have old: "(pg_name p, q) \<notin> set (k_registry k)" for q
    using assms(2) hm_keys_get [of "pg_name p" "k_registry k"] by (force simp: hm_keys_def)
  have bus: "set (subscribers_ordered (subscribe_plugin bs p priority (k_bus k)))
      = insert (pg_name p, p) (set (k_registry k))"
    using ok set_subscribe [of "k_bus k" p priority] by (auto simp: subscribers_ordered_def)
  have "pg_name p \<notin> sub_plugin_name ` set (k_bus k)"
  proof
    assume "pg_name p \<in> sub_plugin_name ` set (k_bus k)"
    then obtain s where "s \<in> set (k_bus k)" "sub_plugin_name s = pg_name p" by auto
    then have "(pg_name p, sub_handler s) \<in> set (subscribers_ordered (k_bus k))"
      by (force simp: subscribers_ordered_def)
    then show False using ok old by blast
  qed
  then have "distinct (map sub_plugin_name (subscribe_plugin bs p priority (k_bus k)))"
    using ok by (intro distinct_subscribe) blast+
  moreover have "claims_disjoint (insert (pg_name p, p) (set (k_registry k)))"
  proof -
    have new: "\<not> claims_conflict c d \<and> \<not> claims_conflict d c"
      if "(m, q) \<in> set (k_registry k)" "m \<noteq> pg_name p"
        "c \<in> set (pg_capabilities p)" "d \<in> set (pg_capabilities q)" for m q c d
      using that assms(3) claims_conflict_sym [of c d] unfolding check_collisions_ok by blast
    have "claims_disjoint (set (k_registry k))" using ok by blast
    then show ?thesis using new unfolding claims_disjoint_def split_def ball_simps
      by (simp, metis prod.collapse)
  qed
  ultimately show ?thesis
    using ok reg bus subscribe_sorted [of "k_bus k" p priority] by (auto simp: kernel_ok_def)
qed

lemma register_plugin_ok: "kernel_ok k \<Longrightarrow> kernel_ok (fst (register_plugin bs p priority k))"
  by (auto simp: register_plugin_def verify_registration_invariants_def PluginRegistry_register_def
      hm_contains_key_def split: sum.split intro: add_plugin_ok)

lemma init_and_register_ok:
  "kernel_ok (fst ks) \<Longrightarrow> kernel_ok (fst (fst (init_and_register clk bs unique p priority ks)))"
  by (cases ks)
    (auto simp: init_and_register_def verify_registration_invariants_def finish_registration_def
      PluginRegistry_register_def PluginRegistry_contains_def hm_contains_key_def Let_def
      split: sum.split prod.split intro: add_plugin_ok)

lemma step_ok: "kernel_step clk bs ks ks' \<Longrightarrow> kernel_ok (fst ks) \<Longrightarrow> kernel_ok (fst ks')"
proof (induction rule: kernel_step.induct)
  case (step_shutdown k st k' called w)
  then show ?case by (auto simp: shutdown_def kernel_ok_def split: if_splits)
qed (simp_all add: register_plugin_ok init_and_register_ok)

lemma reachable_ok: "kernel_reachable clk bs ks \<Longrightarrow> kernel_ok (fst ks)"
proof -
  have new: "kernel_ok Kernel_new"
    by (simp add: Kernel_new_def kernel_ok_def subscribers_ordered_def claims_disjoint_def)
  assume "kernel_reachable clk bs ks"
  then obtain st0 where "(kernel_step clk bs)\<^sup>*\<^sup>* (Kernel_new, st0) ks" by (auto simp: kernel_reachable_def)
  then show ?thesis by (induction rule: rtranclp_induct) (use new step_ok in auto)
qed

end

lemma resolve_capability_Inr:
  assumes "resolve_capability dbg k query = Inr p"
  obtains i where "i < length (k_bus k)" "sub_handler (k_bus k ! i) = p"
    "list_ex (\<lambda>c. matches_query c query) (pg_capabilities p)"
    "\<forall>j < i. \<not> list_ex (\<lambda>c. matches_query c query) (pg_capabilities (sub_handler (k_bus k ! j)))"
proof -
  obtain n where "find (\<lambda>(_, p). list_ex (\<lambda>c. matches_query c query) (pg_capabilities p))
      (subscribers_ordered (k_bus k)) = Some (n, p)"
    using assms by (auto simp: resolve_capability_def split: option.splits)
  then show ?thesis using that by (auto simp: find_Some_iff subscribers_ordered_def split_def)
qed

lemma unique_owner:
  assumes "kernel_ok k" "\<forall>kind. query \<noteq> QCompeting kind"
    and "(n, p) \<in> set (k_registry k)" "c \<in> set (pg_capabilities p)" "matches_query c query"
    and "(m, q) \<in> set (k_registry k)" "d \<in> set (pg_capabilities q)" "matches_query d query"
  shows "n = m \<and> p = q"
proof -
  have "claims_conflict c d" using assms(2,5,8) conflict_iff_same_query by blast
  then have "n = m"
    using assms(1,3,4,6,7) unfolding kernel_ok_def claims_disjoint_def by blast
  moreover have "distinct (map fst (k_registry k))" using assms(1) by (simp add: kernel_ok_def hm_wf_def)
  ultimately show ?thesis using assms(3,6) by (auto dest: eq_key_imp_eq_value)
qed

lemma resolve_owner:
  assumes "kernel_ok k" "\<forall>kind. query \<noteq> QCompeting kind"
  shows "resolve_capability dbg k query = Inr p \<longleftrightarrow>
    (\<exists>n. (n, p) \<in> set (k_registry k))
    \<and> list_ex (\<lambda>c. matches_query c query) (pg_capabilities p)"
proof
  assume "resolve_capability dbg k query = Inr p"
  then obtain i where "i < length (k_bus k)" "sub_handler (k_bus k ! i) = p"
    "list_ex (\<lambda>c. matches_query c query) (pg_capabilities p)" by (rule resolve_capability_Inr)
  moreover have "(sub_plugin_name (k_bus k ! i), p) \<in> set (subscribers_ordered (k_bus k))"
    using calculation(1,2) by (force simp: subscribers_ordered_def)
  ultimately show "(\<exists>n. (n, p) \<in> set (k_registry k))
      \<and> list_ex (\<lambda>c. matches_query c query) (pg_capabilities p)"
    using assms(1) by (auto simp: kernel_ok_def)
next
  assume "(\<exists>n. (n, p) \<in> set (k_registry k)) \<and> list_ex (\<lambda>c. matches_query c query) (pg_capabilities p)"
  then obtain n c where n: "(n, p) \<in> set (k_registry k)" "c \<in> set (pg_capabilities p)"
    "matches_query c query" by (auto simp: list_ex_iff)
  then have "(n, p) \<in> set (subscribers_ordered (k_bus k))" using assms(1) by (simp add: kernel_ok_def)
  then obtain m q where f: "find (\<lambda>(_, p). list_ex (\<lambda>c. matches_query c query) (pg_capabilities p))
      (subscribers_ordered (k_bus k)) = Some (m, q)"
    using n(2,3) by (cases "find (\<lambda>(_, p). list_ex (\<lambda>c. matches_query c query) (pg_capabilities p))
      (subscribers_ordered (k_bus k))") (auto simp: find_None_iff list_ex_iff)
  then obtain d where "(m, q) \<in> set (k_registry k)" "d \<in> set (pg_capabilities q)" "matches_query d query"
    using assms(1) by (auto simp: find_Some_iff kernel_ok_def list_ex_iff dest!: nth_mem)
  then have "q = p" using unique_owner [OF assms] n by blast
  then show "resolve_capability dbg k query = Inr p" using f by (simp add: resolve_capability_def)
qed

section \<open>Properties\<close>

text \<open>
  C14: the kernel invariant. In every state that registrations, dispatches, calls and shutdown can
  reach, the registry and the bus hold the same plugins under their own, distinct names, the bus
  is sorted by priority, and no two plugins claim the same exclusive capability or the same key
  of a sharded one.
\<close>

theorem kernel_invariant:
  assumes "bs_ok bs" "kernel_reachable clk bs ks"
  shows "kernel_ok (fst ks)"
  using assms std_binary_search.reachable_ok [OF std_binary_search.intro] by blast

text \<open>A plugin that only claims capabilities.\<close>

definition claiming_plugin :: "string \<Rightarrow> capability list \<Rightarrow> (unit, unit, unit) plugin" where
  "claiming_plugin name caps = (quiet_plugin name)\<lparr>pg_capabilities := caps\<rparr>"

definition one_plugin_kernel :: "(unit, unit, unit) kernel" where
  "one_plugin_kernel =
     fst (register_plugin linear_search (claiming_plugin ''a'' [CapStore ''sqlite'']) 10 Kernel_new)"

lemma one_plugin_kernel_reachable:
  "kernel_reachable clk linear_search (one_plugin_kernel, \<lparr>ds_world = (), ds_stats = []\<rparr>)"
  unfolding kernel_reachable_def one_plugin_kernel_def
  by (intro exI r_into_rtranclp) (rule step_register)

theorem kernel_invariant_witness: "kernel_ok one_plugin_kernel"
  using kernel_invariant [OF linear_search_ok one_plugin_kernel_reachable] by simp

text \<open>
  C16: routing of exclusive and sharded capabilities is unambiguous. In a kernel that satisfies
  the invariant, a query for one resolves to a plugin exactly when that plugin is registered and
  claims a matching capability; there is then only one such plugin.
\<close>

theorem resolve_unique:
  assumes "kernel_ok k" "\<forall>kind. query \<noteq> QCompeting kind"
  shows "resolve_capability dbg k query = Inr p \<longleftrightarrow>
    (\<exists>n. (n, p) \<in> set (k_registry k))
    \<and> list_ex (\<lambda>c. matches_query c query) (pg_capabilities p)"
  using assms by (rule resolve_owner)

theorem resolve_unique_witness:
  "resolve_capability (\<lambda>_. []) one_plugin_kernel (QExclusive ''store'')
   = Inr (claiming_plugin ''a'' [CapStore ''sqlite''])"
proof -
  have "kernel_ok one_plugin_kernel"
    using linear_bs.reachable_ok [OF one_plugin_kernel_reachable] by simp
  moreover have "(''a'', claiming_plugin ''a'' [CapStore ''sqlite'']) \<in> set (k_registry one_plugin_kernel)"
    by (simp add: one_plugin_kernel_def register_plugin_def verify_registration_invariants_def
        check_capability_collisions_def iter_all_def Kernel_new_def PluginRegistry_register_def
        claiming_plugin_def quiet_plugin_def hm_contains_key_def hm_insert_def)
  moreover have "list_ex (\<lambda>c. matches_query c (QExclusive ''store''))
      (pg_capabilities (claiming_plugin ''a'' [CapStore ''sqlite'']))"
    by (simp add: claiming_plugin_def matches_query_def Capability_kind_def Capability_resolution_def)
  ultimately show ?thesis
    using resolve_unique [of one_plugin_kernel "QExclusive ''store''" "\<lambda>_. []"] by blast
qed

text \<open>
  competing capabilities go to the first plugin by priority: every subscriber that also
  matches the query has the same or a higher priority value than the one that is chosen.
\<close>

theorem resolve_by_priority:
  assumes "kernel_ok k" "resolve_capability dbg k query = Inr p"
  shows "\<exists>s \<in> set (k_bus k). sub_handler s = p
    \<and> (\<forall>t \<in> set (k_bus k). list_ex (\<lambda>c. matches_query c query) (pg_capabilities (sub_handler t)) \<longrightarrow>
         sub_priority s \<le> sub_priority t)"
proof (rule resolve_capability_Inr [OF assms(2)])
  fix i assume i: "i < length (k_bus k)" "sub_handler (k_bus k ! i) = p"
    "\<forall>j < i. \<not> list_ex (\<lambda>c. matches_query c query) (pg_capabilities (sub_handler (k_bus k ! j)))"
  have "sub_priority (k_bus k ! i) \<le> sub_priority t"
    if t: "t \<in> set (k_bus k)" "list_ex (\<lambda>c. matches_query c query) (pg_capabilities (sub_handler t))" for t
  proof -
    obtain j where j: "j < length (k_bus k)" "t = k_bus k ! j" using t(1) by (auto simp: in_set_conv_nth)
    then have "i \<le> j" using i(3) t(2) by (meson not_le)
    then show ?thesis
      using sorted_nth_mono [of "map sub_priority (k_bus k)" i j] assms(1) j by (simp add: kernel_ok_def)
  qed
  then show ?thesis using i(2) by (intro bexI [OF _ nth_mem [OF i(1)]]) blast
qed

theorem resolve_by_priority_witness:
  "\<exists>s \<in> set (k_bus one_plugin_kernel). sub_handler s = claiming_plugin ''a'' [CapStore ''sqlite'']"
proof -
  have "kernel_ok one_plugin_kernel"
    using linear_bs.reachable_ok [OF one_plugin_kernel_reachable] by simp
  moreover have "resolve_capability (\<lambda>_. []) one_plugin_kernel (QExclusive ''store'')
      = Inr (claiming_plugin ''a'' [CapStore ''sqlite''])"
    by (simp add: one_plugin_kernel_def register_plugin_def verify_registration_invariants_def
        check_capability_collisions_def iter_all_def Kernel_new_def PluginRegistry_register_def
        claiming_plugin_def quiet_plugin_def hm_contains_key_def resolve_capability_def
        subscribers_ordered_def subscribe_plugin_def linear_search_def matches_query_def
        Capability_kind_def Capability_resolution_def Let_def)
  ultimately show ?thesis using resolve_by_priority by blast
qed

text \<open>
  C40: a registration that fails leaves the kernel as it was: on every error path of
  \<open>register_plugin\<close> and \<open>init_and_register\<close>, neither the registry nor the bus has changed, and
  when the name is taken or a capability conflicts the plugin's \<open>init\<close> was not even called.
\<close>

theorem failed_registration_unchanged:
  "(\<forall>e. snd (register_plugin bs p priority k) = Inl e \<longrightarrow> fst (register_plugin bs p priority k) = k)
   \<and> (\<forall>e. snd (init_and_register clk bs unique p priority (k, st)) = Inl e \<longrightarrow>
        fst (fst (init_and_register clk bs unique p priority (k, st))) = k
        \<and> (PluginRegistry_contains (k_registry k) (pg_name p)
            \<or> check_capability_collisions k p \<noteq> Inr () \<longrightarrow>
              snd (fst (init_and_register clk bs unique p priority (k, st))) = st))"
proof (intro conjI allI impI)
  fix e assume "snd (register_plugin bs p priority k) = Inl e"
  then show "fst (register_plugin bs p priority k) = k"
    by (auto simp: register_plugin_def PluginRegistry_register_def split: sum.splits if_splits)
next
  fix e assume a: "snd (init_and_register clk bs unique p priority (k, st)) = Inl e"
  then show "fst (fst (init_and_register clk bs unique p priority (k, st))) = k"
    by (auto simp: init_and_register_def finish_registration_def PluginRegistry_register_def
        PluginRegistry_contains_def Let_def split: sum.splits if_splits prod.splits)
  assume "PluginRegistry_contains (k_registry k) (pg_name p) \<or> check_capability_collisions k p \<noteq> Inr ()"
  then show "snd (fst (init_and_register clk bs unique p priority (k, st))) = st"
    by (cases "check_capability_collisions k p")
      (auto simp: init_and_register_def verify_registration_invariants_def)
qed

theorem failed_registration_unchanged_witness:
  "fst (register_plugin linear_search (claiming_plugin ''b'' [CapStore ''x'']) 5 one_plugin_kernel)
   = one_plugin_kernel"
proof -
  have "\<exists>e. snd (register_plugin linear_search (claiming_plugin ''b'' [CapStore ''x'']) 5
      one_plugin_kernel) = Inl e"
    by (simp add: one_plugin_kernel_def register_plugin_def verify_registration_invariants_def
        check_capability_collisions_def iter_all_def Kernel_new_def PluginRegistry_register_def
        claiming_plugin_def quiet_plugin_def hm_contains_key_def hm_insert_def
        capability_conflict_def Capability_kind_def Capability_resolution_def)
  then show ?thesis
    using failed_registration_unchanged [of linear_search "claiming_plugin ''b'' [CapStore ''x'']" 5
        one_plugin_kernel "\<lambda>_. (0, 0)" True "\<lparr>ds_world = (), ds_stats = []\<rparr>"] by blast
qed

lemma shutdown_loop_called:
  assumes "\<forall>(n, p) \<in> set ps. \<forall>w. fst (pg_shutdown p w) \<noteq> PanickedReply"
  shows "fst (shutdown_loop ps w called) = called @ map fst ps"
  using assms
proof (induction ps arbitrary: w called)
  case (Cons np ps)
  obtain n p where np: "np = (n, p)" by (cases np)
  obtain r w' where "pg_shutdown p w = (r, w')" by (cases "pg_shutdown p w")
  moreover have "r \<noteq> PanickedReply" using Cons.prems calculation np by (auto dest!: spec [of _ w])
  ultimately show ?case using Cons np by (cases r) auto
qed simp

text \<open>
  shutdown. When no plugin panics, the first call shuts every plugin down exactly once, in
  the reverse of the dispatch order, whatever errors they return, and every later call does
  nothing.
\<close>

theorem shutdown_once:
  assumes "\<not> k_shutdown_called k"
    and "\<forall>s \<in> set (k_bus k). \<forall>w. fst (pg_shutdown (sub_handler s) w) \<noteq> PanickedReply"
    and "shutdown k w = (k', called, w')"
  shows "called = rev (map sub_plugin_name (k_bus k)) \<and> shutdown k' w'' = (k', [], w'')"
proof -
  have "fst (shutdown_loop (rev (subscribers_ordered (k_bus k))) w []) = [] @ map fst (rev (subscribers_ordered (k_bus k)))"
    using assms(2) by (intro shutdown_loop_called) (auto simp: subscribers_ordered_def)
  then show ?thesis using assms(1,3)
    by (auto simp: shutdown_def subscribers_ordered_def rev_map comp_def)
qed

theorem shutdown_once_witness:
  "fst (snd (shutdown one_plugin_kernel ())) = rev (map sub_plugin_name (k_bus one_plugin_kernel))"
proof -
  have "\<not> k_shutdown_called one_plugin_kernel"
    "\<forall>s \<in> set (k_bus one_plugin_kernel). \<forall>w. fst (pg_shutdown (sub_handler s) w) \<noteq> PanickedReply"
    by (simp_all add: one_plugin_kernel_def register_plugin_def verify_registration_invariants_def
        check_capability_collisions_def iter_all_def Kernel_new_def PluginRegistry_register_def
        claiming_plugin_def quiet_plugin_def hm_contains_key_def subscribe_plugin_def linear_search_def
        Let_def)
  then show ?thesis
    using shutdown_once [of one_plugin_kernel "()"] by (metis prod.collapse)
qed

end
