(* ===== verification/Orchestrator.thy ===== *)
theory Orchestrator
  imports Samples
begin

text \<open>
  The phase orchestrator, \<open>plugins/phase-orchestrator/src/lib.rs\<close>, with the result type of
  \<open>crates/voom-domain/src/orchestration.rs\<close>: phase outcomes of evaluated plans, the dry-run
  summary and the error strategy of a phase.
\<close>

record orchestration_result =
  or_plans :: "plan list"
  or_phase_results :: "phase_result list"
  or_file_modified :: bool

definition phase_outcome_of :: "plan \<Rightarrow> phase_outcome" where
  "phase_outcome_of p =
     (if Plan_is_skipped p then Skipped else if pl_actions p = [] then Completed else Pending)"

fun orchestrate_loop ::
  "plan list \<Rightarrow> phase_result list \<Rightarrow> bool \<Rightarrow> phase_result list \<times> bool" where
  "orchestrate_loop [] results file_modified = (results, file_modified)"
| "orchestrate_loop (p # ps) results file_modified =
     (let outcome = phase_outcome_of p;
          phase_modified = (outcome = Pending);
          result =
            (PhaseResult_new (pl_phase_name p) outcome)
              \<lparr>pr_file_modified := phase_modified, pr_skip_reason := pl_skip_reason p\<rparr>
      in orchestrate_loop ps (results @ [result])
           (if phase_modified then True else file_modified))"

definition orchestrate :: "plan list \<Rightarrow> orchestration_result" where
  "orchestrate plans =
     (let (results, file_modified) = orchestrate_loop plans [] False
      in \<lparr>or_plans = plans, or_phase_results = results, or_file_modified = file_modified\<rparr>)"

definition newline :: string where
  "newline = [CHR 0x0A]"

definition format_actions :: "planned_action list \<Rightarrow> string" where
  "format_actions as =
     concat (map (\<lambda>(i, a). ''  '' @ nat_str (i + 1) @ ''. '' @ pa_description a @ newline)
               (enumerate 0 as))"

definition format_phase :: "plan \<times> phase_result \<Rightarrow> string" where
  "format_phase pr =
     (let (p, r) = pr in
      newline @ ''=== Phase: '' @ pl_phase_name p @ '' ==='' @ newline
      @ (case pr_skip_reason r of
           Some reason \<Rightarrow> ''  SKIPPED: '' @ reason @ newline
         | None \<Rightarrow>
             (if pl_actions p = [] then ''  No actions needed.'' @ newline
              else format_actions (pl_actions p))
             @ concat (map (\<lambda>w. ''  WARNING: '' @ w @ newline) (pl_warnings p))))"

definition format_dry_run :: "orchestration_result \<Rightarrow> string" where
  "format_dry_run r = concat (map format_phase (zip (or_plans r) (or_phase_results r)))"

definition needs_execution :: "orchestration_result \<Rightarrow> bool" where
  "needs_execution r = list_ex (\<lambda>p. \<not> Plan_is_skipped p \<and> \<not> Plan_is_empty p) (or_plans r)"

definition phase_error_strategy :: "compiled_policy \<Rightarrow> string \<Rightarrow> error_strategy" where
  "phase_error_strategy policy name =
     (case find (\<lambda>p. cp_name p = name) (pol_phases policy) of
        None \<Rightarrow> Abort | Some p \<Rightarrow> cp_on_error p)"

section \<open>Lemmas\<close>

definition result_of :: "plan \<Rightarrow> phase_result" where
  "result_of p =
     (PhaseResult_new (pl_phase_name p) (phase_outcome_of p))
       \<lparr>pr_file_modified := (phase_outcome_of p = Pending), pr_skip_reason := pl_skip_reason p\<rparr>"

lemma orchestrate_loop_eq:
  "orchestrate_loop ps rs b =
     (rs @ map result_of ps, b \<or> list_ex (\<lambda>p. phase_outcome_of p = Pending) ps)"
  by (induction ps arbitrary: rs b) (auto simp: Let_def result_of_def)

text \<open>
  Orchestration. There is one phase result per plan, in the order of the plans, with the
  plan's phase name and skip reason. A phase is reported as modifying exactly when the evaluator
  gave its plan the outcome \<open>Executed\<close> with changes, skipped exactly when it gave \<open>Skipped\<close>; the
  file counts as modified exactly when some phase does, which is also what
  \<open>needs_execution\<close> answers.
\<close>

theorem orchestrate_spec:
  "or_plans (orchestrate plans) = plans
   \<and> map pr_phase_name (or_phase_results (orchestrate plans)) = map pl_phase_name plans
   \<and> map pr_skip_reason (or_phase_results (orchestrate plans)) = map pl_skip_reason plans
   \<and> map pr_file_modified (or_phase_results (orchestrate plans))
       = map (\<lambda>p. plan_outcome p = Executed True) plans
   \<and> map (\<lambda>r. pr_outcome r = Skipped) (or_phase_results (orchestrate plans))
       = map (\<lambda>p. plan_outcome p = EvalSkipped) plans
   \<and> or_file_modified (orchestrate plans)
       = list_ex pr_file_modified (or_phase_results (orchestrate plans))
   \<and> needs_execution (orchestrate plans) = or_file_modified (orchestrate plans)"
proof -
  have pending: "phase_outcome_of p = Pending \<longleftrightarrow> plan_outcome p = Executed True"
    and skipped: "phase_outcome_of p = Skipped \<longleftrightarrow> plan_outcome p = EvalSkipped"
    and work: "phase_outcome_of p = Pending \<longleftrightarrow> \<not> Plan_is_skipped p \<and> \<not> Plan_is_empty p" for p
    by (auto simp: phase_outcome_of_def plan_outcome_def Plan_is_empty_def)
  have results: "or_phase_results (orchestrate plans) = map result_of plans"
    and "or_plans (orchestrate plans) = plans"
    and "or_file_modified (orchestrate plans) = list_ex (\<lambda>p. phase_outcome_of p = Pending) plans"
    by (simp_all add: orchestrate_def orchestrate_loop_eq)
  then show ?thesis
    by (simp add: needs_execution_def result_of_def PhaseResult_new_def pending [symmetric]
        skipped [symmetric] work [symmetric] list_ex_iff)
qed

end
