(* ===== verification/Call_Plugins.thy ===== *)
theory Call_Plugins
  imports Kernel Orchestrator
begin

text \<open>
  The two plugins that answer calls of the CLI, \<open>plugins/policy-evaluator/src/plugin.rs\<close> and
  \<open>plugins/phase-orchestrator/src/plugin.rs\<close>, as plugins of the kernel, with the calls of
  \<open>crates/voom-domain/src/call.rs\<close>. Of a \<open>ScanLibrary\<close> call only the address and the session are
  kept: its options, channels and cancellation token are used by the discovery plugins alone.
  The only state of the two plugins is the evaluator's cache of executor capabilities.
\<close>

section \<open>Calls\<close>

record evaluate_policy_call =
  epc_policy :: compiled_policy
  epc_file :: media_file
  epc_phase :: "string option"
  epc_phase_outputs :: "(string, phase_output) hashmap option"
  epc_phase_outcomes :: "(string, evaluation_outcome) hashmap option"
  epc_capabilities_override :: "capability_map option"

datatype call =
    CallEvaluatePolicy evaluate_policy_call
  | CallOrchestrate "plan list" string
  | CallScanLibrary string uuid

record discovery_error =
  de_path :: string
  de_message :: string

record scan_summary =
  ss_file_count :: u64
  ss_errors :: "discovery_error list"
  ss_roots_scanned :: u64

datatype call_response =
    RespEvaluatePolicy "plan list"
  | RespOrchestrate orchestration_result
  | RespScanLibrary scan_summary

definition call_kind_str :: "call \<Rightarrow> string" where
  "call_kind_str c =
     (case c of
        CallEvaluatePolicy _ \<Rightarrow> ''call.evaluate_policy''
      | CallOrchestrate _ _ \<Rightarrow> ''call.orchestrate''
      | CallScanLibrary _ _ \<Rightarrow> ''call.scan_library'')"

record core_world =
  cw_evaluator_cache :: capability_map

type_synonym core_plugin = "(core_world, call, call_response) plugin"

section \<open>The policy evaluator plugin\<close>

definition evaluate_with_capabilities ::
  "text_env \<Rightarrow> (nat \<Rightarrow> mint) \<Rightarrow> compiled_policy \<Rightarrow> media_file \<Rightarrow> capability_map \<Rightarrow> string + plan list" where
  "evaluate_with_capabilities E mints policy f caps =
     (case evaluate_with_context E mints policy f (Some caps) of
        Inl msg \<Rightarrow> Inl msg
      | Inr plans \<Rightarrow> Inr (apply_capability_hints plans caps))"

definition evaluate_single_phase_with_hints ::
  "text_env \<Rightarrow> mint \<Rightarrow> string \<Rightarrow> compiled_policy \<Rightarrow> media_file \<Rightarrow>
   (string, evaluation_outcome) hashmap \<Rightarrow> capability_map \<Rightarrow> string + plan list" where
  "evaluate_single_phase_with_hints E m name policy f outcomes caps =
     (case evaluate_single_phase E m name policy f outcomes (Some caps) of
        None \<Rightarrow> Inr []
      | Some (Inl msg) \<Rightarrow> Inl msg
      | Some (Inr p) \<Rightarrow> Inr (apply_capability_hints [p] caps))"

text \<open>The four-way match of \<open>on_call\<close>; a panic of the evaluator is \<open>Inl\<close>.\<close>

definition evaluate_call ::
  "text_env \<Rightarrow> (nat \<Rightarrow> mint) \<Rightarrow> evaluate_policy_call \<Rightarrow> capability_map \<Rightarrow> string + plan list" where
  "evaluate_call E mints c cache =
     (let caps = (case epc_capabilities_override c of Some o' \<Rightarrow> o' | None \<Rightarrow> cache);
          outcomes = (case epc_phase_outcomes c of Some o' \<Rightarrow> o' | None \<Rightarrow> [])
      in case (epc_phase c, epc_phase_outputs c) of
           (None, None) \<Rightarrow> evaluate_with_capabilities E mints (epc_policy c) (epc_file c) caps
         | (None, Some outputs) \<Rightarrow>
             (case evaluate_with_phase_outputs E mints (epc_policy c) (epc_file c) (Some caps)
                     (Some (hm_get outputs)) of
                Inl msg \<Rightarrow> Inl msg
              | Inr plans \<Rightarrow> Inr (apply_capability_hints plans caps))
         | (Some name, None) \<Rightarrow>
             evaluate_single_phase_with_hints E (mints 0) name (epc_policy c) (epc_file c) outcomes caps
         | (Some name, Some outputs) \<Rightarrow>
             (case evaluate_single_phase_with_phase_outputs E (mints 0) name (epc_policy c)
                     (epc_file c) outcomes (Some caps) (Some (hm_get outputs)) of
                None \<Rightarrow> Inr []
              | Some (Inl msg) \<Rightarrow> Inl msg
              | Some (Inr p) \<Rightarrow> Inr (apply_capability_hints [p] caps)))"

definition policy_evaluator_plugin ::
  "text_env \<Rightarrow> (nat \<Rightarrow> mint) \<Rightarrow> (call \<Rightarrow> string) \<Rightarrow> core_plugin" where
  "policy_evaluator_plugin E mints discriminant =
     \<lparr>pg_name = ''policy-evaluator'',
      pg_capabilities = [CapEvaluatePolicy],
      pg_handles = (\<lambda>t. t = ''executor.capabilities''),
      pg_on_event =
        (\<lambda>ev w. case ev of
           EvExecutorCapabilities caps \<Rightarrow>
             (Returned None,
              w\<lparr>cw_evaluator_cache := CapabilityMap_register caps (cw_evaluator_cache w)\<rparr>)
         | _ \<Rightarrow> (Returned None, w)),
      pg_init = (\<lambda>w. (Inr [], w)),
      pg_shutdown = (\<lambda>w. (Returned (), w)),
      pg_on_call =
        (\<lambda>c w. case c of
           CallEvaluatePolicy ep \<Rightarrow>
             (case evaluate_call E mints ep (cw_evaluator_cache w) of
                Inl msg \<Rightarrow> (PanickedReply, w)
              | Inr plans \<Rightarrow> (Returned (RespEvaluatePolicy plans), w))
         | _ \<Rightarrow>
             (Errored (PluginError ''policy-evaluator''
                (''PolicyEvaluatorPlugin only handles Call::EvaluatePolicy, got '' @ discriminant c)),
              w))\<rparr>"

section \<open>The phase orchestrator plugin\<close>

definition phase_orchestrator_plugin :: "(call \<Rightarrow> string) \<Rightarrow> core_plugin" where
  "phase_orchestrator_plugin discriminant =
     \<lparr>pg_name = ''phase-orchestrator'',
      pg_capabilities = [CapOrchestratePhases],
      pg_handles = (\<lambda>_. False),
      pg_on_event = (\<lambda>_ w. (Returned None, w)),
      pg_init = (\<lambda>w. (Inr [], w)),
      pg_shutdown = (\<lambda>w. (Returned (), w)),
      pg_on_call =
        (\<lambda>c w. case c of
           CallOrchestrate plans _ \<Rightarrow> (Returned (RespOrchestrate (orchestrate plans)), w)
         | _ \<Rightarrow>
             (Errored (PluginError ''phase-orchestrator''
                (''PhaseOrchestratorPlugin only handles Call::Orchestrate, got '' @ discriminant c)),
              w))\<rparr>"

section \<open>Lemmas\<close>

lemma apply_capability_hint_ok:
  "phase_plan_ok policy phase f p \<Longrightarrow> phase_plan_ok policy phase f (apply_capability_hint caps p)"
  by (auto simp: apply_capability_hint_def phase_plan_ok_def violations_reported_def Let_def
      list_all_iff split: prod.split option.split list.split)

lemma apply_capability_hints_names [simp]:
  "map pl_phase_name (apply_capability_hints plans caps) = map pl_phase_name plans"
proof -
  have "pl_phase_name (apply_capability_hint caps p) = pl_phase_name p" for p
    by (auto simp: apply_capability_hint_def Let_def split: prod.split option.split list.split)
  then show ?thesis by (simp add: apply_capability_hints_def)
qed

lemma apply_capability_hints_ok:
  "list_all (\<lambda>p. \<exists>phase. phase_plan_ok policy phase f p) plans \<Longrightarrow>
   list_all (\<lambda>p. \<exists>phase. phase_plan_ok policy phase f p) (apply_capability_hints plans caps)"
  using apply_capability_hint_ok by (fastforce simp: apply_capability_hints_def list_all_iff)

text \<open>Whatever the call asks for, the evaluator answers with sound plans of the phases asked for.\<close>

definition phases_asked :: "evaluate_policy_call \<Rightarrow> string list" where
  "phases_asked c =
     filter (\<lambda>n. find_phase (epc_policy c) n \<noteq> None)
       (case epc_phase c of None \<Rightarrow> pol_phase_order (epc_policy c) | Some n \<Rightarrow> [n])"

lemma evaluate_full_ok:
  "\<exists>plans. evaluate_with_phase_outputs E mints policy f caps lookup = Inr plans
    \<and> map pl_phase_name plans = filter (\<lambda>n. find_phase policy n \<noteq> None) (pol_phase_order policy)
    \<and> list_all (\<lambda>p. \<exists>phase. phase_plan_ok policy phase f p) plans"
  using evaluate_phases_total [of E mints policy f
      "\<lparr>ctx_capabilities = caps, ctx_phase_output_lookup = lookup\<rparr>" "pol_phase_order policy" "[]" "[]"]
  by (simp add: evaluate_with_phase_outputs_def)

lemma evaluate_single_ok:
  "(\<exists>p. evaluate_single_phase_with_phase_outputs E m name policy f outcomes caps lookup = Some (Inr p)
      \<and> find_phase policy name \<noteq> None \<and> pl_phase_name p = name
      \<and> (\<exists>phase. phase_plan_ok policy phase f p))
   \<or> evaluate_single_phase_with_phase_outputs E m name policy f outcomes caps lookup = None
     \<and> find_phase policy name = None"
proof (cases "find_phase policy name")
  case (Some phase)
  then have "cp_name phase = name" by (auto simp: find_phase_def find_Some_iff)
  moreover obtain p where "evaluate_phase E m phase policy f outcomes
      \<lparr>ctx_capabilities = caps, ctx_phase_output_lookup = lookup\<rparr> = Inr p"
    "phase_plan_ok policy phase f p" using evaluate_phase_ok by blast
  ultimately show ?thesis using Some
    by (auto simp: evaluate_single_phase_with_phase_outputs_def phase_plan_ok_def)
qed (simp add: evaluate_single_phase_with_phase_outputs_def)

lemma evaluate_call_ok:
  "\<exists>plans. evaluate_call E mints c cache = Inr plans \<and> map pl_phase_name plans = phases_asked c
    \<and> list_all (\<lambda>p. \<exists>phase. phase_plan_ok (epc_policy c) phase (epc_file c) p) plans"
proof -
  define caps where "caps = (case epc_capabilities_override c of Some o' \<Rightarrow> o' | None \<Rightarrow> cache)"
  define outcomes where "outcomes = (case epc_phase_outcomes c of Some o' \<Rightarrow> o' | None \<Rightarrow> [])"
  define lookup where "lookup = map_option hm_get (epc_phase_outputs c)"
  have single: "evaluate_single_phase E m n p f o' cs
      = evaluate_single_phase_with_phase_outputs E m n p f o' cs None" for m n p f o' cs
    by (simp add: evaluate_single_phase_def evaluate_single_phase_with_phase_outputs_def)
  have eq: "evaluate_call E mints c cache =
      (case epc_phase c of
         None \<Rightarrow>
           (case evaluate_with_phase_outputs E mints (epc_policy c) (epc_file c) (Some caps) lookup of
              Inl msg \<Rightarrow> Inl msg | Inr plans \<Rightarrow> Inr (apply_capability_hints plans caps))
       | Some n \<Rightarrow>
           (case evaluate_single_phase_with_phase_outputs E (mints 0) n (epc_policy c) (epc_file c)
                   outcomes (Some caps) lookup of
              None \<Rightarrow> Inr []
            | Some (Inl msg) \<Rightarrow> Inl msg
            | Some (Inr p) \<Rightarrow> Inr (apply_capability_hints [p] caps)))"
    unfolding evaluate_call_def Let_def caps_def [symmetric] outcomes_def [symmetric] lookup_def
    by (cases "epc_phase c"; cases "epc_phase_outputs c")
      (simp_all add: single evaluate_with_capabilities_def evaluate_with_context_def
        evaluate_single_phase_with_hints_def)
  show ?thesis
  proof (cases "epc_phase c")
    case None
    then show ?thesis
      using evaluate_full_ok [of E mints "epc_policy c" "epc_file c" "Some caps" lookup]
      by (auto simp: eq phases_asked_def intro: apply_capability_hints_ok)
  next
    case (Some n)
    then show ?thesis
      using evaluate_single_ok [of E "mints 0" n "epc_policy c" "epc_file c" outcomes "Some caps" lookup]
      by (auto simp: eq phases_asked_def intro!: apply_capability_hints_ok) blast
  qed
qed

end
