(* ===== verification/Edit_Distance.thy ===== *)
theory Edit_Distance
  imports Prelude
begin

text \<open>
  The two implementations of the edit distance behind the did-you-mean suggestions:
  \<open>edit_distance\<close> of \<open>crates/voom-domain/src/utils/codecs.rs\<close>, which keeps two rows of the
  dynamic programming table and works on bytes, and \<open>edit_distance\<close> of
  \<open>crates/voom-dsl/src/validator.rs\<close>, which fills the whole table and works on characters. Both are
  shown to compute the least number of insertions, deletions and substitutions.
\<close>

section \<open>Characters of a UTF-8 string\<close>

text \<open>\<open>str::chars\<close>: a character is a byte that is not a continuation byte and the continuation
  bytes after it.\<close>

definition is_continuation :: "char \<Rightarrow> bool" where
  "is_continuation c = ((of_char c :: nat) div 64 = 2)"

function utf8_chars :: "string \<Rightarrow> string list" where
  "utf8_chars [] = []"
| "utf8_chars (c # cs) =
     (c # takeWhile is_continuation cs) # utf8_chars (dropWhile is_continuation cs)"
  by pat_completeness auto
termination
  by (relation "measure length") (auto simp: le_imp_less_Suc length_dropWhile_le)

section \<open>The implementations\<close>

text \<open>One cell: the minimum over deleting, inserting and substituting.\<close>

definition ed_cell :: "bool \<Rightarrow> nat \<Rightarrow> nat \<Rightarrow> nat \<Rightarrow> nat" where
  "ed_cell differ up left diag = min (min (up + 1) (left + 1)) (diag + (if differ then 1 else 0))"

text \<open>The inner loop of the version with two rows; \<open>cur\<close> is the buffer that held the row before
  the previous one.\<close>

definition ed_fill_row ::
  "'a list \<Rightarrow> 'a list \<Rightarrow> nat \<Rightarrow> nat list \<Rightarrow> nat list \<Rightarrow> nat list" where
  "ed_fill_row a b i prev cur =
     foldl (\<lambda>cur j. cur[j := ed_cell (a ! (i - 1) \<noteq> b ! (j - 1)) (prev ! j) (cur ! (j - 1))
                                 (prev ! (j - 1))])
       (cur[0 := i]) [1..<length b + 1]"

definition edit_distance :: "string \<Rightarrow> string \<Rightarrow> usize" where
  "edit_distance a b =
     (let m = length a; n = length b;
          (prev, cur) =
            foldl (\<lambda>(prev, cur) i. (ed_fill_row a b i prev cur, prev))
              ([0..<n + 1], replicate (n + 1) 0) [1..<m + 1]
      in prev ! n)"

text \<open>The version with the whole table.\<close>

definition ed_table_row :: "'a list \<Rightarrow> 'a list \<Rightarrow> nat list list \<Rightarrow> nat \<Rightarrow> nat list list" where
  "ed_table_row a b dp i =
     foldl (\<lambda>dp j. dp[i := (dp ! i)[j :=
                ed_cell (a ! (i - 1) \<noteq> b ! (j - 1)) (dp ! (i - 1) ! j) (dp ! i ! (j - 1))
                  (dp ! (i - 1) ! (j - 1))]])
       dp [1..<length b + 1]"

definition edit_distance_chars :: "string \<Rightarrow> string \<Rightarrow> usize" where
  "edit_distance_chars sa sb =
     (let a = utf8_chars sa; b = utf8_chars sb;
          dp0 = replicate (length a + 1) (replicate (length b + 1) 0);
          dp1 = map (\<lambda>(i, row). row[0 := i]) (enumerate 0 dp0);
          dp2 = dp1[0 := map fst (enumerate 0 (dp1 ! 0))];
          dp = foldl (ed_table_row a b) dp2 [1..<length a + 1]
      in dp ! length a ! length b)"

section \<open>Edit scripts\<close>

text \<open>\<open>edits n xs ys\<close>: \<open>n\<close> insertions, deletions and substitutions turn \<open>xs\<close> into \<open>ys\<close>.\<close>

inductive edits :: "nat \<Rightarrow> 'a list \<Rightarrow> 'a list \<Rightarrow> bool" where
  edits_nil: "edits 0 [] []"
| edits_keep: "edits n xs ys \<Longrightarrow> edits n (x # xs) (x # ys)"
| edits_subst: "edits n xs ys \<Longrightarrow> edits (Suc n) (x # xs) (y # ys)"
| edits_delete: "edits n xs ys \<Longrightarrow> edits (Suc n) (x # xs) ys"
| edits_insert: "edits n xs ys \<Longrightarrow> edits (Suc n) xs (y # ys)"

inductive_cases edits_NilE: "edits n [] ys"
inductive_cases edits_Nil2E: "edits n xs []"
inductive_cases edits_ConsE: "edits n (x # xs) (y # ys)"

lemma edits_snoc:
  assumes "edits n xs ys"
  shows "edits n (xs @ [x]) (ys @ [x])" "edits (Suc n) (xs @ [x]) (ys @ [y])"
    "edits (Suc n) (xs @ [x]) ys" "edits (Suc n) xs (ys @ [y])"
  using assms by (induction) (auto intro: edits.intros)

lemma edits_rev: "edits n xs ys \<Longrightarrow> edits n (rev xs) (rev ys)"
  by (induction rule: edits.induct) (auto intro: edits_snoc edits_nil)

text \<open>The recursion of the table, over the reversed prefixes.\<close>

fun lev :: "'a list \<Rightarrow> 'a list \<Rightarrow> nat" where
  "lev [] ys = length ys"
| "lev xs [] = length xs"
| "lev (x # xs) (y # ys) = ed_cell (x \<noteq> y) (lev xs (y # ys)) (lev (x # xs) ys) (lev xs ys)"

lemma lev_Nil2 [simp]: "lev xs [] = length xs"
  by (cases xs) auto

lemma edits_lev: "edits (lev xs ys) xs ys"
proof (induction xs ys rule: lev.induct)
  case (1 ys)
  show ?case by (induction ys) (auto intro: edits.intros)
next
  case (2 x xs)
  have "edits (length zs) zs []" for zs :: "'a list" by (induction zs) (auto intro: edits.intros)
  from this [of "x # xs"] show ?case by simp
next
  case (3 x xs y ys)
  then show ?case
    by (auto simp: ed_cell_def min_def intro: edits.intros)
qed

lemma lev_le_edits: "edits n xs ys \<Longrightarrow> lev xs ys \<le> n"
proof (induction "length xs + length ys" arbitrary: n xs ys rule: less_induct)
  case less
  have mono: "lev xs' ys' \<le> k"
    if "edits k xs' ys'" "length xs' + length ys' < length xs + length ys" for k and xs' ys' :: "'a list"
    using less.hyps [OF that(2) that(1)] .
  from less.prems show ?case
  proof cases
    case (edits_keep xs' ys' x)
    then show ?thesis using mono [of n xs' ys'] by (simp add: ed_cell_def)
  next
    case (edits_subst m xs' ys' x y)
    then show ?thesis using mono [of m xs' ys'] by (simp add: ed_cell_def min_le_iff_disj)
  next
    case (edits_delete m xs' x)
    then show ?thesis using mono [of m xs' ys] by (cases ys) (auto simp: ed_cell_def)
  next
    case (edits_insert m ys' y)
    then show ?thesis using mono [of m xs ys'] by (cases xs) (auto simp: ed_cell_def)
  qed simp
qed

lemma lev_rev_least: "lev (rev xs) (rev ys) = (LEAST n. edits n xs ys)"
proof (rule Least_equality [symmetric])
  show "edits (lev (rev xs) (rev ys)) xs ys"
    using edits_rev [OF edits_lev [of "rev xs" "rev ys"]] by simp
  show "lev (rev xs) (rev ys) \<le> n" if "edits n xs ys" for n
    using lev_le_edits [OF edits_rev [OF that]] .
qed

section \<open>The tables hold the distances of the prefixes\<close>

definition prefix_distance :: "'a list \<Rightarrow> 'a list \<Rightarrow> nat \<Rightarrow> nat \<Rightarrow> nat" where
  "prefix_distance a b i j = lev (rev (take i a)) (rev (take j b))"

lemma prefix_distance_0 [simp]:
  "i \<le> length a \<Longrightarrow> prefix_distance a b i 0 = i" "j \<le> length b \<Longrightarrow> prefix_distance a b 0 j = j"
  by (simp_all add: prefix_distance_def)

lemma prefix_distance_Suc:
  assumes "i < length a" "j < length b"
  shows "prefix_distance a b (Suc i) (Suc j) =
    ed_cell (a ! i \<noteq> b ! j) (prefix_distance a b i (Suc j)) (prefix_distance a b (Suc i) j)
      (prefix_distance a b i j)"
  using assms by (simp add: prefix_distance_def take_Suc_conv_app_nth)

lemma prefix_distance_least:
  "prefix_distance a b (length a) (length b) = (LEAST n. edits n a b)"
  by (simp add: prefix_distance_def lev_rev_least)

text \<open>A row filled up to a column, from a row above that is complete.\<close>

definition row_upto :: "'a list \<Rightarrow> 'a list \<Rightarrow> nat \<Rightarrow> nat \<Rightarrow> nat list \<Rightarrow> bool" where
  "row_upto a b i k row \<longleftrightarrow>
     length row = length b + 1 \<and> (\<forall>j \<le> k. row ! j = prefix_distance a b i j)"

lemma row_upto_step:
  assumes "row_upto a b i (length b) prev" "row_upto a b (Suc i) j cur" "i < length a" "j < length b"
  shows "row_upto a b (Suc i) (Suc j)
    (cur[Suc j := ed_cell (a ! i \<noteq> b ! j) (prev ! Suc j) (cur ! j) (prev ! j)])"
  using assms by (auto simp: row_upto_def nth_list_update prefix_distance_Suc le_Suc_eq)

lemma ed_fill_row_upto:
  assumes prev: "row_upto a b i (length b) prev" and "length cur = length b + 1" "i < length a"
  shows "row_upto a b (Suc i) (length b) (ed_fill_row a b (Suc i) prev cur)"
proof -
  let ?f = "\<lambda>cur j. cur[j := ed_cell (a ! (Suc i - 1) \<noteq> b ! (j - 1)) (prev ! j) (cur ! (j - 1))
                                 (prev ! (j - 1))]"
  have "row_upto a b (Suc i) k (foldl ?f (cur[0 := Suc i]) [1..<k + 1])" if "k \<le> length b" for k
    using that
  proof (induction k)
    case 0
    then show ?case using assms by (simp add: row_upto_def)
  next
    case (Suc k)
    then show ?case using row_upto_step [OF prev _ assms(3), of k] by simp
  qed
  then show ?thesis by (simp add: ed_fill_row_def)
qed

lemma edit_distance_loop:
  assumes "k \<le> length a"
    and "foldl (\<lambda>(prev, cur) i. (ed_fill_row a b i prev cur, prev))
           ([0..<length b + 1], replicate (length b + 1) 0) [1..<k + 1] = (prev, cur)"
  shows "row_upto a b k (length b) prev \<and> length cur = length b + 1"
  using assms
proof (induction k arbitrary: prev cur)
  case 0
  then show ?case by (auto simp: row_upto_def simp del: upt_Suc)
next
  case (Suc k)
  obtain p c where pc: "foldl (\<lambda>(prev, cur) i. (ed_fill_row a b i prev cur, prev))
           ([0..<length b + 1], replicate (length b + 1) 0) [1..<k + 1] = (p, c)"
    by (meson surj_pair)
  then have "row_upto a b k (length b) p" "length c = length b + 1"
    using Suc.IH [OF _ pc] Suc.prems(1) by auto
  moreover have "prev = ed_fill_row a b (Suc k) p c" "cur = p"
    using Suc.prems(2) pc by auto
  ultimately show ?case
    using ed_fill_row_upto [of a b k p c] Suc.prems(1) by (auto simp: row_upto_def)
qed

lemma edit_distance_least: "edit_distance a b = (LEAST n. edits n a b)"
proof -
  obtain p c where pc: "foldl (\<lambda>(prev, cur) i. (ed_fill_row a b i prev cur, prev))
           ([0..<length b + 1], replicate (length b + 1) 0) [1..<length a + 1] = (p, c)"
    by (meson surj_pair)
  then show ?thesis
    using edit_distance_loop [OF order_refl pc]
    by (simp add: edit_distance_def row_upto_def prefix_distance_least del: upt_Suc)
qed

text \<open>The whole table: rows up to \<open>k\<close> are complete, the first column is set in every row.\<close>

definition table_upto :: "'a list \<Rightarrow> 'a list \<Rightarrow> nat \<Rightarrow> nat list list \<Rightarrow> bool" where
  "table_upto a b k dp \<longleftrightarrow>
     length dp = length a + 1 \<and> (\<forall>i \<le> length a. row_upto a b i 0 (dp ! i))
     \<and> (\<forall>i \<le> k. row_upto a b i (length b) (dp ! i))"

lemma ed_table_row_upto:
  assumes table: "table_upto a b i dp" and "i < length a"
  shows "table_upto a b (Suc i) (ed_table_row a b dp (Suc i))"
proof -
  let ?f = "\<lambda>dp j. dp[Suc i := (dp ! Suc i)[j :=
                ed_cell (a ! (Suc i - 1) \<noteq> b ! (j - 1)) (dp ! (Suc i - 1) ! j) (dp ! Suc i ! (j - 1))
                  (dp ! (Suc i - 1) ! (j - 1))]]"
  have "row_upto a b (Suc i) k (foldl ?f dp [1..<k + 1] ! Suc i)
      \<and> (\<forall>r. r \<noteq> Suc i \<longrightarrow> foldl ?f dp [1..<k + 1] ! r = dp ! r)
      \<and> length (foldl ?f dp [1..<k + 1]) = length dp" if "k \<le> length b" for k
    using that
  proof (induction k)
    case 0
    then show ?case using assms by (simp add: table_upto_def)
  next
    case (Suc k)
    let ?dp = "foldl ?f dp [1..<k + 1]"
    from Suc have ih: "row_upto a b (Suc i) k (?dp ! Suc i)" "?dp ! i = dp ! i"
        "\<forall>r. r \<noteq> Suc i \<longrightarrow> ?dp ! r = dp ! r" "length ?dp = length dp"
      by (auto simp del: upt_Suc)
    have "row_upto a b i (length b) (dp ! i)" using table by (simp add: table_upto_def)
    note row_upto_step [OF this ih(1) assms(2), of]
    then show ?case
      using ih Suc.prems assms(2) table by (auto simp: table_upto_def)
  qed
  then have row: "row_upto a b (Suc i) (length b) (ed_table_row a b dp (Suc i) ! Suc i)"
    and other: "r \<noteq> Suc i \<Longrightarrow> ed_table_row a b dp (Suc i) ! r = dp ! r"
    and len: "length (ed_table_row a b dp (Suc i)) = length dp" for r
    unfolding ed_table_row_def by blast+
  have "row_upto a b (Suc i) 0 (ed_table_row a b dp (Suc i) ! Suc i)"
    using row by (simp add: row_upto_def)
  then have "row_upto a b r 0 (ed_table_row a b dp (Suc i) ! r)" if "r \<le> length a" for r
    using other [of r] that table by (cases "r = Suc i") (auto simp: table_upto_def)
  then show ?thesis
    using row other len table by (auto simp: table_upto_def le_Suc_eq)
qed

lemma edit_distance_chars_least:
  "edit_distance_chars sa sb = (LEAST n. edits n (utf8_chars sa) (utf8_chars sb))"
proof -
  let ?a = "utf8_chars sa" and ?b = "utf8_chars sb"
  let ?dp1 = "map (\<lambda>(i, row). row[0 := i])
                (enumerate 0 (replicate (length ?a + 1) (replicate (length ?b + 1) (0::nat))))"
  define dp2 where "dp2 = ?dp1[0 := map fst (enumerate 0 (?dp1 ! 0))]"
  have row: "dp2 ! i = (if i = 0 then [0..<length ?b + 1] else (replicate (length ?b + 1) 0)[0 := i])"
    if "i \<le> length ?a" for i
    using that by (auto simp: dp2_def nth_enumerate_eq map_fst_enumerate nth_list_update simp del: replicate_Suc upt_Suc)
  have "table_upto ?a ?b k (foldl (ed_table_row ?a ?b) dp2 [1..<k + 1])" if "k \<le> length ?a" for k
    using that
  proof (induction k)
    case 0
    have "length dp2 = length ?a + 1" by (simp add: dp2_def del: replicate_Suc)
    then show ?case
      using row by (auto simp: table_upto_def row_upto_def nth_append simp del: replicate_Suc upt_Suc)
  next
    case (Suc k)
    then show ?case using ed_table_row_upto [of ?a ?b k] by simp
  qed
  note table = this [of "length ?a"]
  have "edit_distance_chars sa sb
      = foldl (ed_table_row ?a ?b) dp2 [1..<length ?a + 1] ! length ?a ! length ?b"
    by (simp only: edit_distance_chars_def Let_def dp2_def)
  then show ?thesis
    using table by (simp add: table_upto_def row_upto_def prefix_distance_least del: upt_Suc)
qed

end
