(* ===== verification/Codecs.thy ===== *)
theory Codecs
  imports Edit_Distance
begin

text \<open>
  The codec and language tables: \<open>crates/voom-domain/src/utils/codecs.rs\<close> and
  \<open>crates/voom-domain/src/utils/language.rs\<close>. The tables are hash maps, so the order in which
  \<open>suggest_codec\<close> visits aliases that are equally close is not specified; it is the parameter
  \<open>hash_order\<close>, which permutes the keys of a table.
\<close>

section \<open>Codecs\<close>

definition VIDEO_CODECS :: "(string, string) hashmap" where
  "VIDEO_CODECS =
     [(''h264'', ''h264''), (''avc'', ''h264''), (''avc1'', ''h264''), (''x264'', ''h264''),
     (''h265'', ''hevc''), (''hevc'', ''hevc''), (''x265'', ''hevc''), (''hev1'', ''hevc''),
     (''av1'', ''av1''), (''av01'', ''av1''), (''vp9'', ''vp9''), (''vp09'', ''vp9''),
     (''vp8'', ''vp8''), (''mpeg2'', ''mpeg2video''), (''mpeg2video'', ''mpeg2video''),
     (''m2v'', ''mpeg2video''), (''vc1'', ''vc1''), (''vc-1'', ''vc1''), (''wmv3'', ''vc1'')]"

definition AUDIO_CODECS :: "(string, string) hashmap" where
  "AUDIO_CODECS =
     [(''aac'', ''aac''), (''aac-lc'', ''aac''), (''mp4a'', ''aac''), (''ac3'', ''ac3''),
     (''ac-3'', ''ac3''), (''a_ac3'', ''ac3''), (''eac3'', ''eac3''), (''e-ac-3'', ''eac3''),
     (''a_eac3'', ''eac3''), (''truehd'', ''truehd''), (''mlp'', ''truehd''),
     (''a_truehd'', ''truehd''), (''dts'', ''dts''), (''a_dts'', ''dts''),
     (''dts_hd'', ''dts_hd_ma''), (''dts-hd'', ''dts_hd_ma''), (''dts-hd ma'', ''dts_hd_ma''),
     (''dts_hd_ma'', ''dts_hd_ma''), (''flac'', ''flac''), (''a_flac'', ''flac''),
     (''opus'', ''opus''), (''a_opus'', ''opus''), (''vorbis'', ''vorbis''),
     (''a_vorbis'', ''vorbis''), (''mp3'', ''mp3''), (''mp2'', ''mp2''), (''pcm'', ''pcm''),
     (''pcm_s16le'', ''pcm''), (''pcm_s24le'', ''pcm'')]"

definition SUBTITLE_CODECS :: "(string, string) hashmap" where
  "SUBTITLE_CODECS =
     [(''srt'', ''subrip''), (''subrip'', ''subrip''), (''s_text/utf8'', ''subrip''),
     (''ass'', ''ass''), (''ssa'', ''ass''), (''s_text/ass'', ''ass''),
     (''pgs'', ''hdmv_pgs_subtitle''), (''hdmv_pgs_subtitle'', ''hdmv_pgs_subtitle''),
     (''s_hdmv/pgs'', ''hdmv_pgs_subtitle''), (''vobsub'', ''dvd_subtitle''),
     (''dvd_subtitle'', ''dvd_subtitle''), (''s_vobsub'', ''dvd_subtitle''),
     (''dvb_subtitle'', ''dvb_subtitle''), (''webvtt'', ''webvtt'')]"

definition ALL_CODEC_NAMES :: "string list" where
  "ALL_CODEC_NAMES =
     sort (remdups (map snd VIDEO_CODECS @ map snd AUDIO_CODECS @ map snd SUBTITLE_CODECS))"

definition normalize_codec :: "string \<Rightarrow> string option" where
  "normalize_codec name =
     (let lower = to_ascii_lowercase name in
      opt_or (hm_get VIDEO_CODECS lower)
        (opt_or (hm_get AUDIO_CODECS lower) (hm_get SUBTITLE_CODECS lower)))"

definition all_codec_names :: "string list" where
  "all_codec_names = ALL_CODEC_NAMES"

text \<open>The update of \<open>best\<close> in the loops of the did-you-mean functions.\<close>

definition better :: "(string \<times> usize) option \<Rightarrow> string \<Rightarrow> usize \<Rightarrow> (string \<times> usize) option" where
  "better best candidate d =
     (if d \<le> 3 \<and> (case best of None \<Rightarrow> True | Some b \<Rightarrow> d < snd b)
      then Some (candidate, d) else best)"

type_synonym hash_order = "string list \<Rightarrow> string list"

definition suggest_codec :: "hash_order \<Rightarrow> string \<Rightarrow> string option" where
  "suggest_codec hash_order name =
     (let lower = to_ascii_lowercase name;
          best = foldl (\<lambda>best canonical. better best canonical (edit_distance lower canonical)) None
                   all_codec_names;
          best = foldl
                   (\<lambda>best table.
                      foldl (\<lambda>best key.
                               better best (hm_get_or table key []) (edit_distance lower key))
                        best (hash_order (hm_keys table)))
                   best [VIDEO_CODECS, AUDIO_CODECS, SUBTITLE_CODECS]
      in map_option fst best)"

datatype codec_type = CodecVideo | CodecAudio | CodecSubtitle

definition codec_type_of :: "string \<Rightarrow> codec_type option" where
  "codec_type_of name =
     (let lower = to_ascii_lowercase name in
      if hm_contains_key VIDEO_CODECS lower then Some CodecVideo
      else if hm_contains_key AUDIO_CODECS lower then Some CodecAudio
      else if hm_contains_key SUBTITLE_CODECS lower then Some CodecSubtitle
      else None)"

section \<open>Languages\<close>

definition LANGUAGE_CODES :: "(string, string) hashmap" where
  "LANGUAGE_CODES =
     [(''en'', ''eng''), (''eng'', ''eng''), (''fr'', ''fre''), (''fra'', ''fre''),
     (''fre'', ''fre''), (''de'', ''ger''), (''deu'', ''ger''), (''ger'', ''ger''),
     (''es'', ''spa''), (''spa'', ''spa''), (''it'', ''ita''), (''ita'', ''ita''),
     (''pt'', ''por''), (''por'', ''por''), (''ru'', ''rus''), (''rus'', ''rus''),
     (''ja'', ''jpn''), (''jpn'', ''jpn''), (''zh'', ''chi''), (''zho'', ''chi''),
     (''chi'', ''chi''), (''ko'', ''kor''), (''kor'', ''kor''), (''ar'', ''ara''),
     (''ara'', ''ara''), (''hi'', ''hin''), (''hin'', ''hin''), (''nl'', ''dut''),
     (''nld'', ''dut''), (''dut'', ''dut''), (''sv'', ''swe''), (''swe'', ''swe''),
     (''no'', ''nor''), (''nor'', ''nor''), (''da'', ''dan''), (''dan'', ''dan''),
     (''fi'', ''fin''), (''fin'', ''fin''), (''pl'', ''pol''), (''pol'', ''pol''),
     (''cs'', ''cze''), (''ces'', ''cze''), (''cze'', ''cze''), (''hu'', ''hun''),
     (''hun'', ''hun''), (''ro'', ''rum''), (''ron'', ''rum''), (''rum'', ''rum''),
     (''el'', ''gre''), (''ell'', ''gre''), (''gre'', ''gre''), (''tr'', ''tur''),
     (''tur'', ''tur''), (''he'', ''heb''), (''heb'', ''heb''), (''th'', ''tha''),
     (''tha'', ''tha''), (''vi'', ''vie''), (''vie'', ''vie''), (''uk'', ''ukr''),
     (''ukr'', ''ukr''), (''und'', ''und''), (''zxx'', ''zxx''), (''mul'', ''mul'')]"

definition LANGUAGE_NAMES :: "(string, string) hashmap" where
  "LANGUAGE_NAMES =
     [(''eng'', ''English''), (''fre'', ''French''), (''ger'', ''German''), (''spa'', ''Spanish''),
     (''ita'', ''Italian''), (''por'', ''Portuguese''), (''rus'', ''Russian''),
     (''jpn'', ''Japanese''), (''chi'', ''Chinese''), (''kor'', ''Korean''),
     (''ara'', ''Arabic''), (''hin'', ''Hindi''), (''dut'', ''Dutch''), (''swe'', ''Swedish''),
     (''nor'', ''Norwegian''), (''dan'', ''Danish''), (''fin'', ''Finnish''),
     (''pol'', ''Polish''), (''cze'', ''Czech''), (''hun'', ''Hungarian''),
     (''rum'', ''Romanian''), (''gre'', ''Greek''), (''tur'', ''Turkish''), (''heb'', ''Hebrew''),
     (''tha'', ''Thai''), (''vie'', ''Vietnamese''), (''ukr'', ''Ukrainian''),
     (''und'', ''Undetermined''), (''zxx'', ''No linguistic content''),
     (''mul'', ''Multiple languages'')]"

definition normalize_language :: "string \<Rightarrow> string option" where
  "normalize_language code = hm_get LANGUAGE_CODES (to_ascii_lowercase code)"

definition from_iso639_1 :: "string \<Rightarrow> string option" where
  "from_iso639_1 code =
     (let lower = to_ascii_lowercase code in
      if length lower = 2 then hm_get LANGUAGE_CODES lower else None)"

definition is_valid_language :: "string \<Rightarrow> bool" where
  "is_valid_language code = hm_contains_key LANGUAGE_CODES (to_ascii_lowercase code)"

definition language_name :: "string \<Rightarrow> string option" where
  "language_name code =
     (case normalize_language code of
        None \<Rightarrow> None
      | Some canonical \<Rightarrow> hm_get LANGUAGE_NAMES canonical)"

text \<open>The names are ASCII, so their \<open>to_lowercase\<close> is the ASCII one; that of the argument uses
  the Unicode tables and is a parameter.\<close>

definition NAME_TO_CODE :: "(string, string) hashmap" where
  "NAME_TO_CODE = map (\<lambda>(code, name). (to_ascii_lowercase name, code)) LANGUAGE_NAMES"

definition language_code_from_name :: "(string \<Rightarrow> string) \<Rightarrow> string \<Rightarrow> string option" where
  "language_code_from_name to_lowercase name = hm_get NAME_TO_CODE (to_lowercase name)"

definition all_language_codes :: "string list" where
  "all_language_codes = sort (hm_keys LANGUAGE_NAMES)"

section \<open>Canonical names\<close>

lemma ascii_lower_idem: "ascii_lower (ascii_lower c) = ascii_lower c"
  by (simp add: ascii_lower_def Let_def)

lemma to_ascii_lowercase_idem [simp]:
  "to_ascii_lowercase (to_ascii_lowercase s) = to_ascii_lowercase s"
  by (simp add: to_ascii_lowercase_def ascii_lower_idem)

definition codec_tables :: "(string, string) hashmap" where
  "codec_tables = VIDEO_CODECS @ AUDIO_CODECS @ SUBTITLE_CODECS"

lemmas codec_table_defs = VIDEO_CODECS_def AUDIO_CODECS_def SUBTITLE_CODECS_def

lemma normalize_codec_map_of:
  "normalize_codec name = map_of codec_tables (to_ascii_lowercase name)"
  by (simp add: normalize_codec_def codec_tables_def map_of_append Let_def hm_get_def opt_or_def
      map_add_def split: option.splits)

text \<open>Every canonical name is its own canonical name, in the same kind of table.\<close>

lemma codec_tables_canonical:
  "list_all (\<lambda>(k, v). normalize_codec v = Some v \<and> codec_type_of v = codec_type_of k) codec_tables"
  by code_simp

lemma normalize_codec_canonical:
  assumes "normalize_codec name = Some c"
  shows "normalize_codec c = Some c \<and> codec_type_of c = codec_type_of name"
proof -
  from assms have "(to_ascii_lowercase name, c) \<in> set codec_tables"
    by (simp add: normalize_codec_map_of map_of_SomeD)
  with codec_tables_canonical
  have "normalize_codec c = Some c" "codec_type_of c = codec_type_of (to_ascii_lowercase name)"
    by (auto simp: list_all_iff)
  moreover have "codec_type_of (to_ascii_lowercase name) = codec_type_of name"
    by (simp add: codec_type_of_def to_ascii_lowercase_idem)
  ultimately show ?thesis by simp
qed

lemma codec_type_of_known: "codec_type_of name = None \<longleftrightarrow> normalize_codec name = None"
  by (simp add: codec_type_of_def normalize_codec_def Let_def hm_contains_key_def opt_or_def
      split: option.splits)

section \<open>Suggestions\<close>

text \<open>The loops fold \<open>better\<close> over pairs of a suggestion and its distance.\<close>

definition best_of :: "(string \<times> usize) list \<Rightarrow> (string \<times> usize) option" where
  "best_of ps = foldl (\<lambda>best (c, d). better best c d) None ps"

lemma best_of_snoc [simp]:
  "best_of (ps @ [(c, d)]) = better (best_of ps) c d" "best_of [] = None"
  by (simp_all add: best_of_def)

lemma best_of_spec:
  "case best_of ps of
     None \<Rightarrow> \<forall>(c, d) \<in> set ps. 3 < d
   | Some (c, d) \<Rightarrow> (c, d) \<in> set ps \<and> d \<le> 3 \<and> (\<forall>(c', d') \<in> set ps. d \<le> d')"
proof (induction ps rule: rev_induct)
  case (snoc p ps)
  obtain c d where [simp]: "p = (c, d)" by (cases p)
  from snoc show ?case
    by (cases "best_of ps") (auto simp: better_def split: if_splits)
qed simp

lemma foldl_better_map:
  "foldl (\<lambda>best x. better best (f x) (g x)) best xs
     = foldl (\<lambda>best (c, d). better best c d) best (map (\<lambda>x. (f x, g x)) xs)"
  by (induction xs arbitrary: best) simp_all

definition codec_candidates :: "hash_order \<Rightarrow> string \<Rightarrow> (string \<times> usize) list" where
  "codec_candidates ho lower =
     map (\<lambda>c. (c, edit_distance lower c)) all_codec_names
     @ concat (map (\<lambda>table. map (\<lambda>k. (hm_get_or table k [], edit_distance lower k))
                                (ho (hm_keys table)))
                [VIDEO_CODECS, AUDIO_CODECS, SUBTITLE_CODECS])"

lemma suggest_codec_best_of:
  "suggest_codec ho name = map_option fst (best_of (codec_candidates ho (to_ascii_lowercase name)))"
  by (simp add: suggest_codec_def codec_candidates_def best_of_def Let_def foldl_better_map)

lemma hm_get_or_tables:
  assumes "table \<in> {VIDEO_CODECS, AUDIO_CODECS, SUBTITLE_CODECS}" "k \<in> set (hm_keys table)"
  shows "map_of codec_tables k = Some (hm_get_or table k [])"
proof -
  have "list_all (\<lambda>t. list_all (\<lambda>k. map_of codec_tables k = Some (hm_get_or t k [])) (hm_keys t))
          [VIDEO_CODECS, AUDIO_CODECS, SUBTITLE_CODECS]"
    by code_simp
  with assms show ?thesis by (auto simp: list_all_iff)
qed

lemma all_codec_names_alias: "c \<in> set all_codec_names \<Longrightarrow> map_of codec_tables c = Some c"
proof -
  have "list_all (\<lambda>c. map_of codec_tables c = Some c) all_codec_names" by code_simp
  then show "c \<in> set all_codec_names \<Longrightarrow> map_of codec_tables c = Some c" by (simp add: list_all_iff)
qed

lemma set_codec_candidates:
  assumes "\<And>xs. set (ho xs) = set xs"
  shows "set (codec_candidates ho lower)
    = {(c, edit_distance lower k) | c k. map_of codec_tables k = Some c}"
proof -
  have dom: "map_of codec_tables k \<noteq> None \<longleftrightarrow> k \<in> set (hm_keys VIDEO_CODECS)
      \<union> set (hm_keys AUDIO_CODECS) \<union> set (hm_keys SUBTITLE_CODECS)" for k
    by (simp add: codec_tables_def hm_keys_def map_of_eq_None_iff) 
  show ?thesis (is "?L = ?R")
  proof
    show "?L \<subseteq> ?R"
      using hm_get_or_tables all_codec_names_alias
      by (auto simp: codec_candidates_def assms) blast+
    show "?R \<subseteq> ?L"
    proof clarify
      fix c k assume k: "map_of codec_tables k = Some c"
      then obtain table where "table \<in> {VIDEO_CODECS, AUDIO_CODECS, SUBTITLE_CODECS}"
        "k \<in> set (hm_keys table)" using dom [of k] by auto
      moreover from this have "c = hm_get_or table k []" using hm_get_or_tables k by fastforce
      ultimately show "(c, edit_distance lower k) \<in> ?L"
        by (auto simp: codec_candidates_def assms)
    qed
  qed
qed

end
