(* ===== verification/Ast.thy ===== *)
theory Ast
  imports Compiled
begin

text \<open>
  The abstract syntax of the policy language, \<open>crates/voom-dsl/src/ast.rs\<close>, and the errors of its
  pipeline, \<open>crates/voom-dsl/src/errors.rs\<close>: what the parser builds and the validator, the
  composition of policies, the compiler and the formatter read. A number of the language is its
  value and the text it was written as.
\<close>

section \<open>Tokens and values\<close>

record span =
  sp_start :: usize
  sp_end :: usize
  sp_line :: usize
  sp_col :: usize

definition Span_new :: "usize \<Rightarrow> usize \<Rightarrow> usize \<Rightarrow> usize \<Rightarrow> span" where
  "Span_new start fin line col = \<lparr>sp_start = start, sp_end = fin, sp_line = line, sp_col = col\<rparr>"

datatype error_strategy_node = ESContinue | ESSkip | ESAbort | ESQuarantine

definition ErrorStrategyNode_from_token :: "string \<Rightarrow> error_strategy_node option" where
  "ErrorStrategyNode_from_token token =
     (if token = ''continue'' then Some ESContinue
      else if token = ''skip'' then Some ESSkip
      else if token = ''abort'' then Some ESAbort
      else if token = ''quarantine'' then Some ESQuarantine
      else None)"

definition ErrorStrategyNode_as_str :: "error_strategy_node \<Rightarrow> string" where
  "ErrorStrategyNode_as_str s =
     (case s of ESContinue \<Rightarrow> ''continue'' | ESSkip \<Rightarrow> ''skip'' | ESAbort \<Rightarrow> ''abort''
      | ESQuarantine \<Rightarrow> ''quarantine'')"

datatype run_if_trigger_node = RTModified | RTCompleted

definition RunIfTriggerNode_from_token :: "string \<Rightarrow> run_if_trigger_node option" where
  "RunIfTriggerNode_from_token token =
     (if token = ''modified'' then Some RTModified
      else if token = ''completed'' then Some RTCompleted
      else None)"

definition RunIfTriggerNode_as_str :: "run_if_trigger_node \<Rightarrow> string" where
  "RunIfTriggerNode_as_str t = (case t of RTModified \<Rightarrow> ''modified'' | RTCompleted \<Rightarrow> ''completed'')"

datatype verify_mode_node = VMQuick | VMThorough | VMHash

datatype compare_op_node = OEq | ONe | OLt | OLe | OGt | OGe | OIn

datatype dsl_value =
    VString string
  | VNumber f64 string
  | VBool bool
  | VIdent string
  | VList "dsl_value list"
  | VObject "(string \<times> dsl_value) list"
  | VCall string "(string \<times> dsl_value) list"

type_synonym dsl_settings = "(string \<times> dsl_value) list"

datatype value_or_field_node = VofnValue dsl_value | VofnField "string list"

section \<open>Filters, conditions, actions\<close>

datatype filter_node =
    NLangIn "string list"
  | NLangCompare compare_op_node string
  | NLangField compare_op_node "string list"
  | NCodecIn "string list"
  | NCodecCompare compare_op_node string
  | NCodecField compare_op_node "string list"
  | NChannels compare_op_node f64
  | NCommentary
  | NForced
  | NDefault
  | NFont
  | NTitleContains string
  | NTitleMatches string
  | NAnd "filter_node list"
  | NOr "filter_node list"
  | NNot filter_node

record track_query_node =
  tq_target :: string
  tq_filter :: "filter_node option"

datatype condition_node =
    NExists track_query_node
  | NCount track_query_node compare_op_node f64
  | NFieldCompare "string list" compare_op_node dsl_value
  | NFieldExists "string list"
  | NAudioIsMultiLanguage
  | NIsDubbed
  | NIsOriginal
  | NCondAnd "condition_node list"
  | NCondOr "condition_node list"
  | NCondNot condition_node

record track_ref_node =
  trf_target :: string
  trf_filter :: "filter_node option"

datatype action_node =
    NActKeep string "filter_node option"
  | NActRemove string "filter_node option"
  | NActSkip "string option"
  | NActWarn string
  | NActFail string
  | NActSetDefault track_ref_node
  | NActSetForced track_ref_node
  | NActSetLanguage track_ref_node value_or_field_node
  | NActSetTag string value_or_field_node

record when_node =
  wn_condition :: condition_node
  wn_then_actions :: "action_node list"
  wn_else_actions :: "action_node list"
  wn_span :: span

record rule_node =
  rn_name :: string
  rn_when :: when_node

section \<open>Operations\<close>

record normalize_setting =
  ns_preset :: string
  ns_settings :: dsl_settings

datatype synth_setting =
    SSCodec string
  | SSChannels dsl_value
  | SSSource filter_node
  | SSBitrate string
  | SSSkipIfExists filter_node
  | SSCreateIf condition_node
  | SSTitle string
  | SSLanguage string
  | SSPosition dsl_value
  | SSNormalize normalize_setting

datatype operation_node =
    NContainer string
  | NKeep string "filter_node option" "normalize_setting option"
  | NRemove string "filter_node option"
  | NOrder "string list"
  | NDefaults "(string \<times> string) list"
  | NActions string dsl_settings
  | NTranscode string string dsl_settings
  | NSynthesize string "synth_setting list"
  | NClearTags
  | NSetTag string value_or_field_node
  | NDeleteTag string
  | NWhen when_node
  | NRules string "rule_node list"
  | NVerify verify_mode_node

record spanned_operation =
  so_node :: operation_node
  so_span :: span

section \<open>Phases and policies\<close>

record run_if_node =
  ri_phase :: string
  ri_trigger :: run_if_trigger_node

record phase_node =
  ph_name :: string
  ph_extend :: bool
  ph_skip_when :: "condition_node option"
  ph_depends_on :: "string list option"
  ph_run_if :: "run_if_node option"
  ph_on_error :: "error_strategy_node option"
  ph_operations :: "spanned_operation list"
  ph_span :: span

datatype extends_source = ExtBundled string | ExtFile string

record metadata_node =
  mn_version :: "string option"
  mn_author :: "string option"
  mn_description :: "string option"
  mn_requires_voom :: "string option"
  mn_requires_tools :: "string list option"
  mn_test_fixtures :: "string list option"
  mn_span :: span

record config_node =
  cn_audio_languages :: "string list"
  cn_subtitle_languages :: "string list"
  cn_on_error :: "error_strategy_node option"
  cn_commentary_patterns :: "string list"
  cn_keep_backups :: "bool option"
  cn_span :: span

record policy_ast =
  ast_name :: string
  ast_extends :: "extends_source option"
  ast_metadata :: "metadata_node option"
  ast_config :: "config_node option"
  ast_phases :: "phase_node list"
  ast_span :: span

text \<open>\<open>phase.depends_on.as_deref().unwrap_or(&[])\<close>.\<close>

definition phase_dependencies :: "phase_node \<Rightarrow> string list" where
  "phase_dependencies ph = (case ph_depends_on ph of None \<Rightarrow> [] | Some ds \<Rightarrow> ds)"

section \<open>Errors\<close>

datatype dsl_error =
    DslParse usize usize string "string option"
  | DslBuild usize usize string
  | DslValidation usize usize string "string option"
  | DslCompile string

definition DslError_validation :: "usize \<Rightarrow> usize \<Rightarrow> string \<Rightarrow> dsl_error" where
  "DslError_validation line col message = DslValidation line col message None"

definition DslError_validation_with_suggestion ::
  "usize \<Rightarrow> usize \<Rightarrow> string \<Rightarrow> string \<Rightarrow> dsl_error" where
  "DslError_validation_with_suggestion line col message suggestion =
     DslValidation line col message (Some suggestion)"

record dsl_warning =
  dw_line :: usize
  dw_col :: usize
  dw_message :: string
  dw_suggestion :: "string option"

definition DslWarning_new :: "usize \<Rightarrow> usize \<Rightarrow> string \<Rightarrow> string option \<Rightarrow> dsl_warning" where
  "DslWarning_new line col message suggestion =
     \<lparr>dw_line = line, dw_col = col, dw_message = message, dw_suggestion = suggestion\<rparr>"

text \<open>An error of the pipeline, by the stage that reports it, or a panic (\<open>unreachable!\<close>,
  \<open>unwrap\<close> of nothing) with its message.\<close>

datatype dsl_pipeline_error =
    PipelineParse dsl_error
  | PipelineValidation "dsl_error list"
  | PipelineCompile dsl_error
  | PipelinePanic string

datatype dsl_failure = DslFail dsl_error | DslPanic string

definition DslPipelineError_from :: "dsl_error \<Rightarrow> dsl_pipeline_error" where
  "DslPipelineError_from e =
     (case e of
        DslParse _ _ _ _ \<Rightarrow> PipelineParse e
      | DslBuild _ _ _ \<Rightarrow> PipelineParse e
      | DslValidation _ _ _ _ \<Rightarrow> PipelineValidation [e]
      | DslCompile _ \<Rightarrow> PipelineCompile e)"

text \<open>The tokens of the strategies and triggers are read back as they are written.\<close>

lemma error_strategy_token:
  "ErrorStrategyNode_from_token s = Some e \<longleftrightarrow> s = ErrorStrategyNode_as_str e"
  by (cases e) (auto simp: ErrorStrategyNode_from_token_def ErrorStrategyNode_as_str_def)

lemma run_if_trigger_token:
  "RunIfTriggerNode_from_token s = Some t \<longleftrightarrow> s = RunIfTriggerNode_as_str t"
  by (cases t) (auto simp: RunIfTriggerNode_from_token_def RunIfTriggerNode_as_str_def)

end
