(* ===== verification/Composition.thy ===== *)
theory Composition
  imports Ast
begin

text \<open>
  Policy inheritance, \<open>crates/voom-dsl/src/composition.rs\<close> and \<open>bundled.rs\<close>: a policy that extends
  another one is merged into it, the parents being resolved first. Reading files, canonical paths
  and the parser are parameters, as are the texts of the bundled policies. The chain of parents may
  be cyclic; the resolution is written with fuel, \<open>None\<close> meaning that it ran out.
\<close>

section \<open>Sources\<close>

datatype policy_source_id = SrcInline | SrcBundled string | SrcFile string

datatype phase_composition =
    PCLocal
  | PCInherited string
  | PCExtended string usize
  | PCOverridden string

datatype allow_files = FilesYes | FilesNo

record resolved_policy_ast =
  ra_ast :: policy_ast
  ra_source_id :: policy_source_id
  ra_extends_chain :: "string list"
  ra_phase_sources :: "(string, phase_composition) hashmap"

text \<open>\<open>parse_policy\<close>, the file system and the texts of the bundled policies. A failed read or
  lookup carries the text of its error.\<close>

record policy_sources =
  parse_policy :: "string \<Rightarrow> dsl_error + policy_ast"
  read_to_string :: "string \<Rightarrow> string + string"
  fs_canonicalize :: "string \<Rightarrow> string + string"
  bundled_texts :: "string list"

definition bundled_policy_names :: "string list" where
  "bundled_policy_names =
     [''archival'', ''space-saver'', ''mobile-friendly'', ''anime-base'', ''passthrough-audit'']"

definition bundled_policy :: "policy_sources \<Rightarrow> string \<Rightarrow> string option" where
  "bundled_policy S name =
     find_map (\<lambda>(policy_name, source). if policy_name = name then Some source else None)
       (zip bundled_policy_names (bundled_texts S))"

definition dquoted :: "string \<Rightarrow> string" where
  "dquoted s = [CHR 0x22] @ s @ [CHR 0x22]"

definition compile_error :: "string \<Rightarrow> dsl_pipeline_error" where
  "compile_error message = PipelineCompile (DslCompile message)"

definition source_label :: "policy_source_id \<Rightarrow> string" where
  "source_label source_id =
     (case source_id of SrcInline \<Rightarrow> ''inline'' | SrcBundled name \<Rightarrow> name | SrcFile path \<Rightarrow> path)"

definition phase_source_label :: "phase_composition \<Rightarrow> policy_source_id \<Rightarrow> string" where
  "phase_source_label composition parent_source_id =
     (case composition of
        PCLocal \<Rightarrow> source_label parent_source_id
      | PCInherited source \<Rightarrow> source
      | PCExtended source _ \<Rightarrow> source
      | PCOverridden source \<Rightarrow> source)"

definition position :: "('a \<Rightarrow> bool) \<Rightarrow> 'a list \<Rightarrow> nat option" where
  "position P xs = (let i = length (takeWhile (\<lambda>x. \<not> P x) xs) in if i < length xs then Some i else None)"

lemma position_None: "position P xs = None \<longleftrightarrow> (\<forall>x \<in> set xs. \<not> P x)"
proof -
  have "length (takeWhile (\<lambda>x. \<not> P x) xs) < length xs \<longleftrightarrow> (\<exists>x \<in> set xs. P x)"
    by (induction xs) auto
  then show ?thesis by (simp add: position_def Let_def)
qed

definition push_source ::
  "policy_source_id \<Rightarrow> policy_source_id list \<Rightarrow> dsl_pipeline_error + policy_source_id list" where
  "push_source source_id stack =
     (case position (\<lambda>source. source = source_id) stack of
        Some index \<Rightarrow>
          Inl (compile_error
            (''cyclic policy extends: ''
             @ str_join '' -> '' (map source_label (drop index stack) @ [source_label source_id])))
      | None \<Rightarrow> Inr (stack @ [source_id]))"

section \<open>Paths\<close>

text \<open>\<open>Path::parent\<close> of a canonical path, \<open>Path::is_absolute\<close> and \<open>Path::join\<close> on Unix.\<close>

definition path_parent :: "string \<Rightarrow> string option" where
  "path_parent p =
     (let cs = filter (\<lambda>c. c \<noteq> []) (split_on (CHR ''/'') p) in
      if cs = [] then None else Some (''/'' @ str_join ''/'' (butlast cs)))"

definition path_is_absolute :: "string \<Rightarrow> bool" where
  "path_is_absolute p = prefix ''/'' p"

definition path_join :: "string \<Rightarrow> string \<Rightarrow> string" where
  "path_join base p =
     (if path_is_absolute p then p
      else if base = [] \<or> last base = CHR ''/'' then base @ p
      else base @ ''/'' @ p)"

definition canonicalize_existing_path :: "policy_sources \<Rightarrow> string \<Rightarrow> dsl_pipeline_error + string" where
  "canonicalize_existing_path S path =
     (case fs_canonicalize S path of
        Inl err \<Rightarrow> Inl (compile_error (''failed to resolve policy file '' @ path @ '': '' @ err))
      | Inr p \<Rightarrow> Inr p)"

definition strip_prefix :: "string \<Rightarrow> string \<Rightarrow> string option" where
  "strip_prefix pre s = (if prefix pre s then Some (drop (length pre) s) else None)"

definition resolve_file_uri ::
  "policy_sources \<Rightarrow> string \<Rightarrow> string option \<Rightarrow> dsl_pipeline_error + string" where
  "resolve_file_uri S uri base_dir =
     (case strip_prefix ''file://'' uri of
        None \<Rightarrow>
          Inl (compile_error
            (''unsupported policy extends URI '' @ dquoted uri
             @ ''; only file:// URIs and bundled policy names are supported''))
      | Some path \<Rightarrow>
          (if path = [] then
             Inl (compile_error ''file:// policy extends URI must include a path'')
           else if path_is_absolute path then canonicalize_existing_path S path
           else
             (case base_dir of
                Some dir \<Rightarrow> canonicalize_existing_path S (path_join dir path)
              | None \<Rightarrow>
                  Inl (compile_error ''file:// policy extends requires compile_policy_file(path)''))))"

section \<open>Merging a policy into its parent\<close>

definition clear_extend :: "phase_node \<Rightarrow> phase_node" where
  "clear_extend ph = ph\<lparr>ph_extend := False\<rparr>"

definition extend_phase :: "phase_node \<Rightarrow> phase_node \<Rightarrow> phase_node" where
  "extend_phase parent child =
     parent\<lparr>ph_extend := False,
            ph_skip_when := opt_or (ph_skip_when child) (ph_skip_when parent),
            ph_depends_on := opt_or (ph_depends_on child) (ph_depends_on parent),
            ph_run_if := opt_or (ph_run_if child) (ph_run_if parent),
            ph_on_error := opt_or (ph_on_error child) (ph_on_error parent),
            ph_operations := ph_operations parent @ ph_operations child\<rparr>"

definition merge_metadata :: "metadata_node option \<Rightarrow> metadata_node option \<Rightarrow> metadata_node option" where
  "merge_metadata parent child =
     (case (parent, child) of
        (None, None) \<Rightarrow> None
      | (Some metadata, None) \<Rightarrow> Some metadata
      | (None, Some metadata) \<Rightarrow> Some metadata
      | (Some p, Some c) \<Rightarrow>
          Some \<lparr>mn_version = opt_or (mn_version c) (mn_version p),
                mn_author = opt_or (mn_author c) (mn_author p),
                mn_description = opt_or (mn_description c) (mn_description p),
                mn_requires_voom = opt_or (mn_requires_voom c) (mn_requires_voom p),
                mn_requires_tools = opt_or (mn_requires_tools c) (mn_requires_tools p),
                mn_test_fixtures = opt_or (mn_test_fixtures c) (mn_test_fixtures p),
                mn_span = mn_span c\<rparr>)"

text \<open>The state of the two loops: the flags of the child phases already used, the phases and their
  origins so far.\<close>

record merge_state =
  ms_consumed :: "bool list"
  ms_phases :: "phase_node list"
  ms_sources :: "(string, phase_composition) hashmap"

definition merge_parent_phase ::
  "resolved_policy_ast \<Rightarrow> phase_node list \<Rightarrow> string \<Rightarrow> merge_state \<Rightarrow> phase_node \<Rightarrow> merge_state" where
  "merge_parent_phase parent child_phases child_source st parent_phase =
     (let name = ph_name parent_phase;
          parent_source =
            (case hm_get (ra_phase_sources parent) name of
               None \<Rightarrow> source_label (ra_source_id parent)
             | Some composition \<Rightarrow> phase_source_label composition (ra_source_id parent));
          child_phase_index =
            find (\<lambda>index. \<not> ms_consumed st ! index \<and> ph_name (child_phases ! index) = name)
              [0..<length child_phases]
      in case child_phase_index of
           Some index \<Rightarrow>
             (let child_phase = child_phases ! index;
                  consumed = (ms_consumed st)[index := True]
              in if ph_extend child_phase then
                   \<lparr>ms_consumed = consumed,
                    ms_phases = ms_phases st @ [extend_phase parent_phase child_phase],
                    ms_sources =
                      hm_insert name (PCExtended parent_source (length (ph_operations child_phase)))
                        (ms_sources st)\<rparr>
                 else
                   \<lparr>ms_consumed = consumed,
                    ms_phases = ms_phases st @ [clear_extend child_phase],
                    ms_sources = hm_insert name (PCOverridden child_source) (ms_sources st)\<rparr>)
         | None \<Rightarrow>
             st\<lparr>ms_phases := ms_phases st @ [clear_extend parent_phase],
                ms_sources := hm_insert name (PCInherited parent_source) (ms_sources st)\<rparr>)"

fun merge_child_phases ::
  "(nat \<times> phase_node) list \<Rightarrow> merge_state \<Rightarrow> dsl_pipeline_error + merge_state" where
  "merge_child_phases [] st = Inr st"
| "merge_child_phases ((index, ph) # rest) st =
     (if ms_consumed st ! index then merge_child_phases rest st
      else if ph_extend ph then
        Inl (compile_error
          (''phase '' @ dquoted (ph_name ph) @ '' uses extend but no parent phase exists''))
      else
        merge_child_phases rest
          (st\<lparr>ms_phases := ms_phases st @ [clear_extend ph],
              ms_sources := hm_insert (ph_name ph) PCLocal (ms_sources st)\<rparr>))"

definition merge_policy ::
  "resolved_policy_ast \<Rightarrow> policy_ast \<Rightarrow> policy_source_id \<Rightarrow> dsl_pipeline_error + resolved_policy_ast" where
  "merge_policy parent child source_id =
     (let child_source = source_label source_id;
          parent_ast = ra_ast parent;
          child_phases = ast_phases child;
          st0 = \<lparr>ms_consumed = replicate (length child_phases) False, ms_phases = [],
                 ms_sources = []\<rparr>;
          st1 = foldl (merge_parent_phase parent child_phases child_source) st0
                  (ast_phases parent_ast)
      in case merge_child_phases (enumerate 0 child_phases) st1 of
           Inl e \<Rightarrow> Inl e
         | Inr st \<Rightarrow>
             Inr \<lparr>ra_ast =
                    \<lparr>ast_name = ast_name child, ast_extends = None,
                     ast_metadata = merge_metadata (ast_metadata parent_ast) (ast_metadata child),
                     ast_config = opt_or (ast_config child) (ast_config parent_ast),
                     ast_phases = ms_phases st, ast_span = ast_span child\<rparr>,
                  ra_source_id = source_id,
                  ra_extends_chain = ra_extends_chain parent @ [source_label (ra_source_id parent)],
                  ra_phase_sources = ms_sources st\<rparr>)"

section \<open>Resolving the chain of parents\<close>

definition reject_unresolved_phase_extends :: "policy_ast \<Rightarrow> dsl_pipeline_error + unit" where
  "reject_unresolved_phase_extends ast =
     (case find ph_extend (ast_phases ast) of
        Some ph \<Rightarrow>
          Inl (compile_error
            (''phase '' @ dquoted (ph_name ph)
             @ '' uses extend but policy composition was not resolved''))
      | None \<Rightarrow> Inr ())"

function (sequential) resolve_file_path ::
  "policy_sources \<Rightarrow> nat \<Rightarrow> string \<Rightarrow> allow_files \<Rightarrow> policy_source_id list \<Rightarrow>
   (dsl_pipeline_error + resolved_policy_ast) option"
  and resolve_bundled_policy ::
  "policy_sources \<Rightarrow> nat \<Rightarrow> string \<Rightarrow> allow_files \<Rightarrow> policy_source_id list \<Rightarrow>
   (dsl_pipeline_error + resolved_policy_ast) option"
  and resolve_ast ::
  "policy_sources \<Rightarrow> nat \<Rightarrow> policy_ast \<Rightarrow> policy_source_id \<Rightarrow> string option \<Rightarrow> allow_files \<Rightarrow>
   policy_source_id list \<Rightarrow> (dsl_pipeline_error + resolved_policy_ast) option" where
  "resolve_file_path S fuel path allow_files stack =
     (let source_id = SrcFile path in
      case push_source source_id stack of
        Inl e \<Rightarrow> Some (Inl e)
      | Inr stack' \<Rightarrow>
          (case read_to_string S path of
             Inl err \<Rightarrow>
               Some (Inl (compile_error (''failed to read policy file '' @ path @ '': '' @ err)))
           | Inr source \<Rightarrow>
               (case parse_policy S source of
                  Inl e \<Rightarrow> Some (Inl (PipelineParse e))
                | Inr ast \<Rightarrow>
                    resolve_ast S fuel ast source_id (path_parent path) allow_files stack')))"
| "resolve_bundled_policy S fuel name allow_files stack =
     (let source_id = SrcBundled name in
      case push_source source_id stack of
        Inl e \<Rightarrow> Some (Inl e)
      | Inr stack' \<Rightarrow>
          (case bundled_policy S name of
             None \<Rightarrow> Some (Inl (compile_error (''unknown bundled policy '' @ dquoted name)))
           | Some source \<Rightarrow>
               (case parse_policy S source of
                  Inl e \<Rightarrow> Some (Inl (PipelineParse e))
                | Inr ast \<Rightarrow> resolve_ast S fuel ast source_id None allow_files stack')))"
| "resolve_ast S 0 ast source_id base_dir allow_files stack = None"
| "resolve_ast S (Suc fuel) ast source_id base_dir allow_files stack =
     (case ast_extends ast of
        None \<Rightarrow>
          Some (case reject_unresolved_phase_extends ast of
                  Inl e \<Rightarrow> Inl e
                | Inr _ \<Rightarrow>
                    Inr \<lparr>ra_ast = ast, ra_source_id = source_id, ra_extends_chain = [],
                         ra_phase_sources = []\<rparr>)
      | Some extends \<Rightarrow>
          (let parent =
                 (case extends of
                    ExtBundled name \<Rightarrow>
                      (if str_contains name ''://'' then
                         Some (Inl (compile_error
                           (''unsupported policy extends URI '' @ dquoted name
                            @ ''; only file:// URIs and bundled policy names are supported'')))
                       else resolve_bundled_policy S fuel name allow_files stack)
                  | ExtFile uri \<Rightarrow>
                      (if allow_files = FilesNo then
                         Some (Inl (compile_error
                           ''file:// policy extends requires compile_policy_file(path)''))
                       else
                         (case resolve_file_uri S uri base_dir of
                            Inl e \<Rightarrow> Some (Inl e)
                          | Inr path \<Rightarrow> resolve_file_path S fuel path allow_files stack)))
           in case parent of
                None \<Rightarrow> None
              | Some (Inl e) \<Rightarrow> Some (Inl e)
              | Some (Inr p) \<Rightarrow> Some (merge_policy p (ast\<lparr>ast_extends := None\<rparr>) source_id)))"
  by pat_completeness auto
termination
  by (relation "measure (\<lambda>x. case x of
        Inl (S, fuel, _) \<Rightarrow> 2 * fuel + 1
      | Inr (Inl (S, fuel, _)) \<Rightarrow> 2 * fuel + 1
      | Inr (Inr (S, fuel, _)) \<Rightarrow> 2 * fuel)") auto

declare resolve_file_path.simps [simp del] resolve_bundled_policy.simps [simp del]
  resolve_ast.simps [simp del]

definition resolve_policy_file ::
  "policy_sources \<Rightarrow> nat \<Rightarrow> string \<Rightarrow> (dsl_pipeline_error + resolved_policy_ast) option" where
  "resolve_policy_file S fuel path =
     (case canonicalize_existing_path S path of
        Inl e \<Rightarrow> Some (Inl e)
      | Inr canonical \<Rightarrow> resolve_file_path S fuel canonical FilesYes [])"

definition resolve_policy_with_bundled ::
  "policy_sources \<Rightarrow> nat \<Rightarrow> string \<Rightarrow> (dsl_pipeline_error + resolved_policy_ast) option" where
  "resolve_policy_with_bundled S fuel source =
     (case parse_policy S source of
        Inl e \<Rightarrow> Some (Inl (PipelineParse e))
      | Inr ast \<Rightarrow> resolve_ast S fuel ast SrcInline None FilesNo [])"

end
