(* ===== verification/Topo.thy ===== *)
theory Topo
  imports Ast
begin

text \<open>
  The order of phases: \<open>topological_sort\<close> of \<open>crates/voom-dsl/src/compiler.rs\<close>, Kahn's algorithm
  over hash maps of successors and in-degrees. A phase is its name and its dependencies. The
  \<open>unwrap\<close> of a missing degree, the subtraction below zero and the insertion past the end of the queue are
  panics of the model. \<open>slice::partition_point\<close>, which the code calls on a queue that need not be
  partitioned, is a parameter of which only its bound is used.
\<close>

type_synonym dep_graph = "(string \<times> string list) list"

type_synonym partition_point = "(string \<Rightarrow> bool) \<Rightarrow> string list \<Rightarrow> usize"

text \<open>The body of the loop over \<open>depends_on\<close>.\<close>

definition topo_add_dep ::
  "string \<Rightarrow> (string, string list) hashmap \<times> (string, usize) hashmap \<Rightarrow> string \<Rightarrow>
   (string, string list) hashmap \<times> (string, usize) hashmap" where
  "topo_add_dep name st dep =
     (let (adj, deg) = st in
      (hm_insert dep (hm_get_or adj dep [] @ [name]) adj,
       hm_insert name (hm_get_or deg name 0 + 1) deg))"

definition topo_add_phase ::
  "(string, string list) hashmap \<times> (string, usize) hashmap \<Rightarrow> string \<times> string list \<Rightarrow>
   (string, string list) hashmap \<times> (string, usize) hashmap" where
  "topo_add_phase st ph =
     (let (adj, deg) = st; (name, deps) = ph in
      foldl (topo_add_dep name) (hm_or_insert name [] adj, hm_or_insert name 0 deg) deps)"

definition topo_build ::
  "dep_graph \<Rightarrow> (string, string list) hashmap \<times> (string, usize) hashmap" where
  "topo_build phases = foldl topo_add_phase ([], []) phases"

definition insert_at :: "nat \<Rightarrow> 'a \<Rightarrow> 'a list \<Rightarrow> 'a list" where
  "insert_at i x xs = take i xs @ x # drop i xs"

text \<open>The loop over the neighbours of a node; \<open>None\<close> is a panic.\<close>

fun topo_relax ::
  "partition_point \<Rightarrow> string list \<Rightarrow> (string, usize) hashmap \<Rightarrow> string list \<Rightarrow>
   ((string, usize) hashmap \<times> string list) option" where
  "topo_relax pp [] deg queue = Some (deg, queue)"
| "topo_relax pp (n # ns) deg queue =
     (case hm_get deg n of
        None \<Rightarrow> None
      | Some 0 \<Rightarrow> None
      | Some (Suc d) \<Rightarrow>
          (let deg' = hm_insert n d deg in
           if d = 0 then
             (let pos = pp (\<lambda>x. x > n) queue in
              if pos > length queue then None
              else topo_relax pp ns deg' (insert_at pos n queue))
           else topo_relax pp ns deg' queue))"

text \<open>The loop ends because a round takes one node off the queue and moves at most as much from
  the degrees to the queue.\<close>

definition deg_sum :: "(string, usize) hashmap \<Rightarrow> nat" where
  "deg_sum deg = sum_list (map snd deg)"

lemma deg_sum_insert: "hm_get deg n = Some (Suc d) \<Longrightarrow> Suc (deg_sum (hm_insert n d deg)) = deg_sum deg"
  by (induction deg) (auto simp: hm_get_def hm_insert_def deg_sum_def split: if_splits)

lemma length_insert_at [simp]: "length (insert_at i x xs) = Suc (length xs)"
  by (simp add: insert_at_def)

lemma topo_relax_measure:
  "topo_relax pp ns deg queue = Some (deg', queue') \<Longrightarrow>
   length queue' + deg_sum deg' \<le> length queue + deg_sum deg"
  by (induction pp ns deg queue rule: topo_relax.induct)
    (fastforce simp: Let_def dest!: deg_sum_insert split: option.splits nat.splits if_splits)+

text \<open>The \<open>while\<close> loop: the node at the back of the queue is next.\<close>

function topo_loop ::
  "partition_point \<Rightarrow> (string, string list) hashmap \<Rightarrow> (string, usize) hashmap \<Rightarrow> string list \<Rightarrow>
   string list \<Rightarrow> string list option" where
  "topo_loop pp adj deg queue result =
     (if queue = [] then Some result
      else
        (let node = last queue; rest = butlast queue; result' = result @ [node] in
         case topo_relax pp (hm_get_or adj node []) deg rest of
           None \<Rightarrow> None
         | Some (deg', queue') \<Rightarrow> topo_loop pp adj deg' queue' result'))"
  by pat_completeness auto
termination
proof (relation "measure (\<lambda>(pp, adj, deg, queue, result). length queue + deg_sum deg)")
  fix pp adj deg queue result node rest result' x deg' queue'
  assume q: "queue \<noteq> ([] :: string list)" "rest = butlast queue"
    and r: "topo_relax pp (hm_get_or adj node []) deg rest = Some x" "(deg', queue') = x"
  have "length queue' + deg_sum deg' \<le> length rest + deg_sum deg"
    using r by (intro topo_relax_measure) auto
  moreover have "length rest < length queue" using q by simp
  ultimately show "((pp, adj, deg', queue', result'), (pp, adj, deg, queue, result))
      \<in> measure (\<lambda>(pp, adj, deg, queue, result). length queue + deg_sum deg)"
    by simp
qed simp

declare topo_loop.simps [simp del]

datatype topo_failure = TopoPanic | TopoError dsl_error

text \<open>The error for the phases that were not ordered.\<close>

definition topo_error :: "dep_graph \<Rightarrow> string list \<Rightarrow> dsl_error" where
  "topo_error phases result =
     (let names = map fst phases;
          stuck = sort (remdups (filter (\<lambda>n. n \<notin> set result) names));
          has_unknown_dep =
            list_ex
              (\<lambda>n. case find (\<lambda>ph. fst ph = n) phases of
                     None \<Rightarrow> False
                   | Some ph \<Rightarrow> list_ex (\<lambda>d. d \<notin> set names) (snd ph))
              stuck
      in if has_unknown_dep
         then DslCompile (''phases ['' @ str_join '', '' stuck @ ''] reference unknown dependencies'')
         else DslCompile (''circular dependency involving phases: ['' @ str_join '', '' stuck @ '']''))"

definition topological_sort ::
  "partition_point \<Rightarrow> dep_graph \<Rightarrow> topo_failure + string list" where
  "topological_sort pp phases =
     (let (adj, in_degree) = topo_build phases;
          queue = sort (map fst (filter (\<lambda>(_, d). d = 0) in_degree))
      in case topo_loop pp adj in_degree queue [] of
           None \<Rightarrow> Inl TopoPanic
         | Some result \<Rightarrow>
             (if length result \<noteq> length phases
              then Inl (TopoError (topo_error phases result))
              else Inr result))"

section \<open>The dependency graph\<close>

text \<open>The edges, from a dependency to the phase that needs it, in the order of the source.\<close>

definition dep_edges :: "dep_graph \<Rightarrow> (string \<times> string) list" where
  "dep_edges phases = concat (map (\<lambda>(n, ds). map (\<lambda>d. (d, n)) ds) phases)"

definition succs :: "(string \<times> string) list \<Rightarrow> string \<Rightarrow> string list" where
  "succs es d = map snd (filter (\<lambda>e. fst e = d) es)"

definition in_edges :: "(string \<times> string) list \<Rightarrow> string set \<Rightarrow> string \<Rightarrow> nat" where
  "in_edges es done n = length (filter (\<lambda>e. snd e = n \<and> fst e \<notin> done) es)"

text \<open>What the two maps hold after the phases with edges \<open>es\<close> and names \<open>ns\<close>.\<close>

definition built ::
  "(string \<times> string) list \<Rightarrow> string set \<Rightarrow> (string, string list) hashmap \<times> (string, usize) hashmap \<Rightarrow>
   bool" where
  "built es ns st \<longleftrightarrow>
     (\<forall>d. hm_get_or (fst st) d [] = succs es d)
     \<and> (\<forall>n. hm_get (snd st) n = (if n \<in> ns then Some (in_edges es {} n) else None))
     \<and> hm_wf (snd st)"

lemma built_dep:
  "built es ns st \<Longrightarrow> n \<in> ns \<Longrightarrow> built (es @ [(d, n)]) ns (topo_add_dep n st d)"
  by (cases st)
    (auto simp: built_def topo_add_dep_def succs_def in_edges_def hm_get_or_def [where d = "0 :: nat"])

lemma built_deps:
  "built es ns st \<Longrightarrow> n \<in> ns \<Longrightarrow>
   built (es @ map (\<lambda>d. (d, n)) ds) ns (foldl (topo_add_dep n) st ds)"
proof (induction ds arbitrary: es st)
  case (Cons d ds)
  then show ?case using Cons.IH [OF built_dep [OF Cons.prems, of d]] Cons.prems by simp
qed simp

lemma built_phase:
  assumes "built es ns (adj, deg)" "\<forall>e \<in> set es. snd e \<in> ns"
  shows "built (es @ map (\<lambda>d. (d, n)) ds) (insert n ns) (topo_add_phase (adj, deg) (n, ds))"
proof -
  have "in_edges es {} n = 0" if "n \<notin> ns" using that assms(2) by (auto simp: in_edges_def filter_empty_conv)
  then have "built es (insert n ns) (hm_or_insert n [] adj, hm_or_insert n 0 deg)"
    using assms(1) by (auto simp: built_def hm_get_or_def [of deg] hm_or_insert_def)
  from built_deps [OF this, of n ds] show ?thesis by (simp add: topo_add_phase_def)
qed

lemma built_phases:
  "built es ns st \<Longrightarrow> \<forall>e \<in> set es. snd e \<in> ns \<Longrightarrow>
   built (es @ dep_edges phases) (ns \<union> fst ` set phases) (foldl topo_add_phase st phases)"
proof (induction phases arbitrary: es ns st)
  case Nil
  then show ?case by (simp add: dep_edges_def)
next
  case (Cons ph phases)
  obtain n ds where ph: "ph = (n, ds)" by (cases ph)
  obtain adj deg where st: "st = (adj, deg)" by (cases st)
  have "built (es @ map (\<lambda>d. (d, n)) ds) (insert n ns) (topo_add_phase st ph)"
    using built_phase Cons.prems ph st by blast
  moreover have "\<forall>e \<in> set (es @ map (\<lambda>d. (d, n)) ds). snd e \<in> insert n ns" using Cons.prems(2) by auto
  ultimately have "built ((es @ map (\<lambda>d. (d, n)) ds) @ dep_edges phases) (insert n ns \<union> fst ` set phases)
      (foldl topo_add_phase (topo_add_phase st ph) phases)"
    by (rule Cons.IH)
  then show ?case by (simp add: ph dep_edges_def)
qed

lemma topo_build_built: "built (dep_edges phases) (fst ` set phases) (topo_build phases)"
  using built_phases [of "[]" "{}" "([], [])" phases]
  by (simp add: built_def topo_build_def succs_def in_edges_def hm_get_or_def)

section \<open>Kahn's algorithm\<close>

definition pp_bounded :: "partition_point \<Rightarrow> bool" where
  "pp_bounded pp \<longleftrightarrow> (\<forall>P xs. pp P xs \<le> length xs)"

lemma set_insert_at: "set (insert_at i x xs) = insert x (set xs)"
  using append_take_drop_id [of i xs] by (metis insert_at_def list.simps(15) set_append Un_insert_right)

lemma distinct_insert_at: "distinct (insert_at i x xs) \<longleftrightarrow> x \<notin> set xs \<and> distinct xs"
proof -
  have "distinct (as @ x # bs) \<longleftrightarrow> x \<notin> set (as @ bs) \<and> distinct (as @ bs)" for as bs by auto
  from this [of "take i xs" "drop i xs"] show ?thesis
    unfolding insert_at_def append_take_drop_id .
qed

text \<open>Relaxing the out-edges of a node takes their number off each degree and queues exactly the
  nodes whose degree falls to zero.\<close>

lemma topo_relax_spec:
  assumes "pp_bounded pp" "\<And>n. n \<in> set ns \<Longrightarrow> \<exists>k. hm_get deg n = Some k \<and> count_list ns n \<le> k"
    and "distinct queue" "\<And>n. n \<in> set queue \<Longrightarrow> hm_get deg n = Some 0"
  shows "\<exists>deg' queue'. topo_relax pp ns deg queue = Some (deg', queue')
    \<and> (\<forall>n. hm_get deg' n = map_option (\<lambda>k. k - count_list ns n) (hm_get deg n))
    \<and> distinct queue'
    \<and> set queue' = set queue \<union> {n \<in> set ns. hm_get deg n = Some (count_list ns n)}"
  using assms(2-4)
proof (induction ns arbitrary: deg queue)
  case Nil
  then show ?case by (auto simp: option.map_id0 [unfolded id_def])
next
  case (Cons n ns)
  obtain k where k: "hm_get deg n = Some k" "Suc (count_list ns n) \<le> k"
    using Cons.prems(1) [of n] by auto
  then obtain d where d: "hm_get deg n = Some (Suc d)" "count_list ns n \<le> d" by (cases k) auto
  let ?deg = "hm_insert n d deg"
  let ?queue = "if d = 0 then insert_at (pp (\<lambda>x. x > n) queue) n queue else queue"
  have bound: "\<not> length queue < pp (\<lambda>x. x > n) queue"
    using assms(1) by (auto simp: pp_bounded_def not_less)
  have step: "topo_relax pp (n # ns) deg queue = topo_relax pp ns ?deg ?queue"
    using d(1) bound by (simp add: Let_def)
  have fresh: "n \<notin> set queue" using Cons.prems(3) [of n] d(1) by auto
  have "\<exists>deg' queue'. topo_relax pp ns ?deg ?queue = Some (deg', queue')
    \<and> (\<forall>m. hm_get deg' m = map_option (\<lambda>k. k - count_list ns m) (hm_get ?deg m))
    \<and> distinct queue'
    \<and> set queue' = set ?queue \<union> {m \<in> set ns. hm_get ?deg m = Some (count_list ns m)}"
  proof (rule Cons.IH)
    show "\<exists>k. hm_get ?deg m = Some k \<and> count_list ns m \<le> k" if "m \<in> set ns" for m
      using Cons.prems(1) [of m] that d(2) by (auto split: if_splits)
    show "distinct ?queue" using Cons.prems(2) fresh by (simp add: distinct_insert_at)
    show "hm_get ?deg m = Some 0" if "m \<in> set ?queue" for m
      using that Cons.prems(3) fresh by (auto simp: set_insert_at split: if_splits)
  qed
  then obtain deg' queue' where IH: "topo_relax pp ns ?deg ?queue = Some (deg', queue')"
    "\<forall>m. hm_get deg' m = map_option (\<lambda>k. k - count_list ns m) (hm_get ?deg m)"
    "distinct queue'"
    "set queue' = set ?queue \<union> {m \<in> set ns. hm_get ?deg m = Some (count_list ns m)}" by blast
  have zero: "d = 0 \<and> n \<notin> set ns \<or> n \<in> set ns \<and> d = count_list ns n \<longleftrightarrow> d = count_list ns n"
    using d(2) count_notin [of n ns] by auto
  have "m \<in> set queue' \<longleftrightarrow>
      m \<in> set queue \<or> m \<in> set (n # ns) \<and> hm_get deg m = Some (count_list (n # ns) m)" for m
  proof (cases "m = n")
    case True
    have "m \<in> set queue' \<longleftrightarrow> d = 0 \<or> n \<in> set ns \<and> d = count_list ns n"
      using IH(4) fresh True by (auto simp: set_insert_at)
    also have "\<dots> \<longleftrightarrow> d = count_list ns n" using zero d(2) by auto
    finally show ?thesis using True fresh d(1) by simp
  next
    case False
    then show ?thesis using IH(4) by (auto simp: set_insert_at)
  qed
  then have "set queue' = set queue \<union> {m \<in> set (n # ns). hm_get deg m = Some (count_list (n # ns) m)}"
    by blast
  moreover have "\<forall>m. hm_get deg' m = map_option (\<lambda>k. k - count_list (n # ns) m) (hm_get deg m)"
    using IH(2) d(1) by auto
  ultimately show ?case using IH(1,3) step by auto
qed

lemma count_succs: "count_list (succs es d) n = length (filter (\<lambda>e. fst e = d \<and> snd e = n) es)"
  by (induction es) (auto simp: succs_def)

lemma in_edges_insert:
  assumes "d \<notin> done"
  shows "in_edges es done n = in_edges es (insert d done) n + count_list (succs es d) n"
  unfolding count_succs using assms by (induction es) (auto simp: in_edges_def)

definition kahn ::
  "(string \<times> string) list \<Rightarrow> string set \<Rightarrow> (string, usize) hashmap \<Rightarrow> string list \<Rightarrow> string list \<Rightarrow> bool"
  where
  "kahn es ns deg queue result \<longleftrightarrow>
     distinct (result @ queue) \<and> set (result @ queue) \<subseteq> ns
     \<and> (\<forall>n. hm_get deg n = (if n \<in> ns then Some (in_edges es (set result) n) else None))
     \<and> (\<forall>n \<in> ns. in_edges es (set result) n = 0 \<longleftrightarrow> n \<in> set (result @ queue))
     \<and> (\<forall>i < length result. \<forall>d. (d, result ! i) \<in> set es \<longrightarrow> d \<in> set (take i result))"

lemma in_edges_0: "in_edges es done n = 0 \<longleftrightarrow> (\<forall>d. (d, n) \<in> set es \<longrightarrow> d \<in> done)"
  by (auto simp: in_edges_def filter_empty_conv)

lemma kahn_step:
  assumes inv: "kahn es ns deg queue result" "queue \<noteq> []" and pp: "pp_bounded pp"
    and adj: "\<forall>d. hm_get_or adj d [] = succs es d" and es: "\<forall>e \<in> set es. snd e \<in> ns"
  shows "\<exists>deg' queue'. topo_relax pp (hm_get_or adj (last queue) []) deg (butlast queue)
      = Some (deg', queue') \<and> kahn es ns deg' queue' (result @ [last queue])"
proof -
  define node rest where nr: "node = last queue" "rest = butlast queue"
  have q: "queue = rest @ [node]" using inv(2) by (simp add: nr)
  note k = inv(1) [unfolded kahn_def q]
  have node: "node \<notin> set result" "node \<in> ns" "node \<notin> set rest" using k by auto
  have deg: "hm_get deg n = (if n \<in> ns then Some (in_edges es (set result) n) else None)" for n
    using k by blast
  have split: "in_edges es (set result) n
      = in_edges es (set (result @ [node])) n + count_list (succs es node) n" for n
    using in_edges_insert [OF node(1), of es n] by simp
  have "\<exists>deg' queue'. topo_relax pp (succs es node) deg rest = Some (deg', queue')
    \<and> (\<forall>n. hm_get deg' n = map_option (\<lambda>k. k - count_list (succs es node) n) (hm_get deg n))
    \<and> distinct queue'
    \<and> set queue' = set rest \<union> {n \<in> set (succs es node).
         hm_get deg n = Some (count_list (succs es node) n)}"
  proof (rule topo_relax_spec [OF pp])
    show "\<exists>k. hm_get deg n = Some k \<and> count_list (succs es node) n \<le> k" if "n \<in> set (succs es node)" for n
      using that es split [of n] by (auto simp: deg succs_def)
    show "distinct rest" using k by simp
    show "hm_get deg n = Some 0" if "n \<in> set rest" for n using that k by (auto simp: deg)
  qed
  then obtain deg' queue' where r: "topo_relax pp (succs es node) deg rest = Some (deg', queue')"
    "\<And>n. hm_get deg' n = map_option (\<lambda>k. k - count_list (succs es node) n) (hm_get deg n)"
    "distinct queue'"
    "set queue' = set rest \<union> {n \<in> set (succs es node).
       hm_get deg n = Some (count_list (succs es node) n)}" by blast
  have deg': "hm_get deg' n
      = (if n \<in> ns then Some (in_edges es (set (result @ [node])) n) else None)" for n
    using split [of n] by (simp add: r(2) deg)
  have succ_in: "n \<in> set (succs es node) \<longleftrightarrow> 0 < count_list (succs es node) n" for n
    by (metis count_list_0_iff neq0_conv)
  have mem: "n \<in> set queue' \<longleftrightarrow> n \<in> set rest \<or> (n \<in> ns \<and> 0 < count_list (succs es node) n
      \<and> in_edges es (set (result @ [node])) n = 0)" for n
    using split [of n] by (auto simp: r(4) deg succ_in split: if_splits)
  have old: "in_edges es (set result) n = 0 \<longleftrightarrow> n \<in> set result \<or> n \<in> set rest \<or> n = node"
    if "n \<in> ns" for n using k that by auto
  have zero: "in_edges es (set (result @ [node])) n = 0 \<longleftrightarrow> n \<in> set ((result @ [node]) @ queue')"
    if "n \<in> ns" for n
    using old [OF that] split [of n] that mem [of n] by auto
  have fresh: "n \<notin> set result \<and> n \<noteq> node" if "n \<in> set queue'" for n
    using that mem [of n] split [of n] old [of n] k by (auto simp: node(3))
  have order: "\<forall>i < length (result @ [node]). \<forall>d. (d, (result @ [node]) ! i) \<in> set es \<longrightarrow>
      d \<in> set (take i (result @ [node]))"
  proof (intro allI impI)
    fix i d assume i: "i < length (result @ [node])" "(d, (result @ [node]) ! i) \<in> set es"
    show "d \<in> set (take i (result @ [node]))"
    proof (cases "i < length result")
      case True
      then show ?thesis using k i(2) by (auto simp: nth_append)
    next
      case False
      then have "i = length result" using i(1) by simp
      moreover have "in_edges es (set result) node = 0" using old [OF node(2)] by simp
      ultimately show ?thesis using i(2) by (simp add: in_edges_0)
    qed
  qed
  have "distinct ((result @ [node]) @ queue')" using k r(3) fresh node(1) by auto
  moreover have "set ((result @ [node]) @ queue') \<subseteq> ns" using k mem node(2) by auto
  ultimately have "kahn es ns deg' queue' (result @ [node])"
    unfolding kahn_def using deg' zero order by blast
  then show ?thesis using r(1) adj by (auto simp: nr)
qed

lemma topo_loop_kahn:
  assumes "pp_bounded pp" "\<forall>d. hm_get_or adj d [] = succs es d" "\<forall>e \<in> set es. snd e \<in> ns"
  shows "kahn es ns deg queue result \<Longrightarrow>
    \<exists>deg' result'. topo_loop pp adj deg queue result = Some result' \<and> kahn es ns deg' [] result'"
  using assms
proof (induction pp adj deg queue result rule: topo_loop.induct)
  case (1 pp adj deg queue result)
  show ?case
  proof (cases "queue = []")
    case True
    with 1 show ?thesis by (subst topo_loop.simps) auto
  next
    case False
    obtain deg' queue' where r: "topo_relax pp (hm_get_or adj (last queue) []) deg (butlast queue)
        = Some (deg', queue')" "kahn es ns deg' queue' (result @ [last queue])"
      using kahn_step [OF 1(2) False 1(3-5)] by blast
    have "\<exists>deg'' result'. topo_loop pp adj deg' queue' (result @ [last queue]) = Some result'
        \<and> kahn es ns deg'' [] result'"
      using 1(1) [OF False refl refl refl r(1) refl r(2) 1(3-5)] .
    then show ?thesis using False r(1) by (subst topo_loop.simps) simp
  qed
qed

section \<open>Correctness\<close>

definition deps_of :: "dep_graph \<Rightarrow> string \<Rightarrow> string list" where
  "deps_of phases n = (case map_of phases n of None \<Rightarrow> [] | Some ds \<Rightarrow> ds)"

lemma dep_edges_targets: "\<forall>e \<in> set (dep_edges phases). snd e \<in> fst ` set phases"
  by (force simp: dep_edges_def)

lemma dep_edges_deps:
  "distinct (map fst phases) \<Longrightarrow> (d, n) \<in> set (dep_edges phases) \<longleftrightarrow> d \<in> set (deps_of phases n)"
  by (auto simp: dep_edges_def deps_of_def split: option.splits dest: map_of_SomeD)

lemma topo_loop_result:
  assumes "pp_bounded pp"
  obtains deg result where
    "topological_sort pp phases =
       (if length result \<noteq> length phases then Inl (TopoError (topo_error phases result)) else Inr result)"
    "kahn (dep_edges phases) (fst ` set phases) deg [] result"
proof -
  obtain adj deg where b: "topo_build phases = (adj, deg)" by (cases "topo_build phases")
  note built = topo_build_built [of phases, unfolded built_def b, simplified]
  define queue where "queue = sort (map fst (filter (\<lambda>(_, d). d = 0) deg))"
  have wf: "distinct (map fst deg)" using built by (simp add: hm_wf_def)
  have deg: "hm_get deg n
      = (if n \<in> fst ` set phases then Some (in_edges (dep_edges phases) {} n) else None)" for n
    using built by auto
  have "n \<in> set queue \<longleftrightarrow> (n, 0) \<in> set deg" for n by (force simp: queue_def)
  then have "n \<in> set queue \<longleftrightarrow> hm_get deg n = Some 0" for n
    using map_of_eq_Some_iff [OF wf] by (simp add: hm_get_def)
  then have mem: "n \<in> set queue \<longleftrightarrow> n \<in> fst ` set phases \<and> in_edges (dep_edges phases) {} n = 0" for n
    by (simp add: deg)
  have "distinct queue" using wf by (simp add: queue_def distinct_map_filter)
  with mem deg have "kahn (dep_edges phases) (fst ` set phases) deg queue []"
    unfolding kahn_def by (auto simp: mem)
  from topo_loop_kahn [OF assms _ dep_edges_targets this, of adj] built
  obtain deg' result where "topo_loop pp adj deg queue [] = Some result"
    "kahn (dep_edges phases) (fst ` set phases) deg' [] result" by auto
  then show ?thesis using that by (auto simp: topological_sort_def b Let_def queue_def)
qed

lemma kahn_complete:
  assumes "kahn (dep_edges phases) (fst ` set phases) deg [] result" "distinct (map fst phases)"
  shows "length result = length phases \<longleftrightarrow> set result = fst ` set phases"
proof -
  have sub: "distinct result" "set result \<subseteq> fst ` set phases" using assms(1) by (auto simp: kahn_def)
  have "card (fst ` set phases) = length phases"
    using distinct_card [OF assms(2)] by simp
  moreover have "card (set result) = length result" using sub(1) by (rule distinct_card)
  ultimately show ?thesis using sub(2) by (metis List.finite_set card_subset_eq finite_imageI)
qed

lemma stuck_cycle:
  assumes k: "kahn es ns deg [] result" and S: "n \<in> ns" "n \<notin> set result"
    and known: "\<forall>d m. (d, m) \<in> set es \<longrightarrow> m \<notin> set result \<longrightarrow> d \<in> ns"
    and targets: "\<forall>e \<in> set es. snd e \<in> ns"
  shows "\<not> acyclic (set es)"
proof
  assume "acyclic (set es)"
  then have "wf (set es)" by (simp add: finite_acyclic_wf)
  then obtain z where z: "z \<in> ns - set result" "\<And>y. (y, z) \<in> set es \<Longrightarrow> y \<notin> ns - set result"
    using S wfE_min [of "set es" n "ns - set result"] by blast
  then have "in_edges es (set result) z \<noteq> 0" using k by (auto simp: kahn_def)
  then obtain d where "(d, z) \<in> set es" "d \<notin> set result" by (auto simp: in_edges_0)
  moreover have "d \<in> ns" using known calculation z(1) by blast
  ultimately show False using z(2) by blast
qed

lemma respects_trancl:
  assumes "\<forall>i < length order. \<forall>d. (d, order ! i) \<in> r \<longrightarrow> d \<in> set (take i order)"
    and "(d, n) \<in> r\<^sup>+"
  shows "n = order ! i \<Longrightarrow> i < length order \<Longrightarrow> d \<in> set (take i order)"
  using assms(2)
proof (induction arbitrary: i rule: trancl_induct)
  case (base n)
  then show ?case using assms(1) by blast
next
  case (step m n)
  then have "m \<in> set (take i order)" using assms(1) by blast
  then obtain j where j: "j < i" "m = order ! j" using step.prems by (auto simp: in_set_conv_nth)
  then have "d \<in> set (take j order)" using step by auto
  then show ?case using j(1) set_take_subset_set_take [of j i order] by auto
qed

lemma order_acyclic:
  assumes k: "kahn es ns deg [] order" and all: "set order = ns"
    and targets: "\<forall>e \<in> set es. snd e \<in> ns"
  shows "acyclic (set es)"
proof (rule acyclicI, intro allI notI)
  fix x assume x: "(x, x) \<in> (set es)\<^sup>+"
  then obtain y where "(y, x) \<in> set es" by (meson tranclD2)
  then have "x \<in> set order" using all targets by auto
  then obtain i where i: "i < length order" "x = order ! i" by (auto simp: in_set_conv_nth)
  have "x \<in> set (take i order)" 
    by (rule respects_trancl [OF _ x i(2,1)]) (use k in \<open>simp add: kahn_def\<close>)
  moreover have "distinct order" using k by (simp add: kahn_def)
  ultimately show False using i by (auto simp: in_set_conv_nth nth_eq_iff_index_eq)
qed

section \<open>The interface to the evaluator\<close>

text \<open>What the users of a phase order rely on: a successful sort lists every phase once, with
  its dependencies before it.\<close>

locale phase_ordering =
  fixes sorter :: "dep_graph \<Rightarrow> 'e + string list"
  assumes sorted_order:
    "distinct (map fst phases) \<Longrightarrow> sorter phases = Inr order \<Longrightarrow>
     distinct order \<and> set order = fst ` set phases \<and> order_respects (deps_of phases) order"
begin

lemma dep_before:
  assumes "distinct (map fst phases)" "sorter phases = Inr order" "(n, ds) \<in> set phases" "d \<in> set ds"
  shows "\<exists>i j. i < j \<and> j < length order \<and> order ! i = d \<and> order ! j = n"
proof -
  note o = sorted_order [OF assms(1,2)]
  then have "n \<in> set order" using assms(3) by force
  then obtain j where j: "j < length order" "order ! j = n" by (auto simp: in_set_conv_nth)
  have "deps_of phases n = ds" using assms(1,3) by (simp add: deps_of_def)
  then have "d \<in> set (take j order)" using o j assms(4) by (auto simp: order_respects_def)
  then obtain i where "i < j" "order ! i = d" using j(1) by (auto simp: in_set_conv_nth)
  with j show ?thesis by blast
qed

lemma order_length: "distinct (map fst phases) \<Longrightarrow> sorter phases = Inr order \<Longrightarrow> length order = length phases"
  using sorted_order [of phases order] distinct_card [of order] distinct_card [of "map fst phases"]
  by auto

end

lemma topo_sound:
  assumes "pp_bounded pp" "distinct (map fst phases)" "topological_sort pp phases = Inr order"
  shows "distinct order \<and> set order = fst ` set phases \<and> order_respects (deps_of phases) order"
proof (rule topo_loop_result [OF assms(1), of phases])
  fix deg result
  assume sort: "topological_sort pp phases = (if length result \<noteq> length phases
      then Inl (TopoError (topo_error phases result)) else Inr result)"
    and k: "kahn (dep_edges phases) (fst ` set phases) deg [] result"
  have "result = order" "length result = length phases" using sort assms(3) by (auto split: if_splits)
  then show ?thesis
    using k kahn_complete [OF k assms(2)] dep_edges_deps [OF assms(2)]
    by (auto simp: kahn_def order_respects_def)
qed

text \<open>\<open>slice::partition_point\<close> of the standard library: on any slice its result is an index into
  it or its length.\<close>

locale std_partition_point =
  fixes pp :: partition_point
  assumes bounded: "pp P xs \<le> length xs"
begin

lemma pp_ok: "pp_bounded pp"
  by (simp add: pp_bounded_def bounded)

end

sublocale std_partition_point \<subseteq> topo: phase_ordering "topological_sort pp"
  by unfold_locales (rule topo_sound [OF pp_ok])

definition linear_partition_point :: partition_point where
  "linear_partition_point P xs = length (takeWhile P xs)"

interpretation linear: std_partition_point linear_partition_point
  by unfold_locales (simp add: linear_partition_point_def length_takeWhile_le)

section \<open>Properties\<close>

text \<open>
  C12: the phase order is sound. For phases with distinct names, an order that the sort returns
  is a permutation of the names in which every dependency comes before the phase that needs it.
\<close>

theorem topological_sort_sound:
  assumes "pp_bounded pp" "distinct (map fst phases)" "topological_sort pp phases = Inr order"
  shows "distinct order \<and> set order = fst ` set phases \<and> order_respects (deps_of phases) order"
  using assms by (rule topo_sound)

definition diamond :: dep_graph where
  "diamond = [(''d'', [''b'', ''c'']), (''b'', [''a'']), (''c'', [''a'']), (''a'', [])]"

lemma diamond_order:
  "topological_sort linear_partition_point diamond = Inr [''a'', ''b'', ''c'', ''d'']"
  by code_simp

theorem topological_sort_sound_witness:
  "order_respects (deps_of diamond) [''a'', ''b'', ''c'', ''d'']"
  using topological_sort_sound [OF linear.pp_ok _ diamond_order] by (simp add: diamond_def)

lemma topo_complete:
  assumes "pp_bounded pp" "distinct (map fst phases)"
  shows "(\<exists>order. topological_sort pp phases = Inr order) \<longleftrightarrow>
    (\<forall>d n. (d, n) \<in> set (dep_edges phases) \<longrightarrow> d \<in> fst ` set phases)
    \<and> acyclic (set (dep_edges phases))"
proof (rule topo_loop_result [OF assms(1), of phases])
  fix deg result
  assume sort: "topological_sort pp phases = (if length result \<noteq> length phases
      then Inl (TopoError (topo_error phases result)) else Inr result)"
    and k: "kahn (dep_edges phases) (fst ` set phases) deg [] result"
  note targets = dep_edges_targets [of phases]
  have "(\<exists>order. topological_sort pp phases = Inr order) \<longleftrightarrow> set result = fst ` set phases"
    using sort kahn_complete [OF k assms(2)] by auto
  also have "\<dots> \<longleftrightarrow> (\<forall>d n. (d, n) \<in> set (dep_edges phases) \<longrightarrow> d \<in> fst ` set phases)
      \<and> acyclic (set (dep_edges phases))"
  proof
    assume all: "set result = fst ` set phases"
    have "d \<in> fst ` set phases" if e: "(d, n) \<in> set (dep_edges phases)" for d n
    proof -
      have "n \<in> set result" using e targets all by force
      then obtain i where "i < length result" "n = result ! i" by (auto simp: in_set_conv_nth)
      then have "d \<in> set (take i result)" using k e by (auto simp: kahn_def)
      then show ?thesis using all by (auto dest: in_set_takeD)
    qed
    then show "(\<forall>d n. (d, n) \<in> set (dep_edges phases) \<longrightarrow> d \<in> fst ` set phases)
      \<and> acyclic (set (dep_edges phases))"
      using order_acyclic [OF k all targets] by blast
  next
    assume ok: "(\<forall>d n. (d, n) \<in> set (dep_edges phases) \<longrightarrow> d \<in> fst ` set phases)
      \<and> acyclic (set (dep_edges phases))"
    show "set result = fst ` set phases"
    proof (rule ccontr)
      assume "set result \<noteq> fst ` set phases"
      moreover have "set result \<subseteq> fst ` set phases" using k by (auto simp: kahn_def)
      ultimately obtain n where "n \<in> fst ` set phases" "n \<notin> set result" by blast
      with stuck_cycle [OF k this _ targets] ok show False by blast
    qed
  qed
  finally show ?thesis .
qed

text \<open>
  C11: the phase order is complete. For phases with distinct names the sort succeeds exactly when
  every dependency is a phase and the dependencies have no cycle.
\<close>

theorem topological_sort_complete:
  assumes "pp_bounded pp" "distinct (map fst phases)"
  shows "(\<exists>order. topological_sort pp phases = Inr order) \<longleftrightarrow>
    (\<forall>d n. (d, n) \<in> set (dep_edges phases) \<longrightarrow> d \<in> fst ` set phases)
    \<and> acyclic (set (dep_edges phases))"
  using assms by (rule topo_complete)

theorem topological_sort_complete_witness: "acyclic (set (dep_edges diamond))"
  using topological_sort_complete [OF linear.pp_ok, of diamond] diamond_order
  by (auto simp: diamond_def)

lemma topo_error_cases:
  "topo_error phases result =
     (let stuck = sort (remdups (filter (\<lambda>n. n \<notin> set result) (map fst phases)))
      in if \<exists>n ds d. n \<in> set stuck \<and> find (\<lambda>ph. fst ph = n) phases = Some (n, ds) \<and> d \<in> set ds
                   \<and> d \<notin> fst ` set phases
         then DslCompile (''phases ['' @ str_join '', '' stuck @ ''] reference unknown dependencies'')
         else DslCompile (''circular dependency involving phases: ['' @ str_join '', '' stuck @ '']''))"
proof -
  have one: "(case find (\<lambda>ph. fst ph = n) phases of
          None \<Rightarrow> False | Some ph \<Rightarrow> list_ex (\<lambda>d. d \<notin> set (map fst phases)) (snd ph))
      \<longleftrightarrow> (\<exists>ds d. find (\<lambda>ph. fst ph = n) phases = Some (n, ds) \<and> d \<in> set ds \<and> d \<notin> fst ` set phases)" for n
  proof (cases "find (\<lambda>ph. fst ph = n) phases")
    case (Some ph)
    then have "fst ph = n" by (auto simp: find_Some_iff)
    then show ?thesis using Some by (cases ph) (simp add: list_ex_iff, blast)
  qed simp
  have "list_ex (\<lambda>n. case find (\<lambda>ph. fst ph = n) phases of
          None \<Rightarrow> False | Some ph \<Rightarrow> list_ex (\<lambda>d. d \<notin> set (map fst phases)) (snd ph)) stuck
      \<longleftrightarrow> (\<exists>n ds d. n \<in> set stuck \<and> find (\<lambda>ph. fst ph = n) phases = Some (n, ds) \<and> d \<in> set ds
            \<and> d \<notin> fst ` set phases)" for stuck
    unfolding one unfolding list_ex_iff by blast
  then show ?thesis by (simp only: topo_error_def Let_def)
qed

text \<open>The phases that some order can place, by the graph alone: those whose dependencies all can be
  placed. A phase on a cycle, or with an unknown dependency, or behind one of these, is not.\<close>

inductive placeable :: "dep_graph \<Rightarrow> string \<Rightarrow> bool" for phases where
  place: "(n, ds) \<in> set phases \<Longrightarrow> \<forall>d \<in> set ds. placeable phases d \<Longrightarrow> placeable phases n"

lemma kahn_places_ordered:
  assumes "kahn (dep_edges phases) (fst ` set phases) deg [] result" "distinct (map fst phases)"
  shows "i < length result \<Longrightarrow> placeable phases (result ! i)"
proof (induction i rule: less_induct)
  case (less i)
  have "result ! i \<in> fst ` set phases"
    using assms(1) less.prems nth_mem [OF less.prems] by (auto simp: kahn_def)
  then obtain ds where ds: "(result ! i, ds) \<in> set phases" by force
  have "placeable phases d" if "d \<in> set ds" for d
  proof -
    have "(d, result ! i) \<in> set (dep_edges phases)" using ds that by (force simp: dep_edges_def)
    then have "d \<in> set (take i result)" using assms(1) less.prems by (auto simp: kahn_def)
    then obtain j where "j < i" "d = result ! j" using less.prems by (auto simp: in_set_conv_nth)
    then show ?thesis using less.IH less.prems by simp
  qed
  then show ?case using ds place by blast
qed

lemma kahn_orders_placeable:
  assumes "kahn (dep_edges phases) (fst ` set phases) deg [] result" "distinct (map fst phases)"
  shows "placeable phases n \<Longrightarrow> n \<in> set result"
proof (induction rule: placeable.induct)
  case (place n ds)
  have "deps_of phases n = ds" using place.hyps assms(2) by (simp add: deps_of_def)
  then have "in_edges (dep_edges phases) (set result) n = 0"
    using place by (auto simp: in_edges_0 dep_edges_deps [OF assms(2)])
  moreover have "n \<in> fst ` set phases" using place.hyps by force
  ultimately show ?case using assms(1) by (auto simp: kahn_def)
qed

text \<open>
  C13: the sort never panics and its errors tell the truth. An error lists, in order and once
  each, exactly the phases that no order can place; it calls them circular when all their
  dependencies are phases, and then there is a cycle, and it reports unknown dependencies when
  one of them is not a phase.
\<close>

theorem topological_sort_errors:
  assumes "pp_bounded pp" "distinct (map fst phases)" "topological_sort pp phases = Inl failure"
  shows "\<exists>stuck msg. failure = TopoError (DslCompile msg)
    \<and> stuck \<noteq> [] \<and> sorted stuck \<and> distinct stuck
    \<and> set stuck = {n \<in> fst ` set phases. \<not> placeable phases n}
    \<and> (if \<exists>d n. (d, n) \<in> set (dep_edges phases) \<and> n \<in> set stuck \<and> d \<notin> fst ` set phases
       then msg = ''phases ['' @ str_join '', '' stuck @ ''] reference unknown dependencies''
       else msg = ''circular dependency involving phases: ['' @ str_join '', '' stuck @ '']''
         \<and> \<not> acyclic (set (dep_edges phases)))"
proof (rule topo_loop_result [OF assms(1), of phases])
  fix deg result
  assume sort: "topological_sort pp phases = (if length result \<noteq> length phases
      then Inl (TopoError (topo_error phases result)) else Inr result)"
    and k: "kahn (dep_edges phases) (fst ` set phases) deg [] result"
  define stuck where "stuck = sort (remdups (filter (\<lambda>n. n \<notin> set result) (map fst phases)))"
  have set_stuck: "set stuck = fst ` set phases - set result" by (auto simp: stuck_def)
  have "n \<in> set result \<longleftrightarrow> placeable phases n" for n
    using kahn_places_ordered [OF k assms(2)] kahn_orders_placeable [OF k assms(2)]
    by (metis in_set_conv_nth)
  then have exact: "set stuck = {n \<in> fst ` set phases. \<not> placeable phases n}"
    by (auto simp: set_stuck)
  have shape: "sorted stuck" "distinct stuck" by (simp_all add: stuck_def)
  have fail: "length result \<noteq> length phases" "failure = TopoError (topo_error phases result)"
    using sort assms(3) by (auto split: if_splits)
  have "set result \<subseteq> fst ` set phases" using k by (auto simp: kahn_def)
  then have "set stuck \<noteq> {}" using fail(1) kahn_complete [OF k assms(2)] set_stuck by auto
  then have ne: "stuck \<noteq> []" by auto
  have found: "find (\<lambda>ph. fst ph = n) phases = Some (n, ds) \<longleftrightarrow> (n, ds) \<in> set phases" for n ds
    using assms(2) by (induction phases) (auto simp: rev_image_eqI)
  have edge: "(d, n) \<in> set (dep_edges phases) \<longleftrightarrow> (\<exists>ds. (n, ds) \<in> set phases \<and> d \<in> set ds)" for d n
    by (auto simp: dep_edges_def)
  have unknown: "(\<exists>n ds d. n \<in> set stuck \<and> find (\<lambda>ph. fst ph = n) phases = Some (n, ds) \<and> d \<in> set ds
      \<and> d \<notin> fst ` set phases)
    \<longleftrightarrow> (\<exists>d n. (d, n) \<in> set (dep_edges phases) \<and> n \<in> set stuck \<and> d \<notin> fst ` set phases)"
    unfolding found edge by blast
  note err = topo_error_cases [of phases result, folded stuck_def, unfolded Let_def unknown]
  have cyclic: "\<not> acyclic (set (dep_edges phases))"
    if all: "\<not> (\<exists>d n. (d, n) \<in> set (dep_edges phases) \<and> n \<in> set stuck \<and> d \<notin> fst ` set phases)"
  proof (rule stuck_cycle [OF k, of "hd stuck"])
    show "hd stuck \<in> fst ` set phases" "hd stuck \<notin> set result" using hd_in_set [OF ne] set_stuck by auto
    show "\<forall>d m. (d, m) \<in> set (dep_edges phases) \<longrightarrow> m \<notin> set result \<longrightarrow> d \<in> fst ` set phases"
      using all dep_edges_targets [of phases] unfolding set_stuck by (metis DiffI snd_conv)
  qed (rule dep_edges_targets)
  show ?thesis
  proof (cases "\<exists>d n. (d, n) \<in> set (dep_edges phases) \<and> n \<in> set stuck \<and> d \<notin> fst ` set phases")
    case True
    show ?thesis
      using fail(2) [unfolded err if_P [OF True]] ne shape exact True by (intro exI [of _ stuck]) simp
  next
    case False
    show ?thesis
      using fail(2) [unfolded err if_not_P [OF False]] ne shape exact False cyclic [OF False]
      by (intro exI [of _ stuck]) simp
  qed
qed

definition two_cycle :: dep_graph where
  "two_cycle = [(''a'', [''b'']), (''b'', [''a''])]"

theorem topological_sort_errors_witness:
  "\<not> acyclic (set (dep_edges two_cycle)) \<and> {n \<in> {''a'', ''b''}. \<not> placeable two_cycle n} \<noteq> {}"
proof -
  have sort: "topological_sort linear_partition_point two_cycle
      = Inl (TopoError (DslCompile ''circular dependency involving phases: [a, b]''))"
    by code_simp
  have names: "fst ` set two_cycle = {''a'', ''b''}" "distinct (map fst two_cycle)"
    by (auto simp: two_cycle_def)
  have known: "d \<in> {''a'', ''b''}" if "(d, n) \<in> set (dep_edges two_cycle)" for d n
    using that by (auto simp: two_cycle_def dep_edges_def)
  then have ok: "\<not> (\<exists>d n. (d, n) \<in> set (dep_edges two_cycle) \<and> n \<in> set stuck \<and> d \<notin> {''a'', ''b''})"
    for stuck by blast
  note err = topological_sort_errors [OF linear.pp_ok names(2) sort, unfolded names(1) if_not_P [OF ok]]
  then obtain stuck where "stuck \<noteq> []" "set stuck = {n \<in> {''a'', ''b''}. \<not> placeable two_cycle n}"
    by blast
  then have "{n \<in> {''a'', ''b''}. \<not> placeable two_cycle n} \<noteq> {}" by (metis set_empty)
  with err show ?thesis by blast
qed

end
