(* ===== verification/Compiler.thy ===== *)
theory Compiler
  imports Codecs Composition Topo
begin

text \<open>
  The compiler, \<open>crates/voom-dsl/src/compiler.rs\<close>: from the syntax tree of a policy to the compiled
  policy that the evaluator runs. The two \<open>unreachable!\<close> branches, for a track target and for a
  mode of rules that the validator should have rejected, are panics of the model. Compiling a
  regular expression and the debug formatting of a value are parameters, as are the standard
  library's \<open>partition_point\<close> and its order of iteration over a hash set.
\<close>

record dsl_env =
  regex_error :: "string \<Rightarrow> string option"
  debug_value :: "dsl_value \<Rightarrow> string"
  partition_point_of :: partition_point
  hash_order_of :: hash_order

section \<open>Results\<close>

definition res_bind :: "'e + 'a \<Rightarrow> ('a \<Rightarrow> 'e + 'b) \<Rightarrow> 'e + 'b" where
  "res_bind r f = (case r of Inl e \<Rightarrow> Inl e | Inr x \<Rightarrow> f x)"

lemma res_bind_simps [simp]: "res_bind (Inl e) f = Inl e" "res_bind (Inr x) f = f x"
  by (simp_all add: res_bind_def)

lemma res_bind_cong [fundef_cong]:
  "r = r' \<Longrightarrow> (\<And>x. r' = Inr x \<Longrightarrow> f x = g x) \<Longrightarrow> res_bind r f = res_bind r' g"
  by (cases r') auto

lemma res_bind_Inr: "res_bind r f = Inr y \<longleftrightarrow> (\<exists>x. r = Inr x \<and> f x = Inr y)"
  by (cases r) auto

definition res_map :: "('a \<Rightarrow> 'b) \<Rightarrow> 'e + 'a \<Rightarrow> 'e + 'b" where
  "res_map f r = (case r of Inl e \<Rightarrow> Inl e | Inr x \<Rightarrow> Inr (f x))"

lemma res_map_simps [simp]: "res_map f (Inl e) = Inl e" "res_map f (Inr x) = Inr (f x)"
  by (simp_all add: res_map_def)

lemma res_map_Inr: "res_map f r = Inr y \<longleftrightarrow> (\<exists>x. r = Inr x \<and> y = f x)"
  by (cases r) auto

definition fail_compile :: "string \<Rightarrow> dsl_failure + 'a" where
  "fail_compile message = Inl (DslFail (DslCompile message))"

definition squoted :: "string \<Rightarrow> string" where
  "squoted s = [CHR 0x27] @ s @ [CHR 0x27]"

section \<open>Numbers and values\<close>

definition safe_u32 :: "f64 \<Rightarrow> u32 option" where
  "safe_u32 n =
     (if n \<ge> 0 \<and> n \<le> of_nat U32_MAX \<and> n = of_int \<lfloor>n\<rfloor> then Some (nat \<lfloor>n\<rfloor>) else None)"

text \<open>Collecting pairs into a map of \<open>serde_json\<close>: later values replace earlier ones, and the keys
  are sorted.\<close>

definition json_map :: "(string \<times> json) list \<Rightarrow> (string \<times> json) list" where
  "json_map kvs = sort_key fst (foldl (\<lambda>m (k, v). hm_insert k v m) [] kvs)"

fun value_to_json :: "dsl_value \<Rightarrow> json" where
  "value_to_json (VString s) = JString s"
| "value_to_json (VIdent s) = JString s"
| "value_to_json (VNumber n _) = JNumber (Float n)"
| "value_to_json (VBool b) = JBool b"
| "value_to_json (VList items) = JArray (map value_to_json items)"
| "value_to_json (VObject items) =
     JObject (json_map (map (\<lambda>(key, v). (key, value_to_json v)) items))"
| "value_to_json (VCall name args) =
     JObject (json_map
       [(''name'', JString name),
        (''args'', JObject (json_map (map (\<lambda>(key, v). (key, value_to_json v)) args)))])"

definition compile_value_or_field :: "value_or_field_node \<Rightarrow> value_or_field" where
  "compile_value_or_field vof =
     (case vof of VofnValue v \<Rightarrow> VofValue (value_to_json v) | VofnField path \<Rightarrow> VofField path)"

definition compile_compare_op :: "compare_op_node \<Rightarrow> compare_op" where
  "compile_compare_op op =
     (case op of OEq \<Rightarrow> Eq | ONe \<Rightarrow> Ne | OLt \<Rightarrow> Lt | OLe \<Rightarrow> Le | OGt \<Rightarrow> Gt | OGe \<Rightarrow> Ge | OIn \<Rightarrow> In)"

definition parse_track_target :: "string \<Rightarrow> dsl_failure + track_target" where
  "parse_track_target target =
     (if target = ''video'' then Inr TgtVideo
      else if target = ''audio'' then Inr TgtAudio
      else if target = ''subtitle'' \<or> target = ''subtitles'' then Inr TgtSubtitle
      else if target = ''attachment'' \<or> target = ''attachments'' then Inr TgtAttachment
      else if target = ''track'' then Inr TgtAny
      else Inl (DslPanic ''validator rejects unknown track targets''))"

definition canonical_codec :: "string \<Rightarrow> string" where
  "canonical_codec codec = (case normalize_codec codec of None \<Rightarrow> codec | Some c \<Rightarrow> c)"

section \<open>Filters, conditions, actions\<close>

fun compile_filter :: "dsl_env \<Rightarrow> filter_node \<Rightarrow> dsl_failure + compiled_filter" where
  "compile_filter E (NLangIn langs) = Inr (FLangIn langs)"
| "compile_filter E (NLangCompare op lang) = Inr (FLangCompare (compile_compare_op op) lang)"
| "compile_filter E (NLangField op path) = Inr (FLangField (compile_compare_op op) path)"
| "compile_filter E (NCodecCompare op codec) =
     Inr (FCodecCompare (compile_compare_op op) (canonical_codec codec))"
| "compile_filter E (NCodecField op path) = Inr (FCodecField (compile_compare_op op) path)"
| "compile_filter E (NCodecIn codec_list) = Inr (FCodecIn (map canonical_codec codec_list))"
| "compile_filter E (NChannels op val) = Inr (FChannels (compile_compare_op op) val)"
| "compile_filter E NCommentary = Inr FCommentary"
| "compile_filter E NForced = Inr FForced"
| "compile_filter E NDefault = Inr FDefault"
| "compile_filter E NFont = Inr FFont"
| "compile_filter E (NTitleContains s) = Inr (FTitleContains s)"
| "compile_filter E (NTitleMatches s) =
     (case regex_error E s of
        Some e \<Rightarrow> fail_compile (''invalid regex pattern '' @ squoted s @ '': '' @ e)
      | None \<Rightarrow> Inr (FTitleMatches \<lparr>rx_pattern = s\<rparr>))"
| "compile_filter E (NAnd items) = res_map FAnd (map_result (compile_filter E) items)"
| "compile_filter E (NOr items) = res_map FOr (map_result (compile_filter E) items)"
| "compile_filter E (NNot inner) = res_map FNot (compile_filter E inner)"

definition compile_target_filter ::
  "dsl_env \<Rightarrow> string \<Rightarrow> filter_node option \<Rightarrow>
   (track_target \<Rightarrow> compiled_filter option \<Rightarrow> 'a) \<Rightarrow> dsl_failure + 'a" where
  "compile_target_filter E target flt build =
     res_bind (parse_track_target target)
       (\<lambda>t. res_map (build t) (opt_result (compile_filter E) flt))"

fun compile_condition :: "dsl_env \<Rightarrow> condition_node \<Rightarrow> dsl_failure + compiled_condition" where
  "compile_condition E (NExists query) =
     compile_target_filter E (tq_target query) (tq_filter query) CExists"
| "compile_condition E (NCount query op val) =
     compile_target_filter E (tq_target query) (tq_filter query)
       (\<lambda>t f. CCount t f (compile_compare_op op) val)"
| "compile_condition E (NFieldCompare path op val) =
     Inr (CFieldCompare path (compile_compare_op op) (value_to_json val))"
| "compile_condition E (NFieldExists path) = Inr (CFieldExists path)"
| "compile_condition E NAudioIsMultiLanguage = Inr CAudioIsMultiLanguage"
| "compile_condition E NIsDubbed = Inr CIsDubbed"
| "compile_condition E NIsOriginal = Inr CIsOriginal"
| "compile_condition E (NCondAnd items) = res_map CAnd (map_result (compile_condition E) items)"
| "compile_condition E (NCondOr items) = res_map COr (map_result (compile_condition E) items)"
| "compile_condition E (NCondNot inner) = res_map CNot (compile_condition E inner)"

definition compile_action :: "dsl_env \<Rightarrow> action_node \<Rightarrow> dsl_failure + compiled_action" where
  "compile_action E action =
     (case action of
        NActKeep target flt \<Rightarrow> compile_target_filter E target flt AKeep
      | NActRemove target flt \<Rightarrow> compile_target_filter E target flt ARemove
      | NActSkip phase \<Rightarrow> Inr (ASkip phase)
      | NActWarn msg \<Rightarrow> Inr (AWarn msg)
      | NActFail msg \<Rightarrow> Inr (AFail msg)
      | NActSetDefault r \<Rightarrow> compile_target_filter E (trf_target r) (trf_filter r) ASetDefault
      | NActSetForced r \<Rightarrow> compile_target_filter E (trf_target r) (trf_filter r) ASetForced
      | NActSetLanguage r val \<Rightarrow>
          compile_target_filter E (trf_target r) (trf_filter r)
            (\<lambda>t f. ASetLanguage t f (compile_value_or_field val))
      | NActSetTag tag val \<Rightarrow> Inr (ASetTag tag (compile_value_or_field val)))"

definition compile_conditional ::
  "dsl_env \<Rightarrow> when_node \<Rightarrow> dsl_failure + compiled_conditional" where
  "compile_conditional E w =
     res_bind (compile_condition E (wn_condition w)) (\<lambda>condition.
       res_bind (map_result (compile_action E) (wn_then_actions w)) (\<lambda>then_actions.
         res_map
           (\<lambda>else_actions.
              \<lparr>cc_condition = condition, cc_then_actions = then_actions,
               cc_else_actions = else_actions\<rparr>)
           (map_result (compile_action E) (wn_else_actions w))))"

section \<open>Settings of operations\<close>

definition find_setting :: "dsl_settings \<Rightarrow> string \<Rightarrow> dsl_value option" where
  "find_setting settings key = map_option snd (find (\<lambda>(k, _). k = key) settings)"

definition value_text :: "dsl_value option \<Rightarrow> string option" where
  "value_text v =
     (case v of
        Some (VString s) \<Rightarrow> Some s
      | Some (VIdent s) \<Rightarrow> Some s
      | Some (VNumber _ s) \<Rightarrow> Some s
      | _ \<Rightarrow> None)"

definition value_name :: "dsl_value option \<Rightarrow> string option" where
  "value_name v = (case v of Some (VIdent s) \<Rightarrow> Some s | Some (VString s) \<Rightarrow> Some s | _ \<Rightarrow> None)"

definition value_bool :: "dsl_value option \<Rightarrow> bool option" where
  "value_bool v = (case v of Some (VBool b) \<Rightarrow> Some b | _ \<Rightarrow> None)"

definition get_u32 :: "dsl_value option \<Rightarrow> u32 option" where
  "get_u32 v = (case v of Some (VNumber n _) \<Rightarrow> safe_u32 n | _ \<Rightarrow> None)"

definition value_channels :: "dsl_value option \<Rightarrow> transcode_channels option" where
  "value_channels v =
     (case v of
        Some (VNumber n _) \<Rightarrow> map_option ChCount (safe_u32 n)
      | Some (VIdent s) \<Rightarrow> Some (ChNamed s)
      | Some (VString s) \<Rightarrow> Some (ChNamed s)
      | _ \<Rightarrow> None)"

definition compile_crop_settings :: "dsl_settings \<Rightarrow> crop_settings option" where
  "compile_crop_settings settings =
     (if value_name (find_setting settings ''crop'') \<noteq> Some ''auto'' then None
      else
        Some (CropSettings_auto
          \<lparr>cs_sample_duration_secs := get_u32 (find_setting settings ''crop_sample_duration''),
           cs_sample_count := get_u32 (find_setting settings ''crop_sample_count''),
           cs_threshold :=
             (case get_u32 (find_setting settings ''crop_threshold'') of
                None \<Rightarrow> None | Some v \<Rightarrow> if v \<le> 255 then Some v else None),
           cs_minimum_crop := get_u32 (find_setting settings ''crop_minimum''),
           cs_preserve_bottom_pixels :=
             get_u32 (find_setting settings ''crop_preserve_bottom_pixels''),
           cs_aspect_lock :=
             (case find_setting settings ''crop_aspect_lock'' of
                Some (VList items) \<Rightarrow> List.map_filter (\<lambda>item. value_text (Some item)) items
              | _ \<Rightarrow> [])\<rparr>))"

definition parse_sample_strategy :: "dsl_value option \<Rightarrow> sample_strategy option" where
  "parse_sample_strategy val =
     (case val of
        Some (VIdent name) \<Rightarrow> if name = ''full'' then Some Full else None
      | Some (VCall name args) \<Rightarrow>
          (if name = ''scenes'' \<or> name = ''uniform'' then
             (case get_u32 (find_setting args ''count'') of
                None \<Rightarrow> None
              | Some count \<Rightarrow>
                  (case value_text (find_setting args ''duration'') of
                     None \<Rightarrow> None
                   | Some duration \<Rightarrow>
                       Some (if name = ''scenes'' then Scenes count duration
                             else Uniform count duration)))
           else None)
      | _ \<Rightarrow> None)"

definition parse_transcode_fallback :: "dsl_value option \<Rightarrow> transcode_fallback option" where
  "parse_transcode_fallback val =
     (case val of
        Some (VObject items) \<Rightarrow>
          (case get_u32 (find_setting items ''crf'') of
             None \<Rightarrow> None
           | Some crf \<Rightarrow>
               (case value_name (find_setting items ''preset'') of
                  None \<Rightarrow> None
                | Some preset \<Rightarrow> Some (TranscodeFallback_new crf preset)))
      | _ \<Rightarrow> None)"

definition vmaf_override :: "(string, u32) hashmap \<Rightarrow> string \<times> dsl_value \<Rightarrow> (string, u32) hashmap" where
  "vmaf_override overrides kv =
     (case strip_prefix ''target_vmaf_when '' (fst kv) of
        None \<Rightarrow> overrides
      | Some path \<Rightarrow>
          (case strip_prefix ''content.'' path of
             None \<Rightarrow> overrides
           | Some content_type \<Rightarrow>
               (case snd kv of
                  VNumber n _ \<Rightarrow>
                    (case safe_u32 n of
                       None \<Rightarrow> overrides
                     | Some target \<Rightarrow> hm_insert content_type target overrides)
                | _ \<Rightarrow> overrides)))"

definition parse_vmaf_overrides :: "dsl_settings \<Rightarrow> (string, u32) hashmap option" where
  "parse_vmaf_overrides settings =
     (let overrides = foldl vmaf_override [] settings in
      if overrides = [] then None else Some overrides)"

definition normalize_from_preset :: "string \<Rightarrow> loudness_normalization option" where
  "normalize_from_preset name = map_option LoudnessPreset_defaults (LoudnessPreset_parse name)"

definition value_to_normalize :: "dsl_value \<Rightarrow> loudness_normalization option" where
  "value_to_normalize v =
     (case v of
        VIdent name \<Rightarrow> normalize_from_preset name
      | VString name \<Rightarrow> normalize_from_preset name
      | _ \<Rightarrow> None)"

definition compile_transcode ::
  "string \<Rightarrow> string \<Rightarrow> dsl_settings \<Rightarrow> dsl_failure + compiled_operation" where
  "compile_transcode target codec settings =
     (let canonical = canonical_codec codec;
          get = find_setting settings;
          get_str = (\<lambda>key. value_name (get key));
          preserve =
            (case get ''preserve'' of
               Some (VList items) \<Rightarrow> List.map_filter (\<lambda>item. value_text (Some item)) items
             | _ \<Rightarrow> []);
          compiled_settings =
            (CompiledTranscodeSettings_new preserve (get_u32 (get ''crf'')) (get_str ''preset'')
               (value_text (get ''bitrate'')) (value_channels (get ''channels'')))
            \<lparr>cts_target_vmaf := get_u32 (get ''target_vmaf''),
             cts_max_bitrate := value_text (get ''max_bitrate''),
             cts_min_bitrate := value_text (get ''min_bitrate''),
             cts_sample_strategy := parse_sample_strategy (get ''sample_strategy''),
             cts_fallback := parse_transcode_fallback (get ''fallback''),
             cts_vmaf_overrides := parse_vmaf_overrides settings,
             cts_hw := get_str ''hw'',
             cts_hw_fallback := value_bool (get ''hw_fallback''),
             cts_max_resolution := value_text (get ''max_resolution''),
             cts_scale_algorithm := get_str ''scale_algorithm'',
             cts_hdr_mode := get_str ''hdr_mode'',
             cts_preserve_hdr := value_bool (get ''preserve_hdr''),
             cts_tonemap := get_str ''tonemap'',
             cts_hdr_color_metadata := get_str ''hdr_color_metadata'',
             cts_dolby_vision := get_str ''dolby_vision'',
             cts_tune := get_str ''tune'',
             cts_crop := compile_crop_settings settings,
             cts_loudness :=
               opt_or (Option.bind (get ''normalize'') value_to_normalize)
                 (Option.bind (get_str ''normalize'') normalize_from_preset)\<rparr>
      in res_map (\<lambda>t. OpTranscode t canonical compiled_settings) (parse_track_target target))"

fun apply_normalize_settings ::
  "dsl_settings \<Rightarrow> loudness_normalization \<Rightarrow> loudness_normalization" where
  "apply_normalize_settings [] loudness = loudness"
| "apply_normalize_settings ((key, val) # rest) loudness =
     apply_normalize_settings rest
       (case val of
          VNumber n _ \<Rightarrow>
            (if key = ''target_lufs'' then loudness\<lparr>ln_target_lufs := n\<rparr>
             else if key = ''true_peak_db'' then loudness\<lparr>ln_true_peak_db := n\<rparr>
             else if key = ''lra_max'' then loudness\<lparr>ln_lra_max := Some n\<rparr>
             else if key = ''tolerance_lufs'' then loudness\<lparr>ln_tolerance_lufs := n\<rparr>
             else loudness)
        | _ \<Rightarrow> loudness)"

definition compile_normalize :: "normalize_setting \<Rightarrow> dsl_failure + loudness_normalization" where
  "compile_normalize setting =
     (case LoudnessPreset_parse (ns_preset setting) of
        None \<Rightarrow> fail_compile (''unknown loudness preset '' @ squoted (ns_preset setting))
      | Some preset \<Rightarrow>
          Inr (apply_normalize_settings (ns_settings setting) (LoudnessPreset_defaults preset)))"

text \<open>The local variables of \<open>compile_synthesize\<close> are the fields of the result.\<close>

definition compile_synth_setting ::
  "dsl_env \<Rightarrow> compiled_synthesize \<Rightarrow> synth_setting \<Rightarrow> dsl_failure + compiled_synthesize" where
  "compile_synth_setting E synth setting =
     (case setting of
        SSCodec c \<Rightarrow> Inr (synth\<lparr>csy_codec := Some (canonical_codec c)\<rparr>)
      | SSChannels v \<Rightarrow> Inr (synth\<lparr>csy_channels := value_channels (Some v)\<rparr>)
      | SSSource f \<Rightarrow> res_map (\<lambda>cf. synth\<lparr>csy_source := Some cf\<rparr>) (compile_filter E f)
      | SSBitrate b \<Rightarrow> Inr (synth\<lparr>csy_bitrate := Some b\<rparr>)
      | SSSkipIfExists f \<Rightarrow>
          res_map (\<lambda>cf. synth\<lparr>csy_skip_if_exists := Some cf\<rparr>) (compile_filter E f)
      | SSCreateIf c \<Rightarrow> res_map (\<lambda>cc. synth\<lparr>csy_create_if := Some cc\<rparr>) (compile_condition E c)
      | SSTitle t \<Rightarrow> Inr (synth\<lparr>csy_title := Some t\<rparr>)
      | SSLanguage l \<Rightarrow>
          Inr (synth\<lparr>csy_language := Some (if l = ''inherit'' then Inherit else Fixed l)\<rparr>)
      | SSPosition v \<Rightarrow>
          Inr (synth\<lparr>csy_position :=
            Some (case v of
                    VNumber n _ \<Rightarrow>
                      PosIndex (case safe_u32 n of None \<Rightarrow> 0 | Some i \<Rightarrow> i)
                  | VIdent s \<Rightarrow> PosNamed s
                  | _ \<Rightarrow> PosNamed (debug_value E v))\<rparr>)
      | SSNormalize s \<Rightarrow> res_map (\<lambda>l. synth\<lparr>csy_loudness := Some l\<rparr>) (compile_normalize s))"

fun compile_synth_settings ::
  "dsl_env \<Rightarrow> synth_setting list \<Rightarrow> compiled_synthesize \<Rightarrow> dsl_failure + compiled_synthesize" where
  "compile_synth_settings E [] synth = Inr synth"
| "compile_synth_settings E (s # ss) synth =
     res_bind (compile_synth_setting E synth s) (compile_synth_settings E ss)"

definition compile_synthesize ::
  "dsl_env \<Rightarrow> string \<Rightarrow> synth_setting list \<Rightarrow> dsl_failure + compiled_synthesize" where
  "compile_synthesize E name settings =
     compile_synth_settings E settings (CompiledSynthesize_new name)"

section \<open>Operations\<close>

definition parse_default_strategy :: "string \<Rightarrow> default_strategy option" where
  "parse_default_strategy val =
     (if val = ''first_per_language'' then Some FirstPerLanguage
      else if val = ''none'' then Some NoDefaults
      else if val = ''first'' then Some First
      else if val = ''all'' then Some AllDefaults
      else None)"

definition compile_default :: "string \<times> string \<Rightarrow> dsl_failure + compiled_default" where
  "compile_default kv =
     res_map
       (\<lambda>t. \<lparr>cdf_target = t,
             cdf_strategy =
               (case parse_default_strategy (snd kv) of None \<Rightarrow> NoDefaults | Some s \<Rightarrow> s)\<rparr>)
       (parse_track_target (fst kv))"

definition bool_setting :: "dsl_settings \<Rightarrow> string \<Rightarrow> bool" where
  "bool_setting settings key =
     (case value_bool (find_setting settings key) of None \<Rightarrow> False | Some b \<Rightarrow> b)"

definition compile_rule :: "dsl_env \<Rightarrow> rule_node \<Rightarrow> dsl_failure + compiled_rule" where
  "compile_rule E r =
     res_map (\<lambda>c. \<lparr>cru_name = rn_name r, cru_conditional = c\<rparr>) (compile_conditional E (rn_when r))"

definition compile_operation ::
  "dsl_env \<Rightarrow> operation_node \<Rightarrow> dsl_failure + compiled_operation" where
  "compile_operation E op =
     (case op of
        NContainer name \<Rightarrow>
          (let c = Container_from_extension name in
           if c = Other then
             fail_compile (''unknown container '' @ squoted name @ ''; expected one of: ''
                           @ str_join '', '' known_extensions)
           else Inr (OpSetContainer c))
      | NKeep target flt loudness \<Rightarrow>
          res_bind (compile_target_filter E target flt Pair)
            (\<lambda>(t, f). case loudness of
                Some setting \<Rightarrow> res_map (OpNormalizeAudio t f) (compile_normalize setting)
              | None \<Rightarrow> Inr (OpKeep t f))
      | NRemove target flt \<Rightarrow> compile_target_filter E target flt OpRemove
      | NOrder items \<Rightarrow> Inr (OpReorderTracks items)
      | NDefaults items \<Rightarrow> res_map OpSetDefaults (map_result compile_default items)
      | NActions target settings \<Rightarrow>
          res_map
            (\<lambda>t. OpClearActions t
               \<lparr>cas_clear_all_default = bool_setting settings ''clear_all_default'',
                cas_clear_all_forced = bool_setting settings ''clear_all_forced'',
                cas_clear_all_titles = bool_setting settings ''clear_all_titles''\<rparr>)
            (parse_track_target target)
      | NTranscode target codec settings \<Rightarrow> compile_transcode target codec settings
      | NSynthesize name settings \<Rightarrow> res_map OpSynthesize (compile_synthesize E name settings)
      | NClearTags \<Rightarrow> Inr OpClearTags
      | NSetTag tag v \<Rightarrow> Inr (OpSetTag tag (compile_value_or_field v))
      | NDeleteTag tag \<Rightarrow> Inr (OpDeleteTag tag)
      | NWhen w \<Rightarrow> res_map OpConditional (compile_conditional E w)
      | NRules mode rules \<Rightarrow>
          res_bind (map_result (compile_rule E) rules)
            (\<lambda>compiled_rules.
               if mode = ''first'' then Inr (OpRules RulesFirst compiled_rules)
               else if mode = ''all'' then Inr (OpRules RulesAll compiled_rules)
               else Inl (DslPanic ''validator rejects unknown rules modes''))
      | NVerify mode \<Rightarrow>
          Inr (OpVerify
            (case mode of VMQuick \<Rightarrow> Quick | VMThorough \<Rightarrow> Thorough | VMHash \<Rightarrow> HashMode)))"

section \<open>Phases and policies\<close>

definition compile_error_strategy :: "error_strategy_node \<Rightarrow> error_strategy" where
  "compile_error_strategy s =
     (case s of ESContinue \<Rightarrow> Continue | ESSkip \<Rightarrow> Skip | ESAbort \<Rightarrow> Abort
      | ESQuarantine \<Rightarrow> QuarantineFile)"

definition compile_run_if_trigger :: "run_if_trigger_node \<Rightarrow> run_if_trigger" where
  "compile_run_if_trigger t = (case t of RTModified \<Rightarrow> Modified | RTCompleted \<Rightarrow> CompletedTrigger)"

definition compile_phase_composition :: "phase_composition option \<Rightarrow> compiled_phase_composition" where
  "compile_phase_composition composition =
     (case composition of
        None \<Rightarrow> \<lparr>cpc_kind = KindLocal, cpc_source = None, cpc_added_operations = 0\<rparr>
      | Some PCLocal \<Rightarrow> \<lparr>cpc_kind = KindLocal, cpc_source = None, cpc_added_operations = 0\<rparr>
      | Some (PCInherited source) \<Rightarrow>
          \<lparr>cpc_kind = KindInherited, cpc_source = Some source, cpc_added_operations = 0\<rparr>
      | Some (PCExtended source added) \<Rightarrow>
          \<lparr>cpc_kind = KindExtended, cpc_source = Some source, cpc_added_operations = added\<rparr>
      | Some (PCOverridden source) \<Rightarrow>
          \<lparr>cpc_kind = KindOverridden, cpc_source = Some source, cpc_added_operations = 0\<rparr>)"

definition compile_on_error :: "error_strategy_node option \<Rightarrow> error_strategy" where
  "compile_on_error s = (case s of None \<Rightarrow> Abort | Some e \<Rightarrow> compile_error_strategy e)"

definition compile_phase ::
  "dsl_env \<Rightarrow> phase_composition option \<Rightarrow> phase_node \<Rightarrow> dsl_failure + compiled_phase" where
  "compile_phase E composition ph =
     (if ph_extend ph then
        fail_compile (''phase '' @ dquoted (ph_name ph)
                      @ '' uses extend but policy composition was not resolved'')
      else
        res_bind (opt_result (compile_condition E) (ph_skip_when ph)) (\<lambda>skip_when.
          res_map
            (\<lambda>operations.
               \<lparr>cp_name = ph_name ph,
                cp_depends_on = phase_dependencies ph,
                cp_skip_when = skip_when,
                cp_run_if =
                  map_option
                    (\<lambda>r. \<lparr>cri_phase = ri_phase r, cri_trigger = compile_run_if_trigger (ri_trigger r)\<rparr>)
                    (ph_run_if ph),
                cp_on_error = compile_on_error (ph_on_error ph),
                cp_composition = compile_phase_composition composition,
                cp_operations = operations\<rparr>)
            (map_result (\<lambda>spanned. compile_operation E (so_node spanned)) (ph_operations ph))))"

definition compile_metadata :: "metadata_node option \<Rightarrow> string list \<Rightarrow> compiled_metadata" where
  "compile_metadata metadata extends_chain =
     (case metadata of
        None \<Rightarrow>
          \<lparr>cm_version = None, cm_author = None, cm_description = None, cm_requires_voom = None,
           cm_requires_tools = [], cm_test_fixtures = [], cm_extends_chain = extends_chain\<rparr>
      | Some m \<Rightarrow>
          \<lparr>cm_version = mn_version m, cm_author = mn_author m,
           cm_description = mn_description m, cm_requires_voom = mn_requires_voom m,
           cm_requires_tools = (case mn_requires_tools m of None \<Rightarrow> [] | Some ts \<Rightarrow> ts),
           cm_test_fixtures = (case mn_test_fixtures m of None \<Rightarrow> [] | Some ts \<Rightarrow> ts),
           cm_extends_chain = extends_chain\<rparr>)"

definition compile_config :: "config_node option \<Rightarrow> compiled_config" where
  "compile_config config =
     (case config of
        Some c \<Rightarrow>
          \<lparr>ccf_audio_languages = cn_audio_languages c,
           ccf_subtitle_languages = cn_subtitle_languages c,
           ccf_on_error = compile_on_error (cn_on_error c),
           ccf_commentary_patterns = cn_commentary_patterns c,
           ccf_keep_backups = (case cn_keep_backups c of None \<Rightarrow> False | Some b \<Rightarrow> b)\<rparr>
      | None \<Rightarrow>
          \<lparr>ccf_audio_languages = [], ccf_subtitle_languages = [], ccf_on_error = Abort,
           ccf_commentary_patterns = [], ccf_keep_backups = False\<rparr>)"

definition ast_graph :: "policy_ast \<Rightarrow> dep_graph" where
  "ast_graph ast = map (\<lambda>ph. (ph_name ph, phase_dependencies ph)) (ast_phases ast)"

definition compile_ast_with_composition ::
  "dsl_env \<Rightarrow> policy_ast \<Rightarrow> string list \<Rightarrow> (string, phase_composition) hashmap \<Rightarrow>
   dsl_failure + compiled_policy" where
  "compile_ast_with_composition E ast extends_chain phase_sources =
     res_bind
       (map_result (\<lambda>ph. compile_phase E (hm_get phase_sources (ph_name ph)) ph) (ast_phases ast))
       (\<lambda>phases.
          case topological_sort (partition_point_of E) (ast_graph ast) of
            Inl TopoPanic \<Rightarrow> Inl (DslPanic ''topological_sort'')
          | Inl (TopoError e) \<Rightarrow> Inl (DslFail e)
          | Inr phase_order \<Rightarrow>
              Inr \<lparr>pol_name = ast_name ast,
                   pol_metadata = compile_metadata (ast_metadata ast) extends_chain,
                   pol_config = compile_config (ast_config ast),
                   pol_phases = phases, pol_phase_order = phase_order, pol_source_hash = []\<rparr>)"

definition compile_ast :: "dsl_env \<Rightarrow> policy_ast \<Rightarrow> dsl_failure + compiled_policy" where
  "compile_ast E ast = compile_ast_with_composition E ast [] []"

definition compile_resolved_ast ::
  "dsl_env \<Rightarrow> resolved_policy_ast \<Rightarrow> dsl_failure + compiled_policy" where
  "compile_resolved_ast E resolved =
     compile_ast_with_composition E (ra_ast resolved) (ra_extends_chain resolved)
       (ra_phase_sources resolved)"

end
