(* ===== verification/Validator.thy ===== *)
theory Validator
  imports Compiler
begin

text \<open>
  The semantic checks on a parsed policy, \<open>crates/voom-dsl/src/validator.rs\<close>. The code pushes
  errors and warnings onto two vectors; here every check returns what it pushes, in order. The cycle
  detection is a depth-first search over shared sets; its recursion is bounded by fuel, and running
  out of it, like an \<open>unwrap\<close> of nothing, is the value \<open>None\<close>.
\<close>

type_synonym report = "dsl_error list \<times> dsl_warning list"

definition rep_errors :: "dsl_error list \<Rightarrow> report" where
  "rep_errors es = (es, [])"

definition rep_concat :: "report list \<Rightarrow> report" where
  "rep_concat rs = (concat (map fst rs), concat (map snd rs))"

definition opt_report :: "('a \<Rightarrow> report) \<Rightarrow> 'a option \<Rightarrow> report" where
  "opt_report f x = (case x of None \<Rightarrow> ([], []) | Some y \<Rightarrow> f y)"

definition check_that :: "bool \<Rightarrow> dsl_error \<Rightarrow> dsl_error list" where
  "check_that ok e = (if ok then [] else [e])"

section \<open>Suggestions\<close>

text \<open>\<open>suggest_from\<close>, over the distance of the validator.\<close>

definition suggest_from :: "string \<Rightarrow> string list \<Rightarrow> string option" where
  "suggest_from input known =
     map_option fst
       (foldl (\<lambda>best candidate. better best candidate (edit_distance_chars input candidate))
          None known)"

definition did_you_mean :: "string \<Rightarrow> string" where
  "did_you_mean suggestion = ''did you mean '' @ dquoted suggestion @ ''?''"

definition validate_ident_against ::
  "string \<Rightarrow> string \<Rightarrow> string list \<Rightarrow> usize \<Rightarrow> usize \<Rightarrow> dsl_error list" where
  "validate_ident_against input kind known line col =
     (if input \<in> set known then []
      else
        (let msg = ''unknown '' @ kind @ '' '' @ dquoted input @ '', expected one of: ''
                   @ str_join '', '' known
         in case suggest_from input known of
              Some suggestion \<Rightarrow>
                [DslError_validation_with_suggestion line col msg (did_you_mean suggestion)]
            | None \<Rightarrow> [DslError_validation line col msg]))"

section \<open>Names\<close>

definition validate_track_target :: "string \<Rightarrow> usize \<Rightarrow> usize \<Rightarrow> dsl_error list" where
  "validate_track_target target line col =
     check_that
       (target \<in> set [''video'', ''audio'', ''subtitle'', ''subtitles'', ''attachment'',
                       ''attachments'', ''track''])
       (DslError_validation line col (''unknown track target '' @ dquoted target))"

definition validate_codec :: "dsl_env \<Rightarrow> string \<Rightarrow> usize \<Rightarrow> usize \<Rightarrow> dsl_error list" where
  "validate_codec E codec line col =
     (case normalize_codec codec of
        Some _ \<Rightarrow> []
      | None \<Rightarrow>
          (case suggest_codec (hash_order_of E) codec of
             Some suggestion \<Rightarrow>
               [DslError_validation_with_suggestion line col (''unknown codec '' @ dquoted codec)
                  (did_you_mean suggestion)]
           | None \<Rightarrow> [DslError_validation line col (''unknown codec '' @ dquoted codec)]))"

definition KNOWN_PLUGIN_NAMES :: "string list" where
  "KNOWN_PLUGIN_NAMES = [''radarr'', ''sonarr'', ''plex'']"

definition KNOWN_FIELD_ROOTS :: "string list" where
  "KNOWN_FIELD_ROOTS = [''plugin'', ''file'', ''video'', ''audio'', ''system'']"

definition validate_phase_output_path :: "string list \<Rightarrow> usize \<Rightarrow> usize \<Rightarrow> dsl_error list" where
  "validate_phase_output_path path line col =
     (if length path < 2 then
        [DslError_validation line col
           (''phase reference '' @ dquoted (path ! 0) @ '' requires a field; expected one of: ''
            @ str_join '', '' PHASE_OUTPUT_FIELDS)]
      else if length path > 2 then
        [DslError_validation line col
           (''phase output '' @ dquoted (path ! 0 @ ''.'' @ path ! 1)
            @ '' does not support nested fields'')]
      else
        check_that (path ! 1 \<in> set PHASE_OUTPUT_FIELDS)
          (DslError_validation line col
             (''unknown phase output field '' @ dquoted (path ! 0 @ ''.'' @ path ! 1)
              @ ''; expected one of: '' @ str_join '', '' PHASE_OUTPUT_FIELDS)))"

definition validate_field_path ::
  "string list \<Rightarrow> usize \<Rightarrow> usize \<Rightarrow> string set \<Rightarrow> report" where
  "validate_field_path path line col phase_names =
     (case path of
        [] \<Rightarrow> rep_errors [DslError_validation line col ''empty field path in filter'']
      | head # rest \<Rightarrow>
          (let is_known_root = (head \<in> set KNOWN_FIELD_ROOTS);
               is_phase_ref = (head \<in> phase_names)
           in if \<not> is_known_root \<and> \<not> is_phase_ref then
                rep_errors [DslError_validation line col
                  (''unknown field root '' @ dquoted head @ '' in filter; expected one of: ''
                   @ str_join '', '' KNOWN_FIELD_ROOTS @ '' or a declared phase name'')]
              else if is_phase_ref \<and> \<not> is_known_root then
                rep_errors (validate_phase_output_path path line col)
              else if head = ''plugin'' \<and> rest \<noteq> [] then
                (let plugin_name = rest ! 0 in
                 if plugin_name \<in> set KNOWN_PLUGIN_NAMES then ([], [])
                 else
                   (case suggest_from plugin_name KNOWN_PLUGIN_NAMES of
                      Some suggestion \<Rightarrow>
                        ([], [DslWarning_new line col
                           (''unknown plugin name '' @ dquoted plugin_name
                            @ '' in field path; known plugins: ''
                            @ str_join '', '' KNOWN_PLUGIN_NAMES)
                           (Some (did_you_mean suggestion))])
                    | None \<Rightarrow> ([], [])))
              else ([], [])))"

section \<open>Values\<close>

definition has_number_suffix :: "string \<Rightarrow> bool" where
  "has_number_suffix raw =
     (raw \<noteq> [] \<and> \<not> is_ascii_digit (last raw) \<and> last raw \<noteq> CHR ''.'')"

definition validate_number_suffix :: "string \<Rightarrow> usize \<Rightarrow> usize \<Rightarrow> dsl_error list" where
  "validate_number_suffix raw line col =
     (let suffix =
            dropWhile (\<lambda>c. is_ascii_digit c \<or> c = CHR ''.'' \<or> c = CHR ''-'') raw;
          valid_suffixes = [''k'', ''K'', ''p'', ''m'', ''M'', ''g'', ''G'']
      in check_that (suffix = [] \<or> suffix \<in> set valid_suffixes)
           (DslError_validation line col
              (''unknown number suffix '' @ dquoted suffix @ '' in '' @ dquoted raw
               @ '', expected one of: '' @ str_join '', '' valid_suffixes)))"

definition validate_value :: "dsl_value \<Rightarrow> usize \<Rightarrow> usize \<Rightarrow> dsl_error list" where
  "validate_value v line col =
     (case v of VNumber _ raw \<Rightarrow> validate_number_suffix raw line col | _ \<Rightarrow> [])"

definition numeric_u32 :: "dsl_value \<Rightarrow> u32 option" where
  "numeric_u32 v =
     (case v of
        VNumber n _ \<Rightarrow>
          (if n \<ge> 0 \<and> n \<le> of_nat U32_MAX \<and> n = of_int \<lfloor>n\<rfloor> then Some (nat \<lfloor>n\<rfloor>) else None)
      | _ \<Rightarrow> None)"

definition numeric_arg :: "dsl_settings \<Rightarrow> string \<Rightarrow> u32 option" where
  "numeric_arg items key = Option.bind (find_setting items key) numeric_u32"

definition string_arg :: "dsl_settings \<Rightarrow> string \<Rightarrow> string option" where
  "string_arg items key = value_text (find_setting items key)"

definition value_string :: "dsl_value \<Rightarrow> string option" where
  "value_string v =
     (case v of VString s \<Rightarrow> Some s | VIdent s \<Rightarrow> Some s | VNumber _ s \<Rightarrow> Some s | _ \<Rightarrow> None)"

definition parse_bitrate :: "string \<Rightarrow> u64 option" where
  "parse_bitrate raw =
     (let digits = takeWhile is_ascii_digit raw;
          suffix = dropWhile is_ascii_digit raw
      in case parse_unsigned U64_MAX digits of
           None \<Rightarrow> None
         | Some v \<Rightarrow>
             (let multiplier =
                    (if suffix = ''k'' \<or> suffix = ''K'' then Some 1000
                     else if suffix = ''m'' \<or> suffix = ''M'' then Some 1000000
                     else if suffix = ''g'' \<or> suffix = ''G'' then Some 1000000000
                     else if suffix = [] then Some 1
                     else None)
              in case multiplier of
                   None \<Rightarrow> None
                 | Some m \<Rightarrow> if v * m \<le> U64_MAX then Some (v * m) else None))"

definition split_once :: "char \<Rightarrow> string \<Rightarrow> (string \<times> string) option" where
  "split_once c s =
     (case dropWhile (\<lambda>x. x \<noteq> c) s of [] \<Rightarrow> None | _ # rest \<Rightarrow> Some (takeWhile (\<lambda>x. x \<noteq> c) s, rest))"

definition is_crop_ratio :: "string \<Rightarrow> bool" where
  "is_crop_ratio v =
     (case split_once (CHR ''/'') v of
        None \<Rightarrow> False
      | Some (width, height) \<Rightarrow>
          (case (parse_unsigned U32_MAX width, parse_unsigned U32_MAX height) of
             (Some w, Some h) \<Rightarrow> w > 0 \<and> h > 0
           | _ \<Rightarrow> False))"

definition validate_ident_setting ::
  "dsl_value \<Rightarrow> string \<Rightarrow> string list \<Rightarrow> usize \<Rightarrow> usize \<Rightarrow> dsl_error list" where
  "validate_ident_setting val key valid line col =
     (case value_name (Some val) of
        Some name \<Rightarrow> validate_ident_against name (key @ '' value'') valid line col
      | None \<Rightarrow>
          [DslError_validation line col
             (key @ '' must be a string or identifier, got ''
              @ (case val of VNumber _ _ \<Rightarrow> ''number'' | VBool _ \<Rightarrow> ''boolean'' | VList _ \<Rightarrow> ''list''
                 | VObject _ \<Rightarrow> ''object'' | VCall _ _ \<Rightarrow> ''call'' | _ \<Rightarrow> ''unknown''))])"

definition validate_bool_setting ::
  "dsl_value \<Rightarrow> string \<Rightarrow> usize \<Rightarrow> usize \<Rightarrow> dsl_error list" where
  "validate_bool_setting val key line col =
     check_that (case val of VBool _ \<Rightarrow> True | _ \<Rightarrow> False)
       (DslError_validation line col (key @ '' requires a boolean value''))"

definition validate_named_or_numeric ::
  "dsl_value \<Rightarrow> string \<Rightarrow> string list \<Rightarrow> (f64 \<Rightarrow> string \<Rightarrow> string option) \<Rightarrow> usize \<Rightarrow> usize \<Rightarrow>
   dsl_error list" where
  "validate_named_or_numeric val kind known_names number_check_fn line col =
     (case val of
        VNumber n raw \<Rightarrow>
          (case number_check_fn n raw of
             Some msg \<Rightarrow> [DslError_validation line col msg]
           | None \<Rightarrow> [])
      | VIdent s \<Rightarrow> validate_ident_against s (kind @ '' value'') known_names line col
      | _ \<Rightarrow>
          [DslError_validation line col
             (''invalid '' @ kind @ '' value, expected a number or one of: ''
              @ str_join '', '' known_names)])"

section \<open>Transcode settings\<close>

definition KNOWN_TRANSCODE_KEYS :: "string list" where
  "KNOWN_TRANSCODE_KEYS =
     [''preserve'', ''crf'', ''preset'', ''bitrate'', ''target_vmaf'', ''max_bitrate'',
      ''min_bitrate'', ''sample_strategy'', ''fallback'', ''channels'', ''hw'', ''hw_fallback'',
      ''max_resolution'', ''scale_algorithm'', ''hdr_mode'', ''preserve_hdr'', ''tonemap'',
      ''hdr_color_metadata'', ''dolby_vision'', ''tune'', ''crop'', ''crop_sample_duration'',
      ''crop_sample_count'', ''crop_threshold'', ''crop_minimum'', ''crop_preserve_bottom_pixels'',
      ''crop_aspect_lock'', ''normalize'']"

definition validate_transcode_keys :: "dsl_settings \<Rightarrow> usize \<Rightarrow> usize \<Rightarrow> dsl_error list" where
  "validate_transcode_keys settings line col =
     concat (map
       (\<lambda>(key, _).
          if length key > 64 then
            [DslError_validation line col (''transcode setting key too long: '' @ dquoted key)]
          else if prefix ''target_vmaf_when '' key then []
          else validate_ident_against key ''transcode setting'' KNOWN_TRANSCODE_KEYS line col)
       settings)"

definition codec_type_name :: "codec_type \<Rightarrow> string" where
  "codec_type_name t =
     (case t of CodecVideo \<Rightarrow> ''video'' | CodecAudio \<Rightarrow> ''audio'' | CodecSubtitle \<Rightarrow> ''subtitle'')"

definition starts_with_vowel :: "string \<Rightarrow> bool" where
  "starts_with_vowel s = (s \<noteq> [] \<and> hd s \<in> set ''aeiou'')"

definition validate_codec_track_type :: "string \<Rightarrow> string \<Rightarrow> usize \<Rightarrow> usize \<Rightarrow> dsl_error list" where
  "validate_codec_track_type target codec line col =
     (let expected_type =
            (if target = ''video'' then Some CodecVideo
             else if target = ''audio'' then Some CodecAudio else None)
      in case (expected_type, codec_type_of codec) of
           (Some expected, Some actual) \<Rightarrow>
             (if actual = expected then []
              else
                [DslError_validation line col
                   (''codec '' @ dquoted codec @ '' is ''
                    @ (if starts_with_vowel (codec_type_name actual) then ''an'' else ''a'') @ '' ''
                    @ codec_type_name actual @ '' codec but target is '' @ target)])
         | _ \<Rightarrow> [])"

definition VALID_HW_VALUES :: "string list" where
  "VALID_HW_VALUES = [''auto'', ''nvenc'', ''qsv'', ''vaapi'', ''videotoolbox'', ''none'']"

definition validate_hw_settings :: "dsl_settings \<Rightarrow> usize \<Rightarrow> usize \<Rightarrow> dsl_error list" where
  "validate_hw_settings settings line col =
     (let has_hw = list_ex (\<lambda>(key, _). key = ''hw'') settings;
          has_hw_fallback = list_ex (\<lambda>(key, _). key = ''hw_fallback'') settings
      in concat (map
           (\<lambda>(key, val).
              if key = ''hw'' then validate_ident_setting val ''hw'' VALID_HW_VALUES line col else [])
           settings)
         @ check_that (\<not> (has_hw_fallback \<and> \<not> has_hw))
             (DslError_validation line col ''hw_fallback has no effect without hw''))"

definition VALID_HDR_MODES :: "string list" where
  "VALID_HDR_MODES = [''preserve'', ''tonemap'']"

definition VALID_TONEMAP_ALGORITHMS :: "string list" where
  "VALID_TONEMAP_ALGORITHMS = [''bt2390'', ''hable'', ''mobius'', ''reinhard'', ''clip'']"

definition VALID_HDR_COLOR_METADATA :: "string list" where
  "VALID_HDR_COLOR_METADATA = [''copy'']"

definition VALID_DOLBY_VISION_MODES :: "string list" where
  "VALID_DOLBY_VISION_MODES = [''copy_rpu'']"

definition VALID_TUNE_VALUES :: "string list" where
  "VALID_TUNE_VALUES =
     [''film'', ''animation'', ''grain'', ''stillimage'', ''fastdecode'', ''zerolatency'', ''psnr'',
      ''ssim'']"

definition VALID_SCALE_ALGORITHMS :: "string list" where
  "VALID_SCALE_ALGORITHMS =
     [''lanczos'', ''bicubic'', ''bilinear'', ''neighbor'', ''area'', ''spline'', ''sinc'']"

definition VIDEO_ONLY_KEYS :: "string list" where
  "VIDEO_ONLY_KEYS =
     [''hdr_mode'', ''preserve_hdr'', ''tonemap'', ''hdr_color_metadata'', ''dolby_vision'',
      ''tune'', ''scale_algorithm'', ''max_resolution'', ''target_vmaf'', ''max_bitrate'',
      ''min_bitrate'', ''sample_strategy'', ''fallback'', ''crop'', ''crop_sample_duration'',
      ''crop_sample_count'', ''crop_threshold'', ''crop_minimum'', ''crop_preserve_bottom_pixels'',
      ''crop_aspect_lock'']"

definition reject_video_only_keys ::
  "dsl_settings \<Rightarrow> string \<Rightarrow> usize \<Rightarrow> usize \<Rightarrow> dsl_error list" where
  "reject_video_only_keys settings target line col =
     concat (map
       (\<lambda>(key, _).
          check_that (\<not> (key \<in> set VIDEO_ONLY_KEYS \<or> prefix ''target_vmaf_when '' key))
            (DslError_validation line col
               (key @ '' is only valid for video transcodes, not '' @ target)))
       settings)"

definition validate_crop_enabled :: "bool \<Rightarrow> string \<Rightarrow> usize \<Rightarrow> usize \<Rightarrow> dsl_error list" where
  "validate_crop_enabled crop_enabled key line col =
     check_that crop_enabled
       (DslError_validation line col (key @ '' has no effect without crop: auto''))"

definition validate_crop_mode :: "dsl_value \<Rightarrow> usize \<Rightarrow> usize \<Rightarrow> dsl_error list" where
  "validate_crop_mode val line col =
     check_that (value_name (Some val) = Some ''auto'')
       (DslError_validation line col ''crop must be auto'')"

definition validate_crop_positive_integer ::
  "dsl_value \<Rightarrow> string \<Rightarrow> usize \<Rightarrow> usize \<Rightarrow> dsl_error list" where
  "validate_crop_positive_integer val key line col =
     (case numeric_u32 val of
        None \<Rightarrow> [DslError_validation line col (key @ '' must be a positive integer'')]
      | Some v \<Rightarrow>
          check_that (v \<noteq> 0) (DslError_validation line col (key @ '' must be greater than 0'')))"

definition validate_crop_integer_bounds ::
  "dsl_value \<Rightarrow> string \<Rightarrow> u32 \<Rightarrow> u32 \<Rightarrow> usize \<Rightarrow> usize \<Rightarrow> dsl_error list" where
  "validate_crop_integer_bounds val key lo hi line col =
     (case numeric_u32 val of
        None \<Rightarrow> [DslError_validation line col (key @ '' must be an integer'')]
      | Some v \<Rightarrow>
          check_that (\<not> (v < lo \<or> v > hi))
            (DslError_validation line col
               (key @ '' must be from '' @ nat_str lo @ '' to '' @ nat_str hi)))"

definition validate_crop_aspect_lock :: "dsl_value \<Rightarrow> usize \<Rightarrow> usize \<Rightarrow> dsl_error list" where
  "validate_crop_aspect_lock val line col =
     (case val of
        VList items \<Rightarrow>
          concat (map
            (\<lambda>item.
               case value_string item of
                 None \<Rightarrow>
                   [DslError_validation line col
                      ''crop_aspect_lock entries must be ratios like 16/9'']
               | Some ratio \<Rightarrow>
                   check_that (is_crop_ratio ratio)
                     (DslError_validation line col
                        (''invalid crop_aspect_lock ratio '' @ dquoted ratio
                         @ '', expected WIDTH/HEIGHT'')))
            items)
      | _ \<Rightarrow>
          [DslError_validation line col
             ''crop_aspect_lock must be a list of ratios like [16/9, 4/3]''])"

definition valid_resolutions :: "string list" where
  "valid_resolutions =
     [''480p'', ''720p'', ''1080p'', ''1440p'', ''2160p'', ''4k'', ''8k'']"

definition validate_max_resolution :: "dsl_value \<Rightarrow> usize \<Rightarrow> usize \<Rightarrow> dsl_error list" where
  "validate_max_resolution val line col =
     (case value_text (Some val) of
        Some s \<Rightarrow>
          check_that (s \<in> set valid_resolutions)
            (DslError_validation line col
               (''invalid max_resolution '' @ dquoted s @ '', expected one of: ''
                @ str_join '', '' valid_resolutions))
      | None \<Rightarrow>
          [DslError_validation line col
             ''max_resolution must be a resolution value (e.g. 1080p, 720p, 4k, 2160p)''])"

definition validate_video_setting ::
  "bool \<Rightarrow> string \<Rightarrow> dsl_value \<Rightarrow> usize \<Rightarrow> usize \<Rightarrow> dsl_error list" where
  "validate_video_setting crop_enabled key val line col =
     (if key = ''hdr_mode'' then
        validate_ident_setting val ''hdr_mode'' VALID_HDR_MODES line col
      else if key = ''preserve_hdr'' then validate_bool_setting val ''preserve_hdr'' line col
      else if key = ''tonemap'' then
        validate_ident_setting val ''tonemap'' VALID_TONEMAP_ALGORITHMS line col
      else if key = ''hdr_color_metadata'' then
        validate_ident_setting val ''hdr_color_metadata'' VALID_HDR_COLOR_METADATA line col
      else if key = ''dolby_vision'' then
        validate_ident_setting val ''dolby_vision'' VALID_DOLBY_VISION_MODES line col
      else if key = ''tune'' then validate_ident_setting val ''tune'' VALID_TUNE_VALUES line col
      else if key = ''scale_algorithm'' then
        validate_ident_setting val ''scale_algorithm'' VALID_SCALE_ALGORITHMS line col
      else if key = ''max_resolution'' then validate_max_resolution val line col
      else if key = ''crop'' then validate_crop_mode val line col
      else if key = ''crop_sample_duration'' \<or> key = ''crop_sample_count'' then
        validate_crop_enabled crop_enabled key line col
        @ validate_crop_positive_integer val key line col
      else if key = ''crop_threshold'' then
        validate_crop_enabled crop_enabled key line col
        @ validate_crop_integer_bounds val key 0 255 line col
      else if key = ''crop_minimum'' \<or> key = ''crop_preserve_bottom_pixels'' then
        validate_crop_enabled crop_enabled key line col
        @ validate_crop_integer_bounds val key 0 U32_MAX line col
      else if key = ''crop_aspect_lock'' then
        validate_crop_enabled crop_enabled key line col @ validate_crop_aspect_lock val line col
      else [])"

definition validate_video_transcode_settings ::
  "dsl_settings \<Rightarrow> usize \<Rightarrow> usize \<Rightarrow> dsl_error list" where
  "validate_video_transcode_settings settings line col =
     (let crop_enabled =
            list_ex (\<lambda>(key, val). key = ''crop'' \<and> value_name (Some val) = Some ''auto'') settings
      in concat (map (\<lambda>(key, val). validate_video_setting crop_enabled key val line col) settings))"

definition validate_vmaf_target :: "dsl_value \<Rightarrow> string \<Rightarrow> usize \<Rightarrow> usize \<Rightarrow> report" where
  "validate_vmaf_target val key line col =
     (case numeric_u32 val of
        None \<Rightarrow>
          rep_errors [DslError_validation line col (key @ '' must be an integer from 60 to 100'')]
      | Some target \<Rightarrow>
          (if \<not> (60 \<le> target \<and> target \<le> 100) then
             rep_errors [DslError_validation line col (key @ '' must be from 60 to 100'')]
           else if \<not> (80 \<le> target \<and> target \<le> 99) then
             ([], [DslWarning_new line col
                (key @ '' value '' @ nat_str target @ '' is outside the typical 80-99 range'') None])
           else ([], [])))"

definition validate_vmaf_override :: "string \<Rightarrow> dsl_value \<Rightarrow> usize \<Rightarrow> usize \<Rightarrow> report" where
  "validate_vmaf_override key val line col =
     (case strip_prefix ''target_vmaf_when '' key of
        None \<Rightarrow> ([], [])
      | Some path \<Rightarrow>
          rep_concat
            [rep_errors (check_that (prefix ''content.'' path)
               (DslError_validation line col ''target_vmaf_when requires a content.<type> path'')),
             validate_vmaf_target val ''target_vmaf_when'' line col])"

text \<open>The errors, and the value of a valid bitrate.\<close>

definition validate_bitrate_value ::
  "dsl_value \<Rightarrow> string \<Rightarrow> usize \<Rightarrow> usize \<Rightarrow> dsl_error list \<times> u64 option" where
  "validate_bitrate_value val key line col =
     (case value_string val of
        None \<Rightarrow>
          ([DslError_validation line col
              (key @ '' must be a bitrate string such as '' @ dquoted ''8M'' @ '' or ''
               @ dquoted ''500k'')], None)
      | Some raw \<Rightarrow>
          (case parse_bitrate raw of
             Some v \<Rightarrow> ([], Some v)
           | None \<Rightarrow>
               ([DslError_validation line col (key @ '' has invalid bitrate '' @ dquoted raw)], None)))"

definition validate_sample_strategy :: "dsl_value \<Rightarrow> usize \<Rightarrow> usize \<Rightarrow> dsl_error list" where
  "validate_sample_strategy val line col =
     (let bad =
            [DslError_validation line col
               ''sample_strategy must be full, scenes(count: N, duration: Ts), or uniform(count: N, duration: Ts)'']
      in case val of
           VIdent name \<Rightarrow> if name = ''full'' then [] else bad
         | VCall name args \<Rightarrow>
             (if name = ''scenes'' \<or> name = ''uniform'' then
                check_that (numeric_arg args ''count'' \<noteq> None)
                  (DslError_validation line col (name @ '' sample_strategy requires integer count''))
                @ check_that (string_arg args ''duration'' \<noteq> None)
                    (DslError_validation line col (name @ '' sample_strategy requires duration''))
              else bad)
         | _ \<Rightarrow> bad)"

definition validate_transcode_fallback :: "dsl_value \<Rightarrow> usize \<Rightarrow> usize \<Rightarrow> dsl_error list" where
  "validate_transcode_fallback val line col =
     (case val of
        VObject items \<Rightarrow>
          (case numeric_arg items ''crf'' of
             Some crf \<Rightarrow>
               check_that (crf \<le> 51)
                 (DslError_validation line col ''fallback.crf must be from 0 to 51'')
           | None \<Rightarrow> [DslError_validation line col ''fallback requires crf''])
          @ check_that (string_arg items ''preset'' \<noteq> None)
              (DslError_validation line col ''fallback requires preset'')
      | _ \<Rightarrow> [DslError_validation line col ''fallback must be a nested block''])"

text \<open>The loop over the settings keeps the last value of either bitrate.\<close>

definition validate_vmaf_setting ::
  "usize \<Rightarrow> usize \<Rightarrow> report \<times> u64 option \<times> u64 option \<Rightarrow> string \<times> dsl_value \<Rightarrow>
   report \<times> u64 option \<times> u64 option" where
  "validate_vmaf_setting line col st kv =
     (let (rep, min_bitrate, max_bitrate) = st; (key, val) = kv in
      if key = ''target_vmaf'' then
        (rep_concat [rep, validate_vmaf_target val ''target_vmaf'' line col], min_bitrate, max_bitrate)
      else if key = ''min_bitrate'' then
        (let (es, v) = validate_bitrate_value val key line col
         in (rep_concat [rep, rep_errors es], v, max_bitrate))
      else if key = ''max_bitrate'' then
        (let (es, v) = validate_bitrate_value val key line col
         in (rep_concat [rep, rep_errors es], min_bitrate, v))
      else if key = ''sample_strategy'' then
        (rep_concat [rep, rep_errors (validate_sample_strategy val line col)], min_bitrate, max_bitrate)
      else if key = ''fallback'' then
        (rep_concat [rep, rep_errors (validate_transcode_fallback val line col)], min_bitrate,
         max_bitrate)
      else if prefix ''target_vmaf_when '' key then
        (rep_concat [rep, validate_vmaf_override key val line col], min_bitrate, max_bitrate)
      else st)"

definition validate_vmaf_transcode_settings :: "dsl_settings \<Rightarrow> usize \<Rightarrow> usize \<Rightarrow> report" where
  "validate_vmaf_transcode_settings settings line col =
     (let (rep, min_bitrate, max_bitrate) =
            foldl (validate_vmaf_setting line col) (([], []), None, None) settings
      in case (min_bitrate, max_bitrate) of
           (Some lo, Some hi) \<Rightarrow>
             rep_concat [rep, rep_errors (check_that (\<not> lo > hi)
               (DslError_validation line col
                  ''min_bitrate must be less than or equal to max_bitrate''))]
         | _ \<Rightarrow> rep)"

definition validate_transcode_operation ::
  "dsl_env \<Rightarrow> string \<Rightarrow> string \<Rightarrow> dsl_settings \<Rightarrow> usize \<Rightarrow> usize \<Rightarrow> report" where
  "validate_transcode_operation E target codec settings line col =
     rep_concat
       ([rep_errors (validate_track_target target line col),
         rep_errors (validate_codec E codec line col),
         rep_errors (validate_codec_track_type target codec line col),
         rep_errors (concat (map (\<lambda>(_, val). validate_value val line col) settings)),
         rep_errors (validate_transcode_keys settings line col),
         rep_errors (validate_hw_settings settings line col)]
        @ (if target = ''video'' then
             [rep_errors (validate_video_transcode_settings settings line col),
              validate_vmaf_transcode_settings settings line col]
           else [rep_errors (reject_video_only_keys settings target line col)]))"

section \<open>Filters, conditions, actions\<close>

fun validate_filter ::
  "dsl_env \<Rightarrow> usize \<Rightarrow> usize \<Rightarrow> string set \<Rightarrow> filter_node \<Rightarrow> report" where
  "validate_filter E line col names (NLangIn langs) =
     rep_errors (concat (map
       (\<lambda>lang. check_that (is_valid_language lang)
          (DslError_validation line col (''unknown language code '' @ dquoted lang @ '' in filter'')))
       langs))"
| "validate_filter E line col names (NLangCompare _ lang) =
     rep_errors (check_that (is_valid_language lang)
       (DslError_validation line col (''unknown language code '' @ dquoted lang @ '' in filter'')))"
| "validate_filter E line col names (NLangField _ path) = validate_field_path path line col names"
| "validate_filter E line col names (NCodecField _ path) = validate_field_path path line col names"
| "validate_filter E line col names (NCodecIn codecs_list) =
     rep_errors (concat (map (\<lambda>codec. validate_codec E codec line col) codecs_list))"
| "validate_filter E line col names (NCodecCompare _ codec) =
     rep_errors (validate_codec E codec line col)"
| "validate_filter E line col names (NAnd items) =
     rep_concat (map (validate_filter E line col names) items)"
| "validate_filter E line col names (NOr items) =
     rep_concat (map (validate_filter E line col names) items)"
| "validate_filter E line col names (NTitleMatches pattern) =
     rep_errors (check_that (regex_error E pattern = None)
       (DslError_validation line col
          (''invalid regex pattern in title matches: '' @ dquoted pattern)))"
| "validate_filter E line col names (NNot inner) = validate_filter E line col names inner"
| "validate_filter E line col names _ = ([], [])"

definition validate_target_filter ::
  "dsl_env \<Rightarrow> usize \<Rightarrow> usize \<Rightarrow> string set \<Rightarrow> string \<Rightarrow> filter_node option \<Rightarrow> report" where
  "validate_target_filter E line col names target flt =
     rep_concat [rep_errors (validate_track_target target line col),
                 opt_report (validate_filter E line col names) flt]"

fun validate_condition ::
  "dsl_env \<Rightarrow> usize \<Rightarrow> usize \<Rightarrow> string set \<Rightarrow> condition_node \<Rightarrow> report" where
  "validate_condition E line col names (NExists query) =
     validate_target_filter E line col names (tq_target query) (tq_filter query)"
| "validate_condition E line col names (NCount query _ _) =
     validate_target_filter E line col names (tq_target query) (tq_filter query)"
| "validate_condition E line col names (NFieldCompare path _ val) =
     rep_concat [validate_field_path path line col names, rep_errors (validate_value val line col)]"
| "validate_condition E line col names (NFieldExists path) = validate_field_path path line col names"
| "validate_condition E line col names (NCondAnd items) =
     rep_concat (map (validate_condition E line col names) items)"
| "validate_condition E line col names (NCondOr items) =
     rep_concat (map (validate_condition E line col names) items)"
| "validate_condition E line col names (NCondNot inner) = validate_condition E line col names inner"
| "validate_condition E line col names _ = ([], [])"

definition validate_action ::
  "dsl_env \<Rightarrow> usize \<Rightarrow> usize \<Rightarrow> string set \<Rightarrow> action_node \<Rightarrow> report" where
  "validate_action E line col names action =
     (case action of
        NActKeep target flt \<Rightarrow> validate_target_filter E line col names target flt
      | NActRemove target flt \<Rightarrow> validate_target_filter E line col names target flt
      | NActSetDefault r \<Rightarrow> validate_target_filter E line col names (trf_target r) (trf_filter r)
      | NActSetForced r \<Rightarrow> validate_target_filter E line col names (trf_target r) (trf_filter r)
      | NActSetLanguage r val \<Rightarrow>
          rep_concat
            [validate_target_filter E line col names (trf_target r) (trf_filter r),
             (case val of
                VofnValue (VString s) \<Rightarrow>
                  rep_errors (check_that (is_valid_language s)
                    (DslError_validation line col
                       (''unknown language code '' @ dquoted s @ '' in set_language action'')))
              | VofnField path \<Rightarrow> validate_field_path path line col names
              | VofnValue _ \<Rightarrow> ([], []))]
      | NActSetTag _ val \<Rightarrow>
          (case val of
             VofnField path \<Rightarrow> validate_field_path path line col names
           | VofnValue _ \<Rightarrow> ([], []))
      | NActSkip _ \<Rightarrow> ([], [])
      | NActWarn _ \<Rightarrow> ([], [])
      | NActFail _ \<Rightarrow> ([], []))"

definition validate_when :: "dsl_env \<Rightarrow> string set \<Rightarrow> when_node \<Rightarrow> report" where
  "validate_when E names w =
     (let line = sp_line (wn_span w); col = sp_col (wn_span w) in
      rep_concat
        ([validate_condition E line col names (wn_condition w)]
         @ map (validate_action E line col names) (wn_then_actions w)
         @ map (validate_action E line col names) (wn_else_actions w)))"

section \<open>Operations\<close>

definition KNOWN_CHANNEL_NAMES :: "string list" where
  "KNOWN_CHANNEL_NAMES =
     [''mono'', ''stereo'', ''5.1'', ''surround'', ''7.1'', ''preserve'']"

definition KNOWN_POSITION_NAMES :: "string list" where
  "KNOWN_POSITION_NAMES = [''after_source'', ''last'', ''beginning'']"

definition validate_synth_channels :: "dsl_value \<Rightarrow> usize \<Rightarrow> usize \<Rightarrow> dsl_error list" where
  "validate_synth_channels val line col =
     validate_named_or_numeric val ''channels'' KNOWN_CHANNEL_NAMES
       (\<lambda>n raw.
          if raw = ''5.1'' \<or> raw = ''7.1'' then None
          else if has_number_suffix raw then
            Some (''invalid channels value '' @ dquoted raw
                  @ '', suffixed numbers are not valid here; expected a positive integer or one of: ''
                  @ str_join '', '' KNOWN_CHANNEL_NAMES)
          else if n \<noteq> of_int \<lfloor>n\<rfloor> \<or> n \<le> 0 \<or> n > of_nat U32_MAX then
            Some (''invalid channels value '' @ dquoted raw
                  @ '', expected a positive integer or one of: ''
                  @ str_join '', '' KNOWN_CHANNEL_NAMES)
          else None)
       line col"

definition validate_synth_position :: "dsl_value \<Rightarrow> usize \<Rightarrow> usize \<Rightarrow> dsl_error list" where
  "validate_synth_position val line col =
     validate_named_or_numeric val ''position'' KNOWN_POSITION_NAMES
       (\<lambda>n raw.
          if has_number_suffix raw then
            Some (''invalid position value '' @ dquoted raw
                  @ '', suffixed numbers are not valid here; expected a non-negative integer or one of: ''
                  @ str_join '', '' KNOWN_POSITION_NAMES)
          else if n \<noteq> of_int \<lfloor>n\<rfloor> \<or> n < 0 \<or> n > of_nat U32_MAX then
            Some (''invalid position value '' @ dquoted raw
                  @ '', expected a non-negative integer or one of: ''
                  @ str_join '', '' KNOWN_POSITION_NAMES)
          else None)
       line col"

definition validate_normalize_setting ::
  "normalize_setting \<Rightarrow> usize \<Rightarrow> usize \<Rightarrow> dsl_error list" where
  "validate_normalize_setting setting line col =
     check_that (LoudnessPreset_parse (ns_preset setting) \<noteq> None)
       (DslError_validation line col (''unknown loudness preset '' @ dquoted (ns_preset setting)))
     @ concat (map
         (\<lambda>(key, val).
            if key \<in> set [''target_lufs'', ''true_peak_db'', ''lra_max'', ''tolerance_lufs''] then
              check_that (case val of VNumber _ _ \<Rightarrow> True | _ \<Rightarrow> False)
                (DslError_validation line col (key @ '' must be a number''))
            else
              [DslError_validation line col (''unknown normalize setting '' @ dquoted key)])
         (ns_settings setting))"

definition validate_synth_setting ::
  "dsl_env \<Rightarrow> usize \<Rightarrow> usize \<Rightarrow> string set \<Rightarrow> synth_setting \<Rightarrow> report" where
  "validate_synth_setting E line col names setting =
     (case setting of
        SSCodec c \<Rightarrow> rep_errors (validate_codec E c line col)
      | SSLanguage lang \<Rightarrow>
          rep_errors (check_that (\<not> (lang \<noteq> ''inherit'' \<and> \<not> is_valid_language lang))
            (DslError_validation line col (''unknown language code '' @ dquoted lang)))
      | SSSource f \<Rightarrow> validate_filter E line col names f
      | SSSkipIfExists f \<Rightarrow> validate_filter E line col names f
      | SSChannels v \<Rightarrow> rep_errors (validate_synth_channels v line col)
      | SSPosition v \<Rightarrow> rep_errors (validate_synth_position v line col)
      | SSNormalize s \<Rightarrow> rep_errors (validate_normalize_setting s line col)
      | SSBitrate _ \<Rightarrow> ([], [])
      | SSTitle _ \<Rightarrow> ([], [])
      | SSCreateIf _ \<Rightarrow> ([], []))"

definition validate_synthesize_operation ::
  "dsl_env \<Rightarrow> synth_setting list \<Rightarrow> usize \<Rightarrow> usize \<Rightarrow> string set \<Rightarrow> report" where
  "validate_synthesize_operation E settings line col names =
     rep_concat (map (validate_synth_setting E line col names) settings)"

definition KNOWN_ACTIONS_KEYS :: "string list" where
  "KNOWN_ACTIONS_KEYS = [''clear_all_default'', ''clear_all_forced'', ''clear_all_titles'']"

definition validate_actions_settings :: "dsl_settings \<Rightarrow> usize \<Rightarrow> usize \<Rightarrow> dsl_error list" where
  "validate_actions_settings settings line col =
     concat (map
       (\<lambda>(key, val).
          if key \<notin> set KNOWN_ACTIONS_KEYS then
            validate_ident_against key ''actions setting'' KNOWN_ACTIONS_KEYS line col
          else
            check_that (case val of VBool _ \<Rightarrow> True | _ \<Rightarrow> False)
              (DslError_validation line col
                 (''actions setting '' @ dquoted key @ '' requires a boolean value'')))
       settings)"

definition valid_order_items :: "string list" where
  "valid_order_items =
     [''video'', ''audio'', ''audio_main'', ''audio_alternate'', ''audio_commentary'',
      ''subtitle'', ''subtitles'', ''subtitle_main'', ''subtitle_forced'', ''subtitle_commentary'',
      ''attachment'']"

definition validate_default_item :: "usize \<Rightarrow> usize \<Rightarrow> string \<times> string \<Rightarrow> dsl_error list" where
  "validate_default_item line col kv =
     check_that (fst kv = ''audio'' \<or> fst kv = ''subtitle'')
       (DslError_validation line col (''invalid defaults kind '' @ dquoted (fst kv)))
     @ check_that (parse_default_strategy (snd kv) \<noteq> None)
         (DslError_validation line col
            (''invalid defaults value '' @ dquoted (snd kv)
             @ '', expected one of: first_per_language, none, first, all''))"

definition validate_operation ::
  "dsl_env \<Rightarrow> usize \<Rightarrow> usize \<Rightarrow> string set \<Rightarrow> operation_node \<Rightarrow> report" where
  "validate_operation E line col names op =
     (case op of
        NContainer name \<Rightarrow>
          rep_errors (check_that (Container_from_extension name \<noteq> Other)
            (DslError_validation line col
               (''unknown container '' @ squoted name @ ''; expected one of: ''
                @ str_join '', '' known_extensions)))
      | NKeep target flt _ \<Rightarrow> validate_target_filter E line col names target flt
      | NRemove target flt \<Rightarrow> validate_target_filter E line col names target flt
      | NTranscode target codec settings \<Rightarrow>
          validate_transcode_operation E target codec settings line col
      | NSynthesize _ settings \<Rightarrow> validate_synthesize_operation E settings line col names
      | NWhen w \<Rightarrow> validate_when E names w
      | NRules mode rules \<Rightarrow>
          rep_concat
            (rep_errors (check_that (mode = ''first'' \<or> mode = ''all'')
               (DslError_validation line col
                  (''invalid rules mode '' @ dquoted mode @ '', expected '' @ dquoted ''first''
                   @ '' or '' @ dquoted ''all'')))
             # map (\<lambda>r. validate_when E names (rn_when r)) rules)
      | NOrder items \<Rightarrow>
          rep_errors (concat (map
            (\<lambda>item. check_that (item \<in> set valid_order_items)
               (DslError_validation line col (''unknown track order item '' @ dquoted item)))
            items))
      | NDefaults items \<Rightarrow> rep_errors (concat (map (validate_default_item line col) items))
      | NActions target settings \<Rightarrow>
          rep_errors (validate_track_target target line col
                      @ validate_actions_settings settings line col)
      | NClearTags \<Rightarrow> ([], [])
      | NSetTag tag _ \<Rightarrow>
          rep_errors (check_that (tag \<noteq> [])
            (DslError_validation line col ''set_tag requires a non-empty tag name''))
      | NDeleteTag tag \<Rightarrow>
          rep_errors (check_that (tag \<noteq> [])
            (DslError_validation line col ''delete_tag requires a non-empty tag name''))
      | NVerify _ \<Rightarrow> ([], []))"

section \<open>Conflicts within a phase\<close>

definition set_tag_of :: "operation_node \<Rightarrow> string option" where
  "set_tag_of op = (case op of NSetTag tag _ \<Rightarrow> Some tag | _ \<Rightarrow> None)"

definition delete_tag_of :: "operation_node \<Rightarrow> string option" where
  "delete_tag_of op = (case op of NDeleteTag tag \<Rightarrow> Some tag | _ \<Rightarrow> None)"

definition phase_ops :: "phase_node \<Rightarrow> operation_node list" where
  "phase_ops ph = map so_node (ph_operations ph)"

definition phase_error :: "phase_node \<Rightarrow> string \<Rightarrow> dsl_error" where
  "phase_error ph message = DslError_validation (sp_line (ph_span ph)) (sp_col (ph_span ph)) message"

definition clear_tags_index :: "operation_node list \<Rightarrow> nat option" where
  "clear_tags_index ops =
     (case rev (filter (\<lambda>(i, op). op = NClearTags) (enumerate 0 ops)) of
        [] \<Rightarrow> None | (i, _) # _ \<Rightarrow> Some i)"

definition check_tag_conflicts :: "dsl_env \<Rightarrow> phase_node \<Rightarrow> dsl_error list" where
  "check_tag_conflicts E ph =
     (let set_tag_keys = remdups (List.map_filter set_tag_of (phase_ops ph));
          delete_tag_keys = remdups (List.map_filter delete_tag_of (phase_ops ph))
      in concat (map
           (\<lambda>key. check_that (key \<notin> set delete_tag_keys)
              (phase_error ph
                 (''tag '' @ dquoted key @ '' is both set and deleted in phase ''
                  @ dquoted (ph_name ph))))
           (hash_order_of E set_tag_keys))
         @ (case clear_tags_index (phase_ops ph) of
              None \<Rightarrow> []
            | Some clear_idx \<Rightarrow>
                (if set_tag_keys = [] then []
                 else
                   concat (map
                     (\<lambda>(i, spanned_op).
                        case set_tag_of (so_node spanned_op) of
                          None \<Rightarrow> []
                        | Some tag \<Rightarrow>
                            check_that (\<not> i < clear_idx)
                              (DslError_validation (sp_line (so_span spanned_op))
                                 (sp_col (so_span spanned_op))
                                 (''set_tag '' @ dquoted tag
                                  @ '' appears before clear_tags and will be overwritten'')))
                     (enumerate 0 (ph_operations ph))))))"

definition broad_track_category :: "string \<Rightarrow> string" where
  "broad_track_category target =
     (if target = ''video'' then ''video''
      else if target \<in> set [''audio'', ''audio_main'', ''audio_alternate'', ''audio_commentary'']
      then ''audio''
      else if target \<in> set [''subtitle'', ''subtitles'', ''subtitle_main'', ''subtitle_forced'',
                              ''subtitle_commentary'']
      then ''subtitle''
      else if target = ''attachment'' \<or> target = ''attachments'' then ''attachment''
      else target)"

definition check_track_conflicts ::
  "phase_node \<Rightarrow> (string \<times> bool) list \<Rightarrow> (string \<times> bool) list \<Rightarrow> dsl_error list" where
  "check_track_conflicts ph kept_targets removed_targets =
     concat (map
       (\<lambda>(target, keep_filtered).
          concat (map
            (\<lambda>(removed, remove_filtered).
               check_that
                 (\<not> (broad_track_category removed = broad_track_category target
                    \<and> \<not> keep_filtered \<and> \<not> remove_filtered))
                 (phase_error ph
                    (''conflicting keep and remove on '' @ dquoted (broad_track_category target)
                     @ '' in phase '' @ dquoted (ph_name ph))))
            removed_targets))
       kept_targets)"

definition kept_target :: "operation_node \<Rightarrow> (string \<times> bool) option" where
  "kept_target op = (case op of NKeep target flt _ \<Rightarrow> Some (target, flt \<noteq> None) | _ \<Rightarrow> None)"

definition removed_target :: "operation_node \<Rightarrow> (string \<times> bool) option" where
  "removed_target op = (case op of NRemove target flt \<Rightarrow> Some (target, flt \<noteq> None) | _ \<Rightarrow> None)"

definition validate_phase :: "dsl_env \<Rightarrow> string set \<Rightarrow> phase_node \<Rightarrow> report" where
  "validate_phase E names ph =
     rep_concat
       ([rep_errors (check_that (\<not> ph_extend ph)
           (phase_error ph
              (''phase '' @ dquoted (ph_name ph)
               @ '' uses extend but policy composition was not resolved''))),
         opt_report
           (validate_condition E (sp_line (ph_span ph)) (sp_col (ph_span ph)) names)
           (ph_skip_when ph)]
        @ map (\<lambda>s. validate_operation E (sp_line (so_span s)) (sp_col (so_span s)) names (so_node s))
            (ph_operations ph)
        @ [rep_errors (check_tag_conflicts E ph),
           rep_errors (check_track_conflicts ph (List.map_filter kept_target (phase_ops ph))
             (List.map_filter removed_target (phase_ops ph)))])"

section \<open>Names, references, cycles, reachability\<close>

definition language_errors :: "config_node \<Rightarrow> string \<Rightarrow> string list \<Rightarrow> dsl_error list" where
  "language_errors config kind langs =
     concat (map
       (\<lambda>lang. check_that (is_valid_language lang)
          (DslError_validation (sp_line (cn_span config)) (sp_col (cn_span config))
             (''unknown '' @ kind @ '' language code '' @ dquoted lang)))
       langs)"

definition validate_config :: "policy_ast \<Rightarrow> dsl_error list" where
  "validate_config ast =
     (case ast_config ast of
        None \<Rightarrow> []
      | Some config \<Rightarrow>
          language_errors config ''audio'' (cn_audio_languages config)
          @ language_errors config ''subtitle'' (cn_subtitle_languages config))"

fun duplicate_names :: "string set \<Rightarrow> phase_node list \<Rightarrow> dsl_error list" where
  "duplicate_names seen [] = []"
| "duplicate_names seen (ph # phs) =
     check_that (ph_name ph \<notin> seen)
       (phase_error ph (''duplicate phase name '' @ dquoted (ph_name ph)))
     @ duplicate_names (insert (ph_name ph) seen) phs"

definition validate_phase_names :: "policy_ast \<Rightarrow> dsl_error list" where
  "validate_phase_names ast = duplicate_names {} (ast_phases ast)"

definition phase_name_set :: "policy_ast \<Rightarrow> string set" where
  "phase_name_set ast = set (map ph_name (ast_phases ast))"

definition validate_phase_references :: "policy_ast \<Rightarrow> dsl_error list" where
  "validate_phase_references ast =
     concat (map
       (\<lambda>ph.
          concat (map
            (\<lambda>dep.
               check_that (dep \<in> phase_name_set ast)
                 (phase_error ph
                    (''phase '' @ dquoted (ph_name ph) @ '' depends on unknown phase '' @ dquoted dep))
               @ check_that (dep \<noteq> ph_name ph)
                   (phase_error ph (''phase '' @ dquoted (ph_name ph) @ '' depends on itself'')))
            (phase_dependencies ph))
          @ (case ph_run_if ph of
               None \<Rightarrow> []
             | Some r \<Rightarrow>
                 check_that (ri_phase r \<in> phase_name_set ast)
                   (phase_error ph
                      (''phase '' @ dquoted (ph_name ph) @ '' has run_if referencing unknown phase ''
                       @ dquoted (ri_phase r)))))
       (ast_phases ast))"

text \<open>The depth-first search: the visited nodes, those on the stack, and the path to the current
  node.\<close>

record dfs_state =
  df_visited :: "string set"
  df_in_stack :: "string set"
  df_path :: "string list"

function detect_cycle ::
  "nat \<Rightarrow> (string, string list) hashmap \<Rightarrow> string \<Rightarrow> dfs_state \<Rightarrow> (bool \<times> dfs_state) option"
  and detect_cycle_deps ::
  "nat \<Rightarrow> (string, string list) hashmap \<Rightarrow> string list \<Rightarrow> dfs_state \<Rightarrow> (bool \<times> dfs_state) option" where
  "detect_cycle 0 adj node st = None"
| "detect_cycle (Suc fuel) adj node st =
     (let entered =
            \<lparr>df_visited = insert node (df_visited st), df_in_stack = insert node (df_in_stack st),
             df_path = df_path st @ [node]\<rparr>;
          deps = (case hm_get adj node of None \<Rightarrow> [] | Some ds \<Rightarrow> ds)
      in case detect_cycle_deps fuel adj deps entered of
           None \<Rightarrow> None
         | Some (True, st') \<Rightarrow> Some (True, st')
         | Some (False, st') \<Rightarrow>
             Some (False, st'\<lparr>df_in_stack := df_in_stack st' - {node},
                              df_path := butlast (df_path st')\<rparr>))"
| "detect_cycle_deps fuel adj [] st = Some (False, st)"
| "detect_cycle_deps fuel adj (dep # deps) st =
     (if dep \<notin> df_visited st then
        (case detect_cycle fuel adj dep st of
           None \<Rightarrow> None
         | Some (True, st') \<Rightarrow> Some (True, st')
         | Some (False, st') \<Rightarrow> detect_cycle_deps fuel adj deps st')
      else if dep \<in> df_in_stack st then Some (True, st\<lparr>df_path := df_path st @ [dep]\<rparr>)
      else detect_cycle_deps fuel adj deps st)"
  by pat_completeness auto
termination
  by (relation "measures [\<lambda>x. case x of Inl (fuel, _) \<Rightarrow> fuel | Inr (fuel, _) \<Rightarrow> fuel,
        \<lambda>x. case x of Inl _ \<Rightarrow> 0 | Inr (_, _, deps, _) \<Rightarrow> Suc (length deps)]") auto

definition dependency_map :: "policy_ast \<Rightarrow> (string, string list) hashmap" where
  "dependency_map ast =
     foldl (\<lambda>adj ph. hm_insert (ph_name ph) (phase_dependencies ph) adj) [] (ast_phases ast)"

text \<open>The recursion goes at most as deep as there are names.\<close>

definition cycle_fuel :: "policy_ast \<Rightarrow> nat" where
  "cycle_fuel ast =
     Suc (length (ast_phases ast) + sum_list (map (\<lambda>ph. length (phase_dependencies ph)) (ast_phases ast)))"

definition arrow :: string where
  "arrow = [CHR 0x20, CHR 0xE2, CHR 0x86, CHR 0x92, CHR 0x20]"

definition cycle_error :: "policy_ast \<Rightarrow> string list \<Rightarrow> dsl_error option" where
  "cycle_error ast path =
     (if path = [] then None
      else
        (let cycle_start = last path in
         case (position (\<lambda>p. p = cycle_start) path,
               find (\<lambda>ph. ph_name ph = cycle_start) (ast_phases ast)) of
           (Some cycle_pos, Some ph) \<Rightarrow>
             Some (phase_error ph (''circular dependency: '' @ str_join arrow (drop cycle_pos path)))
         | _ \<Rightarrow> None))"

fun cycle_loop ::
  "policy_ast \<Rightarrow> (string, string list) hashmap \<Rightarrow> phase_node list \<Rightarrow> string set \<Rightarrow> string set \<Rightarrow>
   dsl_error list option" where
  "cycle_loop ast adj [] visited in_stack = Some []"
| "cycle_loop ast adj (ph # phs) visited in_stack =
     (if ph_name ph \<in> visited then cycle_loop ast adj phs visited in_stack
      else
        (case detect_cycle (cycle_fuel ast) adj (ph_name ph)
                \<lparr>df_visited = visited, df_in_stack = in_stack, df_path = []\<rparr> of
           None \<Rightarrow> None
         | Some (True, st) \<Rightarrow>
             (case cycle_error ast (df_path st) of
                None \<Rightarrow> None
              | Some e \<Rightarrow>
                  map_option (\<lambda>es. e # es) (cycle_loop ast adj phs (df_visited st) {}))
         | Some (False, st) \<Rightarrow> cycle_loop ast adj phs (df_visited st) (df_in_stack st)))"

definition validate_cycle_detection :: "policy_ast \<Rightarrow> dsl_error list option" where
  "validate_cycle_detection ast =
     cycle_loop ast (dependency_map ast) (ast_phases ast) {} {}"

text \<open>One pass of the fixed point iteration, in place, and the iteration.\<close>

fun reach_round ::
  "string set \<Rightarrow> phase_node list \<Rightarrow> string set \<times> bool \<Rightarrow> string set \<times> bool" where
  "reach_round names [] st = st"
| "reach_round names (ph # phs) (reachable, changed) =
     (if ph_name ph \<in> reachable then reach_round names phs (reachable, changed)
      else if list_all (\<lambda>d. d \<notin> names \<or> d \<in> reachable) (phase_dependencies ph)
      then reach_round names phs (insert (ph_name ph) reachable, True)
      else reach_round names phs (reachable, changed))"

lemma reach_round_mono:
  "reach_round names phs (R, c) = (R', c') \<Longrightarrow>
     R \<subseteq> R' \<and> R' \<subseteq> R \<union> ph_name ` set phs \<and> (c \<longrightarrow> c') \<and> (c' \<longrightarrow> c \<or> R \<noteq> R')
     \<and> (R \<noteq> R' \<longrightarrow> c')"
proof (induction phs arbitrary: R c)
  case (Cons ph phs)
  then show ?case
    by (auto split: if_splits)
qed simp

function reach_loop :: "phase_node list \<Rightarrow> string set \<Rightarrow> string set" where
  "reach_loop phs reachable =
     (case reach_round (set (map ph_name phs)) phs (reachable, False) of
        (reachable', changed) \<Rightarrow> if changed then reach_loop phs reachable' else reachable')"
  by pat_completeness auto
termination
proof (relation "measure (\<lambda>(phs, R). card (ph_name ` set phs - R))")
  fix phs R R' changed
  assume "(R', changed) = reach_round (set (map ph_name phs)) phs (R, False)" changed
  then have "R \<subseteq> R'" "R' \<subseteq> R \<union> ph_name ` set phs" "R \<noteq> R'"
    using reach_round_mono [of "set (map ph_name phs)" phs R False R' changed] by auto
  then have "ph_name ` set phs - R' \<subset> ph_name ` set phs - R" by blast
  then show "((phs, R'), phs, R) \<in> measure (\<lambda>(phs, R). card (ph_name ` set phs - R))"
    by (simp add: psubset_card_mono)
qed simp

declare reach_loop.simps [simp del]

definition validate_reachability :: "policy_ast \<Rightarrow> dsl_error list" where
  "validate_reachability ast =
     (let roots = set (map ph_name (filter (\<lambda>ph. phase_dependencies ph = []) (ast_phases ast)));
          reachable = reach_loop (ast_phases ast) roots
      in concat (map
           (\<lambda>ph. check_that (ph_name ph \<in> reachable)
              (phase_error ph (''phase '' @ dquoted (ph_name ph) @ '' is unreachable'')))
           (ast_phases ast)))"

section \<open>The validator\<close>

text \<open>\<open>None\<close> is a panic; otherwise the warnings, and the errors if there are any.\<close>

definition validate_with_warnings ::
  "dsl_env \<Rightarrow> policy_ast \<Rightarrow> (dsl_warning list \<times> (dsl_error list + unit)) option" where
  "validate_with_warnings E ast =
     (case validate_cycle_detection ast of
        None \<Rightarrow> None
      | Some cycle_errors \<Rightarrow>
          (let (errors, warnings) =
                 rep_concat
                   ([rep_errors (validate_config ast),
                     rep_errors (validate_phase_names ast),
                     rep_errors (validate_phase_references ast),
                     rep_errors cycle_errors,
                     rep_errors (validate_reachability ast)]
                    @ map (validate_phase E (phase_name_set ast)) (ast_phases ast))
           in Some (warnings, if errors = [] then Inr () else Inl errors)))"

definition validate :: "dsl_env \<Rightarrow> policy_ast \<Rightarrow> (dsl_error list + unit) option" where
  "validate E ast = map_option snd (validate_with_warnings E ast)"

end
