(* ===== verification/Cycle_Detection.thy ===== *)
theory Cycle_Detection
  imports Validator
begin

text \<open>
  The validator's depth-first search finds a cycle of phase dependencies exactly if there is one.
  The nodes on the stack form the path to the current node; a finished node reaches only finished
  nodes and lies on no cycle. After a cycle has been reported the search goes on with an empty
  stack, where only the part about the path still holds.
\<close>

section \<open>The invariant of the search\<close>

definition dep_rel :: "(string, string list) hashmap \<Rightarrow> (string \<times> string) set" where
  "dep_rel adj = {(n, d). d \<in> set (case hm_get adj n of None \<Rightarrow> [] | Some ds \<Rightarrow> ds)}"

abbreviation dep_walk :: "(string, string list) hashmap \<Rightarrow> string list \<Rightarrow> bool" where
  "dep_walk adj \<equiv> successively (\<lambda>x y. (x, y) \<in> dep_rel adj)"

definition on_path :: "(string, string list) hashmap \<Rightarrow> dfs_state \<Rightarrow> bool" where
  "on_path adj st \<longleftrightarrow>
     df_in_stack st = set (df_path st) \<and> distinct (df_path st) \<and> dep_walk adj (df_path st)
     \<and> df_in_stack st \<subseteq> df_visited st"

definition finished :: "dfs_state \<Rightarrow> string set" where
  "finished st = df_visited st - df_in_stack st"

definition closed_off :: "(string, string list) hashmap \<Rightarrow> dfs_state \<Rightarrow> bool" where
  "closed_off adj st \<longleftrightarrow>
     (\<forall>b \<in> finished st. dep_rel adj `` {b} \<subseteq> finished st \<and> (b, b) \<notin> (dep_rel adj)\<^sup>+)"

text \<open>The path that the search returns ends where it has been before.\<close>

definition closes_cycle :: "(string, string list) hashmap \<Rightarrow> string list \<Rightarrow> bool" where
  "closes_cycle adj path \<longleftrightarrow>
     path \<noteq> [] \<and> dep_walk adj path \<and> last path \<in> set (butlast path)"

lemma closed_off_rtrancl:
  assumes "closed_off adj st" "(a, b) \<in> (dep_rel adj)\<^sup>*" "a \<in> finished st"
  shows "b \<in> finished st"
  using assms(2,3)
proof (induction rule: rtrancl_induct)
  case (step y z)
  then show ?case using assms(1) by (auto simp: closed_off_def)
qed simp

lemma walk_trancl: "successively (\<lambda>x y. (x, y) \<in> R) (x # ys @ [z]) \<Longrightarrow> (x, z) \<in> R\<^sup>+"
  by (induction ys arbitrary: x) (auto intro: trancl_into_trancl2)

lemma closes_cycle_trancl:
  assumes "closes_cycle adj path"
  shows "(last path, last path) \<in> (dep_rel adj)\<^sup>+"
proof -
  obtain xs ys where "butlast path = xs @ last path # ys"
    using assms by (auto simp: closes_cycle_def dest: split_list)
  then have path: "path = xs @ last path # ys @ [last path]"
    using assms by (metis append.assoc append_Cons append_butlast_last_id closes_cycle_def)
  then have "dep_walk adj (xs @ last path # ys @ [last path])"
    using assms by (metis closes_cycle_def)
  then have "dep_walk adj (last path # ys @ [last path])"
    by (simp add: successively_append_iff)
  then show ?thesis by (rule walk_trancl)
qed

text \<open>What a call guarantees, from the state before to the state after.\<close>

definition dfs_post ::
  "(string, string list) hashmap \<Rightarrow> string set \<Rightarrow> dfs_state \<Rightarrow> bool \<Rightarrow> dfs_state \<Rightarrow> bool" where
  "dfs_post adj targets st found st' \<longleftrightarrow>
     df_visited st \<subseteq> df_visited st'
     \<and> (if found then closes_cycle adj (df_path st')
        else on_path adj st' \<and> df_path st' = df_path st
           \<and> (closed_off adj st \<longrightarrow> closed_off adj st' \<and> targets \<subseteq> finished st'
                \<and> finished st \<subseteq> finished st'))"

lemma on_path_enter:
  assumes "on_path adj st" "node \<notin> df_visited st"
    and "df_path st \<noteq> [] \<Longrightarrow> (last (df_path st), node) \<in> dep_rel adj"
  shows "on_path adj \<lparr>df_visited = insert node (df_visited st),
      df_in_stack = insert node (df_in_stack st), df_path = df_path st @ [node]\<rparr>"
  using assms by (auto simp: on_path_def successively_append_iff)

lemma finish_node:
  assumes "on_path adj st'" "df_path st' = p @ [node]"
    and "closed_off adj st'" "dep_rel adj `` {node} \<subseteq> finished st'"
  shows "closed_off adj (st'\<lparr>df_in_stack := df_in_stack st' - {node}, df_path := p\<rparr>)"
    and "finished (st'\<lparr>df_in_stack := df_in_stack st' - {node}, df_path := p\<rparr>)
      = insert node (finished st')"
proof -
  have node: "node \<in> df_in_stack st'" "node \<in> df_visited st'"
    using assms(1,2) by (auto simp: on_path_def)
  then show fin: "finished (st'\<lparr>df_in_stack := df_in_stack st' - {node}, df_path := p\<rparr>)
      = insert node (finished st')"
    by (auto simp: finished_def)
  have "(node, node) \<notin> (dep_rel adj)\<^sup>+"
  proof
    assume "(node, node) \<in> (dep_rel adj)\<^sup>+"
    then obtain d where "(node, d) \<in> dep_rel adj" "(d, node) \<in> (dep_rel adj)\<^sup>*"
      by (meson tranclD)
    then have "node \<in> finished st'"
      using closed_off_rtrancl [OF assms(3)] assms(4) by blast
    then show False using node by (simp add: finished_def)
  qed
  then show "closed_off adj (st'\<lparr>df_in_stack := df_in_stack st' - {node}, df_path := p\<rparr>)"
    using assms(3,4) unfolding closed_off_def fin by blast
qed

lemma detect_cycle_post:
  "detect_cycle fuel adj node st = Some (found, st') \<Longrightarrow> on_path adj st \<Longrightarrow> node \<notin> df_visited st \<Longrightarrow>
     (df_path st \<noteq> [] \<longrightarrow> (last (df_path st), node) \<in> dep_rel adj) \<Longrightarrow>
     dfs_post adj {node} st found st'"
  "detect_cycle_deps fuel adj deps st = Some (found, st') \<Longrightarrow> on_path adj st \<Longrightarrow>
     df_path st \<noteq> [] \<Longrightarrow> set deps \<subseteq> dep_rel adj `` {last (df_path st)} \<Longrightarrow>
     dfs_post adj (set deps) st found st'"
proof (induction fuel adj node st and fuel adj deps st arbitrary: found st' and found st'
    rule: detect_cycle_detect_cycle_deps.induct)
  case (2 fuel adj node st)
  define entered where "entered = \<lparr>df_visited = insert node (df_visited st),
      df_in_stack = insert node (df_in_stack st), df_path = df_path st @ [node]\<rparr>"
  define deps where "deps = (case hm_get adj node of None \<Rightarrow> [] | Some ds \<Rightarrow> ds)"
  have rel: "dep_rel adj `` {node} = set deps" by (auto simp: dep_rel_def deps_def)
  have enter: "on_path adj entered" unfolding entered_def using 2(3-5) by (intro on_path_enter) auto
  obtain b st1 where call: "detect_cycle_deps fuel adj deps entered = Some (b, st1)"
    using 2(2) by (auto simp: entered_def deps_def Let_def split: option.splits)
  then have post: "dfs_post adj (set deps) entered b st1"
    using 2(1) [OF entered_def deps_def] enter rel by (simp add: entered_def)
  have fin: "finished entered = finished st" "df_visited st \<subseteq> df_visited entered"
    using 2(3,4) by (auto simp: finished_def entered_def on_path_def)
  show ?case
  proof (cases b)
    case True
    then have "found" "st' = st1" using 2(2) call by (simp_all add: entered_def deps_def Let_def)
    then show ?thesis using post True fin by (auto simp: dfs_post_def)
  next
    case False
    then have res: "\<not> found"
      "st' = st1\<lparr>df_in_stack := df_in_stack st1 - {node}, df_path := df_path st\<rparr>"
      using 2(2) call post by (auto simp: entered_def deps_def Let_def dfs_post_def)
    have st1: "on_path adj st1" "df_path st1 = df_path st @ [node]"
      using post False by (auto simp: dfs_post_def entered_def)
    then have "on_path adj st'"
      using res(2) by (auto simp: on_path_def successively_append_iff)
    moreover have "closed_off adj st' \<and> {node} \<subseteq> finished st' \<and> finished st \<subseteq> finished st'"
      if "closed_off adj st"
    proof -
      have "closed_off adj entered" using that fin by (simp add: closed_off_def)
      then have "closed_off adj st1" "set deps \<subseteq> finished st1" "finished st \<subseteq> finished st1"
        using post False fin by (auto simp: dfs_post_def)
      then show ?thesis
        using finish_node [OF st1 _ _] rel res(2) by auto
    qed
    ultimately show ?thesis using res post fin False by (auto simp: dfs_post_def)
  qed
next
  case (4 fuel adj dep deps st)
  show ?case
  proof (cases "dep \<in> df_visited st")
    case False
    then obtain b st1 where call: "detect_cycle fuel adj dep st = Some (b, st1)"
      using 4(4) by (auto split: option.splits)
    then have post: "dfs_post adj {dep} st b st1"
      using 4(1) [OF False] 4(5-7) False by auto
    show ?thesis
    proof (cases b)
      case True
      then show ?thesis using 4(4) False call post by (auto simp: dfs_post_def)
    next
      case nb: False
      then have rest: "detect_cycle_deps fuel adj deps st1 = Some (found, st')"
        using 4(4) False call by simp
      have st1: "on_path adj st1" "df_path st1 = df_path st" using post nb by (auto simp: dfs_post_def)
      have "dfs_post adj (set deps) st1 found st'"
        using 4(2) [OF False call] nb rest st1 4(6,7) by simp
      then show ?thesis using post nb st1 by (cases found) (simp_all add: dfs_post_def, blast+)
    qed
  next
    case True
    show ?thesis
    proof (cases "dep \<in> df_in_stack st")
      case on: True
      then have "found" "st' = st\<lparr>df_path := df_path st @ [dep]\<rparr>" using 4(4) True by auto
      moreover have "dep \<in> set (df_path st)" "dep_walk adj (df_path st)"
        using 4(5) on by (auto simp: on_path_def)
      ultimately show ?thesis
        using 4(6,7) by (auto simp: dfs_post_def closes_cycle_def successively_append_iff)
    next
      case off: False
      then have "dep \<in> finished st" using True by (simp add: finished_def)
      moreover have "dfs_post adj (set deps) st found st'"
        using 4(3) True off 4(4-7) by simp
      ultimately show ?thesis by (auto simp: dfs_post_def)
    qed
  qed
qed (auto simp: dfs_post_def)

section \<open>The search returns\<close>

lemma detect_cycle_visited:
  "detect_cycle fuel adj node st = Some (found, st') \<Longrightarrow> df_visited st \<subseteq> df_visited st'"
  "detect_cycle_deps fuel adj deps st = Some (found, st') \<Longrightarrow> df_visited st \<subseteq> df_visited st'"
proof (induction fuel adj node st and fuel adj deps st arbitrary: found st' and found st'
    rule: detect_cycle_detect_cycle_deps.induct)
  case (2 fuel adj node st)
  then show ?case by (fastforce simp: Let_def split: option.splits bool.splits)
next
  case (4 fuel adj dep deps st)
  then show ?case by (fastforce split: if_splits option.splits bool.splits)
qed auto

lemma detect_cycle_total:
  "finite N \<Longrightarrow> dep_rel adj `` N \<subseteq> N \<Longrightarrow> node \<in> N \<Longrightarrow> node \<notin> df_visited st \<Longrightarrow>
     card (N - df_visited st) \<le> fuel \<Longrightarrow> detect_cycle fuel adj node st \<noteq> None"
  "finite N \<Longrightarrow> dep_rel adj `` N \<subseteq> N \<Longrightarrow> set deps \<subseteq> N \<Longrightarrow>
     card (N - df_visited st) \<le> fuel \<Longrightarrow> detect_cycle_deps fuel adj deps st \<noteq> None"
proof (induction fuel adj node st and fuel adj deps st rule: detect_cycle_detect_cycle_deps.induct)
  case (1 adj node st)
  then show ?case by auto
next
  case (2 fuel adj node st)
  have "card (N - insert node (df_visited st)) < card (N - df_visited st)"
    using 2(2,4,5) by (intro psubset_card_mono) auto
  then have "card (N - insert node (df_visited st)) \<le> fuel" using 2(6) by simp
  moreover have "set (case hm_get adj node of None \<Rightarrow> [] | Some ds \<Rightarrow> ds) \<subseteq> N"
    using 2(3,4) by (auto simp: dep_rel_def)
  ultimately have "detect_cycle_deps fuel adj (case hm_get adj node of None \<Rightarrow> [] | Some ds \<Rightarrow> ds)
      \<lparr>df_visited = insert node (df_visited st), df_in_stack = insert node (df_in_stack st),
       df_path = df_path st @ [node]\<rparr> \<noteq> None"
    using 2(1) [OF refl refl 2(2,3)] by simp
  then show ?case by (auto simp: Let_def split: option.split bool.split)
next
  case (4 fuel adj dep deps st)
  show ?case
  proof (cases "dep \<in> df_visited st")
    case False
    then have "detect_cycle fuel adj dep st \<noteq> None" using 4(1) [OF False 4(4,5)] 4(6,7) by simp
    then obtain b st1 where call: "detect_cycle fuel adj dep st = Some (b, st1)" by auto
    have "card (N - df_visited st1) \<le> card (N - df_visited st)"
      using detect_cycle_visited(1) [OF call] 4(4) by (intro card_mono) auto
    then have "\<not> b \<Longrightarrow> detect_cycle_deps fuel adj deps st1 \<noteq> None"
      using 4(2) [OF False call refl _ 4(4,5)] 4(6,7) by simp
    then show ?thesis using False call by (cases b) auto
  next
    case True
    then show ?thesis using 4(3) [OF _ _ 4(4,5)] 4(6,7) by auto
  qed
qed auto

section \<open>The loop over the phases\<close>

lemma dependency_map_get:
  "hm_get (foldl (\<lambda>adj ph. hm_insert (ph_name ph) (phase_dependencies ph) adj) m phs) n =
     (case find (\<lambda>ph. ph_name ph = n) (rev phs) of
        None \<Rightarrow> hm_get m n | Some ph \<Rightarrow> Some (phase_dependencies ph))"
  by (induction phs rule: rev_induct) auto

lemma find_SomeD: "find P xs = Some x \<Longrightarrow> x \<in> set xs \<and> P x"
  by (auto simp: find_Some_iff)

lemma dependency_map_Some:
  assumes "hm_get (dependency_map ast) n = Some ds"
  obtains ph where "ph \<in> set (ast_phases ast)" "ph_name ph = n" "ds = phase_dependencies ph"
  using assms
  by (auto simp: dependency_map_def dependency_map_get split: option.splits
      dest!: find_SomeD)

lemma dependency_map_phase:
  "ph \<in> set (ast_phases ast) \<Longrightarrow> hm_get (dependency_map ast) (ph_name ph) \<noteq> None"
  by (auto simp: dependency_map_def dependency_map_get find_None_iff split: option.split)

definition all_names :: "policy_ast \<Rightarrow> string set" where
  "all_names ast = (\<Union>ph \<in> set (ast_phases ast). insert (ph_name ph) (set (phase_dependencies ph)))"

lemma all_names_bound: "finite (all_names ast)" "card (all_names ast) \<le> cycle_fuel ast"
proof -
  show "finite (all_names ast)" by (simp add: all_names_def)
  have "card (\<Union>ph \<in> set phs. insert (ph_name ph) (set (phase_dependencies ph)))
      \<le> length phs + sum_list (map (\<lambda>ph. length (phase_dependencies ph)) phs)" for phs
  proof (induction phs)
    case (Cons ph phs)
    have "card (insert (ph_name ph) (set (phase_dependencies ph))) \<le> Suc (length (phase_dependencies ph))"
      using card_insert_le_m1 card_length [of "phase_dependencies ph"]
      by (metis card_insert_if finite_set Suc_le_mono le_SucI)
    then show ?case
      using Cons card_Un_le [of "insert (ph_name ph) (set (phase_dependencies ph))"
          "\<Union>ph \<in> set phs. insert (ph_name ph) (set (phase_dependencies ph))"]
      by simp
  qed simp
  from this [of "ast_phases ast"] show "card (all_names ast) \<le> cycle_fuel ast"
    by (simp add: all_names_def cycle_fuel_def)
qed

lemma dep_rel_all_names: "dep_rel (dependency_map ast) `` all_names ast \<subseteq> all_names ast"
  by (auto simp: dep_rel_def all_names_def split: option.splits elim!: dependency_map_Some [OF sym])

lemma dep_rel_phase:
  "(n, d) \<in> dep_rel (dependency_map ast) \<Longrightarrow> n \<in> ph_name ` set (ast_phases ast)"
  by (cases "hm_get (dependency_map ast) n") (auto simp: dep_rel_def elim: dependency_map_Some)

text \<open>The path of a cycle starts at a phase, so the lookups for the message succeed.\<close>

lemma cycle_error_total:
  assumes "closes_cycle (dependency_map ast) path"
  shows "cycle_error ast path \<noteq> None"
proof -
  let ?c = "last path"
  have "(?c, ?c) \<in> (dep_rel (dependency_map ast))\<^sup>+" using assms by (rule closes_cycle_trancl)
  then obtain d where "(?c, d) \<in> dep_rel (dependency_map ast)" by (meson tranclD)
  then have "?c \<in> ph_name ` set (ast_phases ast)" by (rule dep_rel_phase)
  then have "find (\<lambda>ph. ph_name ph = ?c) (ast_phases ast) \<noteq> None" by (auto simp: find_None_iff)
  moreover have "position (\<lambda>p. p = ?c) path \<noteq> None"
    using assms by (auto simp: position_None closes_cycle_def)
  ultimately show ?thesis using assms by (auto simp: cycle_error_def Let_def closes_cycle_def)
qed

lemma cycle_loop_spec:
  assumes "set phs \<subseteq> set (ast_phases ast)"
  shows "\<exists>es. cycle_loop ast (dependency_map ast) phs visited {} = Some es
    \<and> (es \<noteq> [] \<longrightarrow> \<not> acyclic (dep_rel (dependency_map ast)))
    \<and> (es = [] \<longrightarrow> closed_off (dependency_map ast) \<lparr>df_visited = visited, df_in_stack = {}, df_path = []\<rparr>
        \<longrightarrow> (\<exists>visited'. visited \<union> ph_name ` set phs \<subseteq> visited'
            \<and> closed_off (dependency_map ast)
                \<lparr>df_visited = visited', df_in_stack = {}, df_path = []\<rparr>))"
  using assms
proof (induction phs arbitrary: visited)
  case Nil
  then show ?case by auto
next
  case (Cons ph phs)
  let ?adj = "dependency_map ast"
  let ?st = "\<lparr>df_visited = visited, df_in_stack = {}, df_path = []\<rparr>"
  have "set phs \<subseteq> set (ast_phases ast)" using Cons.prems by simp
  note IH = Cons.IH [OF this]
  show ?case
  proof (cases "ph_name ph \<in> visited")
    case True
    then show ?thesis using IH [of visited] by (auto simp: insert_absorb)
  next
    case False
    have "card (all_names ast - visited) \<le> cycle_fuel ast"
      using all_names_bound [of ast] by (meson Diff_subset card_mono order_trans)
    moreover have "ph_name ph \<in> all_names ast" using Cons.prems by (auto simp: all_names_def)
    ultimately have "detect_cycle (cycle_fuel ast) ?adj (ph_name ph) ?st \<noteq> None"
      using detect_cycle_total(1) [OF all_names_bound(1) dep_rel_all_names] False by simp
    then obtain b st where call: "detect_cycle (cycle_fuel ast) ?adj (ph_name ph) ?st = Some (b, st)"
      by auto
    have post: "dfs_post ?adj {ph_name ph} ?st b st"
      using detect_cycle_post(1) [OF call] False by (simp add: on_path_def)
    show ?thesis
    proof (cases b)
      case True
      then have closes: "closes_cycle ?adj (df_path st)" using post by (simp add: dfs_post_def)
      then obtain e where "cycle_error ast (df_path st) = Some e" using cycle_error_total by auto
      moreover have "\<not> acyclic (dep_rel ?adj)"
        using closes_cycle_trancl [OF closes] by (auto simp: acyclic_def)
      moreover obtain es where
        "cycle_loop ast ?adj phs (df_visited st) {} = Some es" using IH by blast
      ultimately show ?thesis using False call True by auto
    next
      case nb: False
      then have st: "df_in_stack st = {}" "df_path st = []"
        using post by (auto simp: dfs_post_def on_path_def)
      then have eq: "st = \<lparr>df_visited = df_visited st, df_in_stack = {}, df_path = []\<rparr>" by simp
      have grow: "closed_off ?adj st \<and> insert (ph_name ph) visited \<subseteq> df_visited st"
        if "closed_off ?adj ?st"
        using post nb that st by (auto simp: dfs_post_def finished_def)
      obtain es where es: "cycle_loop ast ?adj phs (df_visited st) {} = Some es"
          "es \<noteq> [] \<longrightarrow> \<not> acyclic (dep_rel ?adj)"
          "es = [] \<longrightarrow> closed_off ?adj st \<longrightarrow> (\<exists>visited'. df_visited st \<union> ph_name ` set phs \<subseteq> visited'
            \<and> closed_off ?adj \<lparr>df_visited = visited', df_in_stack = {}, df_path = []\<rparr>)"
        using IH [of "df_visited st", folded eq] by blast
      have "\<exists>visited'. visited \<union> ph_name ` set (ph # phs) \<subseteq> visited'
          \<and> closed_off ?adj \<lparr>df_visited = visited', df_in_stack = {}, df_path = []\<rparr>"
        if none: "es = []" and closed: "closed_off ?adj ?st"
      proof -
        obtain V where V: "df_visited st \<union> ph_name ` set phs \<subseteq> V"
          "closed_off ?adj \<lparr>df_visited = V, df_in_stack = {}, df_path = []\<rparr>"
          using es(3) none grow [OF closed] by blast
        have "visited \<union> ph_name ` set (ph # phs) \<subseteq> V" using V(1) grow [OF closed] by auto
        then show ?thesis using V(2) by blast
      qed
      moreover have "cycle_loop ast ?adj (ph # phs) visited {} = Some es"
        using False call nb st es(1) by simp
      ultimately show ?thesis using es(2) by blast
    qed
  qed
qed

lemma closed_off_acyclic:
  assumes "closed_off (dependency_map ast) \<lparr>df_visited = V, df_in_stack = {}, df_path = []\<rparr>"
    and "ph_name ` set (ast_phases ast) \<subseteq> V"
  shows "acyclic (dep_rel (dependency_map ast))"
  unfolding acyclic_def
proof (rule allI, rule notI)
  fix n assume cyc: "(n, n) \<in> (dep_rel (dependency_map ast))\<^sup>+"
  then obtain d where "(n, d) \<in> dep_rel (dependency_map ast)" by (meson tranclD)
  then have "n \<in> V" using assms(2) dep_rel_phase by blast
  then show False using assms(1) cyc by (auto simp: closed_off_def finished_def)
qed

lemma validate_cycle_detection_acyclic:
  obtains es where "validate_cycle_detection ast = Some es"
    and "es = [] \<longleftrightarrow> acyclic (dep_rel (dependency_map ast))"
proof -
  let ?adj = "dependency_map ast"
  obtain es where es: "validate_cycle_detection ast = Some es"
      "es \<noteq> [] \<longrightarrow> \<not> acyclic (dep_rel ?adj)"
      "es = [] \<longrightarrow> (\<exists>visited'. ph_name ` set (ast_phases ast) \<subseteq> visited'
            \<and> closed_off ?adj \<lparr>df_visited = visited', df_in_stack = {}, df_path = []\<rparr>)"
    using cycle_loop_spec [OF order_refl, of ast "{}"]
    by (auto simp: validate_cycle_detection_def closed_off_def finished_def)
  have "acyclic (dep_rel ?adj)" if "es = []"
    using es(3) that closed_off_acyclic by blast
  then show thesis using that es(1,2) by blast
qed

section \<open>Reachability\<close>

text \<open>For phases with distinct names the map holds the dependencies of each phase.\<close>

lemma dep_rel_phases:
  assumes "distinct (map ph_name (ast_phases ast))"
  shows "dep_rel (dependency_map ast)
    = {(ph_name ph, d) | ph d. ph \<in> set (ast_phases ast) \<and> d \<in> set (phase_dependencies ph)}"
proof -
  have same: "ph = ph'" if "ph \<in> set (ast_phases ast)" "ph' \<in> set (ast_phases ast)"
      "ph_name ph = ph_name ph'" for ph ph'
    using assms that by (auto simp: distinct_map inj_on_def)
  show ?thesis (is "?L = ?R")
  proof (rule set_eqI, clarify)
    fix n d
    show "(n, d) \<in> ?L \<longleftrightarrow> (n, d) \<in> ?R"
    proof (cases "hm_get (dependency_map ast) n")
      case None
      then show ?thesis using dependency_map_phase by (fastforce simp: dep_rel_def)
    next
      case (Some ds)
      then obtain ph where "ph \<in> set (ast_phases ast)" "ph_name ph = n" "ds = phase_dependencies ph"
        by (rule dependency_map_Some)
      then show ?thesis using Some same by (auto simp: dep_rel_def)
    qed
  qed
qed

abbreviation visited_only :: "string set \<Rightarrow> dfs_state" where
  "visited_only R \<equiv> \<lparr>df_visited = R, df_in_stack = {}, df_path = []\<rparr>"

lemma closed_off_insert:
  assumes "closed_off adj (visited_only R)" "dep_rel adj `` {n} \<subseteq> R"
  shows "closed_off adj (visited_only (insert n R))"
proof (cases "n \<in> R")
  case False
  then have "closed_off adj \<lparr>df_visited = insert n R, df_in_stack = {n}, df_path = [n]\<rparr>"
    using assms by (simp add: closed_off_def finished_def)
  then show ?thesis
    using finish_node(1) [of adj "\<lparr>df_visited = insert n R, df_in_stack = {n}, df_path = [n]\<rparr>" "[]" n]
      assms(2) False by (simp add: on_path_def finished_def)
qed (use assms in \<open>simp add: insert_absorb\<close>)

lemma reach_round_closed:
  assumes "distinct (map ph_name (ast_phases ast))" "set phs \<subseteq> set (ast_phases ast)"
    and "\<And>ph d. ph \<in> set (ast_phases ast) \<Longrightarrow> d \<in> set (phase_dependencies ph) \<Longrightarrow> d \<in> phase_name_set ast"
    and "closed_off (dependency_map ast) (visited_only R)"
    and "reach_round (phase_name_set ast) phs (R, c) = (R', c')"
  shows "closed_off (dependency_map ast) (visited_only R')"
  using assms(2,4,5)
proof (induction phs arbitrary: R c)
  case (Cons ph phs)
  have deps: "dep_rel (dependency_map ast) `` {ph_name ph} = set (phase_dependencies ph)"
    using Cons.prems(1) assms(1) by (auto simp: dep_rel_phases distinct_map inj_on_def)
  show ?case
  proof (cases "ph_name ph \<in> R \<or> \<not> list_all (\<lambda>d. d \<notin> phase_name_set ast \<or> d \<in> R) (phase_dependencies ph)")
    case True
    then show ?thesis using Cons by (auto split: if_splits)
  next
    case False
    then have "set (phase_dependencies ph) \<subseteq> R"
      using assms(3) Cons.prems(1) by (auto simp: list_all_iff)
    then have "closed_off (dependency_map ast) (visited_only (insert (ph_name ph) R))"
      using closed_off_insert Cons.prems(2) deps by simp
    then show ?thesis using Cons.IH False Cons.prems by simp
  qed
qed simp

lemma reach_round_fixed:
  "reach_round names phs (R, False) = (R', False) \<Longrightarrow> ph \<in> set phs \<Longrightarrow>
   list_all (\<lambda>d. d \<notin> names \<or> d \<in> R) (phase_dependencies ph) \<Longrightarrow> ph_name ph \<in> R' \<and> R' = R"
proof (induction phs)
  case (Cons q phs)
  have R: "R' = R" using reach_round_mono [OF Cons.prems(1)] by blast
  have "\<not> (\<exists>R''. reach_round names phs (insert (ph_name q) R, True) = (R'', False))"
    using reach_round_mono by blast
  then show ?case using Cons R by (auto split: if_splits)
qed simp

lemma reach_loop_spec:
  assumes "distinct (map ph_name (ast_phases ast))"
    and "\<And>ph d. ph \<in> set (ast_phases ast) \<Longrightarrow> d \<in> set (phase_dependencies ph) \<Longrightarrow> d \<in> phase_name_set ast"
    and "closed_off (dependency_map ast) (visited_only R)"
  shows "closed_off (dependency_map ast) (visited_only (reach_loop (ast_phases ast) R))
    \<and> (\<forall>ph \<in> set (ast_phases ast). set (phase_dependencies ph) \<subseteq> reach_loop (ast_phases ast) R \<longrightarrow>
         ph_name ph \<in> reach_loop (ast_phases ast) R)"
  using assms(3)
proof (induction "ast_phases ast" R rule: reach_loop.induct)
  case (1 R)
  obtain R' c where round: "reach_round (phase_name_set ast) (ast_phases ast) (R, False) = (R', c)"
    by (meson surj_pair)
  have closed: "closed_off (dependency_map ast) (visited_only R')"
    using reach_round_closed [OF assms(1) order_refl assms(2) 1(2) round] .
  have loop: "reach_loop (ast_phases ast) R = (if c then reach_loop (ast_phases ast) R' else R')"
    using round by (simp add: reach_loop.simps [of _ R] phase_name_set_def)
  show ?case
  proof (cases c)
    case True
    then show ?thesis using 1(1) [of R' c] round closed loop by (simp add: phase_name_set_def)
  next
    case False
    then have "R' = R" using reach_round_mono [OF round] by blast
    then show ?thesis
      using reach_round_fixed [of "phase_name_set ast" "ast_phases ast" R R'] round False closed loop
      by (auto simp: list_all_iff subset_iff)
  qed
qed

lemma validate_reachability_acyclic:
  assumes "distinct (map ph_name (ast_phases ast))"
    and "\<And>ph d. ph \<in> set (ast_phases ast) \<Longrightarrow> d \<in> set (phase_dependencies ph) \<Longrightarrow> d \<in> phase_name_set ast"
  shows "validate_reachability ast = [] \<longleftrightarrow> acyclic (dep_rel (dependency_map ast))"
proof -
  let ?E = "dep_rel (dependency_map ast)"
  let ?roots = "set (map ph_name (filter (\<lambda>ph. phase_dependencies ph = []) (ast_phases ast)))"
  let ?R = "reach_loop (ast_phases ast) ?roots"
  have "?E `` ?roots = {}"
    using assms(1) by (auto simp: dep_rel_phases [OF assms(1)] distinct_map inj_on_def)
  then have none: "?E `` {n} = {}" if "n \<in> ?roots" for n
    using that by blast
  have "(n, n) \<notin> ?E\<^sup>+" if "n \<in> ?roots" for n
  proof
    assume "(n, n) \<in> ?E\<^sup>+"
    then obtain d where "(n, d) \<in> ?E" by (meson tranclD)
    then show False using none [OF that] by blast
  qed
  with none have start: "closed_off (dependency_map ast) (visited_only ?roots)"
    unfolding closed_off_def finished_def by simp
  have R: "closed_off (dependency_map ast) (visited_only ?R)
    \<and> (\<forall>ph \<in> set (ast_phases ast). set (phase_dependencies ph) \<subseteq> ?R \<longrightarrow> ph_name ph \<in> ?R)"
    by (rule reach_loop_spec [OF assms(1) _ start]) (rule assms(2))
  have reached: "validate_reachability ast = [] \<longleftrightarrow> phase_name_set ast \<subseteq> ?R"
    by (auto simp: validate_reachability_def Let_def check_that_def phase_name_set_def)
  show ?thesis
  proof
    assume "validate_reachability ast = []"
    then have "ph_name ` set (ast_phases ast) \<subseteq> ?R" using reached by (simp add: phase_name_set_def)
    then show "acyclic ?E" by (rule closed_off_acyclic [OF conjunct1 [OF R]])
  next
    assume acyc: "acyclic ?E"
    have "finite ?E"
    proof (rule finite_subset)
      show "?E \<subseteq> all_names ast \<times> all_names ast"
        by (auto simp: dep_rel_phases [OF assms(1)] all_names_def)
    qed (simp add: all_names_bound)
    then have "wf (?E\<inverse>)" using acyc by (rule finite_acyclic_wf_converse)
    then have "n \<in> phase_name_set ast \<longrightarrow> n \<in> ?R" for n
    proof (induction n rule: wf_induct_rule)
      case (less n)
      show ?case
      proof
        assume "n \<in> phase_name_set ast"
        then obtain ph where ph: "ph \<in> set (ast_phases ast)" "ph_name ph = n"
          by (auto simp: phase_name_set_def)
        then have "d \<in> ?R" if "d \<in> set (phase_dependencies ph)" for d
          using less [of d] that assms(2) [OF ph(1) that] by (auto simp: dep_rel_phases [OF assms(1)])
        then show "n \<in> ?R" using R ph by blast
      qed
    qed
    then show "validate_reachability ast = []" using reached by blast
  qed
qed

end
