(* ===== verification/Validator_Correct.thy ===== *)
theory Validator_Correct
  imports Cycle_Detection
begin

text \<open>
  What the validator guarantees to the compiler: a part of a policy for which it reports no error
  compiles, without an error and without reaching an \<open>unreachable!\<close>. Two parts it does not look
  at: the condition of \<open>create_if\<close> and the loudness settings of \<open>keep\<close>.
\<close>

section \<open>Reports without errors\<close>

lemma rep_simps [simp]:
  "fst (rep_errors es) = es" "fst (rep_concat rs) = concat (map fst rs)"
  by (simp_all add: rep_errors_def rep_concat_def)

lemma check_that_Nil [simp]: "check_that ok e = [] \<longleftrightarrow> ok"
  by (simp add: check_that_def)

lemma opt_report_Nil: "fst (opt_report f x) = [] \<longleftrightarrow> (\<forall>y. x = Some y \<longrightarrow> fst (f y) = [])"
  by (cases x) (auto simp: opt_report_def)

definition succeeds :: "'e + 'a \<Rightarrow> bool" where
  "succeeds r \<longleftrightarrow> (\<exists>x. r = Inr x)"

lemma succeeds_simps [simp]:
  "succeeds (Inr x)" "\<not> succeeds (Inl e)" "succeeds (res_map f r) \<longleftrightarrow> succeeds r"
  by (auto simp: succeeds_def res_map_Inr)

lemma succeeds_bind: "succeeds r \<Longrightarrow> (\<And>x. r = Inr x \<Longrightarrow> succeeds (f x)) \<Longrightarrow> succeeds (res_bind r f)"
  by (auto simp: succeeds_def)

lemma succeeds_map_result: "(\<And>x. x \<in> set xs \<Longrightarrow> succeeds (f x)) \<Longrightarrow> succeeds (map_result f xs)"
  unfolding succeeds_def
  by (metis map_result_Inl sum.exhaust Inl_Inr_False)

lemma succeeds_opt_result: "(\<And>y. x = Some y \<Longrightarrow> succeeds (f y)) \<Longrightarrow> succeeds (opt_result f x)"
  by (cases x) (auto simp: opt_result_def succeeds_def)

section \<open>Parts that are valid compile\<close>

lemma valid_track_target: "validate_track_target t line col = [] \<Longrightarrow> succeeds (parse_track_target t)"
  by (auto simp: validate_track_target_def parse_track_target_def)

lemma valid_filter: "fst (validate_filter E line col names f) = [] \<Longrightarrow> succeeds (compile_filter E f)"
  by (induction E line col names f rule: validate_filter.induct)
    (auto intro: succeeds_map_result)

lemma valid_target_filter:
  "fst (validate_target_filter E line col names t f) = [] \<Longrightarrow>
   succeeds (compile_target_filter E t f build)"
  by (auto simp: validate_target_filter_def compile_target_filter_def opt_report_Nil
      intro!: succeeds_bind succeeds_opt_result valid_track_target valid_filter)

lemma valid_condition:
  "fst (validate_condition E line col names c) = [] \<Longrightarrow> succeeds (compile_condition E c)"
  by (induction E line col names c rule: validate_condition.induct)
    (auto intro: succeeds_map_result valid_target_filter)

lemma valid_action:
  "fst (validate_action E line col names a) = [] \<Longrightarrow> succeeds (compile_action E a)"
  by (auto simp: validate_action_def compile_action_def intro: valid_target_filter
      split: action_node.splits)

lemma valid_when: "fst (validate_when E names w) = [] \<Longrightarrow> succeeds (compile_conditional E w)"
  by (auto simp: validate_when_def Let_def compile_conditional_def
      intro!: succeeds_bind succeeds_map_result valid_condition valid_action)

lemma valid_normalize: "validate_normalize_setting s line col = [] \<Longrightarrow> succeeds (compile_normalize s)"
  by (auto simp: validate_normalize_setting_def compile_normalize_def)

text \<open>The parts of an operation that the validator skips.\<close>

definition skipped_parts_valid :: "dsl_env \<Rightarrow> string set \<Rightarrow> operation_node \<Rightarrow> bool" where
  "skipped_parts_valid E names op =
     (case op of
        NKeep _ _ (Some setting) \<Rightarrow> validate_normalize_setting setting 0 0 = []
      | NSynthesize _ settings \<Rightarrow>
          (\<forall>c. SSCreateIf c \<in> set settings \<longrightarrow> fst (validate_condition E 0 0 names c) = [])
      | _ \<Rightarrow> True)"

lemma valid_synth_settings:
  assumes "\<And>s. s \<in> set ss \<Longrightarrow> fst (validate_synth_setting E line col names s) = []"
    and "\<And>c. SSCreateIf c \<in> set ss \<Longrightarrow> fst (validate_condition E 0 0 names c) = []"
  shows "succeeds (compile_synth_settings E ss synth)"
  using assms
proof (induction ss arbitrary: synth)
  case (Cons s ss)
  have "fst (validate_synth_setting E line col names s) = []" using Cons.prems(1) by simp
  moreover have "s = SSCreateIf c \<Longrightarrow> succeeds (compile_condition E c)" for c
    using valid_condition [OF Cons.prems(2) [of c]] by simp
  ultimately have "succeeds (compile_synth_setting E synth s)" for synth
    by (cases s) (auto simp: validate_synth_setting_def compile_synth_setting_def
        intro: valid_filter valid_normalize)
  then show ?case using Cons by (auto intro: succeeds_bind)
qed simp

lemma valid_operation:
  assumes "fst (validate_operation E line col names op) = []" "skipped_parts_valid E names op"
  shows "succeeds (compile_operation E op)"
proof (cases op)
  case (NContainer name)
  with assms show ?thesis by (auto simp: validate_operation_def compile_operation_def)
next
  case (NKeep target flt setting)
  have "succeeds (compile_target_filter E target flt Pair)"
    using assms(1) NKeep by (auto simp: validate_operation_def intro: valid_target_filter)
  moreover have "setting = Some s \<Longrightarrow> succeeds (compile_normalize s)" for s
    using assms(2) NKeep by (auto simp: skipped_parts_valid_def intro: valid_normalize)
  ultimately show ?thesis
    unfolding NKeep compile_operation_def
    by (auto intro!: succeeds_bind split: option.split)
next
  case (NDefaults items)
  have "succeeds (compile_default kv)" if "kv \<in> set items" for kv
  proof -
    have "fst kv = ''audio'' \<or> fst kv = ''subtitle''"
      using assms(1) NDefaults that by (auto simp: validate_operation_def validate_default_item_def)
    then show ?thesis by (auto simp: compile_default_def parse_track_target_def)
  qed
  then show ?thesis by (simp add: NDefaults compile_operation_def succeeds_map_result)
next
  case (NActions target settings)
  with assms show ?thesis
    by (auto simp: validate_operation_def compile_operation_def intro: valid_track_target)
next
  case (NTranscode target codec settings)
  with assms show ?thesis
    by (auto simp: validate_operation_def validate_transcode_operation_def compile_operation_def
        compile_transcode_def Let_def intro: valid_track_target split: if_splits)
next
  case (NSynthesize name settings)
  with assms have "succeeds (compile_synthesize E name settings)"
    unfolding compile_synthesize_def
    by (intro valid_synth_settings [of _ E line col names])
      (auto simp: validate_operation_def validate_synthesize_operation_def skipped_parts_valid_def)
  then show ?thesis by (simp add: NSynthesize compile_operation_def)
next
  case (NRules mode rules)
  have "succeeds (map_result (compile_rule E) rules)"
    using assms(1) NRules
    by (intro succeeds_map_result)
      (auto simp: validate_operation_def compile_rule_def intro: valid_when)
  moreover have "mode = ''first'' \<or> mode = ''all''"
    using assms(1) NRules by (simp add: validate_operation_def)
  ultimately show ?thesis
    unfolding NRules compile_operation_def by (auto intro!: succeeds_bind)
qed (use assms in \<open>auto simp: validate_operation_def compile_operation_def
      intro: valid_target_filter valid_when\<close>)

lemma valid_phase:
  assumes "fst (validate_phase E names ph) = []"
    and "\<And>s. s \<in> set (ph_operations ph) \<Longrightarrow> skipped_parts_valid E names (so_node s)"
  shows "succeeds (compile_phase E composition ph)"
proof -
  have "\<not> ph_extend ph" using assms(1) by (simp add: validate_phase_def)
  moreover have "succeeds (opt_result (compile_condition E) (ph_skip_when ph))"
    using assms(1) by (intro succeeds_opt_result)
      (auto simp: validate_phase_def opt_report_Nil intro: valid_condition)
  moreover have "succeeds (map_result (\<lambda>s. compile_operation E (so_node s)) (ph_operations ph))"
    using assms by (intro succeeds_map_result) (auto simp: validate_phase_def intro: valid_operation)
  ultimately show ?thesis by (auto simp: compile_phase_def intro: succeeds_bind)
qed

section \<open>Names and references\<close>

lemma duplicate_names_Nil:
  "duplicate_names seen phs = [] \<longleftrightarrow> distinct (map ph_name phs) \<and> ph_name ` set phs \<inter> seen = {}"
  by (induction phs arbitrary: seen) auto

lemma validate_phase_names_Nil:
  "validate_phase_names ast = [] \<longleftrightarrow> distinct (map ph_name (ast_phases ast))"
  by (simp add: validate_phase_names_def duplicate_names_Nil)

lemma validate_phase_references_Nil:
  "validate_phase_references ast = [] \<longleftrightarrow>
     (\<forall>ph \<in> set (ast_phases ast).
        (\<forall>d \<in> set (phase_dependencies ph). d \<in> phase_name_set ast \<and> d \<noteq> ph_name ph)
        \<and> (\<forall>r. ph_run_if ph = Some r \<longrightarrow> ri_phase r \<in> phase_name_set ast))"
  by (auto simp: validate_phase_references_def split: option.splits)

lemma ast_graph_names: "map fst (ast_graph ast) = map ph_name (ast_phases ast)"
  by (simp add: ast_graph_def)

lemma dep_edges_ast_graph:
  assumes "distinct (map ph_name (ast_phases ast))"
  shows "set (dep_edges (ast_graph ast)) = (dep_rel (dependency_map ast))\<inverse>"
  by (auto simp: dep_edges_def ast_graph_def dep_rel_phases [OF assms])

text \<open>A policy without errors.\<close>

lemma validate_Ok:
  "validate E ast = Some (Inr ()) \<longleftrightarrow>
     validate_config ast = [] \<and> validate_phase_names ast = [] \<and> validate_phase_references ast = []
     \<and> validate_cycle_detection ast = Some [] \<and> validate_reachability ast = []
     \<and> (\<forall>ph \<in> set (ast_phases ast). fst (validate_phase E (phase_name_set ast) ph) = [])"
  by (auto simp: validate_def validate_with_warnings_def split_def Let_def split: option.splits if_splits)

lemma validate_total: "validate E ast \<noteq> None"
proof -
  obtain es where "validate_cycle_detection ast = Some es" by (rule validate_cycle_detection_acyclic)
  then show ?thesis by (simp add: validate_def validate_with_warnings_def split_def Let_def)
qed

lemma validated_order:
  assumes "pp_bounded pp" "validate E ast = Some (Inr ())"
  shows "succeeds (topological_sort pp (ast_graph ast))"
proof -
  from assms(2) have ok: "distinct (map ph_name (ast_phases ast))"
      "validate_phase_references ast = []" "validate_cycle_detection ast = Some []"
    by (simp_all add: validate_Ok validate_phase_names_Nil)
  obtain es where "validate_cycle_detection ast = Some es"
      "es = [] \<longleftrightarrow> acyclic (dep_rel (dependency_map ast))"
    by (rule validate_cycle_detection_acyclic)
  with ok(3) have "acyclic (set (dep_edges (ast_graph ast)))"
    by (simp add: dep_edges_ast_graph [OF ok(1)] acyclic_converse)
  moreover have "d \<in> fst ` set (ast_graph ast)" if "(d, n) \<in> set (dep_edges (ast_graph ast))" for d n
    using ok(2) that
    by (auto simp: validate_phase_references_Nil dep_edges_def ast_graph_def phase_name_set_def image_image)
  ultimately show ?thesis
    using topo_complete [OF assms(1), of "ast_graph ast"] ok(1)
    unfolding succeeds_def by (simp add: ast_graph_names)
qed

end
