(* ===== verification/Composition_Props.thy ===== *)
theory Composition_Props
  imports Composition
begin

text \<open>
  What policy inheritance does: the merged phases in closed form, the origin recorded for each of
  them, and that the resolution of a chain of parents always ends.
\<close>

section \<open>The closed form of a merge\<close>

definition child_phase :: "phase_node list \<Rightarrow> string \<Rightarrow> phase_node option" where
  "child_phase children name = find (\<lambda>c. ph_name c = name) children"

text \<open>What becomes of a parent phase.\<close>

definition merged_phase :: "phase_node list \<Rightarrow> phase_node \<Rightarrow> phase_node" where
  "merged_phase children p =
     (case child_phase children (ph_name p) of
        None \<Rightarrow> clear_extend p
      | Some c \<Rightarrow> if ph_extend c then extend_phase p c else clear_extend c)"

definition new_phases :: "phase_node list \<Rightarrow> phase_node list \<Rightarrow> phase_node list" where
  "new_phases parents children = filter (\<lambda>c. ph_name c \<notin> ph_name ` set parents) children"

definition parent_label :: "resolved_policy_ast \<Rightarrow> string \<Rightarrow> string" where
  "parent_label parent name =
     (case hm_get (ra_phase_sources parent) name of
        None \<Rightarrow> source_label (ra_source_id parent)
      | Some composition \<Rightarrow> phase_source_label composition (ra_source_id parent))"

definition merged_origin ::
  "resolved_policy_ast \<Rightarrow> phase_node list \<Rightarrow> string \<Rightarrow> string \<Rightarrow> phase_composition" where
  "merged_origin parent children child_source name =
     (case child_phase children name of
        None \<Rightarrow> PCInherited (parent_label parent name)
      | Some c \<Rightarrow>
          (if ph_extend c then PCExtended (parent_label parent name) (length (ph_operations c))
           else PCOverridden child_source))"

lemma ph_name_clear_extend [simp]: "ph_name (clear_extend p) = ph_name p"
  by (simp add: clear_extend_def)

lemma ph_name_extend_phase [simp]: "ph_name (extend_phase p c) = ph_name p"
  by (simp add: extend_phase_def)

lemma child_phase_name: "child_phase children name = Some c \<Longrightarrow> ph_name c = name"
  by (auto simp: child_phase_def find_Some_iff)

lemma ph_name_merged_phase [simp]: "ph_name (merged_phase children p) = ph_name p"
  by (auto simp: merged_phase_def child_phase_name split: option.split)

lemma no_extend_merged [simp]:
  "\<not> ph_extend (clear_extend p)" "\<not> ph_extend (merged_phase children p)"
  by (auto simp: merged_phase_def clear_extend_def extend_phase_def split: option.split)

text \<open>The search for an unused child phase of a name finds the one that has it.\<close>

lemma find_unconsumed:
  assumes "distinct (map ph_name cs)"
    and "\<And>i. i < length cs \<Longrightarrow> consumed ! i \<longleftrightarrow> ph_name (cs ! i) \<in> N" and "name \<notin> N"
  shows "map_option (\<lambda>i. cs ! i)
           (find (\<lambda>i. \<not> consumed ! i \<and> ph_name (cs ! i) = name) [0..<length cs])
         = child_phase cs name"
proof (cases "find (\<lambda>i. \<not> consumed ! i \<and> ph_name (cs ! i) = name) [0..<length cs]")
  case None
  then have "\<forall>c \<in> set cs. ph_name c \<noteq> name"
    using assms(2,3) by (auto simp: find_None_iff in_set_conv_nth)
  then have "child_phase cs name = None" by (auto simp: child_phase_def find_None_iff)
  then show ?thesis by (simp add: None)
next
  case (Some i)
  then have i: "i < length cs" "ph_name (cs ! i) = name" by (auto simp: find_Some_iff)
  have "ph_name (cs ! j) \<noteq> name" if "j < i" for j
    using nth_eq_iff_index_eq [OF assms(1), of j i] i that by auto
  then have "child_phase cs name = Some (cs ! i)"
    unfolding child_phase_def find_Some_iff using i by blast
  then show ?thesis by (simp add: Some)
qed

text \<open>The loop over the parent phases.\<close>

definition merging ::
  "resolved_policy_ast \<Rightarrow> phase_node list \<Rightarrow> string \<Rightarrow> phase_node list \<Rightarrow> merge_state \<Rightarrow> bool" where
  "merging parent cs child_source ps st \<longleftrightarrow>
     length (ms_consumed st) = length cs
     \<and> (\<forall>i < length cs. ms_consumed st ! i \<longleftrightarrow> ph_name (cs ! i) \<in> ph_name ` set ps)
     \<and> ms_phases st = map (merged_phase cs) ps
     \<and> (\<forall>n. hm_get (ms_sources st) n =
             (if n \<in> ph_name ` set ps then Some (merged_origin parent cs child_source n) else None))"

lemma merging_step:
  assumes "merging parent cs src ps st" "distinct (map ph_name cs)" "ph_name p \<notin> ph_name ` set ps"
  shows "merging parent cs src (ps @ [p]) (merge_parent_phase parent cs src st p)"
proof -
  let ?found = "find (\<lambda>i. \<not> ms_consumed st ! i \<and> ph_name (cs ! i) = ph_name p) [0..<length cs]"
  from assms(1) have consumed:
    "\<And>i. i < length cs \<Longrightarrow> ms_consumed st ! i \<longleftrightarrow> ph_name (cs ! i) \<in> ph_name ` set ps"
    and len: "length (ms_consumed st) = length cs"
    by (simp_all add: merging_def)
  have found: "map_option (\<lambda>i. cs ! i) ?found = child_phase cs (ph_name p)"
    using find_unconsumed [OF assms(2) _ assms(3)] consumed by blast
  show ?thesis
  proof (cases ?found)
    case None
    then have none: "child_phase cs (ph_name p) = None" using found by simp
    then have "\<forall>c \<in> set cs. ph_name c \<noteq> ph_name p"
      by (auto simp: child_phase_def find_None_iff)
    then show ?thesis
      using assms(1) None none
      by (auto simp: merging_def merge_parent_phase_def Let_def merged_phase_def merged_origin_def
          parent_label_def)
  next
    case (Some i)
    then have i: "i < length cs" "ph_name (cs ! i) = ph_name p" by (auto simp: find_Some_iff)
    from found Some have c: "child_phase cs (ph_name p) = Some (cs ! i)" by simp
    have only: "ph_name (cs ! j) = ph_name p \<longleftrightarrow> j = i" if "j < length cs" for j
      using nth_eq_iff_index_eq [OF assms(2), of j i] i that by auto
    show ?thesis
      using assms(1) Some c i only
      by (auto simp: merging_def merge_parent_phase_def Let_def merged_phase_def merged_origin_def
          parent_label_def nth_list_update)
  qed
qed

lemma merging_loop:
  assumes "distinct (map ph_name cs)" "distinct (map ph_name ps)"
  shows "merging parent cs src ps
    (foldl (merge_parent_phase parent cs src)
       \<lparr>ms_consumed = replicate (length cs) False, ms_phases = [], ms_sources = []\<rparr> ps)"
  using assms(2)
proof (induction ps rule: rev_induct)
  case Nil
  then show ?case by (simp add: merging_def)
next
  case (snoc p ps)
  then show ?case using merging_step [OF _ assms(1)] by auto
qed

text \<open>The loop over the child phases.\<close>

lemma merge_child_phases_eq:
  assumes "\<And>i. i < length cs \<Longrightarrow> ms_consumed st ! (k + i) \<longleftrightarrow> ph_name (cs ! i) \<in> N"
  shows "merge_child_phases (enumerate k cs) st =
    (case find (\<lambda>c. ph_name c \<notin> N \<and> ph_extend c) cs of
       Some c \<Rightarrow> Inl (compile_error
         (''phase '' @ dquoted (ph_name c) @ '' uses extend but no parent phase exists''))
     | None \<Rightarrow> Inr (st\<lparr>ms_phases := ms_phases st @ map clear_extend (filter (\<lambda>c. ph_name c \<notin> N) cs),
                      ms_sources := foldl (\<lambda>m c. hm_insert (ph_name c) PCLocal m) (ms_sources st)
                        (filter (\<lambda>c. ph_name c \<notin> N) cs)\<rparr>))"
  using assms
proof (induction cs arbitrary: k st)
  case (Cons c cs)
  have head: "ms_consumed st ! k \<longleftrightarrow> ph_name c \<in> N" using Cons.prems [of 0] by simp
  have tail: "\<And>i. i < length cs \<Longrightarrow> ms_consumed st ! (Suc k + i) \<longleftrightarrow> ph_name (cs ! i) \<in> N"
    using Cons.prems [of "Suc _"] by simp
  show ?case
    using head Cons.IH [of st "Suc k"] Cons.IH [of "st\<lparr>ms_phases := _, ms_sources := _\<rparr>" "Suc k"] tail
    by (simp split: option.split)
qed simp

lemma foldl_local:
  "hm_get (foldl (\<lambda>m c. hm_insert (ph_name c) PCLocal m) m cs) n
     = (if n \<in> ph_name ` set cs then Some PCLocal else hm_get m n)"
  by (induction cs arbitrary: m) auto

lemma find_filter: "find P (filter Q xs) = find (\<lambda>x. Q x \<and> P x) xs"
  by (induction xs) auto

lemma merge_policy_eq:
  assumes "distinct (map ph_name (ast_phases (ra_ast parent)))" "distinct (map ph_name (ast_phases child))"
  shows "case find ph_extend (new_phases (ast_phases (ra_ast parent)) (ast_phases child)) of
      Some c \<Rightarrow> merge_policy parent child sid = Inl (compile_error
         (''phase '' @ dquoted (ph_name c) @ '' uses extend but no parent phase exists''))
    | None \<Rightarrow> (\<exists>r. merge_policy parent child sid = Inr r
        \<and> ast_phases (ra_ast r) =
            map (merged_phase (ast_phases child)) (ast_phases (ra_ast parent))
            @ map clear_extend (new_phases (ast_phases (ra_ast parent)) (ast_phases child))
        \<and> ast_extends (ra_ast r) = None \<and> ra_source_id r = sid
        \<and> ra_extends_chain r = ra_extends_chain parent @ [source_label (ra_source_id parent)]
        \<and> (\<forall>n. hm_get (ra_phase_sources r) n =
             (if n \<in> ph_name ` set (ast_phases (ra_ast parent))
              then Some (merged_origin parent (ast_phases child) (source_label sid) n)
              else if n \<in> ph_name ` set (ast_phases child) then Some PCLocal else None)))"
proof -
  let ?ps = "ast_phases (ra_ast parent)" and ?cs = "ast_phases child"
  let ?st = "foldl (merge_parent_phase parent ?cs (source_label sid))
       \<lparr>ms_consumed = replicate (length ?cs) False, ms_phases = [], ms_sources = []\<rparr> ?ps"
  have m: "merging parent ?cs (source_label sid) ?ps ?st"
    using merging_loop [OF assms(2,1)] .
  then have eq: "merge_child_phases (enumerate 0 ?cs) ?st =
      (case find (\<lambda>c. ph_name c \<notin> ph_name ` set ?ps \<and> ph_extend c) ?cs of
       Some c \<Rightarrow> Inl (compile_error
         (''phase '' @ dquoted (ph_name c) @ '' uses extend but no parent phase exists''))
     | None \<Rightarrow> Inr (?st\<lparr>ms_phases := ms_phases ?st @ map clear_extend (new_phases ?ps ?cs),
                      ms_sources := foldl (\<lambda>m c. hm_insert (ph_name c) PCLocal m) (ms_sources ?st)
                        (new_phases ?ps ?cs)\<rparr>))"
    unfolding new_phases_def by (intro merge_child_phases_eq) (simp add: merging_def)
  have find: "find ph_extend (new_phases ?ps ?cs)
      = find (\<lambda>c. ph_name c \<notin> ph_name ` set ?ps \<and> ph_extend c) ?cs"
    by (simp add: new_phases_def find_filter)
  have names: "ph_name ` set (new_phases ?ps ?cs) = ph_name ` set ?cs - ph_name ` set ?ps"
    by (auto simp: new_phases_def)
  show ?thesis
    using m by (auto simp: find merge_policy_def Let_def eq merging_def foldl_local names
        split: option.split)
qed

section \<open>Resolution ends\<close>

text \<open>The sources that can be resolved at all.\<close>

definition readable_files :: "policy_sources \<Rightarrow> string set" where
  "readable_files S = {p. \<exists>t. read_to_string S p = Inr t}"

definition readable_sources :: "policy_sources \<Rightarrow> policy_source_id set" where
  "readable_sources S = SrcBundled ` set bundled_policy_names \<union> SrcFile ` readable_files S"

lemma card_readable_sources:
  assumes "finite (readable_files S)"
  shows "finite (readable_sources S)" "card (readable_sources S) \<le> 5 + card (readable_files S)"
proof -
  show "finite (readable_sources S)" using assms by (simp add: readable_sources_def)
  have "card (SrcBundled ` set bundled_policy_names) \<le> 5"
    by (rule order_trans [OF card_image_le]) (simp_all add: bundled_policy_names_def)
  moreover have "card (SrcFile ` readable_files S) \<le> card (readable_files S)"
    using assms by (rule card_image_le)
  ultimately show "card (readable_sources S) \<le> 5 + card (readable_files S)"
    unfolding readable_sources_def
    by (intro order_trans [OF card_Un_le]) simp
qed

lemma bundled_policy_Some: "bundled_policy S name = Some t \<Longrightarrow> name \<in> set bundled_policy_names"
  by (auto simp: bundled_policy_def split: if_splits dest!: find_map_Some set_zip_leftD)

lemma push_source_Inr:
  "push_source sid stack = Inr stack' \<Longrightarrow> sid \<notin> set stack \<and> stack' = stack @ [sid]"
  by (auto simp: push_source_def position_None split: option.splits)

text \<open>Every source that is entered leaves fewer sources to enter.\<close>

lemma card_push:
  assumes "finite U" "sid \<in> U" "sid \<notin> set stack"
  shows "card (U - set (stack @ [sid])) < card (U - set stack)"
  using assms by (intro psubset_card_mono) auto

lemma resolve_total:
  assumes "finite (readable_sources S)"
  shows "card (readable_sources S - set stack) \<le> fuel \<Longrightarrow>
      resolve_file_path S fuel path allow stack \<noteq> None"
    and "card (readable_sources S - set stack) \<le> fuel \<Longrightarrow>
      resolve_bundled_policy S fuel name allow stack \<noteq> None"
    and "card (readable_sources S - set stack) < fuel \<Longrightarrow>
      resolve_ast S fuel ast sid base allow stack \<noteq> None"
  using assms
proof (induction S fuel path allow stack and S fuel name allow stack
    and S fuel ast sid base allow stack
    rule: resolve_file_path_resolve_bundled_policy_resolve_ast.induct)
  case (1 S fuel path allow stack)
  show ?case
  proof (cases "push_source (SrcFile path) stack")
    case (Inr stack')
    note push = push_source_Inr [OF this]
    show ?thesis
    proof (cases "read_to_string S path")
      case (Inr source)
      then have "SrcFile path \<in> readable_sources S"
        by (auto simp: readable_sources_def readable_files_def)
      with push 1(2,3) have "card (readable_sources S - set stack') < fuel"
        using card_push [of "readable_sources S" "SrcFile path" stack] by simp
      then show ?thesis
        using 1(1) [OF refl \<open>push_source _ _ = _\<close> Inr] 1(3) Inr \<open>push_source _ _ = _\<close>
        by (auto simp: resolve_file_path.simps [of S fuel path] split: sum.split)
    qed (simp add: resolve_file_path.simps [of S fuel path] Inr)
  qed (simp add: resolve_file_path.simps [of S fuel path])
next
  case (2 S fuel name allow stack)
  show ?case
  proof (cases "push_source (SrcBundled name) stack")
    case (Inr stack')
    note push = push_source_Inr [OF this]
    show ?thesis
    proof (cases "bundled_policy S name")
      case (Some source)
      then have "SrcBundled name \<in> readable_sources S"
        by (auto simp: readable_sources_def dest: bundled_policy_Some)
      with push 2(2,3) have "card (readable_sources S - set stack') < fuel"
        using card_push [of "readable_sources S" "SrcBundled name" stack] by simp
      then show ?thesis
        using 2(1) [OF refl \<open>push_source _ _ = _\<close> Some] 2(3) Some \<open>push_source _ _ = _\<close>
        by (auto simp: resolve_bundled_policy.simps [of S fuel name] split: sum.split)
    qed (simp add: resolve_bundled_policy.simps [of S fuel name] Inr)
  qed (simp add: resolve_bundled_policy.simps [of S fuel name])
next
  case (4 S fuel ast sid base allow stack)
  have card: "card (readable_sources S - set stack) \<le> fuel" using 4(3) by simp
  show ?case
  proof (cases "ast_extends ast")
    case None
    then show ?thesis by (simp add: resolve_ast.simps(2))
  next
    case (Some e)
    show ?thesis
    proof (cases e)
      case (ExtBundled name)
      with Some have "str_contains name ''://'' \<or>
          resolve_bundled_policy S fuel name allow stack \<noteq> None"
        using 4(1) [OF Some ExtBundled _ card 4(4)] by blast
      with Some ExtBundled show ?thesis
        by (auto simp: resolve_ast.simps(2) split: option.split sum.split)
    next
      case (ExtFile uri)
      have "allow = FilesNo \<or> (\<forall>p. resolve_file_uri S uri base = Inr p \<longrightarrow>
          resolve_file_path S fuel p allow stack \<noteq> None)"
        using 4(2) [OF Some ExtFile _ _ card 4(4)] by blast
      with Some ExtFile show ?thesis
        by (auto simp: resolve_ast.simps(2) split: option.split sum.split)
    qed
  qed
qed simp

text \<open>A resolved policy has no parent and no unresolved phase left.\<close>

definition resolved_ok :: "resolved_policy_ast \<Rightarrow> bool" where
  "resolved_ok r \<longleftrightarrow> ast_extends (ra_ast r) = None \<and> (\<forall>p \<in> set (ast_phases (ra_ast r)). \<not> ph_extend p)"

lemma merge_parents_no_extend:
  assumes "\<forall>p \<in> set (ms_phases st). \<not> ph_extend p"
  shows "\<forall>p \<in> set (ms_phases (foldl (merge_parent_phase parent cs src) st ps)). \<not> ph_extend p"
  using assms
proof (induction ps arbitrary: st)
  case (Cons p ps)
  have "\<forall>q \<in> set (ms_phases (merge_parent_phase parent cs src st p)). \<not> ph_extend q"
    using Cons.prems
    by (auto simp: merge_parent_phase_def Let_def clear_extend_def extend_phase_def
        split: option.split)
  then show ?case using Cons.IH by simp
qed simp

lemma merge_children_no_extend:
  "merge_child_phases cs st = Inr st' \<Longrightarrow> \<forall>p \<in> set (ms_phases st). \<not> ph_extend p \<Longrightarrow>
   \<forall>p \<in> set (ms_phases st'). \<not> ph_extend p"
  by (induction cs st rule: merge_child_phases.induct)
    (auto simp: clear_extend_def split: if_splits)

lemma merge_policy_resolved: "merge_policy parent child sid = Inr r \<Longrightarrow> resolved_ok r"
  using merge_parents_no_extend
    [of "\<lparr>ms_consumed = replicate (length (ast_phases child)) False, ms_phases = [], ms_sources = []\<rparr>"]
  by (auto simp: merge_policy_def Let_def resolved_ok_def split: sum.splits
      dest: merge_children_no_extend)

lemma resolve_resolved:
  "resolve_file_path S fuel path allow stack = Some (Inr r) \<Longrightarrow> resolved_ok r"
  "resolve_bundled_policy S fuel name allow stack = Some (Inr r) \<Longrightarrow> resolved_ok r"
  "resolve_ast S fuel ast sid base allow stack = Some (Inr r) \<Longrightarrow> resolved_ok r"
proof -
  have "resolve_ast S fuel ast sid base allow stack = Some (Inr r) \<Longrightarrow> resolved_ok r"
    for fuel ast sid base allow stack
    by (cases fuel)
      (auto simp: resolve_ast.simps Let_def resolved_ok_def reject_unresolved_phase_extends_def
        find_None_iff dest: merge_policy_resolved [unfolded resolved_ok_def]
        split: option.splits sum.splits)
  then show "resolve_file_path S fuel path allow stack = Some (Inr r) \<Longrightarrow> resolved_ok r"
    "resolve_bundled_policy S fuel name allow stack = Some (Inr r) \<Longrightarrow> resolved_ok r"
    "resolve_ast S fuel ast sid base allow stack = Some (Inr r) \<Longrightarrow> resolved_ok r"
    by (auto simp: resolve_file_path.simps [of S fuel path] Let_def
        resolve_bundled_policy.simps [of S fuel name] split: sum.splits option.splits)
qed

section \<open>Properties\<close>

text \<open>
  C29: merging a policy into its parent. For policies whose own phase names are distinct, the merged
  policy has the parent's phases in the parent's order, each one kept, extended by the child's
  operations or replaced by the child's phase, then the child's new phases in the child's order, and
  records for each of them where it came from. The merge fails exactly if a phase that is new in
  the child extends a parent phase, naming the first such phase.
\<close>

theorem merge_policy_phases:
  assumes "distinct (map ph_name (ast_phases (ra_ast parent)))" "distinct (map ph_name (ast_phases child))"
  shows "case find ph_extend (new_phases (ast_phases (ra_ast parent)) (ast_phases child)) of
      Some c \<Rightarrow> merge_policy parent child sid = Inl (compile_error
         (''phase '' @ dquoted (ph_name c) @ '' uses extend but no parent phase exists''))
    | None \<Rightarrow> (\<exists>r. merge_policy parent child sid = Inr r
        \<and> ast_phases (ra_ast r) =
            map (merged_phase (ast_phases child)) (ast_phases (ra_ast parent))
            @ map clear_extend (new_phases (ast_phases (ra_ast parent)) (ast_phases child))
        \<and> ast_extends (ra_ast r) = None \<and> ra_source_id r = sid
        \<and> ra_extends_chain r = ra_extends_chain parent @ [source_label (ra_source_id parent)]
        \<and> (\<forall>n. hm_get (ra_phase_sources r) n =
             (if n \<in> ph_name ` set (ast_phases (ra_ast parent))
              then Some (merged_origin parent (ast_phases child) (source_label sid) n)
              else if n \<in> ph_name ` set (ast_phases child) then Some PCLocal else None)))"
  using assms by (rule merge_policy_eq)

definition origin_span :: span where
  "origin_span = Span_new 0 1 1 1"

definition phase_of :: "string \<Rightarrow> bool \<Rightarrow> string list option \<Rightarrow> operation_node list \<Rightarrow> phase_node" where
  "phase_of name ext deps ops =
     \<lparr>ph_name = name, ph_extend = ext, ph_skip_when = None, ph_depends_on = deps,
      ph_run_if = None, ph_on_error = None,
      ph_operations = map (\<lambda>n. \<lparr>so_node = n, so_span = origin_span\<rparr>) ops, ph_span = origin_span\<rparr>"

definition policy_of :: "string \<Rightarrow> extends_source option \<Rightarrow> phase_node list \<Rightarrow> policy_ast" where
  "policy_of name extends phases =
     \<lparr>ast_name = name, ast_extends = extends, ast_metadata = None, ast_config = None,
      ast_phases = phases, ast_span = origin_span\<rparr>"

definition base_policy :: resolved_policy_ast where
  "base_policy =
     \<lparr>ra_ast = policy_of ''base'' None
        [phase_of ''init'' False None [NContainer ''mkv''],
         phase_of ''audio'' False (Some [''init'']) [NClearTags]],
      ra_source_id = SrcBundled ''archival'', ra_extends_chain = [], ra_phase_sources = []\<rparr>"

definition derived_policy :: policy_ast where
  "derived_policy = policy_of ''mine'' (Some (ExtBundled ''archival''))
     [phase_of ''audio'' True None [NDeleteTag ''x''], phase_of ''tail'' False None []]"

theorem merge_policy_phases_witness:
  "\<exists>r. merge_policy base_policy derived_policy SrcInline = Inr r
    \<and> map ph_name (ast_phases (ra_ast r)) = [''init'', ''audio'', ''tail'']
    \<and> hm_get (ra_phase_sources r) ''audio'' = Some (PCExtended ''archival'' 1)"
  using merge_policy_phases [of base_policy derived_policy SrcInline]
  by (auto simp: base_policy_def derived_policy_def policy_of_def phase_of_def new_phases_def
      merged_origin_def child_phase_def parent_label_def source_label_def)

text \<open>
  C30: resolving the parents of a policy always ends, although policies may extend each other in a
  cycle: for an inline policy six levels are enough, for a policy file one more than the bundled
  policies and the readable files together. A policy that is resolved has no parent and no phase
  left that extends another.
\<close>

theorem resolution_terminates:
  assumes "finite (readable_files S)" "5 + card (readable_files S) \<le> fuel"
  shows "\<exists>from_file inline. resolve_policy_file S fuel path = Some from_file
    \<and> resolve_policy_with_bundled S (Suc fuel) source = Some inline
    \<and> (\<forall>r. from_file = Inr r \<or> inline = Inr r \<longrightarrow>
         ast_extends (ra_ast r) = None \<and> (\<forall>p \<in> set (ast_phases (ra_ast r)). \<not> ph_extend p))"
proof -
  note U = card_readable_sources [OF assms(1)]
  have "card (readable_sources S - {}) \<le> fuel" using U(2) assms(2) by simp
  then have from_file: "resolve_policy_file S fuel path \<noteq> None"
    using resolve_total(1) [OF U(1), of "[]" fuel] by (simp add: resolve_policy_file_def split: sum.split)
  have "card (readable_sources S - {}) < Suc fuel" using U(2) assms(2) by simp
  then have inline: "resolve_policy_with_bundled S (Suc fuel) source \<noteq> None"
    using resolve_total(3) [OF U(1), of "[]" "Suc fuel"]
    by (simp add: resolve_policy_with_bundled_def split: sum.split)
  have "resolved_ok r" if "resolve_policy_file S fuel path = Some (Inr r)
      \<or> resolve_policy_with_bundled S (Suc fuel) source = Some (Inr r)" for r
    using that resolve_resolved
    by (auto simp: resolve_policy_file_def resolve_policy_with_bundled_def split: sum.splits)
  with from_file inline show ?thesis by (auto simp: resolved_ok_def)
qed

text \<open>Two bundled policies that extend each other.\<close>

definition cyclic_sources :: policy_sources where
  "cyclic_sources =
     \<lparr>parse_policy = (\<lambda>t. Inr (policy_of t (Some (ExtBundled t)) [])),
      read_to_string = (\<lambda>_. Inl ''no such file''), fs_canonicalize = (\<lambda>_. Inl ''no such file''),
      bundled_texts = [''space-saver'', ''archival'']\<rparr>"

theorem resolution_terminates_witness:
  "(\<exists>inline. resolve_policy_with_bundled cyclic_sources 6 ''archival'' = Some inline)
   \<and> resolve_policy_with_bundled cyclic_sources 6 ''archival''
     = Some (Inl (compile_error ''cyclic policy extends: archival -> space-saver -> archival''))"
proof
  have "readable_files cyclic_sources = {}" by (simp add: readable_files_def cyclic_sources_def)
  then show "\<exists>inline. resolve_policy_with_bundled cyclic_sources 6 ''archival'' = Some inline"
    using resolution_terminates [of cyclic_sources 5 "''/x''" "''archival''"] by auto
qed code_simp

end
