(* ===== verification/Pipeline.thy ===== *)
theory Pipeline
  imports Validator_Correct Composition_Props
begin

text \<open>
  The policy pipeline of \<open>crates/voom-dsl/src/lib.rs\<close> and the service interface on top of it,
  \<open>service.rs\<close>: parse, resolve parents, validate, compile, and stamp the policy with the hash of its
  source. The parser, the formatter and the \<open>xxh3\<close> hash with its hexadecimal form are parameters.
\<close>

record pipeline_env =
  pe_dsl :: dsl_env
  pe_sources :: policy_sources
  pe_format_policy :: "policy_ast \<Rightarrow> string"
  pe_source_hash :: "string \<Rightarrow> string"

section \<open>Compiling a source\<close>

definition pipeline_failure :: "dsl_failure \<Rightarrow> dsl_pipeline_error" where
  "pipeline_failure f = (case f of DslFail e \<Rightarrow> PipelineCompile e | DslPanic msg \<Rightarrow> PipelinePanic msg)"

definition run_validate :: "dsl_env \<Rightarrow> policy_ast \<Rightarrow> dsl_pipeline_error + unit" where
  "run_validate D ast =
     (case validate D ast of
        None \<Rightarrow> Inl (PipelinePanic ''validate'')
      | Some (Inl errors) \<Rightarrow> Inl (PipelineValidation errors)
      | Some (Inr _) \<Rightarrow> Inr ())"

definition compile_policy :: "pipeline_env \<Rightarrow> string \<Rightarrow> dsl_pipeline_error + compiled_policy" where
  "compile_policy P source =
     (case parse_policy (pe_sources P) source of
        Inl e \<Rightarrow> Inl (PipelineParse e)
      | Inr ast \<Rightarrow>
          (if ast_extends ast \<noteq> None then
             Inl (compile_error
               ''policy extends requires composition resolution; use compile_policy_with_bundled(source) or compile_policy_file(path)'')
           else
             res_bind (run_validate (pe_dsl P) ast) (\<lambda>_.
               case compile_ast (pe_dsl P) ast of
                 Inl f \<Rightarrow> Inl (pipeline_failure f)
               | Inr policy \<Rightarrow> Inr (policy\<lparr>pol_source_hash := pe_source_hash P source\<rparr>))))"

definition compile_resolved_policy ::
  "pipeline_env \<Rightarrow> resolved_policy_ast \<Rightarrow> string option \<Rightarrow> dsl_pipeline_error + compiled_policy" where
  "compile_resolved_policy P resolved standalone_source =
     res_bind (run_validate (pe_dsl P) (ra_ast resolved)) (\<lambda>_.
       case compile_resolved_ast (pe_dsl P) resolved of
         Inl f \<Rightarrow> Inl (pipeline_failure f)
       | Inr policy \<Rightarrow>
           (let source =
                  (case standalone_source of
                     Some source \<Rightarrow>
                       (if ra_extends_chain resolved = [] \<and> ra_phase_sources resolved = []
                        then source else pe_format_policy P (ra_ast resolved))
                   | None \<Rightarrow> pe_format_policy P (ra_ast resolved))
            in Inr (policy\<lparr>pol_source_hash := pe_source_hash P source\<rparr>)))"

text \<open>The resolution of parents takes fuel; \<open>None\<close> is running out of it.\<close>

definition compile_policy_with_bundled ::
  "pipeline_env \<Rightarrow> nat \<Rightarrow> string \<Rightarrow> (dsl_pipeline_error + compiled_policy) option" where
  "compile_policy_with_bundled P fuel source =
     map_option
       (\<lambda>r. res_bind r (\<lambda>resolved. compile_resolved_policy P resolved (Some source)))
       (resolve_policy_with_bundled (pe_sources P) fuel source)"

definition compile_policy_file ::
  "pipeline_env \<Rightarrow> nat \<Rightarrow> string \<Rightarrow> (dsl_pipeline_error + compiled_policy) option" where
  "compile_policy_file P fuel path =
     map_option
       (\<lambda>r. res_bind r (\<lambda>resolved.
          if ra_extends_chain resolved = [] \<and> ra_phase_sources resolved = [] then
            (case read_to_string (pe_sources P) path of
               Inl err \<Rightarrow>
                 Inl (compile_error (''failed to read policy file '' @ path @ '': '' @ err))
             | Inr source \<Rightarrow> compile_resolved_policy P resolved (Some source))
          else compile_resolved_policy P resolved None))
       (resolve_policy_file (pe_sources P) fuel path)"

section \<open>The service interface\<close>

record error_info =
  ei_message :: string
  ei_line :: "usize option"
  ei_column :: "usize option"
  ei_suggestion :: "string option"

record validation_result =
  vr_valid :: bool
  vr_errors :: "error_info list"

record format_result =
  fr_formatted :: "string option"
  fr_errors :: "error_info list"

definition located :: "string \<Rightarrow> usize \<Rightarrow> usize \<Rightarrow> string \<Rightarrow> string" where
  "located kind line col message =
     kind @ '' at line '' @ nat_str line @ '', col '' @ nat_str col @ '': '' @ message"

definition error_info_from_dsl :: "dsl_error \<Rightarrow> error_info" where
  "error_info_from_dsl err =
     (case err of
        DslParse line col message suggestion \<Rightarrow>
          \<lparr>ei_message = located ''parse error'' line col message, ei_line = Some line,
           ei_column = Some col, ei_suggestion = suggestion\<rparr>
      | DslBuild line col message \<Rightarrow>
          \<lparr>ei_message = located ''AST build error'' line col message, ei_line = Some line,
           ei_column = Some col, ei_suggestion = None\<rparr>
      | DslValidation line col message suggestion \<Rightarrow>
          \<lparr>ei_message = located ''validation error'' line col message, ei_line = Some line,
           ei_column = Some col, ei_suggestion = suggestion\<rparr>
      | DslCompile message \<Rightarrow>
          \<lparr>ei_message = ''compilation error: '' @ message, ei_line = None, ei_column = None,
           ei_suggestion = None\<rparr>)"

definition validate_source :: "pipeline_env \<Rightarrow> string \<Rightarrow> validation_result option" where
  "validate_source P source =
     (case parse_policy (pe_sources P) source of
        Inr ast \<Rightarrow>
          (case validate (pe_dsl P) ast of
             None \<Rightarrow> None
           | Some (Inr _) \<Rightarrow> Some \<lparr>vr_valid = True, vr_errors = []\<rparr>
           | Some (Inl errors) \<Rightarrow>
               Some \<lparr>vr_valid = False, vr_errors = map error_info_from_dsl errors\<rparr>)
      | Inl e \<Rightarrow> Some \<lparr>vr_valid = False, vr_errors = [error_info_from_dsl e]\<rparr>)"

definition format_source :: "pipeline_env \<Rightarrow> string \<Rightarrow> format_result" where
  "format_source P source =
     (case parse_policy (pe_sources P) source of
        Inr ast \<Rightarrow> \<lparr>fr_formatted = Some (pe_format_policy P ast), fr_errors = []\<rparr>
      | Inl e \<Rightarrow> \<lparr>fr_formatted = None, fr_errors = [error_info_from_dsl e]\<rparr>)"

section \<open>The shape of a compiled policy\<close>

definition skipped_parts_ok :: "dsl_env \<Rightarrow> policy_ast \<Rightarrow> bool" where
  "skipped_parts_ok D ast \<longleftrightarrow>
     (\<forall>ph \<in> set (ast_phases ast). \<forall>s \<in> set (ph_operations ph).
        skipped_parts_valid D (phase_name_set ast) (so_node s))"

text \<open>A compiled phase keeps what its source says about order and errors.\<close>

definition phase_corresponds :: "phase_node \<Rightarrow> compiled_phase \<Rightarrow> bool" where
  "phase_corresponds ph cp \<longleftrightarrow>
     cp_name cp = ph_name ph \<and> cp_depends_on cp = phase_dependencies ph
     \<and> cp_on_error cp = compile_on_error (ph_on_error ph)
     \<and> map_option cri_phase (cp_run_if cp) = map_option ri_phase (ph_run_if ph)
     \<and> (cp_skip_when cp = None \<longleftrightarrow> ph_skip_when ph = None)
     \<and> length (cp_operations cp) = length (ph_operations ph)"

lemma compile_phase_corresponds:
  "compile_phase D composition ph = Inr cp \<Longrightarrow> phase_corresponds ph cp \<and> \<not> ph_extend ph"
  by (auto simp: compile_phase_def fail_compile_def res_bind_Inr res_map_Inr phase_corresponds_def
      option.map_comp comp_def opt_result_def map_result_Inr list_all2_lengthD
      split: if_splits option.splits sum.splits)

lemma compile_ast_shape:
  assumes "compile_ast_with_composition D ast chain sources = Inr policy"
  shows "list_all2 phase_corresponds (ast_phases ast) (pol_phases policy)"
    and "topological_sort (partition_point_of D) (ast_graph ast) = Inr (pol_phase_order policy)"
    and "pol_name policy = ast_name ast"
proof -
  from assms obtain phases where phases:
    "map_result (\<lambda>ph. compile_phase D (hm_get sources (ph_name ph)) ph) (ast_phases ast) = Inr phases"
    "pol_phases policy = phases" "pol_name policy = ast_name ast"
    "topological_sort (partition_point_of D) (ast_graph ast) = Inr (pol_phase_order policy)"
    by (cases "topological_sort (partition_point_of D) (ast_graph ast)")
      (auto simp: compile_ast_with_composition_def res_bind_Inr split: topo_failure.splits)
  then show "topological_sort (partition_point_of D) (ast_graph ast) = Inr (pol_phase_order policy)"
    "pol_name policy = ast_name ast" by simp_all
  show "list_all2 phase_corresponds (ast_phases ast) (pol_phases policy)"
    using phases(1,2) unfolding map_result_Inr
    by (auto elim!: list_all2_mono dest: compile_phase_corresponds)
qed

lemma corresponding_graph:
  assumes "list_all2 phase_corresponds phs cps"
  shows "map (\<lambda>cp. (cp_name cp, cp_depends_on cp)) cps = map (\<lambda>ph. (ph_name ph, phase_dependencies ph)) phs"
  using assms by (induction rule: list_all2_induct) (auto simp: phase_corresponds_def)

lemma corresponding_names:
  "list_all2 phase_corresponds phs cps \<Longrightarrow> map cp_name cps = map ph_name phs"
  by (induction rule: list_all2_induct) (auto simp: phase_corresponds_def)

lemma validated_compiles:
  assumes "pp_bounded (partition_point_of D)" "validate D ast = Some (Inr ())" "skipped_parts_ok D ast"
  shows "succeeds (compile_ast_with_composition D ast chain sources)"
proof -
  have "succeeds (map_result (\<lambda>ph. compile_phase D (hm_get sources (ph_name ph)) ph) (ast_phases ast))"
    using assms(2,3) by (intro succeeds_map_result valid_phase)
      (auto simp: validate_Ok skipped_parts_ok_def)
  moreover obtain order where
    "topological_sort (partition_point_of D) (ast_graph ast) = Inr order"
    using validated_order [OF assms(1,2)] by (auto simp: succeeds_def)
  ultimately show ?thesis
    by (auto simp: compile_ast_with_composition_def intro: succeeds_bind)
qed

end
