(* ===== verification/Transcode_Settings.thy ===== *)
theory Transcode_Settings
  imports Pipeline
begin

text \<open>
  What validation guarantees of compiled transcode settings, and the numbers of the policy language:
  bitrates read back as they are written.
\<close>

section \<open>Settings\<close>

lemma find_setting_Some: "find_setting settings key = Some v \<Longrightarrow> (key, v) \<in> set settings"
  by (auto simp: find_setting_def find_Some_iff) (metis nth_mem)

lemma concat_settings_Nil:
  "concat (map (\<lambda>(k, v). f k v) settings) = [] \<Longrightarrow> find_setting settings key = Some v \<Longrightarrow> f key v = []"
  by (auto dest!: find_setting_Some)

lemma validate_ident_against_Nil: "validate_ident_against i k known line col = [] \<longleftrightarrow> i \<in> set known"
  by (auto simp: validate_ident_against_def Let_def split: option.split)

lemma validate_ident_setting_Nil:
  "validate_ident_setting v key valid line col = [] \<longleftrightarrow>
     (\<exists>name. value_name (Some v) = Some name \<and> name \<in> set valid)"
  by (auto simp: validate_ident_setting_def validate_ident_against_Nil split: option.split)

lemma numeric_u32_get_u32: "numeric_u32 v = get_u32 (Some v)"
  by (simp add: numeric_u32_def get_u32_def safe_u32_def split: dsl_value.split)

lemma numeric_arg_get_u32: "numeric_arg items key = get_u32 (find_setting items key)"
  by (cases "find_setting items key")
    (simp_all add: numeric_arg_def numeric_u32_get_u32, simp add: get_u32_def)

lemma value_string_text: "value_string v = value_text (Some v)"
  by (simp add: value_string_def value_text_def split: dsl_value.split)

text \<open>The report of the loop over the settings is empty only if that of each setting is.\<close>

definition vmaf_errors :: "usize \<Rightarrow> usize \<Rightarrow> string \<times> dsl_value \<Rightarrow> dsl_error list" where
  "vmaf_errors line col kv = fst (fst (validate_vmaf_setting line col (([], []), None, None) kv))"

lemma vmaf_step_errors:
  "fst (fst (validate_vmaf_setting line col st kv)) = fst (fst st) @ vmaf_errors line col kv"
  by (simp add: vmaf_errors_def validate_vmaf_setting_def Let_def split_def)

lemma vmaf_loop_errors:
  "fst (fst (foldl (validate_vmaf_setting line col) st kvs))
     = fst (fst st) @ concat (map (vmaf_errors line col) kvs)"
  by (induction kvs arbitrary: st) (simp_all add: vmaf_step_errors)

lemma vmaf_settings_Nil:
  assumes "fst (validate_vmaf_transcode_settings settings line col) = []" "kv \<in> set settings"
  shows "vmaf_errors line col kv = []"
  using assms vmaf_loop_errors [of line col "(([], []), None, None)" settings]
  by (auto simp: validate_vmaf_transcode_settings_def Let_def split_def split: option.splits)

lemma vmaf_target_Nil:
  "fst (validate_vmaf_target v key line col) = [] \<longleftrightarrow>
     (\<exists>t. numeric_u32 v = Some t \<and> 60 \<le> t \<and> t \<le> 100)"
  by (auto simp: validate_vmaf_target_def split: option.split)

section \<open>Validated video settings\<close>

lemma video_setting_checked:
  assumes "fst (validate_transcode_operation D ''video'' codec settings line col) = []"
    and "find_setting settings key = Some v"
  shows "vmaf_errors line col (key, v) = []"
    and "\<exists>crop. validate_video_setting crop key v line col = []"
    and "key = ''hw'' \<Longrightarrow> validate_ident_setting v ''hw'' VALID_HW_VALUES line col = []"
proof -
  have vmaf: "fst (validate_vmaf_transcode_settings settings line col) = []"
    and video: "validate_video_transcode_settings settings line col = []"
    and hw: "validate_hw_settings settings line col = []"
    using assms(1) by (simp_all add: validate_transcode_operation_def)
  show "vmaf_errors line col (key, v) = []"
    using vmaf_settings_Nil [OF vmaf] find_setting_Some [OF assms(2)] .
  show "\<exists>crop. validate_video_setting crop key v line col = []"
    using video find_setting_Some [OF assms(2)]
    by (auto simp: validate_video_transcode_settings_def Let_def)
  show "validate_ident_setting v ''hw'' VALID_HW_VALUES line col = []" if "key = ''hw''"
    using hw find_setting_Some [OF assms(2)] that by (auto simp: validate_hw_settings_def Let_def)
qed

lemma valid_video_codec:
  assumes "fst (validate_transcode_operation D ''video'' codec settings line col) = []"
  shows "normalize_codec (canonical_codec codec) = Some (canonical_codec codec)
    \<and> codec_type_of (canonical_codec codec) = Some CodecVideo"
proof -
  have "validate_codec D codec line col = []" "validate_codec_track_type ''video'' codec line col = []"
    using assms by (simp_all add: validate_transcode_operation_def)
  then obtain c where c: "normalize_codec codec = Some c"
    by (auto simp: validate_codec_def split: option.splits)
  moreover obtain t where "codec_type_of codec = Some t"
    using c codec_type_of_known [of codec] by auto
  ultimately show ?thesis
    using normalize_codec_canonical [OF c] \<open>validate_codec_track_type _ _ _ _ = []\<close>
    by (auto simp: canonical_codec_def validate_codec_track_type_def split: if_splits)
qed

lemma valid_video_names:
  assumes "fst (validate_transcode_operation D ''video'' codec settings line col) = []"
  shows "value_name (find_setting settings ''hw'') = Some h \<Longrightarrow> h \<in> set VALID_HW_VALUES"
    and "value_name (find_setting settings ''hdr_mode'') = Some h \<Longrightarrow> h \<in> set VALID_HDR_MODES"
    and "value_name (find_setting settings ''tonemap'') = Some h \<Longrightarrow> h \<in> set VALID_TONEMAP_ALGORITHMS"
    and "value_name (find_setting settings ''tune'') = Some h \<Longrightarrow> h \<in> set VALID_TUNE_VALUES"
    and "value_name (find_setting settings ''scale_algorithm'') = Some h \<Longrightarrow> h \<in> set VALID_SCALE_ALGORITHMS"
proof -
  have name: "\<exists>v. find_setting settings key = Some v \<and> value_name (Some v) = Some h"
    if "value_name (find_setting settings key) = Some h" for key
    using that by (cases "find_setting settings key") (auto simp: value_name_def)
  note checked = video_setting_checked [OF assms]
  show "value_name (find_setting settings ''hw'') = Some h \<Longrightarrow> h \<in> set VALID_HW_VALUES"
    using checked(3) by (fastforce dest!: name simp: validate_ident_setting_Nil)
  show "value_name (find_setting settings ''hdr_mode'') = Some h \<Longrightarrow> h \<in> set VALID_HDR_MODES"
    "value_name (find_setting settings ''tonemap'') = Some h \<Longrightarrow> h \<in> set VALID_TONEMAP_ALGORITHMS"
    "value_name (find_setting settings ''tune'') = Some h \<Longrightarrow> h \<in> set VALID_TUNE_VALUES"
    "value_name (find_setting settings ''scale_algorithm'') = Some h \<Longrightarrow> h \<in> set VALID_SCALE_ALGORITHMS"
    by (auto dest!: name dest: checked(2) simp: validate_video_setting_def validate_ident_setting_Nil)
qed

lemma valid_vmaf_target:
  assumes "fst (validate_transcode_operation D ''video'' codec settings line col) = []"
    and "find_setting settings ''target_vmaf'' = Some v"
  shows "\<exists>t. get_u32 (Some v) = Some t \<and> 60 \<le> t \<and> t \<le> 100"
  using video_setting_checked(1) [OF assms]
  by (simp add: vmaf_errors_def validate_vmaf_setting_def vmaf_target_Nil numeric_u32_get_u32)

lemma valid_vmaf_overrides:
  assumes "\<And>kv. kv \<in> set settings \<Longrightarrow> vmaf_errors line col kv = []"
    and "\<And>k t. hm_get m k = Some t \<Longrightarrow> 60 \<le> t \<and> t \<le> 100"
    and "hm_get (foldl vmaf_override m settings) k = Some t"
  shows "60 \<le> t \<and> t \<le> 100"
  using assms
proof (induction settings arbitrary: m)
  case (Cons kv settings)
  obtain key v where kv: "kv = (key, v)" by (cases kv)
  have step: "hm_get (vmaf_override m kv) k = Some t \<Longrightarrow> 60 \<le> t \<and> t \<le> 100" for k t
  proof -
    assume get: "hm_get (vmaf_override m kv) k = Some t"
    have "\<exists>t. numeric_u32 v = Some t \<and> 60 \<le> t \<and> t \<le> 100" if "prefix ''target_vmaf_when '' key"
      using Cons.prems(1) [of kv] that
      by (auto simp: kv vmaf_errors_def validate_vmaf_setting_def validate_vmaf_override_def
          strip_prefix_def vmaf_target_Nil prefix_def)
    then show "60 \<le> t \<and> t \<le> 100"
      using get Cons.prems(2)
      by (auto simp: kv vmaf_override_def strip_prefix_def numeric_u32_def safe_u32_def
          split: if_splits option.splits dsl_value.splits)
  qed
  show ?case
    by (rule Cons.IH [of "vmaf_override m kv"]) (use Cons.prems step in auto)
qed simp

lemma valid_sample_strategy:
  assumes "fst (validate_transcode_operation D ''video'' codec settings line col) = []"
    and "find_setting settings ''sample_strategy'' = Some v"
  shows "parse_sample_strategy (Some v) \<noteq> None"
  using video_setting_checked(1) [OF assms]
  by (auto simp: vmaf_errors_def validate_vmaf_setting_def validate_sample_strategy_def Let_def
      parse_sample_strategy_def numeric_arg_get_u32 string_arg_def split: dsl_value.splits if_splits)

lemma valid_fallback:
  assumes "fst (validate_transcode_operation D ''video'' codec settings line col) = []"
    and "parse_transcode_fallback (find_setting settings ''fallback'') = Some fb"
  shows "tf_crf fb \<le> 51"
proof -
  from assms(2) obtain v where v: "find_setting settings ''fallback'' = Some v"
    by (cases "find_setting settings ''fallback''") (auto simp: parse_transcode_fallback_def)
  from video_setting_checked(1) [OF assms(1) v] assms(2) v show ?thesis
    by (auto simp: vmaf_errors_def validate_vmaf_setting_def validate_transcode_fallback_def
        parse_transcode_fallback_def numeric_arg_get_u32 TranscodeFallback_new_def
        split: dsl_value.splits option.splits)
qed

lemma valid_crop:
  assumes "fst (validate_transcode_operation D ''video'' codec settings line col) = []"
    and "compile_crop_settings settings = Some crop"
  shows "cs_sample_count crop = Some n \<Longrightarrow> 0 < n"
    and "r \<in> set (cs_aspect_lock crop) \<Longrightarrow> is_crop_ratio r"
proof -
  note checked = video_setting_checked(2) [OF assms(1)]
  show "0 < n" if "cs_sample_count crop = Some n"
  proof -
    from that assms(2) obtain v where "find_setting settings ''crop_sample_count'' = Some v"
      "get_u32 (Some v) = Some n"
      by (cases "find_setting settings ''crop_sample_count''")
        (auto simp: compile_crop_settings_def get_u32_def split: if_splits)
    then show ?thesis
      using checked [of "''crop_sample_count''" v]
      by (auto simp: validate_video_setting_def validate_crop_positive_integer_def numeric_u32_get_u32)
  qed
  show "is_crop_ratio r" if "r \<in> set (cs_aspect_lock crop)"
  proof -
    from that assms(2) obtain items item where items:
      "find_setting settings ''crop_aspect_lock'' = Some (VList items)" "item \<in> set items"
      "value_text (Some item) = Some r"
      by (auto simp: compile_crop_settings_def List.map_filter_def split: if_splits option.splits dsl_value.splits)
    then show ?thesis
      using checked [OF items(1)]
      by (force simp: validate_video_setting_def validate_crop_aspect_lock_def value_string_text)
  qed
qed

section \<open>Numbers read back\<close>

lemma digit_char_digit: "d < 10 \<Longrightarrow> is_ascii_digit (digit_char d) \<and> of_char (digit_char d) = 48 + d"
  by (simp add: is_ascii_digit_def digit_char_def)

lemma nat_str_digits: "list_all is_ascii_digit (nat_str n) \<and> nat_str n \<noteq> []"
proof (induction n rule: nat_str.induct)
  case (1 n)
  then show ?case by (subst nat_str.simps) (auto simp: nat_str.simps [of n] digit_char_digit)
qed

lemma digits_value_snoc: "digits_value (ds @ [c]) = digits_value ds * 10 + (of_char c - 48)"
  by (simp add: digits_value_def)

lemma digits_value_nat_str: "digits_value (nat_str n) = n"
proof (induction n rule: nat_str.induct)
  case (1 n)
  show ?case
  proof (cases "n < 10")
    case True
    then show ?thesis by (simp add: nat_str.simps [of n] digits_value_def digit_char_digit)
  next
    case False
    then show ?thesis
      using 1 digit_char_digit [of "n mod 10"]
      by (simp add: nat_str.simps [of n] digits_value_snoc)
  qed
qed

lemma plus_not_digit: "is_ascii_digit c \<Longrightarrow> c \<noteq> CHR ''+''"
  by (auto simp: is_ascii_digit_def)

lemma parse_unsigned_digits:
  assumes "list_all is_ascii_digit ds" "ds \<noteq> []"
  shows "parse_unsigned bound ds = (if digits_value ds \<le> bound then Some (digits_value ds) else None)"
proof -
  have "\<not> prefix ''+'' ds" using assms plus_not_digit by (cases ds) auto
  then show ?thesis using assms by (simp add: parse_unsigned_def)
qed

lemma parse_unsigned_nat_str: "n \<le> bound \<Longrightarrow> parse_unsigned bound (nat_str n) = Some n"
  using nat_str_digits [of n] by (simp add: parse_unsigned_digits digits_value_nat_str)

definition bitrate_units :: "(string \<times> nat) list" where
  "bitrate_units =
     [('''', 1), (''k'', 1000), (''K'', 1000), (''m'', 1000000), (''M'', 1000000),
      (''g'', 1000000000), (''G'', 1000000000)]"

lemma parse_bitrate_eq:
  assumes "list_all is_ascii_digit ds" "ds \<noteq> []" "(suf, m) \<in> set bitrate_units"
  shows "parse_bitrate (ds @ suf) =
    (if digits_value ds * m \<le> U64_MAX then Some (digits_value ds * m) else None)"
proof -
  have "suf = [] \<or> \<not> is_ascii_digit (hd suf)"
    using assms(3) by (auto simp: bitrate_units_def is_ascii_digit_def)
  then have split: "takeWhile is_ascii_digit (ds @ suf) = ds" "dropWhile is_ascii_digit (ds @ suf) = suf"
    using assms(1) by (cases suf; simp add: list_all_iff)+
  have "m > 0" using assms(3) by (auto simp: bitrate_units_def)
  then have "digits_value ds * m \<le> U64_MAX \<Longrightarrow> digits_value ds \<le> U64_MAX"
    by (metis Suc_leI le_trans mult.right_neutral mult_le_mono2 One_nat_def)
  then show ?thesis
    using assms(3) split
    by (auto simp: parse_bitrate_def Let_def parse_unsigned_digits [OF assms(1,2)] bitrate_units_def)
qed

lemma parse_bitrate_Some:
  assumes "parse_bitrate raw = Some v"
  obtains ds suf m where "raw = ds @ suf" "list_all is_ascii_digit ds" "ds \<noteq> []"
    "(suf, m) \<in> set bitrate_units" "v = digits_value ds * m" "v \<le> U64_MAX"
proof -
  let ?ds = "takeWhile is_ascii_digit raw" and ?suf = "dropWhile is_ascii_digit raw"
  have ds: "list_all is_ascii_digit ?ds" by (auto simp: list_all_iff dest: set_takeWhileD)
  have "?ds \<noteq> []" using assms by (auto simp: parse_bitrate_def parse_unsigned_def)
  moreover obtain m where "(?suf, m) \<in> set bitrate_units" "v = digits_value ?ds * m" "v \<le> U64_MAX"
    using assms parse_unsigned_digits [OF ds \<open>?ds \<noteq> []\<close>]
    by (auto simp: parse_bitrate_def Let_def bitrate_units_def split: if_splits option.splits)
  ultimately show thesis using that [of ?ds ?suf m] ds by simp
qed

end
