(* ===== verification/Dsl_Props.thy ===== *)
theory Dsl_Props
  imports Transcode_Settings
begin

text \<open>
  The properties of the policy language: what compiles, what the checks for cyclic dependencies
  find, what validated transcode settings satisfy, and the suggestions for misspelled names.
\<close>

section \<open>A sample environment\<close>

definition plain_dsl_env :: dsl_env where
  "plain_dsl_env =
     \<lparr>regex_error = (\<lambda>p. if p = ''['' then Some ''unclosed'' else None), debug_value = (\<lambda>_. []),
      partition_point_of = linear_partition_point, hash_order_of = (\<lambda>xs. xs)\<rparr>"

lemma plain_partition_point: "pp_bounded (partition_point_of plain_dsl_env)"
  using linear.pp_ok by (simp add: plain_dsl_env_def)

definition layered_policy :: policy_ast where
  "layered_policy = policy_of ''layered'' None
     [phase_of ''audio'' False (Some [''init'']) [NKeep ''audio'' (Some (NLangIn [''eng''])) None],
      phase_of ''init'' False None [NContainer ''mkv'']]"

lemma layered_policy_valid: "validate plain_dsl_env layered_policy = Some (Inr ())"
  by code_simp

definition plain_pipeline :: pipeline_env where
  "plain_pipeline =
     \<lparr>pe_dsl = plain_dsl_env,
      pe_sources =
        \<lparr>parse_policy = (\<lambda>_. Inr layered_policy), read_to_string = (\<lambda>_. Inl []),
         fs_canonicalize = (\<lambda>_. Inl []), bundled_texts = []\<rparr>,
      pe_format_policy = (\<lambda>_. []), pe_source_hash = (\<lambda>s. s)\<rparr>"

section \<open>Validation and compilation\<close>

text \<open>
  C9: validation decides whether a source compiles. If the parts of the parsed policy that the
  validator does not look at (the condition of \<open>create_if\<close>, the loudness settings of \<open>keep\<close>) are
  valid, \<open>compile_policy\<close> succeeds exactly if the source parses, has no parent and passes
  validation, and it never panics. The compiled phases correspond to the source phases one to one,
  and the order stored with them lists each phase once, after the phases it depends on.
\<close>

theorem compile_policy_decided:
  assumes "pp_bounded (partition_point_of (pe_dsl P))"
    and "\<And>ast. parse_policy (pe_sources P) source = Inr ast \<Longrightarrow> skipped_parts_ok (pe_dsl P) ast"
  shows "((\<exists>policy. compile_policy P source = Inr policy) \<longleftrightarrow>
      (\<exists>ast. parse_policy (pe_sources P) source = Inr ast \<and> ast_extends ast = None
         \<and> validate (pe_dsl P) ast = Some (Inr ())))
    \<and> (\<forall>msg. compile_policy P source \<noteq> Inl (PipelinePanic msg))
    \<and> (\<forall>policy ast. compile_policy P source = Inr policy \<longrightarrow>
         parse_policy (pe_sources P) source = Inr ast \<longrightarrow>
         list_all2 phase_corresponds (ast_phases ast) (pol_phases policy)
         \<and> distinct (pol_phase_order policy) \<and> set (pol_phase_order policy) = phase_name_set ast
         \<and> order_respects (deps_of (ast_graph ast)) (pol_phase_order policy))"
proof (cases "parse_policy (pe_sources P) source")
  case (Inl e)
  then show ?thesis by (simp add: compile_policy_def)
next
  case (Inr ast)
  obtain v where v: "validate (pe_dsl P) ast = Some v" using validate_total by blast
  show ?thesis
  proof (cases "ast_extends ast = None \<and> v = Inr ()")
    case False
    then show ?thesis using Inr v
      by (cases v) (auto simp: compile_policy_def run_validate_def compile_error_def)
  next
    case True
    then obtain policy where policy: "compile_ast (pe_dsl P) ast = Inr policy"
      using validated_compiles [OF assms(1), of ast "[]" "[]"] v assms(2) [OF Inr]
      by (auto simp: compile_ast_def succeeds_def)
    note shape = compile_ast_shape [OF policy [unfolded compile_ast_def]]
    have "distinct (map fst (ast_graph ast))"
      using v True by (simp add: validate_Ok validate_phase_names_Nil ast_graph_names)
    note order = topo_sound [OF assms(1) this shape(2)]
    have "compile_policy P source = Inr (policy\<lparr>pol_source_hash := pe_source_hash P source\<rparr>)"
      using Inr True v policy by (simp add: compile_policy_def run_validate_def)
    then show ?thesis
      using shape order Inr True v
      by (auto simp: phase_name_set_def ast_graph_def image_image)
  qed
qed

theorem compile_policy_decided_witness:
  "\<exists>policy. compile_policy plain_pipeline ''src'' = Inr policy
    \<and> set (pol_phase_order policy) = {''audio'', ''init''}"
proof -
  have pp: "pp_bounded (partition_point_of (pe_dsl plain_pipeline))"
    using plain_partition_point by (simp add: plain_pipeline_def)
  have parse: "parse_policy (pe_sources plain_pipeline) ''src'' = Inr layered_policy"
    by (simp add: plain_pipeline_def)
  have "skipped_parts_ok (pe_dsl plain_pipeline) layered_policy"
    by (simp add: skipped_parts_ok_def skipped_parts_valid_def layered_policy_def policy_of_def phase_of_def)
  then show ?thesis
    using compile_policy_decided [OF pp, of "''src''"] parse layered_policy_valid
    by (auto simp: plain_pipeline_def layered_policy_def policy_of_def phase_of_def phase_name_set_def)
qed

text \<open>
  C10: the validator's checks for cyclic dependencies. The depth-first search always ends without a
  panic and reports an error exactly if the dependencies of the phases have a cycle. For phases
  with distinct names whose dependencies are all phases, the fixed point iteration over reachable
  phases, an independent check, reports an error in exactly the same policies.
\<close>

theorem cycle_checks_agree:
  "\<exists>es. validate_cycle_detection ast = Some es
    \<and> (es = [] \<longleftrightarrow> acyclic (dep_rel (dependency_map ast)))
    \<and> (validate_phase_names ast = [] \<and> validate_phase_references ast = [] \<longrightarrow>
         (validate_reachability ast = [] \<longleftrightarrow> es = []))"
proof -
  obtain es where es: "validate_cycle_detection ast = Some es"
      "es = [] \<longleftrightarrow> acyclic (dep_rel (dependency_map ast))"
    by (rule validate_cycle_detection_acyclic)
  then show ?thesis
    using validate_reachability_acyclic [of ast]
    by (auto simp: validate_phase_names_Nil validate_phase_references_Nil)
qed

definition cyclic_policy :: policy_ast where
  "cyclic_policy = policy_of ''cyclic'' None
     [phase_of ''a'' False (Some [''b'']) [], phase_of ''b'' False (Some [''a'']) []]"

theorem cycle_checks_agree_witness:
  "\<not> acyclic (dep_rel (dependency_map cyclic_policy)) \<and> validate_reachability cyclic_policy \<noteq> []"
proof -
  have "validate_phase_names cyclic_policy = []" "validate_phase_references cyclic_policy = []"
    by code_simp+
  moreover have "validate_cycle_detection cyclic_policy \<noteq> Some []" by code_simp
  ultimately show ?thesis using cycle_checks_agree [of cyclic_policy] by auto
qed

section \<open>Transcode settings\<close>

text \<open>
  C31: validated video transcode settings. If the validator accepts a video transcode, it compiles
  to a transcode of video tracks to a canonical video codec in which every quality target lies
  between 60 and 100, hardware backend, tone mapping, tuning and scaling are known names, the
  fallback quality is at most 51, and cropping samples at least one frame with proper ratios;
  a quality target and a sample strategy that were given are never lost.
\<close>

theorem validated_transcode:
  assumes "fst (validate_transcode_operation D ''video'' codec settings line col) = []"
  shows "\<exists>c s. compile_transcode ''video'' codec settings = Inr (OpTranscode TgtVideo c s)
    \<and> normalize_codec c = Some c \<and> codec_type_of c = Some CodecVideo
    \<and> (\<forall>t. cts_target_vmaf s = Some t \<longrightarrow> 60 \<le> t \<and> t \<le> 100)
    \<and> (\<forall>m k t. cts_vmaf_overrides s = Some m \<and> hm_get m k = Some t \<longrightarrow> 60 \<le> t \<and> t \<le> 100)
    \<and> (\<forall>h. cts_hw s = Some h \<longrightarrow> h \<in> set VALID_HW_VALUES)
    \<and> (\<forall>h. cts_tonemap s = Some h \<longrightarrow> h \<in> set VALID_TONEMAP_ALGORITHMS)
    \<and> (\<forall>h. cts_tune s = Some h \<longrightarrow> h \<in> set VALID_TUNE_VALUES)
    \<and> (\<forall>h. cts_scale_algorithm s = Some h \<longrightarrow> h \<in> set VALID_SCALE_ALGORITHMS)
    \<and> (\<forall>fb. cts_fallback s = Some fb \<longrightarrow> tf_crf fb \<le> 51)
    \<and> (\<forall>crop. cts_crop s = Some crop \<longrightarrow>
         cs_sample_count crop \<noteq> Some 0 \<and> list_all is_crop_ratio (cs_aspect_lock crop))
    \<and> (cts_target_vmaf s = None \<longleftrightarrow> find_setting settings ''target_vmaf'' = None)
    \<and> (cts_sample_strategy s = None \<longleftrightarrow> find_setting settings ''sample_strategy'' = None)"
proof -
  let ?get = "find_setting settings"
  have vmaf: "get_u32 (?get ''target_vmaf'') = Some t \<Longrightarrow> 60 \<le> t \<and> t \<le> 100"
    "get_u32 (?get ''target_vmaf'') = None \<longleftrightarrow> ?get ''target_vmaf'' = None" for t
    using valid_vmaf_target [OF assms] by (cases "?get ''target_vmaf''"; fastforce simp: get_u32_def)+
  have "parse_sample_strategy (?get ''sample_strategy'') = None \<longleftrightarrow> ?get ''sample_strategy'' = None"
    using valid_sample_strategy [OF assms]
    by (cases "?get ''sample_strategy''") (auto simp: parse_sample_strategy_def)
  moreover have "60 \<le> t \<and> t \<le> 100"
    if "parse_vmaf_overrides settings = Some m" "hm_get m k = Some t" for m k t
  proof (rule valid_vmaf_overrides [of settings line col "[]" k t])
    show "vmaf_errors line col kv = []" if "kv \<in> set settings" for kv
      using vmaf_settings_Nil [OF _ that] assms by (simp add: validate_transcode_operation_def)
  qed (use that in \<open>auto simp: parse_vmaf_overrides_def Let_def split: if_splits\<close>)
  moreover note valid_video_names [OF assms] valid_fallback [OF assms] valid_video_codec [OF assms]
  moreover have "cs_sample_count crop \<noteq> Some 0 \<and> list_all is_crop_ratio (cs_aspect_lock crop)"
    if "compile_crop_settings settings = Some crop" for crop
    using valid_crop [OF assms that] by (auto simp: list_all_iff)
  ultimately show ?thesis
    using vmaf
    by (simp add: compile_transcode_def Let_def parse_track_target_def CompiledTranscodeSettings_new_def)
      blast
qed

text \<open>The checks on concrete settings, by evaluation.\<close>

lemmas transcode_checks =
  validate_transcode_operation_def validate_track_target_def validate_codec_def
  validate_codec_track_type_def validate_value_def validate_number_suffix_def
  validate_transcode_keys_def validate_ident_against_def KNOWN_TRANSCODE_KEYS_def
  validate_hw_settings_def validate_ident_setting_def VALID_HW_VALUES_def
  validate_video_transcode_settings_def validate_video_setting_def
  validate_vmaf_transcode_settings_def validate_vmaf_setting_def validate_vmaf_target_def
  validate_bitrate_value_def parse_bitrate_def parse_unsigned_def digits_value_def U64_MAX_def
  U32_MAX_def numeric_u32_def is_ascii_digit_def value_string_def value_name_def value_text_def
  validate_transcode_fallback_def numeric_arg_def string_arg_def find_setting_def
  check_that_def rep_errors_def rep_concat_def

definition vmaf_settings :: dsl_settings where
  "vmaf_settings =
     [(''target_vmaf'', VNumber 95 ''95''), (''hw'', VIdent ''auto''), (''max_bitrate'', VString ''8M'')]"

theorem validated_transcode_witness:
  "\<exists>s. compile_transcode ''video'' ''x265'' vmaf_settings = Inr (OpTranscode TgtVideo ''hevc'' s)
     \<and> cts_target_vmaf s \<noteq> None"
proof -
  have "normalize_codec ''x265'' = Some ''hevc''" "codec_type_of ''x265'' = Some CodecVideo"
    by code_simp+
  then have "fst (validate_transcode_operation plain_dsl_env ''video'' ''x265'' vmaf_settings 1 1) = []"
    by (simp add: vmaf_settings_def transcode_checks)
  note validated_transcode [OF this]
  moreover have "find_setting vmaf_settings ''target_vmaf'' \<noteq> None" by code_simp
  moreover have "canonical_codec ''x265'' = ''hevc''" by code_simp
  ultimately show ?thesis
    by (auto simp: compile_transcode_def Let_def parse_track_target_def)
qed

text \<open>
  C34: bitrates. A bitrate is a sequence of digits with an optional unit. A number printed in
  decimal with a unit reads back as its product with the unit, unless that exceeds 64 bits, and
  whatever is read is such a product and fits in 64 bits.
\<close>

theorem bitrate_roundtrip:
  assumes "(suf, m) \<in> set bitrate_units"
  shows "parse_bitrate (nat_str n @ suf) = (if n * m \<le> U64_MAX then Some (n * m) else None)
    \<and> (\<forall>raw v. parse_bitrate raw = Some v \<longrightarrow>
         v \<le> U64_MAX \<and> (\<exists>ds u k. (u, k) \<in> set bitrate_units \<and> raw = ds @ u \<and> ds \<noteq> []
            \<and> list_all is_ascii_digit ds \<and> v = digits_value ds * k))"
proof -
  have "parse_bitrate (nat_str n @ suf) = (if n * m \<le> U64_MAX then Some (n * m) else None)"
    using parse_bitrate_eq [OF conjunct1 [OF nat_str_digits] conjunct2 [OF nat_str_digits] assms, of n]
    by (simp add: digits_value_nat_str)
  moreover have "v \<le> U64_MAX \<and> (\<exists>ds u k. (u, k) \<in> set bitrate_units \<and> raw = ds @ u \<and> ds \<noteq> []
      \<and> list_all is_ascii_digit ds \<and> v = digits_value ds * k)"
    if "parse_bitrate raw = Some v" for raw v
    using that by (rule parse_bitrate_Some) blast
  ultimately show ?thesis by blast
qed

theorem bitrate_roundtrip_witness: "parse_bitrate (nat_str 500 @ ''k'') = Some 500000"
proof -
  have "(''k'', 1000) \<in> set bitrate_units" by (simp add: bitrate_units_def)
  from bitrate_roundtrip [OF this, of 500] show ?thesis by (simp add: U64_MAX_def)
qed

section \<open>Suggestions\<close>

text \<open>
  C32: the two implementations of the edit distance. The one on bytes with two rows and the one on
  characters with the whole table both compute the least number of insertions, deletions and
  substitutions that turn the one string into the other.
\<close>

theorem edit_distance_minimal:
  "edit_distance a b = (LEAST n. edits n a b)
   \<and> edit_distance_chars a b = (LEAST n. edits n (utf8_chars a) (utf8_chars b))"
  by (simp add: edit_distance_least edit_distance_chars_least)

text \<open>
  C33: the suggestion for an unknown codec. Whatever the order in which the hash tables are visited,
  there is a suggestion exactly if some known name or alias is within three edits of the
  lower-cased name; it is the canonical name of one of the closest, and is itself accepted.
\<close>

theorem suggest_codec_closest:
  assumes "\<And>xs. set (hash_order xs) = set xs"
  shows "case suggest_codec hash_order name of
      None \<Rightarrow> \<forall>alias c. normalize_codec alias = Some c \<longrightarrow> to_ascii_lowercase alias = alias \<longrightarrow>
                3 < edit_distance (to_ascii_lowercase name) alias
    | Some c \<Rightarrow> normalize_codec c = Some c
        \<and> (\<exists>alias. normalize_codec alias = Some c \<and> to_ascii_lowercase alias = alias
             \<and> edit_distance (to_ascii_lowercase name) alias \<le> 3
             \<and> (\<forall>other c'. normalize_codec other = Some c' \<longrightarrow> to_ascii_lowercase other = other \<longrightarrow>
                  edit_distance (to_ascii_lowercase name) alias
                    \<le> edit_distance (to_ascii_lowercase name) other))"
proof -
  let ?lower = "to_ascii_lowercase name"
  have lower: "to_ascii_lowercase k = k" if "map_of codec_tables k = Some c" for k c
  proof -
    have "list_all (\<lambda>(k, v). to_ascii_lowercase k = k) codec_tables" by code_simp
    then show ?thesis using map_of_SomeD [OF that] by (auto simp: list_all_iff)
  qed
  have known: "normalize_codec k = Some c \<and> to_ascii_lowercase k = k \<longleftrightarrow> map_of codec_tables k = Some c"
    for k c
    using lower [of k c] by (auto simp: normalize_codec_map_of)
  have cands: "set (codec_candidates hash_order ?lower)
      = {(c, edit_distance ?lower k) | c k. normalize_codec k = Some c \<and> to_ascii_lowercase k = k}"
    using set_codec_candidates [of hash_order ?lower] assms by (simp add: known)
  show ?thesis
  proof (cases "best_of (codec_candidates hash_order ?lower)")
    case None
    then show ?thesis
      using best_of_spec [of "codec_candidates hash_order ?lower"]
      by (auto simp: suggest_codec_best_of cands)
  next
    case (Some p)
    obtain c d where p: "p = (c, d)" by (cases p)
    with Some have best: "(c, d) \<in> set (codec_candidates hash_order ?lower)" "d \<le> 3"
        "\<forall>(c', d') \<in> set (codec_candidates hash_order ?lower). d \<le> d'"
      using best_of_spec [of "codec_candidates hash_order ?lower"] by auto
    then obtain k where k: "normalize_codec k = Some c" "to_ascii_lowercase k = k"
        "d = edit_distance ?lower k"
      by (auto simp: cands)
    have "edit_distance ?lower k \<le> edit_distance ?lower other"
      if "normalize_codec other = Some c'" "to_ascii_lowercase other = other" for other c'
    proof -
      have "(c', edit_distance ?lower other) \<in> set (codec_candidates hash_order ?lower)"
        using that unfolding cands by blast
      then show ?thesis using best(3) k(3) by blast
    qed
    then show ?thesis
      using Some p k best(2) normalize_codec_canonical [OF k(1)] by (auto simp: suggest_codec_best_of)
  qed
qed

theorem suggest_codec_closest_witness:
  "\<exists>c. suggest_codec (\<lambda>xs. xs) ''hevx'' = Some c \<and> normalize_codec c = Some c"
proof -
  have "normalize_codec ''hevc'' = Some ''hevc''" "to_ascii_lowercase ''hevc'' = ''hevc''"
    "\<not> 3 < edit_distance (to_ascii_lowercase ''hevx'') ''hevc''" by code_simp+
  then show ?thesis
    using suggest_codec_closest [of "\<lambda>xs. xs" "''hevx''"]
    by (cases "suggest_codec (\<lambda>xs. xs) ''hevx''") auto
qed

section \<open>Where validator and compiler disagree\<close>

text \<open>The condition of \<open>create_if\<close> is not validated: a policy passes validation and fails to
  compile.\<close>

definition create_if_policy :: policy_ast where
  "create_if_policy = policy_of ''p'' None
     [phase_of ''a'' False None
        [NSynthesize ''x'' [SSCreateIf (NExists \<lparr>tq_target = ''audio'', tq_filter = Some (NTitleMatches ''['')\<rparr>)]]]"

lemma create_if_unvalidated:
  "validate plain_dsl_env create_if_policy = Some (Inr ())
   \<and> (\<exists>msg. compile_ast plain_dsl_env create_if_policy = Inl (DslFail (DslCompile msg)))"
proof
  show "\<exists>msg. compile_ast plain_dsl_env create_if_policy = Inl (DslFail (DslCompile msg))"
    by (simp add: compile_ast_def compile_ast_with_composition_def create_if_policy_def policy_of_def
        phase_of_def compile_phase_def compile_operation_def compile_synthesize_def
        compile_synth_setting_def compile_target_filter_def parse_track_target_def opt_result_def
        plain_dsl_env_def fail_compile_def)
qed code_simp

text \<open>A number is accepted as the preset of a fallback, but the compiler drops the fallback.\<close>

lemma numeric_fallback_preset_dropped:
  "validate_transcode_fallback (VObject [(''crf'', VNumber 20 ''20''), (''preset'', VNumber 5 ''5'')]) 1 1 = []
   \<and> parse_transcode_fallback (Some (VObject [(''crf'', VNumber 20 ''20''), (''preset'', VNumber 5 ''5'')]))
     = None"
  by (simp add: transcode_checks parse_transcode_fallback_def get_u32_def safe_u32_def)

text \<open>With a repeated key the validator compares the last bitrates, the compiler takes the first.\<close>

definition repeated_bitrate :: dsl_settings where
  "repeated_bitrate =
     [(''min_bitrate'', VString ''9M''), (''max_bitrate'', VString ''5M''), (''min_bitrate'', VString ''1k'')]"

lemma repeated_bitrate_unchecked:
  "fst (validate_transcode_operation plain_dsl_env ''video'' ''hevc'' repeated_bitrate 1 1) = []
   \<and> value_text (find_setting repeated_bitrate ''min_bitrate'') = Some ''9M''
   \<and> value_text (find_setting repeated_bitrate ''max_bitrate'') = Some ''5M''"
proof -
  have "normalize_codec ''hevc'' = Some ''hevc''" "codec_type_of ''hevc'' = Some CodecVideo"
    by code_simp+
  then show ?thesis by (simp add: repeated_bitrate_def transcode_checks)
qed

end
