(* ===== verification/Jobs.thy ===== *)
theory Jobs
  imports Events "HOL-Library.Product_Lexorder"
begin

text \<open>
  Background jobs: the data of \<open>crates/voom-domain/src/job.rs\<close> and \<open>storage.rs\<close>, and the table of
  jobs behind them, \<open>plugins/sqlite-store/src/store/job_storage.rs\<close>. A row keeps the type and the
  status of a job as texts, as the table does; identifiers, times and JSON columns hold the values
  that their texts stand for. The RFC 3339 texts of UTC times sort like the times. The list of rows
  is in the order in which the engine scans them, so that rows that a statement's \<open>ORDER BY\<close> does
  not separate may come in any order.

  Every call of the engine may fail: \<open>jd_faults\<close> says which of the next calls do, with the text of
  the engine's error. A transaction that is dropped on an error rolls back.
\<close>

section \<open>Jobs\<close>

definition JobType_as_str :: "job_type \<Rightarrow> string" where
  "JobType_as_str t =
     (case t of JtProcess \<Rightarrow> ''process'' | JtTranscode \<Rightarrow> ''transcode'' | JtScan \<Rightarrow> ''scan''
      | JtIntrospect \<Rightarrow> ''introspect'' | JtCustom s \<Rightarrow> s)"

definition JobType_parse :: "string \<Rightarrow> job_type" where
  "JobType_parse s =
     (if s = ''process'' then JtProcess else if s = ''transcode'' then JtTranscode
      else if s = ''scan'' then JtScan else if s = ''introspect'' then JtIntrospect
      else JtCustom s)"

datatype job_status = JobPending | JobRunning | JobCompleted | JobFailed | JobCancelled

definition JobStatus_as_str :: "job_status \<Rightarrow> string" where
  "JobStatus_as_str s =
     (case s of JobPending \<Rightarrow> ''pending'' | JobRunning \<Rightarrow> ''running'' | JobCompleted \<Rightarrow> ''completed''
      | JobFailed \<Rightarrow> ''failed'' | JobCancelled \<Rightarrow> ''cancelled'')"

definition JobStatus_parse :: "string \<Rightarrow> job_status option" where
  "JobStatus_parse s =
     (if s = ''pending'' then Some JobPending else if s = ''running'' then Some JobRunning
      else if s = ''completed'' then Some JobCompleted else if s = ''failed'' then Some JobFailed
      else if s = ''cancelled'' then Some JobCancelled else None)"

record job =
  job_id :: uuid
  job_job_type :: job_type
  job_status :: job_status
  job_priority :: int
  job_payload :: "json option"
  job_progress :: f64
  job_progress_message :: "string option"
  job_output :: "json option"
  job_error :: "string option"
  job_worker_id :: "string option"
  job_created_at :: timestamp
  job_started_at :: "timestamp option"
  job_completed_at :: "timestamp option"

definition Job_new :: "mint \<Rightarrow> job_type \<Rightarrow> job" where
  "Job_new m t =
     \<lparr>job_id = mint_uuid m, job_job_type = t, job_status = JobPending, job_priority = 100,
      job_payload = None, job_progress = 0, job_progress_message = None, job_output = None,
      job_error = None, job_worker_id = None, job_created_at = mint_now m, job_started_at = None,
      job_completed_at = None\<rparr>"

definition Job_is_terminal :: "job \<Rightarrow> bool" where
  "Job_is_terminal j = (job_status j \<in> {JobCompleted, JobFailed, JobCancelled})"

text \<open>A partial update: \<open>None\<close> leaves a field as it is.\<close>

record job_update =
  ju_status :: "job_status option"
  ju_progress :: "f64 option"
  ju_progress_message :: "string option option"
  ju_output :: "json option option"
  ju_error :: "string option option"
  ju_worker_id :: "string option option"
  ju_started_at :: "timestamp option option"
  ju_completed_at :: "timestamp option option"

definition JobUpdate_default :: job_update where
  "JobUpdate_default =
     \<lparr>ju_status = None, ju_progress = None, ju_progress_message = None, ju_output = None,
      ju_error = None, ju_worker_id = None, ju_started_at = None, ju_completed_at = None\<rparr>"

record job_filters =
  jf_status :: "job_status option"
  jf_limit :: "u32 option"
  jf_offset :: "u32 option"

record retention_policy =
  rp_max_age :: "int option"
  rp_keep_last :: "u64 option"

definition RetentionPolicy_is_disabled :: "retention_policy \<Rightarrow> bool" where
  "RetentionPolicy_is_disabled p = (rp_max_age p = None \<and> rp_keep_last p = None)"

definition RetentionPolicy_cutoff :: "timestamp \<Rightarrow> retention_policy \<Rightarrow> timestamp option" where
  "RetentionPolicy_cutoff now p = map_option (\<lambda>d. now - d) (rp_max_age p)"

definition RetentionPolicy_keep_last_i64 :: "retention_policy \<Rightarrow> nat option" where
  "RetentionPolicy_keep_last_i64 p =
     Option.bind (rp_keep_last p) (\<lambda>n. if n < 2 ^ 63 then Some n else None)"

record prune_report =
  prr_deleted :: u64
  prr_kept :: u64

section \<open>The engine\<close>

datatype rusqlite_error =
    SqliteConstraint string
  | SqliteOther string
  | QueryReturnedNoRows
  | FromSqlConversionFailure string

definition rusqlite_display :: "rusqlite_error \<Rightarrow> string" where
  "rusqlite_display e =
     (case e of SqliteConstraint m \<Rightarrow> m | SqliteOther m \<Rightarrow> m
      | QueryReturnedNoRows \<Rightarrow> ''Query returned no rows''
      | FromSqlConversionFailure m \<Rightarrow> m)"

definition classify_rusqlite :: "rusqlite_error \<Rightarrow> storage_error_kind" where
  "classify_rusqlite e =
     (case e of SqliteConstraint _ \<Rightarrow> ConstraintViolation | QueryReturnedNoRows \<Rightarrow> NotFound
      | _ \<Rightarrow> OtherStorage)"

definition storage_err :: "string \<Rightarrow> rusqlite_error \<Rightarrow> voom_error" where
  "storage_err msg e = StorageError (classify_rusqlite e) (msg @ '': '' @ rusqlite_display e)"

definition other_storage_err :: "string \<Rightarrow> string \<Rightarrow> voom_error" where
  "other_storage_err msg e = StorageError OtherStorage (msg @ '': '' @ e)"

definition sql_optional :: "rusqlite_error + 'a \<Rightarrow> rusqlite_error + 'a option" where
  "sql_optional r =
     (case r of Inr v \<Rightarrow> Inr (Some v) | Inl QueryReturnedNoRows \<Rightarrow> Inr None | Inl e \<Rightarrow> Inl e)"

record job_row =
  jr_id :: uuid
  jr_job_type :: string
  jr_status :: string
  jr_priority :: int
  jr_payload :: "json option"
  jr_progress :: f64
  jr_progress_message :: "string option"
  jr_output :: "json option"
  jr_error :: "string option"
  jr_worker_id :: "string option"
  jr_created_at :: timestamp
  jr_started_at :: "timestamp option"
  jr_completed_at :: "timestamp option"

record job_db =
  jd_rows :: "job_row list"
  jd_faults :: "string option list"

type_synonym 'a db_op = "job_db \<Rightarrow> (voom_error + 'a) \<times> job_db"

definition db_return :: "'a \<Rightarrow> 'a db_op" where
  "db_return x d = (Inr x, d)"

definition db_result :: "voom_error + 'a \<Rightarrow> 'a db_op" where
  "db_result r d = (r, d)"

definition db_bind :: "'a db_op \<Rightarrow> ('a \<Rightarrow> 'b db_op) \<Rightarrow> 'b db_op" where
  "db_bind f g d = (case f d of (Inl e, d') \<Rightarrow> (Inl e, d') | (Inr x, d') \<Rightarrow> g x d')"

text \<open>One call of the engine: whether it fails, and the faults that are left.\<close>

fun db_fault :: "job_db \<Rightarrow> string option \<times> job_db" where
  "db_fault d =
     (case jd_faults d of [] \<Rightarrow> (None, d) | x # xs \<Rightarrow> (x, d\<lparr>jd_faults := xs\<rparr>))"

declare db_fault.simps [simp del]

definition db_conn :: "unit db_op" where
  "db_conn d =
     (case db_fault d of
        (Some m, d') \<Rightarrow> (Inl (other_storage_err ''failed to get connection'' m), d')
      | (None, d') \<Rightarrow> (Inr (), d'))"

text \<open>
  A statement: \<open>f\<close> is what it does to the rows and what it returns. A failing statement leaves the
  rows as they are.
\<close>

definition db_execute ::
  "string \<Rightarrow> (job_row list \<Rightarrow> rusqlite_error + job_row list \<times> 'a) \<Rightarrow> 'a db_op" where
  "db_execute msg f d =
     (case db_fault d of
        (Some m, d') \<Rightarrow> (Inl (storage_err msg (SqliteOther m)), d')
      | (None, d') \<Rightarrow>
          (case f (jd_rows d') of
             Inl e \<Rightarrow> (Inl (storage_err msg e), d')
           | Inr (rows, x) \<Rightarrow> (Inr x, d'\<lparr>jd_rows := rows\<rparr>)))"

definition db_query :: "string \<Rightarrow> (job_row list \<Rightarrow> rusqlite_error + 'a) \<Rightarrow> 'a db_op" where
  "db_query msg f =
     db_execute msg (\<lambda>rows. case f rows of Inl e \<Rightarrow> Inl e | Inr x \<Rightarrow> Inr (rows, x))"

text \<open>\<open>transaction_with_behavior\<close>, the body, \<open>commit\<close>; the drop of an open transaction.\<close>

definition db_transaction :: "string \<Rightarrow> 'a db_op \<Rightarrow> 'a db_op" where
  "db_transaction commit_msg body d =
     (case db_bind (db_execute ''failed to begin transaction'' (\<lambda>rows. Inr (rows, ())))
             (\<lambda>_. db_bind body
               (\<lambda>x. db_bind (db_execute commit_msg (\<lambda>rows. Inr (rows, ()))) (\<lambda>_. db_return x))) d of
        (Inl e, d') \<Rightarrow> (Inl e, d'\<lparr>jd_rows := jd_rows d\<rparr>)
      | (Inr x, d') \<Rightarrow> (Inr x, d'))"

section \<open>Rows\<close>

definition job_to_row :: "job \<Rightarrow> job_row" where
  "job_to_row j =
     \<lparr>jr_id = job_id j, jr_job_type = JobType_as_str (job_job_type j),
      jr_status = JobStatus_as_str (job_status j), jr_priority = job_priority j,
      jr_payload = job_payload j, jr_progress = job_progress j,
      jr_progress_message = job_progress_message j, jr_output = job_output j,
      jr_error = job_error j, jr_worker_id = job_worker_id j, jr_created_at = job_created_at j,
      jr_started_at = job_started_at j, jr_completed_at = job_completed_at j\<rparr>"

definition row_to_job :: "job_row \<Rightarrow> rusqlite_error + job" where
  "row_to_job r =
     (case JobStatus_parse (jr_status r) of
        None \<Rightarrow> Inl (FromSqlConversionFailure (''unknown job status: '' @ jr_status r))
      | Some st \<Rightarrow>
          Inr \<lparr>job_id = jr_id r, job_job_type = JobType_parse (jr_job_type r), job_status = st,
            job_priority = jr_priority r, job_payload = jr_payload r,
            job_progress = jr_progress r, job_progress_message = jr_progress_message r,
            job_output = jr_output r, job_error = jr_error r, job_worker_id = jr_worker_id r,
            job_created_at = jr_created_at r, job_started_at = jr_started_at r,
            job_completed_at = jr_completed_at r\<rparr>)"

text \<open>\<open>query_row\<close> takes the first row.\<close>

definition query_row :: "(job_row \<Rightarrow> rusqlite_error + 'a) \<Rightarrow> job_row list \<Rightarrow> rusqlite_error + 'a" where
  "query_row f rows = (case rows of [] \<Rightarrow> Inl QueryReturnedNoRows | r # _ \<Rightarrow> f r)"

definition select_job :: "uuid \<Rightarrow> job_row list \<Rightarrow> rusqlite_error + job option" where
  "select_job i rows = sql_optional (query_row row_to_job (filter (\<lambda>r. jr_id r = i) rows))"

text \<open>\<open>UPDATE jobs SET ... WHERE ...\<close> with the number of changed rows.\<close>

definition update_where ::
  "(job_row \<Rightarrow> bool) \<Rightarrow> (job_row \<Rightarrow> job_row) \<Rightarrow> job_row list \<Rightarrow> job_row list \<times> nat" where
  "update_where P f rows = (map (\<lambda>r. if P r then f r else r) rows, length (filter P rows))"

definition terminal_row :: "job_row \<Rightarrow> bool" where
  "terminal_row r = (jr_status r \<in> {''completed'', ''failed'', ''cancelled''})"

section \<open>The storage operations\<close>

definition create_job :: "job \<Rightarrow> uuid db_op" where
  "create_job j =
     db_bind db_conn (\<lambda>_.
     db_bind (db_execute ''failed to create job''
       (\<lambda>rows. if list_ex (\<lambda>r. jr_id r = job_id j) rows
               then Inl (SqliteConstraint ''UNIQUE constraint failed: jobs.id'')
               else Inr (rows @ [job_to_row j], ()))) (\<lambda>_.
     db_return (job_id j)))"

definition job_by_id :: "uuid \<Rightarrow> job option db_op" where
  "job_by_id i = db_bind db_conn (\<lambda>_. db_query ''failed to get job'' (select_job i))"

text \<open>The assignments of the \<open>SET\<close> clause, in the order in which they are collected.\<close>

definition update_sets :: "job_update \<Rightarrow> (job_row \<Rightarrow> job_row) list" where
  "update_sets u =
     (case ju_status u of None \<Rightarrow> [] | Some v \<Rightarrow> [\<lambda>r. r\<lparr>jr_status := JobStatus_as_str v\<rparr>]) @
     (case ju_progress u of None \<Rightarrow> [] | Some v \<Rightarrow> [\<lambda>r. r\<lparr>jr_progress := v\<rparr>]) @
     (case ju_progress_message u of None \<Rightarrow> [] | Some v \<Rightarrow> [\<lambda>r. r\<lparr>jr_progress_message := v\<rparr>]) @
     (case ju_output u of None \<Rightarrow> [] | Some v \<Rightarrow> [\<lambda>r. r\<lparr>jr_output := v\<rparr>]) @
     (case ju_error u of None \<Rightarrow> [] | Some v \<Rightarrow> [\<lambda>r. r\<lparr>jr_error := v\<rparr>]) @
     (case ju_worker_id u of None \<Rightarrow> [] | Some v \<Rightarrow> [\<lambda>r. r\<lparr>jr_worker_id := v\<rparr>]) @
     (case ju_started_at u of None \<Rightarrow> [] | Some v \<Rightarrow> [\<lambda>r. r\<lparr>jr_started_at := v\<rparr>]) @
     (case ju_completed_at u of None \<Rightarrow> [] | Some v \<Rightarrow> [\<lambda>r. r\<lparr>jr_completed_at := v\<rparr>])"

definition update_job :: "uuid \<Rightarrow> job_update \<Rightarrow> unit db_op" where
  "update_job i u =
     db_bind db_conn (\<lambda>_.
       if update_sets u = [] then db_return ()
       else db_bind (db_execute ''failed to update job''
              (\<lambda>rows. Inr (update_where (\<lambda>r. jr_id r = i) (\<lambda>r. fold (\<lambda>f. f) (update_sets u) r)
                            rows))) (\<lambda>_.
            db_return ()))"

definition claim_row :: "string \<Rightarrow> timestamp \<Rightarrow> job_row \<Rightarrow> job_row" where
  "claim_row worker now r =
     r\<lparr>jr_status := ''running'', jr_worker_id := Some worker, jr_started_at := Some now\<rparr>"

definition pending_rows :: "job_row list \<Rightarrow> job_row list" where
  "pending_rows rows =
     sort_key (\<lambda>r. (jr_priority r, jr_created_at r)) (filter (\<lambda>r. jr_status r = ''pending'') rows)"

definition claim_next_job :: "string \<Rightarrow> timestamp \<Rightarrow> job option db_op" where
  "claim_next_job worker now =
     db_bind db_conn (\<lambda>_.
     db_transaction ''failed to commit claim''
       (db_bind (db_query ''failed to find pending job''
                  (\<lambda>rows. sql_optional (query_row (\<lambda>r. Inr (jr_id r)) (pending_rows rows))))
         (\<lambda>target. case target of
            None \<Rightarrow> db_return None
          | Some i \<Rightarrow>
              db_bind (db_execute ''failed to claim job''
                (\<lambda>rows. Inr (update_where (\<lambda>r. jr_id r = i) (claim_row worker now) rows)))
              (\<lambda>_. db_query ''failed to get claimed job'' (select_job i)))))"

definition claim_job_by_id :: "uuid \<Rightarrow> string \<Rightarrow> timestamp \<Rightarrow> job option db_op" where
  "claim_job_by_id i worker now =
     db_bind db_conn (\<lambda>_.
     db_transaction ''failed to commit claim''
       (db_bind (db_execute ''failed to claim job by id''
                  (\<lambda>rows. Inr (update_where (\<lambda>r. jr_id r = i \<and> jr_status r = ''pending'')
                                (claim_row worker now) rows)))
         (\<lambda>changed. if changed = 0 then db_return None
                    else db_query ''failed to get claimed job'' (select_job i))))"

text \<open>
  \<open>LIMIT\<close> and \<open>OFFSET\<close> as \<open>SqlQuery::paginate\<close> appends them. The grammar of SQL has \<open>OFFSET\<close>
  only after \<open>LIMIT\<close>, so that an offset alone makes the statement a syntax error.
\<close>

definition paginate :: "u32 option \<Rightarrow> u32 option \<Rightarrow> 'a list \<Rightarrow> rusqlite_error + 'a list" where
  "paginate cap skip xs =
     (case (cap, skip) of
        (None, None) \<Rightarrow> Inr xs
      | (None, Some _) \<Rightarrow> Inl (SqliteOther
          (''near '' @ [CHR 0x22] @ ''OFFSET'' @ [CHR 0x22] @ '': syntax error''))
      | (Some l, None) \<Rightarrow> Inr (take (min l 10000) xs)
      | (Some l, Some k) \<Rightarrow> Inr (take (min l 10000) (drop (min k 1000000) xs)))"

definition list_jobs :: "job_filters \<Rightarrow> job list db_op" where
  "list_jobs filters =
     db_bind db_conn (\<lambda>_.
     db_bind (db_query ''failed to prepare list jobs query''
       (\<lambda>rows. paginate (jf_limit filters) (jf_offset filters)
          (sort_key (\<lambda>r. (jr_priority r, - jr_created_at r))
            (filter (\<lambda>r. case jf_status filters of None \<Rightarrow> True
                         | Some st \<Rightarrow> jr_status r = JobStatus_as_str st) rows)))) (\<lambda>selected.
     db_bind (db_query ''failed to list jobs'' (\<lambda>_. Inr ())) (\<lambda>_.
     db_query ''failed to collect jobs'' (\<lambda>_. map_result row_to_job selected))))"

definition delete_where :: "(job_row \<Rightarrow> bool) \<Rightarrow> job_row list \<Rightarrow> job_row list \<times> nat" where
  "delete_where P rows = (filter (\<lambda>r. \<not> P r) rows, length (filter P rows))"

definition delete_jobs :: "job_status option \<Rightarrow> u64 db_op" where
  "delete_jobs st =
     db_bind db_conn (\<lambda>_.
     db_execute ''failed to delete jobs''
       (\<lambda>rows. Inr (delete_where
          (case st of Some s \<Rightarrow> (\<lambda>r. jr_status r = JobStatus_as_str s) | None \<Rightarrow> terminal_row)
          rows)))"

definition effective_at :: "job_row \<Rightarrow> timestamp" where
  "effective_at r = (case jr_completed_at r of Some t \<Rightarrow> t | None \<Rightarrow> jr_created_at r)"

text \<open>The ids that the common table expression \<open>ranked\<close> selects; row numbers count from one.\<close>

definition ranked :: "job_row list \<Rightarrow> (job_row \<times> nat) list" where
  "ranked rows =
     (let xs = sort_key (\<lambda>r. - effective_at r) (filter terminal_row rows) in
      zip xs [1..<Suc (length xs)])"

definition prune_selected :: "timestamp option \<Rightarrow> nat option \<Rightarrow> job_row list \<Rightarrow> uuid list" where
  "prune_selected cutoff keep_last rows =
     map (\<lambda>(r, _). jr_id r)
       (filter (\<lambda>(r, rn).
          (case cutoff of Some c \<Rightarrow> effective_at r < c | None \<Rightarrow> False)
          \<or> (case keep_last of Some k \<Rightarrow> k < rn | None \<Rightarrow> False)) (ranked rows))"

definition count_terminal :: "string \<Rightarrow> u64 db_op" where
  "count_terminal msg = db_query msg (\<lambda>rows. Inr (length (filter terminal_row rows)))"

definition prune_old_jobs :: "timestamp \<Rightarrow> retention_policy \<Rightarrow> prune_report db_op" where
  "prune_old_jobs now policy =
     (if RetentionPolicy_is_disabled policy
      then db_bind db_conn (\<lambda>_.
           db_bind (count_terminal ''failed to count jobs'') (\<lambda>kept.
           db_return \<lparr>prr_deleted = 0, prr_kept = kept\<rparr>))
      else db_bind db_conn (\<lambda>_.
           db_bind (db_execute ''failed to prune old jobs''
             (\<lambda>rows. let ids = prune_selected (RetentionPolicy_cutoff now policy)
                                 (RetentionPolicy_keep_last_i64 policy) rows in
                Inr (delete_where (\<lambda>r. jr_id r \<in> set ids) rows))) (\<lambda>deleted.
           db_bind (count_terminal ''failed to count remaining jobs'') (\<lambda>kept.
           db_return \<lparr>prr_deleted = deleted, prr_kept = kept\<rparr>))))"

definition count_old_jobs :: "timestamp \<Rightarrow> retention_policy \<Rightarrow> prune_report db_op" where
  "count_old_jobs now policy =
     (if RetentionPolicy_is_disabled policy
      then db_bind db_conn (\<lambda>_.
           db_bind (count_terminal ''failed to count jobs'') (\<lambda>kept.
           db_return \<lparr>prr_deleted = 0, prr_kept = kept\<rparr>))
      else db_bind db_conn (\<lambda>_.
           db_bind (db_query ''failed to count old jobs''
             (\<lambda>rows. Inr (length (prune_selected (RetentionPolicy_cutoff now policy)
                                   (RetentionPolicy_keep_last_i64 policy) rows)))) (\<lambda>deleted.
           db_bind (count_terminal ''failed to count terminal jobs'') (\<lambda>total.
           db_return \<lparr>prr_deleted = deleted, prr_kept = total - deleted\<rparr>))))"

definition oldest_job_created_at :: "timestamp option db_op" where
  "oldest_job_created_at =
     db_bind db_conn (\<lambda>_.
     db_query ''failed to query oldest job''
       (\<lambda>rows. Inr (if rows = [] then None else Some (Min (jr_created_at ` set rows)))))"

definition status_counts :: "job_row list \<Rightarrow> (string \<times> u64) list" where
  "status_counts rows =
     map (\<lambda>s. (s, length (filter (\<lambda>r. jr_status r = s) rows)))
       (sort (remdups (map jr_status rows)))"

definition count_jobs_by_status :: "(job_status \<times> u64) list db_op" where
  "count_jobs_by_status =
     db_bind db_conn (\<lambda>_.
     db_bind (db_query ''failed to count jobs'' (\<lambda>rows. Inr (status_counts rows))) (\<lambda>counts.
     db_result (map_result (\<lambda>(s, c).
       case JobStatus_parse s of
         Some st \<Rightarrow> Inr (st, c)
       | None \<Rightarrow> Inl (StorageError OtherStorage
           (''unknown job status in database: '' @ [CHR 0x27] @ s @ [CHR 0x27] @ '' (count=''
            @ nat_str c @ '') '' @ [CHR 0xE2, CHR 0x80, CHR 0x94] @ '' data integrity issue''))) counts)))"

section \<open>The trait object\<close>

text \<open>
  \<open>dyn JobStorage\<close>: the operations that the job queue calls, on a store with state \<open>'s\<close>. The times
  that implementations read from the clock are arguments.
\<close>

record 's job_storage =
  js_create_job :: "job \<Rightarrow> 's \<Rightarrow> (voom_error + uuid) \<times> 's"
  js_job :: "uuid \<Rightarrow> 's \<Rightarrow> (voom_error + job option) \<times> 's"
  js_update_job :: "uuid \<Rightarrow> job_update \<Rightarrow> 's \<Rightarrow> (voom_error + unit) \<times> 's"
  js_claim_next_job :: "string \<Rightarrow> timestamp \<Rightarrow> 's \<Rightarrow> (voom_error + job option) \<times> 's"
  js_claim_job_by_id ::
    "uuid \<Rightarrow> string \<Rightarrow> timestamp \<Rightarrow> 's \<Rightarrow> (voom_error + job option) \<times> 's"
  js_list_jobs :: "job_filters \<Rightarrow> 's \<Rightarrow> (voom_error + job list) \<times> 's"
  js_count_jobs_by_status :: "'s \<Rightarrow> (voom_error + (job_status \<times> u64) list) \<times> 's"
  js_delete_jobs :: "job_status option \<Rightarrow> 's \<Rightarrow> (voom_error + u64) \<times> 's"
  js_prune_old_jobs :: "timestamp \<Rightarrow> retention_policy \<Rightarrow> 's \<Rightarrow> (voom_error + prune_report) \<times> 's"
  js_count_old_jobs :: "timestamp \<Rightarrow> retention_policy \<Rightarrow> 's \<Rightarrow> (voom_error + prune_report) \<times> 's"
  js_oldest_job_created_at :: "'s \<Rightarrow> (voom_error + timestamp option) \<times> 's"

definition SqliteStore :: "job_db job_storage" where
  "SqliteStore =
     \<lparr>js_create_job = create_job, js_job = job_by_id, js_update_job = update_job,
      js_claim_next_job = claim_next_job, js_claim_job_by_id = claim_job_by_id,
      js_list_jobs = list_jobs, js_count_jobs_by_status = count_jobs_by_status,
      js_delete_jobs = delete_jobs, js_prune_old_jobs = prune_old_jobs,
      js_count_old_jobs = count_old_jobs, js_oldest_job_created_at = oldest_job_created_at\<rparr>"


end
