(* ===== verification/Job_Queue.thy ===== *)
theory Job_Queue
  imports Jobs "HOL-Library.Multiset"
begin

text \<open>
  The job queue, \<open>plugins/job-manager/src/queue.rs\<close>, on top of a job storage. The locale
  \<open>job_store\<close> is the contract of the storage trait: what each operation does to the jobs that can
  be looked up, on success and on failure. The SQLite store of \<open>Jobs\<close> is shown to keep it, and the
  life cycle of jobs is proved from the contract alone.
\<close>

section \<open>Operations\<close>

definition job_plugin_err :: "string \<Rightarrow> voom_error" where
  "job_plugin_err message = PluginError ''job-manager'' message"

definition JobQueue_enqueue ::
  "'s job_storage \<Rightarrow> mint \<Rightarrow> job_type \<Rightarrow> int \<Rightarrow> json option \<Rightarrow> 's \<Rightarrow> (voom_error + uuid) \<times> 's" where
  "JobQueue_enqueue S m t priority payload =
     js_create_job S ((Job_new m t)\<lparr>job_priority := priority, job_payload := payload\<rparr>)"

definition JobQueue_claim ::
  "'s job_storage \<Rightarrow> string \<Rightarrow> timestamp \<Rightarrow> 's \<Rightarrow> (voom_error + job option) \<times> 's" where
  "JobQueue_claim S worker now = js_claim_next_job S worker now"

definition f64_clamp :: "f64 \<Rightarrow> f64 \<Rightarrow> f64 \<Rightarrow> f64" where
  "f64_clamp lo hi x = (if x < lo then lo else if hi < x then hi else x)"

definition JobQueue_report_progress ::
  "'s job_storage \<Rightarrow> uuid \<Rightarrow> f64 \<Rightarrow> string option \<Rightarrow> 's \<Rightarrow> (voom_error + unit) \<times> 's" where
  "JobQueue_report_progress S i progress message =
     js_update_job S i (JobUpdate_default\<lparr>ju_progress := Some (f64_clamp 0 1 progress),
       ju_progress_message := Some message\<rparr>)"

definition JobQueue_complete ::
  "'s job_storage \<Rightarrow> timestamp \<Rightarrow> uuid \<Rightarrow> json option \<Rightarrow> 's \<Rightarrow> (voom_error + unit) \<times> 's" where
  "JobQueue_complete S now i out =
     js_update_job S i (JobUpdate_default\<lparr>ju_status := Some JobCompleted, ju_progress := Some 1,
       ju_output := Some out, ju_completed_at := Some (Some now)\<rparr>)"

definition JobQueue_fail ::
  "'s job_storage \<Rightarrow> timestamp \<Rightarrow> uuid \<Rightarrow> string \<Rightarrow> 's \<Rightarrow> (voom_error + unit) \<times> 's" where
  "JobQueue_fail S now i err =
     js_update_job S i (JobUpdate_default\<lparr>ju_status := Some JobFailed, ju_error := Some (Some err),
       ju_completed_at := Some (Some now)\<rparr>)"

definition JobStatus_debug :: "job_status \<Rightarrow> string" where
  "JobStatus_debug s =
     (case s of JobPending \<Rightarrow> ''Pending'' | JobRunning \<Rightarrow> ''Running'' | JobCompleted \<Rightarrow> ''Completed''
      | JobFailed \<Rightarrow> ''Failed'' | JobCancelled \<Rightarrow> ''Cancelled'')"

text \<open>The text of a \<open>Uuid\<close> is the argument \<open>uuid_str\<close>.\<close>

definition JobQueue_cancel ::
  "'s job_storage \<Rightarrow> (uuid \<Rightarrow> string) \<Rightarrow> timestamp \<Rightarrow> uuid \<Rightarrow> 's \<Rightarrow> (voom_error + unit) \<times> 's" where
  "JobQueue_cancel S uuid_str now i s =
     (case js_job S i s of
        (Inl e, s') \<Rightarrow> (Inl e, s')
      | (Inr None, s') \<Rightarrow> (Inl (job_plugin_err (''job '' @ uuid_str i @ '' not found'')), s')
      | (Inr (Some j), s') \<Rightarrow>
          if job_status j = JobPending \<or> job_status j = JobRunning
          then js_update_job S i (JobUpdate_default\<lparr>ju_status := Some JobCancelled,
                 ju_completed_at := Some (Some now)\<rparr>) s'
          else (Inl (job_plugin_err (''cannot cancel job '' @ uuid_str i
                 @ '': already in terminal state '' @ [CHR 0x27] @ JobStatus_debug (job_status j)
                 @ [CHR 0x27])), s'))"

definition JobQueue_claim_by_id ::
  "'s job_storage \<Rightarrow> uuid \<Rightarrow> string \<Rightarrow> timestamp \<Rightarrow> 's \<Rightarrow> (voom_error + job option) \<times> 's" where
  "JobQueue_claim_by_id S i worker now = js_claim_job_by_id S i worker now"

definition JobQueue_job :: "'s job_storage \<Rightarrow> uuid \<Rightarrow> 's \<Rightarrow> (voom_error + job option) \<times> 's" where
  "JobQueue_job S i = js_job S i"

definition JobQueue_list_jobs ::
  "'s job_storage \<Rightarrow> job_filters \<Rightarrow> 's \<Rightarrow> (voom_error + job list) \<times> 's" where
  "JobQueue_list_jobs S filters = js_list_jobs S filters"

definition JobQueue_job_counts ::
  "'s job_storage \<Rightarrow> 's \<Rightarrow> (voom_error + (job_status \<times> u64) list) \<times> 's" where
  "JobQueue_job_counts S = js_count_jobs_by_status S"

section \<open>The contract of a job storage\<close>

text \<open>What an update does to a job, and a job as it comes back from the storage.\<close>

definition apply_update :: "job_update \<Rightarrow> job \<Rightarrow> job" where
  "apply_update u j =
     j\<lparr>job_status := case_option (job_status j) id (ju_status u),
       job_progress := case_option (job_progress j) id (ju_progress u),
       job_progress_message := case_option (job_progress_message j) id (ju_progress_message u),
       job_output := case_option (job_output j) id (ju_output u),
       job_error := case_option (job_error j) id (ju_error u),
       job_worker_id := case_option (job_worker_id j) id (ju_worker_id u),
       job_started_at := case_option (job_started_at j) id (ju_started_at u),
       job_completed_at := case_option (job_completed_at j) id (ju_completed_at u)\<rparr>"

definition stored_job :: "job \<Rightarrow> job" where
  "stored_job j = j\<lparr>job_job_type := JobType_parse (JobType_as_str (job_job_type j))\<rparr>"

definition claimed_job :: "string \<Rightarrow> timestamp \<Rightarrow> job \<Rightarrow> job" where
  "claimed_job worker now j =
     j\<lparr>job_status := JobRunning, job_worker_id := Some worker, job_started_at := Some now\<rparr>"

text \<open>The jobs that a deletion by status is asked to delete.\<close>

definition deleted_by :: "job_status option \<Rightarrow> job \<Rightarrow> bool" where
  "deleted_by st j = (case st of Some x \<Rightarrow> job_status j = x | None \<Rightarrow> Job_is_terminal j)"

locale job_store =
  fixes S :: "'s job_storage" and ok :: "'s \<Rightarrow> bool" and look :: "'s \<Rightarrow> uuid \<Rightarrow> job option"
  assumes create_law: "ok s \<Longrightarrow> js_create_job S j s = (rc, s') \<Longrightarrow>
      ok s' \<and> (case rc of Inl _ \<Rightarrow> look s' = look s
               | Inr i \<Rightarrow> i = job_id j \<and> look s i = None \<and> look s' = (look s)(i \<mapsto> stored_job j))"
    and job_law: "ok s \<Longrightarrow> js_job S i s = (rj, s') \<Longrightarrow>
      ok s' \<and> look s' = look s \<and> (case rj of Inl _ \<Rightarrow> True | Inr x \<Rightarrow> x = look s i)"
    and update_law: "ok s \<Longrightarrow> js_update_job S i u s = (ru, s') \<Longrightarrow>
      ok s' \<and> (case ru of Inl _ \<Rightarrow> look s' = look s
               | Inr _ \<Rightarrow> look s' = (look s)(i := map_option (apply_update u) (look s i)))"
    and claim_law: "ok s \<Longrightarrow> js_claim_job_by_id S i worker now s = (rq, s') \<Longrightarrow>
      ok s' \<and> (case rq of Inl _ \<Rightarrow> look s' = look s
               | Inr None \<Rightarrow> look s' = look s
                   \<and> (\<forall>j. look s i = Some j \<longrightarrow> job_status j \<noteq> JobPending)
               | Inr (Some j') \<Rightarrow> \<exists>j. look s i = Some j \<and> job_status j = JobPending
                   \<and> j' = claimed_job worker now j \<and> look s' = (look s)(i \<mapsto> j'))"
    and claim_next_law: "ok s \<Longrightarrow> js_claim_next_job S worker now s = (rq, s') \<Longrightarrow>
      ok s' \<and> (case rq of Inl _ \<Rightarrow> look s' = look s
               | Inr None \<Rightarrow> look s' = look s
                   \<and> (\<forall>i j. look s i = Some j \<longrightarrow> job_status j \<noteq> JobPending)
               | Inr (Some j') \<Rightarrow> \<exists>j. look s (job_id j') = Some j \<and> job_status j = JobPending
                   \<and> j' = claimed_job worker now j \<and> look s' = (look s)(job_id j' \<mapsto> j')
                   \<and> (\<forall>i k. look s i = Some k \<and> job_status k = JobPending \<longrightarrow>
                        (job_priority j, job_created_at j) \<le> (job_priority k, job_created_at k)))"
    and id_law: "ok s \<Longrightarrow> look s i = Some j \<Longrightarrow> job_id j = i"
    and list_law: "ok s \<Longrightarrow> js_list_jobs S f s = (rl, s') \<Longrightarrow> ok s' \<and> look s' = look s"
    and count_law: "ok s \<Longrightarrow> js_count_jobs_by_status S s = (rn, s') \<Longrightarrow> ok s' \<and> look s' = look s"
    and delete_law: "ok s \<Longrightarrow> js_delete_jobs S st s = (rd, s') \<Longrightarrow>
      ok s' \<and> (case rd of Inl _ \<Rightarrow> look s' = look s
               | Inr _ \<Rightarrow> look s' = (\<lambda>i. Option.bind (look s i) (\<lambda>j. if deleted_by st j then None else Some j)))"
    and prune_law: "ok s \<Longrightarrow> js_prune_old_jobs S now policy s = (rp, s') \<Longrightarrow>
      ok s' \<and> (\<forall>i. look s' i = look s i
                 \<or> look s' i = None \<and> (\<exists>j. look s i = Some j \<and> Job_is_terminal j))"
    and count_old_law: "ok s \<Longrightarrow> js_count_old_jobs S now policy s = (rp, s') \<Longrightarrow> ok s' \<and> look s' = look s"
    and oldest_law: "ok s \<Longrightarrow> js_oldest_job_created_at S s = (ro, s') \<Longrightarrow> ok s' \<and> look s' = look s"

section \<open>The SQLite store keeps the contract\<close>

definition db_ok :: "job_db \<Rightarrow> bool" where
  "db_ok d \<longleftrightarrow> distinct (map jr_id (jd_rows d))
     \<and> list_all (\<lambda>r. JobStatus_parse (jr_status r) \<noteq> None) (jd_rows d)"

definition row_job :: "job_row \<Rightarrow> job option" where
  "row_job r = (case row_to_job r of Inl _ \<Rightarrow> None | Inr j \<Rightarrow> Some j)"

definition rows_look :: "job_row list \<Rightarrow> uuid \<Rightarrow> job option" where
  "rows_look rows i = Option.bind (find (\<lambda>r. jr_id r = i) rows) row_job"

definition db_look :: "job_db \<Rightarrow> uuid \<Rightarrow> job option" where
  "db_look d = rows_look (jd_rows d)"

lemma JobStatus_roundtrip [simp]: "JobStatus_parse (JobStatus_as_str s) = Some s"
  by (cases s) (simp_all add: JobStatus_parse_def JobStatus_as_str_def)

lemma JobStatus_parse_Some: "JobStatus_parse t = Some s \<longleftrightarrow> t = JobStatus_as_str s"
  by (cases s) (auto simp: JobStatus_parse_def JobStatus_as_str_def split: if_splits)

lemma row_job_simps:
  "row_job (job_to_row j) = Some (stored_job j)"
  by (simp add: row_job_def row_to_job_def job_to_row_def stored_job_def)

lemma db_conn_cases:
  assumes "db_conn d = (r, d')"
  shows "jd_rows d' = jd_rows d"
  using assms by (auto simp: db_conn_def db_fault.simps split: list.splits option.splits prod.splits)

lemma db_execute_cases:
  assumes "db_execute msg f d = (r, d')"
  obtains e where "r = Inl e" "jd_rows d' = jd_rows d"
  | rows x where "r = Inr x" "f (jd_rows d) = Inr (rows, x)" "jd_rows d' = rows"
  using assms
  by (auto simp: db_execute_def db_fault.simps split: list.splits option.splits prod.splits sum.splits)

lemma db_query_cases:
  assumes "db_query msg f d = (r, d')"
  obtains e where "r = Inl e" "jd_rows d' = jd_rows d"
  | x where "r = Inr x" "f (jd_rows d) = Inr x" "jd_rows d' = jd_rows d"
  using assms unfolding db_query_def by (elim db_execute_cases) (auto split: sum.splits)

lemma db_bind_cases:
  assumes "db_bind f g d = (r, d')"
  obtains e where "f d = (Inl e, d')" "r = Inl e"
  | x d1 where "f d = (Inr x, d1)" "g x d1 = (r, d')"
  using assms by (auto simp: db_bind_def split: prod.splits sum.splits)

lemma db_conn_bind_cases:
  assumes "db_bind db_conn g d = (r, d')"
  obtains e where "r = Inl e" "jd_rows d' = jd_rows d"
  | d1 where "g () d1 = (r, d')" "jd_rows d1 = jd_rows d"
  using assms by (elim db_bind_cases) (auto dest: db_conn_cases)

lemma db_transaction_cases:
  assumes "db_transaction msg body d = (r, d')"
  obtains e where "r = Inl e" "jd_rows d' = jd_rows d"
  | x d1 d2 where "r = Inr x" "jd_rows d1 = jd_rows d" "body d1 = (Inr x, d2)"
      "jd_rows d' = jd_rows d2"
  using assms
  by (auto simp: db_transaction_def db_return_def split: prod.splits sum.splits
      elim!: db_bind_cases db_execute_cases)

text \<open>The rows of a store whose invariant holds.\<close>

definition rows_ok :: "job_row list \<Rightarrow> bool" where
  "rows_ok rows \<longleftrightarrow> distinct (map jr_id rows) \<and> list_all (\<lambda>r. row_job r \<noteq> None) rows"

lemma row_job_None: "row_job r = None \<longleftrightarrow> JobStatus_parse (jr_status r) = None"
  by (simp add: row_job_def row_to_job_def split: option.split)

lemma db_ok_rows: "db_ok d = rows_ok (jd_rows d)"
  by (simp add: db_ok_def rows_ok_def row_job_None)

lemma row_job_id: "row_job r = Some j \<Longrightarrow> job_id j = jr_id r"
  by (auto simp: row_job_def row_to_job_def split: option.splits)

lemma row_job_status: "row_job r = Some j \<Longrightarrow> jr_status r = JobStatus_as_str (job_status j)"
  by (auto simp: row_job_def row_to_job_def JobStatus_parse_Some split: option.splits)

lemma row_job_order:
  "row_job r = Some j \<Longrightarrow> job_priority j = jr_priority r \<and> job_created_at j = jr_created_at r"
  by (auto simp: row_job_def row_to_job_def split: option.splits)

lemma find_append:
  "find P (xs @ ys) = (case find P xs of None \<Rightarrow> find P ys | Some x \<Rightarrow> Some x)"
  by (induction xs) auto

lemma rows_look_Some:
  assumes "rows_ok rows"
  shows "rows_look rows i = Some j \<longleftrightarrow> (\<exists>r \<in> set rows. jr_id r = i \<and> row_job r = Some j)"
  using assms
proof (induction rows)
  case (Cons r rows)
  then show ?case
    by (auto simp: rows_look_def rows_ok_def) (metis image_eqI row_job_id)+
qed (simp add: rows_look_def)

lemma rows_look_insert:
  assumes "\<not> list_ex (\<lambda>r. jr_id r = job_id j) rows"
  shows "rows_look (rows @ [job_to_row j]) = (rows_look rows)(job_id j \<mapsto> stored_job j)"
proof
  fix i
  have id: "jr_id (job_to_row j) = job_id j" by (simp add: job_to_row_def)
  have none: "find (\<lambda>r. jr_id r = job_id j) rows = None"
    using assms by (simp add: find_None_iff list_ex_iff)
  show "rows_look (rows @ [job_to_row j]) i = ((rows_look rows)(job_id j \<mapsto> stored_job j)) i"
  proof (cases "i = job_id j")
    case True
    then show ?thesis by (simp add: rows_look_def find_append none id row_job_simps)
  next
    case False
    then have "find (\<lambda>r. jr_id r = i) [job_to_row j] = None" using id by auto
    then have "find (\<lambda>r. jr_id r = i) (rows @ [job_to_row j]) = find (\<lambda>r. jr_id r = i) rows"
      by (simp add: find_append split: option.split)
    then show ?thesis using False by (simp add: rows_look_def)
  qed
qed

lemma rows_ok_insert:
  assumes "rows_ok rows" "\<not> list_ex (\<lambda>r. jr_id r = job_id j) rows"
  shows "rows_ok (rows @ [job_to_row j])"
  using assms by (auto simp: rows_ok_def list_ex_iff row_job_simps) (auto simp: job_to_row_def)

lemma find_map_update:
  assumes "\<And>r. jr_id (f r) = jr_id r"
  shows "find (\<lambda>r. jr_id r = k) (map (\<lambda>r. if P r then f r else r) rows)
       = map_option (\<lambda>r. if P r then f r else r) (find (\<lambda>r. jr_id r = k) rows)"
  by (induction rows) (auto simp: assms)

lemma rows_look_update:
  assumes ok: "rows_ok rows" and id: "\<And>r. jr_id (f r) = jr_id r"
    and step: "\<And>r j. row_job r = Some j \<Longrightarrow> row_job (f r) = Some (g j)"
  shows "rows_look (fst (update_where (\<lambda>r. jr_id r = i) f rows))
       = (rows_look rows)(i := map_option g (rows_look rows i))"
proof
  fix k
  show "rows_look (fst (update_where (\<lambda>r. jr_id r = i) f rows)) k
      = ((rows_look rows)(i := map_option g (rows_look rows i))) k"
  proof (cases "find (\<lambda>r. jr_id r = k) rows")
    case None
    then show ?thesis
      by (cases "k = i") (simp_all add: rows_look_def update_where_def find_map_update [OF id])
  next
    case (Some r)
    then have r: "r \<in> set rows" "jr_id r = k" by (auto simp: find_Some_iff)
    then obtain j where "row_job r = Some j" using ok by (auto simp: rows_ok_def list_all_iff)
    then show ?thesis using r(2) Some
      by (auto simp: rows_look_def update_where_def find_map_update [OF id] step)
  qed
qed

lemma rows_ok_update:
  assumes ok: "rows_ok rows" and id: "\<And>r. jr_id (f r) = jr_id r"
    and step: "\<And>r j. row_job r = Some j \<Longrightarrow> \<exists>j'. row_job (f r) = Some j'"
  shows "rows_ok (fst (update_where P f rows))"
proof -
  have "map jr_id (fst (update_where P f rows)) = map jr_id rows"
    by (simp add: update_where_def id)
  moreover have "row_job (f r) \<noteq> None \<and> row_job r \<noteq> None" if r: "r \<in> set rows" for r
  proof -
    obtain j where "row_job r = Some j" using r ok by (auto simp: rows_ok_def list_all_iff)
    then show ?thesis using step [of r j] by auto
  qed
  then have "list_all (\<lambda>r. row_job r \<noteq> None) (fst (update_where P f rows))"
    by (auto simp: update_where_def list_all_iff)
  ultimately show ?thesis using ok by (simp add: rows_ok_def)
qed

lemma select_job_look:
  assumes "rows_ok rows"
  shows "select_job i rows = Inr (rows_look rows i)"
proof (cases "find (\<lambda>r. jr_id r = i) rows")
  case None
  then have "filter (\<lambda>r. jr_id r = i) rows = []" by (auto simp: find_None_iff filter_empty_conv)
  then show ?thesis using None
    by (simp add: select_job_def query_row_def sql_optional_def rows_look_def)
next
  case (Some r)
  then obtain rs where "filter (\<lambda>r. jr_id r = i) rows = r # rs"
    by (induction rows) (auto split: if_splits)
  moreover have "r \<in> set rows" using Some by (auto simp: find_Some_iff)
  then have "row_job r \<noteq> None" using assms by (auto simp: rows_ok_def list_all_iff)
  ultimately show ?thesis using Some
    by (auto simp: select_job_def query_row_def sql_optional_def rows_look_def row_job_def
        split: sum.splits)
qed

lemma update_sets_id [simp]: "jr_id (fold (\<lambda>f. f) (update_sets u) r) = jr_id r"
  by (simp add: update_sets_def split: option.split)

lemma fold_set:
  "fold (\<lambda>f. f) (case x of None \<Rightarrow> [] | Some v \<Rightarrow> [h v]) r = (case x of None \<Rightarrow> r | Some v \<Rightarrow> h v r)"
  by (simp split: option.split)

lemma row_job_set:
  assumes "row_job r = Some j"
  shows "row_job (case st of None \<Rightarrow> r | Some v \<Rightarrow> r\<lparr>jr_status := JobStatus_as_str v\<rparr>)
      = Some (j\<lparr>job_status := case_option (job_status j) id st\<rparr>)"
    and "row_job (case p of None \<Rightarrow> r | Some v \<Rightarrow> r\<lparr>jr_progress := v\<rparr>)
      = Some (j\<lparr>job_progress := case_option (job_progress j) id p\<rparr>)"
    and "row_job (case m of None \<Rightarrow> r | Some v \<Rightarrow> r\<lparr>jr_progress_message := v\<rparr>)
      = Some (j\<lparr>job_progress_message := case_option (job_progress_message j) id m\<rparr>)"
    and "row_job (case x of None \<Rightarrow> r | Some v \<Rightarrow> r\<lparr>jr_output := v\<rparr>)
      = Some (j\<lparr>job_output := case_option (job_output j) id x\<rparr>)"
    and "row_job (case m of None \<Rightarrow> r | Some v \<Rightarrow> r\<lparr>jr_error := v\<rparr>)
      = Some (j\<lparr>job_error := case_option (job_error j) id m\<rparr>)"
    and "row_job (case m of None \<Rightarrow> r | Some v \<Rightarrow> r\<lparr>jr_worker_id := v\<rparr>)
      = Some (j\<lparr>job_worker_id := case_option (job_worker_id j) id m\<rparr>)"
    and "row_job (case t of None \<Rightarrow> r | Some v \<Rightarrow> r\<lparr>jr_started_at := v\<rparr>)
      = Some (j\<lparr>job_started_at := case_option (job_started_at j) id t\<rparr>)"
    and "row_job (case t of None \<Rightarrow> r | Some v \<Rightarrow> r\<lparr>jr_completed_at := v\<rparr>)
      = Some (j\<lparr>job_completed_at := case_option (job_completed_at j) id t\<rparr>)"
  using assms by (auto simp: row_job_def row_to_job_def split: option.splits)

lemma update_sets_job:
  assumes "row_job r = Some j"
  shows "row_job (fold (\<lambda>f. f) (update_sets u) r) = Some (apply_update u j)"
  unfolding update_sets_def fold_append o_apply fold_set
  by (subst row_job_set, (rule row_job_set assms)+)
    (simp add: apply_update_def cong del: option.case_cong_weak)

lemma set_none: "(case x of None \<Rightarrow> [] | Some v \<Rightarrow> [h v]) = [] \<longleftrightarrow> x = None"
  by (simp split: option.split)

lemma update_sets_empty: "update_sets u = [] \<Longrightarrow> apply_update u j = j"
  by (simp add: update_sets_def apply_update_def set_none)

lemma claim_row_id [simp]: "jr_id (claim_row worker now r) = jr_id r"
  by (simp add: claim_row_def)

lemma claim_row_job:
  "row_job r = Some j \<Longrightarrow> row_job (claim_row worker now r) = Some (claimed_job worker now j)"
  by (auto simp: row_job_def row_to_job_def claim_row_def claimed_job_def JobStatus_parse_def
      split: option.splits)

lemma create_job_law:
  assumes "db_ok d" "create_job j d = (r, d')"
  shows "db_ok d' \<and> (case r of Inl _ \<Rightarrow> db_look d' = db_look d
    | Inr i \<Rightarrow> i = job_id j \<and> db_look d i = None \<and> db_look d' = (db_look d)(i \<mapsto> stored_job j))"
  using assms(2) unfolding create_job_def
proof (elim db_conn_bind_cases db_bind_cases db_execute_cases)
  fix d1 d2 x rows
  assume a: "jd_rows d1 = jd_rows d" "db_return (job_id j) d2 = (r, d')" "jd_rows d2 = rows"
    "(if list_ex (\<lambda>r. jr_id r = job_id j) (jd_rows d1)
      then Inl (SqliteConstraint ''UNIQUE constraint failed: jobs.id'')
      else Inr (jd_rows d1 @ [job_to_row j], ())) = Inr (rows, x)"
  then have new: "\<not> list_ex (\<lambda>r. jr_id r = job_id j) (jd_rows d)"
    "rows = jd_rows d @ [job_to_row j]" "r = Inr (job_id j)" "d' = d2"
    by (auto simp: db_return_def split: if_splits)
  then have "find (\<lambda>r. jr_id r = job_id j) (jd_rows d) = None"
    by (simp add: list_ex_iff find_None_iff)
  then have "db_look d (job_id j) = None" by (simp add: db_look_def rows_look_def)
  then show ?thesis using a new assms(1) rows_ok_insert [of "jd_rows d" j]
    by (simp add: db_ok_rows db_look_def rows_look_insert)
qed (use assms(1) in \<open>simp_all add: db_ok_rows db_look_def\<close>)

lemma job_by_id_law:
  assumes "db_ok d" "job_by_id i d = (r, d')"
  shows "db_ok d' \<and> db_look d' = db_look d \<and> (case r of Inl _ \<Rightarrow> True | Inr x \<Rightarrow> x = db_look d i)"
  using assms(2) unfolding job_by_id_def
  by (elim db_conn_bind_cases db_query_cases)
    (use assms(1) in \<open>simp_all add: db_ok_rows db_look_def select_job_look\<close>)

lemma update_job_law:
  assumes "db_ok d" "update_job i u d = (r, d')"
  shows "db_ok d' \<and> (case r of Inl _ \<Rightarrow> db_look d' = db_look d
    | Inr _ \<Rightarrow> db_look d' = (db_look d)(i := map_option (apply_update u) (db_look d i)))"
  using assms(2) unfolding update_job_def
proof (elim db_conn_bind_cases)
  fix d1
  let ?f = "\<lambda>r. fold (\<lambda>f. f) (update_sets u) r"
  assume a: "jd_rows d1 = jd_rows d"
    "(if update_sets u = [] then db_return ()
      else db_bind (db_execute ''failed to update job''
        (\<lambda>rows. Inr (update_where (\<lambda>r. jr_id r = i) ?f rows))) (\<lambda>_. db_return ())) d1 = (r, d')"
  have ok: "rows_ok (jd_rows d)" using assms(1) by (simp add: db_ok_rows)
  show ?thesis
  proof (cases "update_sets u = []")
    case True
    have "map_option (apply_update u) (db_look d i) = db_look d i"
      by (cases "db_look d i") (simp_all add: update_sets_empty [OF True])
    then show ?thesis using a True ok by (auto simp: db_return_def db_ok_rows db_look_def)
  next
    case False
    have "rows_ok (fst (update_where (\<lambda>r. jr_id r = i) ?f (jd_rows d)))"
      by (rule rows_ok_update [OF ok]) (use update_sets_job in auto)
    moreover have "rows_look (fst (update_where (\<lambda>r. jr_id r = i) ?f (jd_rows d)))
        = (rows_look (jd_rows d))(i := map_option (apply_update u) (rows_look (jd_rows d) i))"
      by (rule rows_look_update [OF ok]) (use update_sets_job in auto)
    ultimately show ?thesis using a False ok
      by (auto simp: db_return_def db_ok_rows db_look_def elim!: db_bind_cases db_execute_cases)
  qed
qed (use assms(1) in \<open>simp_all add: db_ok_rows db_look_def\<close>)

text \<open>Claiming the job of one row.\<close>

lemma claim_rows:
  assumes ok: "rows_ok rows" and j: "rows_look rows i = Some j"
  shows "rows_ok (fst (update_where (\<lambda>r. jr_id r = i) (claim_row worker now) rows))"
    and "rows_look (fst (update_where (\<lambda>r. jr_id r = i) (claim_row worker now) rows))
       = (rows_look rows)(i \<mapsto> claimed_job worker now j)"
proof -
  show "rows_ok (fst (update_where (\<lambda>r. jr_id r = i) (claim_row worker now) rows))"
    by (rule rows_ok_update [OF ok]) (use claim_row_job in auto)
  show "rows_look (fst (update_where (\<lambda>r. jr_id r = i) (claim_row worker now) rows))
      = (rows_look rows)(i \<mapsto> claimed_job worker now j)"
    using rows_look_update [OF ok, of "claim_row worker now" "claimed_job worker now" i] j
    by (simp add: claim_row_job)
qed

lemma pending_status: "JobStatus_as_str st = ''pending'' \<longleftrightarrow> st = JobPending"
  by (cases st) (simp_all add: JobStatus_as_str_def)

lemma update_where_restrict:
  assumes "rows_ok rows" "rows_look rows i = Some j" "job_status j = JobPending"
  shows "update_where (\<lambda>r. jr_id r = i \<and> jr_status r = ''pending'') f rows
       = update_where (\<lambda>r. jr_id r = i) f rows"
    and "snd (update_where (\<lambda>r. jr_id r = i) f rows) \<noteq> 0"
proof -
  obtain r where r: "r \<in> set rows" "jr_id r = i" "row_job r = Some j"
    using assms(1,2) by (auto simp: rows_look_Some)
  have "(jr_id q = i \<and> jr_status q = ''pending'') = (jr_id q = i)" if q: "q \<in> set rows" for q
  proof -
    have "jr_id q = i \<Longrightarrow> q = r"
      using q r assms(1) by (auto simp: rows_ok_def distinct_map inj_on_def)
    then show ?thesis using r(3) assms(3) by (auto simp: row_job_status pending_status)
  qed
  then show "update_where (\<lambda>r. jr_id r = i \<and> jr_status r = ''pending'') f rows
      = update_where (\<lambda>r. jr_id r = i) f rows"
    by (auto simp: update_where_def intro!: arg_cong [where f = length] filter_cong)
  show "snd (update_where (\<lambda>r. jr_id r = i) f rows) \<noteq> 0"
    using r by (auto simp: update_where_def filter_empty_conv)
qed

lemma update_where_nothing:
  assumes "rows_ok rows" "\<forall>j. rows_look rows i = Some j \<longrightarrow> job_status j \<noteq> JobPending"
  shows "update_where (\<lambda>r. jr_id r = i \<and> jr_status r = ''pending'') f rows = (rows, 0)"
proof -
  have "\<not> (jr_id r = i \<and> jr_status r = ''pending'')" if r: "r \<in> set rows" for r
  proof -
    obtain j where j: "row_job r = Some j" using r assms(1) by (auto simp: rows_ok_def list_all_iff)
    then show ?thesis using assms r
      by (auto simp: rows_look_Some row_job_status pending_status)
  qed
  then show ?thesis by (auto simp: update_where_def filter_empty_conv intro!: map_idI)
qed

lemma claim_job_by_id_law:
  assumes "db_ok d" "claim_job_by_id i worker now d = (r, d')"
  shows "db_ok d' \<and> (case r of Inl _ \<Rightarrow> db_look d' = db_look d
    | Inr None \<Rightarrow> db_look d' = db_look d
        \<and> (\<forall>j. db_look d i = Some j \<longrightarrow> job_status j \<noteq> JobPending)
    | Inr (Some j') \<Rightarrow> \<exists>j. db_look d i = Some j \<and> job_status j = JobPending
        \<and> j' = claimed_job worker now j \<and> db_look d' = (db_look d)(i \<mapsto> j'))"
  using assms(2) unfolding claim_job_by_id_def
proof (elim db_conn_bind_cases db_transaction_cases)
  fix d0 x d1 d2
  assume a: "jd_rows d0 = jd_rows d" "r = Inr x" "jd_rows d1 = jd_rows d0" "jd_rows d' = jd_rows d2"
    "db_bind (db_execute ''failed to claim job by id''
       (\<lambda>rows. Inr (update_where (\<lambda>r. jr_id r = i \<and> jr_status r = ''pending'')
         (claim_row worker now) rows)))
      (\<lambda>changed. if changed = 0 then db_return None
        else db_query ''failed to get claimed job'' (select_job i)) d1 = (Inr x, d2)"
  have ok: "rows_ok (jd_rows d)" using assms(1) by (simp add: db_ok_rows)
  show ?thesis
  proof (cases "\<exists>j. db_look d i = Some j \<and> job_status j = JobPending")
    case True
    then obtain j where j: "rows_look (jd_rows d) i = Some j" "job_status j = JobPending"
      by (auto simp: db_look_def)
    note c = claim_rows [OF ok j(1), of worker now]
    note w = update_where_restrict [OF ok j, where f = "claim_row worker now"]
    have "jd_rows d2 = fst (update_where (\<lambda>r. jr_id r = i) (claim_row worker now) (jd_rows d))
        \<and> x = Some (claimed_job worker now j)"
      using a(5) w c
      by (auto simp: a(1,3) select_job_look elim!: db_bind_cases db_execute_cases db_query_cases)
    then show ?thesis using c j a(2,4) by (simp add: db_ok_rows db_look_def)
  next
    case False
    then have "update_where (\<lambda>r. jr_id r = i \<and> jr_status r = ''pending'') (claim_row worker now)
        (jd_rows d1) = (jd_rows d1, 0)"
      using ok a by (intro update_where_nothing) (auto simp: db_look_def)
    then have "jd_rows d2 = jd_rows d \<and> x = None" using a(1,3,5)
      by (auto simp: db_return_def elim!: db_bind_cases db_execute_cases)
    then show ?thesis using False a ok by (simp add: db_ok_rows db_look_def)
  qed
qed (use assms(1) in \<open>simp_all add: db_ok_rows db_look_def\<close>)

text \<open>The first of the pending rows is the one that the claim takes.\<close>

lemma pending_rows_set: "set (pending_rows rows) = {r \<in> set rows. jr_status r = ''pending''}"
  by (auto simp: pending_rows_def)

lemma pending_rows_hd:
  assumes "rows_ok rows" "pending_rows rows = r # rs"
  obtains j where "rows_look rows (jr_id r) = Some j" "job_status j = JobPending"
    "job_id j = jr_id r"
    "\<And>i k. rows_look rows i = Some k \<Longrightarrow> job_status k = JobPending \<Longrightarrow>
       (job_priority j, job_created_at j) \<le> (job_priority k, job_created_at k)"
proof -
  have r: "r \<in> set rows" "jr_status r = ''pending''"
    using pending_rows_set [of rows] assms(2) by auto
  obtain j where j: "row_job r = Some j" using assms(1) r by (auto simp: rows_ok_def list_all_iff)
  have "(job_priority j, job_created_at j) \<le> (job_priority k, job_created_at k)"
    if k: "rows_look rows i = Some k" "job_status k = JobPending" for i k
  proof -
    obtain q where q: "q \<in> set rows" "row_job q = Some k"
      using k(1) assms(1) by (auto simp: rows_look_Some)
    then have "q \<in> set (r # rs)"
      using k(2) pending_rows_set [of rows] assms(2) by (auto simp: row_job_status pending_status)
    moreover have "sorted (map (\<lambda>r. (jr_priority r, jr_created_at r)) (r # rs))"
      unfolding assms(2) [symmetric] pending_rows_def by (rule sorted_sort_key)
    ultimately have "(jr_priority r, jr_created_at r) \<le> (jr_priority q, jr_created_at q)"
      by auto
    then show ?thesis using row_job_order [OF j] row_job_order [OF q(2)] by simp
  qed
  moreover have "job_status j = JobPending"
    using row_job_status [OF j] r(2) by (metis pending_status)
  ultimately show ?thesis using that [of j] r j assms(1) by (auto simp: rows_look_Some row_job_id)
qed

lemma pending_rows_Nil:
  assumes "rows_ok rows" "pending_rows rows = []" "rows_look rows i = Some j"
  shows "job_status j \<noteq> JobPending"
  using assms pending_rows_set [of rows]
  by (auto simp: rows_look_Some row_job_status pending_status)

lemma claim_next_job_law:
  assumes "db_ok d" "claim_next_job worker now d = (r, d')"
  shows "db_ok d' \<and> (case r of Inl _ \<Rightarrow> db_look d' = db_look d
    | Inr None \<Rightarrow> db_look d' = db_look d
        \<and> (\<forall>i j. db_look d i = Some j \<longrightarrow> job_status j \<noteq> JobPending)
    | Inr (Some j') \<Rightarrow> \<exists>j. db_look d (job_id j') = Some j \<and> job_status j = JobPending
        \<and> j' = claimed_job worker now j \<and> db_look d' = (db_look d)(job_id j' \<mapsto> j')
        \<and> (\<forall>i k. db_look d i = Some k \<and> job_status k = JobPending \<longrightarrow>
             (job_priority j, job_created_at j) \<le> (job_priority k, job_created_at k)))"
  using assms(2) unfolding claim_next_job_def
proof (elim db_conn_bind_cases db_transaction_cases)
  fix d0 x d1 d2
  assume a: "jd_rows d0 = jd_rows d" "r = Inr x" "jd_rows d1 = jd_rows d0" "jd_rows d' = jd_rows d2"
    and b: "db_bind (db_query ''failed to find pending job''
        (\<lambda>rows. sql_optional (query_row (\<lambda>r. Inr (jr_id r)) (pending_rows rows))))
      (\<lambda>target. case target of None \<Rightarrow> db_return None
        | Some i \<Rightarrow> db_bind (db_execute ''failed to claim job''
              (\<lambda>rows. Inr (update_where (\<lambda>r. jr_id r = i) (claim_row worker now) rows)))
            (\<lambda>_. db_query ''failed to get claimed job'' (select_job i))) d1 = (Inr x, d2)"
  have ok: "rows_ok (jd_rows d)" using assms(1) by (simp add: db_ok_rows)
  show ?thesis
  proof (cases "pending_rows (jd_rows d)")
    case Nil
    then have "jd_rows d2 = jd_rows d \<and> x = None" using a b
      by (auto simp: db_return_def query_row_def sql_optional_def elim!: db_bind_cases db_query_cases)
    then show ?thesis using a ok pending_rows_Nil [OF ok Nil] by (simp add: db_ok_rows db_look_def)
  next
    case (Cons q rs)
    obtain j where j: "rows_look (jd_rows d) (jr_id q) = Some j" "job_status j = JobPending"
        "job_id j = jr_id q"
      and least: "\<And>i k. rows_look (jd_rows d) i = Some k \<Longrightarrow> job_status k = JobPending \<Longrightarrow>
        (job_priority j, job_created_at j) \<le> (job_priority k, job_created_at k)"
      using pending_rows_hd [OF ok Cons] by blast
    note c = claim_rows [OF ok j(1), of worker now]
    have res: "jd_rows d2
          = fst (update_where (\<lambda>r. jr_id r = jr_id q) (claim_row worker now) (jd_rows d))
        \<and> x = Some (claimed_job worker now j)"
      using b c Cons
      by (auto simp: a(1,3) query_row_def sql_optional_def select_job_look
          elim!: db_bind_cases db_execute_cases db_query_cases)
    have id: "job_id (claimed_job worker now j) = jr_id q" by (simp add: claimed_job_def j(3))
    then show ?thesis using c j least res a(2,4) by (auto simp: db_ok_rows db_look_def id)
  qed
qed (use assms(1) in \<open>simp_all add: db_ok_rows db_look_def\<close>)

lemma db_read_law:
  assumes "jd_rows d' = jd_rows d" "db_ok d"
  shows "db_ok d' \<and> db_look d' = db_look d"
  using assms by (simp add: db_ok_rows db_look_def)

lemma list_jobs_rows: "list_jobs f d = (r, d') \<Longrightarrow> jd_rows d' = jd_rows d"
  unfolding list_jobs_def by (elim db_conn_bind_cases db_bind_cases db_query_cases) simp_all

lemma count_jobs_rows: "count_jobs_by_status d = (r, d') \<Longrightarrow> jd_rows d' = jd_rows d"
  unfolding count_jobs_by_status_def
  by (elim db_conn_bind_cases db_bind_cases db_query_cases) (simp_all add: db_result_def)

lemma db_look_id: "db_ok d \<Longrightarrow> db_look d i = Some j \<Longrightarrow> job_id j = i"
  by (auto simp: db_ok_rows db_look_def rows_look_Some row_job_id)

lemma list_jobs_law:
  "db_ok d \<Longrightarrow> list_jobs f d = (r, d') \<Longrightarrow> db_ok d' \<and> db_look d' = db_look d"
  by (rule db_read_law) (rule list_jobs_rows)

lemma count_jobs_law:
  "db_ok d \<Longrightarrow> count_jobs_by_status d = (r, d') \<Longrightarrow> db_ok d' \<and> db_look d' = db_look d"
  by (rule db_read_law) (rule count_jobs_rows)

section \<open>Deletions\<close>

definition prune_hit :: "timestamp option \<Rightarrow> nat option \<Rightarrow> job_row \<times> nat \<Rightarrow> bool" where
  "prune_hit cutoff keep_last = (\<lambda>(r, rn).
     (case cutoff of Some c \<Rightarrow> effective_at r < c | None \<Rightarrow> False)
     \<or> (case keep_last of Some k \<Rightarrow> k < rn | None \<Rightarrow> False))"

lemma prune_selected_hit:
  "prune_selected c k rows = map (\<lambda>x. jr_id (fst x)) (filter (prune_hit c k) (ranked rows))"
  unfolding prune_selected_def prune_hit_def by (simp add: case_prod_beta)

lemma map_fst_ranked:
  "map fst (ranked rows) = sort_key (\<lambda>r. - effective_at r) (filter terminal_row rows)"
  by (simp add: ranked_def Let_def del: upt_Suc)

lemma snd_ranked: "map snd (ranked rows) = [1..<Suc (length (filter terminal_row rows))]"
  by (simp add: ranked_def Let_def del: upt_Suc)

lemma set_ranked: "fst ` set (ranked rows) = {r \<in> set rows. terminal_row r}"
  by (metis list.set_map map_fst_ranked set_filter set_sort)

lemma length_ranked: "length (ranked rows) = length (filter terminal_row rows)"
  by (simp add: ranked_def Let_def del: upt_Suc)

lemma distinct_ranked_ids:
  assumes "distinct (map jr_id rows)"
  shows "distinct (map (\<lambda>x. jr_id (fst x)) (ranked rows))"
proof -
  have "mset (map jr_id (map fst (ranked rows))) = mset (map jr_id (filter terminal_row rows))"
    unfolding map_fst_ranked by simp
  moreover have "distinct (map jr_id (filter terminal_row rows))"
    using assms by (simp add: distinct_map_filter)
  ultimately have "distinct (map jr_id (map fst (ranked rows)))"
    by (rule mset_eq_imp_distinct_iff [THEN iffD2])
  then show ?thesis by (simp add: comp_def)
qed

text \<open>As many rows are deleted as are selected, all of them of ended jobs.\<close>

lemma deleted_selected:
  assumes "distinct (map jr_id rows)"
  shows "length (filter (\<lambda>r. jr_id r \<in> set (prune_selected c k rows)) rows)
       = length (prune_selected c k rows)"
    and "r \<in> set rows \<Longrightarrow> jr_id r \<in> set (prune_selected c k rows) \<Longrightarrow> terminal_row r"
proof -
  let ?ids = "prune_selected c k rows"
  have sub: "set ?ids \<subseteq> jr_id ` {r \<in> set rows. terminal_row r}"
    using set_ranked [of rows] by (force simp: prune_selected_hit)
  have inj: "inj_on jr_id (set rows)" using assms by (simp add: distinct_map)
  then show "terminal_row r" if "r \<in> set rows" "jr_id r \<in> set ?ids"
    using that sub by (auto dest: inj_onD)
  have "distinct ?ids"
    using distinct_map_filter [OF distinct_ranked_ids [OF assms]] by (simp add: prune_selected_hit)
  moreover have "distinct (map jr_id (filter (\<lambda>r. jr_id r \<in> set ?ids) rows))"
    using assms by (simp add: distinct_map_filter)
  moreover have "set (map jr_id (filter (\<lambda>r. jr_id r \<in> set ?ids) rows)) = set ?ids" using sub by auto
  ultimately have "length (map jr_id (filter (\<lambda>r. jr_id r \<in> set ?ids) rows)) = length ?ids"
    by (metis distinct_card)
  then show "length (filter (\<lambda>r. jr_id r \<in> set ?ids) rows) = length ?ids" by simp
qed

lemma find_filter_ids:
  assumes "distinct (map jr_id rows)"
  shows "find (\<lambda>r. jr_id r = i) (filter P rows)
       = Option.bind (find (\<lambda>r. jr_id r = i) rows) (\<lambda>r. if P r then Some r else None)"
  using assms
proof (induction rows)
  case (Cons r rows)
  show ?case
  proof (cases "jr_id r = i")
    case True
    then have "find (\<lambda>r. jr_id r = i) (filter P rows) = None"
      using Cons.prems by (auto simp: find_None_iff image_iff)
    then show ?thesis using True by simp
  qed (use Cons in auto)
qed simp

lemma delete_rows:
  assumes "rows_ok rows" "\<And>r j. r \<in> set rows \<Longrightarrow> row_job r = Some j \<Longrightarrow> P r \<longleftrightarrow> Q j"
  shows "rows_ok (fst (delete_where P rows))"
    and "rows_look (fst (delete_where P rows)) i
       = Option.bind (rows_look rows i) (\<lambda>j. if Q j then None else Some j)"
proof -
  show "rows_ok (fst (delete_where P rows))"
    using assms(1) by (auto simp: rows_ok_def delete_where_def distinct_map_filter list_all_iff)
  show "rows_look (fst (delete_where P rows)) i
       = Option.bind (rows_look rows i) (\<lambda>j. if Q j then None else Some j)"
  proof (cases "find (\<lambda>r. jr_id r = i) rows")
    case (Some r)
    then have r: "r \<in> set rows" by (auto simp: find_Some_iff)
    then obtain j where j: "row_job r = Some j" using assms(1) by (auto simp: rows_ok_def list_all_iff)
    then show ?thesis using Some assms(1) assms(2) [OF r j]
      by (simp add: rows_look_def delete_where_def rows_ok_def find_filter_ids)
  qed (use assms(1) in \<open>simp add: rows_look_def delete_where_def rows_ok_def find_filter_ids\<close>)
qed

lemma terminal_row_job: "row_job r = Some j \<Longrightarrow> terminal_row r \<longleftrightarrow> Job_is_terminal j"
  by (cases "job_status j")
    (auto simp: terminal_row_def Job_is_terminal_def JobStatus_as_str_def dest!: row_job_status)

lemma delete_jobs_law:
  assumes "db_ok d" "delete_jobs st d = (r, d')"
  shows "db_ok d' \<and> (case r of Inl _ \<Rightarrow> db_look d' = db_look d
    | Inr _ \<Rightarrow> db_look d' = (\<lambda>i. Option.bind (db_look d i) (\<lambda>j. if deleted_by st j then None else Some j)))"
proof -
  let ?P = "case st of Some s \<Rightarrow> (\<lambda>r. jr_status r = JobStatus_as_str s) | None \<Rightarrow> terminal_row"
  have ok: "rows_ok (jd_rows d)" using assms(1) by (simp add: db_ok_rows)
  have hit: "?P q \<longleftrightarrow> deleted_by st j" if "row_job q = Some j" for q j
    using that terminal_row_job [OF that] row_job_status [OF that]
    by (auto simp: deleted_by_def split: option.split) (metis JobStatus_roundtrip option.inject)+
  obtain rows n where rows: "delete_where ?P (jd_rows d) = (rows, n)" by fastforce
  have "rows_ok (fst (delete_where ?P (jd_rows d)))"
    "\<And>i. rows_look (fst (delete_where ?P (jd_rows d))) i
       = Option.bind (rows_look (jd_rows d) i) (\<lambda>j. if deleted_by st j then None else Some j)"
    by (rule delete_rows [OF ok]; rule hit; assumption)+
  then have del: "rows_ok rows" "rows_look rows
       = (\<lambda>i. Option.bind (rows_look (jd_rows d) i) (\<lambda>j. if deleted_by st j then None else Some j))"
    by (auto simp: rows)
  show ?thesis using assms(2) unfolding delete_jobs_def
    by (elim db_conn_bind_cases db_execute_cases) (use ok rows del in \<open>auto simp: db_ok_rows db_look_def\<close>)
qed

lemma count_terminal_rows:
  "db_bind (count_terminal msg) (\<lambda>n. db_return (g n)) d = (r, d') \<Longrightarrow> jd_rows d' = jd_rows d"
  unfolding count_terminal_def
  by (elim db_bind_cases db_query_cases) (simp_all add: db_return_def)

lemma prune_old_jobs_rows:
  assumes "prune_old_jobs now policy d = (r, d')"
  shows "jd_rows d' = jd_rows d \<or> (\<exists>c k. jd_rows d'
    = fst (delete_where (\<lambda>r. jr_id r \<in> set (prune_selected c k (jd_rows d))) (jd_rows d)))"
proof (cases "RetentionPolicy_is_disabled policy")
  case True
  show ?thesis using assms unfolding prune_old_jobs_def if_P [OF True]
    by (elim db_conn_bind_cases) (auto dest: count_terminal_rows)
next
  case False
  show ?thesis using assms unfolding prune_old_jobs_def if_not_P [OF False] Let_def
  proof (elim db_conn_bind_cases db_bind_cases [where f = "db_execute _ _"] db_execute_cases)
    fix d0 x d1 rows y
    assume a: "jd_rows d0 = jd_rows d" "jd_rows d1 = rows"
      "Inr (delete_where (\<lambda>r. jr_id r \<in> set (prune_selected (RetentionPolicy_cutoff now policy)
        (RetentionPolicy_keep_last_i64 policy) (jd_rows d0))) (jd_rows d0)) = Inr (rows, y)"
      and b: "db_bind (count_terminal ''failed to count remaining jobs'')
        (\<lambda>kept. db_return \<lparr>prr_deleted = x, prr_kept = kept\<rparr>) d1 = (r, d')"
    have "jd_rows d' = rows" using count_terminal_rows [OF b] a(2) by simp
    then show ?thesis using a(1,3) by (metis fst_conv sum.inject(2))
  qed (auto dest: count_terminal_rows)
qed

lemma prune_old_jobs_law:
  assumes "db_ok d" "prune_old_jobs now policy d = (r, d')"
  shows "db_ok d' \<and> (\<forall>i. db_look d' i = db_look d i
    \<or> db_look d' i = None \<and> (\<exists>j. db_look d i = Some j \<and> Job_is_terminal j))"
  using prune_old_jobs_rows [OF assms(2)]
proof (elim disjE exE)
  fix c k
  let ?ids = "set (prune_selected c k (jd_rows d))"
  assume rows: "jd_rows d' = fst (delete_where (\<lambda>r. jr_id r \<in> ?ids) (jd_rows d))"
  have ok: "rows_ok (jd_rows d)" using assms(1) by (simp add: db_ok_rows)
  then have "distinct (map jr_id (jd_rows d))" by (simp add: rows_ok_def)
  note ended = deleted_selected(2) [OF this, where c = c and k = k]
  have hit: "jr_id q \<in> ?ids \<longleftrightarrow> job_id j \<in> ?ids" if "row_job q = Some j" for q j
    using row_job_id [OF that] by simp
  have del: "rows_ok (jd_rows d')"
    "\<And>i. rows_look (jd_rows d') i
       = Option.bind (rows_look (jd_rows d) i) (\<lambda>j. if job_id j \<in> ?ids then None else Some j)"
    unfolding rows by (rule delete_rows [OF ok]; rule hit; assumption)+
  have "Job_is_terminal j" if "rows_look (jd_rows d) i = Some j" "job_id j \<in> ?ids" for i j
    using that ended terminal_row_job by (metis rows_look_Some [OF ok] row_job_id)
  then show ?thesis using del(1)
    by (auto simp: db_ok_rows db_look_def del(2) split: bind_splits)
qed (use assms(1) in \<open>simp add: db_ok_rows db_look_def\<close>)

lemma count_old_jobs_rows: "count_old_jobs now policy d = (r, d') \<Longrightarrow> jd_rows d' = jd_rows d"
  unfolding count_old_jobs_def count_terminal_def db_return_def
  by (auto split: if_splits dest!: db_conn_cases elim!: db_bind_cases db_query_cases)

lemma oldest_job_rows: "oldest_job_created_at d = (r, d') \<Longrightarrow> jd_rows d' = jd_rows d"
  unfolding oldest_job_created_at_def by (elim db_conn_bind_cases db_query_cases) simp_all

lemma count_old_jobs_law:
  "db_ok d \<Longrightarrow> count_old_jobs now policy d = (r, d') \<Longrightarrow> db_ok d' \<and> db_look d' = db_look d"
  by (rule db_read_law) (rule count_old_jobs_rows)

lemma oldest_job_law:
  "db_ok d \<Longrightarrow> oldest_job_created_at d = (r, d') \<Longrightarrow> db_ok d' \<and> db_look d' = db_look d"
  by (rule db_read_law) (rule oldest_job_rows)

lemma SqliteStore_simps:
  "js_create_job SqliteStore = create_job" "js_job SqliteStore = job_by_id"
  "js_update_job SqliteStore = update_job" "js_claim_next_job SqliteStore = claim_next_job"
  "js_claim_job_by_id SqliteStore = claim_job_by_id" "js_list_jobs SqliteStore = list_jobs"
  "js_count_jobs_by_status SqliteStore = count_jobs_by_status" "js_delete_jobs SqliteStore = delete_jobs"
  "js_prune_old_jobs SqliteStore = prune_old_jobs" "js_count_old_jobs SqliteStore = count_old_jobs"
  "js_oldest_job_created_at SqliteStore = oldest_job_created_at"
  by (simp_all add: SqliteStore_def)

interpretation sq: job_store SqliteStore db_ok db_look
  by (unfold_locales, unfold SqliteStore_simps)
    (rule create_job_law job_by_id_law update_job_law claim_job_by_id_law claim_next_job_law
      db_look_id list_jobs_law count_jobs_law delete_jobs_law prune_old_jobs_law count_old_jobs_law
      oldest_job_law; assumption)+

section \<open>The life of a job\<close>

text \<open>
  The calls that clients make of a store, one for each method of \<open>JobStorage\<close>, and what they make
  known: the jobs that a store has accepted and the jobs that claims hand out.
\<close>

datatype store_call =
    CallCreate job
  | CallJob uuid
  | CallUpdate uuid job_update
  | CallClaimNext string timestamp
  | CallClaimById uuid string timestamp
  | CallList job_filters
  | CallCounts
  | CallDelete "job_status option"
  | CallPrune timestamp retention_policy
  | CallCountOld timestamp retention_policy
  | CallOldest

datatype store_event = JobCreated uuid | JobHandedOut job

definition handed_out :: "voom_error + job option \<Rightarrow> store_event list" where
  "handed_out r = (case r of Inr (Some j) \<Rightarrow> [JobHandedOut j] | _ \<Rightarrow> [])"

definition accepted :: "voom_error + uuid \<Rightarrow> store_event list" where
  "accepted r = (case r of Inr i \<Rightarrow> [JobCreated i] | Inl _ \<Rightarrow> [])"

definition run_call :: "'s job_storage \<Rightarrow> store_call \<Rightarrow> 's \<Rightarrow> store_event list \<times> 's" where
  "run_call S c s =
     (case c of
        CallCreate j \<Rightarrow> (case js_create_job S j s of (r, s') \<Rightarrow> (accepted r, s'))
      | CallJob i \<Rightarrow> ([], snd (js_job S i s))
      | CallUpdate i u \<Rightarrow> ([], snd (js_update_job S i u s))
      | CallClaimNext w now \<Rightarrow> (case js_claim_next_job S w now s of (r, s') \<Rightarrow> (handed_out r, s'))
      | CallClaimById i w now \<Rightarrow>
          (case js_claim_job_by_id S i w now s of (r, s') \<Rightarrow> (handed_out r, s'))
      | CallList f \<Rightarrow> ([], snd (js_list_jobs S f s))
      | CallCounts \<Rightarrow> ([], snd (js_count_jobs_by_status S s))
      | CallDelete st \<Rightarrow> ([], snd (js_delete_jobs S st s))
      | CallPrune now policy \<Rightarrow> ([], snd (js_prune_old_jobs S now policy s))
      | CallCountOld now policy \<Rightarrow> ([], snd (js_count_old_jobs S now policy s))
      | CallOldest \<Rightarrow> ([], snd (js_oldest_job_created_at S s)))"

fun store_calls :: "'s job_storage \<Rightarrow> store_call list \<Rightarrow> 's \<Rightarrow> store_event list \<times> 's" where
  "store_calls S [] s = ([], s)"
| "store_calls S (c # cs) s =
     (case run_call S c s of (evs, s') \<Rightarrow>
        (case store_calls S cs s' of (evs', s'') \<Rightarrow> (evs @ evs', s'')))"

text \<open>How often a job is handed out and created in a sequence of events.\<close>

definition times_handed_out :: "uuid \<Rightarrow> store_event list \<Rightarrow> nat" where
  "times_handed_out i evs =
     length (filter (\<lambda>e. case e of JobHandedOut j \<Rightarrow> job_id j = i | JobCreated _ \<Rightarrow> False) evs)"

definition times_created :: "uuid \<Rightarrow> store_event list \<Rightarrow> nat" where
  "times_created i evs = length (filter (\<lambda>e. e = JobCreated i) evs)"

text \<open>Whether a call puts a job back into the pending state, or removes jobs.\<close>

definition call_requeues :: "store_call \<Rightarrow> bool" where
  "call_requeues c = (case c of CallUpdate _ u \<Rightarrow> ju_status u = Some JobPending | _ \<Rightarrow> False)"

definition call_removes :: "store_call \<Rightarrow> bool" where
  "call_removes c = (case c of CallDelete _ \<Rightarrow> True | CallPrune _ _ \<Rightarrow> True | _ \<Rightarrow> False)"

text \<open>
  What may become of a job: it is created, it keeps what identifies it, and it does not become
  pending again.
\<close>

definition job_advances :: "job option \<Rightarrow> job option \<Rightarrow> bool" where
  "job_advances x y \<longleftrightarrow>
     (case x of None \<Rightarrow> True
      | Some j \<Rightarrow> (case y of None \<Rightarrow> False
          | Some k \<Rightarrow> job_id k = job_id j \<and> job_job_type k = job_job_type j
              \<and> job_priority k = job_priority j \<and> job_payload k = job_payload j
              \<and> job_created_at k = job_created_at j
              \<and> (job_status k = JobPending \<longrightarrow> job_status j = JobPending)))"

text \<open>What a call may do to a job: a deletion leaves it as it is or removes it, if it is one of those
  to be deleted; pruning removes only ended jobs; every other call lets it advance, and only a
  creation adds one.\<close>

definition call_effect :: "store_call \<Rightarrow> job option \<Rightarrow> job option \<Rightarrow> bool" where
  "call_effect c x y \<longleftrightarrow>
     (case c of
        CallDelete st \<Rightarrow> y = x \<or> y = None \<and> (\<exists>j. x = Some j \<and> deleted_by st j)
      | CallPrune _ _ \<Rightarrow> y = x \<or> y = None \<and> (\<exists>j. x = Some j \<and> Job_is_terminal j)
      | CallCreate _ \<Rightarrow> job_advances x y
      | _ \<Rightarrow> job_advances x y \<and> (x = None \<longrightarrow> y = None))"

lemma job_advances_refl [simp]: "job_advances x x"
  by (simp add: job_advances_def split: option.split)

lemma job_advances_None [simp]: "job_advances None y"
  by (simp add: job_advances_def)

lemma job_advances_trans: "job_advances x y \<Longrightarrow> job_advances y z \<Longrightarrow> job_advances x z"
  by (auto simp: job_advances_def split: option.splits)

lemma apply_update_advances:
  assumes "ju_status u \<noteq> Some JobPending"
  shows "job_advances x (map_option (apply_update u) x)"
  using assms by (auto simp: job_advances_def apply_update_def split: option.splits)

lemma claimed_advances:
  "job_status j = JobPending \<Longrightarrow> job_advances (Some j) (Some (claimed_job w now j))"
  by (simp add: job_advances_def claimed_job_def)

definition is_pending :: "job option \<Rightarrow> bool" where
  "is_pending x \<longleftrightarrow> (case x of None \<Rightarrow> False | Some j \<Rightarrow> job_status j = JobPending)"

lemma call_effect_pending: "call_effect c x y \<Longrightarrow> x \<noteq> None \<Longrightarrow> is_pending y \<Longrightarrow> is_pending x"
  by (auto simp: call_effect_def job_advances_def is_pending_def split: store_call.splits option.splits)

lemma call_effect_advances: "call_effect c x y \<Longrightarrow> \<not> call_removes c \<Longrightarrow> job_advances x y"
  by (auto simp: call_effect_def call_removes_def split: store_call.splits)

lemma times_simps [simp]:
  "times_handed_out i [] = 0" "times_created i [] = 0"
  "times_handed_out i (e # evs)
     = (case e of JobHandedOut j \<Rightarrow> of_bool (job_id j = i) | JobCreated _ \<Rightarrow> 0) + times_handed_out i evs"
  "times_created i (e # evs) = of_bool (e = JobCreated i) + times_created i evs"
  "times_handed_out i (evs @ evs') = times_handed_out i evs + times_handed_out i evs'"
  "times_created i (evs @ evs') = times_created i evs + times_created i evs'"
  by (auto simp: times_handed_out_def times_created_def split: store_event.split)

text \<open>A job can be handed out as long as it is pending.\<close>

abbreviation pending_count :: "job option \<Rightarrow> nat" where
  "pending_count x \<equiv> of_bool (is_pending x)"

context job_store
begin

lemma call_advances:
  assumes "ok s" "\<not> call_requeues c" "run_call S c s = (evs, s')"
  shows "ok s' \<and> (\<forall>i. call_effect c (look s i) (look s' i))"
proof (cases c)
  case (CallCreate j)
  then show ?thesis using assms create_law [OF assms(1), of j]
    by (cases "js_create_job S j s") (auto simp: run_call_def call_effect_def split: sum.splits)
next
  case (CallJob i)
  then show ?thesis using assms job_law [OF assms(1), of i]
    by (cases "js_job S i s") (auto simp: run_call_def call_effect_def)
next
  case (CallUpdate i u)
  then have "ju_status u \<noteq> Some JobPending" using assms(2) by (simp add: call_requeues_def)
  then show ?thesis using CallUpdate assms update_law [OF assms(1), of i u] apply_update_advances
    by (cases "js_update_job S i u s") (auto simp: run_call_def call_effect_def split: sum.splits)
next
  case (CallClaimNext w now)
  then show ?thesis using assms claim_next_law [OF assms(1), of w now] claimed_advances
    by (cases "js_claim_next_job S w now s")
      (auto simp: run_call_def call_effect_def split: sum.splits option.splits)
next
  case (CallClaimById i w now)
  then show ?thesis using assms claim_law [OF assms(1), of i w now] claimed_advances
    by (cases "js_claim_job_by_id S i w now s")
      (auto simp: run_call_def call_effect_def split: sum.splits option.splits)
next
  case (CallList f)
  then show ?thesis using assms list_law [OF assms(1), of f]
    by (cases "js_list_jobs S f s") (auto simp: run_call_def call_effect_def)
next
  case CallCounts
  then show ?thesis using assms count_law [OF assms(1)]
    by (cases "js_count_jobs_by_status S s") (auto simp: run_call_def call_effect_def)
next
  case (CallDelete st)
  then show ?thesis using assms delete_law [OF assms(1), of st]
    by (cases "js_delete_jobs S st s")
      (auto simp: run_call_def call_effect_def split: sum.splits bind_splits)
next
  case (CallPrune now policy)
  then show ?thesis using assms prune_law [OF assms(1), of now policy]
    by (cases "js_prune_old_jobs S now policy s") (simp add: run_call_def call_effect_def)
next
  case (CallCountOld now policy)
  then show ?thesis using assms count_old_law [OF assms(1), of now policy]
    by (cases "js_count_old_jobs S now policy s") (auto simp: run_call_def call_effect_def)
next
  case CallOldest
  then show ?thesis using assms oldest_law [OF assms(1)]
    by (cases "js_oldest_job_created_at S s") (auto simp: run_call_def call_effect_def)
qed

lemma claim_hands_out:
  assumes "ok s" "run_call S c s = (evs, s')"
  shows "evs = [] \<or> (\<exists>i. evs = [JobCreated i] \<and> look s i = None)
    \<or> (\<exists>j. evs = [JobHandedOut j] \<and> is_pending (look s (job_id j)) \<and> look s' (job_id j) = Some j
         \<and> job_status j = JobRunning)"
proof (cases c)
  case (CallCreate j)
  then show ?thesis using assms create_law [OF assms(1), of j]
    by (cases "js_create_job S j s") (auto simp: run_call_def accepted_def split: sum.splits)
next
  case (CallClaimNext w now)
  obtain r t where q: "js_claim_next_job S w now s = (r, t)" by fastforce
  then show ?thesis using assms claim_next_law [OF assms(1) q] CallClaimNext
    by (auto simp: run_call_def handed_out_def is_pending_def claimed_job_def
        split: sum.splits option.splits)
next
  case (CallClaimById i w now)
  obtain r t where q: "js_claim_job_by_id S i w now s = (r, t)" by fastforce
  show ?thesis
  proof (cases r)
    case (Inr x)
    then show ?thesis
    proof (cases x)
      case (Some j')
      then obtain j where j: "look s i = Some j" "job_status j = JobPending"
        "j' = claimed_job w now j" "look t = (look s)(i \<mapsto> j')"
        using claim_law [OF assms(1) q] Inr by auto
      then have "job_id j' = i" using id_law [OF assms(1) j(1)] by (simp add: claimed_job_def)
      then show ?thesis using assms(2) CallClaimById q Inr Some j
        by (auto simp: run_call_def handed_out_def is_pending_def claimed_job_def)
    qed (use assms(2) CallClaimById q Inr in \<open>simp add: run_call_def handed_out_def\<close>)
  qed (use assms(2) CallClaimById q in \<open>simp add: run_call_def handed_out_def\<close>)
qed (use assms(2) in \<open>simp_all add: run_call_def\<close>)

lemma call_creates:
  assumes "ok s" "\<not> call_requeues c" "run_call S c s = (evs, s')" "look s i = None" "look s' i \<noteq> None"
  shows "evs = [JobCreated i]"
proof (cases c)
  case (CallCreate j)
  then show ?thesis using assms create_law [OF assms(1), of j]
    by (cases "js_create_job S j s")
      (auto simp: run_call_def accepted_def split: sum.splits if_splits)
qed (use call_advances [OF assms(1-3)] assms(4,5) in \<open>auto simp: call_effect_def dest: spec [of _ i]\<close>)

lemma call_balance:
  assumes "ok s" "\<not> call_requeues c" "run_call S c s = (evs, s')"
  shows "times_handed_out i evs + pending_count (look s' i)
    \<le> pending_count (look s i) + times_created i evs"
proof -
  have new: "evs = [JobCreated i]" if "look s i = None" "is_pending (look s' i)"
    using that by (intro call_creates [OF assms]) (auto simp: is_pending_def split: option.splits)
  have old: "is_pending (look s i)" if "is_pending (look s' i)" "look s i \<noteq> None"
    using call_advances [OF assms] call_effect_pending that by blast
  from claim_hands_out [OF assms(1,3)] show ?thesis
  proof (elim disjE exE conjE)
    fix j assume "evs = [JobHandedOut j]" "is_pending (look s (job_id j))" "look s' (job_id j) = Some j"
      "job_status j = JobRunning"
    then show ?thesis using new old by (auto simp: is_pending_def [of "Some _"])
  qed (use new old in \<open>auto simp: is_pending_def [of None]\<close>)
qed

lemma calls_balance:
  assumes "ok s" "\<forall>c \<in> set cs. \<not> call_requeues c" "store_calls S cs s = (evs, s')"
  shows "ok s' \<and> times_handed_out i evs + pending_count (look s' i)
    \<le> pending_count (look s i) + times_created i evs"
  using assms
proof (induction cs arbitrary: s evs)
  case (Cons c cs)
  obtain es t fs where q: "run_call S c s = (es, t)" "store_calls S cs t = (fs, s')" "evs = es @ fs"
    using Cons.prems(3) by (auto split: prod.splits)
  have c: "\<not> call_requeues c" using Cons.prems(2) by simp
  have "ok t" using call_advances [OF Cons.prems(1) c q(1)] by simp
  with Cons.IH [OF _ _ q(2)] call_balance [OF Cons.prems(1) c q(1), of i] Cons.prems(2)
  show ?case by (fastforce simp: q(3))
qed simp

lemma store_calls_take:
  "k < length cs \<Longrightarrow> snd (store_calls S (take (Suc k) cs) s)
     = snd (run_call S (cs ! k) (snd (store_calls S (take k cs) s)))"
proof (induction cs arbitrary: k s)
  case (Cons c cs)
  obtain es t where c: "run_call S c s = (es, t)" by fastforce
  show ?case
  proof (cases k)
    case 0
    then show ?thesis using c by (simp split: prod.split)
  next
    case (Suc n)
    then show ?thesis using Cons.IH [of n t] Cons.prems c by (simp add: case_prod_beta)
  qed
qed simp

lemma calls_effect:
  assumes "ok s" "\<forall>c \<in> set cs. \<not> call_requeues c" "k < length cs"
  shows "call_effect (cs ! k) (look (snd (store_calls S (take k cs) s)) i)
    (look (snd (store_calls S (take (Suc k) cs) s)) i)"
proof -
  let ?t = "snd (store_calls S (take k cs) s)"
  have sub: "\<forall>c \<in> set (take k cs). \<not> call_requeues c" using assms(2) by (auto dest: in_set_takeD)
  have "ok ?t" using calls_balance [OF assms(1) sub surjective_pairing] by simp
  moreover have "\<not> call_requeues (cs ! k)" using assms(2,3) by simp
  ultimately show ?thesis
    using call_advances [OF _ _ surjective_pairing] by (simp add: store_calls_take [OF assms(3)])
qed

lemma calls_advance:
  assumes "ok s" "\<forall>c \<in> set cs. \<not> call_requeues c" "\<forall>c \<in> set cs. \<not> call_removes c"
    "store_calls S cs s = (evs, s')"
  shows "job_advances (look s i) (look s' i)"
  using assms
proof (induction cs arbitrary: s evs)
  case (Cons c cs)
  obtain es t fs where q: "run_call S c s = (es, t)" "store_calls S cs t = (fs, s')"
    using Cons.prems(4) by (auto split: prod.splits)
  have "ok t \<and> call_effect c (look s i) (look t i)"
    using call_advances [OF Cons.prems(1) _ q(1)] Cons.prems(2) by simp
  moreover have "\<not> call_removes c" using Cons.prems(3) by simp
  ultimately show ?case
    using Cons.IH [OF _ _ _ q(2)] Cons.prems(2,3) call_effect_advances job_advances_trans
    by (meson list.set_intros)
qed simp

text \<open>Without deletions, a job that the store has is not created again.\<close>

lemma calls_hand_out_once:
  assumes "ok s" "\<forall>c \<in> set cs. \<not> call_requeues c" "\<forall>c \<in> set cs. \<not> call_removes c"
    "store_calls S cs s = (evs, s')"
  shows "times_handed_out i evs \<le> 1 \<and> (look s i \<noteq> None \<longrightarrow> times_created i evs = 0)"
  using assms
proof (induction cs arbitrary: s evs)
  case (Cons c cs)
  obtain es t fs where q: "run_call S c s = (es, t)" "store_calls S cs t = (fs, s')" "evs = es @ fs"
    using Cons.prems(4) by (auto split: prod.splits)
  have c: "\<not> call_requeues c" "\<not> call_removes c" using Cons.prems(2,3) by auto
  have rest: "\<forall>c \<in> set cs. \<not> call_requeues c" "\<forall>c \<in> set cs. \<not> call_removes c"
    using Cons.prems(2,3) by auto
  have t: "ok t" "job_advances (look s i) (look t i)"
    using call_advances [OF Cons.prems(1) c(1) q(1)] call_effect_advances c(2) by auto
  note IH = Cons.IH [OF t(1) rest q(2)]
  have known: "look s i \<noteq> None \<Longrightarrow> look t i \<noteq> None"
    using t(2) by (auto simp: job_advances_def split: option.splits)
  from claim_hands_out [OF Cons.prems(1) q(1)] show ?case
  proof (elim disjE exE conjE)
    fix j
    assume j: "es = [JobHandedOut j]" "look t (job_id j) = Some j" "job_status j = JobRunning"
    have "times_handed_out (job_id j) fs = 0" if "i = job_id j"
      using calls_balance [OF t(1) rest(1) q(2), of "job_id j"] IH j(2,3) that
      by (simp add: is_pending_def)
    then show ?thesis using j(1) IH known q(3) by auto
  qed (use IH known q(3) in auto)
qed simp

end

end
