(* ===== verification/Worker_Pool.thy ===== *)
theory Worker_Pool
  imports Job_Queue Plan "HOL-Library.Multiset"
begin

text \<open>
  The worker pool, \<open>plugins/job-manager/src/worker.rs\<close>: a batch of work items is enqueued and
  processed by concurrent tasks, as many at a time as there are permits. A task is modelled by the
  point it has reached; \<open>task_step\<close> is what it does up to its next suspension, and \<open>batch_step\<close>
  interleaves the tasks, the loop that spawns them and a cancellation from outside.

  The processor of jobs is an argument; it may return an output, fail or panic. A blocking call of
  the store that panics (\<open>JoinError\<close>) is taken to leave the store as it was. The result channel is
  as long as the number of jobs and its receiver outlives the tasks, so that sends neither block
  nor fail; calls of the progress reporter are collected.
\<close>

section \<open>Configuration and results\<close>

record 'p work_item =
  wi_job_type :: job_type
  wi_priority :: int
  wi_payload :: "'p option"

record worker_pool_config =
  wpc_max_workers :: usize
  wpc_worker_prefix :: string

definition WorkerPoolConfig_default :: worker_pool_config where
  "WorkerPoolConfig_default = \<lparr>wpc_max_workers = 0, wpc_worker_prefix = ''worker''\<rparr>"

text \<open>\<open>available_parallelism\<close> is a non-zero number, if it is known.\<close>

definition num_cpus :: "usize option \<Rightarrow> usize" where
  "num_cpus parallelism = (case parallelism of Some n \<Rightarrow> n | None \<Rightarrow> 4)"

definition effective_workers :: "usize option \<Rightarrow> worker_pool_config \<Rightarrow> usize" where
  "effective_workers parallelism cfg =
     (if wpc_max_workers cfg = 0 then num_cpus parallelism else wpc_max_workers cfg)"

datatype job_outcome = OutcomeSuccess | OutcomeFailure string | OutcomeAlreadyClaimed

definition JobOutcome_is_success :: "job_outcome \<Rightarrow> bool" where
  "JobOutcome_is_success x = (case x of OutcomeSuccess \<Rightarrow> True | _ \<Rightarrow> False)"

definition JobOutcome_is_failure :: "job_outcome \<Rightarrow> bool" where
  "JobOutcome_is_failure x = (case x of OutcomeFailure _ \<Rightarrow> True | _ \<Rightarrow> False)"

definition JobOutcome_is_already_claimed :: "job_outcome \<Rightarrow> bool" where
  "JobOutcome_is_already_claimed x = (case x of OutcomeAlreadyClaimed \<Rightarrow> True | _ \<Rightarrow> False)"

definition JobOutcome_error :: "job_outcome \<Rightarrow> string option" where
  "JobOutcome_error x = (case x of OutcomeFailure e \<Rightarrow> Some e | _ \<Rightarrow> None)"

record job_result =
  jres_job_id :: uuid
  jres_outcome :: job_outcome

definition JobResult_success :: "uuid \<Rightarrow> job_result" where
  "JobResult_success i = \<lparr>jres_job_id = i, jres_outcome = OutcomeSuccess\<rparr>"

definition JobResult_failure :: "uuid \<Rightarrow> string \<Rightarrow> job_result" where
  "JobResult_failure i e = \<lparr>jres_job_id = i, jres_outcome = OutcomeFailure e\<rparr>"

definition JobResult_already_claimed :: "uuid \<Rightarrow> job_result" where
  "JobResult_already_claimed i = \<lparr>jres_job_id = i, jres_outcome = OutcomeAlreadyClaimed\<rparr>"

datatype job_error_strategy = JesFail | JesSkip | JesContinue

datatype proc_result = ProcOk "json option" | ProcErr string | ProcPanic

text \<open>The calls of a \<open>ProgressReporter\<close> that the pool makes.\<close>

datatype report =
    RepBatchStart usize
  | RepJobStart job
  | RepJobComplete uuid bool "string option"
  | RepBatchComplete u64 u64
  | RepJobsExtended usize

section \<open>Limits on hardware encoders\<close>

text \<open>The resource of a plan is that of its first video transcode with a classified backend.\<close>

definition action_resource :: "string option \<Rightarrow> planned_action \<Rightarrow> string option" where
  "action_resource default_resource a =
     (if pa_operation a \<noteq> TranscodeVideo then None
      else case pa_parameters a of
        ApTranscode codec settings \<Rightarrow>
          (case ts_hw settings of
             None \<Rightarrow> default_resource
           | Some h \<Rightarrow>
               if h = ''nvenc'' then Some ''hw:nvenc''
               else if h = ''qsv'' then Some ''hw:qsv''
               else if h = ''vaapi'' then Some ''hw:vaapi''
               else if h = ''videotoolbox'' then Some ''hw:videotoolbox''
               else if h = ''auto'' then default_resource
               else None)
      | _ \<Rightarrow> None)"

definition from_plan_with_default :: "plan \<Rightarrow> string option \<Rightarrow> string option" where
  "from_plan_with_default p default_resource =
     find_map (action_resource default_resource) (pl_actions p)"

text \<open>A semaphore is the number of its free permits.\<close>

record plan_execution_limiter =
  pel_semaphores :: "(string, nat) hashmap"
  pel_default_resource :: "string option"

definition from_limits_with_default ::
  "(string \<times> usize) list \<Rightarrow> string option \<Rightarrow> plan_execution_limiter" where
  "from_limits_with_default limits default_resource =
     (let semaphores =
        fold (\<lambda>(resource, n) m. if n = 0 then m else hm_insert resource n m) limits [] in
      \<lparr>pel_semaphores = semaphores,
       pel_default_resource =
         (case default_resource of
            Some r \<Rightarrow> if hm_contains_key semaphores r then Some r else None
          | None \<Rightarrow> None)\<rparr>)"

definition from_limits :: "(string \<times> usize) list \<Rightarrow> plan_execution_limiter" where
  "from_limits limits = from_limits_with_default limits None"

text \<open>
  \<open>acquire_for_plan\<close>: \<open>None\<close> while it has to wait, otherwise the resource that the permit holds, if
  any. Dropping the permit releases it.
\<close>

definition acquire_for_plan ::
  "plan \<Rightarrow> plan_execution_limiter \<Rightarrow> (string option \<times> plan_execution_limiter) option" where
  "acquire_for_plan p l =
     (case from_plan_with_default p (pel_default_resource l) of
        None \<Rightarrow> Some (None, l)
      | Some resource \<Rightarrow>
          (case hm_get (pel_semaphores l) resource of
             None \<Rightarrow> Some (None, l)
           | Some n \<Rightarrow>
               if n = 0 then None
               else Some (Some resource,
                 l\<lparr>pel_semaphores := hm_insert resource (n - 1) (pel_semaphores l)\<rparr>)))"

definition release_permit :: "string option \<Rightarrow> plan_execution_limiter \<Rightarrow> plan_execution_limiter" where
  "release_permit permit l =
     (case permit of
        None \<Rightarrow> l
      | Some resource \<Rightarrow>
          l\<lparr>pel_semaphores :=
              hm_insert resource (Suc (hm_get_or (pel_semaphores l) resource 0)) (pel_semaphores l)\<rparr>)"

section \<open>The state of a pool\<close>

record 's pool =
  wp_store :: 's
  wp_cancelled :: bool
  wp_completed :: u64
  wp_failed :: u64
  wp_already_claimed :: u64
  wp_results :: "job_result list"
  wp_reports :: "report list"

definition WorkerPool_new :: "'s \<Rightarrow> bool \<Rightarrow> 's pool" where
  "WorkerPool_new s cancelled =
     \<lparr>wp_store = s, wp_cancelled = cancelled, wp_completed = 0, wp_failed = 0,
      wp_already_claimed = 0, wp_results = [], wp_reports = []\<rparr>"

text \<open>
  What the tasks of a batch share and do not change. Each task performs an operation of its job at
  most once, so the time of the operation and whether its blocking call panics are given by the job
  and the name of the operation.
\<close>

record 's pool_env =
  we_store :: "'s job_storage"
  we_now :: "uuid \<Rightarrow> string \<Rightarrow> timestamp"
  we_join :: "uuid \<Rightarrow> string \<Rightarrow> string option"
  we_uuid_str :: "uuid \<Rightarrow> string"
  we_worker_id :: "uuid \<Rightarrow> string"
  we_processor :: "job \<Rightarrow> proc_result"
  we_on_error :: job_error_strategy
  we_workers :: usize

definition pool_report :: "report \<Rightarrow> 's pool \<Rightarrow> 's pool" where
  "pool_report r p = p\<lparr>wp_reports := wp_reports p @ [r]\<rparr>"

definition pool_send :: "job_result \<Rightarrow> 's pool \<Rightarrow> 's pool" where
  "pool_send r p = p\<lparr>wp_results := wp_results p @ [r]\<rparr>"

definition pool_cancel :: "'s pool \<Rightarrow> 's pool" where
  "pool_cancel p = p\<lparr>wp_cancelled := True\<rparr>"

definition send_failure :: "uuid \<Rightarrow> string \<Rightarrow> 's pool \<Rightarrow> 's pool" where
  "send_failure i err p =
     pool_send (JobResult_failure i err) (p\<lparr>wp_failed := wp_failed p + 1\<rparr>)"

definition send_claim_race :: "uuid \<Rightarrow> 's pool \<Rightarrow> 's pool" where
  "send_claim_race i p =
     pool_send (JobResult_already_claimed i) (p\<lparr>wp_already_claimed := wp_already_claimed p + 1\<rparr>)"

text \<open>A blocking call of the store; \<open>Inl\<close> is the text of a \<open>JoinError\<close>.\<close>

definition spawn_blocking ::
  "'s pool_env \<Rightarrow> uuid \<Rightarrow> string \<Rightarrow> ('s \<Rightarrow> 'r \<times> 's) \<Rightarrow> 's pool \<Rightarrow> (string + 'r) \<times> 's pool" where
  "spawn_blocking W i operation f p =
     (case we_join W i operation of
        Some e \<Rightarrow> (Inl e, p)
      | None \<Rightarrow> (case f (wp_store p) of (r, s) \<Rightarrow> (Inr r, p\<lparr>wp_store := s\<rparr>)))"

definition record_job_update ::
  "'s pool_env \<Rightarrow> uuid \<Rightarrow> string \<Rightarrow> ('s \<Rightarrow> (voom_error + unit) \<times> 's) \<Rightarrow> 's pool
     \<Rightarrow> (string + unit) \<times> 's pool" where
  "record_job_update W i operation f p =
     (case spawn_blocking W i operation f p of
        (Inr (Inr _), q) \<Rightarrow> (Inr (), q)
      | (Inr (Inl e), q) \<Rightarrow> (Inl (''failed to '' @ operation @ '': '' @ VoomError_display e), q)
      | (Inl e, q) \<Rightarrow>
          (Inl (''task join error while trying to '' @ operation @ '': '' @ e), q))"

section \<open>Tasks\<close>

datatype task =
    TaskSpawned
  | TaskClaiming
  | TaskClaimed job
  | TaskCancelling job
  | TaskProcessing job
  | TaskCompleting job "json option"
  | TaskFailing job string
  | TaskStopping
  | TaskDone
  | TaskPanicked

text \<open>\<open>run_one_job\<close> up to the claim, then \<open>run_claimed_job\<close>.\<close>

definition claim_step :: "'s pool_env \<Rightarrow> uuid \<Rightarrow> 's pool \<Rightarrow> task \<times> 's pool" where
  "claim_step W i p =
     (case spawn_blocking W i ''claim''
             (JobQueue_claim_by_id (we_store W) i (we_worker_id W i) (we_now W i ''claim'')) p of
        (Inr (Inr (Some j)), q) \<Rightarrow> (TaskClaimed j, q)
      | (Inr (Inr None), q) \<Rightarrow> (TaskDone, send_claim_race i q)
      | (Inr (Inl e), q) \<Rightarrow>
          (TaskDone, send_failure i (''failed to claim: '' @ VoomError_display e) q)
      | (Inl e, q) \<Rightarrow> (TaskDone, send_failure i (''task join error: '' @ e) q))"

definition cancel_step :: "'s pool_env \<Rightarrow> job \<Rightarrow> 's pool \<Rightarrow> task \<times> 's pool" where
  "cancel_step W j p =
     (let i = job_id j in
      case record_job_update W i ''mark job as cancelled''
             (JobQueue_cancel (we_store W) (we_uuid_str W) (we_now W i ''cancel'') i) p of
        (Inl e, q) \<Rightarrow> (TaskDone, send_failure i e q)
      | (Inr _, q) \<Rightarrow> (TaskDone, send_failure i ''cancelled'' q))"

definition complete_step :: "'s pool_env \<Rightarrow> job \<Rightarrow> json option \<Rightarrow> 's pool \<Rightarrow> task \<times> 's pool" where
  "complete_step W j out p =
     (let i = job_id j in
      case record_job_update W i ''mark job as complete''
             (JobQueue_complete (we_store W) (we_now W i ''complete'') i out) p of
        (Inl e, q) \<Rightarrow>
          (TaskDone, send_failure i e (pool_report (RepJobComplete i False (Some e)) q))
      | (Inr _, q) \<Rightarrow>
          (TaskDone, pool_send (JobResult_success i)
             (pool_report (RepJobComplete i True None) (q\<lparr>wp_completed := wp_completed q + 1\<rparr>))))"

definition fail_step :: "'s pool_env \<Rightarrow> job \<Rightarrow> string \<Rightarrow> 's pool \<Rightarrow> task \<times> 's pool" where
  "fail_step W j err p =
     (let i = job_id j in
      case record_job_update W i ''mark job as failed''
             (JobQueue_fail (we_store W) (we_now W i ''fail'') i err) p of
        (persisted, q) \<Rightarrow>
          (if we_on_error W = JesFail then TaskStopping else TaskDone,
           send_failure i
             (case persisted of Inr _ \<Rightarrow> err | Inl e \<Rightarrow> err @ ''; '' @ e)
             (pool_report (RepJobComplete i False (Some err)) q)))"

definition task_step :: "'s pool_env \<Rightarrow> uuid \<Rightarrow> task \<Rightarrow> 's pool \<Rightarrow> (task \<times> 's pool) option" where
  "task_step W i t p =
     (case t of
        TaskSpawned \<Rightarrow>
          Some (if wp_cancelled p then (TaskDone, send_failure i ''cancelled'' p)
                else (TaskClaiming, p))
      | TaskClaiming \<Rightarrow> Some (claim_step W i p)
      | TaskClaimed j \<Rightarrow>
          Some (if wp_cancelled p then (TaskCancelling j, p)
                else (TaskProcessing j, pool_report (RepJobStart j) p))
      | TaskCancelling j \<Rightarrow> Some (cancel_step W j p)
      | TaskProcessing j \<Rightarrow>
          Some (case we_processor W j of
                  ProcOk out \<Rightarrow> (TaskCompleting j out, p)
                | ProcErr e \<Rightarrow> (TaskFailing j e, p)
                | ProcPanic \<Rightarrow> (TaskPanicked, p))
      | TaskCompleting j out \<Rightarrow> Some (complete_step W j out p)
      | TaskFailing j e \<Rightarrow> Some (fail_step W j e p)
      | TaskStopping \<Rightarrow> Some (TaskDone, pool_cancel p)
      | TaskDone \<Rightarrow> None
      | TaskPanicked \<Rightarrow> None)"

section \<open>Batches\<close>

record 's batch =
  bt_pool :: "'s pool"
  bt_queue :: "uuid list"
  bt_tasks :: "(uuid \<times> task) list"
  bt_unstarted :: "uuid list"

definition task_live :: "task \<Rightarrow> bool" where
  "task_live t = (t \<noteq> TaskDone \<and> t \<noteq> TaskPanicked)"

definition live_tasks :: "'s batch \<Rightarrow> nat" where
  "live_tasks b = length (filter (\<lambda>(_, t). task_live t) (bt_tasks b))"

text \<open>
  Enqueuing one item. Each item comes with the identities that are drawn for it: that of its job and
  that under which a failure to enqueue it is reported. \<open>to_value\<close> serialises a payload.
\<close>

definition enqueue_item ::
  "'s pool_env \<Rightarrow> ('p \<Rightarrow> string + json) \<Rightarrow> mint \<times> uuid \<times> 'p work_item
     \<Rightarrow> uuid list \<times> 's pool \<Rightarrow> uuid list \<times> 's pool" where
  "enqueue_item W to_value = (\<lambda>(m, fresh, item) (ids, p).
     case opt_result to_value (wi_payload item) of
       Inl e \<Rightarrow> (ids, send_failure fresh (''payload serialization failed: '' @ e) p)
     | Inr payload \<Rightarrow>
         (case JobQueue_enqueue (we_store W) m (wi_job_type item) (wi_priority item) payload
                 (wp_store p) of
            (Inr i, s) \<Rightarrow> (ids @ [i], p\<lparr>wp_store := s\<rparr>)
          | (Inl e, s) \<Rightarrow>
              (ids, send_failure fresh (''enqueue failed: '' @ VoomError_display e)
                      (p\<lparr>wp_store := s\<rparr>))))"

definition batch_start ::
  "'s pool_env \<Rightarrow> ('p \<Rightarrow> string + json) \<Rightarrow> (mint \<times> uuid \<times> 'p work_item) list \<Rightarrow> 's pool
     \<Rightarrow> 's batch" where
  "batch_start W to_value items p =
     (case fold (enqueue_item W to_value) items ([], p\<lparr>wp_results := []\<rparr>) of
        (ids, q) \<Rightarrow>
          \<lparr>bt_pool = pool_report (RepBatchStart (length ids)) q, bt_queue = ids, bt_tasks = [],
           bt_unstarted = []\<rparr>)"

text \<open>One round of \<open>cancel_unstarted_jobs\<close>; its errors are only logged.\<close>

definition sweep_step :: "'s pool_env \<Rightarrow> uuid \<Rightarrow> uuid list \<Rightarrow> 's pool \<Rightarrow> uuid list \<times> 's pool" where
  "sweep_step W i rest p =
     (case spawn_blocking W i ''sweep''
             (JobQueue_cancel (we_store W) (we_uuid_str W) (we_now W i ''sweep'') i) p of
        (Inl _, q) \<Rightarrow> ([], q)
      | (Inr _, q) \<Rightarrow> (rest, q))"

inductive batch_step :: "'s pool_env \<Rightarrow> 's batch \<Rightarrow> 's batch \<Rightarrow> bool" for W where
  spawn:
    "bt_queue b = i # rest \<Longrightarrow> live_tasks b < we_workers W \<Longrightarrow>
     batch_step W b (b\<lparr>bt_queue := rest, bt_tasks := bt_tasks b @ [(i, TaskSpawned)]\<rparr>)"
| stop:
    "bt_queue b = i # rest \<Longrightarrow> wp_cancelled (bt_pool b) \<Longrightarrow>
     batch_step W b (b\<lparr>bt_queue := [], bt_unstarted := i # rest\<rparr>)"
| sweep:
    "bt_queue b = [] \<Longrightarrow> bt_unstarted b = i # rest \<Longrightarrow>
     sweep_step W i rest (bt_pool b) = (us, p) \<Longrightarrow>
     batch_step W b (b\<lparr>bt_unstarted := us, bt_pool := p\<rparr>)"
| run:
    "k < length (bt_tasks b) \<Longrightarrow> bt_tasks b ! k = (i, t) \<Longrightarrow>
     task_step W i t (bt_pool b) = Some (t', p) \<Longrightarrow>
     batch_step W b (b\<lparr>bt_tasks := (bt_tasks b)[k := (i, t')], bt_pool := p\<rparr>)"
| cancel:
    "\<not> wp_cancelled (bt_pool b) \<Longrightarrow>
     batch_step W b (b\<lparr>bt_pool := pool_cancel (bt_pool b)\<rparr>)"

definition batch_final :: "'s batch \<Rightarrow> bool" where
  "batch_final b \<longleftrightarrow> bt_queue b = [] \<and> bt_unstarted b = [] \<and> live_tasks b = 0"

text \<open>What \<open>process_batch\<close> does after every task has been joined.\<close>

definition batch_finish :: "'s batch \<Rightarrow> job_result list \<times> 's pool" where
  "batch_finish b =
     (let p = bt_pool b in
      (wp_results p, pool_report (RepBatchComplete (wp_completed p) (wp_failed p)) p))"

end
