(* ===== verification/Worker_Pool_Correct.thy ===== *)
theory Worker_Pool_Correct
  imports Worker_Pool
begin

text \<open>
  What every run of a batch does, whatever the interleaving: it stays within its permits, it ends,
  it reports every started job once, and what it reports agrees with the store.
\<close>

inductive_cases batch_stepE: "batch_step W b b'"

section \<open>Permits and termination\<close>

definition task_rank :: "task \<Rightarrow> nat" where
  "task_rank t =
     (case t of TaskSpawned \<Rightarrow> 6 | TaskClaiming \<Rightarrow> 5 | TaskClaimed _ \<Rightarrow> 4 | TaskCancelling _ \<Rightarrow> 3
      | TaskProcessing _ \<Rightarrow> 3 | TaskCompleting _ _ \<Rightarrow> 2 | TaskFailing _ _ \<Rightarrow> 2 | TaskStopping \<Rightarrow> 1
      | TaskDone \<Rightarrow> 0 | TaskPanicked \<Rightarrow> 0)"

definition batch_measure :: "'s batch \<Rightarrow> nat" where
  "batch_measure b =
     7 * length (bt_queue b) + (\<Sum>(_, t) \<leftarrow> bt_tasks b. task_rank t) + length (bt_unstarted b)
     + (if wp_cancelled (bt_pool b) then 0 else 1)"

lemmas pool_ops = pool_report_def pool_send_def pool_cancel_def send_failure_def send_claim_race_def

lemma pool_ops_cancelled [simp]:
  "wp_cancelled (pool_report r p) = wp_cancelled p" "wp_cancelled (pool_send x p) = wp_cancelled p"
  "wp_cancelled (send_failure i e p) = wp_cancelled p"
  "wp_cancelled (send_claim_race i p) = wp_cancelled p" "wp_cancelled (pool_cancel p)"
  by (simp_all add: pool_ops)

lemma spawn_blocking_cancelled:
  "spawn_blocking W i x f p = (r, q) \<Longrightarrow> wp_cancelled q = wp_cancelled p"
  by (auto simp: spawn_blocking_def split: option.splits prod.splits)

lemma record_job_update_cancelled:
  "record_job_update W i x f p = (r, q) \<Longrightarrow> wp_cancelled q = wp_cancelled p"
  by (auto simp: record_job_update_def split: prod.splits sum.splits dest: spawn_blocking_cancelled)

lemma claim_step_rank:
  "claim_step W i p = (t, q) \<Longrightarrow> task_rank t < 5 \<and> wp_cancelled q = wp_cancelled p"
  by (auto simp: claim_step_def task_rank_def split: prod.splits sum.splits option.splits
      dest: spawn_blocking_cancelled)

lemma cancel_step_rank:
  "cancel_step W j p = (t, q) \<Longrightarrow> t = TaskDone \<and> wp_cancelled q = wp_cancelled p"
  by (auto simp: cancel_step_def Let_def split: prod.splits sum.splits dest: record_job_update_cancelled)

lemma complete_step_rank:
  "complete_step W j out p = (t, q) \<Longrightarrow> t = TaskDone \<and> wp_cancelled q = wp_cancelled p"
  by (auto simp: complete_step_def Let_def split: prod.splits sum.splits
      dest: record_job_update_cancelled)

lemma fail_step_rank:
  "fail_step W j e p = (t, q) \<Longrightarrow> task_rank t < 2 \<and> wp_cancelled q = wp_cancelled p"
  by (auto simp: fail_step_def task_rank_def Let_def split: prod.splits if_splits
      dest: record_job_update_cancelled)

lemma task_step_rank:
  assumes "task_step W i t p = Some (t', q)"
  shows "task_rank t' < task_rank t" and "wp_cancelled p \<longrightarrow> wp_cancelled q"
  using assms
  by (auto simp: task_step_def task_rank_def split: task.splits if_splits proc_result.splits
      dest!: claim_step_rank cancel_step_rank complete_step_rank fail_step_rank)

lemma task_step_None: "task_step W i t p = None \<longleftrightarrow> \<not> task_live t"
  by (cases t) (simp_all add: task_step_def task_live_def)

lemma sum_list_update_less:
  fixes f :: "'a \<Rightarrow> nat"
  assumes "k < length xs" "f y < f (xs ! k)"
  shows "sum_list (map f (xs[k := y])) < sum_list (map f xs)"
  using assms by (induction xs arbitrary: k) (auto split: nat.split simp: less_Suc_eq_0_disj)

lemma sweep_step_shrinks:
  "sweep_step W i rest p = (us, q) \<Longrightarrow> length us \<le> length rest \<and> wp_cancelled q = wp_cancelled p"
  by (auto simp: sweep_step_def split: prod.splits sum.splits dest: spawn_blocking_cancelled)

lemma batch_step_decreases:
  assumes "batch_step W b b'"
  shows "batch_measure b' < batch_measure b"
  using assms
proof cases
  case (run k i t t' p)
  then have "(\<Sum>(_, t) \<leftarrow> (bt_tasks b)[k := (i, t')]. task_rank t)
      < (\<Sum>(_, t) \<leftarrow> bt_tasks b. task_rank t)"
    by (intro sum_list_update_less) (simp_all add: task_step_rank)
  then show ?thesis using run task_step_rank(2) [OF run(4)] by (auto simp: batch_measure_def)
qed (auto simp: batch_measure_def task_rank_def dest!: sweep_step_shrinks)

lemma live_tasks_update:
  assumes "k < length (bt_tasks b)" "bt_tasks b ! k = (i, t)" "task_live t"
  shows "live_tasks (b\<lparr>bt_tasks := (bt_tasks b)[k := (i, t')], bt_pool := p\<rparr>) \<le> live_tasks b"
proof -
  let ?P = "\<lambda>(_, t). task_live t"
  have "length (filter ?P ((xs :: (uuid \<times> task) list)[k := y])) \<le> length (filter ?P xs)"
    if "k < length xs" "?P (xs ! k)" for xs k y
    using that by (induction xs arbitrary: k) (auto simp: less_Suc_eq_0_disj split: prod.splits)
  then show ?thesis using assms by (simp add: live_tasks_def)
qed

lemma batch_step_permits:
  assumes "batch_step W b b'" "live_tasks b \<le> we_workers W"
  shows "live_tasks b' \<le> we_workers W"
  using assms
proof cases
  case (run k i t t' p)
  then have "task_live t" using task_step_None [of W i t "bt_pool b"] by auto
  then show ?thesis using run live_tasks_update [of k b i t] assms(2)
    by (auto intro: le_trans)
qed (auto simp: live_tasks_def task_live_def)

lemma batch_progress:
  assumes "0 < we_workers W" "\<not> batch_final b"
  shows "\<exists>b'. batch_step W b b'"
proof (cases "live_tasks b = 0")
  case True
  show ?thesis
  proof (cases "bt_queue b")
    case Nil
    then obtain i rest where u: "bt_unstarted b = i # rest"
      using assms(2) True by (cases "bt_unstarted b") (auto simp: batch_final_def)
    obtain us p where "sweep_step W i rest (bt_pool b) = (us, p)" by fastforce
    then show ?thesis using Nil u batch_step.sweep by blast
  next
    case (Cons i rest)
    then show ?thesis using batch_step.spawn [OF Cons, of W] True assms(1) by auto
  qed
next
  case False
  then obtain k i t where k: "k < length (bt_tasks b)" "bt_tasks b ! k = (i, t)" "task_live t"
    by (auto simp: live_tasks_def filter_empty_conv in_set_conv_nth)
  then obtain t' p where "task_step W i t (bt_pool b) = Some (t', p)"
    using task_step_None [of W i t "bt_pool b"] by fastforce
  then show ?thesis using k batch_step.run by blast
qed

lemma batch_run_bound:
  assumes "(batch_step W ^^ n) b b'"
  shows "n + batch_measure b' \<le> batch_measure b"
  using assms
proof (induction n arbitrary: b')
  case (Suc n)
  then obtain c where "(batch_step W ^^ n) b c" "batch_step W c b'" by auto
  then show ?case using Suc.IH [of c] batch_step_decreases [of W c b'] by simp
qed simp

lemma batch_run_permits:
  assumes "(batch_step W)\<^sup>*\<^sup>* b b'" "live_tasks b \<le> we_workers W"
  shows "live_tasks b' \<le> we_workers W"
  using assms by (induction rule: rtranclp_induct) (auto intro: batch_step_permits)

section \<open>Tasks and the store\<close>

text \<open>A task that has sent its result, and one that has not reached the processor.\<close>

definition task_reported :: "task \<Rightarrow> bool" where
  "task_reported t = (t = TaskStopping \<or> t = TaskDone)"

definition task_early :: "task \<Rightarrow> bool" where
  "task_early t =
     (case t of TaskSpawned \<Rightarrow> True | TaskClaiming \<Rightarrow> True | TaskClaimed _ \<Rightarrow> True
      | TaskCancelling _ \<Rightarrow> True | _ \<Rightarrow> False)"

definition is_running :: "job option \<Rightarrow> bool" where
  "is_running x \<longleftrightarrow> (case x of None \<Rightarrow> False | Some j \<Rightarrow> job_status j = JobRunning)"

definition is_completed :: "job option \<Rightarrow> bool" where
  "is_completed x \<longleftrightarrow> (case x of None \<Rightarrow> False | Some j \<Rightarrow> job_status j = JobCompleted)"

text \<open>What the store holds for the job of a task.\<close>

definition task_ok :: "uuid \<Rightarrow> task \<Rightarrow> job option \<Rightarrow> bool" where
  "task_ok i t x \<longleftrightarrow>
     (case t of
        TaskSpawned \<Rightarrow> is_pending x
      | TaskClaiming \<Rightarrow> is_pending x
      | TaskClaimed j \<Rightarrow> job_id j = i \<and> is_running x
      | TaskCancelling j \<Rightarrow> job_id j = i \<and> is_running x
      | TaskProcessing j \<Rightarrow> job_id j = i \<and> is_running x
      | TaskCompleting j _ \<Rightarrow> job_id j = i \<and> is_running x
      | TaskFailing j _ \<Rightarrow> job_id j = i \<and> is_running x
      | TaskStopping \<Rightarrow> True
      | TaskDone \<Rightarrow> True
      | TaskPanicked \<Rightarrow> is_running x)"

definition result_ok :: "job_outcome \<Rightarrow> job option \<Rightarrow> bool" where
  "result_ok r x \<longleftrightarrow>
     \<not> JobOutcome_is_already_claimed r \<and> (JobOutcome_is_success r \<longleftrightarrow> is_completed x)"

definition report_starts :: "report list \<Rightarrow> uuid list" where
  "report_starts rs = concat (map (\<lambda>r. case r of RepJobStart j \<Rightarrow> [job_id j] | _ \<Rightarrow> []) rs)"

definition count_success :: "job_result list \<Rightarrow> nat" where
  "count_success rs = length (filter (\<lambda>r. JobOutcome_is_success (jres_outcome r)) rs)"

definition count_failure :: "job_result list \<Rightarrow> nat" where
  "count_failure rs = length (filter (\<lambda>r. JobOutcome_is_failure (jres_outcome r)) rs)"

lemmas outcome_defs = JobOutcome_is_success_def JobOutcome_is_failure_def
  JobOutcome_is_already_claimed_def JobResult_success_def JobResult_failure_def
  JobResult_already_claimed_def

text \<open>
  The effect of a step of a task: \<open>p\<close> and \<open>q\<close> are the pools before and after it, \<open>x\<close> what the
  store holds for the job afterwards.
\<close>

definition task_effect :: "uuid \<Rightarrow> task \<Rightarrow> task \<Rightarrow> 's pool \<Rightarrow> 's pool \<Rightarrow> job option \<Rightarrow> bool" where
  "task_effect i t t' p q x \<longleftrightarrow>
     task_ok i t' x
     \<and> (\<exists>rs. wp_results q = wp_results p @ rs
          \<and> (if task_reported t' \<and> \<not> task_reported t
             then \<exists>r. rs = [\<lparr>jres_job_id = i, jres_outcome = r\<rparr>] \<and> result_ok r x else rs = [])
          \<and> wp_completed q = wp_completed p + count_success rs
          \<and> wp_failed q = wp_failed p + count_failure rs)
     \<and> (\<exists>reps. wp_reports q = wp_reports p @ reps
          \<and> (report_starts reps = [] \<or> report_starts reps = [i] \<and> task_early t \<and> \<not> task_early t'))
     \<and> (task_early t' \<longrightarrow> task_early t) \<and> (task_reported t \<longrightarrow> task_reported t')"

lemma spawn_blocking_cases:
  assumes "spawn_blocking W i x f p = (r, q)"
  obtains e where "r = Inl e" "q = p"
  | y s where "r = Inr y" "f (wp_store p) = (y, s)" "q = p\<lparr>wp_store := s\<rparr>"
proof (cases "we_join W i x")
  case None
  obtain y s where "f (wp_store p) = (y, s)" by fastforce
  then show thesis using assms None that(2) [of y s] by (simp add: spawn_blocking_def)
next
  case (Some e)
  then show thesis using assms that(1) [of e] by (simp add: spawn_blocking_def)
qed

lemma record_job_update_cases:
  assumes "record_job_update W i x f p = (r, q)"
  obtains e where "r = Inl e" "q = p"
  | e e' s where "r = Inl e" "f (wp_store p) = (Inl e', s)" "q = p\<lparr>wp_store := s\<rparr>"
  | s where "r = Inr ()" "f (wp_store p) = (Inr (), s)" "q = p\<lparr>wp_store := s\<rparr>"
proof -
  obtain r0 q0 where sb: "spawn_blocking W i x f p = (r0, q0)" by fastforce
  then show thesis
  proof (cases rule: spawn_blocking_cases)
    case (1 e)
    then have "\<exists>e. r = Inl e" "q = p" using assms sb by (auto simp: record_job_update_def)
    then show thesis using that(1) by blast
  next
    case (2 y s)
    show thesis
    proof (cases y)
      case (Inl e')
      then have "\<exists>e. r = Inl e" "q = p\<lparr>wp_store := s\<rparr>"
        using 2 assms sb by (auto simp: record_job_update_def)
      then show thesis using that(2) 2(2) Inl by blast
    next
      case (Inr u)
      then show thesis using 2 assms sb that(3) [of s] by (simp add: record_job_update_def)
    qed
  qed
qed

lemma record_job_update_store:
  assumes "record_job_update W i x f p = (r, q)"
  obtains s where "q = p\<lparr>wp_store := s\<rparr>" "r = Inr () \<Longrightarrow> f (wp_store p) = (Inr (), s)"
    "r \<noteq> Inr () \<Longrightarrow> s = wp_store p \<or> (\<exists>e. f (wp_store p) = (Inl e, s))"
  using assms
proof (cases rule: record_job_update_cases)
  case (1 e)
  then show thesis using that [of "wp_store p"] by simp
next
  case (2 e e' s)
  then show thesis using that [of s] by simp
next
  case (3 s)
  then show thesis using that [of s] by simp
qed

lemma status_updates:
  "is_running x \<Longrightarrow> \<not> is_completed x" "is_pending x \<Longrightarrow> \<not> is_completed x"
  by (auto simp: is_running_def is_completed_def is_pending_def split: option.splits)

context job_store
begin

text \<open>A queue operation on one job touches the entry of that job only.\<close>

definition touches_only :: "uuid \<Rightarrow> 's \<Rightarrow> 's \<Rightarrow> bool" where
  "touches_only i s s' \<longleftrightarrow> ok s' \<and> (\<forall>k. k \<noteq> i \<longrightarrow> look s' k = look s k)"

lemma complete_effect:
  assumes "ok s" "JobQueue_complete S now i out s = (r, s')"
  shows "touches_only i s s' \<and> (case r of Inl _ \<Rightarrow> look s' i = look s i
    | Inr _ \<Rightarrow> is_running (look s i) \<longrightarrow> is_completed (look s' i))"
  using update_law [OF assms(1) assms(2) [unfolded JobQueue_complete_def]]
  by (auto simp: touches_only_def is_running_def is_completed_def apply_update_def
      JobUpdate_default_def split: sum.splits option.splits)

lemma fail_effect:
  assumes "ok s" "JobQueue_fail S now i e s = (r, s')"
  shows "touches_only i s s' \<and> (is_running (look s i) \<longrightarrow> \<not> is_completed (look s' i))"
  using update_law [OF assms(1) assms(2) [unfolded JobQueue_fail_def]]
  by (auto simp: touches_only_def is_running_def is_completed_def apply_update_def
      JobUpdate_default_def split: sum.splits option.splits)

lemma cancel_effect:
  assumes "ok s" "JobQueue_cancel S us now i s = (r, s')"
  shows "touches_only i s s' \<and> (\<not> is_completed (look s i) \<longrightarrow> \<not> is_completed (look s' i))"
proof -
  obtain q s1 where q: "js_job S i s = (q, s1)" by fastforce
  have s1: "ok s1" "look s1 = look s" using job_law [OF assms(1) q] by auto
  show ?thesis
  proof (cases "\<exists>j. q = Inr (Some j) \<and> (job_status j = JobPending \<or> job_status j = JobRunning)")
    case True
    then have "js_update_job S i (JobUpdate_default\<lparr>ju_status := Some JobCancelled,
        ju_completed_at := Some (Some now)\<rparr>) s1 = (r, s')"
      using assms(2) q by (auto simp: JobQueue_cancel_def)
    from update_law [OF s1(1) this] s1 show ?thesis
      by (auto simp: touches_only_def is_completed_def apply_update_def JobUpdate_default_def
          split: sum.splits option.splits)
  next
    case False
    then have "s' = s1" using assms(2) q
      by (auto simp: JobQueue_cancel_def split: sum.splits option.splits if_splits)
    then show ?thesis using s1 by (simp add: touches_only_def)
  qed
qed

lemma claim_effect:
  assumes "ok s" "JobQueue_claim_by_id S i w now s = (r, s')" "is_pending (look s i)"
  shows "touches_only i s s' \<and> (case r of Inl _ \<Rightarrow> look s' i = look s i
    | Inr None \<Rightarrow> False | Inr (Some j) \<Rightarrow> job_id j = i \<and> is_running (look s' i))"
proof -
  note law = claim_law [OF assms(1) assms(2) [unfolded JobQueue_claim_by_id_def]]
  obtain j where j: "look s i = Some j" "job_status j = JobPending"
    using assms(3) by (auto simp: is_pending_def split: option.splits)
  show ?thesis
  proof (cases r)
    case (Inl e)
    then show ?thesis using law by (simp add: touches_only_def)
  next
    case (Inr x)
    then show ?thesis using law j id_law [OF assms(1) j(1)]
      by (cases x) (auto simp: touches_only_def is_running_def claimed_job_def)
  qed
qed

end


text \<open>The effects of steps that do not touch the store, and of sending a result.\<close>

lemma report_starts_simps [simp]:
  "report_starts [] = []" "report_starts [RepJobStart j] = [job_id j]"
  "report_starts [RepJobComplete i b e] = []"
  by (simp_all add: report_starts_def)

lemma effect_silent:
  assumes "task_ok i t' x" "wp_results q = wp_results p" "wp_completed q = wp_completed p"
    "wp_failed q = wp_failed p" "wp_reports q = wp_reports p @ reps"
    "report_starts reps = [] \<or> report_starts reps = [i] \<and> task_early t \<and> \<not> task_early t'"
    "\<not> task_reported t'" "\<not> task_reported t" "task_early t' \<longrightarrow> task_early t"
  shows "task_effect i t t' p q x"
  unfolding task_effect_def using assms
  by (auto simp: count_success_def count_failure_def)

lemma effect_result:
  assumes "task_reported t'" "\<not> task_reported t"
    "wp_results q = wp_results p @ [\<lparr>jres_job_id = i, jres_outcome = r\<rparr>]" "result_ok r x"
    "wp_completed q = wp_completed p + (if JobOutcome_is_success r then 1 else 0)"
    "wp_failed q = wp_failed p + (if JobOutcome_is_failure r then 1 else 0)"
    "wp_reports q = wp_reports p @ reps" "report_starts reps = []"
  shows "task_effect i t t' p q x"
proof -
  have "task_ok i t' x" "\<not> task_early t'"
    using assms(1) by (auto simp: task_reported_def task_ok_def task_early_def)
  moreover have "count_success [\<lparr>jres_job_id = i, jres_outcome = r\<rparr>]
      = (if JobOutcome_is_success r then 1 else 0)"
    "count_failure [\<lparr>jres_job_id = i, jres_outcome = r\<rparr>]
      = (if JobOutcome_is_failure r then 1 else 0)"
    by (simp_all add: count_success_def count_failure_def)
  ultimately show ?thesis unfolding task_effect_def using assms by auto
qed

lemma effect_failure:
  assumes "task_reported t'" "\<not> task_reported t" "\<not> is_completed x" "report_starts reps = []"
    "wp_results q = wp_results p" "wp_completed q = wp_completed p" "wp_failed q = wp_failed p"
    "wp_reports q = wp_reports p @ reps"
  shows "task_effect i t t' p (send_failure i e q) x"
  by (rule effect_result [where r = "OutcomeFailure e" and reps = reps])
    (use assms in \<open>simp_all add: pool_ops outcome_defs result_ok_def\<close>)

context job_store
begin

definition pool_step_ok :: "uuid \<Rightarrow> task \<Rightarrow> task \<Rightarrow> 's pool \<Rightarrow> 's pool \<Rightarrow> bool" where
  "pool_step_ok i t t' p q \<longleftrightarrow> touches_only i (wp_store p) (wp_store q)
     \<and> task_effect i t t' p q (look (wp_store q) i)"

lemma claim_step_ok:
  assumes "we_store W = S" "ok (wp_store p)" "is_pending (look (wp_store p) i)"
    and step: "claim_step W i p = (t', q)"
  shows "pool_step_ok i TaskClaiming t' p q"
proof -
  let ?f = "JobQueue_claim_by_id S i (we_worker_id W i) (we_now W i ''claim'')"
  obtain r0 q0 where sb: "spawn_blocking W i ''claim'' ?f p = (r0, q0)" by fastforce
  then show ?thesis
  proof (cases rule: spawn_blocking_cases)
    case (1 e)
    then have "t' = TaskDone" "q = send_failure i (''task join error: '' @ e) p"
      using step sb assms(1) by (simp_all add: claim_step_def)
    then show ?thesis using assms(2,3) status_updates
      by (auto simp: pool_step_ok_def touches_only_def task_reported_def intro!: effect_failure)
        (simp_all add: pool_ops)
  next
    case (2 y s)
    note eff = claim_effect [OF assms(2) 2(2) assms(3)]
    show ?thesis
    proof (cases y)
      case (Inl e)
      then have q: "t' = TaskDone"
        "q = send_failure i (''failed to claim: '' @ VoomError_display e) (p\<lparr>wp_store := s\<rparr>)"
        using step sb assms(1) 2 by (simp_all add: claim_step_def)
      have "task_effect i TaskClaiming t' p q (look s i)"
        unfolding q by (rule effect_failure [where reps = "[]"])
          (use eff Inl assms(3) status_updates in \<open>auto simp: task_reported_def\<close>)
      then show ?thesis using eff q by (simp add: pool_step_ok_def pool_ops)
    next
      case (Inr x)
      then obtain j where j: "x = Some j" "job_id j = i" "is_running (look s i)"
        using eff by (cases x) auto
      then have q: "t' = TaskClaimed j" "q = p\<lparr>wp_store := s\<rparr>"
        using step sb assms(1) 2 Inr by (simp_all add: claim_step_def)
      have "task_effect i TaskClaiming t' p q (look s i)"
        unfolding q by (rule effect_silent [where reps = "[]"])
          (use j in \<open>simp_all add: task_reported_def task_ok_def task_early_def\<close>)
      then show ?thesis using eff q by (simp add: pool_step_ok_def)
    qed
  qed
qed

lemma cancel_step_ok:
  assumes "we_store W = S" "ok (wp_store p)" "is_running (look (wp_store p) (job_id j))"
    and step: "cancel_step W j p = (t', q)"
  shows "pool_step_ok (job_id j) (TaskCancelling j) t' p q"
proof -
  let ?i = "job_id j"
  let ?f = "JobQueue_cancel S (we_uuid_str W) (we_now W ?i ''cancel'') ?i"
  obtain r0 q0 where rj: "record_job_update W ?i ''mark job as cancelled'' ?f p = (r0, q0)"
    by fastforce
  obtain s where s0: "q0 = p\<lparr>wp_store := s\<rparr>" "s = wp_store p \<or> (\<exists>y. ?f (wp_store p) = (y, s))"
    using record_job_update_store [OF rj] by metis
  have s: "q0 = p\<lparr>wp_store := s\<rparr>" "touches_only ?i (wp_store p) s" "\<not> is_completed (look s ?i)"
    using s0 assms(2,3) status_updates(1) [OF assms(3)]
    by (auto simp: touches_only_def dest!: cancel_effect [OF assms(2)])
  obtain e where q: "t' = TaskDone" "q = send_failure ?i e q0"
    using step rj assms(1) by (cases r0) (auto simp: cancel_step_def)
  have "task_effect ?i (TaskCancelling j) t' p q (look s ?i)"
    unfolding q s(1) by (rule effect_failure [where reps = "[]"])
      (use s(3) in \<open>simp_all add: task_reported_def\<close>)
  then show ?thesis using s q by (simp add: pool_step_ok_def pool_ops)
qed

lemma complete_step_ok:
  assumes "we_store W = S" "ok (wp_store p)" "is_running (look (wp_store p) (job_id j))"
    and step: "complete_step W j out p = (t', q)"
  shows "pool_step_ok (job_id j) (TaskCompleting j out) t' p q"
proof -
  let ?i = "job_id j"
  let ?f = "JobQueue_complete S (we_now W ?i ''complete'') ?i out"
  obtain r0 q0 where rj: "record_job_update W ?i ''mark job as complete'' ?f p = (r0, q0)"
    by fastforce
  show ?thesis
  proof (cases r0)
    case (Inl e)
    obtain s where s0: "q0 = p\<lparr>wp_store := s\<rparr>"
        "s = wp_store p \<or> (\<exists>e. ?f (wp_store p) = (Inl e, s))"
      using record_job_update_store [OF rj] Inl by (metis sum.distinct(1))
    have s: "q0 = p\<lparr>wp_store := s\<rparr>" "touches_only ?i (wp_store p) s" "\<not> is_completed (look s ?i)"
      using s0 complete_effect [OF assms(2)] assms(2,3) status_updates
      by (fastforce simp: touches_only_def)+
    have q: "t' = TaskDone" "q = send_failure ?i e (pool_report (RepJobComplete ?i False (Some e)) q0)"
      using step rj assms(1) Inl by (auto simp: complete_step_def Let_def)
    have "task_effect ?i (TaskCompleting j out) t' p q (look s ?i)"
      unfolding q s(1) by (rule effect_failure [where reps = "[RepJobComplete ?i False (Some e)]"])
        (use s(3) in \<open>simp_all add: task_reported_def pool_report_def\<close>)
    then show ?thesis using s q by (simp add: pool_step_ok_def pool_ops)
  next
    case (Inr u)
    obtain s where s0: "q0 = p\<lparr>wp_store := s\<rparr>" "?f (wp_store p) = (Inr (), s)"
      by (rule record_job_update_store [OF rj]) (auto simp: Inr)
    then have s: "q0 = p\<lparr>wp_store := s\<rparr>" "touches_only ?i (wp_store p) s"
        "is_completed (look s ?i)"
      using complete_effect [OF assms(2) s0(2)] assms(3) by auto
    have q: "t' = TaskDone" "q = pool_send (JobResult_success ?i)
        (pool_report (RepJobComplete ?i True None) (q0\<lparr>wp_completed := wp_completed q0 + 1\<rparr>))"
      using step rj assms(1) Inr by (auto simp: complete_step_def Let_def)
    have "task_effect ?i (TaskCompleting j out) t' p q (look s ?i)"
      unfolding q s(1)
      by (rule effect_result [where r = OutcomeSuccess and reps = "[RepJobComplete ?i True None]"])
        (use s(3) in \<open>simp_all add: task_reported_def pool_ops outcome_defs result_ok_def\<close>)
    then show ?thesis using s q by (simp add: pool_step_ok_def pool_ops)
  qed
qed

lemma fail_step_ok:
  assumes "we_store W = S" "ok (wp_store p)" "is_running (look (wp_store p) (job_id j))"
    and step: "fail_step W j err p = (t', q)"
  shows "pool_step_ok (job_id j) (TaskFailing j err) t' p q"
proof -
  let ?i = "job_id j"
  let ?f = "JobQueue_fail S (we_now W ?i ''fail'') ?i err"
  obtain r0 q0 where rj: "record_job_update W ?i ''mark job as failed'' ?f p = (r0, q0)"
    by fastforce
  obtain s where s0: "q0 = p\<lparr>wp_store := s\<rparr>" "s = wp_store p \<or> (\<exists>y. ?f (wp_store p) = (y, s))"
    using record_job_update_store [OF rj] by metis
  have s: "q0 = p\<lparr>wp_store := s\<rparr>" "touches_only ?i (wp_store p) s" "\<not> is_completed (look s ?i)"
    using s0 assms(2,3) status_updates(1) [OF assms(3)]
    by (auto simp: touches_only_def dest!: fail_effect [OF assms(2)])
  obtain e where q: "task_reported t'"
      "q = send_failure ?i e (pool_report (RepJobComplete ?i False (Some err)) q0)"
    using step rj assms(1) by (auto simp: fail_step_def task_reported_def Let_def)
  have "task_effect ?i (TaskFailing j err) t' p q (look s ?i)"
    unfolding q(2) s(1) by (rule effect_failure [where reps = "[RepJobComplete ?i False (Some err)]"])
      (use s(3) q(1) in \<open>simp_all add: task_reported_def pool_report_def\<close>)
  then show ?thesis using s q by (simp add: pool_step_ok_def pool_ops)
qed

lemma task_step_ok:
  assumes W: "we_store W = S" and ok: "ok (wp_store p)" and t: "task_ok i t (look (wp_store p) i)"
    and step: "task_step W i t p = Some (t', q)"
  shows "pool_step_ok i t t' p q"
proof (cases t)
  case TaskSpawned
  have pending: "is_pending (look (wp_store p) i)" using t TaskSpawned by (simp add: task_ok_def)
  show ?thesis
  proof (cases "wp_cancelled p")
    case True
    then have q: "t' = TaskDone" "q = send_failure i ''cancelled'' p"
      using step TaskSpawned by (simp_all add: task_step_def)
    have "task_effect i t t' p q (look (wp_store p) i)"
      unfolding q by (rule effect_failure [where reps = "[]"])
        (use pending status_updates TaskSpawned in \<open>simp_all add: task_reported_def\<close>)
    then show ?thesis using q ok by (simp add: pool_step_ok_def touches_only_def pool_ops)
  next
    case False
    then have q: "t' = TaskClaiming" "q = p" using step TaskSpawned by (simp_all add: task_step_def)
    have "task_effect i t t' p q (look (wp_store p) i)"
      unfolding q by (rule effect_silent [where reps = "[]"])
        (use pending TaskSpawned in \<open>simp_all add: task_reported_def task_ok_def task_early_def\<close>)
    then show ?thesis using q ok by (simp add: pool_step_ok_def touches_only_def)
  qed
next
  case (TaskClaimed j)
  then have q: "t' = TaskCancelling j \<and> q = p
      \<or> t' = TaskProcessing j \<and> q = pool_report (RepJobStart j) p"
    using step by (auto simp: task_step_def split: if_splits)
  have "task_effect i t t' p q (look (wp_store p) i)"
    by (rule effect_silent [where reps = "if t' = TaskProcessing j then [RepJobStart j] else []"])
      (use q TaskClaimed t in \<open>auto simp: task_reported_def task_ok_def task_early_def pool_ops\<close>)
  then show ?thesis using q ok by (auto simp: pool_step_ok_def touches_only_def pool_ops)
next
  case (TaskProcessing j)
  then have q: "q = p" "\<not> task_reported t'" "\<not> task_early t'" "task_ok i t' (look (wp_store p) i)"
    using step t
    by (auto simp: task_step_def task_reported_def task_early_def task_ok_def
        split: proc_result.splits)
  have "task_effect i t t' p q (look (wp_store p) i)"
    by (rule effect_silent [where reps = "[]"])
      (use q TaskProcessing in \<open>simp_all add: task_reported_def\<close>)
  then show ?thesis using q ok by (simp add: pool_step_ok_def touches_only_def)
next
  case TaskStopping
  then have "t' = TaskDone" "q = pool_cancel p" using step by (simp_all add: task_step_def)
  then show ?thesis using ok TaskStopping
    by (simp add: pool_step_ok_def touches_only_def task_effect_def task_ok_def task_reported_def
        task_early_def pool_cancel_def count_success_def count_failure_def)
next
  case TaskClaiming
  then show ?thesis using step t claim_step_ok [OF W ok] by (simp add: task_step_def task_ok_def)
next
  case (TaskCancelling j)
  then show ?thesis using step t cancel_step_ok [OF W ok, of j]
    by (auto simp: task_step_def task_ok_def)
next
  case (TaskCompleting j out)
  then show ?thesis using step t complete_step_ok [OF W ok, of j]
    by (auto simp: task_step_def task_ok_def)
next
  case (TaskFailing j e)
  then show ?thesis using step t fail_step_ok [OF W ok, of j]
    by (auto simp: task_step_def task_ok_def)
qed (use step in \<open>simp_all add: task_step_def\<close>)

end


section \<open>The invariant of a batch\<close>

abbreviation reported_ids :: "(uuid \<times> task) list \<Rightarrow> uuid list" where
  "reported_ids ts \<equiv> map fst (filter (\<lambda>(_, t). task_reported t) ts)"

lemma reported_ids_update:
  assumes "k < length ts" "ts ! k = (i, t)" "task_reported t \<longrightarrow> task_reported t'"
  shows "mset (reported_ids (ts[k := (i, t')])) = mset (reported_ids ts)
    + (if task_reported t' \<and> \<not> task_reported t then {#i#} else {#})"
proof -
  have "mset ts = add_mset (i, t) (mset ts - {#(i, t)#})"
    using assms(1,2) by (metis insert_DiffM nth_mem set_mset_mset)
  then obtain M where "mset ts = add_mset (i, t) M" by blast
  moreover have "mset (ts[k := (i, t')]) = add_mset (i, t') (mset ts - {#(i, t)#})"
    using mset_update [OF assms(1)] assms(2) by simp
  ultimately show ?thesis using assms(3) by (simp add: mset_filter)
qed

lemma map_fst_update:
  assumes "k < length ts" "ts ! k = (i, t)"
  shows "map fst (ts[k := (i, t')]) = map fst ts"
  using assms by (metis fst_conv list_update_id map_update nth_map)

lemma count_append [simp]:
  "count_success (xs @ ys) = count_success xs + count_success ys"
  "count_failure (xs @ ys) = count_failure xs + count_failure ys"
  by (simp_all add: count_success_def count_failure_def)

lemma report_starts_append [simp]: "report_starts (xs @ ys) = report_starts xs @ report_starts ys"
  by (simp add: report_starts_def)

text \<open>
  What a batch has reported so far: \<open>fs\<close> are the failures to enqueue, \<open>p0\<close> is the pool that the
  batch began with, \<open>x\<close> the contents of the store.
\<close>

definition batch_reports_ok ::
  "job_result list \<Rightarrow> 's pool \<Rightarrow> (uuid \<Rightarrow> job option) \<Rightarrow> 's batch \<Rightarrow> bool" where
  "batch_reports_ok fs p0 x b \<longleftrightarrow>
     (\<exists>rs. wp_results (bt_pool b) = fs @ rs
        \<and> mset (map jres_job_id rs) = mset (reported_ids (bt_tasks b))
        \<and> (\<forall>r \<in> set rs. result_ok (jres_outcome r) (x (jres_job_id r))))
     \<and> wp_completed (bt_pool b) = wp_completed p0 + count_success (wp_results (bt_pool b))
     \<and> wp_failed (bt_pool b) = wp_failed p0 + count_failure (wp_results (bt_pool b))
     \<and> (\<exists>reps. wp_reports (bt_pool b) = wp_reports p0 @ reps
        \<and> distinct (report_starts reps)
        \<and> (\<forall>i \<in> set (report_starts reps). \<exists>t. (i, t) \<in> set (bt_tasks b) \<and> \<not> task_early t))"

lemma reports_ok_spawn:
  assumes "batch_reports_ok fs p0 x b" "\<not> task_reported t"
  shows "batch_reports_ok fs p0 x (b\<lparr>bt_queue := rest, bt_tasks := bt_tasks b @ [(i, t)]\<rparr>)"
proof -
  obtain rs reps where rs: "wp_results (bt_pool b) = fs @ rs"
      "mset (map jres_job_id rs) = mset (reported_ids (bt_tasks b))"
      "\<forall>r \<in> set rs. result_ok (jres_outcome r) (x (jres_job_id r))"
    and reps: "wp_reports (bt_pool b) = wp_reports p0 @ reps" "distinct (report_starts reps)"
      "\<forall>i \<in> set (report_starts reps). \<exists>t. (i, t) \<in> set (bt_tasks b) \<and> \<not> task_early t"
    using assms(1) unfolding batch_reports_ok_def by blast
  have "\<forall>j \<in> set (report_starts reps).
      \<exists>t2. (j, t2) \<in> set (bt_tasks b @ [(i, t)]) \<and> \<not> task_early t2"
    using reps(3) by fastforce
  then show ?thesis using assms rs reps(1,2) unfolding batch_reports_ok_def
    by (intro conjI exI [where x = rs] exI [where x = reps]) simp_all
qed

lemma reports_ok_sweep:
  assumes "batch_reports_ok fs p0 x b" "\<And>i. i \<in> fst ` set (bt_tasks b) \<Longrightarrow> y i = x i"
  shows "batch_reports_ok fs p0 y
    (b\<lparr>bt_unstarted := us, bt_pool := (bt_pool b)\<lparr>wp_store := s\<rparr>\<rparr>)"
proof -
  obtain rs where rs: "wp_results (bt_pool b) = fs @ rs"
      "mset (map jres_job_id rs) = mset (reported_ids (bt_tasks b))"
      "\<And>r. r \<in> set rs \<Longrightarrow> result_ok (jres_outcome r) (x (jres_job_id r))"
    using assms(1) unfolding batch_reports_ok_def by blast
  have "result_ok (jres_outcome r) (y (jres_job_id r))" if r: "r \<in> set rs" for r
  proof -
    have "jres_job_id r \<in># mset (reported_ids (bt_tasks b))"
      using rs(2) r by (metis image_eqI list.set_map set_mset_mset)
    then have "jres_job_id r \<in> fst ` set (bt_tasks b)" by auto
    then show ?thesis using assms(2) rs(3) [OF r] by simp
  qed
  then show ?thesis using assms(1) rs(1,2) unfolding batch_reports_ok_def
    by (intro conjI exI [where x = rs]) simp_all
qed

context job_store
begin

definition batch_inv :: "job_result list \<Rightarrow> 's pool \<Rightarrow> 's batch \<Rightarrow> bool" where
  "batch_inv fs p0 b \<longleftrightarrow>
     ok (wp_store (bt_pool b))
     \<and> distinct (map fst (bt_tasks b) @ bt_queue b @ bt_unstarted b)
     \<and> (\<forall>i \<in> set (bt_queue b @ bt_unstarted b). is_pending (look (wp_store (bt_pool b)) i))
     \<and> (\<forall>(i, t) \<in> set (bt_tasks b). task_ok i t (look (wp_store (bt_pool b)) i))
     \<and> batch_reports_ok fs p0 (look (wp_store (bt_pool b))) b"

lemma reports_ok_run:
  assumes rep: "batch_reports_ok fs p0 (look (wp_store (bt_pool b))) b"
    and dist: "distinct (map fst (bt_tasks b))"
    and k: "k < length (bt_tasks b)" "bt_tasks b ! k = (i, t)"
    and step: "pool_step_ok i t t' (bt_pool b) p"
    and same: "task_reported t \<longrightarrow> wp_store p = wp_store (bt_pool b)"
  shows "batch_reports_ok fs p0 (look (wp_store p))
    (b\<lparr>bt_tasks := (bt_tasks b)[k := (i, t')], bt_pool := p\<rparr>)"
proof -
  let ?ts = "bt_tasks b" and ?us = "(bt_tasks b)[k := (i, t')]" and ?s = "wp_store (bt_pool b)"
  obtain rs reps where old: "wp_results (bt_pool b) = fs @ rs"
      "mset (map jres_job_id rs) = mset (reported_ids ?ts)"
      "\<And>r. r \<in> set rs \<Longrightarrow> result_ok (jres_outcome r) (look ?s (jres_job_id r))"
      "wp_completed (bt_pool b) = wp_completed p0 + count_success (wp_results (bt_pool b))"
      "wp_failed (bt_pool b) = wp_failed p0 + count_failure (wp_results (bt_pool b))"
    and oldr: "wp_reports (bt_pool b) = wp_reports p0 @ reps" "distinct (report_starts reps)"
      "\<And>i. i \<in> set (report_starts reps) \<Longrightarrow> \<exists>t. (i, t) \<in> set ?ts \<and> \<not> task_early t"
    using rep unfolding batch_reports_ok_def by blast
  obtain ns nreps where new: "wp_results p = wp_results (bt_pool b) @ ns"
      "if task_reported t' \<and> \<not> task_reported t
       then \<exists>r. ns = [\<lparr>jres_job_id = i, jres_outcome = r\<rparr>] \<and> result_ok r (look (wp_store p) i)
       else ns = []"
      "wp_completed p = wp_completed (bt_pool b) + count_success ns"
      "wp_failed p = wp_failed (bt_pool b) + count_failure ns"
    and newr: "wp_reports p = wp_reports (bt_pool b) @ nreps"
      "report_starts nreps = [] \<or> report_starts nreps = [i] \<and> task_early t \<and> \<not> task_early t'"
      "task_early t' \<longrightarrow> task_early t" "task_reported t \<longrightarrow> task_reported t'"
    using step unfolding pool_step_ok_def task_effect_def by blast
  have only: "t2 = t" if "(i, t2) \<in> set ?ts" for t2
    using that k dist by (metis eq_key_imp_eq_value nth_mem)
  have frame: "look (wp_store p) j = look ?s j" if "j \<noteq> i" for j
    using that step by (simp add: pool_step_ok_def touches_only_def)
  have mem: "(j, t2) \<in> set ?us" if "(j, t2) \<in> set ?ts" "j \<noteq> i" for j t2
    using that k by (metis fst_conv in_set_conv_nth length_list_update nth_list_update_neq)
  have here: "(i, t') \<in> set ?us" using k(1) by (simp add: set_update_memI)
  have ids: "mset (map jres_job_id (rs @ ns)) = mset (reported_ids ?us)"
    using old(2) new(2) reported_ids_update [OF k newr(4)] by (auto split: if_splits)
  have res: "result_ok (jres_outcome r) (look (wp_store p) (jres_job_id r))"
    if r: "r \<in> set (rs @ ns)" for r
  proof (cases "r \<in> set ns")
    case True
    then show ?thesis using new(2) by (auto split: if_splits)
  next
    case False
    then have r: "r \<in> set rs" using r by simp
    then have "jres_job_id r \<in># mset (reported_ids ?ts)"
      using old(2) by (metis image_eqI list.set_map set_mset_mset)
    then obtain t2 where t2: "(jres_job_id r, t2) \<in> set ?ts" "task_reported t2" by auto
    show ?thesis
    proof (cases "jres_job_id r = i")
      case True
      then have "task_reported t" using t2 only by blast
      then show ?thesis using old(3) [OF r] same by simp
    next
      case False
      then show ?thesis using old(3) [OF r] frame by simp
    qed
  qed
  have starts: "distinct (report_starts (reps @ nreps))
      \<and> (\<forall>j \<in> set (report_starts (reps @ nreps)). \<exists>t2. (j, t2) \<in> set ?us \<and> \<not> task_early t2)"
  proof -
    have keep: "\<exists>t2. (j, t2) \<in> set ?us \<and> \<not> task_early t2" if "j \<in> set (report_starts reps)" for j
    proof -
      obtain t2 where t2: "(j, t2) \<in> set ?ts" "\<not> task_early t2" using oldr(3) \<open>j \<in> _\<close> by blast
      then show ?thesis using mem only newr(3) here by (cases "j = i") auto
    qed
    show ?thesis
    proof (cases "report_starts nreps = []")
      case False
      then have "report_starts nreps = [i]" "task_early t" "\<not> task_early t'" using newr(2) by auto
      moreover have "i \<notin> set (report_starts reps)" using oldr(3) [of i] only \<open>task_early t\<close> by blast
      ultimately show ?thesis using oldr(2) keep here by auto
    qed (use oldr(2) keep in simp)
  qed
  show ?thesis unfolding batch_reports_ok_def
    using ids res starts old new(1,3,4) oldr(1) newr(1)
    by (auto intro!: exI [where x = "rs @ ns"] exI [where x = "reps @ nreps"])
qed

lemma batch_inv_run:
  assumes W: "we_store W = S" and inv: "batch_inv fs p0 b"
    and k: "k < length (bt_tasks b)" "bt_tasks b ! k = (i, t)"
    and step: "task_step W i t (bt_pool b) = Some (t', p)"
  shows "batch_inv fs p0 (b\<lparr>bt_tasks := (bt_tasks b)[k := (i, t')], bt_pool := p\<rparr>)"
proof -
  let ?us = "(bt_tasks b)[k := (i, t')]" and ?s = "wp_store (bt_pool b)"
  have mem: "(i, t) \<in> set (bt_tasks b)" using k nth_mem by force
  have ok: "ok ?s" and dist: "distinct (map fst (bt_tasks b) @ bt_queue b @ bt_unstarted b)"
    using inv by (simp_all add: batch_inv_def)
  have "task_ok i t (look ?s i)" using inv mem by (auto simp: batch_inv_def)
  then have eff: "pool_step_ok i t t' (bt_pool b) p" by (rule task_step_ok [OF W ok _ step])
  then have frame: "ok (wp_store p)" "\<And>j. j \<noteq> i \<Longrightarrow> look (wp_store p) j = look ?s j"
    and t': "task_ok i t' (look (wp_store p) i)"
    by (auto simp: pool_step_ok_def touches_only_def task_effect_def)
  have "task_reported t \<longrightarrow> wp_store p = ?s"
    using step by (auto simp: task_step_def task_reported_def pool_cancel_def)
  then have "batch_reports_ok fs p0 (look (wp_store p)) (b\<lparr>bt_tasks := ?us, bt_pool := p\<rparr>)"
    using inv dist k eff by (intro reports_ok_run) (auto simp: batch_inv_def)
  moreover have "task_ok j t2 (look (wp_store p) j)" if j: "(j, t2) \<in> set ?us" for j t2
  proof (cases "j = i")
    case True
    have "distinct (map fst ?us)" using dist map_fst_update [OF k] by simp
    then have "t2 = t'" using j True k(1) by (meson eq_key_imp_eq_value set_update_memI)
    then show ?thesis using t' True by simp
  next
    case False
    then have "(j, t2) \<in> set (bt_tasks b)" using j set_update_subset_insert [of "bt_tasks b" k] by blast
    then show ?thesis using inv False frame by (auto simp: batch_inv_def)
  qed
  moreover have "i \<notin> set (bt_queue b @ bt_unstarted b)"
    using dist mem by (metis IntI distinct_append empty_iff fst_conv image_eqI set_map)
  then have "\<forall>j \<in> set (bt_queue b @ bt_unstarted b). is_pending (look (wp_store p) j)"
    using inv frame(2) unfolding batch_inv_def by metis
  ultimately show ?thesis using dist frame(1) map_fst_update [OF k]
    by (auto simp: batch_inv_def)
qed

lemma sweep_step_frame:
  assumes "we_store W = S" "ok (wp_store p)" "sweep_step W i rest p = (us, q)"
  shows "\<exists>s. q = p\<lparr>wp_store := s\<rparr> \<and> touches_only i (wp_store p) s \<and> (us = [] \<or> us = rest)"
proof -
  let ?f = "JobQueue_cancel S (we_uuid_str W) (we_now W i ''sweep'') i"
  obtain r0 q0 where sb: "spawn_blocking W i ''sweep'' ?f p = (r0, q0)" by fastforce
  then show ?thesis
  proof (cases rule: spawn_blocking_cases)
    case (1 e)
    then have "q = p\<lparr>wp_store := wp_store p\<rparr>" "us = []"
      using sb assms(1,3) by (auto simp: sweep_step_def)
    then show ?thesis using assms(2)
      by (intro exI [where x = "wp_store p"]) (simp add: touches_only_def)
  next
    case (2 y s)
    then have "q = p\<lparr>wp_store := s\<rparr>" "us = rest" using sb assms(1,3) by (auto simp: sweep_step_def)
    then show ?thesis using cancel_effect [OF assms(2) 2(2)] by auto
  qed
qed

lemma batch_inv_step:
  assumes W: "we_store W = S" and inv: "batch_inv fs p0 b" and step: "batch_step W b b'"
  shows "batch_inv fs p0 b'"
  using step
proof cases
  case (spawn i rest)
  have "batch_reports_ok fs p0 (look (wp_store (bt_pool b))) b'"
    unfolding spawn(1) using inv
    by (intro reports_ok_spawn) (simp_all add: batch_inv_def task_reported_def)
  moreover have "task_ok i TaskSpawned (look (wp_store (bt_pool b)) i)"
    using inv spawn by (simp add: batch_inv_def task_ok_def)
  ultimately show ?thesis using inv spawn by (auto simp: batch_inv_def)
next
  case (stop i rest)
  then show ?thesis using inv by (auto simp: batch_inv_def batch_reports_ok_def)
next
  case (sweep i rest us p)
  have ok: "ok (wp_store (bt_pool b))" using inv by (simp add: batch_inv_def)
  obtain s where s: "p = (bt_pool b)\<lparr>wp_store := s\<rparr>" "touches_only i (wp_store (bt_pool b)) s"
      "us = [] \<or> us = rest"
    using sweep_step_frame [OF W ok sweep(4)] by blast
  have same: "look s j = look (wp_store (bt_pool b)) j" if "j \<noteq> i" for j
    using s(2) that by (simp add: touches_only_def)
  have i: "i \<notin> set rest" "i \<notin> fst ` set (bt_tasks b)" using inv sweep by (auto simp: batch_inv_def)
  have "\<forall>(j, t) \<in> set (bt_tasks b). task_ok j t (look s j)"
    using inv i(2) same by (force simp: batch_inv_def)
  moreover have "\<forall>j \<in> set us. is_pending (look s j)"
    using inv i(1) same s(3) sweep by (auto simp: batch_inv_def) (metis)+
  moreover have "batch_reports_ok fs p0 (look s) (b\<lparr>bt_unstarted := us, bt_pool := p\<rparr>)"
    unfolding s(1)
  proof (rule reports_ok_sweep)
    show "batch_reports_ok fs p0 (look (wp_store (bt_pool b))) b" using inv by (simp add: batch_inv_def)
    show "look s j = look (wp_store (bt_pool b)) j" if "j \<in> fst ` set (bt_tasks b)" for j
      using that i(2) by (intro same) blast
  qed
  ultimately show ?thesis using inv sweep s by (auto simp: batch_inv_def touches_only_def)
next
  case (run k i t t' p)
  then show ?thesis using batch_inv_run [OF W inv] by blast
next
  case cancel
  then show ?thesis using inv by (auto simp: batch_inv_def batch_reports_ok_def pool_cancel_def)
qed

end

text \<open>Enqueuing keeps the invariant of what is to become the queue of a batch.\<close>

context job_store
begin

definition enqueue_inv :: "'s pool \<Rightarrow> uuid list \<times> 's pool \<Rightarrow> bool" where
  "enqueue_inv p0 x \<longleftrightarrow>
     (case x of (ids, p) \<Rightarrow>
        ok (wp_store p) \<and> distinct ids \<and> (\<forall>i \<in> set ids. is_pending (look (wp_store p) i))
        \<and> list_all (\<lambda>r. JobOutcome_is_failure (jres_outcome r)) (wp_results p)
        \<and> wp_completed p = wp_completed p0
        \<and> wp_failed p = wp_failed p0 + count_failure (wp_results p)
        \<and> wp_reports p = wp_reports p0 \<and> wp_cancelled p = wp_cancelled p0)"

lemma enqueue_inv_failure:
  assumes "enqueue_inv p0 (ids, p)" "ok s" "look s = look (wp_store p)"
  shows "enqueue_inv p0 (ids, send_failure i e (p\<lparr>wp_store := s\<rparr>))"
  using assms by (simp add: enqueue_inv_def pool_ops outcome_defs count_failure_def)

lemma enqueue_inv_item:
  assumes W: "we_store W = S" and inv: "enqueue_inv p0 x"
  shows "enqueue_inv p0 (enqueue_item W to_value item x)"
proof -
  obtain m fresh it ids p where x: "item = (m, fresh, it)" "x = (ids, p)"
    by (cases item, cases x) auto
  have ok: "ok (wp_store p)" using inv x by (simp add: enqueue_inv_def)
  show ?thesis
  proof (cases "opt_result to_value (wi_payload it)")
    case (Inl e)
    then show ?thesis using x inv ok enqueue_inv_failure [of p0 ids p "wp_store p"]
      by (simp add: enqueue_item_def)
  next
    case (Inr payload)
    let ?j = "(Job_new m (wi_job_type it))\<lparr>job_priority := wi_priority it, job_payload := payload\<rparr>"
    obtain r s where c: "js_create_job S ?j (wp_store p) = (r, s)" by fastforce
    note law = create_law [OF ok c]
    show ?thesis
    proof (cases r)
      case (Inl e)
      then show ?thesis using law x Inr c W inv enqueue_inv_failure [of p0 ids p s]
        by (simp add: enqueue_item_def JobQueue_enqueue_def)
    next
      case (Inr i)
      have "is_pending (Some (stored_job ?j))"
        by (simp add: is_pending_def stored_job_def Job_new_def)
      moreover have "i \<notin> set ids"
        using law Inr inv x by (auto simp: enqueue_inv_def is_pending_def)
      ultimately have "enqueue_inv p0 (ids @ [i], p\<lparr>wp_store := s\<rparr>)"
        using law Inr inv x by (auto simp: enqueue_inv_def)
      then show ?thesis using x Inr \<open>opt_result to_value (wi_payload it) = Inr payload\<close> c W
        by (simp add: enqueue_item_def JobQueue_enqueue_def)
    qed
  qed
qed

lemma enqueue_inv_items:
  assumes "we_store W = S" "enqueue_inv p0 x"
  shows "enqueue_inv p0 (fold (enqueue_item W to_value) items x)"
  using assms(2) by (induction items arbitrary: x) (simp_all add: enqueue_inv_item [OF assms(1)])

lemma batch_inv_start:
  assumes "we_store W = S" "ok (wp_store p)"
  obtains fs where "list_all (\<lambda>r. JobOutcome_is_failure (jres_outcome r)) fs"
    "batch_inv fs p (batch_start W to_value items p)"
proof -
  obtain ids q where f: "fold (enqueue_item W to_value) items ([], p\<lparr>wp_results := []\<rparr>) = (ids, q)"
    by fastforce
  have "enqueue_inv p ([], p\<lparr>wp_results := []\<rparr>)"
    using assms(2) by (simp add: enqueue_inv_def count_failure_def)
  from enqueue_inv_items [OF assms(1) this, of to_value items]
  have inv: "enqueue_inv p (ids, q)" by (simp only: f)
  then have fails: "list_all (\<lambda>r. JobOutcome_is_failure (jres_outcome r)) (wp_results q)"
    by (simp add: enqueue_inv_def)
  then have "count_success (wp_results q) = 0"
    by (auto simp: count_success_def filter_empty_conv list_all_iff outcome_defs
        split: job_outcome.splits)
  then have "batch_inv (wp_results q) p (batch_start W to_value items p)"
    using inv
    by (auto simp: batch_inv_def batch_start_def f enqueue_inv_def batch_reports_ok_def
        pool_report_def report_starts_def)
  then show thesis using fails that by blast
qed

lemma batch_inv_reachable:
  assumes "we_store W = S" "batch_inv fs p0 b" "(batch_step W)\<^sup>*\<^sup>* b b'"
  shows "batch_inv fs p0 b'"
  using assms(3) by (induction rule: rtranclp_induct) (auto intro: batch_inv_step assms(1,2))

end


end
