(* ===== verification/Job_Props.thy ===== *)
theory Job_Props
  imports Worker_Pool_Correct
begin

text \<open>
  The properties of background jobs: the order of claims, that no job is handed out twice, what
  pruning deletes, and what every run of a batch of jobs does.
\<close>

section \<open>Statements without faults\<close>

lemma db_fault_free: "jd_faults d = [] \<Longrightarrow> db_fault d = (None, d)"
  by (simp add: db_fault.simps)

lemma db_conn_free: "jd_faults d = [] \<Longrightarrow> db_conn d = (Inr (), d)"
  by (simp add: db_conn_def db_fault_free)

lemma db_conn_bind_free: "jd_faults d = [] \<Longrightarrow> db_bind db_conn g d = g () d"
  by (simp add: db_bind_def db_conn_free)

lemma db_execute_free:
  "jd_faults d = [] \<Longrightarrow> db_execute msg f d =
     (case f (jd_rows d) of Inl e \<Rightarrow> (Inl (storage_err msg e), d)
      | Inr (rows, x) \<Rightarrow> (Inr x, d\<lparr>jd_rows := rows\<rparr>))"
  by (simp add: db_execute_def db_fault_free)

lemma db_query_free:
  "jd_faults d = [] \<Longrightarrow> db_query msg f d =
     (case f (jd_rows d) of Inl e \<Rightarrow> (Inl (storage_err msg e), d) | Inr x \<Rightarrow> (Inr x, d))"
  by (simp add: db_query_def db_execute_free split: sum.split)

lemma db_transaction_free:
  assumes "jd_faults d = []" "body d = (Inr x, d')" "jd_faults d' = []"
  shows "db_transaction msg body d = (Inr x, d')"
  using assms by (simp add: db_transaction_def db_bind_def db_execute_free db_return_def)

lemma db_transaction_returns:
  assumes "jd_faults d = []" "\<exists>x d'. body d = (Inr x, d') \<and> jd_faults d' = []"
  shows "\<exists>x d'. db_transaction msg body d = (Inr x, d')"
proof -
  obtain x d' where b: "body d = (Inr x, d')" "jd_faults d' = []" using assms(2) by blast
  have "db_transaction msg body d = (Inr x, d')"
    by (rule db_transaction_free [where body = body]) (rule assms(1) b)+
  then show ?thesis by blast
qed

lemmas db_free = db_conn_free db_execute_free db_query_free

section \<open>Claims\<close>

lemma claim_next_returns:
  assumes "db_ok d" "jd_faults d = []"
  shows "\<exists>x d'. claim_next_job worker now d = (Inr x, d')"
proof -
  have ok: "rows_ok (jd_rows d)" using assms(1) by (simp add: db_ok_rows)
  show ?thesis
  proof (cases "pending_rows (jd_rows d)")
    case Nil
    then show ?thesis unfolding claim_next_job_def db_conn_bind_free [OF assms(2)]
      by (intro db_transaction_returns)
        (simp_all add: db_bind_def db_free assms(2) query_row_def sql_optional_def db_return_def)
  next
    case (Cons r rs)
    let ?u = "update_where (\<lambda>q. jr_id q = jr_id r) (claim_row worker now) (jd_rows d)"
    obtain j where "rows_look (jd_rows d) (jr_id r) = Some j" using pending_rows_hd [OF ok Cons] by metis
    then have "rows_ok (fst ?u)" by (rule claim_rows [OF ok])
    moreover obtain rows n where u: "?u = (rows, n)" by fastforce
    ultimately have "select_job (jr_id r) rows = Inr (rows_look rows (jr_id r))"
      by (simp add: select_job_look)
    then show ?thesis using Cons u unfolding claim_next_job_def db_conn_bind_free [OF assms(2)]
      by (intro db_transaction_returns)
        (simp_all add: db_bind_def db_free assms(2) query_row_def sql_optional_def)
  qed
qed

text \<open>
  C25: on a store that answers, claiming the next job succeeds. If no job is pending it returns
  nothing and leaves the table as it is. Otherwise it returns a job that was pending, now running
  for the worker; no pending job has a smaller priority number, and none with the same priority
  is older; every other job is as before.
\<close>

theorem claim_next_takes_best:
  assumes "db_ok d" "jd_faults d = []"
  shows "\<exists>x d'. claim_next_job worker now d = (Inr x, d') \<and> db_ok d'
    \<and> (case x of
         None \<Rightarrow> db_look d' = db_look d
           \<and> (\<forall>i j. db_look d i = Some j \<longrightarrow> job_status j \<noteq> JobPending)
       | Some j' \<Rightarrow> \<exists>j. db_look d (job_id j') = Some j \<and> job_status j = JobPending
           \<and> j' = claimed_job worker now j \<and> db_look d' = (db_look d)(job_id j' \<mapsto> j')
           \<and> (\<forall>i k. db_look d i = Some k \<and> job_status k = JobPending \<longrightarrow>
                (job_priority j, job_created_at j) \<le> (job_priority k, job_created_at k)))"
proof -
  obtain x d' where c: "claim_next_job worker now d = (Inr x, d')"
    using claim_next_returns [OF assms] by blast
  show ?thesis using claim_next_job_law [OF assms(1) c] c by (cases x) auto
qed

definition sample_row :: "nat \<Rightarrow> string \<Rightarrow> int \<Rightarrow> int \<Rightarrow> job_row" where
  "sample_row i status priority created =
     \<lparr>jr_id = i, jr_job_type = ''process'', jr_status = status, jr_priority = priority,
      jr_payload = None, jr_progress = 0, jr_progress_message = None, jr_output = None,
      jr_error = None, jr_worker_id = None, jr_created_at = created, jr_started_at = None,
      jr_completed_at = None\<rparr>"

definition sample_db :: job_db where
  "sample_db =
     \<lparr>jd_rows = [sample_row 1 ''pending'' 100 5, sample_row 2 ''completed'' 1 1,
        sample_row 3 ''pending'' 50 9, sample_row 4 ''pending'' 50 7, sample_row 5 ''failed'' 1 3],
      jd_faults = []\<rparr>"

lemma sample_db_ok: "db_ok sample_db" "jd_faults sample_db = []"
  by (simp_all add: db_ok_def sample_db_def sample_row_def JobStatus_parse_def)

theorem claim_next_takes_best_witness:
  "db_ok sample_db \<and> jd_faults sample_db = []
   \<and> (\<exists>x d'. claim_next_job ''w'' 10 sample_db = (Inr x, d') \<and> db_ok d')
   \<and> map_option job_id (case fst (claim_next_job ''w'' 10 sample_db) of Inr x \<Rightarrow> x) = Some 4"
proof -
  have "map_option job_id (case fst (claim_next_job ''w'' 10 sample_db) of Inr x \<Rightarrow> x) = Some 4"
    by code_simp
  moreover have "\<exists>x d'. claim_next_job ''w'' 10 sample_db = (Inr x, d') \<and> db_ok d'"
    using claim_next_takes_best [OF sample_db_ok, of "''w''" 10] by blast
  ultimately show ?thesis using sample_db_ok by simp
qed

text \<open>
  C19: whatever calls of the job storage clients make, deletions and prunings included, in whatever
  order and with whatever failures, as long as none of them sets a job back to pending: a job is
  handed out by claims at most once each time it is pending or created. At every call a job stays as
  it is or advances: it keeps its identity, type, priority, payload and time of creation and does not
  become pending again. Only a creation adds a job; a deletion removes jobs of the status it is given,
  or ended ones if it is given none, and a pruning only ended ones. If there are no deletions and
  prunings, no job is handed out twice and none disappears.
\<close>

theorem jobs_claimed_once:
  assumes "db_ok d" "\<forall>c \<in> set cs. \<not> call_requeues c" "store_calls SqliteStore cs d = (evs, d')"
  shows "db_ok d'
    \<and> (\<forall>i. times_handed_out i evs + of_bool (is_pending (db_look d' i))
           \<le> of_bool (is_pending (db_look d i)) + times_created i evs)
    \<and> (\<forall>k < length cs. \<forall>i. call_effect (cs ! k)
         (db_look (snd (store_calls SqliteStore (take k cs) d)) i)
         (db_look (snd (store_calls SqliteStore (take (Suc k) cs) d)) i))
    \<and> ((\<forall>c \<in> set cs. \<not> call_removes c) \<longrightarrow>
         (\<forall>i. times_handed_out i evs \<le> 1 \<and> job_advances (db_look d i) (db_look d' i)))"
  using sq.calls_balance [OF assms] sq.calls_effect [OF assms(1,2)] sq.calls_advance [OF assms(1,2) _ assms(3)]
    sq.calls_hand_out_once [OF assms(1,2) _ assms(3)] by blast

definition sample_calls :: "store_call list" where
  "sample_calls =
     [CallClaimNext ''a'' 1, CallClaimById 3 ''b'' 2, CallClaimById 3 ''a'' 2,
      CallUpdate 4 (JobUpdate_default\<lparr>ju_status := Some JobCompleted\<rparr>), CallDelete None,
      CallClaimById 4 ''c'' 3, CallClaimNext ''c'' 3, CallClaimNext ''d'' 4]"

theorem jobs_claimed_once_witness:
  "\<exists>evs d'. store_calls SqliteStore sample_calls sample_db = (evs, d')
     \<and> map (\<lambda>e. case e of JobHandedOut j \<Rightarrow> job_id j | JobCreated i \<Rightarrow> i) evs = [4, 3, 1]
     \<and> times_handed_out 4 evs \<le> 1 \<and> db_look d' 4 = None
     \<and> call_effect (CallDelete None)
         (db_look (snd (store_calls SqliteStore (take 4 sample_calls) sample_db)) 4)
         (db_look (snd (store_calls SqliteStore (take 5 sample_calls) sample_db)) 4)"
proof -
  obtain evs d' where r: "store_calls SqliteStore sample_calls sample_db = (evs, d')" by fastforce
  have "map (\<lambda>e. case e of JobHandedOut j \<Rightarrow> job_id j | JobCreated i \<Rightarrow> i)
      (fst (store_calls SqliteStore sample_calls sample_db)) = [4, 3, 1]"
    "filter (\<lambda>e. e = JobCreated 4) (fst (store_calls SqliteStore sample_calls sample_db)) = []"
    "db_look (snd (store_calls SqliteStore sample_calls sample_db)) 4 = None"
    by code_simp+
  moreover have calm: "\<forall>c \<in> set sample_calls. \<not> call_requeues c"
    by (simp add: sample_calls_def call_requeues_def)
  have len: "4 < length sample_calls" "sample_calls ! 4 = CallDelete None"
    by (simp_all add: sample_calls_def)
  moreover have "of_bool (is_pending (db_look sample_db 4)) \<le> (1::nat)" by simp
  ultimately show ?thesis
    using jobs_claimed_once [OF sample_db_ok(1) calm r] r
    by (auto simp: times_created_def dest!: spec [of _ 4] elim: order_trans)
qed

section \<open>Pruning\<close>

lemma kept_terminal:
  fixes c k
  assumes "distinct (map jr_id rows)"
  defines "ids \<equiv> prune_selected c k rows"
  shows "length (filter terminal_row (filter (\<lambda>r. jr_id r \<notin> set ids) rows))
       = length (filter terminal_row rows) - length ids"
    and "length ids \<le> length (filter terminal_row rows)"
proof -
  let ?P = "\<lambda>r. jr_id r \<in> set ids"
  have hit: "filter ?P rows = filter ?P (filter terminal_row rows)"
    using deleted_selected(2) [OF assms(1)] unfolding ids_def filter_filter
    by (intro filter_cong) auto
  have "length (filter ?P (filter terminal_row rows))
      + length (filter (\<lambda>r. \<not> ?P r) (filter terminal_row rows)) = length (filter terminal_row rows)"
    by (rule sum_length_filter_compl)
  moreover have "length (filter ?P rows) = length ids"
    using deleted_selected(1) [OF assms(1)] by (simp add: ids_def)
  moreover have "filter terminal_row (filter (\<lambda>r. \<not> ?P r) rows)
      = filter (\<lambda>r. \<not> ?P r) (filter terminal_row rows)"
    by (simp add: conj_commute)
  ultimately show "length (filter terminal_row (filter (\<lambda>r. jr_id r \<notin> set ids) rows))
      = length (filter terminal_row rows) - length ids"
    and "length ids \<le> length (filter terminal_row rows)"
    unfolding hit by simp_all
qed

text \<open>The rows that are left: of the ended jobs not before the cut-off, as many of the latest as the
  limit allows.\<close>

definition recent_enough :: "timestamp option \<Rightarrow> job_row \<Rightarrow> bool" where
  "recent_enough cutoff r \<longleftrightarrow> terminal_row r \<and> (case cutoff of Some c \<Rightarrow> c \<le> effective_at r | None \<Rightarrow> True)"

lemma length_prefix:
  assumes "sorted_wrt (\<lambda>x y. P y \<longrightarrow> P x) xs"
  shows "length (filter (\<lambda>x. P (fst x) \<and> snd x \<le> k) (zip xs [m..<m + length xs]))
    = min (Suc k - m) (length (filter P xs))"
  using assms
proof (induction xs arbitrary: m)
  case (Cons x xs)
  have zip: "zip (x # xs) [m..<m + length (x # xs)] = (x, m) # zip xs [Suc m..<Suc m + length xs]"
    by (simp add: upt_conv_Cons del: upt_Suc)
  note IH = Cons.IH [of "Suc m"]
  show ?case
  proof (cases "P x")
    case True
    then show ?thesis unfolding zip using Cons.prems IH by (auto simp: min_def)
  next
    case False
    then have "filter P xs = []" using Cons.prems by (auto simp: filter_empty_conv)
    then show ?thesis unfolding zip using Cons.prems IH False by simp
  qed
qed simp

lemma ranked_order:
  "sorted_wrt (\<lambda>x y. effective_at (fst y) \<le> effective_at (fst x) \<and> snd x < snd y) (ranked rows)"
proof -
  have "sorted (map (\<lambda>r. - effective_at r) (map fst (ranked rows)))"
    unfolding map_fst_ranked by simp
  moreover have "sorted_wrt (<) (map snd (ranked rows))" unfolding snd_ranked by (rule sorted_wrt_upt)
  ultimately show ?thesis
    unfolding sorted_wrt_map by (auto simp: sorted_wrt_iff_nth_less)
qed

lemma kept_count:
  "length (filter terminal_row rows) - length (prune_selected c k rows)
   = (let n = length (filter (recent_enough c) rows) in case k of Some m \<Rightarrow> min m n | None \<Rightarrow> n)"
proof -
  let ?P = "\<lambda>r. case c of Some t \<Rightarrow> t \<le> effective_at r | None \<Rightarrow> True"
  let ?xs = "sort_key (\<lambda>r. - effective_at r) (filter terminal_row rows)"
  have sorted: "sorted_wrt (\<lambda>x y. ?P y \<longrightarrow> ?P x) ?xs"
  proof (rule sorted_wrt_mono_rel)
    show "sorted_wrt (\<lambda>x y. - effective_at x \<le> - effective_at y) ?xs"
      using sorted_sort_key [of "\<lambda>r. - effective_at r" "filter terminal_row rows"]
      by (simp add: sorted_map)
  qed (auto split: option.splits)
  have count: "length (filter ?P ?xs) = length (filter (recent_enough c) rows)"
  proof -
    have "mset (filter ?P ?xs) = mset (filter ?P (filter terminal_row rows))"
      unfolding mset_filter by (simp only: mset_sort mset_filter)
    also have "filter ?P (filter terminal_row rows) = filter (recent_enough c) rows"
      unfolding filter_filter by (rule filter_cong) (auto simp: recent_enough_def)
    finally have "mset (filter ?P ?xs) = mset (filter (recent_enough c) rows)" .
    then show ?thesis by (metis size_mset)
  qed
  have "length (filter (\<lambda>x. \<not> prune_hit c k x) (ranked rows))
    = (let n = length (filter (recent_enough c) rows) in case k of Some m \<Rightarrow> min m n | None \<Rightarrow> n)"
  proof (cases k)
    case None
    have "filter (\<lambda>x. \<not> prune_hit c k x) (ranked rows) = filter (\<lambda>x. ?P (fst x)) (ranked rows)"
      using None by (intro filter_cong) (auto simp: prune_hit_def split: option.splits)
    moreover have "length (filter (\<lambda>x. ?P (fst x)) (ranked rows)) = length (filter ?P ?xs)"
      by (simp flip: map_fst_ranked add: filter_map comp_def)
    ultimately show ?thesis using None count by simp
  next
    case (Some m)
    have "filter (\<lambda>x. \<not> prune_hit c k x) (ranked rows)
        = filter (\<lambda>x. ?P (fst x) \<and> snd x \<le> m) (zip ?xs [1..<1 + length ?xs])"
      unfolding ranked_def Let_def using Some
      by (intro filter_cong) (auto simp: prune_hit_def split: option.splits)
    then show ?thesis using Some count length_prefix [OF sorted, of m 1] by simp
  qed
  then show ?thesis
    using sum_length_filter_compl [of "prune_hit c k" "ranked rows"] length_ranked [of rows]
    by (simp add: prune_selected_hit)
qed

lemma kept_latest:
  assumes "distinct (map jr_id rows)" "r \<in> set rows" "jr_id r \<in> set (prune_selected c k rows)"
    "s \<in> set rows" "jr_id s \<notin> set (prune_selected c k rows)" "terminal_row s"
  shows "effective_at r \<le> effective_at s"
proof -
  have r: "r \<in> fst ` set (ranked rows)" "s \<in> fst ` set (ranked rows)"
    using assms deleted_selected(2) [OF assms(1)] by (auto simp: set_ranked)
  then obtain n m where nm: "(r, n) \<in> set (ranked rows)" "(s, m) \<in> set (ranked rows)" by auto
  have inj: "inj_on jr_id (set rows)" using assms(1) by (simp add: distinct_map)
  obtain x where x: "x \<in> set (ranked rows)" "prune_hit c k x" "jr_id (fst x) = jr_id r"
    using assms(3) by (auto simp: prune_selected_hit)
  moreover have "fst x \<in> set rows" using x(1) set_ranked [of rows] by force
  ultimately have "fst x = r" using inj assms(2) by (auto dest: inj_onD)
  then obtain n where n: "(r, n) \<in> set (ranked rows)" "prune_hit c k (r, n)" using x by (cases x) auto
  have m: "\<not> prune_hit c k (s, m)"
    using assms(5) nm(2) by (auto simp: prune_selected_hit intro: rev_image_eqI)
  obtain i j where ij: "i < length (ranked rows)" "ranked rows ! i = (r, n)"
    "j < length (ranked rows)" "ranked rows ! j = (s, m)" using n(1) nm(2) by (metis in_set_conv_nth)
  have ord: "effective_at (fst (ranked rows ! b)) \<le> effective_at (fst (ranked rows ! a))
      \<and> snd (ranked rows ! a) < snd (ranked rows ! b)" if "a < b" "b < length (ranked rows)" for a b
    using ranked_order [of rows] that by (simp add: sorted_wrt_iff_nth_less)
  show ?thesis
  proof (cases i j rule: linorder_cases)
    case less
    then have "n < m" using ord [of i j] ij by simp
    then show ?thesis using n(2) m by (auto simp: prune_hit_def split: option.splits)
  next
    case equal
    then show ?thesis using ij by simp
  next
    case greater
    then show ?thesis using ord [of j i] ij by simp
  qed
qed

text \<open>
  C26: on a store that answers, pruning deletes exactly what counting beforehand announces, and this
  is what the policy says: only ended jobs are deleted, none that is left ended before one that is
  deleted, and the number that is left is that of the jobs that ended at or after the cut-off, bounded
  by the limit (all ended jobs if there is neither). The report counts both, and all other jobs stay.
\<close>

theorem prune_as_counted:
  assumes "db_ok d" "jd_faults d = []"
  shows "\<exists>rep d'. prune_old_jobs now policy d = (Inr rep, d')
    \<and> fst (count_old_jobs now policy d) = Inr rep
    \<and> set (jd_rows d') \<subseteq> set (jd_rows d)
    \<and> (\<forall>r \<in> set (jd_rows d) - set (jd_rows d'). terminal_row r
         \<and> (\<forall>s \<in> set (jd_rows d'). terminal_row s \<longrightarrow> effective_at r \<le> effective_at s))
    \<and> length (jd_rows d') + prr_deleted rep = length (jd_rows d)
    \<and> prr_kept rep = length (filter terminal_row (jd_rows d'))
    \<and> prr_kept rep =
        (let n = length (filter (recent_enough (RetentionPolicy_cutoff now policy)) (jd_rows d)) in
         case RetentionPolicy_keep_last_i64 policy of Some k \<Rightarrow> min k n | None \<Rightarrow> n)
    \<and> (case RetentionPolicy_cutoff now policy of None \<Rightarrow> True
       | Some c \<Rightarrow> \<forall>r \<in> set (jd_rows d'). terminal_row r \<longrightarrow> c \<le> effective_at r)"
proof (cases "RetentionPolicy_is_disabled policy")
  case True
  then have "RetentionPolicy_keep_last_i64 policy = None" "RetentionPolicy_cutoff now policy = None"
    by (simp_all add: RetentionPolicy_is_disabled_def RetentionPolicy_keep_last_i64_def
        RetentionPolicy_cutoff_def)
  moreover have "recent_enough None = terminal_row" by (rule ext) (simp add: recent_enough_def)
  ultimately show ?thesis using True assms(2)
    by (simp add: prune_old_jobs_def count_old_jobs_def db_free db_bind_def db_return_def
        count_terminal_def)
next
  case False
  let ?c = "RetentionPolicy_cutoff now policy" and ?k = "RetentionPolicy_keep_last_i64 policy"
  let ?rows = "jd_rows d"
  let ?ids = "prune_selected ?c ?k ?rows"
  let ?left = "filter (\<lambda>r. jr_id r \<notin> set ?ids) ?rows"
  have dist: "distinct (map jr_id ?rows)" using assms(1) by (simp add: db_ok_def)
  note del = deleted_selected [OF dist, where c = ?c and k = ?k]
    and kept = kept_terminal [OF dist, where c = ?c and k = ?k]
  let ?rep = "\<lparr>prr_deleted = length ?ids, prr_kept = length (filter terminal_row ?left)\<rparr>"
  have "prune_old_jobs now policy d = (Inr ?rep, d\<lparr>jd_rows := ?left\<rparr>)"
    using False assms(2) del(1)
    by (simp add: prune_old_jobs_def db_free db_bind_def db_return_def count_terminal_def
        delete_where_def Let_def)
  moreover have "fst (count_old_jobs now policy d) = Inr ?rep"
    using False assms(2) kept
    by (simp add: count_old_jobs_def db_free db_bind_def db_return_def count_terminal_def)
  moreover have "\<forall>r \<in> set ?rows - set ?left. terminal_row r
      \<and> (\<forall>s \<in> set ?left. terminal_row s \<longrightarrow> effective_at r \<le> effective_at s)"
    using del(2) kept_latest [OF dist] by fastforce
  moreover have "length ?left + length ?ids = length ?rows"
    using sum_length_filter_compl [of "\<lambda>r. jr_id r \<in> set ?ids" ?rows] del(1) by simp
  moreover have "length (filter terminal_row ?left)
      = (let n = length (filter (recent_enough ?c) ?rows) in case ?k of Some k \<Rightarrow> min k n | None \<Rightarrow> n)"
    using kept_count [of ?rows ?c ?k] kept(1) by simp
  moreover have "case ?c of None \<Rightarrow> True
      | Some c \<Rightarrow> \<forall>r \<in> set ?left. terminal_row r \<longrightarrow> c \<le> effective_at r"
  proof -
    have "c \<le> effective_at r" if r: "?c = Some c" "r \<in> set ?left" "terminal_row r" for c r
    proof (rule ccontr)
      assume "\<not> c \<le> effective_at r"
      moreover have "r \<in> fst ` set (ranked ?rows)" using r(2,3) by (simp add: set_ranked)
      then obtain n where "(r, n) \<in> set (ranked ?rows)" by auto
      ultimately have "jr_id r \<in> set ?ids"
        using r(1) by (auto simp: prune_selected_hit prune_hit_def intro!: rev_image_eqI)
      then show False using r(2) by simp
    qed
    then show ?thesis by (auto split: option.split)
  qed
  ultimately show ?thesis
    by (intro exI [where x = ?rep] exI [where x = "d\<lparr>jd_rows := ?left\<rparr>"])
      (simp cong del: option.case_cong_weak)
qed

definition sample_retention :: retention_policy where
  "sample_retention = \<lparr>rp_max_age = None, rp_keep_last = Some 1\<rparr>"

theorem prune_as_counted_witness:
  "db_ok sample_db \<and> jd_faults sample_db = []
   \<and> (\<exists>rep d'. prune_old_jobs 10 sample_retention sample_db = (Inr rep, d')
        \<and> fst (count_old_jobs 10 sample_retention sample_db) = Inr rep \<and> prr_kept rep = 1)
   \<and> map jr_id (jd_rows (snd (prune_old_jobs 10 sample_retention sample_db))) = [1, 3, 4, 5]"
proof -
  have ids: "prune_selected None (Some 1) (jd_rows sample_db) = [2]" by code_simp
  have "map jr_id (jd_rows (snd (prune_old_jobs 10 sample_retention sample_db))) = [1, 3, 4, 5]"
    by (simp add: prune_old_jobs_def sample_retention_def RetentionPolicy_is_disabled_def
        RetentionPolicy_cutoff_def RetentionPolicy_keep_last_i64_def db_free db_bind_def db_return_def
        count_terminal_def delete_where_def sample_db_ok ids [simplified])
      (simp add: sample_db_def sample_row_def)
  moreover have "RetentionPolicy_keep_last_i64 sample_retention = Some 1"
    by (simp add: sample_retention_def RetentionPolicy_keep_last_i64_def)
  moreover have "length (filter (recent_enough (RetentionPolicy_cutoff 10 sample_retention))
      (jd_rows sample_db)) = 2"
    by (simp add: sample_retention_def RetentionPolicy_cutoff_def recent_enough_def terminal_row_def
        sample_db_def sample_row_def)
  ultimately show ?thesis
    using prune_as_counted [OF sample_db_ok, of 10 sample_retention] sample_db_ok
    by (auto simp: Let_def)
qed

section \<open>Batches\<close>

lemma enqueue_item_length:
  "length (fst (enqueue_item W to_value item x)) \<le> Suc (length (fst x))"
  by (cases item; cases x)
    (auto simp: enqueue_item_def split: sum.split prod.split)

lemma enqueue_items_length:
  "length (fst (fold (enqueue_item W to_value) items x)) \<le> length items + length (fst x)"
proof (induction items arbitrary: x)
  case (Cons item items)
  have "length (fst (fold (enqueue_item W to_value) items (enqueue_item W to_value item x)))
      \<le> length items + length (fst (enqueue_item W to_value item x))" by (rule Cons.IH)
  also have "\<dots> \<le> length items + Suc (length (fst x))" using enqueue_item_length by simp
  finally show ?case by simp
qed simp

lemma batch_start_measure:
  "batch_measure (batch_start W to_value items p) \<le> 7 * length items + 1"
    "live_tasks (batch_start W to_value items p) = 0"
  using enqueue_items_length [of W to_value items "([], p\<lparr>wp_results := []\<rparr>)"]
  by (auto simp: batch_measure_def batch_start_def live_tasks_def split: prod.split)

lemma effective_workers_pos:
  "parallelism \<noteq> Some 0 \<Longrightarrow> 0 < effective_workers parallelism cfg"
  by (auto simp: effective_workers_def num_cpus_def split: option.split)

text \<open>
  C18: in every interleaving, a batch of jobs takes at most seven steps for each item and one for a
  cancellation, never runs more tasks than there are permits, and as long as it has not finished it
  can go on: every run ends in a finished batch, whatever the processor, the store and the
  strategy for errors do.
\<close>

theorem batch_terminates:
  assumes "0 < we_workers W"
    and run: "(batch_step W ^^ n) (batch_start W to_value items p) b"
  shows "n \<le> 7 * length items + 1 \<and> live_tasks b \<le> we_workers W
    \<and> (batch_final b \<or> (\<exists>b'. batch_step W b b'))"
proof -
  have "(batch_step W)\<^sup>*\<^sup>* (batch_start W to_value items p) b"
    using run by (rule relpowp_imp_rtranclp)
  then have "live_tasks b \<le> we_workers W"
    by (rule batch_run_permits) (simp add: batch_start_measure)
  then show ?thesis
    using batch_run_bound [OF run] batch_start_measure(1) [of W to_value items p]
      batch_progress [OF assms(1), of b] by auto
qed

text \<open>
  C17: when a batch on a SQLite store of its own has finished, its results are the failures to
  enqueue and one result for each started job whose processor did not panic. A job is reported as a
  success exactly if the store has it as completed, and none is reported as claimed by another
  worker. The counters have grown by the numbers of successes and failures, and no job was given
  to the processor twice.
\<close>

theorem batch_outcome:
  assumes W: "we_store W = SqliteStore" and ok: "db_ok (wp_store p)"
    and run: "(batch_step W)\<^sup>*\<^sup>* (batch_start W to_value items p) b" and final: "batch_final b"
  shows "\<exists>fs rs reps. fst (batch_finish b) = fs @ rs
    \<and> (\<forall>r \<in> set fs. JobOutcome_is_failure (jres_outcome r))
    \<and> distinct (map fst (bt_tasks b))
    \<and> mset (map jres_job_id rs)
        = mset (map fst (filter (\<lambda>(_, t). t \<noteq> TaskPanicked) (bt_tasks b)))
    \<and> (\<forall>r \<in> set rs. \<not> JobOutcome_is_already_claimed (jres_outcome r)
        \<and> (JobOutcome_is_success (jres_outcome r)
           \<longleftrightarrow> is_completed (db_look (wp_store (bt_pool b)) (jres_job_id r))))
    \<and> wp_completed (bt_pool b) = wp_completed p + count_success (fs @ rs)
    \<and> wp_failed (bt_pool b) = wp_failed p + count_failure (fs @ rs)
    \<and> wp_reports (bt_pool b) = wp_reports p @ reps \<and> distinct (report_starts reps)"
proof -
  obtain fs where fs: "list_all (\<lambda>r. JobOutcome_is_failure (jres_outcome r)) fs"
      "sq.batch_inv fs p (batch_start W to_value items p)"
    by (rule sq.batch_inv_start [OF W ok])
  have inv: "sq.batch_inv fs p b" by (rule sq.batch_inv_reachable [OF W fs(2) run])
  then obtain rs reps where rs: "wp_results (bt_pool b) = fs @ rs"
      "mset (map jres_job_id rs) = mset (reported_ids (bt_tasks b))"
      "\<forall>r \<in> set rs. result_ok (jres_outcome r) (db_look (wp_store (bt_pool b)) (jres_job_id r))"
      "wp_completed (bt_pool b) = wp_completed p + count_success (fs @ rs)"
      "wp_failed (bt_pool b) = wp_failed p + count_failure (fs @ rs)"
      "wp_reports (bt_pool b) = wp_reports p @ reps" "distinct (report_starts reps)"
    unfolding sq.batch_inv_def batch_reports_ok_def by auto
  have "filter (\<lambda>(_, t). task_reported t) (bt_tasks b)
      = filter (\<lambda>(_, t). t \<noteq> TaskPanicked) (bt_tasks b)"
    using final
    by (intro filter_cong) (auto simp: batch_final_def live_tasks_def filter_empty_conv
        task_live_def task_reported_def)
  moreover have "distinct (map fst (bt_tasks b))" using inv by (simp add: sq.batch_inv_def)
  ultimately show ?thesis using rs fs(1)
    by (intro exI [where x = fs] exI [where x = rs] exI [where x = reps])
      (auto simp: batch_finish_def Let_def list_all_iff result_ok_def)
qed

text \<open>A scheduler: spawn while there are permits, then run the first live task, then sweep.\<close>

fun first_live :: "nat \<Rightarrow> (uuid \<times> task) list \<Rightarrow> nat option" where
  "first_live k [] = None"
| "first_live k ((i, t) # ts) = (if task_live t then Some k else first_live (Suc k) ts)"

definition batch_next :: "'s pool_env \<Rightarrow> 's batch \<Rightarrow> 's batch" where
  "batch_next W b =
     (case bt_queue b of
        i # rest \<Rightarrow>
          if live_tasks b < we_workers W
          then b\<lparr>bt_queue := rest, bt_tasks := bt_tasks b @ [(i, TaskSpawned)]\<rparr>
          else b
      | [] \<Rightarrow> b)"

definition batch_run_first :: "'s pool_env \<Rightarrow> 's batch \<Rightarrow> 's batch" where
  "batch_run_first W b =
     (case first_live 0 (bt_tasks b) of
        None \<Rightarrow> b
      | Some k \<Rightarrow>
          (case task_step W (fst (bt_tasks b ! k)) (snd (bt_tasks b ! k)) (bt_pool b) of
             None \<Rightarrow> b
           | Some (t', p) \<Rightarrow>
               b\<lparr>bt_tasks := (bt_tasks b)[k := (fst (bt_tasks b ! k), t')], bt_pool := p\<rparr>))"

lemma first_live_bound: "first_live k ts = Some m \<Longrightarrow> k \<le> m \<and> m < k + length ts"
  by (induction k ts rule: first_live.induct) (auto split: if_splits)

lemma batch_next_reachable: "(batch_step W)\<^sup>*\<^sup>* b (batch_next W b)"
  by (auto simp: batch_next_def split: list.split intro: r_into_rtranclp batch_step.spawn)

lemma batch_run_first_reachable: "(batch_step W)\<^sup>*\<^sup>* b (batch_run_first W b)"
proof (cases "first_live 0 (bt_tasks b)")
  case (Some k)
  then have k: "k < length (bt_tasks b)" using first_live_bound by fastforce
  show ?thesis
  proof (cases "task_step W (fst (bt_tasks b ! k)) (snd (bt_tasks b ! k)) (bt_pool b)")
    case (Some x)
    obtain t' p where x: "x = (t', p)" by fastforce
    have "batch_step W b (b\<lparr>bt_tasks := (bt_tasks b)[k := (fst (bt_tasks b ! k), t')], bt_pool := p\<rparr>)"
      by (rule batch_step.run [where t = "snd (bt_tasks b ! k)"]) (use k Some x in simp_all)
    then show ?thesis using Some x \<open>first_live 0 (bt_tasks b) = Some k\<close>
      by (simp add: batch_run_first_def)
  qed (simp add: batch_run_first_def Some)
qed (simp add: batch_run_first_def)

fun batch_rounds :: "'s pool_env \<Rightarrow> nat \<Rightarrow> 's batch \<Rightarrow> 's batch" where
  "batch_rounds W 0 b = b"
| "batch_rounds W (Suc n) b = batch_rounds W n (batch_run_first W (batch_next W b))"

lemma batch_rounds_reachable: "(batch_step W)\<^sup>*\<^sup>* b (batch_rounds W n b)"
proof (induction n arbitrary: b)
  case (Suc n)
  have "(batch_step W)\<^sup>*\<^sup>* b (batch_run_first W (batch_next W b))"
    using batch_next_reachable batch_run_first_reachable by (rule rtranclp_trans)
  then show ?case using Suc.IH by (simp add: rtranclp_trans)
qed simp

text \<open>Three items on two workers: the second one fails to serialise, the third one to process.\<close>

definition sample_pool_env :: "job_db pool_env" where
  "sample_pool_env =
     \<lparr>we_store = SqliteStore, we_now = (\<lambda>_ _. 0), we_join = (\<lambda>_ _. None), we_uuid_str = nat_str,
      we_worker_id = (\<lambda>_. ''w''),
      we_processor = (\<lambda>j. if job_priority j = 1 then ProcErr ''bad'' else ProcOk None),
      we_on_error = JesContinue, we_workers = 2\<rparr>"

definition sample_items :: "(mint \<times> uuid \<times> string work_item) list" where
  "sample_items =
     [(\<lparr>mint_uuid = 11, mint_now = 0\<rparr>, 21,
       \<lparr>wi_job_type = JtScan, wi_priority = 7, wi_payload = None\<rparr>),
      (\<lparr>mint_uuid = 12, mint_now = 0\<rparr>, 22,
       \<lparr>wi_job_type = JtScan, wi_priority = 7, wi_payload = Some ''x''\<rparr>),
      (\<lparr>mint_uuid = 13, mint_now = 0\<rparr>, 23,
       \<lparr>wi_job_type = JtScan, wi_priority = 1, wi_payload = None\<rparr>)]"

definition sample_start :: "job_db batch" where
  "sample_start =
     batch_start sample_pool_env (\<lambda>s. Inl ''no text'') sample_items (WorkerPool_new sample_db False)"

definition sample_end :: "job_db batch" where
  "sample_end = batch_rounds sample_pool_env 12 sample_start"

lemma sample_end_final: "batch_final sample_end"
  by code_simp

theorem batch_terminates_witness:
  "0 < we_workers sample_pool_env \<and> (batch_step sample_pool_env ^^ 0) sample_start sample_start
   \<and> \<not> batch_final sample_start \<and> (\<exists>b. batch_step sample_pool_env sample_start b)"
proof -
  have "0 < we_workers sample_pool_env" by (simp add: sample_pool_env_def)
  moreover have "\<not> batch_final sample_start" by code_simp
  ultimately show ?thesis
    using batch_terminates [of sample_pool_env 0 "\<lambda>s. Inl ''no text''" sample_items
        "WorkerPool_new sample_db False" sample_start] by (simp add: sample_start_def)
qed

theorem batch_outcome_witness:
  "\<exists>fs rs. fst (batch_finish sample_end) = fs @ rs
     \<and> (\<forall>r \<in> set fs. JobOutcome_is_failure (jres_outcome r))
     \<and> mset (map jres_job_id rs)
         = mset (map fst (filter (\<lambda>(_, t). t \<noteq> TaskPanicked) (bt_tasks sample_end)))
     \<and> wp_completed (bt_pool sample_end) = count_success (fs @ rs)
     \<and> map jres_job_id (fst (batch_finish sample_end)) = [22, 11, 13]"
proof -
  have run: "(batch_step sample_pool_env)\<^sup>*\<^sup>* (batch_start sample_pool_env (\<lambda>s. Inl ''no text'')
      sample_items (WorkerPool_new sample_db False)) sample_end"
    using batch_rounds_reachable [of sample_pool_env sample_start 12]
    by (simp add: sample_end_def sample_start_def)
  have "we_store sample_pool_env = SqliteStore" "db_ok (wp_store (WorkerPool_new sample_db False))"
    "wp_completed (WorkerPool_new sample_db False) = 0"
    by (simp_all add: sample_pool_env_def WorkerPool_new_def sample_db_ok)
  moreover have "map jres_job_id (fst (batch_finish sample_end)) = [22, 11, 13]" by code_simp
  ultimately show ?thesis using batch_outcome [OF _ _ run sample_end_final] by auto
qed

section \<open>Observations\<close>

text \<open>
  A task that finds the pool cancelled before its claim reports its job as cancelled and leaves it
  pending in the store, although the jobs that were not started are cancelled there.
\<close>

definition sample_cancelled :: "job_db batch" where
  "sample_cancelled =
     batch_rounds sample_pool_env 6
       (batch_start sample_pool_env (\<lambda>s. Inl ''no text'') (take 1 sample_items)
         (WorkerPool_new sample_db True))"

lemma cancelled_job_left_pending:
  "(batch_step sample_pool_env)\<^sup>*\<^sup>*
     (batch_start sample_pool_env (\<lambda>s. Inl ''no text'') (take 1 sample_items)
       (WorkerPool_new sample_db True)) sample_cancelled
   \<and> batch_final sample_cancelled
   \<and> wp_results (bt_pool sample_cancelled) = [JobResult_failure 11 ''cancelled'']
   \<and> is_pending (db_look (wp_store (bt_pool sample_cancelled)) 11)"
proof -
  have "batch_final sample_cancelled"
    "wp_results (bt_pool sample_cancelled) = [JobResult_failure 11 ''cancelled'']"
    "is_pending (db_look (wp_store (bt_pool sample_cancelled)) 11)"
    by code_simp+
  then show ?thesis using batch_rounds_reachable by (simp add: sample_cancelled_def)
qed

text \<open>Deleting jobs by status deletes pending jobs too, if that is the status asked for.\<close>

lemma delete_jobs_pending:
  "map jr_id (jd_rows (snd (delete_jobs (Some JobPending) sample_db))) = [2, 5]"
  by code_simp

text \<open>Listing jobs with an offset and no limit is an error of the statement.\<close>

lemma list_jobs_offset_only:
  "\<exists>m. fst (list_jobs \<lparr>jf_status = None, jf_limit = None, jf_offset = Some 1\<rparr> sample_db)
     = Inl (StorageError OtherStorage m)"
  by (simp add: list_jobs_def db_free db_bind_def sample_db_ok paginate_def storage_err_def
      classify_rusqlite_def)

end
