(* ===== verification/Ffmpeg_Command.thy ===== *)
theory Ffmpeg_Command
  imports Plan
begin

text \<open>
  The construction of \<open>ffmpeg\<close> command lines, \<open>plugins/ffmpeg-executor/src/command.rs\<close>, with the
  hardware backends of \<open>hwaccel.rs\<close> and the checks on metadata of
  \<open>crates/voom-domain/src/utils/sanitize.rs\<close>. A command is the list of its arguments. Number
  formats with a fixed precision, Unicode lower-casing, the lossy text of a path and the debug text
  of a string are parameters, as is the question whether bytes of a path are UTF-8.
\<close>

record cmd_env =
  ce_lowercase :: "string \<Rightarrow> string"
  ce_lossy :: "string \<Rightarrow> string"
  ce_fmt :: "nat \<Rightarrow> f64 \<Rightarrow> string"
  ce_debug :: "string \<Rightarrow> string"
  ce_hex2 :: "nat \<Rightarrow> string"
  ce_is_utf8 :: "string \<Rightarrow> bool"

section \<open>Metadata checks\<close>

definition control_char :: "char \<Rightarrow> bool" where
  "control_char c = (let n = of_char c :: nat in n < 32 \<and> n \<noteq> 9 \<and> n \<noteq> 10 \<and> n \<noteq> 13)"

fun position_of :: "('a \<Rightarrow> bool) \<Rightarrow> 'a list \<Rightarrow> nat option" where
  "position_of P [] = None"
| "position_of P (x # xs) = (if P x then Some 0 else map_option Suc (position_of P xs))"

definition validate_metadata_value :: "cmd_env \<Rightarrow> string \<Rightarrow> voom_error + string" where
  "validate_metadata_value E v =
     (case position_of control_char v of
        Some pos \<Rightarrow>
          Inl (ValidationError (''metadata value contains control character at byte ''
            @ nat_str pos @ '': 0x'' @ ce_hex2 E (of_char (v ! pos))))
      | None \<Rightarrow> Inr v)"

definition validate_metadata_key :: "cmd_env \<Rightarrow> string \<Rightarrow> voom_error + string" where
  "validate_metadata_key E key =
     (if key = [] then Inl (ValidationError ''metadata key cannot be empty'')
      else case validate_metadata_value E key of
        Inl e \<Rightarrow> Inl e
      | Inr _ \<Rightarrow>
          if CHR ''='' \<in> set key
          then Inl (ValidationError
            (''metadata key contains '' @ [CHR 0x27] @ ''='' @ [CHR 0x27]
             @ '' which would corrupt key=value parsing: '' @ ce_debug E key))
          else Inr key)"

section \<open>Hardware backends\<close>

datatype hw_accel_backend = Nvenc | Qsv | Vaapi | Videotoolbox

record hw_accel_config =
  hac_backend :: "hw_accel_backend option"
  hac_validated_encoders :: "string list option"
  hac_hw_decoders :: "string list"
  hac_hw_decode_enabled :: bool
  hac_device :: "string option"

definition HwAccelConfig_new :: hw_accel_config where
  "HwAccelConfig_new =
     \<lparr>hac_backend = None, hac_validated_encoders = None, hac_hw_decoders = [],
      hac_hw_decode_enabled = True, hac_device = None\<rparr>"

definition HwAccelConfig_with_backend :: "hw_accel_backend \<Rightarrow> hw_accel_config" where
  "HwAccelConfig_with_backend b = HwAccelConfig_new\<lparr>hac_backend := Some b\<rparr>"

definition HwAccelConfig_enabled :: "hw_accel_config \<Rightarrow> bool" where
  "HwAccelConfig_enabled c = (hac_backend c \<noteq> None)"

definition with_validated_encoders :: "string list \<Rightarrow> hw_accel_config \<Rightarrow> hw_accel_config" where
  "with_validated_encoders encoders c = c\<lparr>hac_validated_encoders := Some encoders\<rparr>"

definition with_hw_decoders :: "string list \<Rightarrow> hw_accel_config \<Rightarrow> hw_accel_config" where
  "with_hw_decoders decoders c = c\<lparr>hac_hw_decoders := decoders\<rparr>"

definition with_hw_decode_enabled :: "bool \<Rightarrow> hw_accel_config \<Rightarrow> hw_accel_config" where
  "with_hw_decode_enabled b c = c\<lparr>hac_hw_decode_enabled := b\<rparr>"

definition with_device :: "string option \<Rightarrow> hw_accel_config \<Rightarrow> hw_accel_config" where
  "with_device device c = c\<lparr>hac_device := device\<rparr>"

definition device_args :: "hw_accel_config \<Rightarrow> string list" where
  "device_args c =
     (case (hac_backend c, hac_device c) of
        (Some b, Some path) \<Rightarrow>
          (case b of
             Vaapi \<Rightarrow> [''-vaapi_device'', path]
           | Qsv \<Rightarrow> [''-qsv_device'', path]
           | _ \<Rightarrow> [])
      | _ \<Rightarrow> [])"

definition device_env :: "hw_accel_config \<Rightarrow> (string \<times> string) option" where
  "device_env c =
     (case (hac_backend c, hac_device c) of
        (Some Nvenc, Some dev) \<Rightarrow> Some (''CUDA_VISIBLE_DEVICES'', dev)
      | _ \<Rightarrow> None)"

definition software_encoder :: "string \<Rightarrow> string" where
  "software_encoder codec =
     (if codec = ''hevc'' \<or> codec = ''h265'' then ''libx265''
      else if codec = ''h264'' \<or> codec = ''avc'' then ''libx264''
      else if codec = ''av1'' then ''libsvtav1''
      else if codec = ''vp9'' then ''libvpx-vp9''
      else if codec = ''opus'' then ''libopus''
      else codec)"

definition canonical_video_codec :: "string \<Rightarrow> string" where
  "canonical_video_codec codec =
     (if codec = ''h265'' then ''hevc'' else if codec = ''avc'' then ''h264''
      else if codec = ''mpeg2video'' then ''mpeg2'' else codec)"

definition hw_encoder_for_backend :: "hw_accel_backend \<Rightarrow> string \<Rightarrow> string option" where
  "hw_encoder_for_backend b codec =
     (let (suf, supported) =
        (case b of
           Nvenc \<Rightarrow> (''_nvenc'', [''hevc'', ''h264'', ''av1''])
         | Qsv \<Rightarrow> (''_qsv'', [''hevc'', ''h264'', ''av1'', ''vp9''])
         | Vaapi \<Rightarrow> (''_vaapi'', [''hevc'', ''h264'', ''av1'', ''vp9''])
         | Videotoolbox \<Rightarrow> (''_videotoolbox'', [''hevc'', ''h264'']));
          canonical = canonical_video_codec codec
      in if canonical \<in> set supported then Some (canonical @ suf) else None)"

definition hw_decoder_for_backend :: "hw_accel_backend \<Rightarrow> string \<Rightarrow> string option" where
  "hw_decoder_for_backend b codec =
     (case b of
        Nvenc \<Rightarrow> Some (canonical_video_codec codec @ ''_cuvid'')
      | Qsv \<Rightarrow> Some (canonical_video_codec codec @ ''_qsv'')
      | Vaapi \<Rightarrow> Some (canonical_video_codec codec @ ''_vaapi'')
      | Videotoolbox \<Rightarrow> None)"

definition encoder_name :: "hw_accel_config \<Rightarrow> string \<Rightarrow> string" where
  "encoder_name c codec =
     (case hac_backend c of
        None \<Rightarrow> software_encoder codec
      | Some b \<Rightarrow>
          (case hw_encoder_for_backend b codec of
             None \<Rightarrow> software_encoder codec
           | Some hw_name \<Rightarrow>
               (case hac_validated_encoders c of
                  Some validated \<Rightarrow>
                    if hw_name \<in> set validated then hw_name else software_encoder codec
                | None \<Rightarrow> hw_name)))"

definition has_hw_encoder :: "hw_accel_config \<Rightarrow> string \<Rightarrow> bool" where
  "has_hw_encoder c codec =
     (case hac_backend c of
        None \<Rightarrow> False
      | Some b \<Rightarrow>
          (case hw_encoder_for_backend b codec of
             None \<Rightarrow> False
           | Some hw_name \<Rightarrow>
               (case hac_validated_encoders c of
                  Some validated \<Rightarrow> hw_name \<in> set validated | None \<Rightarrow> True)))"

definition decoder_input_args :: "hw_accel_config \<Rightarrow> string \<Rightarrow> string list" where
  "decoder_input_args c source_codec =
     (if \<not> hac_hw_decode_enabled c then []
      else case hac_backend c of
        None \<Rightarrow> []
      | Some b \<Rightarrow>
          (case hw_decoder_for_backend b source_codec of
             None \<Rightarrow> []
           | Some decoder \<Rightarrow>
               if decoder \<notin> set (hac_hw_decoders c) then []
               else case b of
                 Nvenc \<Rightarrow> [''-hwaccel'', ''cuda'', ''-hwaccel_output_format'', ''cuda'']
               | Qsv \<Rightarrow> [''-hwaccel'', ''qsv'', ''-hwaccel_output_format'', ''qsv'']
               | Vaapi \<Rightarrow> [''-hwaccel'', ''vaapi'', ''-hwaccel_output_format'', ''vaapi'']
               | Videotoolbox \<Rightarrow> []))"

definition hw_input_args :: "hw_accel_config \<Rightarrow> string list" where
  "hw_input_args c =
     (case hac_backend c of
        None \<Rightarrow> []
      | Some b \<Rightarrow>
          [''-hwaccel'', case b of Nvenc \<Rightarrow> ''cuda'' | Qsv \<Rightarrow> ''qsv'' | Vaapi \<Rightarrow> ''vaapi''
             | Videotoolbox \<Rightarrow> ''videotoolbox''])"

text \<open>
  Which devices the probes of \<open>probe.rs\<close> find on the machine is the argument \<open>present\<close>; the backend
  of macOS is taken as present.
\<close>

definition verify_backend :: "(hw_accel_backend \<Rightarrow> bool) \<Rightarrow> hw_accel_backend \<Rightarrow> bool" where
  "verify_backend present b = (case b of Videotoolbox \<Rightarrow> True | _ \<Rightarrow> present b)"

definition candidates_from_text :: "string \<Rightarrow> hw_accel_backend list" where
  "candidates_from_text t =
     (if str_contains t ''cuda'' \<or> str_contains t ''nvdec'' then [Nvenc] else []) @
     (if str_contains t ''qsv'' then [Qsv] else []) @
     (if str_contains t ''vaapi'' then [Vaapi] else []) @
     (if str_contains t ''videotoolbox'' then [Videotoolbox] else [])"

definition detect_backend_with_verifier ::
  "string \<Rightarrow> (hw_accel_backend \<Rightarrow> bool) \<Rightarrow> hw_accel_backend option" where
  "detect_backend_with_verifier t verifier = find verifier (candidates_from_text t)"

definition HwAccelConfig_from_probed ::
  "(hw_accel_backend \<Rightarrow> bool) \<Rightarrow> string list \<Rightarrow> hw_accel_config" where
  "HwAccelConfig_from_probed present hw_accels =
     HwAccelConfig_new\<lparr>hac_backend :=
       detect_backend_with_verifier (str_join '' '' (map to_ascii_lowercase hw_accels))
         (verify_backend present)\<rparr>"

definition config_from_backend_name :: "string \<Rightarrow> hw_accel_config" where
  "config_from_backend_name name =
     HwAccelConfig_new\<lparr>hac_backend :=
       (if name = ''nvenc'' then Some Nvenc else if name = ''qsv'' then Some Qsv
        else if name = ''vaapi'' then Some Vaapi
        else if name = ''videotoolbox'' then Some Videotoolbox else None)\<rparr>"

definition resolve_hw_config ::
  "(hw_accel_backend \<Rightarrow> bool) \<Rightarrow> string option \<Rightarrow> string list \<Rightarrow> hw_accel_config \<times> string" where
  "resolve_hw_config present override_name hw_accels =
     (case map_option (\<lambda>s. to_ascii_lowercase (str_trim s)) override_name of
        None \<Rightarrow> (HwAccelConfig_from_probed present hw_accels, ''auto-detected'')
      | Some name \<Rightarrow>
          if name = ''none'' then (HwAccelConfig_new, ''disabled'')
          else let cfg = config_from_backend_name name in
            if HwAccelConfig_enabled cfg then (cfg, ''config override'')
            else (HwAccelConfig_from_probed present hw_accels, ''auto-detected''))"

definition config_from_backend_with_system ::
  "string \<Rightarrow> hw_accel_config option \<Rightarrow> hw_accel_config" where
  "config_from_backend_with_system name sys_cfg =
     (let c = config_from_backend_name name in
      case (hac_backend c, sys_cfg) of
        (Some b, Some s) \<Rightarrow>
          if hac_backend s = Some b
          then c\<lparr>hac_validated_encoders := hac_validated_encoders s,
                 hac_hw_decoders := hac_hw_decoders s,
                 hac_hw_decode_enabled := hac_hw_decode_enabled s, hac_device := hac_device s\<rparr>
          else c
      | _ \<Rightarrow> c)"

section \<open>The builder\<close>

type_synonym ffmpeg_command = "string list"

definition FfmpegCommand_new :: ffmpeg_command where
  "FfmpegCommand_new = [''-y'', ''-hide_banner'']"

definition cmd_input :: "cmd_env \<Rightarrow> string \<Rightarrow> ffmpeg_command \<Rightarrow> ffmpeg_command" where
  "cmd_input E path cmd = cmd @ [''-i'', ce_lossy E path]"

definition cmd_output :: "cmd_env \<Rightarrow> string \<Rightarrow> ffmpeg_command \<Rightarrow> ffmpeg_command" where
  "cmd_output E path cmd = cmd @ [ce_lossy E path]"

definition map_all :: "ffmpeg_command \<Rightarrow> ffmpeg_command" where
  "map_all cmd = cmd @ [''-map'', ''0'']"

definition map_track :: "u32 \<Rightarrow> ffmpeg_command \<Rightarrow> ffmpeg_command" where
  "map_track index cmd = cmd @ [''-map'', ''0:'' @ nat_str index]"

definition map_non_attachment_tracks :: "media_file \<Rightarrow> ffmpeg_command \<Rightarrow> ffmpeg_command" where
  "map_non_attachment_tracks f cmd =
     (let kept = filter (\<lambda>t. tr_track_type t \<noteq> Attachment) (mf_tracks f);
          mapped = fold (\<lambda>t. map_track (tr_index t)) kept cmd
      in if kept = [] then map_all mapped else mapped)"

definition map_metadata :: "u32 \<Rightarrow> ffmpeg_command \<Rightarrow> ffmpeg_command" where
  "map_metadata i cmd = cmd @ [''-map_metadata'', nat_str i]"

definition map_chapters :: "u32 \<Rightarrow> ffmpeg_command \<Rightarrow> ffmpeg_command" where
  "map_chapters i cmd = cmd @ [''-map_chapters'', nat_str i]"

definition codec_copy :: "ffmpeg_command \<Rightarrow> ffmpeg_command" where
  "codec_copy cmd = cmd @ [''-c'', ''copy'']"

definition video_codec :: "string \<Rightarrow> ffmpeg_command \<Rightarrow> ffmpeg_command" where
  "video_codec codec cmd = cmd @ [''-c:v'', codec]"

definition audio_codec :: "string \<Rightarrow> ffmpeg_command \<Rightarrow> ffmpeg_command" where
  "audio_codec codec cmd = cmd @ [''-c:a'', codec]"

definition video_codec_for_track :: "u32 \<Rightarrow> string \<Rightarrow> ffmpeg_command \<Rightarrow> ffmpeg_command" where
  "video_codec_for_track stream codec cmd = cmd @ [''-c:v:'' @ nat_str stream, codec]"

definition audio_codec_for_track :: "u32 \<Rightarrow> string \<Rightarrow> ffmpeg_command \<Rightarrow> ffmpeg_command" where
  "audio_codec_for_track stream codec cmd = cmd @ [''-c:a:'' @ nat_str stream, codec]"

definition cmd_crf :: "u32 \<Rightarrow> ffmpeg_command \<Rightarrow> ffmpeg_command" where
  "cmd_crf v cmd = cmd @ [''-crf'', nat_str v]"

definition audio_bitrate :: "string \<Rightarrow> ffmpeg_command \<Rightarrow> ffmpeg_command" where
  "audio_bitrate bitrate cmd = cmd @ [''-b:a'', bitrate]"

definition cmd_preset :: "string \<Rightarrow> ffmpeg_command \<Rightarrow> ffmpeg_command" where
  "cmd_preset p cmd = cmd @ [''-preset'', p]"

definition cmd_metadata :: "u32 option \<Rightarrow> string \<Rightarrow> string \<Rightarrow> ffmpeg_command \<Rightarrow> ffmpeg_command" where
  "cmd_metadata stream_index key v cmd =
     cmd @ [case stream_index of Some idx \<Rightarrow> ''-metadata:s:'' @ nat_str idx | None \<Rightarrow> ''-metadata'',
            key @ ''='' @ v]"

definition cmd_disposition :: "u32 \<Rightarrow> string \<Rightarrow> ffmpeg_command \<Rightarrow> ffmpeg_command" where
  "cmd_disposition stream_index v cmd = cmd @ [''-disposition:'' @ nat_str stream_index, v]"

definition clear_metadata :: "string \<Rightarrow> ffmpeg_command \<Rightarrow> ffmpeg_command" where
  "clear_metadata key cmd = cmd @ [''-metadata'', key @ ''='']"

definition progress_pipe :: "ffmpeg_command \<Rightarrow> ffmpeg_command" where
  "progress_pipe cmd = cmd @ [''-progress'', ''pipe:1'']"

definition video_filter :: "string \<Rightarrow> ffmpeg_command \<Rightarrow> ffmpeg_command" where
  "video_filter flt cmd = cmd @ [''-vf'', flt]"

definition video_color_metadata ::
  "string \<Rightarrow> string \<Rightarrow> string \<Rightarrow> ffmpeg_command \<Rightarrow> ffmpeg_command" where
  "video_color_metadata primaries transfer matrix cmd =
     cmd @ [''-color_primaries'', primaries, ''-color_trc'', transfer, ''-colorspace'', matrix]"

definition x265_params :: "string \<Rightarrow> ffmpeg_command \<Rightarrow> ffmpeg_command" where
  "x265_params ps cmd = cmd @ [''-x265-params'', ps]"

definition audio_filter :: "u32 option \<Rightarrow> string \<Rightarrow> ffmpeg_command \<Rightarrow> ffmpeg_command" where
  "audio_filter stream flt cmd =
     cmd @ [case stream of None \<Rightarrow> ''-af'' | Some idx \<Rightarrow> ''-filter:a:'' @ nat_str idx, flt]"

definition cmd_arg :: "string \<Rightarrow> ffmpeg_command \<Rightarrow> ffmpeg_command" where
  "cmd_arg a cmd = cmd @ [a]"

section \<open>Options of an encoder\<close>

definition loudnorm_filter :: "cmd_env \<Rightarrow> loudness_normalization \<Rightarrow> string" where
  "loudnorm_filter E s =
     (let lra = (case ln_lra_max s of Some x \<Rightarrow> x | None \<Rightarrow> 99);
          base = ''loudnorm=I='' @ ce_fmt E 1 (ln_target_lufs s) @ '':TP=''
            @ ce_fmt E 1 (ln_true_peak_db s) @ '':LRA='' @ ce_fmt E 1 lra
      in case ln_measured s of
           None \<Rightarrow> base
         | Some m \<Rightarrow>
             base @ '':measured_I='' @ ce_fmt E 2 (lm_input_i m)
             @ '':measured_TP='' @ ce_fmt E 2 (lm_input_tp m)
             @ '':measured_LRA='' @ ce_fmt E 2 (lm_input_lra m)
             @ '':measured_thresh='' @ ce_fmt E 2 (lm_input_thresh m)
             @ '':offset='' @ ce_fmt E 2 (lm_target_offset m)
             @ '':linear=true:print_format=summary'')"

definition opt_cmd :: "('a \<Rightarrow> ffmpeg_command \<Rightarrow> ffmpeg_command) \<Rightarrow> 'a option \<Rightarrow> ffmpeg_command \<Rightarrow> ffmpeg_command" where
  "opt_cmd f x cmd = (case x of None \<Rightarrow> cmd | Some v \<Rightarrow> f v cmd)"

definition apply_audio_codec_args ::
  "cmd_env \<Rightarrow> u32 option \<Rightarrow> string \<Rightarrow> string option \<Rightarrow> u32 option \<Rightarrow> loudness_normalization option
     \<Rightarrow> ffmpeg_command \<Rightarrow> ffmpeg_command" where
  "apply_audio_codec_args E stream encoder bitrate channels loudness cmd =
     opt_cmd (\<lambda>s. audio_filter stream (loudnorm_filter E s)) loudness
       (opt_cmd (\<lambda>ch c. cmd_arg (nat_str ch) (cmd_arg ''-ac'' c)) channels
         (opt_cmd audio_bitrate bitrate
           (case stream of
              Some s \<Rightarrow> audio_codec_for_track s encoder cmd
            | None \<Rightarrow> audio_codec encoder cmd)))"

definition apply_quality :: "string \<Rightarrow> u32 \<Rightarrow> ffmpeg_command \<Rightarrow> ffmpeg_command" where
  "apply_quality encoder crf cmd =
     (if str_ends_with encoder ''_nvenc'' then cmd_arg (nat_str crf) (cmd_arg ''-cq'' cmd)
      else if str_ends_with encoder ''_qsv''
      then cmd_arg (nat_str crf) (cmd_arg ''-global_quality'' cmd)
      else if str_ends_with encoder ''_vaapi''
      then cmd_arg (nat_str crf) (cmd_arg ''-qp'' (cmd_arg ''CQP'' (cmd_arg ''-rc_mode'' cmd)))
      else if str_ends_with encoder ''_videotoolbox''
      then cmd_arg (nat_str crf) (cmd_arg ''-q:v'' cmd)
      else cmd_crf crf cmd)"

definition apply_preset :: "string \<Rightarrow> string \<Rightarrow> ffmpeg_command \<Rightarrow> ffmpeg_command" where
  "apply_preset encoder p cmd =
     (if str_ends_with encoder ''_vaapi'' then cmd else cmd_preset p cmd)"

definition apply_tune :: "string \<Rightarrow> string \<Rightarrow> ffmpeg_command \<Rightarrow> ffmpeg_command" where
  "apply_tune encoder tune cmd =
     (if \<not> str_ends_with encoder ''_nvenc'' \<and> \<not> str_ends_with encoder ''_qsv''
         \<and> \<not> str_ends_with encoder ''_vaapi'' \<and> \<not> str_ends_with encoder ''_videotoolbox''
      then cmd_arg tune (cmd_arg ''-tune'' cmd) else cmd)"

definition encoder_supports_hdr :: "string \<Rightarrow> bool" where
  "encoder_supports_hdr codec = (codec \<in> set [''hevc'', ''h265'', ''av1'', ''h264''])"

definition strip_suffix_char :: "char \<Rightarrow> string \<Rightarrow> string option" where
  "strip_suffix_char c s = (if s \<noteq> [] \<and> last s = c then Some (butlast s) else None)"

definition parse_max_height :: "cmd_env \<Rightarrow> string \<Rightarrow> u32 option" where
  "parse_max_height E spec =
     (let s = ce_lowercase E spec in
      if s = ''4k'' then Some 2160
      else if s = ''8k'' then Some 4320
      else Option.bind (strip_suffix_char (CHR ''p'') s) (parse_unsigned U32_MAX))"

definition resolve_effective_hw ::
  "transcode_settings \<Rightarrow> hw_accel_config option \<Rightarrow> hw_accel_config option" where
  "resolve_effective_hw s hw =
     (case ts_hw s of
        None \<Rightarrow> hw
      | Some backend \<Rightarrow>
          if backend = ''none'' then None
          else let cfg = config_from_backend_with_system backend hw in
            if HwAccelConfig_enabled cfg then Some cfg else hw)"

section \<open>Video filters\<close>

definition source_video_track :: "media_file \<Rightarrow> planned_action \<Rightarrow> track option" where
  "source_video_track f a =
     Option.bind (pa_track_index a)
       (\<lambda>i. find (\<lambda>t. tr_index t = i \<and> tr_track_type t = Video) (mf_tracks f))"

definition should_tonemap :: "transcode_settings \<Rightarrow> bool" where
  "should_tonemap s =
     (ts_hdr_mode s = Some ''tonemap'' \<or> ts_preserve_hdr s = Some False \<or> ts_tonemap s \<noteq> None)"

definition should_preserve_hdr :: "track \<Rightarrow> transcode_settings \<Rightarrow> bool" where
  "should_preserve_hdr t s =
     (tr_is_hdr t \<and> \<not> should_tonemap s
      \<and> (case ts_preserve_hdr s of Some b \<Rightarrow> b | None \<Rightarrow> True))"

definition tone_map_filter :: "string \<Rightarrow> string" where
  "tone_map_filter algorithm =
     ''zscale=t=linear:npl=100,format=gbrpf32le,zscale=p=bt709,tonemap=tonemap='' @ algorithm
     @ '':desat=0,zscale=t=bt709:m=bt709:r=tv,format=yuv420p''"

definition checked_sub :: "nat \<Rightarrow> nat \<Rightarrow> nat option" where
  "checked_sub a b = (if b \<le> a then Some (a - b) else None)"

definition crop_filter :: "media_file \<Rightarrow> planned_action \<Rightarrow> transcode_settings \<Rightarrow> string option" where
  "crop_filter f a s =
     Option.bind (ts_crop s) (\<lambda>_.
     Option.bind (mf_crop_detection f) (\<lambda>detection.
       let r = cd_rect detection in
       if CropRect_is_empty r then None
       else
         Option.bind (source_video_track f a) (\<lambda>t.
         Option.bind (tr_width t) (\<lambda>source_width.
         Option.bind (tr_height t) (\<lambda>source_height.
         Option.bind (Option.bind (checked_sub source_width (cr_left r))
                        (\<lambda>w. checked_sub w (cr_right r))) (\<lambda>width.
         Option.bind (Option.bind (checked_sub source_height (cr_top r))
                        (\<lambda>h. checked_sub h (cr_bottom r))) (\<lambda>height.
           let w = width - width mod 2; h = height - height mod 2 in
           if w = 0 \<or> h = 0 then None
           else Some (''crop='' @ nat_str w @ '':'' @ nat_str h @ '':'' @ nat_str (cr_left r) @ '':''
                      @ nat_str (cr_top r)))))))))"

definition collect_video_filters :: "cmd_env \<Rightarrow> media_file \<Rightarrow> planned_action \<Rightarrow> string list" where
  "collect_video_filters E f a =
     (case pa_parameters a of
        ApTranscode codec s \<Rightarrow>
          (case crop_filter f a s of Some flt \<Rightarrow> [flt] | None \<Rightarrow> []) @
          (case Option.bind (ts_max_resolution s) (parse_max_height E) of
             Some max_h \<Rightarrow>
               [''scale=-2:'' @ [CHR 0x27] @ ''min(ih,'' @ nat_str max_h @ '')'' @ [CHR 0x27] @ '':flags=''
                @ (case ts_scale_algorithm s of Some x \<Rightarrow> x | None \<Rightarrow> ''lanczos'')]
           | None \<Rightarrow> []) @
          (if should_tonemap s
              \<and> (ts_hdr_mode s = Some ''tonemap''
                 \<or> (case source_video_track f a of Some t \<Rightarrow> tr_is_hdr t | None \<Rightarrow> False))
           then [tone_map_filter (case ts_tonemap s of Some x \<Rightarrow> x | None \<Rightarrow> ''bt2390'')]
           else [])
      | _ \<Rightarrow> [])"

definition requires_software_video_filters :: "cmd_env \<Rightarrow> transcode_settings \<Rightarrow> bool" where
  "requires_software_video_filters E s =
     (Option.bind (ts_max_resolution s) (parse_max_height E) \<noteq> None \<or> should_tonemap s
      \<or> ts_crop s \<noteq> None)"

section \<open>HDR\<close>

definition hdr_color_primaries :: "track \<Rightarrow> string" where
  "hdr_color_primaries t = (case tr_color_primaries t of Some x \<Rightarrow> x | None \<Rightarrow> ''bt2020'')"

definition hdr_color_transfer :: "track \<Rightarrow> string" where
  "hdr_color_transfer t = (case tr_color_transfer t of Some x \<Rightarrow> x | None \<Rightarrow> ''smpte2084'')"

definition hdr_color_matrix :: "track \<Rightarrow> string" where
  "hdr_color_matrix t = (case tr_color_matrix t of Some x \<Rightarrow> x | None \<Rightarrow> ''bt2020nc'')"

definition x265_hdr_params :: "track \<Rightarrow> string" where
  "x265_hdr_params t =
     str_join '':''
       ([''colorprim='' @ hdr_color_primaries t, ''transfer='' @ hdr_color_transfer t,
         ''colormatrix='' @ hdr_color_matrix t] @
        (case tr_master_display t of Some d \<Rightarrow> [''master-display='' @ d] | None \<Rightarrow> []) @
        (case (tr_max_cll t, tr_max_fall t) of
           (Some cll, Some fall) \<Rightarrow> [''max-cll='' @ nat_str cll @ '','' @ nat_str fall]
         | _ \<Rightarrow> []))"

definition ffmpeg_error :: "string \<Rightarrow> voom_error" where
  "ffmpeg_error message = ToolExecution ''ffmpeg'' message"

definition apply_hdr_preservation ::
  "string \<Rightarrow> string \<Rightarrow> track \<Rightarrow> ffmpeg_command \<Rightarrow> voom_error + ffmpeg_command" where
  "apply_hdr_preservation encoder codec t cmd =
     (if \<not> encoder_supports_hdr codec
      then Inl (ffmpeg_error
        (''cannot preserve '' @ (case tr_hdr_format t of Some x \<Rightarrow> x | None \<Rightarrow> ''source'')
         @ '' HDR metadata while transcoding to '' @ codec
         @ ''; choose hevc or av1, or set preserve_hdr: false to tone-map to SDR''))
      else
        let cmd = video_color_metadata (hdr_color_primaries t) (hdr_color_transfer t)
                    (hdr_color_matrix t) cmd in
        if codec = ''hevc'' \<or> str_contains encoder ''265'' \<or> str_contains encoder ''hevc''
        then
          let cmd = cmd_arg
                (if str_ends_with encoder ''_vaapi'' \<or> str_ends_with encoder ''_qsv''
                    \<or> str_ends_with encoder ''_nvenc'' then ''p010le'' else ''yuv420p10le'')
                (cmd_arg ''-pix_fmt'' cmd) in
          Inr (if encoder = ''libx265'' then x265_params (x265_hdr_params t) cmd else cmd)
        else Inr cmd)"

definition apply_sdr_color_metadata :: "ffmpeg_command \<Rightarrow> ffmpeg_command" where
  "apply_sdr_color_metadata cmd = video_color_metadata ''bt709'' ''bt709'' ''bt709'' cmd"

section \<open>Transcoding\<close>

definition hw_fallback_error :: "string \<Rightarrow> transcode_settings \<Rightarrow> hw_accel_config option \<Rightarrow> voom_error option" where
  "hw_fallback_error codec s effective_hw =
     (if (case ts_hw s of Some v \<Rightarrow> v \<noteq> ''none'' | None \<Rightarrow> False) \<and> ts_hw_fallback s = Some False
      then case effective_hw of
        Some c \<Rightarrow>
          if has_hw_encoder c codec then None
          else Some (ffmpeg_error (''HW encoder for '' @ codec
            @ '' not available on this device and hw_fallback is disabled''))
      | None \<Rightarrow>
          Some (ffmpeg_error (''no HW acceleration backend available for '' @ codec
            @ '' and hw_fallback is disabled''))
      else None)"

definition video_encoder :: "hw_accel_config option \<Rightarrow> string \<Rightarrow> string" where
  "video_encoder effective_hw codec =
     (case effective_hw of Some c \<Rightarrow> encoder_name c codec | None \<Rightarrow> software_encoder codec)"

definition apply_video_options ::
  "string \<Rightarrow> u32 option \<Rightarrow> transcode_settings \<Rightarrow> ffmpeg_command \<Rightarrow> ffmpeg_command" where
  "apply_video_options encoder stream s cmd =
     (let cmd = (case stream of
                   Some i \<Rightarrow> video_codec_for_track i encoder cmd
                 | None \<Rightarrow> video_codec encoder cmd);
          cmd = opt_cmd (apply_quality encoder) (ts_crf s) cmd;
          cmd = opt_cmd (apply_preset encoder) (ts_preset s) cmd;
          cmd = opt_cmd (apply_tune encoder) (ts_tune s) cmd
      in opt_cmd (\<lambda>b c. cmd_arg b (cmd_arg ''-b:v'' c)) (ts_bitrate s) cmd)"

definition apply_color_options ::
  "string \<Rightarrow> string \<Rightarrow> track option \<Rightarrow> transcode_settings \<Rightarrow> ffmpeg_command
     \<Rightarrow> voom_error + ffmpeg_command" where
  "apply_color_options encoder codec source_track s cmd =
     (case source_track of
        None \<Rightarrow> Inr cmd
      | Some t \<Rightarrow>
          if should_preserve_hdr t s then apply_hdr_preservation encoder codec t cmd
          else if tr_is_hdr t \<and> should_tonemap s then Inr (apply_sdr_color_metadata cmd)
          else Inr cmd)"

definition apply_video_filters :: "string list \<Rightarrow> ffmpeg_command \<Rightarrow> ffmpeg_command" where
  "apply_video_filters filters cmd =
     (if filters = [] then cmd else video_filter (str_join '','' filters) cmd)"

definition apply_transcode_video ::
  "cmd_env \<Rightarrow> media_file \<Rightarrow> planned_action \<Rightarrow> hw_accel_config option \<Rightarrow> ffmpeg_command
     \<Rightarrow> voom_error + ffmpeg_command" where
  "apply_transcode_video E f a hw cmd =
     (case pa_parameters a of
        ApTranscode codec s \<Rightarrow>
          (let effective_hw = resolve_effective_hw s hw in
           case hw_fallback_error codec s effective_hw of
             Some e \<Rightarrow> Inl e
           | None \<Rightarrow>
               let encoder = video_encoder effective_hw codec;
                   cmd = apply_video_options encoder (pa_track_index a) s cmd
               in case apply_color_options encoder codec (source_video_track f a) s cmd of
                    Inl e \<Rightarrow> Inl e
                  | Inr cmd \<Rightarrow> Inr (apply_video_filters (collect_video_filters E f a) cmd))
      | _ \<Rightarrow> Inr cmd)"

definition apply_transcode_audio ::
  "cmd_env \<Rightarrow> planned_action \<Rightarrow> ffmpeg_command \<Rightarrow> ffmpeg_command" where
  "apply_transcode_audio E a cmd =
     (case pa_parameters a of
        ApTranscode codec s \<Rightarrow>
          apply_audio_codec_args E (pa_track_index a) (software_encoder codec) (ts_bitrate s)
            (Option.bind (ts_channels s) to_count) (ts_loudness s) cmd
      | _ \<Rightarrow> cmd)"

definition apply_synthesize_audio ::
  "cmd_env \<Rightarrow> planned_action \<Rightarrow> ffmpeg_command \<Rightarrow> ffmpeg_command" where
  "apply_synthesize_audio E a cmd =
     (case pa_parameters a of
        ApSynthesize sp \<Rightarrow>
          apply_audio_codec_args E (pa_track_index a)
            (software_encoder (case sp_codec sp of Some c \<Rightarrow> c | None \<Rightarrow> ''aac''))
            (sp_bitrate sp) (sp_channels sp) (sp_loudness sp) cmd
      | _ \<Rightarrow> cmd)"

definition pixel_format_allows_direct_hw_decode :: "string option \<Rightarrow> bool" where
  "pixel_format_allows_direct_hw_decode pixel_format =
     (case pixel_format of
        None \<Rightarrow> True
      | Some fmt \<Rightarrow>
          let lower = to_ascii_lowercase fmt in
          \<not> list_ex (str_contains lower)
              [''alpha'', ''yuva'', ''rgba'', ''bgra'', ''gbr'', ''rgb''])"

definition action_allows_direct_hw_decode ::
  "cmd_env \<Rightarrow> media_file \<Rightarrow> planned_action \<Rightarrow> hw_accel_config \<Rightarrow> string list" where
  "action_allows_direct_hw_decode E f a c =
     (case pa_parameters a of
        ApTranscode codec s \<Rightarrow>
          if \<not> has_hw_encoder c codec then []
          else if requires_software_video_filters E s then []
          else (case source_video_track f a of
                  None \<Rightarrow> []
                | Some t \<Rightarrow>
                    if \<not> pixel_format_allows_direct_hw_decode (tr_pixel_format t) then []
                    else decoder_input_args c (tr_codec t))
      | _ \<Rightarrow> [])"

section \<open>Stream metadata\<close>

record output_stream =
  otm_output_index :: u32
  otm_input_index :: u32
  otm_language :: string
  otm_title :: string
  otm_is_default :: bool
  otm_is_forced :: bool

definition OutputTrackMetadata_from_track :: "u32 \<Rightarrow> track \<Rightarrow> output_stream" where
  "OutputTrackMetadata_from_track output_index t =
     \<lparr>otm_output_index = output_index, otm_input_index = tr_index t, otm_language = tr_language t,
      otm_title = tr_title t, otm_is_default = tr_is_default t, otm_is_forced = tr_is_forced t\<rparr>"

definition disposition_value :: "output_stream \<Rightarrow> string" where
  "disposition_value m =
     (case (otm_is_default m, otm_is_forced m) of
        (True, True) \<Rightarrow> ''default+forced'' | (True, False) \<Rightarrow> ''default''
      | (False, True) \<Rightarrow> ''forced'' | (False, False) \<Rightarrow> ''0'')"

definition mapped_tracks :: "media_file \<Rightarrow> bool \<Rightarrow> track list" where
  "mapped_tracks f exclude_attachments =
     filter (\<lambda>t. \<not> (exclude_attachments \<and> tr_track_type t = Attachment)) (mf_tracks f)"

definition output_track_metadata :: "media_file \<Rightarrow> bool \<Rightarrow> output_stream list" where
  "output_track_metadata f exclude_attachments =
     map (\<lambda>(i, t). OutputTrackMetadata_from_track i t)
       (List.enumerate 0 (mapped_tracks f exclude_attachments))"

definition metadata_action ::
  "cmd_env \<Rightarrow> planned_action \<Rightarrow> output_stream \<Rightarrow> voom_error + output_stream" where
  "metadata_action E a m =
     (case pa_operation a of
        SetDefault \<Rightarrow> Inr (m\<lparr>otm_is_default := True\<rparr>)
      | ClearDefault \<Rightarrow> Inr (m\<lparr>otm_is_default := False\<rparr>)
      | SetForced \<Rightarrow> Inr (m\<lparr>otm_is_forced := True\<rparr>)
      | ClearForced \<Rightarrow> Inr (m\<lparr>otm_is_forced := False\<rparr>)
      | SetTitle \<Rightarrow>
          (case pa_parameters a of
             ApTitle title \<Rightarrow>
               (case validate_metadata_value E title of
                  Inl e \<Rightarrow> Inl e | Inr _ \<Rightarrow> Inr (m\<lparr>otm_title := title\<rparr>))
           | _ \<Rightarrow> Inr m)
      | SetLanguage \<Rightarrow>
          (case pa_parameters a of
             ApLanguage language \<Rightarrow>
               (case validate_metadata_value E language of
                  Inl e \<Rightarrow> Inl e | Inr _ \<Rightarrow> Inr (m\<lparr>otm_language := language\<rparr>))
           | _ \<Rightarrow> Inr m)
      | _ \<Rightarrow> Inr m)"

text \<open>The first stream with the input index of the action is changed.\<close>

fun update_stream ::
  "cmd_env \<Rightarrow> planned_action \<Rightarrow> u32 \<Rightarrow> output_stream list
     \<Rightarrow> voom_error + output_stream list" where
  "update_stream E a i [] = Inr []"
| "update_stream E a i (m # ms) =
     (if otm_input_index m = i
      then (case metadata_action E a m of Inl e \<Rightarrow> Inl e | Inr m' \<Rightarrow> Inr (m' # ms))
      else (case update_stream E a i ms of Inl e \<Rightarrow> Inl e | Inr ms' \<Rightarrow> Inr (m # ms')))"

fun apply_track_metadata_actions ::
  "cmd_env \<Rightarrow> planned_action list \<Rightarrow> output_stream list
     \<Rightarrow> voom_error + output_stream list" where
  "apply_track_metadata_actions E [] streams = Inr streams"
| "apply_track_metadata_actions E (a # as) streams =
     (case pa_track_index a of
        None \<Rightarrow> apply_track_metadata_actions E as streams
      | Some i \<Rightarrow>
          (case update_stream E a i streams of
             Inl e \<Rightarrow> Inl e
           | Inr streams' \<Rightarrow> apply_track_metadata_actions E as streams'))"

fun emit_stream_metadata ::
  "cmd_env \<Rightarrow> output_stream list \<Rightarrow> ffmpeg_command \<Rightarrow> voom_error + ffmpeg_command" where
  "emit_stream_metadata E [] cmd = Inr cmd"
| "emit_stream_metadata E (m # ms) cmd =
     (case validate_metadata_value E (otm_language m) of
        Inl e \<Rightarrow> Inl e
      | Inr _ \<Rightarrow>
          (case validate_metadata_value E (otm_title m) of
             Inl e \<Rightarrow> Inl e
           | Inr _ \<Rightarrow>
               emit_stream_metadata E ms
                 (cmd_disposition (otm_output_index m) (disposition_value m)
                   (cmd_metadata (Some (otm_output_index m)) ''title'' (otm_title m)
                     (cmd_metadata (Some (otm_output_index m)) ''language'' (otm_language m) cmd)))))"

definition apply_preserved_stream_metadata ::
  "cmd_env \<Rightarrow> media_file \<Rightarrow> bool \<Rightarrow> planned_action list \<Rightarrow> ffmpeg_command
     \<Rightarrow> voom_error + ffmpeg_command" where
  "apply_preserved_stream_metadata E f exclude_attachments as cmd =
     (let streams = output_track_metadata f exclude_attachments in
      if streams = [] then Inr cmd
      else case apply_track_metadata_actions E as streams of
        Inl e \<Rightarrow> Inl e
      | Inr streams' \<Rightarrow> emit_stream_metadata E streams' (map_chapters 0 (map_metadata 0 cmd)))"

section \<open>The command\<close>

fun clear_tags :: "cmd_env \<Rightarrow> string list \<Rightarrow> ffmpeg_command \<Rightarrow> voom_error + ffmpeg_command" where
  "clear_tags E [] cmd = Inr cmd"
| "clear_tags E (tag # tags) cmd =
     (case validate_metadata_key E tag of
        Inl e \<Rightarrow> Inl e
      | Inr _ \<Rightarrow> clear_tags E tags (clear_metadata tag cmd))"

definition apply_ffmpeg_action ::
  "cmd_env \<Rightarrow> media_file \<Rightarrow> hw_accel_config option \<Rightarrow> planned_action \<Rightarrow> ffmpeg_command
     \<Rightarrow> voom_error + ffmpeg_command" where
  "apply_ffmpeg_action E f hw a cmd =
     (case pa_operation a of
        TranscodeVideo \<Rightarrow> apply_transcode_video E f a hw cmd
      | TranscodeAudio \<Rightarrow> Inr (apply_transcode_audio E a cmd)
      | SynthesizeAudio \<Rightarrow> Inr (apply_synthesize_audio E a cmd)
      | SetContainerTag \<Rightarrow>
          (case pa_parameters a of
             ApSetTag tag v \<Rightarrow>
               (case validate_metadata_key E tag of
                  Inl e \<Rightarrow> Inl e
                | Inr _ \<Rightarrow>
                    (case validate_metadata_value E v of
                       Inl e \<Rightarrow> Inl e
                     | Inr _ \<Rightarrow> Inr (cmd_metadata None tag v cmd)))
           | _ \<Rightarrow> Inr cmd)
      | ClearContainerTags \<Rightarrow>
          (case pa_parameters a of ApClearTags tags \<Rightarrow> clear_tags E tags cmd | _ \<Rightarrow> Inr cmd)
      | DeleteContainerTag \<Rightarrow>
          (case pa_parameters a of ApDeleteTag tag \<Rightarrow> clear_tags E [tag] cmd | _ \<Rightarrow> Inr cmd)
      | _ \<Rightarrow> Inr cmd)"

fun apply_ffmpeg_actions ::
  "cmd_env \<Rightarrow> media_file \<Rightarrow> hw_accel_config option \<Rightarrow> planned_action list \<Rightarrow> ffmpeg_command
     \<Rightarrow> voom_error + ffmpeg_command" where
  "apply_ffmpeg_actions E f hw [] cmd = Inr cmd"
| "apply_ffmpeg_actions E f hw (a # as) cmd =
     (case apply_ffmpeg_action E f hw a cmd of
        Inl e \<Rightarrow> Inl e | Inr cmd' \<Rightarrow> apply_ffmpeg_actions E f hw as cmd')"

text \<open>The decode arguments of the first video transcode that has some.\<close>

definition transcode_decode_args ::
  "cmd_env \<Rightarrow> media_file \<Rightarrow> hw_accel_config option \<Rightarrow> planned_action \<Rightarrow> string list option" where
  "transcode_decode_args E f hw a =
     (if pa_operation a \<noteq> TranscodeVideo then None
      else case pa_parameters a of
        ApTranscode codec s \<Rightarrow>
          (case resolve_effective_hw s hw of
             None \<Rightarrow> None
           | Some c \<Rightarrow>
               let args = action_allows_direct_hw_decode E f a c in
               if args = [] then None else Some args)
      | _ \<Rightarrow> None)"

definition hw_decode_args ::
  "cmd_env \<Rightarrow> media_file \<Rightarrow> planned_action list \<Rightarrow> hw_accel_config option \<Rightarrow> string list" where
  "hw_decode_args E f as hw =
     (case find_map (transcode_decode_args E f hw) as of Some args \<Rightarrow> args | None \<Rightarrow> [])"

definition build_ffmpeg_command ::
  "cmd_env \<Rightarrow> media_file \<Rightarrow> planned_action list \<Rightarrow> string \<Rightarrow> hw_accel_config option
     \<Rightarrow> voom_error + string list" where
  "build_ffmpeg_command E f as output_path hw =
     (let cmd = FfmpegCommand_new;
          cmd = fold cmd_arg (case hw of Some c \<Rightarrow> device_args c | None \<Rightarrow> []) cmd;
          cmd = fold cmd_arg (hw_decode_args E f as hw) cmd;
          exclude_attachments = list_ex (\<lambda>a. pa_operation a = TranscodeVideo) as;
          cmd = cmd_input E (mf_path f) cmd;
          cmd = (if exclude_attachments then map_non_attachment_tracks f cmd else map_all cmd);
          cmd = codec_copy cmd
      in case apply_ffmpeg_actions E f hw as cmd of
           Inl e \<Rightarrow> Inl e
         | Inr cmd \<Rightarrow>
             (case apply_preserved_stream_metadata E f exclude_attachments as cmd of
                Inl e \<Rightarrow> Inl e
              | Inr cmd \<Rightarrow> Inr (cmd_output E output_path cmd)))"

text \<open>\<open>Path::extension\<close>: what follows the last dot of the file name, unless the dot comes first.\<close>

definition path_extension :: "string \<Rightarrow> string option" where
  "path_extension p =
     Option.bind (path_file_name p) (\<lambda>name.
       let ext = rev (takeWhile (\<lambda>c. c \<noteq> CHR ''.'') (rev name)) in
       if length ext + 1 < length name then Some ext else None)"

definition container_of_action :: "planned_action \<Rightarrow> string option" where
  "container_of_action a =
     (if pa_operation a = ConvertContainer
      then (case pa_parameters a of ApContainer c \<Rightarrow> Some (Container_as_str c) | _ \<Rightarrow> None)
      else None)"

definition output_extension :: "cmd_env \<Rightarrow> media_file \<Rightarrow> planned_action list \<Rightarrow> string" where
  "output_extension E f as =
     (case find_map container_of_action as of
        Some ext \<Rightarrow> ext
      | None \<Rightarrow>
          (case mf_container f of
             Other \<Rightarrow>
               (case path_extension (mf_path f) of
                  Some e \<Rightarrow> if ce_is_utf8 E e then e else ''mkv''
                | None \<Rightarrow> ''mkv'')
           | c \<Rightarrow> Container_as_str c))"


end
