(* ===== verification/Process.thy ===== *)
theory Process
  imports Media
begin

text \<open>
  Running external tools, \<open>crates/voom-process/src/lib.rs\<close>: the bounded capture of their output, the
  outcome of a run with a deadline, and the texts made from a run. What the operating system reports
  of a process (starting it, waiting for it, reading its pipes) is a parameter.
\<close>

section \<open>Bounded capture\<close>

record bounded_capture =
  bc_output :: string
  bc_truncated_bytes :: usize
  bc_max_bytes :: usize

definition BoundedCapture_new :: "usize \<Rightarrow> bounded_capture" where
  "BoundedCapture_new max_bytes =
     \<lparr>bc_output = [], bc_truncated_bytes = 0, bc_max_bytes = max_bytes\<rparr>"

definition capture_push :: "string \<Rightarrow> bounded_capture \<Rightarrow> bounded_capture" where
  "capture_push chunk b =
     (let remaining = bc_max_bytes b - length (bc_output b);
          retained = min remaining (length chunk)
      in b\<lparr>bc_output := bc_output b @ take retained chunk,
           bc_truncated_bytes := min U64_MAX (bc_truncated_bytes b + (length chunk - retained))\<rparr>)"

definition append_truncation_marker :: "string \<Rightarrow> usize \<Rightarrow> string" where
  "append_truncation_marker buf truncated_bytes =
     (if truncated_bytes = 0 then buf
      else (if buf \<noteq> [] \<and> last buf \<noteq> CHR 0x0A then buf @ [CHR 0x0A] else buf)
        @ ''...[truncated '' @ nat_str truncated_bytes @ '' bytes]'')"

definition capture_finish :: "bounded_capture \<Rightarrow> string" where
  "capture_finish b = append_truncation_marker (bc_output b) (bc_truncated_bytes b)"

text \<open>The reads of a stream: chunks of data up to the end of the stream or an error.\<close>

fun read_chunks :: "bounded_capture \<Rightarrow> (string + string) list \<Rightarrow> string + bounded_capture" where
  "read_chunks b [] = Inr b"
| "read_chunks b (Inl e # reads) = Inl e"
| "read_chunks b (Inr chunk # reads) =
     (if chunk = [] then Inr b else read_chunks (capture_push chunk b) reads)"

definition read_bounded :: "(string + string) list \<Rightarrow> usize \<Rightarrow> string + string" where
  "read_bounded reads max_bytes =
     map_sum id capture_finish (read_chunks (BoundedCapture_new max_bytes) reads)"

section \<open>A run with a deadline\<close>

datatype spawn_error_kind = SpawnNotFound | SpawnOther

definition spawn_error :: "string \<Rightarrow> spawn_error_kind \<times> string \<Rightarrow> voom_error" where
  "spawn_error tool e =
     (case fst e of
        SpawnNotFound \<Rightarrow> ToolNotFound tool
      | SpawnOther \<Rightarrow> ToolExecution tool (''failed to spawn '' @ tool @ '': '' @ snd e))"

record process_output =
  po_code :: "int option"
  po_stdout :: string
  po_stderr :: string

definition po_success :: "process_output \<Rightarrow> bool" where
  "po_success out = (po_code out = Some 0)"

datatype reader_end = ReaderDone "string + string" | ReaderPanicked string

definition join_pipe_reader :: "string \<Rightarrow> string \<Rightarrow> reader_end \<Rightarrow> voom_error + string" where
  "join_pipe_reader tool stream_name r =
     (case r of
        ReaderDone (Inr out) \<Rightarrow> Inr out
      | ReaderDone (Inl e) \<Rightarrow>
          Inl (ToolExecution tool (''failed to capture '' @ stream_name @ '' from '' @ tool @ '': '' @ e))
      | ReaderPanicked e \<Rightarrow>
          Inl (ToolExecution tool (''capture thread for '' @ stream_name @ '' from '' @ tool
            @ '' panicked: '' @ e)))"

definition join_pipe_readers ::
  "string \<Rightarrow> reader_end \<Rightarrow> reader_end \<Rightarrow> voom_error + string \<times> string" where
  "join_pipe_readers tool so se =
     (case join_pipe_reader tool ''stdout'' so of
        Inl e \<Rightarrow> Inl e
      | Inr stdout \<Rightarrow>
          (case join_pipe_reader tool ''stderr'' se of
             Inl e \<Rightarrow> Inl e
           | Inr stderr \<Rightarrow> Inr (stdout, stderr)))"

datatype wait_end = Exited "int option" | TimedOut | WaitFailed string

text \<open>
  What the system reports of one process: whether it starts, the reads of its two pipes (or the
  panic of a reader), and how the wait ends.
\<close>

record os_process =
  os_spawn :: "(spawn_error_kind \<times> string) option"
  os_stdout :: "string + (string + string) list"
  os_stderr :: "string + (string + string) list"
  os_wait :: wait_end

record capture_config =
  cc_max_stdout_bytes :: usize
  cc_max_stderr_bytes :: usize

definition CaptureConfig_default :: capture_config where
  "CaptureConfig_default = \<lparr>cc_max_stdout_bytes = 1048576, cc_max_stderr_bytes = 1048576\<rparr>"

definition pipe_reader :: "usize \<Rightarrow> string + (string + string) list \<Rightarrow> reader_end" where
  "pipe_reader max_bytes r =
     (case r of Inl e \<Rightarrow> ReaderPanicked e | Inr reads \<Rightarrow> ReaderDone (read_bounded reads max_bytes))"

definition run_with_timeout_env_config ::
  "string \<Rightarrow> string \<Rightarrow> capture_config \<Rightarrow> os_process \<Rightarrow> voom_error + process_output" where
  "run_with_timeout_env_config tool timeout_secs capture os =
     (case os_spawn os of
        Some e \<Rightarrow> Inl (spawn_error tool e)
      | None \<Rightarrow>
          (case os_wait os of
             Exited code \<Rightarrow>
               (case join_pipe_readers tool (pipe_reader (cc_max_stdout_bytes capture) (os_stdout os))
                       (pipe_reader (cc_max_stderr_bytes capture) (os_stderr os)) of
                  Inl e \<Rightarrow> Inl e
                | Inr (stdout, stderr) \<Rightarrow>
                    Inr \<lparr>po_code = code, po_stdout = stdout, po_stderr = stderr\<rparr>)
           | TimedOut \<Rightarrow>
               Inl (ToolExecution tool (tool @ '' timed out after '' @ timeout_secs @ ''s''))
           | WaitFailed e \<Rightarrow>
               Inl (ToolExecution tool (''error waiting for '' @ tool @ '': '' @ e))))"

definition run_with_timeout_env :: "string \<Rightarrow> string \<Rightarrow> os_process \<Rightarrow> voom_error + process_output" where
  "run_with_timeout_env tool timeout_secs os =
     run_with_timeout_env_config tool timeout_secs CaptureConfig_default os"

definition probe_tool_status :: "string \<Rightarrow> string \<Rightarrow> os_process \<Rightarrow> bool" where
  "probe_tool_status tool timeout_secs os =
     (case run_with_timeout_env tool timeout_secs os of Inr out \<Rightarrow> po_success out | Inl _ \<Rightarrow> False)"

section \<open>Texts\<close>

text \<open>\<open>char::is_whitespace\<close> somewhere in the bytes of a string.\<close>

fun has_white_space :: "string \<Rightarrow> bool" where
  "has_white_space [] = False"
| "has_white_space (c # cs) = (ws_prefix (c # cs) \<noteq> None \<or> has_white_space cs)"

definition quote_chars :: string where
  "quote_chars = [CHR 0x22, CHR 0x27, CHR 0x5C, CHR 0x24, CHR 0x60, CHR 0x21, CHR 0x23, CHR 0x26,
     CHR 0x7C, CHR 0x3B, CHR 0x28, CHR 0x29, CHR 0x7B, CHR 0x7D, CHR 0x5B, CHR 0x5D, CHR 0x3C,
     CHR 0x3E, CHR 0x3F, CHR 0x2A, CHR 0x7E]"

definition needs_quotes :: "string \<Rightarrow> bool" where
  "needs_quotes s = (has_white_space s \<or> list_ex (\<lambda>c. c \<in> set quote_chars) s)"

definition single_quoted :: "string \<Rightarrow> string" where
  "single_quoted s =
     [CHR 0x27] @ str_replace [CHR 0x27] [CHR 0x27, CHR 0x5C, CHR 0x27, CHR 0x27] s @ [CHR 0x27]"

definition quote_tool :: "string \<Rightarrow> string" where
  "quote_tool s = (if needs_quotes s then single_quoted s else s)"

definition quote_arg :: "string \<Rightarrow> string" where
  "quote_arg s = (if s = [] \<or> needs_quotes s then single_quoted s else s)"

definition shell_quote_args :: "string \<Rightarrow> string list \<Rightarrow> string" where
  "shell_quote_args tool args = str_join '' '' (quote_tool tool # map quote_arg args)"

text \<open>
  \<open>str::lines\<close>: the pieces that end with a line feed, without it and one carriage return before it,
  and what follows the last line feed, if anything.
\<close>

definition strip_cr :: "string \<Rightarrow> string" where
  "strip_cr l = (if l \<noteq> [] \<and> last l = CHR 0x0D then butlast l else l)"

definition str_lines :: "string \<Rightarrow> string list" where
  "str_lines s =
     (let ps = split_on (CHR 0x0A) s in
      map strip_cr (butlast ps) @ (if last ps = [] then [] else [last ps]))"

definition stderr_tail :: "(string \<Rightarrow> string) \<Rightarrow> string \<Rightarrow> usize \<Rightarrow> string" where
  "stderr_tail lossy bytes max_lines =
     (let ls = filter (\<lambda>l. l \<noteq> []) (str_lines (lossy bytes))
      in str_join [CHR 0x0A] (drop (length ls - max_lines) ls))"

section \<open>Capture does not depend on the chunks\<close>

lemma read_chunks_data:
  assumes "\<forall>c \<in> set chunks. c \<noteq> []" "length (bc_output b) \<le> bc_max_bytes b"
    "bc_truncated_bytes b + length (concat chunks) \<le> U64_MAX"
    "0 < bc_truncated_bytes b \<longrightarrow> length (bc_output b) = bc_max_bytes b"
  shows "read_chunks b (map Inr chunks @ [Inr []]) =
    Inr (b\<lparr>bc_output := take (bc_max_bytes b) (bc_output b @ concat chunks),
           bc_truncated_bytes := bc_truncated_bytes b
             + (length (bc_output b) + length (concat chunks) - bc_max_bytes b)\<rparr>)"
  using assms
proof (induction chunks arbitrary: b)
  case (Cons c chunks)
  let ?b = "capture_push c b"
  let ?k = "min (bc_max_bytes b - length (bc_output b)) (length c)"
  have b: "bc_output ?b = bc_output b @ take ?k c" "bc_max_bytes ?b = bc_max_bytes b"
    "bc_truncated_bytes ?b = bc_truncated_bytes b + (length c - ?k)"
    using Cons.prems(3) by (simp_all add: capture_push_def Let_def)
  have "read_chunks ?b (map Inr chunks @ [Inr []]) =
      Inr (?b\<lparr>bc_output := take (bc_max_bytes ?b) (bc_output ?b @ concat chunks),
           bc_truncated_bytes := bc_truncated_bytes ?b
             + (length (bc_output ?b) + length (concat chunks) - bc_max_bytes ?b)\<rparr>)"
    by (rule Cons.IH) (use Cons.prems in \<open>auto simp: b min_def\<close>)
  then show ?case
    using Cons.prems by (auto simp: b capture_push_def Let_def min_def)
qed simp

lemma read_bounded_spec:
  assumes "\<forall>c \<in> set chunks. c \<noteq> []" "length (concat chunks) \<le> U64_MAX"
  shows "read_bounded (map Inr chunks @ [Inr []]) max_bytes =
    Inr (append_truncation_marker (take max_bytes (concat chunks)) (length (concat chunks) - max_bytes))"
  using read_chunks_data [of chunks "BoundedCapture_new max_bytes"] assms
  by (simp add: read_bounded_def BoundedCapture_new_def capture_finish_def)

section \<open>Quoted commands read back\<close>

text \<open>
  The words a POSIX shell makes of a simple command without expansions (Shell Command Language,
  sections 2.2 to 2.4 and 2.9.1): blanks separate words, a backslash takes the next character as it
  is and joins lines, single quotes take everything up to the next one. \<open>None\<close> when the line is
  incomplete or has an unquoted character with another meaning: the operators and the new line,
  which end the command, the characters that start an expansion, a comment or a double-quoted text,
  the pattern characters, and braces and exclamation mark, which shells expand or reserve.
\<close>

definition sh_blank :: "char \<Rightarrow> bool" where
  "sh_blank c = (c \<in> {CHR '' '', CHR 0x09})"

definition sh_special :: "char \<Rightarrow> bool" where
  "sh_special c \<longleftrightarrow>
     c \<in> {CHR ''|'', CHR ''&'', CHR '';'', CHR ''<'', CHR ''>'', CHR ''('', CHR '')'', CHR 0x0A}
     \<or> c \<in> {CHR ''$'', CHR 0x60, CHR 0x22, CHR ''~'', CHR ''#''}
     \<or> c \<in> {CHR ''*'', CHR ''?'', CHR ''[''}
     \<or> c \<in> {CHR ''{'', CHR ''}'', CHR ''!''}"

fun sh_words :: "bool \<Rightarrow> string option \<Rightarrow> string \<Rightarrow> string list option" where
  "sh_words True w [] = None"
| "sh_words False None [] = Some []"
| "sh_words False (Some w) [] = Some [w]"
| "sh_words True w (c # cs) =
     (let x = (case w of None \<Rightarrow> [] | Some x \<Rightarrow> x) in
      if c = CHR 0x27 then sh_words False (Some x) cs else sh_words True (Some (x @ [c])) cs)"
| "sh_words False w (c # cs) =
     (let x = (case w of None \<Rightarrow> [] | Some x \<Rightarrow> x) in
      if sh_blank c
      then (case w of
              None \<Rightarrow> sh_words False None cs
            | Some y \<Rightarrow> map_option ((#) y) (sh_words False None cs))
      else if c = CHR 0x27 then sh_words True (Some x) cs
      else if c = CHR 0x5C
      then (case cs of
              [] \<Rightarrow> None
            | d # ds \<Rightarrow>
                if d = CHR 0x0A then sh_words False w ds else sh_words False (Some (x @ [d])) ds)
      else if sh_special c then None
      else sh_words False (Some (x @ [c])) cs)"

text \<open>
  The first word is not the name of a command if it is, unquoted, a reserved word or begins like an
  assignment.
\<close>

definition sh_reserved :: "string list" where
  "sh_reserved =
     [''!'', ''{'', ''}'', ''case'', ''do'', ''done'', ''elif'', ''else'', ''esac'', ''fi'', ''for'', ''if'',
      ''in'', ''then'', ''until'', ''while'']"

definition sh_name_char :: "char \<Rightarrow> bool" where
  "sh_name_char c \<longleftrightarrow> is_ascii_digit c \<or> c = CHR ''_''
     \<or> (CHR ''A'' \<le> c \<and> c \<le> CHR ''Z'') \<or> (CHR ''a'' \<le> c \<and> c \<le> CHR ''z'')"

definition sh_assigns :: "string \<Rightarrow> bool" where
  "sh_assigns s =
     (let n = takeWhile sh_name_char s in
      n \<noteq> [] \<and> \<not> is_ascii_digit (hd n) \<and> take 1 (dropWhile sh_name_char s) = ''='')"

definition sh_quotes :: "char \<Rightarrow> bool" where
  "sh_quotes c \<longleftrightarrow> c = CHR 0x27 \<or> c = CHR 0x5C"

definition sh_command :: "string \<Rightarrow> string list option" where
  "sh_command line =
     (let first = takeWhile (\<lambda>c. \<not> sh_blank c \<and> \<not> sh_quotes c) line;
          rest = drop (length first) line
      in if sh_assigns first \<or> first \<in> set sh_reserved \<and> (rest = [] \<or> sh_blank (hd rest)) then None
         else sh_words False None line)"

lemma sh_words_quoted:
  "sh_words True (Some w) (str_replace [CHR 0x27] [CHR 0x27, CHR 0x5C, CHR 0x27, CHR 0x27] s @ CHR 0x27 # cs)
     = sh_words False (Some (w @ s)) cs"
proof (induction s arbitrary: w)
  case (Cons c s)
  then show ?case by (cases "c = CHR 0x27") (simp_all add: sh_blank_def)
qed simp

lemma white_space_ascii:
  "\<not> has_white_space s \<Longrightarrow> c \<in> set s \<Longrightarrow> c \<notin> {CHR 0x20, CHR 0x09, CHR 0x0A}"
proof (induction s)
  case (Cons d s)
  have "ws_prefix (d # s) \<noteq> None" if "d \<in> {CHR 0x20, CHR 0x09, CHR 0x0A}"
    using that by (auto simp: ws_prefix_def white_space_def find_None_iff)
  with Cons show ?case by auto
qed simp

text \<open>Every character that means something to the shell is one that the code quotes.\<close>

lemma sh_special_quoted: "sh_special c \<Longrightarrow> c \<noteq> CHR 0x0A \<Longrightarrow> c \<in> set quote_chars"
  by (auto simp: sh_special_def quote_chars_def)

lemma plain_chars:
  assumes "\<not> needs_quotes s" "c \<in> set s"
  shows "\<not> sh_blank c" "\<not> sh_special c" "\<not> sh_quotes c"
proof -
  have "c \<notin> set quote_chars" "c \<notin> {CHR 0x20, CHR 0x09, CHR 0x0A}"
    using assms white_space_ascii by (auto simp: needs_quotes_def list_ex_iff)
  then show "\<not> sh_blank c" "\<not> sh_special c" "\<not> sh_quotes c"
    using sh_special_quoted [of c] by (auto simp: sh_blank_def sh_quotes_def quote_chars_def)
qed

lemma sh_words_plain:
  assumes "\<not> needs_quotes s" "s \<noteq> []"
  shows "sh_words False w (s @ cs) = sh_words False (Some ((case w of None \<Rightarrow> [] | Some x \<Rightarrow> x) @ s)) cs"
proof -
  have "\<forall>c \<in> set s. \<not> sh_blank c \<and> \<not> sh_special c \<and> \<not> sh_quotes c"
    using plain_chars [OF assms(1)] by blast
  then show ?thesis
    using assms(2)
  proof (induction s arbitrary: w)
    case (Cons c s)
    then show ?case by (cases "s = []") (simp_all add: sh_quotes_def)
  qed simp
qed

lemma sh_words_arg:
  "sh_words False None (quote_arg s @ cs) = sh_words False (Some s) cs"
  using sh_words_quoted [of "[]" s cs] sh_words_plain [of s None cs]
  by (auto simp: quote_arg_def single_quoted_def sh_blank_def)

lemma sh_words_join:
  "sh_words False (Some w) (concat (map (\<lambda>s. CHR 0x20 # quote_arg s) args)) = Some (w # args)"
  by (induction args arbitrary: w) (simp_all add: sh_words_arg sh_blank_def)

lemma str_join_blank: "str_join '' '' (x # map f ys) = x @ concat (map (\<lambda>y. CHR 0x20 # f y) ys)"
  by (induction ys arbitrary: x) simp_all

lemma sh_first_quoted: "sh_command (CHR 0x27 # cs) = sh_words False None (CHR 0x27 # cs)"
  by (simp add: sh_command_def sh_quotes_def sh_assigns_def sh_reserved_def)

lemma sh_first_plain:
  assumes "\<not> needs_quotes tool" "tool \<notin> set sh_reserved" "\<not> sh_assigns tool" "cs = [] \<or> sh_blank (hd cs)"
  shows "sh_command (tool @ cs) = sh_words False None (tool @ cs)"
proof -
  have "takeWhile (\<lambda>c. \<not> sh_blank c \<and> \<not> sh_quotes c) (tool @ cs) = tool"
    using plain_chars [OF assms(1)] assms(4) by (cases cs) (auto simp: takeWhile_append2)
  then show ?thesis using assms(2,3) by (simp add: sh_command_def)
qed

text \<open>
  C22: The command line recorded for a tool run reads back in a POSIX shell as exactly the tool and its
  arguments, whatever characters they contain, if the tool is not the empty text and, where the code
  does not quote it, is neither a reserved word of the shell nor an assignment.
\<close>
theorem shell_quote_roundtrip:
  assumes "tool \<noteq> []" "needs_quotes tool \<or> tool \<notin> set sh_reserved \<and> \<not> sh_assigns tool"
  shows "sh_command (shell_quote_args tool args) = Some (tool # args)"
proof -
  let ?rest = "concat (map (\<lambda>s. CHR 0x20 # quote_arg s) args)"
  have tool: "quote_tool tool = quote_arg tool" using assms by (simp add: quote_tool_def quote_arg_def)
  have rest: "?rest = [] \<or> sh_blank (hd ?rest)" by (cases args) (simp_all add: sh_blank_def)
  have "sh_command (quote_arg tool @ ?rest) = sh_words False None (quote_arg tool @ ?rest)"
  proof (cases "needs_quotes tool")
    case True
    then show ?thesis by (simp add: quote_arg_def single_quoted_def sh_first_quoted)
  next
    case False
    then show ?thesis using assms sh_first_plain [OF False _ _ rest] by (simp add: quote_arg_def)
  qed
  then show ?thesis
    by (simp add: shell_quote_args_def str_join_blank tool sh_words_arg sh_words_join)
qed

theorem shell_quote_roundtrip_witness:
  "sh_command (shell_quote_args ''ffmpeg'' [''-i'', ''a b'' @ [CHR 0x27] @ ''c'', ''$x''])
     = Some [''ffmpeg'', ''-i'', ''a b'' @ [CHR 0x27] @ ''c'', ''$x'']"
proof -
  have "''ffmpeg'' \<notin> set sh_reserved" "\<not> sh_assigns ''ffmpeg''" by code_simp+
  then show ?thesis
    using shell_quote_roundtrip [of "''ffmpeg''" "[''-i'', ''a b'' @ [CHR 0x27] @ ''c'', ''$x'']"] by simp
qed

text \<open>The hypothesis is needed: a tool of the name of a reserved word is not quoted.\<close>

lemma reserved_tool_not_quoted: "sh_command (shell_quote_args ''time=1'' [''x'']) = None"
  "sh_command (shell_quote_args ''while'' [''x'']) = None"
  by code_simp+

end
