(* ===== verification/Ffmpeg_Probe.thy ===== *)
theory Ffmpeg_Probe
  imports Ffmpeg_Command Process Capability "HOL-Library.Char_ord" "HOL-Library.List_Lexorder"
begin

text \<open>
  What the ffmpeg executor asks the installed tools: \<open>plugins/ffmpeg-executor/src/probe.rs\<close>. A tool is
  a parameter that gives the outcome of a process for its name, arguments and environment; texts
  are bytes, and a slice of a text at a byte inside a character panics, which is \<open>None\<close>.
\<close>

section \<open>Texts\<close>

definition is_utf8_tail :: "char \<Rightarrow> bool" where
  "is_utf8_tail c = (0x80 \<le> (of_char c :: nat) \<and> (of_char c :: nat) < 0xC0)"

definition is_char_boundary :: "string \<Rightarrow> nat \<Rightarrow> bool" where
  "is_char_boundary s n = (n = length s \<or> n < length s \<and> \<not> is_utf8_tail (s ! n))"

definition drop_char :: "string \<Rightarrow> string" where
  "drop_char s = dropWhile is_utf8_tail (tl s)"

definition split_at_byte :: "nat \<Rightarrow> string \<Rightarrow> (string \<times> string) option" where
  "split_at_byte n s = (if is_char_boundary s n then Some (take n s, drop n s) else None)"

text \<open>The first word of a text without leading white space: \<open>split_whitespace().next()\<close>.\<close>

fun first_word :: "string \<Rightarrow> string" where
  "first_word [] = []"
| "first_word (c # cs) = (if ws_prefix (c # cs) = None then c # first_word cs else [])"

text \<open>The lines after the first one with a mark, without the others that have it.\<close>

definition lines_after :: "(string \<Rightarrow> bool) \<Rightarrow> string \<Rightarrow> string list" where
  "lines_after mark output =
     filter (\<lambda>l. \<not> mark l) (dropWhile (\<lambda>l. \<not> mark l) (str_lines output))"

definition is_separator :: "string \<Rightarrow> bool" where
  "is_separator line = prefix '' ------'' line"

fun map_panics :: "('a \<Rightarrow> 'b option) \<Rightarrow> 'a list \<Rightarrow> 'b list option" where
  "map_panics f [] = Some []"
| "map_panics f (x # xs) =
     Option.bind (f x) (\<lambda>y. Option.bind (map_panics f xs) (\<lambda>ys. Some (y # ys)))"

section \<open>Parsing\<close>

text \<open>The flags and the name of a line; both empty when the line is too short.\<close>

definition flags_and_name :: "nat \<Rightarrow> nat \<Rightarrow> string \<Rightarrow> (string \<times> string) option" where
  "flags_and_name min_len flags_len line =
     (let trimmed = trim_start line in
      if length trimmed < min_len then Some ([], [])
      else map_option (\<lambda>(flags, rest). (flags, first_word (trim_start rest)))
        (split_at_byte flags_len trimmed))"

definition parse_codecs :: "string \<Rightarrow> codec_capabilities option" where
  "parse_codecs output =
     map_option (\<lambda>entries.
       let named = filter (\<lambda>(flags, name). name \<noteq> []) entries in
       \<lparr>cdc_decoders = map snd (filter (\<lambda>(flags, name). prefix ''D'' flags) named),
        cdc_encoders = map snd (filter (\<lambda>(flags, name). prefix ''E'' (drop_char flags)) named),
        cdc_hw_decoders = [], cdc_hw_encoders = []\<rparr>)
       (map_panics (flags_and_name 8 6) (lines_after is_separator output))"

definition format_names :: "string \<Rightarrow> string list" where
  "format_names field = filter (\<lambda>n. n \<noteq> []) (map str_trim (split_on CHR '','' field))"

definition parse_formats :: "string \<Rightarrow> string list option" where
  "parse_formats output =
     map_option (\<lambda>entries. remdups_adj (sort (concat (map (\<lambda>(flags, name). format_names name) entries))))
       (map_panics (flags_and_name 4 2) (lines_after is_separator output))"

definition HW_SUFFIXES :: "string list" where
  "HW_SUFFIXES =
     [''_nvenc'', ''_cuvid'', ''_qsv'', ''_vaapi'', ''_videotoolbox'', ''_amf'', ''_mf'', ''_v4l2m2m'']"

definition parse_hw_implementations :: "string \<Rightarrow> string list option" where
  "parse_hw_implementations output =
     map_option (\<lambda>entries.
         filter (\<lambda>name. name \<noteq> [] \<and> list_ex (str_ends_with name) HW_SUFFIXES) (map snd entries))
       (map_panics (flags_and_name 8 6) (lines_after is_separator output))"

definition parse_hwaccels :: "string \<Rightarrow> string list" where
  "parse_hwaccels output =
     filter (\<lambda>n. n \<noteq> [])
       (map str_trim (lines_after (\<lambda>l. str_contains l ''Hardware acceleration methods:'') output))"

record gpu_device =
  gd_id :: string
  gd_name :: string
  gd_vram_mib :: "u64 option"

text \<open>\<open>splitn(3, ',')\<close>: the third part keeps its commas.\<close>

definition parse_nvidia_line :: "string \<Rightarrow> gpu_device option" where
  "parse_nvidia_line line =
     (case split_on CHR '','' (str_trim line) of
        a # b # rest \<Rightarrow>
          Some \<lparr>gd_id = str_trim a, gd_name = str_trim b,
                gd_vram_mib = (if rest = [] then None
                  else parse_unsigned U64_MAX (str_trim (str_join '','' rest)))\<rparr>
      | _ \<Rightarrow> None)"

definition parse_nvidia_smi :: "string \<Rightarrow> gpu_device list" where
  "parse_nvidia_smi output = List.map_filter parse_nvidia_line (str_lines output)"

definition vainfo_name :: "string \<Rightarrow> string option" where
  "vainfo_name line =
     (if \<not> str_contains line ''Driver version'' then None
      else let after_colon = str_trim (last (split_on CHR '':'' line)) in
        if after_colon = [] then None else Some after_colon)"

definition parse_vainfo_device_name :: "string \<Rightarrow> string option" where
  "parse_vainfo_device_name output = find_map vainfo_name (str_lines output)"

section \<open>Probing\<close>

record probe_env =
  prb_run :: "string \<Rightarrow> string list \<Rightarrow> (string \<times> string) list \<Rightarrow> voom_error + process_output"
  prb_lossy :: "string \<Rightarrow> string"
  prb_dri :: "(string \<times> string) list option"
  prb_cards :: "(string \<times> string option) list option"

definition probe_stdout :: "probe_env \<Rightarrow> string \<Rightarrow> string list \<Rightarrow> string option" where
  "probe_stdout P tool args =
     (case prb_run P tool args [] of
        Inl e \<Rightarrow> None
      | Inr out \<Rightarrow> if po_success out then Some (prb_lossy P (po_stdout out)) else None)"

definition probe_status :: "probe_env \<Rightarrow> string \<Rightarrow> string list \<Rightarrow> (string \<times> string) list \<Rightarrow> bool" where
  "probe_status P tool args env =
     (case prb_run P tool args env of Inl e \<Rightarrow> False | Inr out \<Rightarrow> po_success out)"

definition run_capability_probe :: "probe_env \<Rightarrow> string \<Rightarrow> string \<Rightarrow> string option" where
  "run_capability_probe P tool flag = probe_stdout P tool [flag, ''-hide_banner'']"

text \<open>The value for a probe that gave no text, or the parsed text.\<close>

definition parsed_or :: "'a \<Rightarrow> (string \<Rightarrow> 'a option) \<Rightarrow> string option \<Rightarrow> 'a option" where
  "parsed_or fallback parse out = (case out of None \<Rightarrow> Some fallback | Some s \<Rightarrow> parse s)"

definition probe_codecs :: "probe_env \<Rightarrow> string \<Rightarrow> codec_capabilities option option" where
  "probe_codecs P tool =
     parsed_or None (\<lambda>s. map_option Some (parse_codecs s)) (run_capability_probe P tool ''-codecs'')"

definition probe_formats :: "probe_env \<Rightarrow> string \<Rightarrow> string list option" where
  "probe_formats P tool = parsed_or [] parse_formats (run_capability_probe P tool ''-formats'')"

definition probe_hwaccels :: "probe_env \<Rightarrow> string \<Rightarrow> string list" where
  "probe_hwaccels P tool =
     (case run_capability_probe P tool ''-hwaccels'' of None \<Rightarrow> [] | Some s \<Rightarrow> parse_hwaccels s)"

definition probe_hw_encoders :: "probe_env \<Rightarrow> string \<Rightarrow> string list option" where
  "probe_hw_encoders P tool = parsed_or [] parse_hw_implementations (run_capability_probe P tool ''-encoders'')"

definition probe_hw_decoders :: "probe_env \<Rightarrow> string \<Rightarrow> string list option" where
  "probe_hw_decoders P tool = parsed_or [] parse_hw_implementations (run_capability_probe P tool ''-decoders'')"

record ffmpeg_capabilities =
  fc_codecs :: "codec_capabilities option"
  fc_formats :: "string list"
  fc_hw_accels :: "string list"

text \<open>The five probes run at once; a panic in one of them reaches the caller.\<close>

definition probe_capabilities_with_tool :: "probe_env \<Rightarrow> string \<Rightarrow> ffmpeg_capabilities option" where
  "probe_capabilities_with_tool P tool =
     Option.bind (probe_codecs P tool) (\<lambda>codecs.
     Option.bind (probe_formats P tool) (\<lambda>formats.
     Option.bind (probe_hw_encoders P tool) (\<lambda>encoders.
     Option.bind (probe_hw_decoders P tool) (\<lambda>decoders.
       Some \<lparr>fc_codecs = map_option
               (\<lambda>c. c\<lparr>cdc_hw_encoders := encoders, cdc_hw_decoders := decoders\<rparr>) codecs,
             fc_formats = formats, fc_hw_accels = probe_hwaccels P tool\<rparr>))))"

definition null_source :: "string list" where
  "null_source = [''-hide_banner'', ''-nostdin'', ''-f'', ''lavfi'', ''-i'', ''nullsrc=s=256x256:d=0.04'']"

definition one_frame :: "string \<Rightarrow> string list" where
  "one_frame encoder = [''-frames:v'', ''1'', ''-c:v'', encoder, ''-f'', ''null'', ''-'']"

definition validate_hw_encoder :: "probe_env \<Rightarrow> string \<Rightarrow> bool" where
  "validate_hw_encoder P encoder = probe_status P ''ffmpeg'' (null_source @ one_frame encoder) []"

definition validate_hw_encoder_on_device ::
  "probe_env \<Rightarrow> hw_accel_backend \<Rightarrow> gpu_device \<Rightarrow> string \<Rightarrow> bool" where
  "validate_hw_encoder_on_device P backend device encoder =
     (case backend of
        Nvenc \<Rightarrow> probe_status P ''ffmpeg'' (null_source @ one_frame encoder)
          [(''CUDA_VISIBLE_DEVICES'', gd_id device)]
      | Vaapi \<Rightarrow> probe_status P ''ffmpeg''
          (null_source @ [''-vaapi_device'', gd_id device, ''-vf'', ''format=nv12,hwupload'']
           @ one_frame encoder) []
      | Qsv \<Rightarrow> probe_status P ''ffmpeg''
          (null_source @ [''-qsv_device'', gd_id device] @ one_frame encoder) []
      | Videotoolbox \<Rightarrow> validate_hw_encoder P encoder)"

text \<open>The parallel filter keeps the order of its source.\<close>

definition validate_hw_encoders_parallel :: "string list \<Rightarrow> (string \<Rightarrow> bool) \<Rightarrow> string list" where
  "validate_hw_encoders_parallel encoders validator = filter validator encoders"

definition build_vaapi_devices ::
  "(string \<times> string) list \<Rightarrow> (string \<Rightarrow> string option) \<Rightarrow> gpu_device list" where
  "build_vaapi_devices candidates probe =
     sort_key gd_id (map (\<lambda>(path, fallback).
       \<lparr>gd_id = path, gd_name = (case probe path of Some n \<Rightarrow> n | None \<Rightarrow> fallback),
        gd_vram_mib = None\<rparr>) candidates)"

definition render_nodes :: "(string \<times> string) list \<Rightarrow> (string \<times> string) list" where
  "render_nodes entries = filter (\<lambda>(path, name). prefix ''renderD'' name) entries"

definition vainfo_args :: "string \<Rightarrow> string list" where
  "vainfo_args path = [''--display'', ''drm'', ''--device'', path]"

definition enumerate_vaapi_devices :: "probe_env \<Rightarrow> gpu_device list" where
  "enumerate_vaapi_devices P =
     (case prb_dri P of
        None \<Rightarrow> []
      | Some entries \<Rightarrow>
          build_vaapi_devices (render_nodes entries)
            (\<lambda>path. Option.bind (probe_stdout P ''vainfo'' (vainfo_args path)) parse_vainfo_device_name))"

definition enumerate_nvidia_gpus :: "probe_env \<Rightarrow> gpu_device list" where
  "enumerate_nvidia_gpus P =
     (case probe_stdout P ''nvidia-smi''
             [''--query-gpu=index,name,memory.total'', ''--format=csv,noheader,nounits''] of
        None \<Rightarrow> [] | Some s \<Rightarrow> parse_nvidia_smi s)"

definition enumerate_gpus :: "probe_env \<Rightarrow> hw_accel_backend \<Rightarrow> gpu_device list" where
  "enumerate_gpus P backend =
     (case backend of
        Nvenc \<Rightarrow> enumerate_nvidia_gpus P
      | Videotoolbox \<Rightarrow> [\<lparr>gd_id = ''default'', gd_name = ''macOS GPU'', gd_vram_mib = None\<rparr>]
      | _ \<Rightarrow> enumerate_vaapi_devices P)"

definition has_nvidia_hardware :: "probe_env \<Rightarrow> bool" where
  "has_nvidia_hardware P = probe_status P ''nvidia-smi'' [''--list-gpus''] []"

definition has_vaapi_devices :: "probe_env \<Rightarrow> bool" where
  "has_vaapi_devices P =
     (case prb_dri P of
        None \<Rightarrow> False
      | Some entries \<Rightarrow>
          (case render_nodes entries of
             [] \<Rightarrow> False
           | (path, name) # _ \<Rightarrow> probe_status P ''vainfo'' (vainfo_args path) []))"

definition has_intel_gpu :: "probe_env \<Rightarrow> bool" where
  "has_intel_gpu P =
     (case prb_cards P of
        None \<Rightarrow> False
      | Some entries \<Rightarrow>
          list_ex (\<lambda>(name, vendor).
            prefix ''card'' name \<and> CHR ''-'' \<notin> set name
            \<and> (case vendor of Some v \<Rightarrow> str_trim v = ''0x8086'' | None \<Rightarrow> False)) entries)"

end
