(* ===== verification/Exec_World.thy ===== *)
theory Exec_World
  imports Ffmpeg_Command Process
begin

text \<open>
  The world an executor acts on: the files by their paths, and the table of file changes VOOM made
  during a scan session. It holds \<open>crates/voom-domain/src/temp_file.rs\<close>,
  \<open>crates/voom-domain/src/scan_session_mutations.rs\<close> and the statements of
  \<open>plugins/sqlite-store/src/store/scan_session_mutations_storage.rs\<close>. Every operation on the file
  system or the table may fail: a list of faults says which ones do.
\<close>

section \<open>Paths\<close>

text \<open>
  Paths are texts without a trailing slash, as the scanner stores them. The directory part keeps its
  slash, so a sibling is the directory part followed by a name.
\<close>

definition path_dir :: "string \<Rightarrow> string" where
  "path_dir p = rev (dropWhile (\<lambda>c. c \<noteq> CHR ''/'') (rev p))"

definition path_sibling :: "string \<Rightarrow> string \<Rightarrow> string" where
  "path_sibling p name = path_dir p @ name"

definition join_work_dir :: "string \<Rightarrow> string \<Rightarrow> string" where
  "join_work_dir dir name = dir @ ''/'' @ name"

definition path_file_stem :: "string \<Rightarrow> string option" where
  "path_file_stem p =
     map_option (\<lambda>name.
       case path_extension p of
         Some ext \<Rightarrow> take (length name - length ext - 1) name
       | None \<Rightarrow> name) (path_file_name p)"

definition path_with_extension :: "string \<Rightarrow> string \<Rightarrow> string" where
  "path_with_extension p ext =
     (case path_file_stem p of
        None \<Rightarrow> p
      | Some stem \<Rightarrow> path_sibling p (stem @ (if ext = [] then [] else ''.'' @ ext)))"

definition TEMP_MARKER :: string where
  "TEMP_MARKER = ''.voom_tmp_''"

definition temp_path_with_ext :: "cmd_env \<Rightarrow> string \<Rightarrow> string \<Rightarrow> string \<Rightarrow> string" where
  "temp_path_with_ext C uuid_text original ext =
     (let stem = (case path_file_stem original of
                    Some s \<Rightarrow> if ce_is_utf8 C s then s else ''output''
                  | None \<Rightarrow> ''output'')
      in path_sibling original (stem @ TEMP_MARKER @ uuid_text @ ''.'' @ ext))"

definition temp_path :: "cmd_env \<Rightarrow> string \<Rightarrow> string \<Rightarrow> string" where
  "temp_path C uuid_text original =
     temp_path_with_ext C uuid_text original
       (case path_extension original of
          Some e \<Rightarrow> if ce_is_utf8 C e then e else ''mkv''
        | None \<Rightarrow> ''mkv'')"

definition is_voom_temp :: "cmd_env \<Rightarrow> string \<Rightarrow> bool" where
  "is_voom_temp C p =
     (case path_file_name p of
        Some name \<Rightarrow> ce_is_utf8 C name \<and> str_contains name TEMP_MARKER
      | None \<Rightarrow> False)"

section \<open>Files and faults\<close>

type_synonym file_map = "string \<Rightarrow> string option"

datatype mutation_kind = Overwrite | RenameMutation | ContainerConversion | NewOutput

record exec_world =
  xw_files :: file_map
  xw_mutations :: "((uuid \<times> string) \<times> mutation_kind) list"
  xw_faults :: "string option list"

type_synonym 'a act = "exec_world \<Rightarrow> (voom_error + 'a) \<times> exec_world"

definition take_fault :: "exec_world \<Rightarrow> string option \<times> exec_world" where
  "take_fault w =
     (case xw_faults w of
        [] \<Rightarrow> (None, w)
      | f # fs \<Rightarrow> (f, w\<lparr>xw_faults := fs\<rparr>))"

definition fs_remove_file :: "string \<Rightarrow> exec_world \<Rightarrow> (string + unit) \<times> exec_world" where
  "fs_remove_file p w =
     (case take_fault w of
        (Some e, w') \<Rightarrow> (Inl e, w')
      | (None, w') \<Rightarrow>
          if xw_files w' p = None then (Inl ''No such file or directory (os error 2)'', w')
          else (Inr (), w'\<lparr>xw_files := (xw_files w')(p := None)\<rparr>))"

definition fs_rename :: "string \<Rightarrow> string \<Rightarrow> exec_world \<Rightarrow> (string + unit) \<times> exec_world" where
  "fs_rename src dst w =
     (case take_fault w of
        (Some e, w') \<Rightarrow> (Inl e, w')
      | (None, w') \<Rightarrow>
          if xw_files w' src = None then (Inl ''No such file or directory (os error 2)'', w')
          else (Inr (), w'\<lparr>xw_files := (xw_files w')(src := None, dst := xw_files w' src)\<rparr>))"

definition fs_create_dir :: "exec_world \<Rightarrow> (string + unit) \<times> exec_world" where
  "fs_create_dir w =
     (case take_fault w of (Some e, w') \<Rightarrow> (Inl e, w') | (None, w') \<Rightarrow> (Inr (), w'))"

definition fs_remove_dir_all :: "string \<Rightarrow> exec_world \<Rightarrow> (string + unit) \<times> exec_world" where
  "fs_remove_dir_all dir w =
     (case take_fault w of
        (Some e, w') \<Rightarrow> (Inl e, w')
      | (None, w') \<Rightarrow>
          (Inr (), w'\<lparr>xw_files := (\<lambda>p. if prefix (dir @ ''/'') p then None else xw_files w' p)\<rparr>))"

section \<open>Recorded changes\<close>

definition kind_as_str :: "mutation_kind \<Rightarrow> string" where
  "kind_as_str k =
     (case k of Overwrite \<Rightarrow> ''overwrite'' | RenameMutation \<Rightarrow> ''rename''
      | ContainerConversion \<Rightarrow> ''container_conversion'' | NewOutput \<Rightarrow> ''new_output'')"

definition kind_from_str :: "string \<Rightarrow> voom_error + mutation_kind" where
  "kind_from_str s =
     (if s = ''overwrite'' then Inr Overwrite
      else if s = ''rename'' then Inr RenameMutation
      else if s = ''container_conversion'' then Inr ContainerConversion
      else if s = ''new_output'' then Inr NewOutput
      else Inl (StorageError OtherStorage (''scan_session_mutations.kind: unknown MutationKind ''
        @ [CHR 0x27] @ s @ [CHR 0x27])))"

record voom_mutation =
  vm_session :: uuid
  vm_path :: string
  vm_original :: "string option"
  vm_kind :: mutation_kind

definition upsert_mutation ::
  "uuid \<Rightarrow> string \<Rightarrow> mutation_kind \<Rightarrow> ((uuid \<times> string) \<times> mutation_kind) list
     \<Rightarrow> ((uuid \<times> string) \<times> mutation_kind) list" where
  "upsert_mutation session p k rows =
     ((session, p), k) # filter (\<lambda>r. fst r \<noteq> (session, p)) rows"

text \<open>One transaction: a fault at any statement leaves the table as it was.\<close>

definition record_voom_mutation :: "cmd_env \<Rightarrow> voom_mutation \<Rightarrow> unit act" where
  "record_voom_mutation C m w =
     (case take_fault w of
        (Some e, w') \<Rightarrow> (Inl (StorageError OtherStorage e), w')
      | (None, w') \<Rightarrow>
          let rows = upsert_mutation (vm_session m) (ce_lossy C (vm_path m)) (vm_kind m) (xw_mutations w');
              rows' = (case vm_original m of
                         None \<Rightarrow> rows
                       | Some q \<Rightarrow> upsert_mutation (vm_session m) (ce_lossy C q) (vm_kind m) rows)
          in (Inr (), w'\<lparr>xw_mutations := rows'\<rparr>))"

definition is_voom_originated :: "cmd_env \<Rightarrow> uuid \<Rightarrow> string \<Rightarrow> exec_world \<Rightarrow> bool" where
  "is_voom_originated C session p w =
     (\<exists>r \<in> set (xw_mutations w). fst r = (session, ce_lossy C p))"

definition record_mutation_for_pending_write ::
  "cmd_env \<Rightarrow> bool \<Rightarrow> uuid option \<Rightarrow> string \<Rightarrow> string \<Rightarrow> unit act" where
  "record_mutation_for_pending_write C storage scan_session plan_source dest w =
     (case scan_session of
        None \<Rightarrow> (Inr (), w)
      | Some session \<Rightarrow>
          if \<not> storage then (Inr (), w)
          else
            let kind = (if dest = plan_source then Overwrite
                        else if path_extension dest \<noteq> path_extension plan_source
                        then ContainerConversion
                        else RenameMutation);
                m = \<lparr>vm_session = session, vm_path = dest,
                     vm_original = (if dest \<noteq> plan_source then Some plan_source else None),
                     vm_kind = kind\<rparr>
            in case record_voom_mutation C m w of
                 (Inr x, w') \<Rightarrow> (Inr x, w')
               | (Inl e, w') \<Rightarrow>
                   (Inl (ToolExecution ''voom-executor''
                      (''failed to record VOOM mutation for '' @ ce_lossy C dest @ '': ''
                       @ VoomError_display e
                       @ ''; refusing to perform filesystem write to avoid scanner race'')), w'))"

section \<open>Tools\<close>

text \<open>
  A tool is run through a parameter: from the name, the arguments, the environment and the files it
  gives the outcome of the process and the files after it. An environment belongs to one execution of
  a plan; \<open>xe_temp_id E n\<close> is the text of the \<open>n\<close>-th identifier (\<open>Uuid::new_v4\<close>) that it draws for a
  temporary path, and \<open>next_env\<close> the environment after one more was drawn.
\<close>

record exec_env =
  xe_cmd :: cmd_env
  xe_run :: "string \<Rightarrow> string list \<Rightarrow> (string \<times> string) list \<Rightarrow> file_map
    \<Rightarrow> (voom_error + process_output) \<times> file_map"
  xe_status :: "int option \<Rightarrow> string"
  xe_elapsed_ms :: u64
  xe_temp_id :: "nat \<Rightarrow> string"
  xe_work_dir :: string
  xe_json_numbers :: "string \<Rightarrow> string + (string \<Rightarrow> f64 option)"
  xe_f32 :: "f64 \<Rightarrow> f64"
  xe_uuid_text :: "uuid \<Rightarrow> string"
  xe_mint :: mint

definition next_env :: "exec_env \<Rightarrow> exec_env" where
  "next_env E = E\<lparr>xe_temp_id := \<lambda>n. xe_temp_id E (Suc n)\<rparr>"

definition run_tool ::
  "exec_env \<Rightarrow> string \<Rightarrow> string list \<Rightarrow> (string \<times> string) list \<Rightarrow> process_output act" where
  "run_tool E tool args env w =
     (let (r, files') = xe_run E tool args env (xw_files w) in (r, w\<lparr>xw_files := files'\<rparr>))"

text \<open>What the tools are documented to do: they write no file but the output they are given.\<close>

definition tools_write_output :: "exec_env \<Rightarrow> (string \<Rightarrow> string list \<Rightarrow> string option) \<Rightarrow> bool" where
  "tools_write_output E out =
     (\<forall>tool args env files p. snd (xe_run E tool args env files) p \<noteq> files p
        \<longrightarrow> out tool args = Some (ce_lossy (xe_cmd E) p))"

section \<open>Facts about the table\<close>

lemma kind_roundtrip: "kind_from_str (kind_as_str k) = Inr k"
  by (cases k) (simp_all add: kind_as_str_def kind_from_str_def)

definition row_keys :: "((uuid \<times> string) \<times> mutation_kind) list \<Rightarrow> (uuid \<times> string) set" where
  "row_keys rows = fst ` set rows"

lemma row_keys_upsert [simp]: "row_keys (upsert_mutation s p k rows) = insert (s, p) (row_keys rows)"
  by (force simp: upsert_mutation_def row_keys_def)

lemma is_voom_originated_key:
  "is_voom_originated C session p w \<longleftrightarrow> (session, ce_lossy C p) \<in> row_keys (xw_mutations w)"
  by (force simp: is_voom_originated_def row_keys_def)

lemma take_fault_unchanged [simp]:
  "take_fault w = (f, w') \<Longrightarrow> xw_files w' = xw_files w \<and> xw_mutations w' = xw_mutations w"
  by (auto simp: take_fault_def split: list.splits)

lemma record_pending_files:
  "record_mutation_for_pending_write C storage session src dest w = (r, w') \<Longrightarrow> xw_files w' = xw_files w"
  by (auto simp: record_mutation_for_pending_write_def record_voom_mutation_def Let_def
      split: option.splits if_splits prod.splits sum.splits)

lemma record_pending_keys:
  "record_mutation_for_pending_write C storage session src dest w = (r, w')
     \<Longrightarrow> row_keys (xw_mutations w) \<subseteq> row_keys (xw_mutations w')"
  by (auto simp: record_mutation_for_pending_write_def record_voom_mutation_def Let_def
      split: option.splits if_splits prod.splits sum.splits)

lemma record_pending_recorded:
  assumes "record_mutation_for_pending_write C True (Some s) src dest w = (Inr u, w')"
  shows "is_voom_originated C s dest w' \<and> is_voom_originated C s src w'"
  using assms unfolding is_voom_originated_key
  by (auto simp: record_mutation_for_pending_write_def record_voom_mutation_def Let_def
      split: prod.splits option.splits if_splits)

end
