(* ===== verification/Vmaf.thy ===== *)
theory Vmaf
  imports Plan
begin

text \<open>
  The search for a CRF with a wanted VMAF score: \<open>plugins/ffmpeg-executor/src/vmaf_iterate.rs\<close> with
  the sample plans and models of \<open>vmaf.rs\<close>. Encoding and measuring a sample are parameters, as is
  whether the build checks for overflow: a checked subtraction below zero panics, an unchecked one
  wraps around.
\<close>

section \<open>Models and samples\<close>

datatype vmaf_model = V061 | V4k | Phone

definition VmafModel_file_name :: "vmaf_model \<Rightarrow> string" where
  "VmafModel_file_name m =
     (case m of V061 \<Rightarrow> ''vmaf_v0.6.1.json'' | V4k \<Rightarrow> ''vmaf_4k_v0.6.1.json''
      | Phone \<Rightarrow> ''vmaf_phone_v0.6.1.json'')"

datatype vmaf_error =
    LibvmafUnavailable
  | ModelNotFound vmaf_model
  | VmafFfmpegFailed int string
  | VmafParseFailed string
  | VmafIo string

datatype sample_error =
    SampleInvalidInput string
  | SampleFfmpegFailed int string
  | SampleParseFailed string
  | SampleIo string

definition pick_model_for_resolution :: "u32 \<Rightarrow> u32 \<Rightarrow> vmaf_model" where
  "pick_model_for_resolution width height =
     (let short_edge = min width height; long_edge = max width height in
      if 2160 \<le> short_edge \<or> 3840 \<le> long_edge then V4k
      else if width \<le> 1080 \<and> width < height then Phone
      else V061)"

definition model_for_source :: "(u32 \<times> u32) option \<Rightarrow> vmaf_model" where
  "model_for_source resolution =
     (case resolution of Some (w, h) \<Rightarrow> pick_model_for_resolution w h | None \<Rightarrow> V061)"

text \<open>The directory of the models and the files in it are what the machine has.\<close>

definition vmaf_model_path ::
  "(string \<Rightarrow> bool) \<Rightarrow> string option \<Rightarrow> vmaf_model \<Rightarrow> vmaf_error + string option" where
  "vmaf_model_path is_file model_dir m =
     (case model_dir of
        None \<Rightarrow> if m = V061 then Inr None else Inl (ModelNotFound m)
      | Some dir \<Rightarrow>
          let path = dir @ ''/'' @ VmafModel_file_name m in
          if is_file path then Inr (Some path)
          else if m = V061 then Inr None
          else Inl (ModelNotFound m))"

record segment =
  sg_start_secs :: f64
  sg_duration_secs :: f64

definition validate_sample_request :: "u32 \<Rightarrow> u32 \<Rightarrow> sample_error + unit" where
  "validate_sample_request count duration_secs =
     (if count = 0 then Inl (SampleInvalidInput ''count must be greater than zero'')
      else if duration_secs = 0
      then Inl (SampleInvalidInput ''duration_secs must be greater than zero'')
      else Inr ())"

definition uniform_sample_timestamps :: "f64 \<Rightarrow> u32 \<Rightarrow> sample_error + f64 list" where
  "uniform_sample_timestamps source_duration_secs count =
     (if count = 0 then Inl (SampleInvalidInput ''count must be greater than zero'')
      else Inr (map (\<lambda>i. source_duration_secs * (of_nat i + 1 / 2) / of_nat count) [0..<count]))"

fun sample_segments :: "f64 \<Rightarrow> f64 \<Rightarrow> f64 list \<Rightarrow> segment list" where
  "sample_segments source wanted [] = []"
| "sample_segments source wanted (t # ts) =
     (if source \<le> t then sample_segments source wanted ts
      else let d = min wanted (source - t) in
        if 0 < d
        then \<lparr>sg_start_secs = max t 0, sg_duration_secs = d\<rparr> # sample_segments source wanted ts
        else sample_segments source wanted ts)"

definition timestamp_sample_plan ::
  "f64 \<Rightarrow> u32 \<Rightarrow> u32 \<Rightarrow> f64 list \<Rightarrow> sample_error + segment list" where
  "timestamp_sample_plan source_duration_secs count duration_secs timestamps =
     (if count = 0 then Inl (SampleInvalidInput ''count must be greater than zero'')
      else if duration_secs = 0
      then Inl (SampleInvalidInput ''duration_secs must be greater than zero'')
      else if source_duration_secs \<le> of_nat count * of_nat duration_secs
      then Inr [\<lparr>sg_start_secs = 0, sg_duration_secs = source_duration_secs\<rparr>]
      else
        let segments = sample_segments source_duration_secs (of_nat duration_secs)
              (take count timestamps) in
        if segments = [] then Inl (SampleParseFailed ''no valid sample timestamps found'')
        else Inr segments)"

definition uniform_sample_plan :: "f64 \<Rightarrow> u32 \<Rightarrow> u32 \<Rightarrow> sample_error + segment list" where
  "uniform_sample_plan source_duration_secs count duration_secs =
     (case uniform_sample_timestamps source_duration_secs count of
        Inl e \<Rightarrow> Inl e
      | Inr ts \<Rightarrow> timestamp_sample_plan source_duration_secs count duration_secs ts)"

section \<open>The search\<close>

record bitrate_bounds =
  bb_min_bitrate :: "string option"
  bb_max_bitrate :: "string option"

record iteration_result =
  ir_final_crf :: u32
  ir_final_bitrate :: "string option"
  ir_achieved_vmaf :: f64
  ir_iterations :: u32

datatype iteration_error =
    IterInvalidInput string
  | IterSample sample_error
  | IterVmaf vmaf_error
  | IterFfmpegFailed int string
  | IterIo string
  | MaxIterationsExceeded iteration_result

text \<open>
  \<open>EncodeAttempt\<close>: the encoder gets the number of the attempt, which names its output, the CRF and
  the bounds; what it wrote is given to the measurement.
\<close>

record 'v encode_attempt =
  ea_encode_sample :: "nat \<Rightarrow> u32 \<Rightarrow> bitrate_bounds \<Rightarrow> vmaf_error + string option \<times> 'v"
  ea_compute_vmaf :: "'v \<Rightarrow> vmaf_model \<Rightarrow> vmaf_error + f64"

definition DEFAULT_START_CRF :: u32 where
  "DEFAULT_START_CRF = 23"

definition MIN_CRF :: u32 where
  "MIN_CRF = 0"

definition MAX_CRF :: u32 where
  "MAX_CRF = 51"

definition TARGET_TOLERANCE :: f64 where
  "TARGET_TOLERANCE = 2"

definition sub_u32 :: "bool \<Rightarrow> u32 \<Rightarrow> u32 \<Rightarrow> u32 option" where
  "sub_u32 checked a b =
     (if b \<le> a then Some (a - b) else if checked then None else Some (a + 2 ^ 32 - b))"

definition add_u32 :: "bool \<Rightarrow> u32 \<Rightarrow> u32 \<Rightarrow> u32 option" where
  "add_u32 checked a b =
     (if a + b < 2 ^ 32 then Some (a + b) else if checked then None else Some (a + b - 2 ^ 32))"

definition update_bounds :: "f64 \<Rightarrow> u32 \<Rightarrow> u32 \<Rightarrow> u32 \<times> u32 \<Rightarrow> u32 \<times> u32" where
  "update_bounds achieved target_vmaf crf lh =
     (if achieved < of_nat target_vmaf then (fst lh, crf - 1)
      else (min (min (crf + 1) U32_MAX) MAX_CRF, snd lh))"

definition next_crf :: "bool \<Rightarrow> u32 \<times> u32 \<Rightarrow> u32 option" where
  "next_crf checked lh =
     Option.bind (sub_u32 checked (snd lh) (fst lh)) (\<lambda>d. add_u32 checked (fst lh) (d div 2))"

text \<open>One attempt: its result, or the error of encoder or measurement.\<close>

definition bisect_attempt ::
  "'v encode_attempt \<Rightarrow> bitrate_bounds \<Rightarrow> vmaf_model \<Rightarrow> nat \<Rightarrow> u32 \<Rightarrow> iteration_error + iteration_result" where
  "bisect_attempt att bounds model iter crf =
     (case ea_encode_sample att iter crf bounds of
        Inl e \<Rightarrow> Inl (IterVmaf e)
      | Inr (bitrate, encoded) \<Rightarrow>
          (case ea_compute_vmaf att encoded model of
             Inl e \<Rightarrow> Inl (IterVmaf e)
           | Inr achieved \<Rightarrow>
               Inr \<lparr>ir_final_crf = crf, ir_final_bitrate = bitrate, ir_achieved_vmaf = achieved,
                    ir_iterations = iter\<rparr>))"

definition within_tolerance :: "f64 \<Rightarrow> u32 \<Rightarrow> bool" where
  "within_tolerance achieved target_vmaf =
     (\<bar>achieved - of_nat target_vmaf\<bar> \<le> TARGET_TOLERANCE)"

text \<open>
  The loop with \<open>n\<close> attempts left, the next one being number \<open>iter\<close>; \<open>None\<close> is a panic. The bounds are
  computed after every attempt, the last one included.
\<close>

fun bisect_loop ::
  "bool \<Rightarrow> 'v encode_attempt \<Rightarrow> bitrate_bounds \<Rightarrow> vmaf_model \<Rightarrow> u32 \<Rightarrow> nat \<Rightarrow> nat \<Rightarrow> u32 \<times> u32 \<Rightarrow> u32
     \<Rightarrow> iteration_result option \<Rightarrow> (iteration_error + iteration_result) option" where
  "bisect_loop checked att bounds model target 0 iter lh crf prev =
     Some (Inl (case prev of
        Some r \<Rightarrow> MaxIterationsExceeded r
      | None \<Rightarrow> IterInvalidInput ''max_iterations must be greater than zero''))"
| "bisect_loop checked att bounds model target (Suc n) iter lh crf prev =
     (case bisect_attempt att bounds model iter crf of
        Inl e \<Rightarrow> Some (Inl e)
      | Inr r \<Rightarrow>
          if within_tolerance (ir_achieved_vmaf r) target then Some (Inr r)
          else
            let lh' = update_bounds (ir_achieved_vmaf r) target crf lh in
            case next_crf checked lh' of
              None \<Rightarrow> None
            | Some crf' \<Rightarrow> bisect_loop checked att bounds model target n (Suc iter) lh' crf' (Some r))"

definition run_bisection ::
  "bool \<Rightarrow> 'v encode_attempt \<Rightarrow> bitrate_bounds \<Rightarrow> vmaf_model \<Rightarrow> u32 \<Rightarrow> u32
     \<Rightarrow> (iteration_error + iteration_result) option" where
  "run_bisection checked att bounds model target max_iterations =
     bisect_loop checked att bounds model target max_iterations 1 (MIN_CRF, MAX_CRF)
       DEFAULT_START_CRF None"

definition validate_inputs :: "u32 \<Rightarrow> u32 \<Rightarrow> iteration_error + unit" where
  "validate_inputs target_vmaf max_iterations =
     (if \<not> (60 \<le> target_vmaf \<and> target_vmaf \<le> 100)
      then Inl (IterInvalidInput ''target_vmaf must be from 60 to 100'')
      else if max_iterations = 0
      then Inl (IterInvalidInput ''max_iterations must be greater than zero'')
      else Inr ())"

definition cleanup_work_dir ::
  "iteration_error + iteration_result \<Rightarrow> string option \<Rightarrow> iteration_error + iteration_result" where
  "cleanup_work_dir result cleanup =
     (case (result, cleanup) of
        (Inr v, None) \<Rightarrow> Inr v
      | (Inr _, Some e) \<Rightarrow> Inl (IterIo e)
      | (Inl e, _) \<Rightarrow> Inl e)"

text \<open>What the machine answers around the search: errors as \<open>Some\<close>.\<close>

record iterate_env =
  ie_checked :: bool
  ie_create_dir :: "string option"
  ie_extract :: "sample_error option"
  ie_resolution :: "(u32 \<times> u32) option"
  ie_cleanup :: "string option"

definition iterate_in_dir ::
  "iterate_env \<Rightarrow> 'v encode_attempt \<Rightarrow> bitrate_bounds \<Rightarrow> u32 \<Rightarrow> u32
     \<Rightarrow> (iteration_error + iteration_result) option" where
  "iterate_in_dir env att bounds target_vmaf max_iterations =
     (case ie_extract env of
        Some e \<Rightarrow> Some (Inl (IterSample e))
      | None \<Rightarrow>
          run_bisection (ie_checked env) att bounds (model_for_source (ie_resolution env)) target_vmaf
            max_iterations)"

definition iterate_to_target_with ::
  "iterate_env \<Rightarrow> 'v encode_attempt \<Rightarrow> bitrate_bounds \<Rightarrow> u32 \<Rightarrow> u32
     \<Rightarrow> (iteration_error + iteration_result) option" where
  "iterate_to_target_with env att bounds target_vmaf max_iterations =
     (case validate_inputs target_vmaf max_iterations of
        Inl e \<Rightarrow> Some (Inl e)
      | Inr _ \<Rightarrow>
          (case ie_create_dir env of
             Some e \<Rightarrow> Some (Inl (IterIo e))
           | None \<Rightarrow>
               map_option (\<lambda>r. cleanup_work_dir r (ie_cleanup env))
                 (iterate_in_dir env att bounds target_vmaf max_iterations)))"

section \<open>Encoding a sample with \<open>ffmpeg\<close>\<close>

definition add_bitrate_args :: "bitrate_bounds \<Rightarrow> string list" where
  "add_bitrate_args bounds =
     (case bb_max_bitrate bounds of
        Some m \<Rightarrow> [''-b:v'', m, ''-maxrate'', m, ''-bufsize'', m]
      | None \<Rightarrow> (case bb_min_bitrate bounds of Some m \<Rightarrow> [''-b:v'', m] | None \<Rightarrow> [])) @
     (case bb_min_bitrate bounds of Some m \<Rightarrow> [''-minrate'', m] | None \<Rightarrow> [])"

definition sample_encode_args :: "string \<Rightarrow> string \<Rightarrow> u32 \<Rightarrow> bitrate_bounds \<Rightarrow> string list" where
  "sample_encode_args source dest crf bounds =
     [''-hide_banner'', ''-loglevel'', ''error'', ''-y'', ''-i'', source, ''-map'', ''0:v:0'', ''-an'',
      ''-c:v'', ''libx264'', ''-crf'', nat_str crf] @ add_bitrate_args bounds @ [dest]"

definition selected_bitrate :: "bitrate_bounds \<Rightarrow> string option" where
  "selected_bitrate bounds = opt_or (bb_max_bitrate bounds) (bb_min_bitrate bounds)"

section \<open>What the search finds\<close>

text \<open>An attempt that always answers, with a score that depends on the CRF alone.\<close>

definition scores_as ::
  "'v encode_attempt \<Rightarrow> bitrate_bounds \<Rightarrow> vmaf_model \<Rightarrow> (u32 \<Rightarrow> f64) \<Rightarrow> bool" where
  "scores_as att bounds model score =
     (\<forall>iter crf. \<exists>bitrate encoded. ea_encode_sample att iter crf bounds = Inr (bitrate, encoded)
        \<and> ea_compute_vmaf att encoded model = Inr (score crf))"

definition score_falls :: "(u32 \<Rightarrow> f64) \<Rightarrow> bool" where
  "score_falls score = (\<forall>a b. a \<le> b \<and> b \<le> MAX_CRF \<longrightarrow> score b \<le> score a)"

definition candidates :: "u32 \<times> u32 \<Rightarrow> nat" where
  "candidates lh = snd lh + 1 - fst lh"

lemma scores_as_attempt:
  assumes "scores_as att bounds model score"
  obtains r where "bisect_attempt att bounds model iter crf = Inr r" "ir_final_crf r = crf"
    "ir_achieved_vmaf r = score crf" "ir_iterations r = iter"
proof -
  obtain bitrate encoded where "ea_encode_sample att iter crf bounds = Inr (bitrate, encoded)"
    "ea_compute_vmaf att encoded model = Inr (score crf)"
    using assms unfolding scores_as_def by blast
  then show thesis
    by (intro that [of "\<lparr>ir_final_crf = crf, ir_final_bitrate = bitrate,
        ir_achieved_vmaf = score crf, ir_iterations = iter\<rparr>"])
      (simp_all add: bisect_attempt_def)
qed

text \<open>While a CRF with a good score is left, an attempt beside it halves the candidates.\<close>

lemma bounds_shrink:
  assumes falls: "score_falls score" and good: "within_tolerance (score c) target"
    and c: "low \<le> c" "c \<le> high" "high \<le> MAX_CRF" and crf: "low \<le> crf" "crf \<le> high"
    and miss: "\<not> within_tolerance (score crf) target"
    and new: "update_bounds (score crf) target crf (low, high) = (low', high')"
  shows "low' \<le> c \<and> c \<le> high' \<and> high' \<le> MAX_CRF \<and>
    (if score crf < of_nat target then low' = low \<and> high' = crf - 1 \<and> 0 < crf
     else low' = crf + 1 \<and> high' = high)"
proof (cases "score crf < of_nat target")
  case True
  have "\<not> crf \<le> c"
    using falls c good miss True
    unfolding score_falls_def within_tolerance_def TARGET_TOLERANCE_def by (force simp: abs_le_iff)
  with new c True crf show ?thesis by (auto simp: update_bounds_def)
next
  case False
  have "\<not> c \<le> crf"
    using falls c crf good miss False
    unfolding score_falls_def within_tolerance_def TARGET_TOLERANCE_def by (force simp: abs_le_iff)
  with new c False show ?thesis by (auto simp: update_bounds_def MAX_CRF_def U32_MAX_def)
qed

lemma next_crf_in_range:
  "low \<le> high \<Longrightarrow> high \<le> MAX_CRF \<Longrightarrow> next_crf checked (low, high) = Some (low + (high - low) div 2)"
  by (simp add: next_crf_def sub_u32_def add_u32_def MAX_CRF_def) linarith

lemma bisect_loop_answers:
  assumes "scores_as att bounds model score" "score_falls score" "within_tolerance (score c) target"
    and "low \<le> c" "c \<le> high" "high \<le> MAX_CRF" "low \<le> crf" "crf \<le> high"
  shows "bisect_loop checked att bounds model target n iter (low, high) crf prev \<noteq> None"
  using assms(4-)
proof (induction n arbitrary: iter low high crf prev)
  case (Suc n)
  obtain r where r: "bisect_attempt att bounds model iter crf = Inr r" "ir_achieved_vmaf r = score crf"
    using scores_as_attempt [OF assms(1)] by blast
  show ?case
  proof (cases "within_tolerance (score crf) target")
    case False
    obtain low' high' where lh: "update_bounds (score crf) target crf (low, high) = (low', high')"
      by fastforce
    with bounds_shrink [OF assms(2,3) Suc.prems False lh]
    have "low' \<le> c" "c \<le> high'" "high' \<le> MAX_CRF" by auto
    with Suc.IH [OF this] r lh False show ?thesis
      by (simp add: next_crf_in_range)
  qed (simp add: r)
qed simp

lemma bisect_loop_finds:
  assumes "scores_as att bounds model score" "score_falls score" "within_tolerance (score c) target"
    and "low \<le> c" "c \<le> high" "high \<le> MAX_CRF" "crf = low + (high - low) div 2"
    and "candidates (low, high) < 2 ^ n" "n \<le> m"
  shows "\<exists>r. bisect_loop checked att bounds model target m iter (low, high) crf prev = Some (Inr r)
    \<and> within_tolerance (ir_achieved_vmaf r) target \<and> ir_achieved_vmaf r = score (ir_final_crf r)
    \<and> ir_final_crf r \<le> MAX_CRF \<and> ir_iterations r < iter + n"
  using assms(4-)
proof (induction n arbitrary: m iter low high crf prev)
  case 0
  then show ?case by (simp add: candidates_def)
next
  case (Suc n)
  obtain r where r: "bisect_attempt att bounds model iter crf = Inr r" "ir_achieved_vmaf r = score crf"
    "ir_final_crf r = crf" "ir_iterations r = iter"
    using scores_as_attempt [OF assms(1)] by blast
  from Suc.prems obtain m' where m: "m = Suc m'" "n \<le> m'" by (cases m) auto
  have crf: "low \<le> crf" "crf \<le> high" using Suc.prems by auto
  show ?case
  proof (cases "within_tolerance (score crf) target")
    case True
    with r m crf Suc.prems show ?thesis by simp
  next
    case False
    obtain low' high' where lh: "update_bounds (score crf) target crf (low, high) = (low', high')"
      by fastforce
    note shrink = bounds_shrink [OF assms(2,3) Suc.prems(1-3) crf False lh]
    then have c: "low' \<le> c" "c \<le> high'" "high' \<le> MAX_CRF" by auto
    have "candidates (low', high') \<le> candidates (low, high) div 2"
      using shrink Suc.prems(4) crf
      by (cases "score crf < of_nat target") (simp_all add: candidates_def, linarith+)
    also have "\<dots> < 2 ^ n" using Suc.prems(5) by simp
    finally have "candidates (low', high') < 2 ^ n" .
    from Suc.IH [OF c refl this m(2)] r lh False m show ?thesis
      by (simp add: next_crf_in_range [OF order_trans [OF c(1,2)] c(3)]) (metis add_Suc_right add_Suc_shift less_SucI)
  qed
qed

lemma candidates_after_first:
  "update_bounds a target DEFAULT_START_CRF (MIN_CRF, MAX_CRF) \<in> {(0, 22), (24, 51)}"
  by (simp add: update_bounds_def DEFAULT_START_CRF_def MIN_CRF_def MAX_CRF_def U32_MAX_def)


text \<open>
  Up to four attempts never exhaust the interval, whatever the scores are; the fifth may, and its
  midpoint is then computed from an upper bound below the lower one.
\<close>

lemma update_bounds_wide:
  assumes "low \<le> high" "high \<le> MAX_CRF" "crf = low + (high - low) div 2"
    "update_bounds a target crf (low, high) = (low', high')" "3 \<le> candidates (low, high)"
  shows "low' \<le> high' \<and> high' \<le> MAX_CRF \<and> candidates (low, high) \<le> 2 * candidates (low', high') + 2"
proof -
  have "low < high" using assms(5) by (simp add: candidates_def)
  then show ?thesis
    using assms by (cases "a < of_nat target")
      (auto simp: update_bounds_def candidates_def MAX_CRF_def U32_MAX_def)
qed

lemma bisect_loop_short:
  assumes "low \<le> high" "high \<le> MAX_CRF" "crf = low + (high - low) div 2"
    "2 ^ Suc n - 1 \<le> candidates (low, high)"
  shows "bisect_loop checked att bounds model target n iter (low, high) crf prev \<noteq> None"
  using assms
proof (induction n arbitrary: iter low high crf prev)
  case (Suc n)
  have wide: "3 \<le> candidates (low, high)"
  proof -
    have "(1 :: nat) \<le> 2 ^ n" by simp
    moreover have "4 * 2 ^ n - 1 \<le> candidates (low, high)" using Suc.prems(4) by simp
    ultimately show ?thesis by linarith
  qed
  show ?case
  proof (cases "bisect_attempt att bounds model iter crf")
    case (Inr r)
    obtain low' high' where lh:
      "update_bounds (ir_achieved_vmaf r) target crf (low, high) = (low', high')" by fastforce
    from update_bounds_wide [OF Suc.prems(1-3) lh wide]
    have new: "low' \<le> high'" "high' \<le> MAX_CRF" "2 ^ Suc n - 1 \<le> candidates (low', high')"
      using Suc.prems(4) by auto
    from Suc.IH [OF new(1,2) refl new(3)] show ?thesis
      using Inr lh by (simp add: next_crf_in_range [OF new(1,2)])
  qed simp
qed simp

lemma bisection_short_no_panic:
  assumes "max_iterations \<le> 4"
  shows "run_bisection checked att bounds model target max_iterations \<noteq> None"
proof (cases max_iterations)
  case (Suc n)
  then have n: "n \<le> 3" using assms by simp
  have pow: "2 ^ Suc n - 1 \<le> (15 :: nat)"
    using power_increasing [of "Suc n" 4 "2 :: nat"] n by simp
  show ?thesis
  proof (cases "bisect_attempt att bounds model 1 DEFAULT_START_CRF")
    case (Inr r)
    let ?lh = "update_bounds (ir_achieved_vmaf r) target DEFAULT_START_CRF (MIN_CRF, MAX_CRF)"
    from candidates_after_first [of "ir_achieved_vmaf r" target]
    obtain low high where lh: "?lh = (low, high)" "low \<le> high" "high \<le> MAX_CRF"
        "23 \<le> candidates (low, high)"
      by (auto simp: candidates_def MAX_CRF_def)
    with pow have "2 ^ Suc n - 1 \<le> candidates (low, high)" by linarith
    from bisect_loop_short [OF lh(2,3) refl this, of checked att bounds model target "Suc 1" "Some r"]
      Inr lh Suc show ?thesis
      by (simp add: run_bisection_def next_crf_in_range [OF lh(2,3)])
  qed (simp add: run_bisection_def Suc)
qed (simp add: run_bisection_def)

definition steep_attempt :: "u32 encode_attempt" where
  "steep_attempt =
     \<lparr>ea_encode_sample = (\<lambda>iter crf bounds. Inr (None, crf)),
      ea_compute_vmaf = (\<lambda>crf model. Inr (if crf \<le> 2 then 100 else 0))\<rparr>"

definition no_bounds :: bitrate_bounds where
  "no_bounds = \<lparr>bb_min_bitrate = None, bb_max_bitrate = None\<rparr>"

lemma bisect_loop_numeral:
  "bisect_loop checked att bounds model target (numeral k) iter lh crf prev =
     (case bisect_attempt att bounds model iter crf of
        Inl e \<Rightarrow> Some (Inl e)
      | Inr r \<Rightarrow>
          if within_tolerance (ir_achieved_vmaf r) target then Some (Inr r)
          else
            let lh' = update_bounds (ir_achieved_vmaf r) target crf lh in
            case next_crf checked lh' of
              None \<Rightarrow> None
            | Some crf' \<Rightarrow>
                bisect_loop checked att bounds model target (pred_numeral k) (Suc iter) lh' crf' (Some r))"
  by (simp add: numeral_eq_Suc)

lemma steep_step:
  "bisect_attempt steep_attempt no_bounds model iter crf =
     Inr \<lparr>ir_final_crf = crf, ir_final_bitrate = None,
          ir_achieved_vmaf = (if crf \<le> 2 then 100 else 0), ir_iterations = iter\<rparr>"
  by (simp add: bisect_attempt_def steep_attempt_def)

lemmas steep_simps = run_bisection_def bisect_loop_numeral steep_step within_tolerance_def
  TARGET_TOLERANCE_def update_bounds_def next_crf_def sub_u32_def add_u32_def MAX_CRF_def MIN_CRF_def
  DEFAULT_START_CRF_def U32_MAX_def Let_def

lemma bisection_overflow:
  "run_bisection True steep_attempt no_bounds V061 80 5 = None"
  "\<exists>r. run_bisection False steep_attempt no_bounds V061 80 6 = Some (Inl (MaxIterationsExceeded r))
     \<and> ir_final_crf r = 2147483650"
  by (simp_all add: steep_simps)

lemma first_then_finds:
  assumes "scores_as att bounds model score" "score_falls score" "c \<le> MAX_CRF"
    "within_tolerance (score c) target" "5 \<le> n"
  shows "\<exists>r. bisect_loop checked att bounds model target (Suc n) 1 (MIN_CRF, MAX_CRF)
        DEFAULT_START_CRF None = Some (Inr r)
      \<and> ir_final_crf r \<le> 51 \<and> ir_achieved_vmaf r = score (ir_final_crf r)
      \<and> \<bar>score (ir_final_crf r) - of_nat target\<bar> \<le> 2 \<and> ir_iterations r \<le> 6"
proof -
  obtain r where r: "bisect_attempt att bounds model 1 DEFAULT_START_CRF = Inr r"
    "ir_achieved_vmaf r = score DEFAULT_START_CRF" "ir_final_crf r = DEFAULT_START_CRF"
    "ir_iterations r = 1"
    using scores_as_attempt [OF assms(1)] by blast
  show ?thesis
  proof (cases "within_tolerance (score DEFAULT_START_CRF) target")
    case True
    then show ?thesis
      using r by (simp add: within_tolerance_def TARGET_TOLERANCE_def DEFAULT_START_CRF_def)
  next
    case False
    obtain low high where lh:
      "update_bounds (score DEFAULT_START_CRF) target DEFAULT_START_CRF (MIN_CRF, MAX_CRF) = (low, high)"
      by fastforce
    have c: "low \<le> c" "c \<le> high" "high \<le> MAX_CRF"
      using bounds_shrink [OF assms(2,4) _ assms(3) order.refl _ _ False lh]
      by (simp_all add: MIN_CRF_def MAX_CRF_def DEFAULT_START_CRF_def)
    have "candidates (low, high) < 2 ^ 5"
      using candidates_after_first [of "score DEFAULT_START_CRF" target] lh
      by (auto simp: candidates_def)
    from bisect_loop_finds [OF assms(1,2,4) c refl this assms(5), of checked "Suc 1" "Some r"]
    obtain q where "bisect_loop checked att bounds model target n (Suc 1) (low, high)
          (low + (high - low) div 2) (Some r) = Some (Inr q)"
        "within_tolerance (ir_achieved_vmaf q) target" "ir_achieved_vmaf q = score (ir_final_crf q)"
        "ir_final_crf q \<le> MAX_CRF" "ir_iterations q \<le> 6"
      by auto
    then show ?thesis
      using r lh False
      by (simp add: next_crf_in_range [OF order_trans [OF c(1,2)] c(3)] within_tolerance_def
          TARGET_TOLERANCE_def MAX_CRF_def)
  qed
qed

text \<open>
  C21: If sample encodes and measurements succeed with a score that depends on the CRF alone and falls
  as it grows, and some CRF scores within two points of the target, then the search never panics, a
  CRF that it returns is at most 51 and scores within two points of the target, and with at least
  six attempts it returns one after at most six.
\<close>
theorem vmaf_search_converges:
  assumes "60 \<le> target" "target \<le> 100" "0 < max_iterations"
    and "ie_create_dir env = None" "ie_extract env = None" "ie_cleanup env = None"
    and "scores_as att bounds (model_for_source (ie_resolution env)) score" "score_falls score"
    and "c \<le> MAX_CRF" "within_tolerance (score c) target"
  shows "iterate_to_target_with env att bounds target max_iterations \<noteq> None
    \<and> (6 \<le> max_iterations \<longrightarrow>
      (\<exists>r. iterate_to_target_with env att bounds target max_iterations = Some (Inr r)
        \<and> ir_final_crf r \<le> 51 \<and> ir_achieved_vmaf r = score (ir_final_crf r)
        \<and> \<bar>score (ir_final_crf r) - of_nat target\<bar> \<le> 2 \<and> ir_iterations r \<le> 6))"
proof -
  let ?model = "model_for_source (ie_resolution env)"
  have eq: "iterate_to_target_with env att bounds target max_iterations
      = run_bisection (ie_checked env) att bounds ?model target max_iterations"
    using assms(1-6)
    by (cases "run_bisection (ie_checked env) att bounds ?model target max_iterations")
      (auto simp: iterate_to_target_with_def validate_inputs_def iterate_in_dir_def
        cleanup_work_dir_def split: sum.splits)
  have "run_bisection (ie_checked env) att bounds ?model target max_iterations \<noteq> None"
    unfolding run_bisection_def
    by (rule bisect_loop_answers [OF assms(7,8,10)])
      (use assms(9) in \<open>simp_all add: MIN_CRF_def MAX_CRF_def DEFAULT_START_CRF_def\<close>)
  moreover have "6 \<le> max_iterations \<Longrightarrow>
      \<exists>r. run_bisection (ie_checked env) att bounds ?model target max_iterations = Some (Inr r)
        \<and> ir_final_crf r \<le> 51 \<and> ir_achieved_vmaf r = score (ir_final_crf r)
        \<and> \<bar>score (ir_final_crf r) - of_nat target\<bar> \<le> 2 \<and> ir_iterations r \<le> 6"
    using first_then_finds [OF assms(7-10), of "max_iterations - 1" "ie_checked env"]
    unfolding run_bisection_def by (cases max_iterations) auto
  ultimately show ?thesis unfolding eq by blast
qed


text \<open>A score that falls from 100 by one point per CRF reaches 80 within tolerance.\<close>

definition linear_attempt :: "u32 encode_attempt" where
  "linear_attempt =
     \<lparr>ea_encode_sample = (\<lambda>iter crf bounds. Inr (None, crf)),
      ea_compute_vmaf = (\<lambda>crf model. Inr (100 - of_nat crf))\<rparr>"

definition quiet_env :: iterate_env where
  "quiet_env =
     \<lparr>ie_checked = True, ie_create_dir = None, ie_extract = None, ie_resolution = None,
      ie_cleanup = None\<rparr>"

theorem vmaf_search_converges_witness:
  "\<exists>r. iterate_to_target_with quiet_env linear_attempt no_bounds 80 6 = Some (Inr r)
     \<and> ir_final_crf r \<le> 51 \<and> ir_achieved_vmaf r = 100 - of_nat (ir_final_crf r)
     \<and> \<bar>100 - of_nat (ir_final_crf r) - of_nat 80\<bar> \<le> (2 :: f64) \<and> ir_iterations r \<le> 6"
proof -
  have "scores_as linear_attempt no_bounds (model_for_source (ie_resolution quiet_env)) (\<lambda>c. 100 - of_nat c)"
      "score_falls (\<lambda>c. 100 - of_nat c)" "within_tolerance (100 - of_nat 20) 80"
    by (simp_all add: scores_as_def linear_attempt_def score_falls_def within_tolerance_def TARGET_TOLERANCE_def)
  then show ?thesis
    using vmaf_search_converges [of 80 6 quiet_env linear_attempt no_bounds "\<lambda>c. 100 - of_nat c" 20]
    by (simp add: quiet_env_def MAX_CRF_def)
qed

section \<open>Sample plans\<close>

text \<open>Samples lie within the source, and uniform ones do not overlap.\<close>

lemma sample_segments_inside:
  "s \<in> set (sample_segments source wanted ts) \<Longrightarrow> 0 \<le> source \<Longrightarrow> 0 < wanted
     \<Longrightarrow> 0 \<le> sg_start_secs s \<and> 0 < sg_duration_secs s \<and> sg_duration_secs s \<le> wanted
       \<and> ((\<forall>t \<in> set ts. 0 \<le> t) \<longrightarrow> sg_start_secs s + sg_duration_secs s \<le> source)"
  by (induction source wanted ts rule: sample_segments.induct)
    (auto simp: Let_def min_def max_def split: if_splits)


definition apart :: "segment \<Rightarrow> segment \<Rightarrow> bool" where
  "apart a b = (sg_start_secs a + sg_duration_secs a \<le> sg_start_secs b)"

lemma sample_segments_start:
  "s \<in> set (sample_segments source wanted ts) \<Longrightarrow> \<exists>t \<in> set ts. sg_start_secs s = max t 0"
  by (induction source wanted ts rule: sample_segments.induct) (auto simp: Let_def split: if_splits)

lemma sample_segments_apart:
  "sorted_wrt (\<lambda>a b. a + wanted \<le> b) ts \<Longrightarrow> (\<forall>t \<in> set ts. 0 \<le> t)
     \<Longrightarrow> sorted_wrt apart (sample_segments source wanted ts)"
proof (induction source wanted ts rule: sample_segments.induct)
  case (2 source wanted t ts)
  have "t + min wanted (source - t) \<le> sg_start_secs s"
    if "s \<in> set (sample_segments source wanted ts)" for s
    using sample_segments_start [OF that] 2(4,5) by (force simp: max_def min_def)
  with 2 show ?case by (auto simp: Let_def apart_def)
qed simp

lemma uniform_samples_apart:
  assumes "uniform_sample_plan source count duration = Inr segments" "0 \<le> source"
  shows "sorted_wrt apart segments"
proof -
  let ?ts = "map (\<lambda>i. source * (of_nat i + 1 / 2) / of_nat count) [0..<count]"
  from assms(1) have count: "0 < count"
    by (auto simp: uniform_sample_plan_def uniform_sample_timestamps_def split: if_splits)
  with assms(1) have plan: "timestamp_sample_plan source count duration ?ts = Inr segments"
    by (simp add: uniform_sample_plan_def uniform_sample_timestamps_def)
  show ?thesis
  proof (cases "source \<le> of_nat count * of_nat duration")
    case True
    with plan show ?thesis by (auto simp: timestamp_sample_plan_def split: if_splits)
  next
    case False
    have step: "source * (of_nat i + 1 / 2) / of_nat count + of_nat duration
        \<le> source * (of_nat j + 1 / 2) / of_nat count" if "i < j" for i j
    proof -
      have "of_nat duration * of_nat count \<le> source * (of_nat j - of_nat i)"
      proof -
        have "source * 1 \<le> source * (of_nat j - of_nat i)"
          using \<open>i < j\<close> assms(2) by (intro mult_left_mono) (simp_all add: le_diff_eq flip: of_nat_Suc)
        with False show ?thesis by (simp add: mult.commute)
      qed
      then have "source * (of_nat i + 1 / 2) + of_nat duration * of_nat count \<le> source * (of_nat j + 1 / 2)"
        by (simp add: algebra_simps)
      then have "(source * (of_nat i + 1 / 2) + of_nat duration * of_nat count) / of_nat count
          \<le> source * (of_nat j + 1 / 2) / of_nat count"
        by (rule divide_right_mono) simp
      then show ?thesis
        using count by (simp add: add_divide_distrib)
    qed
    have "sorted_wrt (\<lambda>a b. a + of_nat duration \<le> b) ?ts"
      by (simp add: sorted_wrt_map sorted_wrt_iff_nth_less step)
    moreover have "\<forall>t \<in> set ?ts. 0 \<le> t" using assms(2) by simp
    ultimately show ?thesis
      using plan False sample_segments_apart
      by (auto simp: timestamp_sample_plan_def Let_def split: if_splits)
  qed
qed


end
