(* ===== verification/Ffmpeg_Executor.thy ===== *)
theory Ffmpeg_Executor
  imports Exec_World Vmaf
begin

text \<open>
  The execution of a plan by \<open>ffmpeg\<close>: \<open>plugins/ffmpeg-executor/src/executor.rs\<close> and the plugin in
  \<open>lib.rs\<close>. A run writes to a temporary file beside the original, records the change and renames; the
  result \<open>None\<close> is a panic.
\<close>

section \<open>Sequencing\<close>

definition act_bind :: "'a act \<Rightarrow> ('a \<Rightarrow> 'b act) \<Rightarrow> 'b act" where
  "act_bind m k w = (case m w of (Inl e, w') \<Rightarrow> (Inl e, w') | (Inr x, w') \<Rightarrow> k x w')"

definition act_io :: "(string \<Rightarrow> voom_error) \<Rightarrow> (exec_world \<Rightarrow> (string + 'a) \<times> exec_world) \<Rightarrow> 'a act" where
  "act_io wrap m w = (case m w of (Inl e, w') \<Rightarrow> (Inl (wrap e), w') | (Inr x, w') \<Rightarrow> (Inr x, w'))"

definition act_ignore :: "(exec_world \<Rightarrow> 'a \<times> exec_world) \<Rightarrow> exec_world \<Rightarrow> exec_world" where
  "act_ignore m w = snd (m w)"

text \<open>\<open>inspect_err\<close> and \<open>map_err\<close> with a clean-up: the temporary file is removed when the step fails.\<close>

definition act_or_remove :: "'a act \<Rightarrow> string \<Rightarrow> 'a act" where
  "act_or_remove m tmp w =
     (case m w of
        (Inl e, w') \<Rightarrow> (Inl e, act_ignore (fs_remove_file tmp) w')
      | (Inr x, w') \<Rightarrow> (Inr x, w'))"

section \<open>VMAF and loudness preparation\<close>

record outcome_stats =
  os_achieved_vmaf :: "f64 option"
  os_iterations :: u32
  os_fallback_used :: bool

definition OutcomeStats_default :: outcome_stats where
  "OutcomeStats_default =
     \<lparr>os_achieved_vmaf = None, os_iterations = 1, os_fallback_used = False\<rparr>"

record transcode_outcome_rec =
  to_id :: uuid
  to_file_id :: string
  to_target_vmaf :: "u32 option"
  to_achieved_vmaf :: "f64 option"
  to_crf_used :: "u32 option"
  to_bitrate_used :: "string option"
  to_iterations :: u32
  to_sample_strategy :: sample_strategy
  to_fallback_used :: bool
  to_completed_at :: timestamp

type_synonym vmaf_runner = "string \<Rightarrow> u32 \<Rightarrow> bitrate_bounds \<Rightarrow> iteration_error + iteration_result"

definition prepare_vmaf_action ::
  "exec_env \<Rightarrow> media_file \<Rightarrow> vmaf_runner \<Rightarrow> planned_action \<Rightarrow> planned_action \<times> outcome_stats" where
  "prepare_vmaf_action E f runner a =
     (case pa_parameters a of
        ApTranscode codec s \<Rightarrow>
          (case resolve_target_vmaf s f of
             None \<Rightarrow> (a, OutcomeStats_default)
           | Some target \<Rightarrow>
               let s = s\<lparr>ts_target_vmaf := Some target\<rparr>;
                   bounds = \<lparr>bb_min_bitrate = ts_min_bitrate s, bb_max_bitrate = ts_max_bitrate s\<rparr>
               in case runner (mf_path f) target bounds of
                    Inr r \<Rightarrow>
                      (a\<lparr>pa_parameters := ApTranscode codec
                          (s\<lparr>ts_crf := Some (ir_final_crf r), ts_bitrate := ir_final_bitrate r,
                             ts_preset := None\<rparr>)\<rparr>,
                       \<lparr>os_achieved_vmaf = Some (xe_f32 E (ir_achieved_vmaf r)),
                        os_iterations = ir_iterations r, os_fallback_used = False\<rparr>)
                  | Inl _ \<Rightarrow>
                      (a\<lparr>pa_parameters := ApTranscode codec
                          (case ts_fallback s of
                             Some fb \<Rightarrow> s\<lparr>ts_crf := Some (tf_crf fb), ts_preset := Some (tf_preset fb)\<rparr>
                           | None \<Rightarrow> s)\<rparr>,
                       \<lparr>os_achieved_vmaf = None, os_iterations = 1, os_fallback_used = True\<rparr>))
      | _ \<Rightarrow> (a, OutcomeStats_default))"

definition transcode_outcome ::
  "exec_env \<Rightarrow> string \<Rightarrow> planned_action \<Rightarrow> outcome_stats \<Rightarrow> transcode_outcome_rec option" where
  "transcode_outcome E file_id a stats =
     (case pa_parameters a of
        ApTranscode codec s \<Rightarrow>
          Some \<lparr>to_id = mint_uuid (xe_mint E), to_file_id = file_id, to_target_vmaf = ts_target_vmaf s,
                to_achieved_vmaf = os_achieved_vmaf stats, to_crf_used = ts_crf s,
                to_bitrate_used = ts_bitrate s, to_iterations = os_iterations stats,
                to_sample_strategy = (case ts_sample_strategy s of Some x \<Rightarrow> x | None \<Rightarrow> Full),
                to_fallback_used = os_fallback_used stats, to_completed_at = mint_now (xe_mint E)\<rparr>
      | _ \<Rightarrow> None)"

definition prepare_vmaf_transcodes_with_outcomes ::
  "exec_env \<Rightarrow> vmaf_runner \<Rightarrow> plan \<Rightarrow> plan \<times> transcode_outcome_rec list" where
  "prepare_vmaf_transcodes_with_outcomes E runner plan =
     (let prepared = map (prepare_vmaf_action E (pl_file plan) runner) (pl_actions plan)
      in (plan\<lparr>pl_actions := map fst prepared\<rparr>,
          List.map_filter (\<lambda>(a, stats).
            transcode_outcome E (xe_uuid_text E (mf_id (pl_file plan))) a stats) prepared))"

definition ffmpeg_tool_error :: "string \<Rightarrow> voom_error" where
  "ffmpeg_tool_error message = ToolExecution ''ffmpeg'' message"

text \<open>The last opening brace of the output and the first closing one after it.\<close>

definition loudnorm_json :: "string \<Rightarrow> voom_error + string" where
  "loudnorm_json t =
     (if CHR 0x7B \<notin> set t then Inl (ffmpeg_tool_error ''loudnorm output did not contain JSON'')
      else
        let body = CHR 0x7B # rev (takeWhile (\<lambda>c. c \<noteq> CHR 0x7B) (rev t)) in
        if CHR 0x7D \<notin> set body then Inl (ffmpeg_tool_error ''loudnorm JSON was incomplete'')
        else Inr (takeWhile (\<lambda>c. c \<noteq> CHR 0x7D) body @ [CHR 0x7D]))"

definition parse_loudnorm_json :: "exec_env \<Rightarrow> string \<Rightarrow> voom_error + loudness_measurement" where
  "parse_loudnorm_json E t =
     (case loudnorm_json t of
        Inl e \<Rightarrow> Inl e
      | Inr json \<Rightarrow>
          (case xe_json_numbers E json of
             Inl e \<Rightarrow> Inl (ffmpeg_tool_error (''failed to parse loudnorm JSON: '' @ e))
           | Inr nums \<Rightarrow>
               (case map_result (\<lambda>key.
                   case nums key of
                     Some v \<Rightarrow> Inr v
                   | None \<Rightarrow> Inl (ffmpeg_tool_error (''loudnorm JSON missing numeric '' @ key)))
                   [''input_i'', ''input_tp'', ''input_lra'', ''input_thresh'', ''target_offset''] of
                  Inl e \<Rightarrow> Inl e
                | Inr vs \<Rightarrow>
                    Inr \<lparr>lm_input_i = vs ! 0, lm_input_tp = vs ! 1, lm_input_lra = vs ! 2,
                         lm_input_thresh = vs ! 3, lm_target_offset = vs ! 4\<rparr>)))"

definition measure_loudness_args :: "cmd_env \<Rightarrow> string \<Rightarrow> u32 \<Rightarrow> loudness_normalization \<Rightarrow> string list" where
  "measure_loudness_args C path track_index s =
     [''-hide_banner'', ''-i'', ce_lossy C path, ''-map'', ''0:'' @ nat_str track_index, ''-af'',
      ''loudnorm=I='' @ ce_fmt C 1 (ln_target_lufs s) @ '':TP='' @ ce_fmt C 1 (ln_true_peak_db s)
        @ '':LRA='' @ ce_fmt C 1 (case ln_lra_max s of Some x \<Rightarrow> x | None \<Rightarrow> 99)
        @ '':print_format=json'',
      ''-f'', ''null'', ''-'']"

definition STDERR_TAIL_LINES :: usize where
  "STDERR_TAIL_LINES = 20"

definition tail_of :: "exec_env \<Rightarrow> process_output \<Rightarrow> string" where
  "tail_of E out = stderr_tail (ce_lossy (xe_cmd E)) (po_stderr out) STDERR_TAIL_LINES"

definition measure_loudness ::
  "exec_env \<Rightarrow> string \<Rightarrow> u32 \<Rightarrow> loudness_normalization \<Rightarrow> (string \<times> string) list \<Rightarrow> loudness_measurement act" where
  "measure_loudness E path track_index s env =
     act_bind (run_tool E ''ffmpeg'' (measure_loudness_args (xe_cmd E) path track_index s) env)
       (\<lambda>out w.
          if \<not> po_success out
          then (Inl (ffmpeg_tool_error (''loudness measurement failed: '' @ tail_of E out)), w)
          else (parse_loudnorm_json E (ce_lossy (xe_cmd E) (po_stderr out)), w))"

record loudness_update =
  lu_track_index :: u32
  lu_integrated_lufs :: f64
  lu_true_peak_db :: f64
  lu_loudness_range_lu :: "f64 option"

text \<open>
  One action: what becomes of it, the description to remove and the update. The loop collects them
  in order.
\<close>

definition loudness_action ::
  "exec_env \<Rightarrow> string \<Rightarrow> (string \<times> string) list \<Rightarrow> planned_action
     \<Rightarrow> (planned_action \<times> string list \<times> loudness_update list) act" where
  "loudness_action E path env a w =
     (case pa_parameters a of
        ApTranscode codec s \<Rightarrow>
          (case (ts_loudness s, pa_track_index a) of
             (Some l, Some i) \<Rightarrow>
               if ln_measured l \<noteq> None then (Inr (a, [], []), w)
               else act_bind (measure_loudness E path i l env)
                 (\<lambda>m w.
                    (Inr (if is_within_target l (lm_input_i m)
                       then if prefix ''Normalize audio track '' (pa_description a)
                         then (a, [pa_description a], [])
                         else (a\<lparr>pa_parameters := ApTranscode codec (s\<lparr>ts_loudness := None\<rparr>)\<rparr>, [], [])
                       else (a\<lparr>pa_parameters := ApTranscode codec
                               (s\<lparr>ts_loudness := Some (with_measurement m l)\<rparr>)\<rparr>, [],
                             [\<lparr>lu_track_index = i, lu_integrated_lufs = ln_target_lufs l,
                               lu_true_peak_db = ln_true_peak_db l,
                               lu_loudness_range_lu = ln_lra_max l\<rparr>])), w)) w
           | _ \<Rightarrow> (Inr (a, [], []), w))
      | _ \<Rightarrow> (Inr (a, [], []), w))"

fun loudness_loop ::
  "exec_env \<Rightarrow> string \<Rightarrow> (string \<times> string) list \<Rightarrow> planned_action list
     \<Rightarrow> (planned_action list \<times> string list \<times> loudness_update list) act" where
  "loudness_loop E path env [] w = (Inr ([], [], []), w)"
| "loudness_loop E path env (a # as) w =
     act_bind (loudness_action E path env a)
       (\<lambda>(a', removed, updates). act_bind (loudness_loop E path env as)
         (\<lambda>(as', rs, us) w'. (Inr (a' # as', removed @ rs, updates @ us), w'))) w"

definition env_vars :: "hw_accel_config \<Rightarrow> (string \<times> string) list" where
  "env_vars hw = (case device_env hw of Some v \<Rightarrow> [v] | None \<Rightarrow> [])"

definition prepare_loudness_actions ::
  "exec_env \<Rightarrow> hw_accel_config \<Rightarrow> plan \<Rightarrow> (plan \<times> loudness_update list) act" where
  "prepare_loudness_actions E hw plan =
     act_bind (loudness_loop E (mf_path (pl_file plan))
         (env_vars hw) (pl_actions plan))
       (\<lambda>(as, removed, updates) w.
          (Inr (plan\<lparr>pl_actions := filter (\<lambda>a. pa_description a \<notin> set removed) as\<rparr>, updates), w))"

section \<open>Dynamic HDR\<close>

datatype dynamic_hdr_kind = Hdr10Plus | DolbyVision

definition DynamicHdrKind_tool_name :: "dynamic_hdr_kind \<Rightarrow> string" where
  "DynamicHdrKind_tool_name k = (case k of Hdr10Plus \<Rightarrow> ''hdr10plus_tool'' | DolbyVision \<Rightarrow> ''dovi_tool'')"

record dynamic_hdr_job_rec =
  dh_kind :: dynamic_hdr_kind
  dh_source_track_index :: u32
  dh_output_extension :: string

definition dynamic_hdr_error :: "string \<Rightarrow> voom_error" where
  "dynamic_hdr_error message = ToolExecution ''dynamic-hdr'' message"

definition dynamic_hdr_kind_of :: "track \<Rightarrow> voom_error + dynamic_hdr_kind option" where
  "dynamic_hdr_kind_of t =
     (let fmt = (case tr_hdr_format t of Some x \<Rightarrow> x | None \<Rightarrow> []) in
      if str_contains fmt ''HDR10+'' then Inr (Some Hdr10Plus)
      else if str_contains fmt ''Dolby Vision''
      then (case tr_dolby_vision_profile t of
              None \<Rightarrow>
                Inl (dynamic_hdr_error ''cannot preserve Dolby Vision RPU metadata without a detected profile'')
            | Some profile \<Rightarrow>
                if profile \<in> {5, 7, 8} then Inr (Some DolbyVision)
                else Inl (dynamic_hdr_error (''unsupported Dolby Vision profile '' @ nat_str profile
                  @ ''; supported profiles are 5, 7, and 8'')))
      else Inr None)"

definition dynamic_hdr_job ::
  "media_file \<Rightarrow> planned_action list \<Rightarrow> string \<Rightarrow> voom_error + dynamic_hdr_job_rec option" where
  "dynamic_hdr_job f as output_ext =
     (case find (\<lambda>a. pa_operation a = TranscodeVideo) as of
        None \<Rightarrow> Inr None
      | Some a \<Rightarrow>
          (case pa_parameters a of
             ApTranscode codec s \<Rightarrow>
               (case Option.bind (pa_track_index a) (\<lambda>i. find (\<lambda>t. tr_index t = i) (mf_tracks f)) of
                  None \<Rightarrow> Inr None
                | Some t \<Rightarrow>
                    if should_tonemap s \<or> \<not> (case ts_preserve_hdr s of Some b \<Rightarrow> b | None \<Rightarrow> True)
                    then Inr None
                    else (case dynamic_hdr_kind_of t of
                       Inl e \<Rightarrow> Inl e
                     | Inr None \<Rightarrow> Inr None
                     | Inr (Some kind) \<Rightarrow>
                         if codec \<noteq> ''hevc'' \<and> codec \<noteq> ''h265''
                         then Inl (dynamic_hdr_error
                           (''cannot preserve dynamic HDR metadata while transcoding to '' @ codec
                            @ ''; choose hevc/h265 or set preserve_hdr: false''))
                         else if output_ext \<noteq> ''mkv'' \<and> output_ext \<noteq> ''mp4''
                         then Inl (dynamic_hdr_error
                           (''cannot preserve dynamic HDR metadata in .'' @ output_ext
                            @ '' output; choose mkv or mp4, or set preserve_hdr: false''))
                         else Inr (Some \<lparr>dh_kind = kind, dh_source_track_index = tr_index t,
                                         dh_output_extension = output_ext\<rparr>)))
           | _ \<Rightarrow> Inr None))"

definition run_checked ::
  "exec_env \<Rightarrow> string \<Rightarrow> string list \<Rightarrow> (string \<times> string) list \<Rightarrow> unit act" where
  "run_checked E tool args env =
     act_bind (run_tool E tool args env)
       (\<lambda>out w.
          if po_success out then (Inr (), w)
          else (Inl (ToolExecution tool (tool @ '' exited with '' @ xe_status E (po_code out) @ '': ''
                  @ tail_of E out)), w))"

definition ensure_tool_available :: "exec_env \<Rightarrow> string \<Rightarrow> (string \<times> string) list \<Rightarrow> unit act" where
  "ensure_tool_available E tool env =
     act_bind (run_tool E tool [''--version''] env)
       (\<lambda>out w.
          if po_success out then (Inr (), w)
          else (Inl (ToolExecution tool (tool @ '' --version exited with ''
                  @ xe_status E (po_code out))), w))"

definition metadata_path :: "dynamic_hdr_kind \<Rightarrow> string \<Rightarrow> string" where
  "metadata_path k work_dir =
     join_work_dir work_dir (case k of Hdr10Plus \<Rightarrow> ''hdr10plus.json'' | DolbyVision \<Rightarrow> ''rpu.bin'')"

definition extract_hevc_args :: "cmd_env \<Rightarrow> string \<Rightarrow> string \<Rightarrow> string \<Rightarrow> string list" where
  "extract_hevc_args C source stream dest =
     [''-y'', ''-hide_banner'', ''-i'', ce_lossy C source, ''-map'', stream, ''-c:v'', ''copy'',
      ''-bsf:v'', ''hevc_mp4toannexb'', ''-f'', ''hevc'', ce_lossy C dest]"

definition extract_metadata_args :: "cmd_env \<Rightarrow> dynamic_hdr_kind \<Rightarrow> string \<Rightarrow> string \<Rightarrow> string list" where
  "extract_metadata_args C k source_hevc work_dir =
     [case k of Hdr10Plus \<Rightarrow> ''extract'' | DolbyVision \<Rightarrow> ''extract-rpu'', ce_lossy C source_hevc,
      ''-o'', ce_lossy C (metadata_path k work_dir)]"

definition inject_metadata_args ::
  "cmd_env \<Rightarrow> dynamic_hdr_kind \<Rightarrow> string \<Rightarrow> string \<Rightarrow> string \<Rightarrow> string list" where
  "inject_metadata_args C k encoded injected work_dir =
     (case k of
        Hdr10Plus \<Rightarrow> [''inject'', ''-i'', ce_lossy C encoded, ''-j'']
      | DolbyVision \<Rightarrow> [''inject-rpu'', ''-i'', ce_lossy C encoded, ''--rpu-in'']) @
     [ce_lossy C (metadata_path k work_dir), ''-o'', ce_lossy C injected]"

definition remux_args :: "cmd_env \<Rightarrow> string \<Rightarrow> string \<Rightarrow> string \<Rightarrow> string list" where
  "remux_args C output injected remuxed =
     [''-y'', ''-hide_banner'', ''-i'', ce_lossy C output, ''-i'', ce_lossy C injected,
      ''-map'', ''1:v:0'', ''-map'', ''0:a?'', ''-map'', ''0:s?'', ''-map'', ''0:d?'', ''-map'', ''0:t?'',
      ''-map_metadata'', ''0'', ''-c'', ''copy'', ce_lossy C remuxed]"

definition replace_output ::
  "exec_env \<Rightarrow> bool \<Rightarrow> uuid option \<Rightarrow> string \<Rightarrow> string \<Rightarrow> string \<Rightarrow> unit act" where
  "replace_output E storage session plan_source output remuxed =
     act_bind (act_or_remove
         (record_mutation_for_pending_write (xe_cmd E) storage session plan_source output) remuxed)
       (\<lambda>_. act_bind (act_io dynamic_hdr_error (fs_remove_file output))
         (\<lambda>_. act_io dynamic_hdr_error (fs_rename remuxed output)))"

definition apply_dynamic_hdr_reinjection_in_dir ::
  "exec_env \<Rightarrow> bool \<Rightarrow> uuid option \<Rightarrow> dynamic_hdr_job_rec \<Rightarrow> string \<Rightarrow> string
     \<Rightarrow> (string \<times> string) list \<Rightarrow> unit act" where
  "apply_dynamic_hdr_reinjection_in_dir E storage session job source output env =
     (let C = xe_cmd E; dir = xe_work_dir E;
          source_hevc = join_work_dir dir ''source.hevc'';
          encoded_hevc = join_work_dir dir ''encoded.hevc'';
          injected_hevc = join_work_dir dir ''injected.hevc'';
          remuxed = join_work_dir dir (''remuxed.'' @ dh_output_extension job);
          tool = DynamicHdrKind_tool_name (dh_kind job)
      in act_bind (run_checked E ''ffmpeg''
             (extract_hevc_args C source (''0:'' @ nat_str (dh_source_track_index job)) source_hevc) env)
           (\<lambda>_. act_bind (run_checked E tool (extract_metadata_args C (dh_kind job) source_hevc dir) env)
           (\<lambda>_. act_bind (run_checked E ''ffmpeg'' (extract_hevc_args C output ''0:v:0'' encoded_hevc) env)
           (\<lambda>_. act_bind (run_checked E tool
                   (inject_metadata_args C (dh_kind job) encoded_hevc injected_hevc dir) env)
           (\<lambda>_. act_bind (run_checked E ''ffmpeg'' (remux_args C output injected_hevc remuxed) env)
           (\<lambda>_. replace_output E storage session source output remuxed))))))"

definition apply_dynamic_hdr_reinjection ::
  "exec_env \<Rightarrow> bool \<Rightarrow> uuid option \<Rightarrow> dynamic_hdr_job_rec \<Rightarrow> string \<Rightarrow> string
     \<Rightarrow> (string \<times> string) list \<Rightarrow> unit act" where
  "apply_dynamic_hdr_reinjection E storage session job source output env w =
     (case act_io dynamic_hdr_error fs_create_dir w of
        (Inl e, w) \<Rightarrow> (Inl e, w)
      | (Inr _, w) \<Rightarrow>
          (case apply_dynamic_hdr_reinjection_in_dir E storage session job source output env w of
             (Inr _, w) \<Rightarrow> act_io dynamic_hdr_error (fs_remove_dir_all (xe_work_dir E)) w
           | (Inl e, w) \<Rightarrow> (Inl e, act_ignore (fs_remove_dir_all (xe_work_dir E)) w)))"

section \<open>The plan\<close>

record plan_execution =
  pe_action_results :: "action_result list"
  pe_transcode_outcomes :: "transcode_outcome_rec list"
  pe_loudness_updates :: "loudness_update list"

definition rename_output_to ::
  "exec_env \<Rightarrow> bool \<Rightarrow> uuid option \<Rightarrow> string \<Rightarrow> string \<Rightarrow> string \<Rightarrow> unit act" where
  "rename_output_to E storage session source output final =
     act_bind (act_or_remove
         (record_mutation_for_pending_write (xe_cmd E) storage session source final) output)
       (\<lambda>_. act_or_remove
         (act_io (\<lambda>e. ffmpeg_tool_error (''failed to rename temp file to ''
             @ ce_lossy (xe_cmd E) final @ '': '' @ e)) (fs_rename output final)) output)"

definition rename_output :: "exec_env \<Rightarrow> bool \<Rightarrow> plan \<Rightarrow> string \<Rightarrow> string \<Rightarrow> string act" where
  "rename_output E storage plan output ext =
     (let source = mf_path (pl_file plan);
          original_ext = (case path_extension source of
                            Some e \<Rightarrow> if ce_is_utf8 (xe_cmd E) e then e else []
                          | None \<Rightarrow> [])
      in if ext = original_ext
         then act_bind (rename_output_to E storage (pl_scan_session plan) source output source)
           (\<lambda>_ w. (Inr source, w))
         else
           let new_path = path_with_extension source ext in
           act_bind (rename_output_to E storage (pl_scan_session plan) source output new_path)
             (\<lambda>_ w. (Inr new_path,
                if new_path \<noteq> source then act_ignore (fs_remove_file source) w else w)))"

definition success_results :: "exec_env \<Rightarrow> string \<Rightarrow> planned_action list \<Rightarrow> action_result list" where
  "success_results E command as =
     map (\<lambda>a. with_execution_detail
         \<lparr>ed_command = command, ed_exit_code = Some 0, ed_stderr_tail = [],
          ed_duration_ms = xe_elapsed_ms E\<rparr>
         (ActionResult_success (pa_operation a) (pa_description a))) as"

text \<open>The result of a failed run names the first action: \<open>actions[0]\<close> panics when there is none.\<close>

definition failure_results ::
  "exec_env \<Rightarrow> string \<Rightarrow> process_output \<Rightarrow> planned_action list \<Rightarrow> action_result list option" where
  "failure_results E command out as =
     (case as of
        [] \<Rightarrow> None
      | a # _ \<Rightarrow>
          let tail = tail_of E out;
              error_msg = ''ffmpeg exited with '' @ xe_status E (po_code out) @ '':'' @ [CHR 0x0A]
                @ (if tail = [] then ''(no output)'' else tail) @ [CHR 0x0A] @ ''cmd: '' @ command
          in Some [with_execution_detail
               \<lparr>ed_command = command, ed_exit_code = po_code out, ed_stderr_tail = tail,
                ed_duration_ms = xe_elapsed_ms E\<rparr>
               (ActionResult_failure (pa_operation a) (pa_description a) error_msg)])"

text \<open>What follows the run of \<open>ffmpeg\<close>.\<close>

definition finish_execution ::
  "exec_env \<Rightarrow> bool \<Rightarrow> plan \<Rightarrow> dynamic_hdr_job_rec option \<Rightarrow> string \<Rightarrow> string \<Rightarrow> string
     \<Rightarrow> (string \<times> string) list \<Rightarrow> transcode_outcome_rec list \<Rightarrow> loudness_update list
     \<Rightarrow> voom_error + process_output \<Rightarrow> exec_world \<Rightarrow> (voom_error + plan_execution) option \<times> exec_world" where
  "finish_execution E storage plan job output ext command env outcomes updates r w =
     (case r of
        Inl e \<Rightarrow> (Some (Inl e), act_ignore (fs_remove_file output) w)
      | Inr out \<Rightarrow>
          if po_success out
          then
            let inject = (case job of
                            None \<Rightarrow> (\<lambda>w. (Inr (), w))
                          | Some j \<Rightarrow> act_or_remove (apply_dynamic_hdr_reinjection E storage
                              (pl_scan_session plan) j (mf_path (pl_file plan)) output env) output)
            in (case act_bind inject (\<lambda>_. rename_output E storage plan output ext) w of
                  (Inl e, w) \<Rightarrow> (Some (Inl e), w)
                | (Inr _, w) \<Rightarrow>
                    (Some (Inr \<lparr>pe_action_results = success_results E command (pl_actions plan),
                                pe_transcode_outcomes = outcomes, pe_loudness_updates = updates\<rparr>), w))
          else
            (map_option (\<lambda>rs. Inr \<lparr>pe_action_results = rs, pe_transcode_outcomes = outcomes,
                                   pe_loudness_updates = []\<rparr>)
               (failure_results E command out (pl_actions plan)),
             act_ignore (fs_remove_file output) w))"

definition check_hdr_tool ::
  "exec_env \<Rightarrow> (string \<times> string) list \<Rightarrow> dynamic_hdr_job_rec option \<Rightarrow> unit act" where
  "check_hdr_tool E env job =
     (case job of
        None \<Rightarrow> (\<lambda>w. (Inr (), w))
      | Some j \<Rightarrow> ensure_tool_available E (DynamicHdrKind_tool_name (dh_kind j)) env)"

text \<open>The prepared plan: its command, the check of the HDR tool, the run and what follows.\<close>

definition run_prepared_plan ::
  "exec_env \<Rightarrow> hw_accel_config \<Rightarrow> bool \<Rightarrow> plan \<Rightarrow> transcode_outcome_rec list \<Rightarrow> loudness_update list
     \<Rightarrow> exec_world \<Rightarrow> (voom_error + plan_execution) option \<times> exec_world" where
  "run_prepared_plan E hw storage plan outcomes updates w =
     (let C = xe_cmd E; f = pl_file plan; as = pl_actions plan;
          ext = output_extension C f as;
          output = temp_path_with_ext C (xe_temp_id E 0) (mf_path f) ext
      in case build_ffmpeg_command C f as output
                (if HwAccelConfig_enabled hw then Some hw else None) of
           Inl e \<Rightarrow> (Some (Inl e), w)
         | Inr args \<Rightarrow>
             (case dynamic_hdr_job f as ext of
                Inl e \<Rightarrow> (Some (Inl e), w)
              | Inr job \<Rightarrow>
                  (case check_hdr_tool E (env_vars hw) job w of
                     (Inl e, w) \<Rightarrow> (Some (Inl e), w)
                   | (Inr _, w) \<Rightarrow>
                       (case run_tool E ''ffmpeg'' args (env_vars hw) w of
                          (r, w) \<Rightarrow>
                            finish_execution E storage plan job output ext
                              (shell_quote_args ''ffmpeg'' args) (env_vars hw) outcomes updates r w))))"

definition execute_plan_with_runners ::
  "exec_env \<Rightarrow> vmaf_runner \<Rightarrow> hw_accel_config \<Rightarrow> bool \<Rightarrow> plan \<Rightarrow> exec_world
     \<Rightarrow> (voom_error + plan_execution) option \<times> exec_world" where
  "execute_plan_with_runners E runner hw storage plan w =
     (if xw_files w (mf_path (pl_file plan)) = None
      then (Some (Inl (ffmpeg_tool_error (''file not found: ''
              @ ce_lossy (xe_cmd E) (mf_path (pl_file plan))))), w)
      else
        case prepare_vmaf_transcodes_with_outcomes E runner plan of
          (plan1, outcomes) \<Rightarrow>
            (case prepare_loudness_actions E hw plan1 w of
               (Inl e, w) \<Rightarrow> (Some (Inl e), w)
             | (Inr (plan2, updates), w) \<Rightarrow>
                 run_prepared_plan E hw storage plan2 outcomes updates w))"

end
