(* ===== verification/Mkvtoolnix.thy ===== *)
theory Mkvtoolnix
  imports Ffmpeg_Executor Codecs Events
begin

text \<open>
  The MKVToolNix executor: \<open>plugins/mkvtoolnix-executor/src/\<close> with \<open>merge.rs\<close>, \<open>propedit.rs\<close> and the
  plugin in \<open>lib.rs\<close>. The clean-up of a scope guard happens at every end but the successful one. Track
  indexes are below the largest 32-bit number, so that adding one to them does not overflow.
\<close>

section \<open>Merging\<close>

definition MERGE_OPS :: "operation_type list" where
  "MERGE_OPS = [RemoveTrack, ReorderTracks, ConvertContainer]"

definition is_supported_op :: "operation_type \<Rightarrow> bool" where
  "is_supported_op op = (is_metadata_op op \<or> op \<in> set MERGE_OPS \<or> op = MuxSubtitle)"

definition determine_final_path :: "string \<Rightarrow> planned_action list \<Rightarrow> string" where
  "determine_final_path original as =
     (if list_ex (\<lambda>a. pa_operation a = ConvertContainer) as
      then path_with_extension original ''mkv'' else original)"

text \<open>The indexes to remove among the tracks of a category; an attachment goes into every list.\<close>

definition removed_index :: "string \<Rightarrow> planned_action \<Rightarrow> u32 option" where
  "removed_index category a =
     (if pa_operation a \<noteq> RemoveTrack then None
      else case (pa_track_index a, pa_parameters a) of
        (Some idx, ApRemoveTrack reason ty) \<Rightarrow>
          if track_category ty = category \<or> track_category ty \<notin> {''video'', ''audio'', ''subtitle''}
          then Some idx else None
      | _ \<Rightarrow> None)"

definition removal_args :: "string \<Rightarrow> u32 list \<Rightarrow> string list" where
  "removal_args option ids =
     (if ids = [] then [] else [option, ''!'' @ str_join '','' (map nat_str ids)])"

definition reorder_args :: "planned_action \<Rightarrow> string list" where
  "reorder_args a =
     (if pa_operation a \<noteq> ReorderTracks then []
      else case pa_parameters a of
        ApReorderTracks order \<Rightarrow>
          let track_order = map (\<lambda>idx. ''0:'' @ nat_str idx)
                (List.map_filter (parse_unsigned U64_MAX) order) in
          if track_order = [] then [] else [''--track-order'', str_join '','' track_order]
      | _ \<Rightarrow> [])"

definition build_merge_args :: "cmd_env \<Rightarrow> string \<Rightarrow> string \<Rightarrow> planned_action list \<Rightarrow> string list" where
  "build_merge_args C input output as =
     [''-o'', ce_lossy C output]
     @ removal_args ''--video-tracks'' (List.map_filter (removed_index ''video'') as)
     @ removal_args ''--audio-tracks'' (List.map_filter (removed_index ''audio'') as)
     @ removal_args ''--subtitle-tracks'' (List.map_filter (removed_index ''subtitle'') as)
     @ concat (map reorder_args as)
     @ [ce_lossy C input]"

definition mkv_success_results :: "execution_detail \<Rightarrow> planned_action list \<Rightarrow> action_result list" where
  "mkv_success_results detail as =
     map (\<lambda>a. with_execution_detail detail (ActionResult_success (pa_operation a) (pa_description a))) as"

definition mkv_failure_result :: "execution_detail \<Rightarrow> planned_action \<Rightarrow> string \<Rightarrow> action_result" where
  "mkv_failure_result detail a msg =
     with_execution_detail detail (ActionResult_failure (pa_operation a) (pa_description a) msg)"

definition output_detail :: "exec_env \<Rightarrow> string \<Rightarrow> process_output \<Rightarrow> execution_detail" where
  "output_detail E command out =
     \<lparr>ed_command = command, ed_exit_code = po_code out, ed_stderr_tail = tail_of E out,
      ed_duration_ms = xe_elapsed_ms E\<rparr>"

text \<open>\<open>mkvmerge\<close> ends with 0 on success and 1 on warnings.\<close>

definition merge_ok :: "process_output \<Rightarrow> bool" where
  "merge_ok out = (case po_code out of None \<Rightarrow> False | Some c \<Rightarrow> c \<le> 1)"

definition mkv_tool_error :: "string \<Rightarrow> voom_error" where
  "mkv_tool_error message = ToolExecution ''mkvmerge'' message"

definition merge_commit ::
  "exec_env \<Rightarrow> bool \<Rightarrow> uuid option \<Rightarrow> string \<Rightarrow> string \<Rightarrow> string \<Rightarrow> unit act" where
  "merge_commit E storage session path temp final =
     act_bind (record_mutation_for_pending_write (xe_cmd E) storage session path final)
       (\<lambda>_. act_io (\<lambda>e. mkv_tool_error (''failed to rename '' @ ce_lossy (xe_cmd E) temp @ '' to ''
             @ ce_lossy (xe_cmd E) final @ '': '' @ e)) (fs_rename temp final))"

definition execute_merge_actions ::
  "exec_env \<Rightarrow> bool \<Rightarrow> uuid option \<Rightarrow> string \<Rightarrow> planned_action list \<Rightarrow> action_result list act" where
  "execute_merge_actions E storage session path as w =
     (case as of
        [] \<Rightarrow> (Inr [], w)
      | a # _ \<Rightarrow>
          if xw_files w path = None
          then (Inl (mkv_tool_error (''file not found: '' @ ce_lossy (xe_cmd E) path)), w)
          else
            let temp = temp_path_with_ext (xe_cmd E) (xe_temp_id E 0) path ''mkv'';
                args = build_merge_args (xe_cmd E) path temp as;
                command = shell_quote_args ''mkvmerge'' args
            in (case run_tool E ''mkvmerge'' args [] w of
                  (Inl e, w) \<Rightarrow> (Inl e, act_ignore (fs_remove_file temp) w)
                | (Inr out, w) \<Rightarrow>
                    if merge_ok out
                    then
                      let final = determine_final_path path as in
                      (case merge_commit E storage session path temp final w of
                         (Inl e, w) \<Rightarrow> (Inl e, act_ignore (fs_remove_file temp) w)
                       | (Inr _, w) \<Rightarrow>
                           (Inr (mkv_success_results (output_detail E command out) as),
                            if final \<noteq> path \<and> xw_files w path \<noteq> None
                            then act_ignore (fs_remove_file path) w else w))
                    else
                      (Inr [mkv_failure_result (output_detail E command out) a
                          (''mkvmerge exited with status '' @ xe_status E (po_code out) @ '':'' @ [CHR 0x0A]
                           @ tail_of E out @ [CHR 0x0A] @ ''cmd: '' @ command)],
                       act_ignore (fs_remove_file temp) w)))"

section \<open>Editing properties in place\<close>

definition segment_info_properties :: "string list" where
  "segment_info_properties =
     [''title'', ''date'', ''segment-uid'', ''prev-uid'', ''next-uid'', ''segment-filename'',
      ''prev-filename'', ''next-filename'', ''muxing-application'', ''writing-application'']"

definition is_segment_info_property :: "cmd_env \<Rightarrow> string \<Rightarrow> bool" where
  "is_segment_info_property C name = (ce_lowercase C name \<in> set segment_info_properties)"

definition edit_track :: "u32 \<Rightarrow> string \<Rightarrow> string list" where
  "edit_track idx v = [''--edit'', ''track:'' @ nat_str (idx + 1), ''--set'', v]"

definition push_track_flag :: "planned_action \<Rightarrow> string \<Rightarrow> string list" where
  "push_track_flag a v = (case pa_track_index a of Some idx \<Rightarrow> edit_track idx v | None \<Rightarrow> [])"

definition checked_value :: "cmd_env \<Rightarrow> string \<Rightarrow> string list \<Rightarrow> voom_error + string list" where
  "checked_value C v args =
     (case validate_metadata_value C v of Inl e \<Rightarrow> Inl e | Inr _ \<Rightarrow> Inr args)"

definition propedit_args :: "cmd_env \<Rightarrow> planned_action \<Rightarrow> voom_error + string list" where
  "propedit_args C a =
     (case pa_operation a of
        SetDefault \<Rightarrow> Inr (push_track_flag a ''flag-default=1'')
      | ClearDefault \<Rightarrow> Inr (push_track_flag a ''flag-default=0'')
      | SetForced \<Rightarrow> Inr (push_track_flag a ''flag-forced=1'')
      | ClearForced \<Rightarrow> Inr (push_track_flag a ''flag-forced=0'')
      | SetTitle \<Rightarrow>
          (case pa_track_index a of
             None \<Rightarrow> Inr []
           | Some idx \<Rightarrow>
               let title = (case pa_parameters a of ApTitle t \<Rightarrow> t | _ \<Rightarrow> []) in
               checked_value C title (edit_track idx (''name='' @ title)))
      | SetLanguage \<Rightarrow>
          (case pa_track_index a of
             None \<Rightarrow> Inr []
           | Some idx \<Rightarrow>
               let language = (case pa_parameters a of ApLanguage l \<Rightarrow> l | _ \<Rightarrow> ''und'') in
               checked_value C language (edit_track idx (''language='' @ language)))
      | SetContainerTag \<Rightarrow>
          (case (case pa_parameters a of ApSetTag t v \<Rightarrow> (t, v) | _ \<Rightarrow> (''title'', [])) of
             (tag, v) \<Rightarrow>
               if is_segment_info_property C tag
               then (case validate_metadata_value C tag of
                       Inl e \<Rightarrow> Inl e
                     | Inr _ \<Rightarrow> checked_value C v [''--edit'', ''info'', ''--set'', tag @ ''='' @ v])
               else Inr [])
      | ClearContainerTags \<Rightarrow> Inr [''--tags'', ''all:'']
      | DeleteContainerTag \<Rightarrow>
          (let tag = (case pa_parameters a of ApDeleteTag t \<Rightarrow> t | _ \<Rightarrow> []) in
           if is_segment_info_property C tag
           then checked_value C tag [''--edit'', ''info'', ''--delete'', tag]
           else Inr [])
      | _ \<Rightarrow> Inr [])"

definition build_propedit_args :: "cmd_env \<Rightarrow> string \<Rightarrow> planned_action list \<Rightarrow> voom_error + string list" where
  "build_propedit_args C path as =
     (case map_result (propedit_args C) as of
        Inl e \<Rightarrow> Inl e
      | Inr groups \<Rightarrow> Inr (ce_lossy C path # concat groups))"

definition execute_propedit_actions ::
  "exec_env \<Rightarrow> string \<Rightarrow> planned_action list \<Rightarrow> action_result list act" where
  "execute_propedit_actions E path as w =
     (if as = [] then (Inr [], w)
      else case build_propedit_args (xe_cmd E) path as of
        Inl e \<Rightarrow> (Inl e, w)
      | Inr args \<Rightarrow>
          act_bind (run_tool E ''mkvpropedit'' args [])
            (\<lambda>out w.
               if po_success out
               then (Inr (map (\<lambda>a. ActionResult_success (pa_operation a) (pa_description a)) as), w)
               else (Inl (ToolExecution ''mkvpropedit''
                      (''mkvpropedit exited with status '' @ xe_status E (po_code out) @ '': ''
                       @ ce_lossy (xe_cmd E) (po_stderr out))), w)) w)"

section \<open>Adding a subtitle file\<close>

definition mux_args :: "cmd_env \<Rightarrow> string \<Rightarrow> string \<Rightarrow> mux_subtitle_params \<Rightarrow> string list" where
  "mux_args C path tmp p =
     [''-o'', ce_lossy C tmp, ''--language'', ''0:'' @ msp_language p, ''--forced-display-flag'',
      ''0:'' @ (if msp_forced p then ''1'' else ''0'')]
     @ (case msp_title p of Some t \<Rightarrow> [''--track-name'', ''0:'' @ t] | None \<Rightarrow> [])
     @ [ce_lossy C path, ce_lossy C (msp_subtitle_path p)]"

definition code_text :: "int option \<Rightarrow> string" where
  "code_text code =
     (case code of None \<Rightarrow> ''-1''
      | Some c \<Rightarrow> if c < 0 then ''-'' @ nat_str (nat (- c)) else nat_str (nat c))"

definition mkv_execute_mux_subtitle ::
  "exec_env \<Rightarrow> bool \<Rightarrow> plan \<Rightarrow> planned_action \<Rightarrow> action_result list act" where
  "mkv_execute_mux_subtitle E storage plan a w =
     (case pa_parameters a of
        ApMuxSubtitle p \<Rightarrow>
          if \<not> is_valid_language (msp_language p)
          then (Inl (mkv_tool_error (''invalid ISO 639 language code: '' @ [CHR 0x22] @ msp_language p
                  @ [CHR 0x22])), w)
          else
            let path = mf_path (pl_file plan);
                tmp = temp_path_with_ext (xe_cmd E) (xe_temp_id E 0) path ''mkv'';
                args = mux_args (xe_cmd E) path tmp p;
                command = shell_quote_args ''mkvmerge'' args
            in (case run_tool E ''mkvmerge'' args [] w of
                  (Inl e, w) \<Rightarrow>
                    (Inl (mkv_tool_error (''mkvmerge subtitle mux failed: '' @ VoomError_display e)),
                     act_ignore (fs_remove_file tmp) w)
                | (Inr out, w) \<Rightarrow>
                    if po_success out \<or> po_code out = Some 1
                    then
                      (case act_bind (record_mutation_for_pending_write (xe_cmd E) storage
                               (pl_scan_session plan) path path)
                             (\<lambda>_. act_io (\<lambda>e. mkv_tool_error (''failed to rename temp file: '' @ e))
                               (fs_rename tmp path)) w of
                         (Inl e, w) \<Rightarrow> (Inl e, act_ignore (fs_remove_file tmp) w)
                       | (Inr _, w) \<Rightarrow> (Inr (mkv_success_results (output_detail E command out) [a]), w))
                    else
                      (Inr [mkv_failure_result (output_detail E command out) a
                          (''mkvmerge failed (exit '' @ code_text (po_code out) @ ''):'' @ [CHR 0x0A]
                           @ (if tail_of E out = [] then ''(no output)'' else tail_of E out)
                           @ [CHR 0x0A] @ ''cmd: '' @ command)],
                       act_ignore (fs_remove_file tmp) w))
      | _ \<Rightarrow> (Inl (mkv_tool_error ''expected MuxSubtitle params''), w))"

text \<open>The loop over the subtitles to add; each draws an identifier of its own.\<close>

fun act_collect :: "(exec_env \<Rightarrow> 'a \<Rightarrow> 'b list act) \<Rightarrow> exec_env \<Rightarrow> 'a list \<Rightarrow> 'b list act" where
  "act_collect f E [] w = (Inr [], w)"
| "act_collect f E (x # xs) w =
     act_bind (f E x) (\<lambda>ys. act_bind (act_collect f (next_env E) xs) (\<lambda>zs w. (Inr (ys @ zs), w))) w"

section \<open>The plugin\<close>

definition mkv_can_handle :: "bool \<Rightarrow> plan \<Rightarrow> bool" where
  "mkv_can_handle available plan =
     (available \<and>
      (mf_container (pl_file plan) = Mkv
       \<or> list_ex (\<lambda>a. pa_operation a = ConvertContainer \<and> pa_parameters a = ApContainer Mkv)
           (pl_actions plan)) \<and>
      list_all (\<lambda>a. is_supported_op (pa_operation a)) (pl_actions plan))"

definition classify_actions :: "planned_action list \<Rightarrow> planned_action list \<times> planned_action list" where
  "classify_actions as =
     (filter (\<lambda>a. is_metadata_op (pa_operation a)) as,
      filter (\<lambda>a. \<not> is_metadata_op (pa_operation a) \<and> pa_operation a \<in> set MERGE_OPS) as)"

definition act_append :: "'b list act \<Rightarrow> 'b list act \<Rightarrow> 'b list act" where
  "act_append m n = act_bind m (\<lambda>xs. act_bind n (\<lambda>ys w. (Inr (xs @ ys), w)))"

definition mkv_execute_plan :: "exec_env \<Rightarrow> bool \<Rightarrow> plan \<Rightarrow> action_result list act" where
  "mkv_execute_plan E storage plan w =
     (let path = mf_path (pl_file plan); as = pl_actions plan;
          muxes = filter (\<lambda>a. pa_operation a = MuxSubtitle) as;
          (props, merges) = classify_actions as;
          merge = execute_merge_actions E storage (pl_scan_session plan) path merges
      in if xw_files w path = None
         then (Inl (ToolExecution ''mkvtoolnix'' (''file not found: '' @ ce_lossy (xe_cmd E) path)), w)
         else if muxes \<noteq> [] then act_collect (\<lambda>E. mkv_execute_mux_subtitle E storage plan) E muxes w
         else if mf_container (pl_file plan) = Mkv \<or> merges = []
         then act_append (execute_propedit_actions E path props) merge w
         else act_append merge
           (execute_propedit_actions E (path_with_extension path ''mkv'') props) w)"

definition mkv_handle_plan_created ::
  "exec_env \<Rightarrow> (action_result list \<Rightarrow> json) \<Rightarrow> bool \<Rightarrow> bool \<Rightarrow> plan \<Rightarrow> exec_world
     \<Rightarrow> event_result option \<times> exec_world" where
  "mkv_handle_plan_created E to_value available storage plan w =
     (if Plan_is_empty plan \<or> Plan_is_skipped plan \<or> \<not> mkv_can_handle available plan then (None, w)
      else case mkv_execute_plan E storage plan w of
        (r, w) \<Rightarrow> (Some (from_plan_execution to_value ''mkvtoolnix-executor'' r), w))"

end
