(* ===== verification/Ffmpeg_Props.thy ===== *)
theory Ffmpeg_Props
  imports Ffmpeg_Command Samples
begin

text \<open>
  What the command lines of the \<open>ffmpeg\<close> executor say: every builder only appends, so a command is a
  fixed prefix, one group of arguments per action and one group per output stream. The flags, the
  title and the language of a stream are those the last action for its track asks for.
\<close>

section \<open>Builders append\<close>

named_theorems builder_defs

declare
  cmd_input_def [builder_defs] cmd_output_def [builder_defs] map_all_def [builder_defs]
  map_track_def [builder_defs] map_metadata_def [builder_defs] map_chapters_def [builder_defs]
  codec_copy_def [builder_defs] video_codec_def [builder_defs] audio_codec_def [builder_defs]
  video_codec_for_track_def [builder_defs] audio_codec_for_track_def [builder_defs]
  cmd_crf_def [builder_defs] audio_bitrate_def [builder_defs] cmd_preset_def [builder_defs]
  cmd_metadata_def [builder_defs] cmd_disposition_def [builder_defs]
  clear_metadata_def [builder_defs] video_filter_def [builder_defs]
  video_color_metadata_def [builder_defs] x265_params_def [builder_defs]
  audio_filter_def [builder_defs] cmd_arg_def [builder_defs]

definition appends :: "(ffmpeg_command \<Rightarrow> ffmpeg_command) \<Rightarrow> bool" where
  "appends f = (\<forall>cmd. f cmd = cmd @ f [])"

lemma appendsD: "appends f \<Longrightarrow> f cmd = cmd @ f []"
  unfolding appends_def by blast

lemma appends_comp: "appends f \<Longrightarrow> appends g \<Longrightarrow> appends (\<lambda>cmd. g (f cmd))"
  unfolding appends_def by (metis append.assoc)

lemma appends_id: "appends (\<lambda>cmd. cmd)"
  by (simp add: appends_def)

lemma appends_const: "appends (\<lambda>cmd. cmd @ xs)"
  by (simp add: appends_def)

lemma opt_cmd_simps: "opt_cmd f None = (\<lambda>cmd. cmd)" "opt_cmd f (Some v) = f v"
  by (simp_all add: opt_cmd_def fun_eq_iff)

lemma appends_opt: "(\<And>v. appends (f v)) \<Longrightarrow> appends (opt_cmd f x)"
  by (cases x) (simp_all add: opt_cmd_simps appends_id)

lemma appends_quality: "appends (apply_quality encoder crf)"
  by (simp add: appends_def apply_quality_def builder_defs)

lemma appends_preset: "appends (apply_preset encoder p)"
  by (simp add: appends_def apply_preset_def builder_defs)

lemma appends_tune: "appends (apply_tune encoder p)"
  by (simp add: appends_def apply_tune_def builder_defs)

lemma appends_audio_codec_args:
  "appends (apply_audio_codec_args E stream encoder bitrate channels loudness)"
  by (cases stream; cases bitrate; cases channels; cases loudness)
    (simp_all add: appends_def apply_audio_codec_args_def opt_cmd_def builder_defs)

lemma appends_fold_arg: "fold cmd_arg xs cmd = cmd @ xs"
  by (induction xs arbitrary: cmd) (simp_all add: cmd_arg_def)

text \<open>The same for the builders that may fail.\<close>

definition result_appends :: "(ffmpeg_command \<Rightarrow> voom_error + ffmpeg_command) \<Rightarrow> bool" where
  "result_appends f = (\<forall>cmd. f cmd = map_sum id ((@) cmd) (f []))"

lemma result_appendsD: "result_appends f \<Longrightarrow> f cmd = map_sum id ((@) cmd) (f [])"
  unfolding result_appends_def by blast

lemma result_appends_Inr: "result_appends f \<Longrightarrow> f cmd = Inr c \<longleftrightarrow> (\<exists>xs. f [] = Inr xs \<and> c = cmd @ xs)"
  by (subst result_appendsD, assumption) (cases "f []"; auto)

lemma result_appends_then:
  assumes "appends f" "result_appends g"
  shows "result_appends (\<lambda>cmd. g (f cmd))"
proof (unfold result_appends_def, intro allI)
  fix cmd
  have "g (f cmd) = map_sum id ((@) (cmd @ f [])) (g [])"
    using result_appendsD [OF assms(2)] appendsD [OF assms(1)] by metis
  also have "\<dots> = map_sum id ((@) cmd) (map_sum id ((@) (f [])) (g []))"
    by (cases "g []") simp_all
  also have "map_sum id ((@) (f [])) (g []) = g (f [])"
    using result_appendsD [OF assms(2)] by metis
  finally show "g (f cmd) = map_sum id ((@) cmd) (g (f []))" .
qed

lemma result_appends_pure: "appends f \<Longrightarrow> result_appends (\<lambda>cmd. Inr (f cmd))"
  by (simp add: result_appends_def) (metis appendsD)

lemma result_appends_fail: "result_appends (\<lambda>cmd. Inl e)"
  by (simp add: result_appends_def)

lemma result_appends_eq: "(\<And>cmd. f cmd = g cmd) \<Longrightarrow> result_appends g \<Longrightarrow> result_appends f"
  by (metis ext)

lemma result_appends_skip: "result_appends Inr"
  using result_appends_pure [OF appends_id] by simp

lemma result_appends_if:
  "result_appends f \<Longrightarrow> result_appends g \<Longrightarrow> result_appends (\<lambda>cmd. if P then f cmd else g cmd)"
  by (cases P) simp_all

lemma result_appends_guard:
  "result_appends f \<Longrightarrow> result_appends (\<lambda>cmd. case r of Inl e \<Rightarrow> Inl e | Inr _ \<Rightarrow> f cmd)"
  by (cases r) (simp_all add: result_appends_fail)

lemma result_appends_bind:
  assumes "result_appends f" "result_appends g"
  shows "result_appends (\<lambda>cmd. case f cmd of Inl e \<Rightarrow> Inl e | Inr c \<Rightarrow> g c)"
proof (unfold result_appends_def, intro allI)
  fix cmd
  show "(case f cmd of Inl e \<Rightarrow> Inl e | Inr c \<Rightarrow> g c)
      = map_sum id ((@) cmd) (case f [] of Inl e \<Rightarrow> Inl e | Inr c \<Rightarrow> g c)"
  proof (cases "f []")
    case (Inl e)
    then show ?thesis by (subst result_appendsD [OF assms(1)]) simp
  next
    case (Inr xs)
    then have "f cmd = Inr (cmd @ xs)" by (subst result_appendsD [OF assms(1)]) simp
    moreover have "g (cmd @ xs) = map_sum id ((@) cmd) (g xs)"
      by (subst (1 2) result_appendsD [OF assms(2)]) (cases "g []"; simp)
    ultimately show ?thesis using Inr by simp
  qed
qed

section \<open>Each action appends its own arguments\<close>

lemma result_appends_hdr: "result_appends (apply_hdr_preservation encoder codec t)"
  by (simp add: result_appends_def apply_hdr_preservation_def Let_def builder_defs)

lemma result_appends_clear_tags: "result_appends (clear_tags E tags)"
proof (induction tags)
  case Nil
  show ?case using result_appends_pure [OF appends_id] by simp
next
  case (Cons tag tags)
  have "result_appends (\<lambda>cmd. clear_tags E tags (clear_metadata tag cmd))"
    by (rule result_appends_then [OF _ Cons]) (simp add: appends_def builder_defs)
  then show ?case
    by (cases "validate_metadata_key E tag") (simp_all add: result_appends_fail)
qed

lemma appends_video_options: "appends (apply_video_options encoder stream s)"
proof -
  have "appends (\<lambda>cmd. case stream of
      Some i \<Rightarrow> video_codec_for_track i encoder cmd | None \<Rightarrow> video_codec encoder cmd)"
    by (cases stream) (simp_all add: appends_def builder_defs)
  moreover have "appends (opt_cmd (\<lambda>b c. cmd_arg b (cmd_arg ''-b:v'' c)) (ts_bitrate s))"
    by (rule appends_opt) (simp add: appends_def builder_defs)
  ultimately show ?thesis
    unfolding apply_video_options_def Let_def
    by (iprover intro: appends_comp [where g = "opt_cmd _ _"] appends_opt appends_quality
        appends_preset appends_tune)
qed

lemma result_appends_color_options: "result_appends (apply_color_options encoder codec t s)"
  unfolding apply_color_options_def
  by (cases t) (simp_all add: result_appends_skip result_appends_hdr result_appends_pure
      appends_const result_appends_if apply_sdr_color_metadata_def builder_defs)

lemma appends_video_filters: "appends (apply_video_filters filters)"
  by (simp add: appends_def apply_video_filters_def builder_defs)

lemma result_appends_transcode_video: "result_appends (apply_transcode_video E f a hw)"
proof (cases "pa_parameters a")
  case (ApTranscode codec s)
  let ?hw = "resolve_effective_hw s hw"
  let ?enc = "video_encoder ?hw codec"
  let ?run = "\<lambda>cmd. case apply_color_options ?enc codec (source_video_track f a) s
        (apply_video_options ?enc (pa_track_index a) s cmd) of
      Inl e \<Rightarrow> Inl e | Inr cmd \<Rightarrow> Inr (apply_video_filters (collect_video_filters E f a) cmd)"
  have "result_appends ?run"
    by (rule result_appends_bind [OF result_appends_then
        [OF appends_video_options result_appends_color_options]
        result_appends_pure [OF appends_video_filters]])
  then have "result_appends (\<lambda>cmd. case hw_fallback_error codec s ?hw of Some e \<Rightarrow> Inl e | None \<Rightarrow> ?run cmd)"
    by (cases "hw_fallback_error codec s ?hw") (simp_all add: result_appends_fail)
  then show ?thesis
    by (rule result_appends_eq [rotated]) (simp add: apply_transcode_video_def ApTranscode Let_def
        cong del: option.case_cong_weak)
qed (rule result_appends_eq [OF _ result_appends_skip], simp add: apply_transcode_video_def)+

lemma result_appends_action: "result_appends (apply_ffmpeg_action E f hw a)"
proof (rule result_appends_eq [OF apply_ffmpeg_action_def])
  note [simp] = apply_transcode_audio_def apply_synthesize_audio_def result_appends_transcode_video
    result_appends_skip result_appends_clear_tags result_appends_fail result_appends_pure
    result_appends_guard appends_audio_codec_args appends_const
  show "result_appends (\<lambda>cmd. case pa_operation a of
        TranscodeVideo \<Rightarrow> apply_transcode_video E f a hw cmd
      | TranscodeAudio \<Rightarrow> Inr (apply_transcode_audio E a cmd)
      | SynthesizeAudio \<Rightarrow> Inr (apply_synthesize_audio E a cmd)
      | SetContainerTag \<Rightarrow>
          (case pa_parameters a of
             ApSetTag tag v \<Rightarrow>
               (case validate_metadata_key E tag of
                  Inl e \<Rightarrow> Inl e
                | Inr _ \<Rightarrow>
                    (case validate_metadata_value E v of
                       Inl e \<Rightarrow> Inl e
                     | Inr _ \<Rightarrow> Inr (cmd_metadata None tag v cmd)))
           | _ \<Rightarrow> Inr cmd)
      | ClearContainerTags \<Rightarrow>
          (case pa_parameters a of ApClearTags tags \<Rightarrow> clear_tags E tags cmd | _ \<Rightarrow> Inr cmd)
      | DeleteContainerTag \<Rightarrow>
          (case pa_parameters a of ApDeleteTag tag \<Rightarrow> clear_tags E [tag] cmd | _ \<Rightarrow> Inr cmd)
      | _ \<Rightarrow> Inr cmd)"
    by (cases "pa_operation a"; cases "pa_parameters a")
      (simp_all add: cmd_metadata_def del: clear_tags.simps)
qed

text \<open>The arguments of one action, and of a list of actions.\<close>

definition ffmpeg_action_args ::
  "cmd_env \<Rightarrow> media_file \<Rightarrow> hw_accel_config option \<Rightarrow> planned_action \<Rightarrow> voom_error + string list" where
  "ffmpeg_action_args E f hw a = apply_ffmpeg_action E f hw a []"

lemma apply_ffmpeg_actions_Inr:
  "apply_ffmpeg_actions E f hw as cmd = Inr c
     \<longleftrightarrow> (\<exists>groups. map_result (ffmpeg_action_args E f hw) as = Inr groups \<and> c = cmd @ concat groups)"
proof (induction as arbitrary: cmd)
  case (Cons a as)
  show ?case
  proof (cases "ffmpeg_action_args E f hw a")
    case (Inl e)
    then have "apply_ffmpeg_action E f hw a cmd = Inl e"
      by (subst result_appendsD [OF result_appends_action]) (simp add: ffmpeg_action_args_def)
    with Inl show ?thesis by simp
  next
    case (Inr xs)
    then have "apply_ffmpeg_action E f hw a cmd = Inr (cmd @ xs)"
      by (subst result_appendsD [OF result_appends_action]) (simp add: ffmpeg_action_args_def)
    with Inr Cons show ?thesis by (auto split: sum.splits)
  qed
qed auto


section \<open>The metadata of the streams\<close>

definition valid_value :: "string \<Rightarrow> bool" where
  "valid_value v = (\<forall>c \<in> set v. \<not> control_char c)"

definition valid_key :: "string \<Rightarrow> bool" where
  "valid_key key = (key \<noteq> [] \<and> valid_value key \<and> CHR ''='' \<notin> set key)"

lemma position_of_None: "position_of P xs = None \<longleftrightarrow> (\<forall>x \<in> set xs. \<not> P x)"
  by (induction xs) auto

lemma validate_value_cases:
  obtains (valid) "valid_value v" "validate_metadata_value E v = Inr v"
  | (invalid) e where "\<not> valid_value v" "validate_metadata_value E v = Inl e"
  using position_of_None [of control_char v]
  by (cases "position_of control_char v") (auto simp: validate_metadata_value_def valid_value_def)

lemma validate_key_cases:
  obtains (valid) "valid_key v" "validate_metadata_key E v = Inr v"
  | (invalid) e where "\<not> valid_key v" "validate_metadata_key E v = Inl e"
  by (rule validate_value_cases [of v E]; cases "v = []"; cases "CHR ''='' \<in> set v")
    (auto simp: validate_metadata_key_def valid_key_def)

text \<open>What an action asks of the stream with input index \<open>i\<close>.\<close>

definition asks_default :: "u32 \<Rightarrow> planned_action \<Rightarrow> bool option" where
  "asks_default i a =
     (if pa_track_index a \<noteq> Some i then None
      else if pa_operation a = SetDefault then Some True
      else if pa_operation a = ClearDefault then Some False else None)"

definition asks_forced :: "u32 \<Rightarrow> planned_action \<Rightarrow> bool option" where
  "asks_forced i a =
     (if pa_track_index a \<noteq> Some i then None
      else if pa_operation a = SetForced then Some True
      else if pa_operation a = ClearForced then Some False else None)"

definition asks_title :: "u32 \<Rightarrow> planned_action \<Rightarrow> string option" where
  "asks_title i a =
     (if pa_track_index a = Some i \<and> pa_operation a = SetTitle
      then (case pa_parameters a of ApTitle title \<Rightarrow> Some title | _ \<Rightarrow> None) else None)"

definition asks_language :: "u32 \<Rightarrow> planned_action \<Rightarrow> string option" where
  "asks_language i a =
     (if pa_track_index a = Some i \<and> pa_operation a = SetLanguage
      then (case pa_parameters a of ApLanguage language \<Rightarrow> Some language | _ \<Rightarrow> None) else None)"

definition last_asked :: "('a \<Rightarrow> 'b option) \<Rightarrow> 'a list \<Rightarrow> 'b \<Rightarrow> 'b" where
  "last_asked asks as x = last (x # List.map_filter asks as)"

lemma last_asked_Nil [simp]: "last_asked asks [] x = x"
  by (simp add: last_asked_def List.map_filter_def)

lemma last_asked_Cons [simp]:
  "last_asked asks (a # as) x = last_asked asks as (case asks a of Some y \<Rightarrow> y | None \<Rightarrow> x)"
  by (simp add: last_asked_def List.map_filter_def split: option.split)

definition final_stream :: "planned_action list \<Rightarrow> output_stream \<Rightarrow> output_stream" where
  "final_stream as m =
     m\<lparr>otm_language := last_asked (asks_language (otm_input_index m)) as (otm_language m),
       otm_title := last_asked (asks_title (otm_input_index m)) as (otm_title m),
       otm_is_default := last_asked (asks_default (otm_input_index m)) as (otm_is_default m),
       otm_is_forced := last_asked (asks_forced (otm_input_index m)) as (otm_is_forced m)\<rparr>"

definition valid_request :: "u32 \<Rightarrow> planned_action \<Rightarrow> bool" where
  "valid_request i a =
     ((\<forall>v. asks_title i a = Some v \<longrightarrow> valid_value v) \<and>
      (\<forall>v. asks_language i a = Some v \<longrightarrow> valid_value v))"

lemmas asks_defs = asks_default_def asks_forced_def asks_title_def asks_language_def

lemma final_stream_other:
  "pa_track_index a \<noteq> Some (otm_input_index m) \<Longrightarrow> final_stream [a] m = m"
  by (simp add: final_stream_def asks_defs)

lemma final_stream_Nil [simp]: "final_stream [] m = m"
  by (simp add: final_stream_def)

lemma map_final_stream_Nil [simp]: "map (final_stream []) ms = ms"
  by (induction ms) simp_all

lemma final_stream_input [simp]: "otm_input_index (final_stream as m) = otm_input_index m"
  by (simp add: final_stream_def)

lemma final_stream_Cons: "final_stream (a # as) m = final_stream as (final_stream [a] m)"
  by (simp add: final_stream_def)

lemma metadata_action_Inr:
  assumes "pa_track_index a = Some (otm_input_index m)"
  shows "metadata_action E a m = Inr m' \<longleftrightarrow> valid_request (otm_input_index m) a \<and> m' = final_stream [a] m"
proof -
  note defs = metadata_action_def final_stream_def valid_request_def asks_defs
  consider (title) t where "pa_operation a = SetTitle" "pa_parameters a = ApTitle t"
    | (language) l where "pa_operation a = SetLanguage" "pa_parameters a = ApLanguage l"
    | (other) "asks_title (otm_input_index m) a = None" "asks_language (otm_input_index m) a = None"
        "metadata_action E a m = Inr (final_stream [a] m)"
    using assms
    by (cases "pa_operation a"; cases "pa_parameters a") (auto simp: defs)
  then show ?thesis
  proof cases
    case title
    with assms show ?thesis
      by (cases rule: validate_value_cases [of t E]) (auto simp: defs)
  next
    case language
    with assms show ?thesis
      by (cases rule: validate_value_cases [of l E]) (auto simp: defs)
  next
    case other
    then show ?thesis by (auto simp: valid_request_def)
  qed
qed

lemma final_stream_elsewhere:
  "\<forall>m \<in> set ms. pa_track_index a \<noteq> Some (otm_input_index m) \<Longrightarrow> map (final_stream [a]) ms = ms"
  by (induction ms) (auto simp: final_stream_other)

lemma update_stream_Inr:
  assumes "distinct (map otm_input_index ms)" "pa_track_index a = Some i"
  shows "update_stream E a i ms = Inr ms' \<longleftrightarrow>
    (i \<in> otm_input_index ` set ms \<longrightarrow> valid_request i a) \<and> ms' = map (final_stream [a]) ms"
  using assms(1)
proof (induction ms arbitrary: ms')
  case (Cons m ms)
  show ?case
  proof (cases "otm_input_index m = i")
    case True
    with Cons.prems have "map (final_stream [a]) ms = ms"
      by (intro final_stream_elsewhere) (auto simp: assms(2))
    moreover have "update_stream E a i (m # ms) = Inr ms' \<longleftrightarrow>
        (\<exists>m'. metadata_action E a m = Inr m' \<and> ms' = m' # ms)"
      using True by (auto split: sum.splits)
    ultimately show ?thesis
      using metadata_action_Inr [of a m E] True assms(2) by auto
  next
    case False
    have "update_stream E a i (m # ms) = Inr ms' \<longleftrightarrow>
        (\<exists>ms''. update_stream E a i ms = Inr ms'' \<and> ms' = m # ms'')"
      using False by (auto split: sum.splits)
    with Cons False show ?thesis by (auto simp: final_stream_other assms(2))
  qed
qed auto

lemma apply_track_metadata_actions_Inr:
  assumes "distinct (map otm_input_index ms)"
  shows "apply_track_metadata_actions E as ms = Inr ms' \<longleftrightarrow>
    (\<forall>a \<in> set as. \<forall>m \<in> set ms. valid_request (otm_input_index m) a)
    \<and> ms' = map (final_stream as) ms"
  using assms
proof (induction as arbitrary: ms)
  case (Cons a as)
  have elsewhere: "valid_request j a" if "pa_track_index a \<noteq> Some j" for j
    using that by (simp add: valid_request_def asks_defs)
  have split_final: "map (final_stream (a # as)) ms = map (final_stream as) (map (final_stream [a]) ms)"
    by (simp add: final_stream_Cons [of a as])
  show ?case
  proof (cases "pa_track_index a")
    case None
    then have "map (final_stream [a]) ms = ms"
      by (intro final_stream_elsewhere) simp
    with None Cons show ?thesis
      unfolding split_final by (auto simp: elsewhere)
  next
    case (Some i)
    let ?ms = "map (final_stream [a]) ms"
    have req: "(\<forall>m \<in> set ms. valid_request (otm_input_index m) a)
        \<longleftrightarrow> (i \<in> otm_input_index ` set ms \<longrightarrow> valid_request i a)"
      using elsewhere Some by (metis (no_types, lifting) imageE image_eqI option.inject)
    have "distinct (map otm_input_index ?ms)" using Cons.prems by (simp add: comp_def)
    note IH = Cons.IH [OF this]
    have "apply_track_metadata_actions E (a # as) ms = Inr ms' \<longleftrightarrow>
        (\<exists>ms''. update_stream E a i ms = Inr ms'' \<and> apply_track_metadata_actions E as ms'' = Inr ms')"
      using Some by (auto split: sum.splits)
    also have "\<dots> \<longleftrightarrow> (\<forall>m \<in> set ms. valid_request (otm_input_index m) a)
        \<and> apply_track_metadata_actions E as ?ms = Inr ms'"
      unfolding req using update_stream_Inr [OF Cons.prems Some] by auto
    finally show ?thesis
      unfolding split_final IH by auto
  qed
qed auto

section \<open>The whole command\<close>

definition transcodes_video :: "planned_action list \<Rightarrow> bool" where
  "transcodes_video as = (\<exists>a \<in> set as. pa_operation a = TranscodeVideo)"

text \<open>The tracks of the output in order, and the arguments that select and describe them.\<close>

definition output_tracks :: "media_file \<Rightarrow> planned_action list \<Rightarrow> track list" where
  "output_tracks f as = mapped_tracks f (transcodes_video as)"

definition stream_selection :: "media_file \<Rightarrow> planned_action list \<Rightarrow> string list" where
  "stream_selection f as =
     (if transcodes_video as \<and> output_tracks f as \<noteq> []
      then concat (map (\<lambda>t. [''-map'', ''0:'' @ nat_str (tr_index t)]) (output_tracks f as))
      else [''-map'', ''0''])"

definition final_title :: "planned_action list \<Rightarrow> track \<Rightarrow> string" where
  "final_title as t = last_asked (asks_title (tr_index t)) as (tr_title t)"

definition final_language :: "planned_action list \<Rightarrow> track \<Rightarrow> string" where
  "final_language as t = last_asked (asks_language (tr_index t)) as (tr_language t)"

definition final_disposition :: "planned_action list \<Rightarrow> track \<Rightarrow> string" where
  "final_disposition as t =
     (let d = last_asked (asks_default (tr_index t)) as (tr_is_default t);
          fo = last_asked (asks_forced (tr_index t)) as (tr_is_forced t)
      in if d \<and> fo then ''default+forced'' else if d then ''default'' else if fo then ''forced'' else ''0'')"

definition stream_description :: "planned_action list \<Rightarrow> nat \<Rightarrow> track \<Rightarrow> string list" where
  "stream_description as k t =
     [''-metadata:s:'' @ nat_str k, ''language='' @ final_language as t,
      ''-metadata:s:'' @ nat_str k, ''title='' @ final_title as t,
      ''-disposition:'' @ nat_str k, final_disposition as t]"

definition stream_descriptions :: "media_file \<Rightarrow> planned_action list \<Rightarrow> string list" where
  "stream_descriptions f as =
     (if output_tracks f as = [] then []
      else [''-map_metadata'', ''0'', ''-map_chapters'', ''0'']
        @ concat (map (\<lambda>(k, t). stream_description as k t) (List.enumerate 0 (output_tracks f as))))"

definition valid_stream_texts :: "planned_action list \<Rightarrow> track \<Rightarrow> bool" where
  "valid_stream_texts as t =
     ((\<forall>a \<in> set as. valid_request (tr_index t) a) \<and> valid_value (final_language as t)
      \<and> valid_value (final_title as t))"

definition emitted_args :: "output_stream \<Rightarrow> string list" where
  "emitted_args m =
     [''-metadata:s:'' @ nat_str (otm_output_index m), ''language='' @ otm_language m,
      ''-metadata:s:'' @ nat_str (otm_output_index m), ''title='' @ otm_title m,
      ''-disposition:'' @ nat_str (otm_output_index m), disposition_value m]"

lemma emit_stream_metadata_Inr:
  "emit_stream_metadata E ms cmd = Inr c \<longleftrightarrow>
     (\<forall>m \<in> set ms. valid_value (otm_language m) \<and> valid_value (otm_title m)) \<and>
     c = cmd @ concat (map emitted_args ms)"
proof (induction ms arbitrary: cmd)
  case (Cons m ms)
  show ?case
    by (rule validate_value_cases [of "otm_language m" E];
        rule validate_value_cases [of "otm_title m" E])
      (simp_all add: Cons.IH cmd_metadata_def cmd_disposition_def emitted_args_def)
qed auto

lemma final_stream_of_track:
  "final_stream as (OutputTrackMetadata_from_track k t) =
     \<lparr>otm_output_index = k, otm_input_index = tr_index t, otm_language = final_language as t,
      otm_title = final_title as t,
      otm_is_default = last_asked (asks_default (tr_index t)) as (tr_is_default t),
      otm_is_forced = last_asked (asks_forced (tr_index t)) as (tr_is_forced t)\<rparr>"
  by (simp add: final_stream_def OutputTrackMetadata_from_track_def final_language_def final_title_def)

lemma final_stream_disposition:
  "disposition_value (final_stream as (OutputTrackMetadata_from_track k t)) = final_disposition as t"
  by (simp add: final_stream_of_track disposition_value_def final_disposition_def Let_def
      split: bool.split)

lemma emitted_args_final:
  "emitted_args (final_stream as (OutputTrackMetadata_from_track k t)) = stream_description as k t"
  unfolding emitted_args_def stream_description_def final_stream_disposition
  unfolding final_stream_of_track by simp

lemma ball_enumerate: "(\<forall>(k, t) \<in> set (List.enumerate n xs). Q t) \<longleftrightarrow> (\<forall>t \<in> set xs. Q t)"
  by (induction xs arbitrary: n) auto

lemma output_track_metadata_inputs:
  "map otm_input_index (output_track_metadata f b) = map tr_index (mapped_tracks f b)"
  by (simp add: output_track_metadata_def comp_def case_prod_beta OutputTrackMetadata_from_track_def
      flip: map_map [of tr_index snd, unfolded comp_def])

lemma nat_str_0: "nat_str 0 = ''0''"
  by code_simp

lemma preserved_metadata_Inr:
  assumes "distinct (map tr_index (mf_tracks f))" "b = transcodes_video as"
  shows "apply_preserved_stream_metadata E f b as cmd = Inr c \<longleftrightarrow>
    (\<forall>t \<in> set (output_tracks f as). valid_stream_texts as t) \<and> c = cmd @ stream_descriptions f as"
proof -
  let ?ts = "output_tracks f as" and ?ms = "output_track_metadata f b"
  have dist: "distinct (map otm_input_index ?ms)"
    unfolding output_track_metadata_inputs mapped_tracks_def using assms(1) by (rule distinct_map_filter)
  have ms: "?ms = map (\<lambda>(k, t). OutputTrackMetadata_from_track k t) (List.enumerate 0 ?ts)"
    by (simp add: output_track_metadata_def output_tracks_def assms(2))
  have inputs: "otm_input_index ` set ?ms = tr_index ` set ?ts"
    using arg_cong [OF output_track_metadata_inputs [of f b], of set]
    by (simp add: output_tracks_def assms(2) del: set_filter)
  have final: "(\<forall>m \<in> set (map (final_stream as) ?ms). valid_value (otm_language m) \<and> valid_value (otm_title m))
      \<longleftrightarrow> (\<forall>(k, t) \<in> set (List.enumerate 0 ?ts). valid_value (final_language as t) \<and> valid_value (final_title as t))"
    unfolding ms by (simp add: final_stream_of_track case_prod_beta)
  have valid: "(\<forall>a \<in> set as. \<forall>m \<in> set ?ms. valid_request (otm_input_index m) a)
      \<and> (\<forall>m \<in> set (map (final_stream as) ?ms). valid_value (otm_language m) \<and> valid_value (otm_title m))
      \<longleftrightarrow> (\<forall>t \<in> set ?ts. valid_stream_texts as t)"
  proof -
    have "(\<forall>a \<in> set as. \<forall>m \<in> set ?ms. valid_request (otm_input_index m) a)
        \<longleftrightarrow> (\<forall>a \<in> set as. \<forall>i \<in> otm_input_index ` set ?ms. valid_request i a)"
      by simp
    then show ?thesis
      unfolding final ball_enumerate valid_stream_texts_def inputs by auto
  qed
  have texts: "concat (map emitted_args (map (final_stream as) ?ms))
     = concat (map (\<lambda>(k, t). stream_description as k t) (List.enumerate 0 ?ts))"
    unfolding ms by (simp add: comp_def case_prod_unfold emitted_args_final)
  have empty: "?ms = [] \<longleftrightarrow> ?ts = []"
    by (simp add: ms enumerate_eq_zip)
  show ?thesis
  proof (cases "?ts = []")
    case True
    then show ?thesis
      by (auto simp: apply_preserved_stream_metadata_def empty stream_descriptions_def)
  next
    case False
    have "apply_preserved_stream_metadata E f b as cmd = Inr c \<longleftrightarrow>
        (\<exists>ms'. apply_track_metadata_actions E as ?ms = Inr ms'
          \<and> emit_stream_metadata E ms' (map_chapters 0 (map_metadata 0 cmd)) = Inr c)"
      using False by (simp add: apply_preserved_stream_metadata_def Let_def empty split: sum.split)
    then show ?thesis
      unfolding apply_track_metadata_actions_Inr [OF dist] emit_stream_metadata_Inr valid [symmetric]
      using False texts
      by (simp add: stream_descriptions_def map_metadata_def map_chapters_def nat_str_0)
  qed
qed

lemma map_non_attachment_appends:
  "map_non_attachment_tracks f cmd =
     cmd @ (if mapped_tracks f True = [] then [''-map'', ''0'']
            else concat (map (\<lambda>t. [''-map'', ''0:'' @ nat_str (tr_index t)]) (mapped_tracks f True)))"
proof -
  have "fold (\<lambda>t. map_track (tr_index t)) ts cmd
      = cmd @ concat (map (\<lambda>t. [''-map'', ''0:'' @ nat_str (tr_index t)]) ts)" for ts :: "track list"
    by (induction ts arbitrary: cmd) (simp_all add: map_track_def)
  then show ?thesis
    by (simp add: map_non_attachment_tracks_def mapped_tracks_def map_all_def Let_def)
qed

definition command_prefix ::
  "cmd_env \<Rightarrow> media_file \<Rightarrow> planned_action list \<Rightarrow> hw_accel_config option \<Rightarrow> string list" where
  "command_prefix E f as hw =
     [''-y'', ''-hide_banner''] @ (case hw of Some c \<Rightarrow> device_args c | None \<Rightarrow> [])
     @ hw_decode_args E f as hw @ [''-i'', ce_lossy E (mf_path f)]"

lemma map_result_Inr_list_all2:
  "map_result f xs = Inr ys \<longleftrightarrow> list_all2 (\<lambda>x y. f x = Inr y) xs ys"
proof (induction xs arbitrary: ys)
  case (Cons x xs)
  have "map_result f (x # xs) = Inr ys \<longleftrightarrow> (\<exists>z zs. f x = Inr z \<and> map_result f xs = Inr zs \<and> ys = z # zs)"
    by (auto split: sum.splits)
  then show ?case by (simp add: Cons.IH list_all2_Cons1) blast
qed auto

text \<open>
  C20: For a file whose tracks have distinct indexes, the command of a plan exists exactly if every
  action has its arguments and the texts of every output stream are free of control characters, and
  then it is: the overwrite flags, the device and decoding options, the input, one selection of every
  track in order (attachments excepted when video is transcoded), copy as the default codec, the
  arguments of the actions in their order, the metadata and chapters of the input, for the output
  stream at each position the language, the title and the disposition that the last action for its
  track asks for (the ones of the track when none does), and the output path.
\<close>
theorem ffmpeg_command_shape:
  assumes "distinct (map tr_index (mf_tracks f))"
  shows "build_ffmpeg_command E f as output_path hw = Inr args \<longleftrightarrow>
    (\<exists>groups. list_all2 (\<lambda>a g. ffmpeg_action_args E f hw a = Inr g) as groups \<and>
       (\<forall>t \<in> set (output_tracks f as). valid_stream_texts as t) \<and>
       args = command_prefix E f as hw @ stream_selection f as @ [''-c'', ''copy'']
         @ concat groups @ stream_descriptions f as @ [ce_lossy E output_path])"
proof -
  let ?b = "transcodes_video as"
  let ?cmd = "command_prefix E f as hw @ stream_selection f as @ [''-c'', ''copy'']"
  have b: "list_ex (\<lambda>a. pa_operation a = TranscodeVideo) as = ?b"
    by (simp add: list_ex_iff transcodes_video_def)
  have build: "build_ffmpeg_command E f as output_path hw =
      (case apply_ffmpeg_actions E f hw as ?cmd of
         Inl e \<Rightarrow> Inl e
       | Inr cmd \<Rightarrow> (case apply_preserved_stream_metadata E f ?b as cmd of
           Inl e \<Rightarrow> Inl e | Inr cmd \<Rightarrow> Inr (cmd @ [ce_lossy E output_path])))"
    unfolding build_ffmpeg_command_def Let_def b appends_fold_arg map_non_attachment_appends
      cmd_output_def
    by (simp add: command_prefix_def stream_selection_def output_tracks_def FfmpegCommand_new_def
        cmd_input_def map_all_def codec_copy_def)
  have "build_ffmpeg_command E f as output_path hw = Inr args \<longleftrightarrow>
      (\<exists>c d. apply_ffmpeg_actions E f hw as ?cmd = Inr c
        \<and> apply_preserved_stream_metadata E f ?b as c = Inr d \<and> args = d @ [ce_lossy E output_path])"
    unfolding build by (auto split: sum.splits)
  then show ?thesis
    unfolding apply_ffmpeg_actions_Inr preserved_metadata_Inr [OF assms refl] map_result_Inr_list_all2
    by auto
qed

lemma clear_tags_Inl: "(\<exists>e. clear_tags E tags cmd = Inl e) \<longleftrightarrow> (\<exists>tag \<in> set tags. \<not> valid_key tag)"
proof (induction tags arbitrary: cmd)
  case (Cons tag tags)
  then show ?case by (cases rule: validate_key_cases [of tag E]) simp_all
qed simp

lemma hw_encoder_not_software:
  assumes "hw_encoder_for_backend b codec = Some hw_name"
  shows "hw_name \<noteq> software_encoder codec"
proof -
  define suf where "suf = (case b of Nvenc \<Rightarrow> ''_nvenc'' | Qsv \<Rightarrow> ''_qsv'' | Vaapi \<Rightarrow> ''_vaapi''
    | Videotoolbox \<Rightarrow> ''_videotoolbox'')"
  have "CHR ''_'' \<in> set suf" by (cases b) (simp_all add: suf_def)
  moreover have "hw_name = canonical_video_codec codec @ suf"
      "canonical_video_codec codec \<in> {''hevc'', ''h264'', ''av1'', ''vp9''}"
    using assms
    by (cases b; simp add: hw_encoder_for_backend_def Let_def suf_def split: if_split_asm; blast)+
  moreover from this(2) have "CHR ''_'' \<notin> set (software_encoder codec)"
    by (simp add: canonical_video_codec_def software_encoder_def split: if_split_asm) auto
  ultimately show ?thesis by (metis UnI2 set_append)
qed

lemma has_hw_encoder_name: "has_hw_encoder c codec \<longleftrightarrow> encoder_name c codec \<noteq> software_encoder codec"
proof (cases "hac_backend c")
  case (Some b)
  then show ?thesis
    by (cases "hw_encoder_for_backend b codec"; cases "hac_validated_encoders c")
      (simp_all add: has_hw_encoder_def encoder_name_def hw_encoder_not_software)
qed (simp add: has_hw_encoder_def encoder_name_def)

lemma transcode_video_Inl:
  assumes "pa_parameters a = ApTranscode codec s"
  shows "(\<exists>e. apply_transcode_video E f a hw cmd = Inl e) \<longleftrightarrow>
    hw_fallback_error codec s (resolve_effective_hw s hw) \<noteq> None
    \<or> (\<exists>t. source_video_track f a = Some t \<and> should_preserve_hdr t s \<and> \<not> encoder_supports_hdr codec)"
  by (cases "hw_fallback_error codec s (resolve_effective_hw s hw)"; cases "source_video_track f a")
    (auto simp: apply_transcode_video_def assms Let_def apply_color_options_def
      apply_hdr_preservation_def)

text \<open>
  C24: An action of a plan stops the construction of the command exactly if it is a video transcode
  that insists on a hardware encoder nobody offers or that has to keep HDR metadata in a codec that
  cannot carry it, or if it writes or deletes a container tag whose name is empty or contains an
  equals sign or a control character, or whose value contains a control character.
\<close>
theorem ffmpeg_action_errors:
  "(\<exists>e. ffmpeg_action_args E f hw a = Inl e) \<longleftrightarrow>
     (case (pa_operation a, pa_parameters a) of
        (TranscodeVideo, ApTranscode codec s) \<Rightarrow>
          ts_hw s \<notin> {None, Some ''none''} \<and> ts_hw_fallback s = Some False
            \<and> (case resolve_effective_hw s hw of
                 Some c \<Rightarrow> encoder_name c codec = software_encoder codec | None \<Rightarrow> True)
          \<or> (\<exists>t. source_video_track f a = Some t \<and> should_preserve_hdr t s
                \<and> codec \<notin> {''hevc'', ''h265'', ''av1'', ''h264''})
      | (SetContainerTag, ApSetTag tag v) \<Rightarrow> \<not> valid_key tag \<or> \<not> valid_value v
      | (ClearContainerTags, ApClearTags tags) \<Rightarrow> \<exists>tag \<in> set tags. \<not> valid_key tag
      | (DeleteContainerTag, ApDeleteTag tag) \<Rightarrow> \<not> valid_key tag
      | _ \<Rightarrow> False)"
proof (cases "pa_operation a")
  case TranscodeVideo
  show ?thesis
  proof (cases "pa_parameters a")
    case (ApTranscode codec s)
    have "hw_fallback_error codec s h \<noteq> None \<longleftrightarrow>
        ts_hw s \<notin> {None, Some ''none''} \<and> ts_hw_fallback s = Some False
        \<and> (case h of Some c \<Rightarrow> encoder_name c codec = software_encoder codec | None \<Rightarrow> True)" for h
      by (auto simp: hw_fallback_error_def has_hw_encoder_name split: option.splits)
    then show ?thesis
      using transcode_video_Inl [OF ApTranscode]
      by (simp add: TranscodeVideo ApTranscode ffmpeg_action_args_def apply_ffmpeg_action_def
          encoder_supports_hdr_def)
  qed (simp_all add: TranscodeVideo ffmpeg_action_args_def apply_ffmpeg_action_def
      apply_transcode_video_def)
next
  case SetContainerTag
  show ?thesis
  proof (cases "pa_parameters a")
    case (ApSetTag tag v)
    with SetContainerTag show ?thesis
      by (cases rule: validate_key_cases [of tag E]; cases rule: validate_value_cases [of v E])
        (simp_all add: ffmpeg_action_args_def apply_ffmpeg_action_def)
  qed (simp_all add: SetContainerTag ffmpeg_action_args_def apply_ffmpeg_action_def)
next
  case ClearContainerTags
  then show ?thesis
    by (cases "pa_parameters a")
      (simp_all add: ffmpeg_action_args_def apply_ffmpeg_action_def clear_tags_Inl)
next
  case DeleteContainerTag
  then show ?thesis
    by (cases "pa_parameters a")
      (simp_all add: ffmpeg_action_args_def apply_ffmpeg_action_def clear_tags_Inl del: clear_tags.simps)
qed (simp_all add: ffmpeg_action_args_def apply_ffmpeg_action_def)

section \<open>Examples\<close>

definition sample_cmd_env :: cmd_env where
  "sample_cmd_env =
     \<lparr>ce_lowercase = to_ascii_lowercase, ce_lossy = (\<lambda>p. p), ce_fmt = (\<lambda>_ _. ''0''),
      ce_debug = (\<lambda>s. s), ce_hex2 = (\<lambda>_. ''00''), ce_is_utf8 = (\<lambda>_. True)\<rparr>"

definition track_action :: "operation_type \<Rightarrow> u32 \<Rightarrow> action_params \<Rightarrow> planned_action" where
  "track_action op i ps =
     \<lparr>pa_operation = op, pa_track_index = Some i, pa_parameters = ps, pa_description = []\<rparr>"

definition sample_actions :: "planned_action list" where
  "sample_actions =
     [track_action TranscodeAudio 1 (ApTranscode ''opus'' TranscodeSettings_default),
      track_action SetDefault 1 ApEmpty, track_action SetTitle 2 (ApTitle ''Main''),
      track_action ClearDefault 1 ApEmpty, track_action SetDefault 2 ApEmpty]"

definition sample_command :: "string list" where
  "sample_command =
     [''-y'', ''-hide_banner'', ''-i'', ''/m/a.mkv'', ''-map'', ''0'', ''-c'', ''copy'',
      ''-c:a:1'', ''libopus'', ''-map_metadata'', ''0'', ''-map_chapters'', ''0'',
      ''-metadata:s:0'', ''language=und'', ''-metadata:s:0'', ''title='', ''-disposition:0'', ''0'',
      ''-metadata:s:1'', ''language=eng'', ''-metadata:s:1'', ''title='', ''-disposition:1'', ''0'',
      ''-metadata:s:2'', ''language=jpn'', ''-metadata:s:2'', ''title=Main'',
      ''-disposition:2'', ''default'', ''/m/out.mkv'']"

lemma sample_command_built:
  "build_ffmpeg_command sample_cmd_env sample_file sample_actions ''/m/out.mkv'' None = Inr sample_command"
  by code_simp

theorem ffmpeg_command_shape_witness:
  "distinct (map tr_index (mf_tracks sample_file)) \<and>
   (\<exists>groups.
      list_all2 (\<lambda>a g. ffmpeg_action_args sample_cmd_env sample_file None a = Inr g) sample_actions groups
      \<and> (\<forall>t \<in> set (output_tracks sample_file sample_actions). valid_stream_texts sample_actions t)
      \<and> sample_command = command_prefix sample_cmd_env sample_file sample_actions None
         @ stream_selection sample_file sample_actions @ [''-c'', ''copy''] @ concat groups
         @ stream_descriptions sample_file sample_actions @ [ce_lossy sample_cmd_env ''/m/out.mkv''])"
proof -
  have "distinct (map tr_index (mf_tracks sample_file))" by code_simp
  with ffmpeg_command_shape [OF this] sample_command_built show ?thesis by blast
qed

text \<open>
  The stream number of a codec or filter option is the index of the track in the file, not its
  position among the streams of its type: the audio track at index 1 of the file above is the first
  audio stream, and the option \<open>-c:a:1\<close> names the second one.
\<close>

lemma audio_stream_specifier:
  assumes "pa_operation a = TranscodeAudio" "pa_parameters a = ApTranscode codec s"
    "pa_track_index a = Some i" "ffmpeg_action_args E f hw a = Inr g"
  shows "take 2 g = [''-c:a:'' @ nat_str i, software_encoder codec]"
  using assms
  by (auto simp: ffmpeg_action_args_def apply_ffmpeg_action_def apply_transcode_audio_def
      apply_audio_codec_args_def opt_cmd_def builder_defs split: option.split)


theorem ffmpeg_action_errors_witness:
  "(\<exists>e. ffmpeg_action_args sample_cmd_env sample_file None
          (track_action SetContainerTag 0 (ApSetTag ''a=b'' ''c'')) = Inl e)
   \<and> \<not> (\<exists>e. ffmpeg_action_args sample_cmd_env sample_file None
          (track_action SetContainerTag 0 (ApSetTag ''title'' ''c'')) = Inl e)"
  unfolding ffmpeg_action_errors
  by (simp add: track_action_def valid_key_def valid_value_def control_char_def)


end
