(* ===== verification/Executor_Props.thy ===== *)
theory Executor_Props
  imports Ffmpeg_Executor Ffmpeg_Props
begin

text \<open>
  What the executors do to the files: outside their temporary files nothing changes before the run
  has succeeded and the change is recorded.
\<close>

section \<open>Steps that touch private files only\<close>

text \<open>The output a tool is documented to write, by its command line.\<close>

definition tool_output :: "string \<Rightarrow> string list \<Rightarrow> string option" where
  "tool_output tool args =
     (if args = [] then None
      else if tool = ''mkvmerge'' then Some (args ! 1)
      else if tool = ''mkvpropedit'' then Some (hd args)
      else Some (last args))"

definition quiet :: "(string \<Rightarrow> bool) \<Rightarrow> exec_world \<Rightarrow> exec_world \<Rightarrow> bool" where
  "quiet priv w w' =
     ((\<forall>p. \<not> priv p \<longrightarrow> xw_files w' p = xw_files w p)
      \<and> row_keys (xw_mutations w) \<subseteq> row_keys (xw_mutations w'))"

definition quiet_act :: "(string \<Rightarrow> bool) \<Rightarrow> (exec_world \<Rightarrow> 'a \<times> exec_world) \<Rightarrow> bool" where
  "quiet_act priv m = (\<forall>w. quiet priv w (snd (m w)))"

lemma quiet_refl [simp]: "quiet priv w w"
  by (simp add: quiet_def)

lemma quiet_trans: "quiet priv u v \<Longrightarrow> quiet priv v w \<Longrightarrow> quiet priv u w"
  unfolding quiet_def by auto

lemma quiet_actD: "quiet_act priv m \<Longrightarrow> m w = (r, w') \<Longrightarrow> quiet priv w w'"
  unfolding quiet_act_def by (metis snd_conv)

lemma quiet_actI: "(\<And>w r w'. m w = (r, w') \<Longrightarrow> quiet priv w w') \<Longrightarrow> quiet_act priv m"
  unfolding quiet_act_def by (metis prod.collapse)

lemma quiet_return: "quiet_act priv (\<lambda>w. (x, w))"
  by (simp add: quiet_act_def)

lemma quiet_bind:
  assumes "quiet_act priv m" "\<And>x. quiet_act priv (k x)"
  shows "quiet_act priv (act_bind m k)"
proof (rule quiet_actI)
  fix w r w'
  assume run: "act_bind m k w = (r, w')"
  obtain r1 w1 where m: "m w = (r1, w1)" by fastforce
  show "quiet priv w w'"
  proof (cases r1)
    case (Inl e)
    with run m quiet_actD [OF assms(1) m] show ?thesis by (simp add: act_bind_def)
  next
    case (Inr x)
    with run m have "k x w1 = (r, w')" by (simp add: act_bind_def)
    with quiet_actD [OF assms(1) m] quiet_actD [OF assms(2)] show ?thesis by (blast intro: quiet_trans)
  qed
qed

lemma quiet_io: "quiet_act priv m \<Longrightarrow> quiet_act priv (act_io wrap m)"
  by (rule quiet_actI) (auto simp: act_io_def split: prod.splits sum.splits dest: quiet_actD)

lemma quiet_take_fault: "take_fault w = (f, w') \<Longrightarrow> quiet priv w w'"
  by (simp add: quiet_def)

lemma quiet_remove: "priv p \<Longrightarrow> quiet_act priv (fs_remove_file p)"
  by (rule quiet_actI) (auto simp: fs_remove_file_def quiet_def split: prod.splits option.splits if_splits)

lemma quiet_rename: "priv p \<Longrightarrow> priv q \<Longrightarrow> quiet_act priv (fs_rename p q)"
  by (rule quiet_actI) (auto simp: fs_rename_def quiet_def split: prod.splits option.splits if_splits)

lemma quiet_create_dir: "quiet_act priv fs_create_dir"
  by (rule quiet_actI) (auto simp: fs_create_dir_def quiet_def split: prod.splits option.splits)

lemma quiet_remove_dir:
  "(\<And>p. prefix (dir @ ''/'') p \<Longrightarrow> priv p) \<Longrightarrow> quiet_act priv (fs_remove_dir_all dir)"
  by (rule quiet_actI) (auto simp: fs_remove_dir_all_def quiet_def split: prod.splits option.splits)

lemma quiet_ignore: "quiet_act priv m \<Longrightarrow> quiet priv w (act_ignore m w)"
  by (simp add: quiet_act_def act_ignore_def)

lemma quiet_or_remove:
  assumes "quiet_act priv m" "priv tmp"
  shows "quiet_act priv (act_or_remove m tmp)"
proof (rule quiet_actI)
  fix w r w'
  assume run: "act_or_remove m tmp w = (r, w')"
  obtain r1 w1 where m: "m w = (r1, w1)" by fastforce
  from run m quiet_actD [OF assms(1) m] quiet_ignore [OF quiet_remove [of priv, OF assms(2)], of w1]
  show "quiet priv w w'"
    by (auto simp: act_or_remove_def split: sum.splits intro: quiet_trans)
qed

lemma quiet_record:
  "quiet_act priv (record_mutation_for_pending_write C storage session src dest)"
  by (rule quiet_actI) (simp add: quiet_def record_pending_files record_pending_keys)

lemma quiet_run:
  assumes "tools_write_output E tool_output"
    and "\<And>p. tool_output tool args = Some (ce_lossy (xe_cmd E) p) \<Longrightarrow> priv p"
  shows "quiet_act priv (run_tool E tool args env)"
proof (rule quiet_actI)
  fix w r w'
  assume run: "run_tool E tool args env w = (r, w')"
  have "snd (xe_run E tool args env (xw_files w)) p = xw_files w p" if "\<not> priv p" for p
    using assms that unfolding tools_write_output_def by blast
  with run show "quiet priv w w'"
    by (auto simp: run_tool_def quiet_def case_prod_unfold Let_def)
qed

section \<open>The private files of a run of \<open>ffmpeg\<close>\<close>

text \<open>
  The temporary output beside the original, the files of the working directory, and the two
  arguments that name no file.
\<close>

definition private_text :: "exec_env \<Rightarrow> string \<Rightarrow> string \<Rightarrow> bool" where
  "private_text E original t =
     (t = ''-'' \<or> t = ''--version''
      \<or> (\<exists>ext. t = ce_lossy (xe_cmd E) (temp_path_with_ext (xe_cmd E) (xe_temp_id E 0) original ext))
      \<or> (\<exists>name. t = ce_lossy (xe_cmd E) (join_work_dir (xe_work_dir E) name)))"

definition ffmpeg_private :: "exec_env \<Rightarrow> string \<Rightarrow> string \<Rightarrow> bool" where
  "ffmpeg_private E original p = private_text E original (ce_lossy (xe_cmd E) p)"

lemma private_temp [simp]:
  "ffmpeg_private E original (temp_path_with_ext (xe_cmd E) (xe_temp_id E 0) original ext)"
  by (auto simp: ffmpeg_private_def private_text_def)

lemma private_work [simp]: "ffmpeg_private E original (join_work_dir (xe_work_dir E) name)"
  by (auto simp: ffmpeg_private_def private_text_def)

lemma private_work_dir: "prefix (xe_work_dir E @ ''/'') p \<Longrightarrow> ffmpeg_private E original p"
  using private_work [of E original] by (auto simp: prefix_def join_work_dir_def)

lemma quiet_private_run:
  assumes "tools_write_output E tool_output" "args \<noteq> []" "tool \<notin> {''mkvmerge'', ''mkvpropedit''}"
    "private_text E original (last args)"
  shows "quiet_act (ffmpeg_private E original) (run_tool E tool args env)"
  using assms by (intro quiet_run [OF assms(1)]) (auto simp: tool_output_def ffmpeg_private_def)

lemma quiet_checked:
  assumes "tools_write_output E tool_output" "args \<noteq> []" "tool \<notin> {''mkvmerge'', ''mkvpropedit''}"
    "private_text E original (last args)"
  shows "quiet_act (ffmpeg_private E original) (run_checked E tool args env)"
  unfolding run_checked_def
  by (rule quiet_bind [OF quiet_private_run [OF assms]]) (auto simp: quiet_act_def)

lemma quiet_ensure:
  assumes "tools_write_output E tool_output" "tool \<notin> {''mkvmerge'', ''mkvpropedit''}"
  shows "quiet_act (ffmpeg_private E original) (ensure_tool_available E tool env)"
  unfolding ensure_tool_available_def
  by (rule quiet_bind [OF quiet_private_run [OF assms(1) _ assms(2)]])
    (auto simp: quiet_act_def private_text_def)

lemma quiet_measure:
  assumes "tools_write_output E tool_output"
  shows "quiet_act (ffmpeg_private E original) (measure_loudness E path i s env)"
  unfolding measure_loudness_def
  by (rule quiet_bind [OF quiet_private_run [OF assms]])
    (auto simp: quiet_act_def private_text_def measure_loudness_args_def)

lemma quiet_loudness_action:
  assumes "tools_write_output E tool_output"
  shows "quiet_act (ffmpeg_private E original) (loudness_action E path env a)"
proof (unfold quiet_act_def, intro allI)
  fix w
  have "quiet_act (ffmpeg_private E original) (act_bind (measure_loudness E path i l env) (\<lambda>m w. (g m, w)))"
    for i l and g :: "loudness_measurement \<Rightarrow> voom_error + planned_action \<times> string list \<times> loudness_update list"
    by (rule quiet_bind [OF quiet_measure [OF assms]]) (simp add: quiet_act_def)
  then show "quiet (ffmpeg_private E original) w (snd (loudness_action E path env a w))"
    by (auto simp: loudness_action_def quiet_act_def split: action_params.split option.split)
qed

lemma quiet_loudness_loop:
  assumes "tools_write_output E tool_output"
  shows "quiet_act (ffmpeg_private E original) (loudness_loop E path env as)"
proof (induction as)
  case (Cons a as)
  let ?k = "\<lambda>(a', removed, updates). act_bind (loudness_loop E path env as)
      (\<lambda>(as', rs, us) w'. (Inr (a' # as', removed @ rs, updates @ us), w'))"
  have "quiet_act (ffmpeg_private E original) (act_bind (loudness_loop E path env as)
      (\<lambda>(as', rs, us) w'. (Inr (a' # as', r @ rs, u @ us), w')))" for a' r u
    by (rule quiet_bind [OF Cons]) (auto simp: quiet_act_def)
  then have "quiet_act (ffmpeg_private E original) (?k x)" for x
    by (cases x) simp
  then have "quiet_act (ffmpeg_private E original) (act_bind (loudness_action E path env a) ?k)"
    by (rule quiet_bind [OF quiet_loudness_action [OF assms]])
  then show ?case by (simp add: quiet_act_def)
qed (simp add: quiet_act_def)

lemma quiet_replace_output:
  assumes "priv output" "priv remuxed"
  shows "quiet_act priv (replace_output E storage session source output remuxed)"
  unfolding replace_output_def
  by (intro quiet_bind quiet_or_remove quiet_record quiet_io quiet_remove quiet_rename assms)

lemma quiet_reinjection_in_dir:
  assumes "tools_write_output E tool_output"
    "output = temp_path_with_ext (xe_cmd E) (xe_temp_id E 0) original ext"
  shows "quiet_act (ffmpeg_private E original)
    (apply_dynamic_hdr_reinjection_in_dir E storage session job source output env)"
  unfolding apply_dynamic_hdr_reinjection_in_dir_def Let_def
  by (intro quiet_bind quiet_checked [OF assms(1)] quiet_replace_output)
    (auto simp: assms(2) extract_hevc_args_def extract_metadata_args_def inject_metadata_args_def
      remux_args_def metadata_path_def private_text_def DynamicHdrKind_tool_name_def
      split: dynamic_hdr_kind.split)

lemma quiet_reinjection:
  assumes "tools_write_output E tool_output"
    "output = temp_path_with_ext (xe_cmd E) (xe_temp_id E 0) original ext"
  shows "quiet_act (ffmpeg_private E original)
    (apply_dynamic_hdr_reinjection E storage session job source output env)"
proof (rule quiet_actI)
  fix w r w'
  assume run: "apply_dynamic_hdr_reinjection E storage session job source output env w = (r, w')"
  let ?priv = "ffmpeg_private E original"
  have dir: "quiet_act ?priv (fs_remove_dir_all (xe_work_dir E))"
    by (rule quiet_remove_dir) (rule private_work_dir)
  obtain r1 w1 where s1: "act_io dynamic_hdr_error fs_create_dir w = (r1, w1)" by fastforce
  obtain r2 w2 where s2:
    "apply_dynamic_hdr_reinjection_in_dir E storage session job source output env w1 = (r2, w2)"
    by fastforce
  note q1 = quiet_actD [OF quiet_io [OF quiet_create_dir] s1, of ?priv]
  note q2 = quiet_actD [OF quiet_reinjection_in_dir [OF assms] s2]
  from run s1 s2 quiet_ignore [OF dir, of w2] quiet_actD [OF quiet_io [OF dir]] q1 q2
  show "quiet ?priv w w'"
    unfolding apply_dynamic_hdr_reinjection_def
    by (auto split: sum.splits intro: quiet_trans)
qed

section \<open>The rename\<close>

text \<open>A step that fails changes nothing; one that succeeds has recorded the paths it changes.\<close>

lemma rename_output_to_spec:
  assumes "rename_output_to E storage session source output final w = (r, w')" "priv output"
  shows "case r of
      Inl e \<Rightarrow> quiet priv w w'
    | Inr _ \<Rightarrow> quiet (\<lambda>p. priv p \<or> p = final) w w' \<and> xw_files w' final \<noteq> None
        \<and> (\<forall>s. storage \<and> session = Some s \<longrightarrow> is_voom_originated (xe_cmd E) s final w'
             \<and> is_voom_originated (xe_cmd E) s source w')"
proof -
  let ?rec = "record_mutation_for_pending_write (xe_cmd E) storage session source final"
  let ?mv = "act_io (\<lambda>e. ffmpeg_tool_error (''failed to rename temp file to ''
             @ ce_lossy (xe_cmd E) final @ '': '' @ e)) (fs_rename output final)"
  obtain r1 w1 where s1: "?rec w = (r1, w1)" by fastforce
  note q1 = quiet_actD [OF quiet_record s1, of priv]
  show ?thesis
  proof (cases r1)
    case (Inl e)
    with assms s1 have "r = Inl e" "w' = act_ignore (fs_remove_file output) w1"
      by (auto simp: rename_output_to_def act_bind_def act_or_remove_def)
    with q1 quiet_ignore [OF quiet_remove [of priv, OF assms(2)], of w1] show ?thesis
      by (auto intro: quiet_trans)
  next
    case (Inr u)
    with assms s1 have run: "act_or_remove ?mv output w1 = (r, w')"
      by (simp add: rename_output_to_def act_bind_def act_or_remove_def)
    obtain f w2 where f: "take_fault w1 = (f, w2)" by fastforce
    show ?thesis
    proof (cases "f = None \<and> xw_files w2 output \<noteq> None")
      case True
      with run f have w': "r = Inr ()"
          "w' = w2\<lparr>xw_files := (xw_files w2)(output := None, final := xw_files w2 output)\<rparr>"
        by (auto simp: act_or_remove_def act_io_def fs_rename_def)
      with f True q1 assms(2) record_pending_recorded s1 Inr show ?thesis
        by (auto simp: quiet_def is_voom_originated_key)
    next
      case False
      with run f obtain e where "r = Inl e" "w' = act_ignore (fs_remove_file output) w2"
        by (auto simp: act_or_remove_def act_io_def fs_rename_def split: option.splits)
      with q1 quiet_take_fault [OF f, of priv] quiet_ignore [OF quiet_remove [of priv, OF assms(2)], of w2]
      show ?thesis by (auto intro: quiet_trans)
    qed
  qed
qed


text \<open>
  The change that a successful execution makes: at the final path, which holds a file, and at the
  original, which may be gone; both are recorded when a scan session is active.
\<close>

definition committed ::
  "cmd_env \<Rightarrow> bool \<Rightarrow> uuid option \<Rightarrow> (string \<Rightarrow> bool) \<Rightarrow> string \<Rightarrow> string \<Rightarrow> exec_world \<Rightarrow> exec_world \<Rightarrow> bool" where
  "committed C storage session priv source final w w' =
     (quiet (\<lambda>p. priv p \<or> p = final \<or> p = source) w w' \<and> xw_files w' final \<noteq> None
      \<and> (\<forall>s. storage \<and> session = Some s
           \<longrightarrow> is_voom_originated C s final w' \<and> is_voom_originated C s source w'))"

lemma committed_after: "quiet priv u w \<Longrightarrow> committed C storage session priv source final w w'
    \<Longrightarrow> committed C storage session priv source final u w'"
  by (auto simp: committed_def quiet_def)

lemma remove_keeps:
  "xw_mutations (act_ignore (fs_remove_file p) w) = xw_mutations w
   \<and> (\<forall>q. q \<noteq> p \<longrightarrow> xw_files (act_ignore (fs_remove_file p) w) q = xw_files w q)"
  by (auto simp: act_ignore_def fs_remove_file_def split: prod.splits option.splits)

lemma rename_output_spec:
  assumes "rename_output E storage plan output ext w = (r, w')" "priv output"
  shows "case r of
      Inl e \<Rightarrow> quiet priv w w'
    | Inr final \<Rightarrow> committed (xe_cmd E) storage (pl_scan_session plan) priv (mf_path (pl_file plan)) final w w'
        \<and> final \<in> {mf_path (pl_file plan), path_with_extension (mf_path (pl_file plan)) ext}"
proof -
  let ?src = "mf_path (pl_file plan)" and ?s = "pl_scan_session plan"
  define final where "final = (if ext = (case path_extension ?src of
      Some e \<Rightarrow> if ce_is_utf8 (xe_cmd E) e then e else [] | None \<Rightarrow> []) then ?src
    else path_with_extension ?src ext)"
  obtain r1 w1 where s1: "rename_output_to E storage ?s ?src output final w = (r1, w1)" by fastforce
  note spec = rename_output_to_spec [of E storage ?s ?src "output" final w r1 w1 priv, OF s1 assms(2)]
  show ?thesis
  proof (cases r1)
    case (Inl e)
    with s1 assms(1) have "r = Inl e" "w' = w1"
      by (auto simp: rename_output_def act_bind_def final_def Let_def split: if_splits)
    with spec Inl show ?thesis by simp
  next
    case (Inr u)
    then have "committed (xe_cmd E) storage ?s priv ?src final w w1"
      using spec by (auto simp: committed_def quiet_def)
    then have "committed (xe_cmd E) storage ?s priv ?src final w (act_ignore (fs_remove_file ?src) w1)"
      if "final \<noteq> ?src"
      using that remove_keeps [of ?src w1]
      by (simp add: committed_def quiet_def is_voom_originated_key)
    moreover have "r = Inr final"
        "w' = (if final \<noteq> ?src then act_ignore (fs_remove_file ?src) w1 else w1)"
      using s1 Inr assms(1)
      by (auto simp: rename_output_def act_bind_def final_def Let_def split: if_splits)
    ultimately show ?thesis
      using \<open>committed _ _ _ _ _ final w w1\<close> by (auto simp: final_def)
  qed
qed

definition execution_succeeded :: "(voom_error + plan_execution) option \<Rightarrow> bool" where
  "execution_succeeded r =
     (\<exists>x. r = Some (Inr x) \<and> (\<forall>a \<in> set (pe_action_results x). ar_success a))"

text \<open>Either nothing changed but private files, or the run succeeded and its change is committed.\<close>

definition safe_end ::
  "exec_env \<Rightarrow> bool \<Rightarrow> uuid option \<Rightarrow> string \<Rightarrow> (voom_error + plan_execution) option
     \<Rightarrow> exec_world \<Rightarrow> exec_world \<Rightarrow> bool" where
  "safe_end E storage session source r w w' =
     (quiet (ffmpeg_private E source) w w' \<or>
      execution_succeeded r \<and>
      (\<exists>ext final. final \<in> {source, path_with_extension source ext} \<and>
         committed (xe_cmd E) storage session (ffmpeg_private E source) source final w w'))"

lemma safe_end_after:
  "quiet (ffmpeg_private E source) u w \<Longrightarrow> safe_end E storage session source r w w'
     \<Longrightarrow> safe_end E storage session source r u w'"
  unfolding safe_end_def by (meson quiet_trans committed_after)

lemma finish_execution_safe:
  assumes "tools_write_output E tool_output"
    and "output = temp_path_with_ext (xe_cmd E) (xe_temp_id E 0) (mf_path (pl_file plan)) ext'"
    and "finish_execution E storage plan job output ext command env outcomes updates res w = (r, w')"
  shows "safe_end E storage (pl_scan_session plan) (mf_path (pl_file plan)) r w w'"
proof -
  let ?src = "mf_path (pl_file plan)"
  let ?priv = "ffmpeg_private E ?src"
  have priv: "?priv output" using assms(2) by simp
  note removed = quiet_ignore [OF quiet_remove [of ?priv, OF priv], of w]
  show ?thesis
  proof (cases "\<exists>out. res = Inr out \<and> po_success out")
    case False
    with assms(3) removed show ?thesis
      by (auto simp: finish_execution_def safe_end_def split: sum.splits)
  next
    case True
    then obtain out where out: "res = Inr out" "po_success out" by blast
    define inject where "inject = (case job of
        None \<Rightarrow> (\<lambda>w. (Inr (), w))
      | Some j \<Rightarrow> act_or_remove (apply_dynamic_hdr_reinjection E storage
          (pl_scan_session plan) j ?src output env) output)"
    have inject: "quiet_act ?priv inject"
      unfolding inject_def
      by (cases job) (simp_all add: quiet_return quiet_or_remove quiet_reinjection [OF assms(1,2)] priv)
    obtain r1 w1 where s1: "inject w = (r1, w1)" by fastforce
    note q1 = quiet_actD [OF inject s1]
    obtain r2 w2 where s2: "rename_output E storage plan output ext w1 = (r2, w2)" by fastforce
    note spec = rename_output_spec [of E storage plan "output" ext w1 r2 w2 ?priv, OF s2 priv]
    have fin: "(r, w') = (case act_bind inject (\<lambda>_. rename_output E storage plan output ext) w of
          (Inl e, w) \<Rightarrow> (Some (Inl e), w)
        | (Inr _, w) \<Rightarrow> (Some (Inr \<lparr>pe_action_results = success_results E command (pl_actions plan),
            pe_transcode_outcomes = outcomes, pe_loudness_updates = updates\<rparr>), w))"
      using assms(3) out by (simp add: finish_execution_def inject_def Let_def)
    show ?thesis
    proof (cases r1)
      case (Inl e)
      with fin s1 q1 show ?thesis by (simp add: act_bind_def safe_end_def)
    next
      case (Inr u)
      have "safe_end E storage (pl_scan_session plan) ?src r w1 w'"
      proof (cases r2)
        case (Inl e)
        with fin s1 s2 spec \<open>r1 = Inr u\<close> show ?thesis by (simp add: act_bind_def safe_end_def)
      next
        case (Inr final)
        with fin s1 s2 \<open>r1 = Inr u\<close> have "execution_succeeded r" "w' = w2"
          by (auto simp: act_bind_def execution_succeeded_def success_results_def
              with_execution_detail_def ActionResult_success_def)
        with spec Inr show ?thesis by (auto simp: safe_end_def)
      qed
      with q1 show ?thesis by (rule safe_end_after)
    qed
  qed
qed

lemma build_ends_with_output:
  "build_ffmpeg_command C f as output hw = Inr args \<Longrightarrow> args \<noteq> [] \<and> last args = ce_lossy C output"
  by (auto simp: build_ffmpeg_command_def Let_def cmd_output_def split: sum.splits)


lemma vmaf_keeps_file:
  "prepare_vmaf_transcodes_with_outcomes E runner plan = (plan', os)
     \<Longrightarrow> pl_file plan' = pl_file plan \<and> pl_scan_session plan' = pl_scan_session plan"
  by (auto simp: prepare_vmaf_transcodes_with_outcomes_def Let_def)

lemma loudness_keeps_file:
  "prepare_loudness_actions E hw plan w = (Inr (plan', us), w')
     \<Longrightarrow> pl_file plan' = pl_file plan \<and> pl_scan_session plan' = pl_scan_session plan"
  by (auto simp: prepare_loudness_actions_def act_bind_def split: prod.splits sum.splits)

lemma quiet_loudness:
  assumes "tools_write_output E tool_output"
  shows "quiet_act (ffmpeg_private E original) (prepare_loudness_actions E hw plan)"
  unfolding prepare_loudness_actions_def
  by (rule quiet_bind [OF quiet_loudness_loop [OF assms]]) (auto simp: quiet_act_def)

lemma quiet_check_hdr_tool:
  assumes "tools_write_output E tool_output"
  shows "quiet_act (ffmpeg_private E original) (check_hdr_tool E env job)"
  by (cases job; cases "dh_kind (the job)")
    (simp_all add: check_hdr_tool_def quiet_return quiet_ensure [OF assms] DynamicHdrKind_tool_name_def)

lemma run_prepared_plan_safe:
  assumes tools: "tools_write_output E tool_output"
    and run: "run_prepared_plan E hw storage plan outcomes updates w = (r, w')"
  shows "safe_end E storage (pl_scan_session plan) (mf_path (pl_file plan)) r w w'"
proof -
  let ?C = "xe_cmd E" and ?f = "pl_file plan" and ?as = "pl_actions plan"
  let ?priv = "ffmpeg_private E (mf_path ?f)"
  define ext where "ext = output_extension ?C ?f ?as"
  define outp where "outp = temp_path_with_ext ?C (xe_temp_id E 0) (mf_path ?f) ext"
  define build where
    "build = build_ffmpeg_command ?C ?f ?as outp (if HwAccelConfig_enabled hw then Some hw else None)"
  note defs = run_prepared_plan_def Let_def build_def [symmetric] outp_def [symmetric] ext_def [symmetric]
  consider (fails) e where "(r, w') = (Some (Inl e), w)"
    | (runs) args job where "build = Inr args" "dynamic_hdr_job ?f ?as ext = Inr job"
    using run unfolding defs
    by (cases build; cases "dynamic_hdr_job ?f ?as ext") auto
  then show ?thesis
  proof cases
    case fails
    then show ?thesis by (simp add: safe_end_def)
  next
    case runs
    obtain r2 w2 where e: "check_hdr_tool E (env_vars hw) job w = (r2, w2)" by fastforce
    note q2 = quiet_actD [OF quiet_check_hdr_tool [OF tools, of "mf_path ?f"] e]
    obtain r3 w3 where t: "run_tool E ''ffmpeg'' args (env_vars hw) w2 = (r3, w3)" by fastforce
    have "args \<noteq> []" "last args = ce_lossy ?C outp"
      using build_ends_with_output runs(1) unfolding build_def by blast+
    then have q3: "quiet ?priv w2 w3"
      by (intro quiet_actD [OF quiet_private_run [OF tools] t]) (auto simp: private_text_def outp_def)
    show ?thesis
    proof (cases r2)
      case (Inl err)
      with run runs e q2 show ?thesis unfolding defs by (simp add: safe_end_def)
    next
      case (Inr u)
      with run runs e t
      have "finish_execution E storage plan job outp ext (shell_quote_args ''ffmpeg'' args) (env_vars hw)
          outcomes updates r3 w3 = (r, w')"
        unfolding defs by simp
      from finish_execution_safe [OF tools outp_def this] q2 q3 show ?thesis
        by (meson safe_end_after)
    qed
  qed
qed

lemma execute_plan_safe_end:
  assumes tools: "tools_write_output E tool_output"
    and run: "execute_plan_with_runners E runner hw storage plan w = (r, w')"
  shows "safe_end E storage (pl_scan_session plan) (mf_path (pl_file plan)) r w w'"
proof -
  let ?src = "mf_path (pl_file plan)"
  obtain plan1 outcomes where v: "prepare_vmaf_transcodes_with_outcomes E runner plan = (plan1, outcomes)"
    by fastforce
  obtain r1 w1 where l: "prepare_loudness_actions E hw plan1 w = (r1, w1)" by fastforce
  note q1 = quiet_actD [OF quiet_loudness [OF tools, of ?src] l]
  show ?thesis
  proof (cases "xw_files w ?src = None \<or> (\<exists>e. r1 = Inl e)")
    case True
    with run v l q1 show ?thesis
      by (auto simp: execute_plan_with_runners_def safe_end_def split: if_splits)
  next
    case False
    then obtain plan2 updates where r1: "r1 = Inr (plan2, updates)" by (cases r1) auto
    have same: "pl_file plan2 = pl_file plan" "pl_scan_session plan2 = pl_scan_session plan"
      using vmaf_keeps_file [OF v] loudness_keeps_file [OF l [unfolded r1]] by auto
    from run v l r1 False have "run_prepared_plan E hw storage plan2 outcomes updates w1 = (r, w')"
      by (auto simp: execute_plan_with_runners_def)
    from run_prepared_plan_safe [OF tools this] q1 same show ?thesis
      by (simp add: safe_end_after)
  qed
qed

text \<open>
  C5: If the tools write no file but their output, an execution of a plan by ffmpeg, with any failures of
  tools, store and file system, changes no file but its own temporary ones unless it succeeds; then
  it changes only the original and the path with the new extension, the final path holds a file, and
  with an active scan session and a store the changed path is recorded as changed by VOOM.
\<close>
theorem ffmpeg_execution_safe:
  assumes "tools_write_output E tool_output"
    and "execute_plan_with_runners E runner hw storage plan w = (r, w')"
    and "\<not> ffmpeg_private E (mf_path (pl_file plan)) p"
    and "xw_files w' p \<noteq> xw_files w p"
  shows "execution_succeeded r \<and>
    (\<exists>ext final. final \<in> {mf_path (pl_file plan), path_with_extension (mf_path (pl_file plan)) ext}
       \<and> p \<in> {mf_path (pl_file plan), final} \<and> xw_files w' final \<noteq> None
       \<and> (\<forall>s. storage \<and> pl_scan_session plan = Some s \<longrightarrow> is_voom_originated (xe_cmd E) s p w'))"
proof -
  from assms(3,4) have "\<not> quiet (ffmpeg_private E (mf_path (pl_file plan))) w w'"
    by (auto simp: quiet_def)
  with execute_plan_safe_end [OF assms(1,2)] obtain ext final where ok: "execution_succeeded r"
      "final \<in> {mf_path (pl_file plan), path_with_extension (mf_path (pl_file plan)) ext}"
      "committed (xe_cmd E) storage (pl_scan_session plan) (ffmpeg_private E (mf_path (pl_file plan)))
         (mf_path (pl_file plan)) final w w'"
    unfolding safe_end_def by blast
  moreover from ok(3) assms(3,4) have "p \<in> {mf_path (pl_file plan), final}"
    by (auto simp: committed_def quiet_def)
  ultimately show ?thesis
    by (intro conjI exI [of _ ext] exI [of _ final]) (auto simp: committed_def)
qed

definition copying_run ::
  "string \<Rightarrow> string list \<Rightarrow> (string \<times> string) list \<Rightarrow> file_map \<Rightarrow> (voom_error + process_output) \<times> file_map" where
  "copying_run tool args env files =
     (Inr \<lparr>po_code = Some 0, po_stdout = [], po_stderr = []\<rparr>,
      case tool_output tool args of None \<Rightarrow> files | Some p \<Rightarrow> files(p := Some ''new''))"

definition sample_exec_env :: exec_env where
  "sample_exec_env =
     \<lparr>xe_cmd = sample_cmd_env, xe_run = copying_run, xe_status = (\<lambda>_. ''exit status''),
      xe_elapsed_ms = 0, xe_temp_id = (\<lambda>n. ''77'' @ replicate n (CHR ''x'')), xe_work_dir = ''/tmp/voom-dynamic-hdr-77'',
      xe_json_numbers = (\<lambda>_. Inr (\<lambda>_. Some 0)), xe_f32 = (\<lambda>x. x), xe_uuid_text = nat_str,
      xe_mint = sample_mint\<rparr>"

definition sample_world :: exec_world where
  "sample_world =
     \<lparr>xw_files = (\<lambda>p. if p = ''/m/a.mkv'' then Some ''old'' else None), xw_mutations = [],
      xw_faults = []\<rparr>"

definition sample_exec_plan :: plan where
  "sample_exec_plan =
     (Plan_new sample_mint sample_file ''p'' ''audio'')
       \<lparr>pl_actions := sample_actions, pl_scan_session := Some 5\<rparr>"

definition no_vmaf :: vmaf_runner where
  "no_vmaf path target bounds = Inl (IterInvalidInput ''none'')"

definition sample_execution :: "(voom_error + plan_execution) option \<times> exec_world" where
  "sample_execution =
     execute_plan_with_runners sample_exec_env no_vmaf HwAccelConfig_new True sample_exec_plan sample_world"

lemma sample_tools: "tools_write_output sample_exec_env tool_output"
  by (auto simp: tools_write_output_def sample_exec_env_def copying_run_def sample_cmd_env_def
      split: option.splits if_splits)

lemma sample_not_private: "\<not> ffmpeg_private sample_exec_env ''/m/a.mkv'' ''/m/a.mkv''"
proof -
  have "temp_path_with_ext sample_cmd_env ''77'' ''/m/a.mkv'' ext = ''/m/a.voom_tmp_77.'' @ ext" for ext
  proof -
    have "path_file_stem ''/m/a.mkv'' = Some ''a''" "path_dir ''/m/a.mkv'' = ''/m/''" by code_simp+
    then show ?thesis
      by (simp add: temp_path_with_ext_def path_sibling_def TEMP_MARKER_def sample_cmd_env_def)
  qed
  then show ?thesis
    by (simp add: ffmpeg_private_def private_text_def sample_exec_env_def sample_cmd_env_def join_work_dir_def)
qed

theorem ffmpeg_execution_safe_witness:
  "xw_files (snd sample_execution) ''/m/a.mkv'' = Some ''new'' \<and> execution_succeeded (fst sample_execution)
   \<and> is_voom_originated sample_cmd_env 5 ''/m/a.mkv'' (snd sample_execution)"
proof -
  have changed: "xw_files (snd sample_execution) ''/m/a.mkv'' = Some ''new''" by code_simp
  have old: "xw_files sample_world ''/m/a.mkv'' = Some ''old''" by (simp add: sample_world_def)
  have path: "mf_path (pl_file sample_exec_plan) = ''/m/a.mkv''" by code_simp
  have env: "xe_cmd sample_exec_env = sample_cmd_env" by (simp add: sample_exec_env_def)
  have session: "pl_scan_session sample_exec_plan = Some 5" by (simp add: sample_exec_plan_def)
  have run: "execute_plan_with_runners sample_exec_env no_vmaf HwAccelConfig_new True sample_exec_plan
      sample_world = (fst sample_execution, snd sample_execution)"
    by (simp add: sample_execution_def)
  from ffmpeg_execution_safe [OF sample_tools run, of "''/m/a.mkv''"] sample_not_private changed old
  show ?thesis unfolding path env session by (simp; blast)
qed


section \<open>Two ends of an execution that the checks do not cover\<close>

text \<open>
  A conversion renames over whatever is at the new path: here \<open>a.mkv\<close> becomes \<open>a.mp4\<close> and the file that
  was there before is gone.
\<close>

definition convert_plan :: plan where
  "convert_plan =
     sample_exec_plan\<lparr>pl_actions := [\<lparr>pa_operation = ConvertContainer, pa_track_index = None,
       pa_parameters = ApContainer Mp4, pa_description = ''Convert''\<rparr>]\<rparr>"

definition two_files :: exec_world where
  "two_files = sample_world\<lparr>xw_files := (xw_files sample_world)(''/m/a.mp4'' := Some ''other'')\<rparr>"

definition sample_conversion :: "(voom_error + plan_execution) option \<times> exec_world" where
  "sample_conversion =
     execute_plan_with_runners sample_exec_env no_vmaf HwAccelConfig_new True convert_plan two_files"

lemma conversion_overwrites_neighbour:
  "xw_files two_files ''/m/a.mp4'' = Some ''other''"
  "xw_files (snd sample_conversion) ''/m/a.mp4'' = Some ''new''"
  "xw_files (snd sample_conversion) ''/m/a.mkv'' = None"
  by code_simp+

text \<open>
  When every action was a normalisation that the measurement found unnecessary, no action is left;
  \<open>ffmpeg\<close> is still run, and if it fails the report of the failure panics.
\<close>

definition failing_run ::
  "string \<Rightarrow> string list \<Rightarrow> (string \<times> string) list \<Rightarrow> file_map \<Rightarrow> (voom_error + process_output) \<times> file_map" where
  "failing_run tool args env files =
     (Inr \<lparr>po_code = Some (if last args = ''-'' then 0 else 1), po_stdout = [],
          po_stderr = ''{}''\<rparr>, files)"

definition normalize_plan :: plan where
  "normalize_plan =
     sample_exec_plan\<lparr>pl_actions := [\<lparr>pa_operation = TranscodeAudio, pa_track_index = Some 1,
       pa_parameters = ApTranscode ''aac'' (TranscodeSettings_default\<lparr>ts_loudness :=
         Some (LoudnessNormalization_new EbuR128 0 0 None)\<rparr>),
       pa_description = ''Normalize audio track 1''\<rparr>]\<rparr>"

lemma empty_plan_failure_panics:
  "fst (execute_plan_with_runners (sample_exec_env\<lparr>xe_run := failing_run\<rparr>) no_vmaf HwAccelConfig_new
      True normalize_plan sample_world) = None"
  by code_simp


end
