(* ===== verification/Ffmpeg_Plugin.thy ===== *)
theory Ffmpeg_Plugin
  imports Ffmpeg_Probe Mkvtoolnix Executor_Props
begin

text \<open>
  The ffmpeg executor as a plugin, \<open>plugins/ffmpeg-executor/src/lib.rs\<close>: which plans it takes, what it
  does with them and with generated subtitles, and its initialisation; with the subtitle handler of
  \<open>plugins/mkvtoolnix-executor/src/lib.rs\<close>, its counterpart for Matroska files.
\<close>

section \<open>Configuration and state\<close>

record ffmpeg_config =
  fcfg_hw_accel :: "string option"
  fcfg_gpu_device :: "string option"
  fcfg_nvenc_max_parallel :: "usize option"
  fcfg_hw_decode :: "bool option"

definition FfmpegExecutorConfig_default :: ffmpeg_config where
  "FfmpegExecutorConfig_default =
     \<lparr>fcfg_hw_accel = None, fcfg_gpu_device = None, fcfg_nvenc_max_parallel = None,
      fcfg_hw_decode = None\<rparr>"

definition DEFAULT_NVENC_MAX_PARALLEL_PER_GPU :: usize where
  "DEFAULT_NVENC_MAX_PARALLEL_PER_GPU = 2"

definition positive_or_default :: "usize option \<Rightarrow> usize \<Rightarrow> usize" where
  "positive_or_default v d = (case v of None \<Rightarrow> d | Some n \<Rightarrow> if n = 0 then d else n)"

definition nvenc_parallel_limits ::
  "hw_accel_backend option \<Rightarrow> string list \<Rightarrow> usize option \<Rightarrow> parallel_limit list" where
  "nvenc_parallel_limits backend validated_encoders nvenc_max_parallel =
     (if backend \<noteq> Some Nvenc \<or> \<not> list_ex (\<lambda>e. str_ends_with e ''_nvenc'') validated_encoders then []
      else [\<lparr>epl_resource = ''hw:nvenc'',
             epl_max_parallel = positive_or_default nvenc_max_parallel
               DEFAULT_NVENC_MAX_PARALLEL_PER_GPU\<rparr>])"

definition ffmpeg_plugin_err :: "string \<Rightarrow> voom_error" where
  "ffmpeg_plugin_err message = PluginError ''ffmpeg-executor'' message"

definition FFMPEG_OPS :: "operation_type list" where
  "FFMPEG_OPS =
     [ConvertContainer, TranscodeVideo, TranscodeAudio, SynthesizeAudio, SetDefault, ClearDefault,
      SetForced, ClearForced, SetTitle, SetLanguage, SetContainerTag, ClearContainerTags,
      DeleteContainerTag]"

record ffmpeg_plugin =
  fp_available :: bool
  fp_hw_accel :: hw_accel_config
  fp_probed_codecs :: "codec_capabilities option"
  fp_probed_formats :: "string list option"
  fp_probed_hw_accels :: "string list option"
  fp_store :: bool

definition FfmpegExecutorPlugin_new :: ffmpeg_plugin where
  "FfmpegExecutorPlugin_new =
     \<lparr>fp_available = False, fp_hw_accel = HwAccelConfig_new, fp_probed_codecs = None,
      fp_probed_formats = None, fp_probed_hw_accels = None, fp_store = False\<rparr>"

section \<open>Which plans it takes\<close>

definition is_encode_op :: "operation_type \<Rightarrow> bool" where
  "is_encode_op op = (op \<in> {TranscodeVideo, TranscodeAudio, SynthesizeAudio})"

definition has_decoder_for_track :: "ffmpeg_plugin \<Rightarrow> plan \<Rightarrow> planned_action \<Rightarrow> bool" where
  "has_decoder_for_track P plan a =
     (case (fp_probed_codecs P, pa_track_index a) of
        (Some caps, Some i) \<Rightarrow>
          i < length (mf_tracks (pl_file plan))
          \<longrightarrow> tr_codec (mf_tracks (pl_file plan) ! i) \<in> set (cdc_decoders caps)
      | _ \<Rightarrow> True)"

definition can_encode :: "ffmpeg_plugin \<Rightarrow> string \<Rightarrow> bool" where
  "can_encode P codec =
     (case fp_probed_codecs P of None \<Rightarrow> True | Some caps \<Rightarrow> codec \<in> set (cdc_encoders caps))"

definition action_probed :: "ffmpeg_plugin \<Rightarrow> plan \<Rightarrow> planned_action \<Rightarrow> bool" where
  "action_probed P plan a =
     (case (pa_operation a, pa_parameters a) of
        (TranscodeVideo, ApTranscode codec s) \<Rightarrow> can_encode P codec \<and> has_decoder_for_track P plan a
      | (TranscodeAudio, ApTranscode codec s) \<Rightarrow> can_encode P codec \<and> has_decoder_for_track P plan a
      | (SynthesizeAudio, ApSynthesize sp) \<Rightarrow>
          (case sp_codec sp of Some codec \<Rightarrow> can_encode P codec | None \<Rightarrow> True)
      | (ConvertContainer, ApContainer c) \<Rightarrow>
          (case (fp_probed_formats P, ffmpeg_format_name c) of
             (Some formats, Some name) \<Rightarrow> name \<in> set formats
           | _ \<Rightarrow> True)
      | _ \<Rightarrow> True)"

definition can_handle_probed :: "ffmpeg_plugin \<Rightarrow> plan \<Rightarrow> bool" where
  "can_handle_probed P plan = list_all (action_probed P plan) (pl_actions plan)"

definition ffmpeg_can_handle :: "ffmpeg_plugin \<Rightarrow> plan \<Rightarrow> bool" where
  "ffmpeg_can_handle P plan =
     (let ops = map pa_operation (pl_actions plan); is_mkv = (mf_container (pl_file plan) = Mkv) in
      if \<not> fp_available P \<or> Plan_is_empty plan \<or> Plan_is_skipped plan then False
      else if list_ex is_encode_op ops \<or> ConvertContainer \<in> set ops then can_handle_probed P plan
      else if MuxSubtitle \<in> set ops then \<not> is_mkv
      else \<not> is_mkv \<and> list_all is_metadata_op ops)"

section \<open>Adding a subtitle file\<close>

definition ffmpeg_mux_args :: "cmd_env \<Rightarrow> string \<Rightarrow> string \<Rightarrow> mux_subtitle_params \<Rightarrow> string list" where
  "ffmpeg_mux_args C path tmp p =
     [''-i'', ce_lossy C path, ''-i'', ce_lossy C (msp_subtitle_path p), ''-c'', ''copy'', ''-c:s'', ''srt'',
      ''-metadata:s:s:0'', ''language='' @ msp_language p]
     @ (if msp_forced p then [''-disposition:s:0'', ''forced''] else [])
     @ [''-y'', ce_lossy C tmp]"

definition mux_commit :: "exec_env \<Rightarrow> bool \<Rightarrow> uuid option \<Rightarrow> string \<Rightarrow> string \<Rightarrow> unit act" where
  "mux_commit E storage session path tmp =
     act_bind (act_or_remove (record_mutation_for_pending_write (xe_cmd E) storage session path path) tmp)
       (\<lambda>_. act_or_remove (act_io (\<lambda>e. ffmpeg_plugin_err (''failed to rename temp file: '' @ e))
         (fs_rename tmp path)) tmp)"

definition ffmpeg_execute_mux_subtitle ::
  "exec_env \<Rightarrow> bool \<Rightarrow> plan \<Rightarrow> planned_action \<Rightarrow> action_result list act" where
  "ffmpeg_execute_mux_subtitle E storage plan a w =
     (case pa_parameters a of
        ApMuxSubtitle p \<Rightarrow>
          if \<not> is_valid_language (msp_language p)
          then (Inl (ffmpeg_plugin_err (''invalid ISO 639 language code: '' @ [CHR 0x22] @ msp_language p
                  @ [CHR 0x22])), w)
          else
            let path = mf_path (pl_file plan);
                tmp = temp_path (xe_cmd E) (xe_temp_id E 0) path;
                args = ffmpeg_mux_args (xe_cmd E) path tmp p;
                command = shell_quote_args ''ffmpeg'' args
            in (case run_tool E ''ffmpeg'' args [] w of
                  (Inl e, w) \<Rightarrow>
                    (Inl (ffmpeg_plugin_err (''ffmpeg subtitle mux failed: '' @ VoomError_display e)),
                     act_ignore (fs_remove_file tmp) w)
                | (Inr out, w) \<Rightarrow>
                    if po_success out
                    then act_bind (mux_commit E storage (pl_scan_session plan) path tmp)
                      (\<lambda>_ w. (Inr [with_execution_detail
                         \<lparr>ed_command = command, ed_exit_code = Some 0, ed_stderr_tail = [],
                          ed_duration_ms = xe_elapsed_ms E\<rparr>
                         (ActionResult_success (pa_operation a) (pa_description a))], w)) w
                    else
                      (Inr [mkv_failure_result (output_detail E command out) a
                          (''ffmpeg failed (exit '' @ code_text (po_code out) @ ''):'' @ [CHR 0x0A]
                           @ (if tail_of E out = [] then ''(no output)'' else tail_of E out)
                           @ [CHR 0x0A] @ ''cmd: '' @ command)],
                       act_ignore (fs_remove_file tmp) w))
      | _ \<Rightarrow> (Inl (ffmpeg_plugin_err ''expected MuxSubtitle params''), w))"

section \<open>Executing\<close>

text \<open>
  The store besides the table of changes: the outcomes and the files it is given. Its statements may
  fail like the others.
\<close>

record plugin_world =
  pw_exec :: exec_world
  pw_outcomes :: "transcode_outcome_rec list"
  pw_files :: "media_file list"

definition store_effect :: "(plugin_world \<Rightarrow> plugin_world) \<Rightarrow> plugin_world \<Rightarrow> (voom_error + unit) \<times> plugin_world" where
  "store_effect f w =
     (case take_fault (pw_exec w) of
        (Some e, x) \<Rightarrow> (Inl (StorageError OtherStorage e), w\<lparr>pw_exec := x\<rparr>)
      | (None, x) \<Rightarrow> (Inr (), f (w\<lparr>pw_exec := x\<rparr>)))"

fun insert_outcomes ::
  "transcode_outcome_rec list \<Rightarrow> plugin_world \<Rightarrow> (voom_error + unit) \<times> plugin_world" where
  "insert_outcomes [] w = (Inr (), w)"
| "insert_outcomes (o1 # os) w =
     (case store_effect (\<lambda>w. w\<lparr>pw_outcomes := pw_outcomes w @ [o1]\<rparr>) w of
        (Inl e, w) \<Rightarrow> (Inl e, w)
      | (Inr _, w) \<Rightarrow> insert_outcomes os w)"

text \<open>The first track with the index of the update is changed.\<close>

fun update_loudness :: "timestamp \<Rightarrow> loudness_update \<Rightarrow> track list \<Rightarrow> track list" where
  "update_loudness now u [] = []"
| "update_loudness now u (t # ts) =
     (if tr_index t = lu_track_index u
      then t\<lparr>tr_loudness_integrated_lufs := Some (lu_integrated_lufs u),
             tr_loudness_true_peak_db := Some (lu_true_peak_db u),
             tr_loudness_range_lu := lu_loudness_range_lu u,
             tr_loudness_measured_at := Some now\<rparr> # ts
      else t # update_loudness now u ts)"

definition save_execution ::
  "timestamp \<Rightarrow> plan \<Rightarrow> plan_execution \<Rightarrow> plugin_world \<Rightarrow> (voom_error + unit) \<times> plugin_world" where
  "save_execution now plan ex w =
     (case insert_outcomes (pe_transcode_outcomes ex) w of
        (Inl e, w) \<Rightarrow> (Inl e, w)
      | (Inr _, w) \<Rightarrow>
          if pe_loudness_updates ex = [] then (Inr (), w)
          else let f = pl_file plan;
                   f = f\<lparr>mf_tracks := fold (update_loudness now) (pe_loudness_updates ex) (mf_tracks f)\<rparr>
               in store_effect (\<lambda>w. w\<lparr>pw_files := pw_files w @ [f]\<rparr>) w)"

definition lift_exec :: "'a act \<Rightarrow> plugin_world \<Rightarrow> (voom_error + 'a) \<times> plugin_world" where
  "lift_exec m w = (case m (pw_exec w) of (r, x) \<Rightarrow> (r, w\<lparr>pw_exec := x\<rparr>))"

definition ffmpeg_execute_plan ::
  "exec_env \<Rightarrow> vmaf_runner \<Rightarrow> timestamp \<Rightarrow> ffmpeg_plugin \<Rightarrow> plan \<Rightarrow> plugin_world
     \<Rightarrow> (voom_error + action_result list) option \<times> plugin_world" where
  "ffmpeg_execute_plan E runner now P plan w =
     (let muxes = filter (\<lambda>a. pa_operation a = MuxSubtitle) (pl_actions plan) in
      if \<not> ffmpeg_can_handle P plan
      then (Some (Inl (ffmpeg_plugin_err ''Plan cannot be handled by FFmpeg executor'')), w)
      else if muxes \<noteq> []
      then (case lift_exec (act_collect (\<lambda>E. ffmpeg_execute_mux_subtitle E (fp_store P) plan) E muxes) w of
              (r, w) \<Rightarrow> (Some r, w))
      else
        case execute_plan_with_runners E runner (fp_hw_accel P) (fp_store P) plan (pw_exec w) of
          (None, x) \<Rightarrow> (None, w\<lparr>pw_exec := x\<rparr>)
        | (Some (Inl e), x) \<Rightarrow> (Some (Inl e), w\<lparr>pw_exec := x\<rparr>)
        | (Some (Inr ex), x) \<Rightarrow>
            (case (if fp_store P then save_execution now plan ex (w\<lparr>pw_exec := x\<rparr>)
                   else (Inr (), w\<lparr>pw_exec := x\<rparr>)) of
               (Inl e, w) \<Rightarrow> (Some (Inl e), w)
             | (Inr _, w) \<Rightarrow> (Some (Inr (pe_action_results ex)), w)))"

definition ffmpeg_handle_plan_created ::
  "exec_env \<Rightarrow> vmaf_runner \<Rightarrow> timestamp \<Rightarrow> (action_result list \<Rightarrow> json) \<Rightarrow> ffmpeg_plugin \<Rightarrow> plan
     \<Rightarrow> plugin_world \<Rightarrow> event_result option option \<times> plugin_world" where
  "ffmpeg_handle_plan_created E runner now to_value P plan w =
     (if Plan_is_empty plan \<or> Plan_is_skipped plan \<or> \<not> ffmpeg_can_handle P plan then (Some None, w)
      else case ffmpeg_execute_plan E runner now P plan w of
        (r, w) \<Rightarrow> (map_option (\<lambda>r. Some (from_plan_execution to_value ''ffmpeg-executor'' r)) r, w))"

section \<open>Generated subtitles\<close>

definition event_container :: "cmd_env \<Rightarrow> subtitle_generated_event \<Rightarrow> container" where
  "event_container C ev =
     Container_from_extension (case path_extension (sge_path ev) of
       Some e \<Rightarrow> if ce_is_utf8 C e then e else [] | None \<Rightarrow> [])"

definition mux_plan :: "mint \<Rightarrow> mint \<Rightarrow> container \<Rightarrow> subtitle_generated_event \<Rightarrow> plan" where
  "mux_plan m m' c ev =
     (let plan = Plan_new m' ((MediaFile_new m (sge_path ev))\<lparr>mf_container := c\<rparr>) ''subtitle-mux'' ''subtitle_mux'';
          plan = (case sge_scan_session ev of Some s \<Rightarrow> with_scan_session s plan | None \<Rightarrow> plan)
      in plan\<lparr>pl_actions := [\<lparr>pa_operation = MuxSubtitle, pa_track_index = None,
           pa_parameters = ApMuxSubtitle \<lparr>msp_subtitle_path = sge_subtitle_path ev,
             msp_language = sge_language ev, msp_forced = sge_forced ev, msp_title = sge_title ev\<rparr>,
           pa_description = ''Mux subtitle into container''\<rparr>]\<rparr>)"

definition mux_event_result :: "string \<Rightarrow> plan \<Rightarrow> subtitle_generated_event \<Rightarrow> event_result" where
  "mux_event_result name plan ev =
     (EventResult_new name)\<lparr>er_claimed := True,
       er_produced_events :=
         [EvPlanExecuting \<lparr>pee_plan_id = pl_id plan, pee_path = sge_path ev,
            pee_phase_name = ''subtitle_mux'', pee_action_count = 1\<rparr>,
          EvPlanCreated \<lparr>pce_plan = plan\<rparr>]\<rparr>"

text \<open>The checks that both plugins make, with the error each of them wraps around a message.\<close>

definition check_subtitle_event ::
  "cmd_env \<Rightarrow> (string \<Rightarrow> voom_error) \<Rightarrow> subtitle_generated_event \<Rightarrow> voom_error + unit" where
  "check_subtitle_event C err ev =
     (case validate_metadata_value C (sge_language ev) of
        Inl e \<Rightarrow> Inl (err (''invalid language: '' @ VoomError_display e))
      | Inr _ \<Rightarrow>
          (case sge_title ev of
             None \<Rightarrow> Inr ()
           | Some title \<Rightarrow>
               (case validate_metadata_value C title of
                  Inl e \<Rightarrow> Inl (err (''invalid title: '' @ VoomError_display e))
                | Inr _ \<Rightarrow> Inr ())))"

definition ffmpeg_handle_subtitle_generated ::
  "cmd_env \<Rightarrow> mint \<Rightarrow> mint \<Rightarrow> ffmpeg_plugin \<Rightarrow> subtitle_generated_event \<Rightarrow> voom_error + event_result option" where
  "ffmpeg_handle_subtitle_generated C m m' P ev =
     (let c = event_container C ev in
      if \<not> fp_available P \<or> c = Mkv then Inr None
      else case check_subtitle_event C ffmpeg_plugin_err ev of
        Inl e \<Rightarrow> Inl e
      | Inr _ \<Rightarrow> Inr (Some (mux_event_result ''ffmpeg-executor'' (mux_plan m m' c ev) ev)))"

definition mkv_handle_subtitle_generated ::
  "cmd_env \<Rightarrow> mint \<Rightarrow> mint \<Rightarrow> bool \<Rightarrow> subtitle_generated_event \<Rightarrow> voom_error + event_result option" where
  "mkv_handle_subtitle_generated C m m' available ev =
     (if \<not> available \<or> event_container C ev \<noteq> Mkv then Inr None
      else case check_subtitle_event C mkv_tool_error ev of
        Inl e \<Rightarrow> Inl e
      | Inr _ \<Rightarrow> Inr (Some (mux_event_result ''mkvtoolnix-executor'' (mux_plan m m' Mkv ev) ev)))"

section \<open>Initialisation\<close>

definition hardware_present :: "probe_env \<Rightarrow> hw_accel_backend \<Rightarrow> bool" where
  "hardware_present P b =
     (case b of Nvenc \<Rightarrow> has_nvidia_hardware P | Qsv \<Rightarrow> has_intel_gpu P
      | Vaapi \<Rightarrow> has_vaapi_devices P | Videotoolbox \<Rightarrow> True)"

definition target_device :: "probe_env \<Rightarrow> ffmpeg_config \<Rightarrow> hw_accel_config \<Rightarrow> gpu_device option" where
  "target_device P cfg hw =
     (case (hac_backend hw, fcfg_gpu_device cfg) of
        (Some b, Some d) \<Rightarrow> find (\<lambda>g. gd_id g = d) (enumerate_gpus P b)
      | _ \<Rightarrow> None)"

definition validated_encoders ::
  "probe_env \<Rightarrow> hw_accel_backend option \<Rightarrow> gpu_device option \<Rightarrow> string list \<Rightarrow> string list" where
  "validated_encoders P backend device encoders =
     (case (backend, device) of
        (Some b, Some d) \<Rightarrow> validate_hw_encoders_parallel encoders (validate_hw_encoder_on_device P b d)
      | _ \<Rightarrow> validate_hw_encoders_parallel encoders (validate_hw_encoder P))"

definition ffmpeg_init ::
  "probe_env \<Rightarrow> string + ffmpeg_config \<Rightarrow> ffmpeg_plugin \<Rightarrow> (event list \<times> ffmpeg_plugin) option" where
  "ffmpeg_init P parsed pl =
     Option.bind (probe_capabilities_with_tool P ''ffmpeg'') (\<lambda>caps.
       case fc_codecs caps of
         None \<Rightarrow> Some ([], pl)
       | Some codecs \<Rightarrow>
           let formats = fc_formats caps; hw_accels = fc_hw_accels caps;
               cfg = (case parsed of Inr c \<Rightarrow> c | Inl e \<Rightarrow> FfmpegExecutorConfig_default);
               hw = fst (resolve_hw_config (hardware_present P) (fcfg_hw_accel cfg) hw_accels);
               device = target_device P cfg hw;
               hw = (if device \<noteq> None then with_device (fcfg_gpu_device cfg) hw else hw);
               encoders = validated_encoders P (hac_backend hw) device (cdc_hw_encoders codecs)
           in Some ([EvExecutorCapabilities
                 \<lparr>ec_plugin_name = ''ffmpeg-executor'', ec_codecs = codecs, ec_formats = formats,
                  ec_hw_accels = hw_accels,
                  ec_parallel_limits = nvenc_parallel_limits (hac_backend hw) encoders
                    (fcfg_nvenc_max_parallel cfg)\<rparr>],
               pl\<lparr>fp_available := True, fp_probed_codecs := Some codecs,
                  fp_probed_formats := Some formats, fp_probed_hw_accels := Some hw_accels,
                  fp_hw_accel := with_hw_decode_enabled
                    (case fcfg_hw_decode cfg of Some b \<Rightarrow> b | None \<Rightarrow> True)
                    (with_hw_decoders (cdc_hw_decoders codecs) (with_validated_encoders encoders hw))\<rparr>))"

definition MKVTOOLNIX_FORMATS :: "string list" where
  "MKVTOOLNIX_FORMATS =
     [''ass'', ''avi'', ''flac'', ''flv'', ''matroska'', ''mov'', ''mp4'', ''mpeg'', ''ogm'', ''srt'',
      ''ssa'', ''wav'', ''webm'']"

definition mkv_init :: "probe_env \<Rightarrow> event list \<times> bool" where
  "mkv_init P =
     (if probe_status P ''mkvmerge'' [''--version''] []
      then ([EvExecutorCapabilities
              \<lparr>ec_plugin_name = ''mkvtoolnix-executor'',
               ec_codecs = \<lparr>cdc_decoders = [], cdc_encoders = [], cdc_hw_decoders = [], cdc_hw_encoders = []\<rparr>,
               ec_formats = MKVTOOLNIX_FORMATS, ec_hw_accels = [], ec_parallel_limits = []\<rparr>], True)
      else ([], False))"

end
