(* ===== verification/Mkvtoolnix_Props.thy ===== *)
theory Mkvtoolnix_Props
  imports Mkvtoolnix Executor_Props Validator Evaluator
begin

text \<open>
  What executions leave behind of their changes: everything they change of the files outside their
  private ones is recorded for the scan session. Merges and added subtitles of the MKVToolNix plugin
  keep this contract, the in-place edits of \<open>mkvpropedit\<close> do not.
\<close>

section \<open>Recorded changes\<close>

text \<open>
  Between two worlds every file outside the private ones that is different at the end is recorded as
  changed by VOOM in the session, and no record is lost. The relation composes, so that it holds of a
  sequence of steps if it holds of each.
\<close>

definition noted ::
  "cmd_env \<Rightarrow> uuid \<Rightarrow> (string \<Rightarrow> bool) \<Rightarrow> exec_world \<Rightarrow> exec_world \<Rightarrow> bool" where
  "noted C s priv w w' \<longleftrightarrow>
     row_keys (xw_mutations w) \<subseteq> row_keys (xw_mutations w')
     \<and> (\<forall>p. \<not> priv p \<and> xw_files w' p \<noteq> xw_files w p \<longrightarrow> is_voom_originated C s p w')"

lemma noted_refl [simp]: "noted C s priv w w"
  by (simp add: noted_def)

lemma noted_trans: "noted C s priv u v \<Longrightarrow> noted C s priv v w \<Longrightarrow> noted C s priv u w"
  unfolding noted_def is_voom_originated_key by (metis subset_iff)

lemma noted_quiet: "quiet priv w w' \<Longrightarrow> noted C s priv w w'"
  by (auto simp: noted_def quiet_def)

lemma noted_committed:
  "committed C True (Some s) priv source final w w' \<Longrightarrow> noted C s priv w w'"
  by (auto simp: noted_def committed_def quiet_def)

lemma noted_mono: "noted C s priv w w' \<Longrightarrow> (\<And>p. priv p \<Longrightarrow> priv' p) \<Longrightarrow> noted C s priv' w w'"
  by (auto simp: noted_def)

definition noted_act ::
  "cmd_env \<Rightarrow> uuid \<Rightarrow> (string \<Rightarrow> bool) \<Rightarrow> (exec_world \<Rightarrow> 'a \<times> exec_world) \<Rightarrow> bool" where
  "noted_act C s priv m \<longleftrightarrow> (\<forall>w. noted C s priv w (snd (m w)))"

lemma noted_actI: "(\<And>w r w'. m w = (r, w') \<Longrightarrow> noted C s priv w w') \<Longrightarrow> noted_act C s priv m"
  unfolding noted_act_def by (metis surjective_pairing)

lemma noted_actD: "noted_act C s priv m \<Longrightarrow> m w = (r, w') \<Longrightarrow> noted C s priv w w'"
  by (metis noted_act_def snd_conv)

lemma noted_act_return: "noted_act C s priv (\<lambda>w. (x, w))"
  by (simp add: noted_act_def)

lemma noted_act_quiet: "quiet_act priv m \<Longrightarrow> noted_act C s priv m"
  by (simp add: quiet_act_def noted_act_def noted_quiet)

lemma noted_act_mono:
  "noted_act C s priv m \<Longrightarrow> (\<And>p. priv p \<Longrightarrow> priv' p) \<Longrightarrow> noted_act C s priv' m"
  by (auto simp: noted_act_def intro: noted_mono)

lemma noted_act_bind:
  assumes "noted_act C s priv m" "\<And>x. noted_act C s priv (k x)"
  shows "noted_act C s priv (act_bind m k)"
proof (rule noted_actI)
  fix w r w'
  assume run: "act_bind m k w = (r, w')"
  obtain r1 w1 where m: "m w = (r1, w1)" by fastforce
  show "noted C s priv w w'"
  proof (cases r1)
    case (Inl e)
    with run m noted_actD [OF assms(1) m] show ?thesis by (simp add: act_bind_def)
  next
    case (Inr x)
    with run m have "k x w1 = (r, w')" by (simp add: act_bind_def)
    with noted_actD [OF assms(1) m] noted_actD [OF assms(2)] show ?thesis by (blast intro: noted_trans)
  qed
qed

lemma noted_act_append:
  "noted_act C s priv m \<Longrightarrow> noted_act C s priv n \<Longrightarrow> noted_act C s priv (act_append m n)"
  unfolding act_append_def by (intro noted_act_bind noted_act_return)

section \<open>The private files of an execution\<close>

text \<open>Those of \<open>ffmpeg\<close> with any of the identifiers that the execution draws.\<close>

definition run_private :: "exec_env \<Rightarrow> string \<Rightarrow> string \<Rightarrow> bool" where
  "run_private E original p = (\<exists>n. ffmpeg_private ((next_env ^^ n) E) original p)"

lemma next_env_simps [simp]:
  "xe_cmd (next_env E) = xe_cmd E" "xe_run (next_env E) = xe_run E" "xe_work_dir (next_env E) = xe_work_dir E"
  by (simp_all add: next_env_def)

lemma tools_next_env [simp]: "tools_write_output (next_env E) out = tools_write_output E out"
  by (simp add: tools_write_output_def)

lemma run_private_now: "ffmpeg_private E original p \<Longrightarrow> run_private E original p"
  unfolding run_private_def by (rule exI [of _ 0]) simp

lemma run_private_next: "run_private (next_env E) original p \<Longrightarrow> run_private E original p"
  unfolding run_private_def by (metis comp_apply funpow_Suc_right)

lemma noted_collect:
  assumes "\<And>F x. tools_write_output F out \<Longrightarrow> xe_cmd F = C \<Longrightarrow>
      noted_act C s (ffmpeg_private F path) (f F x)"
    and "tools_write_output E out" "xe_cmd E = C"
  shows "noted_act C s (run_private E path) (act_collect f E xs)"
  using assms(2,3)
proof (induction xs arbitrary: E)
  case (Cons x xs)
  have "noted_act C s (run_private E path) (f E x)"
    using noted_act_mono [OF assms(1) [OF Cons.prems]] run_private_now by blast
  moreover have "noted_act C s (run_private E path) (act_collect f (next_env E) xs)"
    using noted_act_mono [OF Cons.IH [of "next_env E"]] run_private_next Cons.prems by simp
  ultimately have "noted_act C s (run_private E path)
      (act_bind (f E x) (\<lambda>ys. act_bind (act_collect f (next_env E) xs) (\<lambda>zs w. (Inr (ys @ zs), w))))"
    by (intro noted_act_bind noted_act_return)
  then show ?case by (simp add: noted_act_def)
qed (simp add: noted_act_def)

section \<open>Merges by \<open>mkvmerge\<close>\<close>

definition merge_succeeded :: "voom_error + action_result list \<Rightarrow> bool" where
  "merge_succeeded r = (\<exists>rs. r = Inr rs \<and> (\<forall>a \<in> set rs. ar_success a))"

lemma quiet_mkvmerge:
  assumes "tools_write_output E tool_output" "private_text E path (args ! 1)" "args \<noteq> []"
  shows "quiet_act (ffmpeg_private E path) (run_tool E ''mkvmerge'' args env)"
  using assms by (intro quiet_run [OF assms(1)]) (auto simp: tool_output_def ffmpeg_private_def)

lemma private_text_temp:
  "private_text E path (ce_lossy (xe_cmd E) (temp_path_with_ext (xe_cmd E) (xe_temp_id E 0) path ext))"
  by (auto simp: private_text_def)

lemma rename_commit_spec:
  assumes "act_bind (record_mutation_for_pending_write (xe_cmd E) storage session source final)
      (\<lambda>_. act_io wrap (fs_rename temp final)) w = (r, w')" "priv temp"
  shows "case r of
      Inl e \<Rightarrow> quiet priv w w'
    | Inr _ \<Rightarrow> committed (xe_cmd E) storage session priv source final w w'"
proof -
  obtain r1 w1 where s1: "record_mutation_for_pending_write (xe_cmd E) storage session source final w = (r1, w1)"
    by fastforce
  note q1 = quiet_actD [OF quiet_record s1, of priv]
  show ?thesis
  proof (cases r1)
    case (Inl e)
    with assms s1 q1 show ?thesis by (auto simp: act_bind_def)
  next
    case (Inr u)
    obtain f w2 where f: "take_fault w1 = (f, w2)" by fastforce
    show ?thesis
    proof (cases "f = None \<and> xw_files w2 temp \<noteq> None")
      case True
      with assms s1 Inr f have "r = Inr ()"
          "w' = w2\<lparr>xw_files := (xw_files w2)(temp := None, final := xw_files w2 temp)\<rparr>"
        by (auto simp: act_bind_def act_io_def fs_rename_def)
      with f True q1 assms(2) record_pending_recorded s1 Inr show ?thesis
        by (auto simp: committed_def quiet_def is_voom_originated_key)
    next
      case False
      with assms s1 Inr f obtain e where "r = Inl e" "w' = w2"
        by (auto simp: act_bind_def act_io_def fs_rename_def split: option.splits)
      with q1 quiet_take_fault [OF f, of priv] show ?thesis by (auto intro: quiet_trans)
    qed
  qed
qed

lemma execute_merge_actions_safe:
  assumes tools: "tools_write_output E tool_output"
    and run: "execute_merge_actions E storage session path as w = (r, w')"
  shows "quiet (ffmpeg_private E path) w w' \<or>
    merge_succeeded r \<and> committed (xe_cmd E) storage session (ffmpeg_private E path) path
      (determine_final_path path as) w w'"
proof (cases "as = [] \<or> xw_files w path = None")
  case True
  with run show ?thesis by (auto simp: execute_merge_actions_def split: list.splits)
next
  case False
  let ?priv = "ffmpeg_private E path" and ?final = "determine_final_path path as"
  define temp where "temp = temp_path_with_ext (xe_cmd E) (xe_temp_id E 0) path ''mkv''"
  have priv: "?priv temp" by (simp add: temp_def)
  obtain r1 w1 where t: "run_tool E ''mkvmerge'' (build_merge_args (xe_cmd E) path temp as) [] w = (r1, w1)"
    by fastforce
  have q1: "quiet ?priv w w1"
    by (rule quiet_actD [OF quiet_mkvmerge [OF tools] t])
      (simp_all add: build_merge_args_def temp_def private_text_temp)
  have gone: "quiet ?priv w (act_ignore (fs_remove_file temp) u)" if "quiet ?priv w1 u" for u
    using q1 that quiet_ignore [OF quiet_remove [of ?priv, OF priv]] by (meson quiet_trans)
  show ?thesis
  proof (cases "\<exists>out. r1 = Inr out \<and> merge_ok out")
    case no: False
    with run t False have "w' = act_ignore (fs_remove_file temp) w1"
      by (auto simp: execute_merge_actions_def temp_def Let_def split: list.splits sum.splits)
    with gone [OF quiet_refl] show ?thesis by simp
  next
    case yes: True
    then obtain out where out: "r1 = Inr out" "merge_ok out" by blast
    obtain r2 w2 where c: "merge_commit E storage session path temp ?final w1 = (r2, w2)" by fastforce
    have spec: "case r2 of Inl e \<Rightarrow> quiet ?priv w1 w2
        | Inr _ \<Rightarrow> committed (xe_cmd E) storage session ?priv path ?final w1 w2"
      by (rule rename_commit_spec [where priv = ?priv, OF c [unfolded merge_commit_def]]) (rule priv)
    show ?thesis
    proof (cases r2)
      case (Inl e)
      with run t False out c have "w' = act_ignore (fs_remove_file temp) w2"
        by (auto simp: execute_merge_actions_def temp_def Let_def split: list.splits)
      with gone spec Inl show ?thesis by simp
    next
      case (Inr u)
      have res: "r = Inr (mkv_success_results (output_detail E
          (shell_quote_args ''mkvmerge'' (build_merge_args (xe_cmd E) path temp as)) out) as)"
        and w': "w' = (if ?final \<noteq> path \<and> xw_files w2 path \<noteq> None
            then act_ignore (fs_remove_file path) w2 else w2)"
        using run t False out c Inr
        by (auto simp: execute_merge_actions_def temp_def Let_def split: list.splits)
      have "merge_succeeded r"
        by (auto simp: res merge_succeeded_def mkv_success_results_def with_execution_detail_def
            ActionResult_success_def)
      moreover have "committed (xe_cmd E) storage session ?priv path ?final w1 w'"
        using spec Inr w' remove_keeps [of path w2]
        by (auto simp: committed_def quiet_def is_voom_originated_key)
      ultimately show ?thesis using committed_after [OF q1] by blast
    qed
  qed
qed

lemma noted_merge:
  assumes "tools_write_output E tool_output"
  shows "noted_act (xe_cmd E) s (ffmpeg_private E path) (execute_merge_actions E True (Some s) path as)"
proof (rule noted_actI)
  fix w r w'
  assume "execute_merge_actions E True (Some s) path as w = (r, w')"
  from execute_merge_actions_safe [OF assms this]
  show "noted (xe_cmd E) s (ffmpeg_private E path) w w'" by (blast intro: noted_quiet noted_committed)
qed

section \<open>Added subtitles\<close>

lemma mkv_mux_safe:
  assumes tools: "tools_write_output E tool_output"
    and run: "mkv_execute_mux_subtitle E storage plan a w = (r, w')"
  shows "quiet (ffmpeg_private E (mf_path (pl_file plan))) w w' \<or>
    committed (xe_cmd E) storage (pl_scan_session plan) (ffmpeg_private E (mf_path (pl_file plan)))
      (mf_path (pl_file plan)) (mf_path (pl_file plan)) w w'"
proof (cases "\<exists>p. pa_parameters a = ApMuxSubtitle p \<and> is_valid_language (msp_language p)")
  case False
  with run have "w' = w"
    by (auto simp: mkv_execute_mux_subtitle_def split: action_params.splits if_splits)
  then show ?thesis by simp
next
  case True
  then obtain p where p: "pa_parameters a = ApMuxSubtitle p" "is_valid_language (msp_language p)" by blast
  define path where "path = mf_path (pl_file plan)"
  define temp where "temp = temp_path_with_ext (xe_cmd E) (xe_temp_id E 0) path ''mkv''"
  let ?priv = "ffmpeg_private E path" and ?args = "mux_args (xe_cmd E) path temp p"
  have priv: "?priv temp" by (simp add: temp_def)
  obtain r1 w1 where t: "run_tool E ''mkvmerge'' ?args [] w = (r1, w1)" by fastforce
  have q1: "quiet ?priv w w1"
    by (rule quiet_actD [OF quiet_mkvmerge [OF tools] t])
      (simp_all add: mux_args_def temp_def private_text_temp)
  have gone: "quiet ?priv w (act_ignore (fs_remove_file temp) u)" if "quiet ?priv w1 u" for u
    using q1 that quiet_ignore [OF quiet_remove [of ?priv, OF priv]] by (meson quiet_trans)
  let ?commit = "act_bind (record_mutation_for_pending_write (xe_cmd E) storage (pl_scan_session plan) path path)
    (\<lambda>_. act_io (\<lambda>e. mkv_tool_error (''failed to rename temp file: '' @ e)) (fs_rename temp path))"
  have valid: "(\<not> is_valid_language (msp_language p)) = False" using p(2) by simp
  note run' = run [unfolded mkv_execute_mux_subtitle_def p(1) action_params.case Let_def
      path_def [symmetric] temp_def [symmetric] valid if_False t prod.case]
  show ?thesis unfolding path_def [symmetric]
  proof (cases "\<exists>out. r1 = Inr out \<and> (po_success out \<or> po_code out = Some 1)")
    case False
    with run' have "w' = act_ignore (fs_remove_file temp) w1" by (cases r1) auto
    with gone [OF quiet_refl]
    show "quiet ?priv w w' \<or> committed (xe_cmd E) storage (pl_scan_session plan) ?priv path path w w'" by simp
  next
    case True
    then obtain out where out: "r1 = Inr out" "po_success out \<or> po_code out = Some 1" by blast
    obtain r2 w2 where c: "?commit w1 = (r2, w2)" by fastforce
    have spec: "case r2 of Inl e \<Rightarrow> quiet ?priv w1 w2
        | Inr _ \<Rightarrow> committed (xe_cmd E) storage (pl_scan_session plan) ?priv path path w1 w2"
      by (rule rename_commit_spec [where priv = ?priv, OF c]) (rule priv)
    show "quiet ?priv w w' \<or> committed (xe_cmd E) storage (pl_scan_session plan) ?priv path path w w'"
    proof (cases r2)
      case (Inl e)
      with run' out c have "w' = act_ignore (fs_remove_file temp) w2" by auto
      with gone spec Inl show ?thesis by simp
    next
      case (Inr u)
      with run' out c have "w' = w2" by auto
      with spec Inr committed_after [OF q1] show ?thesis by simp
    qed
  qed
qed

lemma noted_mkv_mux:
  assumes "tools_write_output E tool_output" "pl_scan_session plan = Some s" "xe_cmd E = C"
  shows "noted_act C s (ffmpeg_private E (mf_path (pl_file plan))) (mkv_execute_mux_subtitle E True plan a)"
proof (rule noted_actI)
  fix w r w'
  assume "mkv_execute_mux_subtitle E True plan a w = (r, w')"
  from mkv_mux_safe [OF assms(1) this]
  show "noted C s (ffmpeg_private E (mf_path (pl_file plan))) w w'"
    unfolding assms(2,3) by (blast intro: noted_quiet noted_committed)
qed

section \<open>In-place edits and whole plans\<close>

text \<open>The file that a plan edits in place, if it does: \<open>mkvpropedit\<close> is run on the path of the plan, or
  on the path that a conversion gives it.\<close>

definition edited_path :: "plan \<Rightarrow> string" where
  "edited_path plan =
     (let path = mf_path (pl_file plan) in
      if mf_container (pl_file plan) = Mkv \<or> snd (classify_actions (pl_actions plan)) = []
      then path else path_with_extension path ''mkv'')"

definition edits_in_place :: "cmd_env \<Rightarrow> plan \<Rightarrow> string \<Rightarrow> bool" where
  "edits_in_place C plan p \<longleftrightarrow>
     list_ex (\<lambda>a. is_metadata_op (pa_operation a)) (pl_actions plan)
     \<and> \<not> list_ex (\<lambda>a. pa_operation a = MuxSubtitle) (pl_actions plan)
     \<and> ce_lossy C p = ce_lossy C (edited_path plan)"

lemma quiet_propedit:
  assumes "tools_write_output E tool_output"
  shows "quiet_act (\<lambda>p. ce_lossy (xe_cmd E) p = ce_lossy (xe_cmd E) path) (execute_propedit_actions E path as)"
proof (rule quiet_actI)
  fix w r w'
  assume run: "execute_propedit_actions E path as w = (r, w')"
  show "quiet (\<lambda>p. ce_lossy (xe_cmd E) p = ce_lossy (xe_cmd E) path) w w'"
  proof (cases "build_propedit_args (xe_cmd E) path as")
    case (Inr args)
    then have "hd args = ce_lossy (xe_cmd E) path" "args \<noteq> []"
      by (auto simp: build_propedit_args_def split: sum.splits)
    then have "quiet_act (\<lambda>p. ce_lossy (xe_cmd E) p = ce_lossy (xe_cmd E) path)
        (run_tool E ''mkvpropedit'' args [])"
      by (intro quiet_run [OF assms]) (auto simp: tool_output_def)
    then have "quiet_act (\<lambda>p. ce_lossy (xe_cmd E) p = ce_lossy (xe_cmd E) path)
        (act_bind (run_tool E ''mkvpropedit'' args []) (\<lambda>out w.
           if po_success out
           then (Inr (map (\<lambda>a. ActionResult_success (pa_operation a) (pa_description a)) as), w)
           else (Inl (ToolExecution ''mkvpropedit''
                  (''mkvpropedit exited with status '' @ xe_status E (po_code out) @ '': ''
                   @ ce_lossy (xe_cmd E) (po_stderr out))), w)))"
      by (rule quiet_bind) (simp add: quiet_act_def)
    from quiet_actD [OF this] run Inr show ?thesis
      by (cases "as = []") (simp_all add: execute_propedit_actions_def)
  qed (use run in \<open>auto simp: execute_propedit_actions_def split: if_splits\<close>)
qed

lemma noted_mkv_plan:
  assumes tools: "tools_write_output E tool_output" and session: "pl_scan_session plan = Some s"
    and C: "xe_cmd E = C"
  shows "noted_act C s (\<lambda>p. run_private E (mf_path (pl_file plan)) p \<or> edits_in_place C plan p)
    (mkv_execute_plan E True plan)"
proof (rule noted_actI)
  fix w r w'
  let ?path = "mf_path (pl_file plan)" and ?as = "pl_actions plan"
  let ?priv = "\<lambda>p. run_private E ?path p \<or> edits_in_place C plan p"
  obtain props merges where cl: "classify_actions ?as = (props, merges)" by fastforce
  assume run: "mkv_execute_plan E True plan w = (r, w')"
  note run' = run [unfolded mkv_execute_plan_def Let_def cl prod.case session]
  show "noted C s ?priv w w'"
  proof (cases "xw_files w ?path = None")
    case True
    with run' show ?thesis by simp
  next
    case exists: False
    have merge: "noted_act C s ?priv (execute_merge_actions E True (Some s) ?path merges)"
      by (rule noted_act_mono [OF noted_merge [OF tools, of s ?path merges, unfolded C]])
        (simp add: run_private_now)
    show ?thesis
    proof (cases "list_ex (\<lambda>a. pa_operation a = MuxSubtitle) ?as")
      case True
      then have "filter (\<lambda>a. pa_operation a = MuxSubtitle) ?as \<noteq> []" by (auto simp: filter_empty_conv list_ex_iff)
      with run' exists have "act_collect (\<lambda>E. mkv_execute_mux_subtitle E True plan) E
          (filter (\<lambda>a. pa_operation a = MuxSubtitle) ?as) w = (r, w')" by simp
      moreover have "noted_act C s (run_private E ?path) (act_collect (\<lambda>E. mkv_execute_mux_subtitle E True plan) E
          (filter (\<lambda>a. pa_operation a = MuxSubtitle) ?as))"
        by (rule noted_collect [OF _ tools C]) (rule noted_mkv_mux [OF _ session])
      ultimately show ?thesis by (blast intro: noted_mono noted_actD)
    next
      case no: False
      then have none: "filter (\<lambda>a. pa_operation a = MuxSubtitle) ?as = []" by (auto simp: filter_empty_conv list_ex_iff)
      have edit: "noted_act C s ?priv (execute_propedit_actions E (edited_path plan) props)"
      proof (cases "props = []")
        case True
        then show ?thesis by (simp add: execute_propedit_actions_def noted_act_def)
      next
        case False
        then have "list_ex (\<lambda>a. is_metadata_op (pa_operation a)) ?as"
          using cl by (auto simp: classify_actions_def filter_empty_conv list_ex_iff)
        then show ?thesis
          using noted_act_mono [OF noted_act_quiet [OF quiet_propedit [OF tools]]] no C
          by (fastforce simp: edits_in_place_def)
      qed
      from run' exists none have "act_append (execute_propedit_actions E (edited_path plan) props)
            (execute_merge_actions E True (Some s) ?path merges) w = (r, w')
          \<or> act_append (execute_merge_actions E True (Some s) ?path merges)
            (execute_propedit_actions E (edited_path plan) props) w = (r, w')"
        by (simp add: edited_path_def cl split: if_splits)
      then show ?thesis using edit merge by (blast intro: noted_act_append noted_actD)
    qed
  qed
qed

definition remove_plan :: plan where
  "remove_plan =
     sample_exec_plan\<lparr>pl_actions := [\<lparr>pa_operation = RemoveTrack, pa_track_index = Some 2,
       pa_parameters = ApRemoveTrack ''language'' SubtitleMain, pa_description = ''Remove''\<rparr>]\<rparr>"

section \<open>Actions that reach an executor without effect\<close>

text \<open>An item of an \<open>order\<close> statement names a class of tracks and is never a number.\<close>

lemma order_item_no_index: "item \<in> set valid_order_items \<Longrightarrow> parse_unsigned bound item = None"
  unfolding valid_order_items_def
  by (auto simp: parse_unsigned_def is_ascii_digit_def Let_def)

lemma validated_order_items:
  "fst (validate_operation V line col names (NOrder items)) = [] \<longleftrightarrow> set items \<subseteq> set valid_order_items"
  by (auto simp: validate_operation_def rep_errors_def check_that_def split: if_splits)

lemma build_merge_args_snoc:
  assumes "pa_operation a = ReorderTracks" "reorder_args a = []"
  shows "build_merge_args C input output (as @ [a]) = build_merge_args C input output as"
  using assms by (simp add: build_merge_args_def removed_index_def map_filter_def)

text \<open>
  The action that the evaluator emits for an \<open>order\<close> statement the validator accepts does not change
  the arguments of \<open>mkvmerge\<close>: the statement names classes of tracks where \<open>mkvmerge\<close> is given only the
  items that are numbers. No statement of a valid policy changes the order of the tracks.
\<close>
theorem validated_order_not_applied:
  assumes "fst (validate_operation V line col names (NOrder items)) = []"
  shows "snd (emit_reorder items p) = None
    \<and> pa_operation (last (pl_actions (fst (emit_reorder items p)))) = ReorderTracks
    \<and> build_merge_args C input output (pl_actions (fst (emit_reorder items p)))
      = build_merge_args C input output (pl_actions p)"
proof -
  from assms have "set items \<subseteq> set valid_order_items" by (simp add: validated_order_items)
  then have none: "List.map_filter (parse_unsigned U64_MAX) items = []"
    using order_item_no_index by (auto simp: map_filter_def filter_empty_conv)
  obtain a where a: "file_op ReorderTracks (ApReorderTracks items)
      (''Reorder tracks: '' @ str_join '', '' items) = Inr a"
    "pa_operation a = ReorderTracks" "pa_parameters a = ApReorderTracks items"
    by (auto simp: file_op_def try_file_op_def PlannedAction_new_checked_eq)
  with none have "reorder_args a = []" by (simp add: reorder_args_def)
  with a build_merge_args_snoc show ?thesis by (simp add: emit_reorder_def emit_push_def)
qed

theorem validated_order_not_applied_witness:
  "''--track-order'' \<notin> set (build_merge_args sample_cmd_env ''/m/a.mkv'' ''/m/t.mkv''
     (pl_actions (fst (emit_reorder [''video'', ''audio_main'', ''subtitle''] remove_plan))))"
proof -
  have "fst (validate_operation undefined 1 1 {} (NOrder [''video'', ''audio_main'', ''subtitle''])) = []"
    by (simp add: validated_order_items valid_order_items_def)
  moreover have "''--track-order'' \<notin> set (build_merge_args sample_cmd_env ''/m/a.mkv'' ''/m/t.mkv''
      (pl_actions remove_plan))"
    by code_simp
  ultimately show ?thesis
    using validated_order_not_applied [of undefined 1 1 "{}" "[''video'', ''audio_main'', ''subtitle'']"
        remove_plan sample_cmd_env "''/m/a.mkv''" "''/m/t.mkv''"] by argo
qed

text \<open>Actions on tracks and containers that the command of \<open>ffmpeg\<close> does not contain.\<close>

definition without_command :: "operation_type \<Rightarrow> bool" where
  "without_command op = (op \<in> {RemoveTrack, ReorderTracks, ConvertContainer, MuxSubtitle})"

lemma without_command_steps:
  assumes "without_command (pa_operation a)"
  shows "apply_ffmpeg_action E f hw a cmd = Inr cmd" "metadata_action E a m = Inr m"
    "transcode_decode_args E f hw a = None" "pa_operation a \<noteq> TranscodeVideo"
  using assms
  by (auto simp: without_command_def apply_ffmpeg_action_def metadata_action_def transcode_decode_args_def)

lemma update_stream_same:
  "without_command (pa_operation a) \<Longrightarrow> update_stream E a i ms = Inr ms"
  by (induction ms) (simp_all add: without_command_steps)

lemma metadata_without_command:
  "apply_track_metadata_actions E (filter (\<lambda>a. \<not> without_command (pa_operation a)) as) ms
     = apply_track_metadata_actions E as ms"
  by (induction as arbitrary: ms) (simp_all add: update_stream_same split: option.splits sum.splits)

lemma preserved_without_command:
  "apply_preserved_stream_metadata E f x (filter (\<lambda>a. \<not> without_command (pa_operation a)) as) cmd
     = apply_preserved_stream_metadata E f x as cmd"
  by (simp add: apply_preserved_stream_metadata_def Let_def metadata_without_command)

lemma actions_without_command:
  "apply_ffmpeg_actions E f hw (filter (\<lambda>a. \<not> without_command (pa_operation a)) as) cmd
     = apply_ffmpeg_actions E f hw as cmd"
  by (induction as arbitrary: cmd) (simp_all add: without_command_steps split: sum.splits)

lemma decode_without_command:
  "hw_decode_args E f (filter (\<lambda>a. \<not> without_command (pa_operation a)) as) hw = hw_decode_args E f as hw"
proof -
  have "find_map (transcode_decode_args E f hw) (filter (\<lambda>a. \<not> without_command (pa_operation a)) as)
      = find_map (transcode_decode_args E f hw) as"
    by (induction as) (simp_all add: without_command_steps split: option.splits)
  then show ?thesis by (simp add: hw_decode_args_def)
qed

text \<open>
  The command that \<open>ffmpeg\<close> runs for a plan is the command for the plan without its removals of
  tracks, reorderings, conversions and subtitles to add, while a successful run reports every
  action of the plan as done, the removals too.
\<close>
theorem ffmpeg_ignores_removals:
  "build_ffmpeg_command E f as path hw
     = build_ffmpeg_command E f (filter (\<lambda>a. \<not> without_command (pa_operation a)) as) path hw
   \<and> map ar_operation (success_results X command as) = map pa_operation as
   \<and> list_all ar_success (success_results X command as)"
proof -
  have "list_ex (\<lambda>a. pa_operation a = TranscodeVideo) (filter (\<lambda>a. \<not> without_command (pa_operation a)) as)
      = list_ex (\<lambda>a. pa_operation a = TranscodeVideo) as"
    by (auto simp: list_ex_iff dest: without_command_steps(4))
  then have "build_ffmpeg_command E f as path hw
     = build_ffmpeg_command E f (filter (\<lambda>a. \<not> without_command (pa_operation a)) as) path hw"
    by (simp add: build_ffmpeg_command_def Let_def preserved_without_command actions_without_command
        decode_without_command cong: sum.case_cong)
  then show ?thesis
    by (simp add: success_results_def with_execution_detail_def ActionResult_success_def list_all_iff)
qed

section \<open>Executions outside the contract\<close>

text \<open>An edit in place by \<open>mkvpropedit\<close> changes the file of the plan and records nothing.\<close>

definition edit_plan :: plan where
  "edit_plan =
     sample_exec_plan\<lparr>pl_actions := [\<lparr>pa_operation = SetDefault, pa_track_index = Some 1,
       pa_parameters = ApEmpty, pa_description = ''Set default''\<rparr>]\<rparr>"

definition sample_edit :: "(voom_error + action_result list) \<times> exec_world" where
  "sample_edit = mkv_execute_plan sample_exec_env True edit_plan sample_world"

lemma edit_not_recorded:
  "xw_files sample_world ''/m/a.mkv'' = Some ''old''"
  "xw_files (snd sample_edit) ''/m/a.mkv'' = Some ''new''"
  "merge_succeeded (fst sample_edit)"
  "\<not> is_voom_originated sample_cmd_env 5 ''/m/a.mkv'' (snd sample_edit)"
proof -
  show "merge_succeeded (fst sample_edit)"
  proof -
    have "fst sample_edit = Inr [ActionResult_success SetDefault ''Set default'']" by code_simp
    then show ?thesis by (simp add: merge_succeeded_def ActionResult_success_def)
  qed
qed code_simp+

text \<open>
  When the merge of a conversion fails, its failure is only a result, and the edit in place that
  follows goes to the path with the extension \<open>mkv\<close>, which is another file.
\<close>

definition merge_fails ::
  "string \<Rightarrow> string list \<Rightarrow> (string \<times> string) list \<Rightarrow> file_map \<Rightarrow> (voom_error + process_output) \<times> file_map" where
  "merge_fails tool args env files =
     (if tool = ''mkvmerge'' then (Inr \<lparr>po_code = Some 2, po_stdout = [], po_stderr = []\<rparr>, files)
      else copying_run tool args env files)"

definition convert_and_edit :: plan where
  "convert_and_edit =
     sample_exec_plan\<lparr>pl_file := sample_file\<lparr>mf_path := ''/m/a.avi'', mf_container := Avi\<rparr>,
       pl_actions := [\<lparr>pa_operation = ConvertContainer, pa_track_index = None,
           pa_parameters = ApContainer Mkv, pa_description = ''Convert''\<rparr>,
         \<lparr>pa_operation = SetDefault, pa_track_index = Some 1, pa_parameters = ApEmpty,
           pa_description = ''Set default''\<rparr>]\<rparr>"

definition with_avi :: exec_world where
  "with_avi = sample_world\<lparr>xw_files := (xw_files sample_world)(''/m/a.avi'' := Some ''film'')\<rparr>"

definition sample_convert_and_edit :: "(voom_error + action_result list) \<times> exec_world" where
  "sample_convert_and_edit =
     mkv_execute_plan (sample_exec_env\<lparr>xe_run := merge_fails\<rparr>) True convert_and_edit with_avi"

lemma failed_merge_edits_neighbour:
  "xw_files with_avi ''/m/a.mkv'' = Some ''old''"
  "xw_files (snd sample_convert_and_edit) ''/m/a.mkv'' = Some ''new''"
  "xw_files (snd sample_convert_and_edit) ''/m/a.avi'' = Some ''film''"
  "map_sum id (map ar_success) (fst sample_convert_and_edit) = Inr [False, True]"
  by code_simp+

text \<open>A plan whose first action has failed is still reported as claimed and done, without an error.\<close>

lemma failed_action_reported_done:
  "case fst (mkv_handle_plan_created (sample_exec_env\<lparr>xe_run := merge_fails\<rparr>) (\<lambda>_. JNull) True True
      convert_and_edit with_avi) of Some r \<Rightarrow> er_claimed r \<and> er_execution_error r = None | None \<Rightarrow> False"
  by code_simp

end
