(* ===== verification/Ffmpeg_Plugin_Props.thy ===== *)
theory Ffmpeg_Plugin_Props
  imports Ffmpeg_Plugin Mkvtoolnix_Props
begin

text \<open>
  How the two executors share the work: a generated subtitle goes to exactly one of them, and the plan
  made for it is taken by that one only; a plan that the ffmpeg executor takes needs nothing it has not
  announced.
\<close>

section \<open>Generated subtitles\<close>

lemma mux_plan_fields:
  "pl_file (mux_plan m m' c ev) = (MediaFile_new m (sge_path ev))\<lparr>mf_container := c\<rparr>"
  "map pa_operation (pl_actions (mux_plan m m' c ev)) = [MuxSubtitle]"
  "pl_scan_session (mux_plan m m' c ev) = sge_scan_session ev"
  "\<not> Plan_is_empty (mux_plan m m' c ev)" "\<not> Plan_is_skipped (mux_plan m m' c ev)"
  by (auto simp: mux_plan_def Let_def Plan_new_def with_scan_session_def Plan_is_empty_def
      Plan_is_skipped_def split: option.splits)

lemma mux_plan_taken:
  "ffmpeg_can_handle P (mux_plan m m' c ev) \<longleftrightarrow> fp_available P \<and> c \<noteq> Mkv"
  "mkv_can_handle available (mux_plan m m' c ev) \<longleftrightarrow> available \<and> c = Mkv"
proof -
  show "ffmpeg_can_handle P (mux_plan m m' c ev) \<longleftrightarrow> fp_available P \<and> c \<noteq> Mkv"
    by (simp add: ffmpeg_can_handle_def Let_def mux_plan_fields is_encode_op_def)
  obtain a where a: "pl_actions (mux_plan m m' c ev) = [a]" "pa_operation a = MuxSubtitle"
    using mux_plan_fields(2) [of m m' c ev] by (auto simp: map_eq_Cons_conv)
  then show "mkv_can_handle available (mux_plan m m' c ev) \<longleftrightarrow> available \<and> c = Mkv"
    by (simp add: mkv_can_handle_def mux_plan_fields is_supported_op_def)
qed

text \<open>
  With both executors available, a generated subtitle whose language and title are acceptable is
  claimed by exactly one of them, by the kind of its container; it announces the execution before it
  hands out the plan, the plan carries the path and the scan session of the event, and the same
  executor takes the plan while the other does not.
\<close>
theorem subtitle_routed_once:
  assumes "fp_available P" "\<forall>err. check_subtitle_event C err ev = Inr ()"
  shows "\<exists>plan mkv. mkv = (event_container C ev = Mkv)
    \<and> ffmpeg_handle_subtitle_generated C m m' P ev
        = Inr (if mkv then None else Some (mux_event_result ''ffmpeg-executor'' plan ev))
    \<and> mkv_handle_subtitle_generated C m m' True ev
        = Inr (if mkv then Some (mux_event_result ''mkvtoolnix-executor'' plan ev) else None)
    \<and> ffmpeg_can_handle P plan = (\<not> mkv) \<and> mkv_can_handle True plan = mkv
    \<and> mf_path (pl_file plan) = sge_path ev \<and> pl_scan_session plan = sge_scan_session ev
    \<and> map pa_operation (pl_actions plan) = [MuxSubtitle]"
  using assms
  by (intro exI [of _ "mux_plan m m' (event_container C ev) ev"] exI [of _ "event_container C ev = Mkv"])
    (auto simp: ffmpeg_handle_subtitle_generated_def mkv_handle_subtitle_generated_def Let_def
      mux_plan_taken mux_plan_fields MediaFile_new_def)

definition sample_subtitle_event :: subtitle_generated_event where
  "sample_subtitle_event =
     \<lparr>sge_path = ''/m/b.mp4'', sge_subtitle_path = ''/m/b.srt'', sge_language = ''en'',
      sge_forced = True, sge_title = None, sge_scan_session = Some 5\<rparr>"

definition sample_ffmpeg_plugin :: ffmpeg_plugin where
  "sample_ffmpeg_plugin = FfmpegExecutorPlugin_new\<lparr>fp_available := True, fp_store := True\<rparr>"

theorem subtitle_routed_once_witness:
  "\<exists>plan. ffmpeg_handle_subtitle_generated sample_cmd_env sample_mint sample_mint sample_ffmpeg_plugin
        sample_subtitle_event
      = Inr (Some (mux_event_result ''ffmpeg-executor'' plan sample_subtitle_event))
    \<and> ffmpeg_can_handle sample_ffmpeg_plugin plan \<and> pl_scan_session plan = Some 5"
proof -
  have ok: "check_subtitle_event sample_cmd_env err sample_subtitle_event = Inr ()" for err
  proof -
    have "validate_metadata_value sample_cmd_env ''en'' = Inr ''en''" by code_simp
    then show ?thesis by (simp add: check_subtitle_event_def sample_subtitle_event_def)
  qed
  have "event_container sample_cmd_env sample_subtitle_event = Mp4" by code_simp
  moreover have "fp_available sample_ffmpeg_plugin" by (simp add: sample_ffmpeg_plugin_def)
  ultimately show ?thesis
    using subtitle_routed_once [of sample_ffmpeg_plugin sample_cmd_env sample_subtitle_event
        sample_mint sample_mint] ok
    by (auto simp: sample_subtitle_event_def)
qed

section \<open>Announced capabilities\<close>






definition sample_probe :: probe_env where
  "sample_probe =
     \<lparr>prb_run = (\<lambda>tool args env.
        if tool \<noteq> ''ffmpeg'' then Inl (ToolNotFound tool)
        else if hd args = ''-codecs''
        then Inr \<lparr>po_code = Some 0,
               po_stdout = '' ------'' @ [CHR 0x0A] @ '' DEV.L. hevc   H.265 / HEVC'' @ [CHR 0x0A]
                 @ '' D.A..S dts    DTS'' @ [CHR 0x0A] @ '' D.A.L. aac    AAC'' @ [CHR 0x0A]
                 @ '' DEA.L. opus   Opus'',
               po_stderr = []\<rparr>
        else if hd args = ''-formats''
        then Inr \<lparr>po_code = Some 0,
               po_stdout = '' ------'' @ [CHR 0x0A] @ '' DE matroska,webm  Matroska'' @ [CHR 0x0A]
                 @ '' DE mp4   MP4'',
               po_stderr = []\<rparr>
        else Inr \<lparr>po_code = Some 1, po_stdout = [], po_stderr = []\<rparr>),
      prb_lossy = (\<lambda>s. s), prb_dri = None, prb_cards = None\<rparr>"

definition sample_announcement :: executor_capabilities where
  "sample_announcement =
     \<lparr>ec_plugin_name = ''ffmpeg-executor'',
      ec_codecs = \<lparr>cdc_decoders = [''hevc'', ''dts'', ''aac'', ''opus''], cdc_encoders = [''hevc'', ''opus''],
        cdc_hw_decoders = [], cdc_hw_encoders = []\<rparr>,
      ec_formats = [''matroska'', ''mp4'', ''webm''], ec_hw_accels = [], ec_parallel_limits = []\<rparr>"

definition initialised_plugin :: ffmpeg_plugin where
  "initialised_plugin =
     (case ffmpeg_init sample_probe (Inr FfmpegExecutorConfig_default) FfmpegExecutorPlugin_new of
        Some (evs, pl) \<Rightarrow> pl | None \<Rightarrow> FfmpegExecutorPlugin_new)"



text \<open>
  The check misses a track where a stream before it has been left out of the list: here the stream 1 is
  not a track, the track of stream 2 has a codec that no announced decoder reads, and the plan that
  transcodes it is taken.
\<close>

definition gap_plan :: plan where
  "gap_plan =
     (Plan_new sample_mint
        (sample_file\<lparr>mf_tracks := [mf_tracks sample_file ! 0,
           (mf_tracks sample_file ! 1)\<lparr>tr_index := 2, tr_codec := ''truehd''\<rparr>]\<rparr>) ''p'' ''audio'')
       \<lparr>pl_actions := [track_action TranscodeAudio 2 (ApTranscode ''opus'' TranscodeSettings_default)]\<rparr>"

lemma gap_plan_taken:
  "ffmpeg_can_handle initialised_plugin gap_plan
   \<and> tr_index (mf_tracks (pl_file gap_plan) ! 1) = 2 \<and> tr_codec (mf_tracks (pl_file gap_plan) ! 1) = ''truehd''
   \<and> ''truehd'' \<notin> set (cdc_decoders (ec_codecs sample_announcement))"
  by code_simp

end
