(* ===== verification/Session_Props.thy ===== *)
theory Session_Props
  imports Ffmpeg_Plugin_Props
begin

text \<open>
  A scan session as the executor plugins see it: a sequence of plans, each handled by the MKVToolNix
  plugin or by the ffmpeg plugin, in any order and with any failures. The contract of an executor, that
  it records what it changes, is a locale; it is interpreted on the two handlers together.
\<close>

section \<open>The contract of an executor\<close>

fun run_all :: "('j \<Rightarrow> 'w \<Rightarrow> 'r \<times> 'w) \<Rightarrow> 'j list \<Rightarrow> 'w \<Rightarrow> 'r list \<times> 'w" where
  "run_all exec [] w = ([], w)"
| "run_all exec (j # js) w =
     (case exec j w of (r, w) \<Rightarrow> (case run_all exec js w of (rs, w) \<Rightarrow> (r # rs, w)))"

locale recording_executor =
  fixes exec :: "'j \<Rightarrow> 'w \<Rightarrow> 'r \<times> 'w"
    and world :: "'w \<Rightarrow> exec_world"
    and belongs :: "uuid \<Rightarrow> 'j \<Rightarrow> bool"
    and own :: "'j \<Rightarrow> string \<Rightarrow> bool"
    and C :: cmd_env
  assumes exec_noted: "belongs s j \<Longrightarrow> exec j w = (r, w') \<Longrightarrow> noted C s (own j) (world w) (world w')"
begin

lemma run_noted:
  assumes "run_all exec js w = (rs, w')" "\<forall>j \<in> set js. belongs s j"
  shows "noted C s (\<lambda>p. \<exists>j \<in> set js. own j p) (world w) (world w')"
  using assms
proof (induction js arbitrary: w rs)
  case (Cons j js)
  obtain r u where j: "exec j w = (r, u)" by fastforce
  with Cons.prems obtain ss where js: "run_all exec js u = (ss, w')" by (auto split: prod.splits)
  have "noted C s (\<lambda>p. \<exists>k \<in> set (j # js). own k p) (world w) (world u)"
    by (rule noted_mono [OF exec_noted [OF _ j]]) (use Cons.prems(2) in auto)
  moreover have "noted C s (\<lambda>p. \<exists>k \<in> set (j # js). own k p) (world u) (world w')"
    by (rule noted_mono [OF Cons.IH [OF js]]) (use Cons.prems(2) in auto)
  ultimately show ?case by (rule noted_trans)
qed simp

lemma change_recorded:
  assumes "run_all exec js w = (rs, w')" "\<forall>j \<in> set js. belongs s j" "\<forall>j \<in> set js. \<not> own j p"
    "xw_files (world w') p \<noteq> xw_files (world w) p"
  shows "is_voom_originated C s p (world w')"
  using run_noted [OF assms(1,2)] assms(3,4) by (auto simp: noted_def)

end

section \<open>Subtitles added by \<open>ffmpeg\<close>\<close>

lemma bind_or_remove:
  "act_bind (act_or_remove m t) (\<lambda>_. act_or_remove n t) = act_or_remove (act_bind m (\<lambda>_. n)) t"
  by (rule ext) (auto simp: act_bind_def act_or_remove_def split: prod.splits sum.splits)

lemma mux_commit_spec:
  assumes "mux_commit E storage session path temp w = (r, w')" "priv temp"
  shows "case r of
      Inl e \<Rightarrow> quiet priv w w'
    | Inr _ \<Rightarrow> committed (xe_cmd E) storage session priv path path w w'"
proof -
  let ?m = "act_bind (record_mutation_for_pending_write (xe_cmd E) storage session path path)
    (\<lambda>_. act_io (\<lambda>e. ffmpeg_plugin_err (''failed to rename temp file: '' @ e)) (fs_rename temp path))"
  have run: "act_or_remove ?m temp w = (r, w')"
    using assms(1) by (simp add: mux_commit_def bind_or_remove)
  obtain r1 w1 where m: "?m w = (r1, w1)" by fastforce
  have "case r1 of Inl e \<Rightarrow> quiet priv w w1
      | Inr _ \<Rightarrow> committed (xe_cmd E) storage session priv path path w w1"
    by (rule rename_commit_spec [where priv = priv, OF m]) (rule assms(2))
  then show ?thesis
    using run m quiet_ignore [OF quiet_remove [of priv, OF assms(2)], of w1]
    by (auto simp: act_or_remove_def split: sum.splits intro: quiet_trans)
qed

lemma ffmpeg_mux_safe:
  assumes tools: "tools_write_output E tool_output"
    and run: "ffmpeg_execute_mux_subtitle E storage plan a w = (r, w')"
  shows "quiet (ffmpeg_private E (mf_path (pl_file plan))) w w' \<or>
    committed (xe_cmd E) storage (pl_scan_session plan) (ffmpeg_private E (mf_path (pl_file plan)))
      (mf_path (pl_file plan)) (mf_path (pl_file plan)) w w'"
proof (cases "\<exists>p. pa_parameters a = ApMuxSubtitle p \<and> is_valid_language (msp_language p)")
  case False
  with run have "w' = w"
    by (auto simp: ffmpeg_execute_mux_subtitle_def split: action_params.splits if_splits)
  then show ?thesis by simp
next
  case True
  then obtain p where p: "pa_parameters a = ApMuxSubtitle p" "is_valid_language (msp_language p)" by blast
  have valid: "(\<not> is_valid_language (msp_language p)) = False" using p(2) by simp
  define path where "path = mf_path (pl_file plan)"
  define temp where "temp = temp_path (xe_cmd E) (xe_temp_id E 0) path"
  let ?priv = "ffmpeg_private E path" and ?args = "ffmpeg_mux_args (xe_cmd E) path temp p"
  have temp_text: "private_text E path (ce_lossy (xe_cmd E) temp)"
    by (simp add: temp_def temp_path_def private_text_temp)
  then have priv: "?priv temp" by (simp add: ffmpeg_private_def)
  obtain r1 w1 where t: "run_tool E ''ffmpeg'' ?args [] w = (r1, w1)" by fastforce
  have q1: "quiet ?priv w w1"
    by (rule quiet_actD [OF quiet_private_run [OF tools] t]) (simp_all add: ffmpeg_mux_args_def temp_text)
  have gone: "quiet ?priv w (act_ignore (fs_remove_file temp) w1)"
    using q1 quiet_ignore [OF quiet_remove [of ?priv, OF priv]] by (meson quiet_trans)
  note run' = run [unfolded ffmpeg_execute_mux_subtitle_def p(1) action_params.case Let_def
      path_def [symmetric] temp_def [symmetric] valid if_False t prod.case]
  show ?thesis unfolding path_def [symmetric]
  proof (cases "\<exists>out. r1 = Inr out \<and> po_success out")
    case False
    with run' have "w' = act_ignore (fs_remove_file temp) w1" by (cases r1) auto
    with gone
    show "quiet ?priv w w' \<or> committed (xe_cmd E) storage (pl_scan_session plan) ?priv path path w w'" by simp
  next
    case True
    then obtain out where out: "r1 = Inr out" "po_success out" by blast
    obtain r2 w2 where c: "mux_commit E storage (pl_scan_session plan) path temp w1 = (r2, w2)" by fastforce
    have spec: "case r2 of Inl e \<Rightarrow> quiet ?priv w1 w2
        | Inr _ \<Rightarrow> committed (xe_cmd E) storage (pl_scan_session plan) ?priv path path w1 w2"
      by (rule mux_commit_spec [where priv = ?priv, OF c]) (rule priv)
    have "w' = w2" using run' out c by (auto simp: act_bind_def split: sum.splits)
    with spec q1 committed_after [OF q1]
    show "quiet ?priv w w' \<or> committed (xe_cmd E) storage (pl_scan_session plan) ?priv path path w w'"
      by (cases r2) (auto intro: quiet_trans)
  qed
qed

lemma noted_ffmpeg_mux:
  assumes "tools_write_output E tool_output" "pl_scan_session plan = Some s" "xe_cmd E = C"
  shows "noted_act C s (ffmpeg_private E (mf_path (pl_file plan))) (ffmpeg_execute_mux_subtitle E True plan a)"
proof (rule noted_actI)
  fix w r w'
  assume "ffmpeg_execute_mux_subtitle E True plan a w = (r, w')"
  from ffmpeg_mux_safe [OF assms(1) this]
  show "noted C s (ffmpeg_private E (mf_path (pl_file plan))) w w'"
    unfolding assms(2,3) by (blast intro: noted_quiet noted_committed)
qed

section \<open>What the ffmpeg plugin stores\<close>

lemma store_effect_world:
  assumes "store_effect f w = (r, w')" "\<And>u. pw_exec (f u) = pw_exec u"
  shows "quiet priv (pw_exec w) (pw_exec w')"
  using assms quiet_take_fault [of "pw_exec w"]
  by (auto simp: store_effect_def split: prod.splits option.splits)

lemma insert_outcomes_world: "insert_outcomes os w = (r, w') \<Longrightarrow> quiet priv (pw_exec w) (pw_exec w')"
proof (induction os arbitrary: w)
  case (Cons x os)
  obtain r1 w1 where s: "store_effect (\<lambda>w. w\<lparr>pw_outcomes := pw_outcomes w @ [x]\<rparr>) w = (r1, w1)" by fastforce
  have "quiet priv (pw_exec w) (pw_exec w1)" by (rule store_effect_world [OF s]) simp
  with Cons s show ?case by (auto split: sum.splits intro: quiet_trans)
qed simp

lemma save_execution_world:
  assumes "save_execution now plan ex w = (r, w')"
  shows "quiet priv (pw_exec w) (pw_exec w')"
proof -
  obtain r1 w1 where i: "insert_outcomes (pe_transcode_outcomes ex) w = (r1, w1)" by fastforce
  note q = insert_outcomes_world [OF i, of priv]
  have "w' = w1 \<or> (\<exists>f r2. store_effect (\<lambda>w. w\<lparr>pw_files := pw_files w @ [f]\<rparr>) w1 = (r2, w'))"
    using assms i by (auto simp: save_execution_def Let_def split: sum.splits if_splits)
  then show ?thesis
  proof (elim disjE exE)
    fix f r2
    assume "store_effect (\<lambda>w. w\<lparr>pw_files := pw_files w @ [f]\<rparr>) w1 = (r2, w')"
    then have "quiet priv (pw_exec w1) (pw_exec w')" by (rule store_effect_world) simp
    with q show ?thesis by (rule quiet_trans)
  qed (use q in simp)
qed

lemma noted_ffmpeg_plan:
  assumes tools: "tools_write_output E tool_output" and session: "pl_scan_session plan = Some s"
    and C: "xe_cmd E = C" and store: "fp_store P"
    and run: "ffmpeg_execute_plan E runner now P plan w = (r, w')"
  shows "noted C s (run_private E (mf_path (pl_file plan))) (pw_exec w) (pw_exec w')"
proof -
  let ?path = "mf_path (pl_file plan)" and ?priv = "run_private E (mf_path (pl_file plan))"
  let ?muxes = "filter (\<lambda>a. pa_operation a = MuxSubtitle) (pl_actions plan)"
  let ?collect = "act_collect (\<lambda>E. ffmpeg_execute_mux_subtitle E True plan) E ?muxes"
  consider (refused) "w' = w"
    | (mux) x where "?collect (pw_exec w) = (x, pw_exec w')"
    | (ran) r1 x where "execute_plan_with_runners E runner (fp_hw_accel P) True plan (pw_exec w) = (r1, x)"
        "w' = w\<lparr>pw_exec := x\<rparr> \<or> (\<exists>ex q. save_execution now plan ex (w\<lparr>pw_exec := x\<rparr>) = (q, w'))"
    using run store
    by (auto simp: ffmpeg_execute_plan_def lift_exec_def Let_def
        split: if_splits prod.splits option.splits sum.splits)
  then show ?thesis
  proof cases
    case refused
    then show ?thesis by simp
  next
    case mux
    have "noted_act C s ?priv ?collect"
      by (rule noted_collect [OF _ tools C]) (rule noted_ffmpeg_mux [OF _ session])
    from noted_actD [OF this mux] show ?thesis .
  next
    case ran
    have "noted C s (ffmpeg_private E ?path) (pw_exec w) x"
      using execute_plan_safe_end [OF tools ran(1)] unfolding safe_end_def session C
      by (blast intro: noted_quiet noted_committed)
    then have "noted C s ?priv (pw_exec w) x" by (rule noted_mono) (rule run_private_now)
    moreover have "noted C s ?priv x (pw_exec w')"
      using ran(2) save_execution_world [of now plan _ "w\<lparr>pw_exec := x\<rparr>" _ w' ?priv]
      by (auto intro: noted_quiet)
    ultimately show ?thesis by (rule noted_trans)
  qed
qed

section \<open>A session\<close>

text \<open>A plan handed to one of the two plugins by a \<open>PlanCreated\<close> event, with the environment of this
  execution; both plugins have the store.\<close>

datatype plan_run =
    MkvRun exec_env "action_result list \<Rightarrow> json" bool plan
  | FfmpegRun exec_env vmaf_runner timestamp "action_result list \<Rightarrow> json" ffmpeg_plugin plan

definition handle_plan_created :: "plan_run \<Rightarrow> plugin_world \<Rightarrow> event_result option option \<times> plugin_world" where
  "handle_plan_created x w =
     (case x of
        MkvRun E to_value available plan \<Rightarrow>
          (case mkv_handle_plan_created E to_value available True plan (pw_exec w) of
             (r, u) \<Rightarrow> (Some r, w\<lparr>pw_exec := u\<rparr>))
      | FfmpegRun E runner now to_value P plan \<Rightarrow>
          ffmpeg_handle_plan_created E runner now to_value P plan w)"

text \<open>The runs of a session: the tools write no file but their output, and the changes go to its table.\<close>

definition run_of_session :: "cmd_env \<Rightarrow> uuid \<Rightarrow> plan_run \<Rightarrow> bool" where
  "run_of_session C s x =
     (case x of
        MkvRun E _ _ plan \<Rightarrow>
          tools_write_output E tool_output \<and> xe_cmd E = C \<and> pl_scan_session plan = Some s
      | FfmpegRun E _ _ _ P plan \<Rightarrow>
          tools_write_output E tool_output \<and> xe_cmd E = C \<and> pl_scan_session plan = Some s \<and> fp_store P)"

text \<open>The paths of a run that are not recorded: its temporary files and the file that it edits in place.\<close>

definition run_own :: "cmd_env \<Rightarrow> plan_run \<Rightarrow> string \<Rightarrow> bool" where
  "run_own C x p =
     (case x of
        MkvRun E _ _ plan \<Rightarrow> run_private E (mf_path (pl_file plan)) p \<or> edits_in_place C plan p
      | FfmpegRun E _ _ _ _ plan \<Rightarrow> run_private E (mf_path (pl_file plan)) p)"

interpretation session_runs: recording_executor
  handle_plan_created pw_exec "run_of_session C" "run_own C" C for C
proof unfold_locales
  fix s x w r w'
  assume x: "run_of_session C s x" and run: "handle_plan_created x w = (r, w')"
  show "noted C s (run_own C x) (pw_exec w) (pw_exec w')"
  proof (cases x)
    case (MkvRun E to_value available plan)
    then have own: "run_own C x = (\<lambda>p. run_private E (mf_path (pl_file plan)) p \<or> edits_in_place C plan p)"
      by (simp add: run_own_def fun_eq_iff)
    obtain r1 u where h: "mkv_handle_plan_created E to_value available True plan (pw_exec w) = (r1, u)"
      by fastforce
    have "u = pw_exec w \<or> (\<exists>q. mkv_execute_plan E True plan (pw_exec w) = (q, u))"
      using h by (auto simp: mkv_handle_plan_created_def split: if_splits prod.splits)
    then have "noted C s (run_own C x) (pw_exec w) u"
      using noted_actD [OF noted_mkv_plan] x MkvRun unfolding own
      by (auto simp: run_of_session_def)
    then show ?thesis using run MkvRun h by (auto simp: handle_plan_created_def)
  next
    case (FfmpegRun E runner now to_value P plan)
    then have own: "run_own C x = run_private E (mf_path (pl_file plan))"
      by (simp add: run_own_def fun_eq_iff)
    have "w' = w \<or> (\<exists>q. ffmpeg_execute_plan E runner now P plan w = (q, w'))"
      using run FfmpegRun
      by (auto simp: handle_plan_created_def ffmpeg_handle_plan_created_def split: if_splits prod.splits)
    then show ?thesis using noted_ffmpeg_plan x FfmpegRun unfolding own
      by (auto simp: run_of_session_def)
  qed
qed

text \<open>
  C4: In a scan session whose plans are handled one after the other, each by the MKVToolNix plugin or by
  the ffmpeg plugin, with merges, added subtitles, transcodes and conversions, with any failures of tools,
  store and file system, and each execution with temporary files of its own: a file that is different
  at the end is recorded as changed by VOOM in that session. This holds if the tools write no file but
  their output and both plugins have the store, for every path that is not a temporary file of an
  execution and that no plan has edited in place with \<open>mkvpropedit\<close>.
\<close>
theorem session_changes_recorded:
  assumes "run_all handle_plan_created runs w = (rs, w')"
    and "\<forall>x \<in> set runs. run_of_session C s x"
    and "\<forall>x \<in> set runs. \<not> run_own C x p"
    and "xw_files (pw_exec w') p \<noteq> xw_files (pw_exec w) p"
  shows "is_voom_originated C s p (pw_exec w')"
  using assms by (rule session_runs.change_recorded)

lemma env_after [simp]:
  "xe_cmd ((next_env ^^ n) E) = xe_cmd E" "xe_work_dir ((next_env ^^ n) E) = xe_work_dir E"
  "xe_temp_id ((next_env ^^ n) E) k = xe_temp_id E (n + k)"
  by (induction n arbitrary: k) (simp_all add: next_env_def)

text \<open>The environment of the \<open>k\<close>-th execution of a session.\<close>

definition session_env :: "nat \<Rightarrow> exec_env" where
  "session_env k = sample_exec_env\<lparr>xe_temp_id := \<lambda>n. replicate k (CHR ''a'') @ replicate n (CHR ''x'')\<rparr>"

definition subtitle_plan :: plan where
  "subtitle_plan =
     sample_exec_plan\<lparr>pl_actions := [\<lparr>pa_operation = MuxSubtitle, pa_track_index = None,
       pa_parameters = ApMuxSubtitle \<lparr>msp_subtitle_path = ''/m/a.srt'', msp_language = ''eng'',
         msp_forced = False, msp_title = None\<rparr>, pa_description = ''Add subtitle''\<rparr>]\<rparr>"

definition sample_runs :: "plan_run list" where
  "sample_runs =
     [MkvRun (session_env 1) (\<lambda>_. JNull) True remove_plan,
      MkvRun (session_env 2) (\<lambda>_. JNull) True subtitle_plan,
      FfmpegRun (session_env 3) no_vmaf 0 (\<lambda>_. JNull) sample_ffmpeg_plugin sample_exec_plan]"

definition sample_session :: "event_result option option list \<times> plugin_world" where
  "sample_session =
     run_all handle_plan_created sample_runs \<lparr>pw_exec = sample_world, pw_outcomes = [], pw_files = []\<rparr>"

lemma session_not_private: "\<not> run_private (session_env k) ''/m/a.mkv'' ''/m/a.mkv''"
proof -
  have "path_file_stem ''/m/a.mkv'' = Some ''a''" "path_dir ''/m/a.mkv'' = ''/m/''" by code_simp+
  then have "temp_path_with_ext sample_cmd_env u ''/m/a.mkv'' ext = ''/m/a.voom_tmp_'' @ u @ ''.'' @ ext" for u ext
    by (simp add: temp_path_with_ext_def path_sibling_def TEMP_MARKER_def sample_cmd_env_def)
  then show ?thesis
    by (simp add: run_private_def ffmpeg_private_def private_text_def session_env_def sample_exec_env_def
        sample_cmd_env_def join_work_dir_def)
qed

theorem session_changes_recorded_witness:
  "map (map_option (map_option er_claimed)) (fst sample_session)
     = [Some (Some True), Some (Some True), Some (Some True)]
   \<and> xw_files (pw_exec (snd sample_session)) ''/m/a.mkv'' = Some ''new''
   \<and> is_voom_originated sample_cmd_env 5 ''/m/a.mkv'' (pw_exec (snd sample_session))"
proof -
  have ran: "map (map_option (map_option er_claimed)) (fst sample_session)
      = [Some (Some True), Some (Some True), Some (Some True)]" by code_simp
  have changed: "xw_files (pw_exec (snd sample_session)) ''/m/a.mkv'' = Some ''new''" by code_simp
  have path: "mf_path (pl_file remove_plan) = ''/m/a.mkv''" "mf_path (pl_file subtitle_plan) = ''/m/a.mkv''"
    "mf_path (pl_file sample_exec_plan) = ''/m/a.mkv''" by code_simp+
  have session: "pl_scan_session remove_plan = Some 5" "pl_scan_session subtitle_plan = Some 5"
    "pl_scan_session sample_exec_plan = Some 5" "fp_store sample_ffmpeg_plugin"
    by (simp_all add: remove_plan_def subtitle_plan_def sample_exec_plan_def sample_ffmpeg_plugin_def)
  have edits: "\<not> edits_in_place sample_cmd_env remove_plan p" "\<not> edits_in_place sample_cmd_env subtitle_plan p" for p
    by (simp_all add: edits_in_place_def remove_plan_def subtitle_plan_def is_metadata_op_def METADATA_OPS_def)
  have env: "xe_cmd (session_env k) = sample_cmd_env" "tools_write_output (session_env k) tool_output" for k
    using sample_tools by (simp_all add: session_env_def sample_exec_env_def tools_write_output_def)
  have "is_voom_originated sample_cmd_env 5 ''/m/a.mkv'' (pw_exec (snd sample_session))"
  proof (rule session_changes_recorded [where runs = sample_runs and rs = "fst sample_session"])
    show "run_all handle_plan_created sample_runs \<lparr>pw_exec = sample_world, pw_outcomes = [], pw_files = []\<rparr>
        = (fst sample_session, snd sample_session)" by (simp add: sample_session_def)
    show "\<forall>x \<in> set sample_runs. run_of_session sample_cmd_env 5 x"
      by (simp add: sample_runs_def run_of_session_def session env)
    show "\<forall>x \<in> set sample_runs. \<not> run_own sample_cmd_env x ''/m/a.mkv''"
      using session_not_private by (simp add: sample_runs_def run_own_def path edits)
    show "xw_files (pw_exec (snd sample_session)) ''/m/a.mkv''
        \<noteq> xw_files (pw_exec \<lparr>pw_exec = sample_world, pw_outcomes = [], pw_files = []\<rparr>) ''/m/a.mkv''"
      using changed by (simp add: sample_world_def)
  qed
  with ran changed show ?thesis by simp
qed

end
