(* ===== verification/Scan_Store.thy ===== *)
theory Scan_Store
  imports Jobs Exec_World
begin

text \<open>
  The file table of the SQLite store and its scan sessions:
  \<open>plugins/sqlite-store/src/store/file_storage.rs\<close>, the types of \<open>crates/voom-domain/src/transition.rs\<close>
  and \<open>reconcile_discovered_files\<close> of \<open>crates/voom-domain/src/storage.rs\<close>. Timestamps count
  nanoseconds; their texts sort as they do. Identifiers are drawn from the supply \<open>se_uuid\<close>. What the
  engine leaves open, the order of rows a query returns, is the argument \<open>se_order\<close>. A fault is the
  message of a statement that fails; it rolls the transaction of that statement back.
\<close>

section \<open>Transitions and discovered files\<close>

datatype transition_source = TsDiscovery | TsVoom | TsExternal | TsUnknown

definition TransitionSource_as_str :: "transition_source \<Rightarrow> string" where
  "TransitionSource_as_str s =
     (case s of TsDiscovery \<Rightarrow> ''discovery'' | TsVoom \<Rightarrow> ''voom'' | TsExternal \<Rightarrow> ''external''
      | TsUnknown \<Rightarrow> ''unknown'')"

definition TransitionSource_parse :: "string \<Rightarrow> transition_source option" where
  "TransitionSource_parse s =
     (if s = ''discovery'' then Some TsDiscovery else if s = ''voom'' then Some TsVoom
      else if s = ''external'' then Some TsExternal else if s = ''unknown'' then Some TsUnknown
      else None)"

datatype processing_outcome = PoSuccess | PoFailure | PoSkipped

record file_transition =
  ft_id :: uuid
  ft_file_id :: uuid
  ft_path :: string
  ft_from_path :: "string option"
  ft_from_hash :: "string option"
  ft_to_hash :: string
  ft_from_size :: "u64 option"
  ft_to_size :: u64
  ft_source :: transition_source
  ft_source_detail :: "string option"
  ft_plan_id :: "uuid option"
  ft_created_at :: timestamp
  ft_duration_ms :: "u64 option"
  ft_actions_taken :: "u32 option"
  ft_tracks_modified :: "u32 option"
  ft_outcome :: "processing_outcome option"
  ft_policy_name :: "string option"
  ft_phase_name :: "string option"
  ft_metadata_snapshot :: "json option"
  ft_error_message :: "string option"
  ft_session_id :: "uuid option"

definition FileTransition_new ::
  "mint \<Rightarrow> uuid \<Rightarrow> string \<Rightarrow> string \<Rightarrow> u64 \<Rightarrow> transition_source \<Rightarrow> file_transition" where
  "FileTransition_new m file_id path to_hash to_size source =
     \<lparr>ft_id = mint_uuid m, ft_file_id = file_id, ft_path = path, ft_from_path = None,
      ft_from_hash = None, ft_to_hash = to_hash, ft_from_size = None, ft_to_size = to_size,
      ft_source = source, ft_source_detail = None, ft_plan_id = None, ft_created_at = mint_now m,
      ft_duration_ms = None, ft_actions_taken = None, ft_tracks_modified = None, ft_outcome = None,
      ft_policy_name = None, ft_phase_name = None, ft_metadata_snapshot = None,
      ft_error_message = None, ft_session_id = None\<rparr>"

definition with_from :: "string option \<Rightarrow> u64 option \<Rightarrow> file_transition \<Rightarrow> file_transition" where
  "with_from hash sz t = t\<lparr>ft_from_hash := hash, ft_from_size := sz\<rparr>"

definition with_from_path :: "string \<Rightarrow> file_transition \<Rightarrow> file_transition" where
  "with_from_path path t = t\<lparr>ft_from_path := Some path\<rparr>"

definition with_detail :: "string \<Rightarrow> file_transition \<Rightarrow> file_transition" where
  "with_detail detail t = t\<lparr>ft_source_detail := Some detail\<rparr>"

record discovered_file =
  df_path :: string
  df_size :: u64
  df_content_hash :: string

datatype scan_session_status = SsInProgress | SsCompleted | SsCancelled

definition ScanSessionStatus_as_str :: "scan_session_status \<Rightarrow> string" where
  "ScanSessionStatus_as_str s =
     (case s of SsInProgress \<Rightarrow> ''in_progress'' | SsCompleted \<Rightarrow> ''completed''
      | SsCancelled \<Rightarrow> ''cancelled'')"

definition ScanSessionStatus_parse :: "string \<Rightarrow> scan_session_status option" where
  "ScanSessionStatus_parse s =
     (if s = ''in_progress'' then Some SsInProgress else if s = ''completed'' then Some SsCompleted
      else if s = ''cancelled'' then Some SsCancelled else None)"

datatype ingest_decision =
    IngestNew uuid bool
  | IngestUnchanged uuid
  | IngestExternallyChanged uuid uuid
  | IngestMoved uuid string
  | IngestDuplicate uuid

definition IngestDecision_file_id :: "ingest_decision \<Rightarrow> uuid" where
  "IngestDecision_file_id d =
     (case d of IngestNew i _ \<Rightarrow> i | IngestUnchanged i \<Rightarrow> i | IngestExternallyChanged i _ \<Rightarrow> i
      | IngestMoved i _ \<Rightarrow> i | IngestDuplicate i \<Rightarrow> i)"

definition needs_introspection_path :: "ingest_decision \<Rightarrow> string \<Rightarrow> string option" where
  "needs_introspection_path d path =
     (case d of
        IngestNew _ b \<Rightarrow> if b then Some path else None
      | IngestExternallyChanged _ _ \<Rightarrow> Some path
      | IngestMoved _ _ \<Rightarrow> Some path
      | _ \<Rightarrow> None)"

record scan_finish_outcome =
  sfo_missing :: u32
  sfo_promoted_moves :: u32

record reconcile_result =
  rcr_new_files :: u32
  rcr_unchanged :: u32
  rcr_moved :: u32
  rcr_external_changes :: u32
  rcr_missing :: u32
  rcr_needs_introspection :: "string list"

definition STALE_SESSION_SECS :: int where
  "STALE_SESSION_SECS = 60"

text \<open>\<open>Path::starts_with\<close> compares components; empty ones and \<open>.\<close> after the first do not count.\<close>

definition path_components :: "string \<Rightarrow> string list" where
  "path_components p =
     (if prefix ''/'' p then [''/''] else []) @
     (case split_on CHR ''/'' p of
        [] \<Rightarrow> []
      | c # cs \<Rightarrow> (if c = [] then [] else [c]) @ filter (\<lambda>c. c \<noteq> [] \<and> c \<noteq> ''.'') cs)"

definition is_under_any :: "string \<Rightarrow> string list \<Rightarrow> bool" where
  "is_under_any path roots = list_ex (\<lambda>r. prefix (path_components r) (path_components path)) roots"

section \<open>Tables\<close>

record media_columns =
  mc_container :: string
  mc_duration :: f64
  mc_bitrate :: "u32 option"
  mc_crop :: "crop_detection option"
  mc_tags :: "(string, string) hashmap"
  mc_plugin_metadata :: "(string, json) hashmap"
  mc_introspected_at :: timestamp

record file_row =
  fr_id :: uuid
  fr_path :: "string option"
  fr_filename :: string
  fr_size :: int
  fr_content_hash :: string
  fr_expected_hash :: "string option"
  fr_status :: string
  fr_missing_since :: "timestamp option"
  fr_superseded_by :: "uuid option"
  fr_media :: media_columns
  fr_last_seen :: "uuid option"
  fr_created_at :: timestamp
  fr_updated_at :: timestamp

record session_row =
  sr_id :: uuid
  sr_roots :: "string list"
  sr_status :: string
  sr_started_at :: timestamp
  sr_finished_at :: "timestamp option"
  sr_last_heartbeat_at :: timestamp

record store_db =
  sd_files :: "file_row list"
  sd_tracks :: "(uuid \<times> track) list"
  sd_transitions :: "file_transition list"
  sd_sessions :: "session_row list"
  sd_mutations :: "(uuid \<times> string) list"
  sd_outcomes :: "uuid list"
  sd_bad_files :: "string list"
  sd_minted :: nat
  sd_faults :: "string option list"

record store_env =
  se_uuid :: "nat \<Rightarrow> uuid"
  se_uuid_text :: "uuid \<Rightarrow> string"
  se_lossy :: "string \<Rightarrow> string"
  se_is_utf8 :: "string \<Rightarrow> bool"
  se_order :: "file_row list \<Rightarrow> file_row list"
  se_time_text :: "timestamp \<Rightarrow> string"

text \<open>The casts between \<open>u64\<close> and the \<open>i64\<close> of a column.\<close>

definition as_i64 :: "u64 \<Rightarrow> int" where
  "as_i64 n = (if int n < 2 ^ 63 then int n else int n - 2 ^ 64)"

definition as_u64 :: "int \<Rightarrow> u64" where
  "as_u64 i = nat (if i < 0 then i + 2 ^ 64 else i)"

text \<open>
  A transaction: its body gives an error or a value and the new tables. An error, from a fault or from
  the body, leaves them as they were; the identifiers it has drawn are stored nowhere, and the supply
  goes back to them.
\<close>

type_synonym 'a tx = "store_db \<Rightarrow> voom_error + 'a \<times> store_db"
type_synonym 'a store_op = "store_db \<Rightarrow> (voom_error + 'a) \<times> store_db"

definition tx_return :: "'a \<Rightarrow> 'a tx" where
  "tx_return x d = Inr (x, d)"

definition tx_bind :: "'a tx \<Rightarrow> ('a \<Rightarrow> 'b tx) \<Rightarrow> 'b tx" where
  "tx_bind m f d = (case m d of Inl e \<Rightarrow> Inl e | Inr (x, d') \<Rightarrow> f x d')"

definition store_fault :: "store_db \<Rightarrow> string option \<times> store_db" where
  "store_fault d =
     (case sd_faults d of [] \<Rightarrow> (None, d) | f # fs \<Rightarrow> (f, d\<lparr>sd_faults := fs\<rparr>))"

definition run_tx :: "'a tx \<Rightarrow> 'a store_op" where
  "run_tx body d =
     (case store_fault d of
        (Some e, d') \<Rightarrow> (Inl (StorageError OtherStorage e), d')
      | (None, d') \<Rightarrow>
          (case body d' of Inl e \<Rightarrow> (Inl e, d') | Inr (x, d'') \<Rightarrow> (Inr x, d'')))"

definition new_uuid :: "store_env \<Rightarrow> uuid tx" where
  "new_uuid E d = Inr (se_uuid E (sd_minted d), d\<lparr>sd_minted := Suc (sd_minted d)\<rparr>)"

text \<open>The unique columns of the file table.\<close>

definition somes :: "'a option list \<Rightarrow> 'a list" where
  "somes xs = List.map_filter id xs"

definition unique_error :: "file_row list \<Rightarrow> string option" where
  "unique_error rows =
     (if \<not> distinct (map fr_id rows) then Some ''UNIQUE constraint failed: files.id''
      else if \<not> distinct (somes (map fr_path rows)) then Some ''UNIQUE constraint failed: files.path''
      else if \<not> distinct (somes (map fr_superseded_by rows))
      then Some ''UNIQUE constraint failed: files.superseded_by''
      else None)"

definition put_files :: "string \<Rightarrow> file_row list \<Rightarrow> unit tx" where
  "put_files msg rows d =
     (case unique_error rows of
        Some e \<Rightarrow> Inl (storage_err msg (SqliteConstraint e))
      | None \<Rightarrow> Inr ((), d\<lparr>sd_files := rows\<rparr>))"

definition update_files :: "string \<Rightarrow> (file_row \<Rightarrow> bool) \<Rightarrow> (file_row \<Rightarrow> file_row) \<Rightarrow> unit tx" where
  "update_files msg P f d = put_files msg (map (\<lambda>r. if P r then f r else r) (sd_files d)) d"

text \<open>
  \<open>DELETE FROM files\<close>: the tracks go with their file, while a transcode outcome, whose reference has no
  \<open>ON DELETE\<close> clause, keeps the statement from succeeding.
\<close>

definition delete_files :: "string \<Rightarrow> (file_row \<Rightarrow> bool) \<Rightarrow> nat tx" where
  "delete_files msg P d =
     (let gone = filter P (sd_files d); ids = set (map fr_id gone) in
      if list_ex (\<lambda>i. i \<in> ids) (sd_outcomes d)
      then Inl (storage_err msg (SqliteConstraint ''FOREIGN KEY constraint failed''))
      else Inr (length gone,
        d\<lparr>sd_files := filter (\<lambda>r. \<not> P r) (sd_files d),
          sd_tracks := filter (\<lambda>(i, t). i \<notin> ids) (sd_tracks d)\<rparr>))"

definition insert_transition_row :: "file_transition \<Rightarrow> unit tx" where
  "insert_transition_row t d =
     (if ft_id t \<in> set (map ft_id (sd_transitions d))
      then Inl (storage_err ''failed to insert transition''
             (SqliteConstraint ''UNIQUE constraint failed: file_transitions.id''))
      else Inr ((), d\<lparr>sd_transitions := sd_transitions d @ [t]\<rparr>))"

definition delete_transitions :: "(uuid \<Rightarrow> bool) \<Rightarrow> unit tx" where
  "delete_transitions P d =
     Inr ((), d\<lparr>sd_transitions := filter (\<lambda>t. \<not> P (ft_file_id t)) (sd_transitions d)\<rparr>)"

text \<open>\<open>insert_transition_in_tx\<close> leaves two columns out and writes the time it is given.\<close>

definition insert_transition_in_tx :: "timestamp \<Rightarrow> file_transition \<Rightarrow> unit tx" where
  "insert_transition_in_tx now t =
     insert_transition_row (t\<lparr>ft_created_at := now, ft_error_message := None, ft_session_id := None\<rparr>)"

definition drop_empty :: "string option \<Rightarrow> string option" where
  "drop_empty s = (if s = Some [] then None else s)"

definition insert_full_transition_in_tx :: "file_transition \<Rightarrow> unit tx" where
  "insert_full_transition_in_tx t =
     insert_transition_row (t\<lparr>ft_from_hash := drop_empty (ft_from_hash t),
       ft_source_detail := drop_empty (ft_source_detail t)\<rparr>)"

definition filename_string :: "store_env \<Rightarrow> string \<Rightarrow> string" where
  "filename_string E path = (case path_file_name path of Some f \<Rightarrow> se_lossy E f | None \<Rightarrow> [])"

section \<open>Single rows\<close>

definition media_of :: "media_file \<Rightarrow> media_columns" where
  "media_of f =
     \<lparr>mc_container = Container_as_str (mf_container f), mc_duration = mf_duration f,
      mc_bitrate = mf_bitrate f, mc_crop = mf_crop_detection f, mc_tags = mf_tags f,
      mc_plugin_metadata = mf_plugin_metadata f, mc_introspected_at = mf_introspected_at f\<rparr>"

definition upserted_row :: "store_env \<Rightarrow> timestamp \<Rightarrow> media_file \<Rightarrow> file_row \<Rightarrow> file_row" where
  "upserted_row E now f r =
     r\<lparr>fr_filename := filename_string E (mf_path f), fr_size := as_i64 (mf_size f),
       fr_content_hash := (case mf_content_hash f of Some h \<Rightarrow> h | None \<Rightarrow> []),
       fr_status := FileStatus_as_str (mf_status f), fr_media := media_of f, fr_updated_at := now\<rparr>"

definition inserted_row :: "store_env \<Rightarrow> timestamp \<Rightarrow> media_file \<Rightarrow> file_row" where
  "inserted_row E now f =
     \<lparr>fr_id = mf_id f, fr_path = Some (se_lossy E (mf_path f)),
      fr_filename = filename_string E (mf_path f), fr_size = as_i64 (mf_size f),
      fr_content_hash = (case mf_content_hash f of Some h \<Rightarrow> h | None \<Rightarrow> []),
      fr_expected_hash = None, fr_status = FileStatus_as_str (mf_status f), fr_missing_since = None,
      fr_superseded_by = None, fr_media = media_of f, fr_last_seen = None, fr_created_at = now,
      fr_updated_at = now\<rparr>"

definition upsert_tracks_in_tx :: "uuid \<Rightarrow> track list \<Rightarrow> unit tx" where
  "upsert_tracks_in_tx file_id ts d =
     (if distinct (map tr_index ts @ map (\<lambda>(i, t). tr_index t) (filter (\<lambda>(i, t). i = file_id) (sd_tracks d)))
      then Inr ((), d\<lparr>sd_tracks := sd_tracks d @ map (Pair file_id) ts\<rparr>)
      else Inl (storage_err ''failed to insert track''
             (SqliteConstraint ''UNIQUE constraint failed: tracks.file_id, tracks.stream_index'')))"

definition upsert_file :: "store_env \<Rightarrow> timestamp \<Rightarrow> media_file \<Rightarrow> unit store_op" where
  "upsert_file E now f =
     run_tx (\<lambda>d.
       let path = se_lossy E (mf_path f); here = (\<lambda>r. fr_path r = Some path);
           existing = map fr_id (filter here (sd_files d));
           effective_id = (case existing of i # _ \<Rightarrow> i | [] \<Rightarrow> mf_id f);
           d = d\<lparr>sd_tracks := filter (\<lambda>(i, t). i \<notin> set existing) (sd_tracks d)\<rparr>
       in tx_bind
            (if existing = [] then put_files ''failed to upsert file'' (sd_files d @ [inserted_row E now f])
             else update_files ''failed to upsert file'' here (upserted_row E now f))
            (\<lambda>_. upsert_tracks_in_tx effective_id (mf_tracks f)) d)"

definition mark_missing :: "timestamp \<Rightarrow> uuid \<Rightarrow> unit store_op" where
  "mark_missing now i =
     run_tx (update_files ''failed to mark file missing'' (\<lambda>r. fr_id r = i \<and> fr_status r = ''active'')
       (\<lambda>r. r\<lparr>fr_status := ''missing'', fr_missing_since := Some now\<rparr>))"

definition reactivate_file :: "store_env \<Rightarrow> timestamp \<Rightarrow> uuid \<Rightarrow> string \<Rightarrow> unit store_op" where
  "reactivate_file E now i new_path =
     run_tx (update_files ''failed to reactivate file'' (\<lambda>r. fr_id r = i)
       (\<lambda>r. r\<lparr>fr_status := ''active'', fr_missing_since := None, fr_path := Some (se_lossy E new_path),
              fr_filename := filename_string E new_path, fr_updated_at := now\<rparr>))"

definition renamed_row :: "store_env \<Rightarrow> timestamp \<Rightarrow> string \<Rightarrow> file_row \<Rightarrow> file_row" where
  "renamed_row E now new_path r =
     r\<lparr>fr_path := Some (se_lossy E new_path), fr_filename := filename_string E new_path,
       fr_updated_at := now\<rparr>"

definition rename_file_path :: "store_env \<Rightarrow> timestamp \<Rightarrow> uuid \<Rightarrow> string \<Rightarrow> unit store_op" where
  "rename_file_path E now i new_path =
     run_tx (update_files ''failed to rename file path'' (\<lambda>r. fr_id r = i) (renamed_row E now new_path))"

text \<open>Two statements, each of them committed alone.\<close>

definition purged :: "timestamp \<Rightarrow> file_row \<Rightarrow> bool" where
  "purged cutoff r =
     (fr_status r = ''missing'' \<and> (case fr_missing_since r of Some t \<Rightarrow> t < cutoff | None \<Rightarrow> False))"

definition purge_missing :: "timestamp \<Rightarrow> u64 store_op" where
  "purge_missing older_than d =
     (case run_tx (\<lambda>d. delete_transitions
              (\<lambda>i. i \<in> set (map fr_id (filter (purged older_than) (sd_files d)))) d) d of
        (Inl e, d) \<Rightarrow> (Inl e, d)
      | (Inr _, d) \<Rightarrow> run_tx (delete_files ''failed to purge missing files'' (purged older_than)) d)"

definition update_expected_hash :: "uuid \<Rightarrow> string \<Rightarrow> unit store_op" where
  "update_expected_hash i hash =
     run_tx (update_files ''failed to update expected_hash'' (\<lambda>r. fr_id r = i)
       (\<lambda>r. r\<lparr>fr_expected_hash := Some hash\<rparr>))"

definition set_file_status :: "timestamp \<Rightarrow> uuid \<Rightarrow> file_status \<Rightarrow> unit store_op" where
  "set_file_status now i status =
     run_tx (update_files ''failed to set file status'' (\<lambda>r. fr_id r = i)
       (\<lambda>r. r\<lparr>fr_status := FileStatus_as_str status, fr_updated_at := now\<rparr>))"

text \<open>The debug assertion on an empty hash is not part of a release build.\<close>

definition record_post_execution ::
  "store_env \<Rightarrow> timestamp \<Rightarrow> string option \<Rightarrow> string option \<Rightarrow> file_transition \<Rightarrow> unit store_op" where
  "record_post_execution E now new_path new_expected_hash t =
     run_tx
       (tx_bind (case new_path of
           None \<Rightarrow> tx_return ()
         | Some p \<Rightarrow> update_files ''failed to rename file path in bundle'' (\<lambda>r. fr_id r = ft_file_id t)
             (renamed_row E now p))
       (\<lambda>_. tx_bind (insert_full_transition_in_tx t)
       (\<lambda>_. tx_bind (case new_expected_hash of
           None \<Rightarrow> tx_return ()
         | Some h \<Rightarrow> update_files ''failed to update expected_hash in bundle''
             (\<lambda>r. fr_id r = ft_file_id t) (\<lambda>r. r\<lparr>fr_expected_hash := Some h\<rparr>))
       (\<lambda>_ d. Inr ((), d\<lparr>sd_bad_files := filter (\<lambda>p. p \<noteq> se_lossy E (ft_path t)) (sd_bad_files d)\<rparr>)))))"

definition predecessor_id_of :: "store_env \<Rightarrow> uuid \<Rightarrow> store_db \<Rightarrow> uuid option" where
  "predecessor_id_of E i d =
     map_option fr_id (find (\<lambda>r. fr_superseded_by r = Some i) (se_order E (sd_files d)))"

text \<open>Without a transaction: the rows that are marked before a fault stay marked.\<close>

fun mark_missing_loop :: "timestamp \<Rightarrow> uuid list \<Rightarrow> u32 \<Rightarrow> u32 store_op" where
  "mark_missing_loop now [] marked d = (Inr marked, d)"
| "mark_missing_loop now (i # is) marked d =
     (case run_tx (update_files ''failed to mark missing'' (\<lambda>r. fr_id r = i \<and> fr_status r = ''active'')
              (\<lambda>r. r\<lparr>fr_status := ''missing'', fr_missing_since := Some now\<rparr>)) d of
        (Inl e, d) \<Rightarrow> (Inl e, d)
      | (Inr _, d) \<Rightarrow> mark_missing_loop now is (marked + 1) d)"

definition mark_missing_paths ::
  "store_env \<Rightarrow> timestamp \<Rightarrow> string list \<Rightarrow> string list \<Rightarrow> u32 store_op" where
  "mark_missing_paths E now discovered scanned d =
     (let gone = filter (\<lambda>r. fr_status r = ''active'' \<and> (case fr_path r of
                    None \<Rightarrow> False
                  | Some p \<Rightarrow> is_under_any p scanned \<and> p \<notin> set (map (se_lossy E) discovered)))
                   (se_order E (sd_files d))
      in mark_missing_loop now (map fr_id gone) 0 d)"

text \<open>A transcode outcome, of which the table holds here the file it refers to.\<close>

definition insert_transcode_outcome :: "uuid \<Rightarrow> unit store_op" where
  "insert_transcode_outcome i =
     run_tx (\<lambda>d. if i \<in> set (map fr_id (sd_files d)) then Inr ((), d\<lparr>sd_outcomes := sd_outcomes d @ [i]\<rparr>)
       else Inl (storage_err ''failed to insert transcode outcome''
              (SqliteConstraint ''FOREIGN KEY constraint failed'')))"

definition record_transition :: "file_transition \<Rightarrow> unit store_op" where
  "record_transition t = run_tx (insert_full_transition_in_tx t)"

definition transitions_for_file :: "uuid \<Rightarrow> store_db \<Rightarrow> file_transition list" where
  "transitions_for_file i d =
     sort_key ft_created_at (filter (\<lambda>t. ft_file_id t = i) (sd_transitions d))"

end
