(* ===== verification/Scan_Session.thy ===== *)
theory Scan_Session
  imports Scan_Store
begin

text \<open>
  Scan sessions over the tables of \<open>Scan_Store\<close>, from \<open>plugins/sqlite-store/src/store/file_storage.rs\<close>:
  a session is begun, takes the discovered files one by one, and is finished or cancelled; and the
  wrapper \<open>reconcile_discovered_files\<close> of \<open>crates/voom-domain/src/storage.rs\<close>.
\<close>

section \<open>Beginning and ending a session\<close>

definition whole_seconds :: "int \<Rightarrow> int" where
  "whole_seconds ns = (if 0 \<le> ns then ns div 1000000000 else - ((- ns) div 1000000000))"

definition session_in_progress :: "session_row \<Rightarrow> bool" where
  "session_in_progress r = (sr_status r = ''in_progress'')"

definition session_live :: "timestamp \<Rightarrow> session_row \<Rightarrow> bool" where
  "session_live now r =
     (session_in_progress r \<and> \<not> whole_seconds (now - sr_last_heartbeat_at r) > STALE_SESSION_SECS)"

definition live_scan_error :: "store_env \<Rightarrow> session_row \<Rightarrow> voom_error" where
  "live_scan_error E r =
     StorageError OtherStorage (''another scan is in progress (session '' @ se_uuid_text E (sr_id r)
       @ '', last heartbeat '' @ se_time_text E (sr_last_heartbeat_at r)
       @ ''); wait up to 60 seconds or abandon it manually if stale'')"

definition cancelled_row :: "timestamp \<Rightarrow> session_row \<Rightarrow> session_row" where
  "cancelled_row now r =
     r\<lparr>sr_status := ''cancelled'', sr_finished_at := Some now, sr_last_heartbeat_at := now\<rparr>"

definition insert_session :: "session_row \<Rightarrow> unit tx" where
  "insert_session r d =
     (if sr_id r \<in> set (map sr_id (sd_sessions d))
      then Inl (storage_err ''failed to insert scan session''
             (SqliteConstraint ''UNIQUE constraint failed: scan_sessions.id''))
      else Inr ((), d\<lparr>sd_sessions := sd_sessions d @ [r]\<rparr>))"

text \<open>Every session that is still in progress is stale here; they are cancelled, and the new one starts.\<close>

definition cancel_in_progress :: "timestamp \<Rightarrow> unit tx" where
  "cancel_in_progress now d =
     Inr ((), d\<lparr>sd_sessions := map (\<lambda>r. if session_in_progress r then cancelled_row now r else r)
       (sd_sessions d)\<rparr>)"

definition open_session :: "store_env \<Rightarrow> timestamp \<Rightarrow> string list \<Rightarrow> uuid tx" where
  "open_session E now roots =
     tx_bind (cancel_in_progress now)
     (\<lambda>_. tx_bind (new_uuid E)
     (\<lambda>i. tx_bind (insert_session \<lparr>sr_id = i, sr_roots = roots, sr_status = ''in_progress'',
         sr_started_at = now, sr_finished_at = None, sr_last_heartbeat_at = now\<rparr>)
     (\<lambda>_. tx_return i)))"

definition begin_in_tx :: "store_env \<Rightarrow> timestamp \<Rightarrow> string list \<Rightarrow> uuid tx" where
  "begin_in_tx E now roots d =
     (if \<not> list_all (se_is_utf8 E) roots
      then Inl (other_storage_err ''failed to serialize scan roots'' ''path contains invalid UTF-8 characters'')
      else case find (session_live now) (sd_sessions d) of
        Some r \<Rightarrow> Inl (live_scan_error E r)
      | None \<Rightarrow> open_session E now roots d)"

definition begin_scan_session :: "store_env \<Rightarrow> timestamp \<Rightarrow> string list \<Rightarrow> uuid store_op" where
  "begin_scan_session E now roots = run_tx (begin_in_tx E now roots)"

definition cancel_scan_session :: "timestamp \<Rightarrow> uuid \<Rightarrow> unit store_op" where
  "cancel_scan_session now s =
     run_tx (\<lambda>d. Inr ((), d\<lparr>sd_sessions := map (\<lambda>r. if sr_id r = s \<and> session_in_progress r
       then cancelled_row now r else r) (sd_sessions d)\<rparr>))"

definition heartbeat_scan_session :: "timestamp \<Rightarrow> uuid \<Rightarrow> unit store_op" where
  "heartbeat_scan_session now s =
     run_tx (\<lambda>d. Inr ((), d\<lparr>sd_sessions := map (\<lambda>r. if sr_id r = s \<and> session_in_progress r
       then r\<lparr>sr_last_heartbeat_at := now\<rparr> else r) (sd_sessions d)\<rparr>))"

definition session_of :: "uuid \<Rightarrow> store_db \<Rightarrow> session_row option" where
  "session_of s d = find (\<lambda>r. sr_id r = s) (sd_sessions d)"

section \<open>Ingesting a file\<close>

definition validate_session_in_progress_in_tx :: "store_env \<Rightarrow> uuid \<Rightarrow> unit tx" where
  "validate_session_in_progress_in_tx E s d =
     (case session_of s d of
        None \<Rightarrow> Inl (StorageError NotFound (''unknown scan session '' @ se_uuid_text E s))
      | Some r \<Rightarrow>
          (case ScanSessionStatus_parse (sr_status r) of
             Some SsInProgress \<Rightarrow> Inr ((), d)
           | Some other \<Rightarrow> Inl (StorageError OtherStorage (''scan session '' @ se_uuid_text E s
               @ '' is not in_progress (status: '' @ ScanSessionStatus_as_str other @ '')''))
           | None \<Rightarrow> Inl (StorageError OtherStorage (''scan session '' @ se_uuid_text E s
               @ '' has unrecognized status: '' @ sr_status r))))"

definition lookup_existing_file :: "string \<Rightarrow> store_db \<Rightarrow> file_row option" where
  "lookup_existing_file path d = find (\<lambda>r. fr_path r = Some path) (sd_files d)"

definition prior_session_needs_recovery :: "uuid option \<Rightarrow> store_db \<Rightarrow> bool" where
  "prior_session_needs_recovery prior d =
     (case prior of
        None \<Rightarrow> False
      | Some s \<Rightarrow> Option.bind (session_of s d) (\<lambda>r. ScanSessionStatus_parse (sr_status r)) \<noteq> Some SsCompleted)"

definition find_move_candidate :: "store_env \<Rightarrow> string list \<Rightarrow> string \<Rightarrow> store_db \<Rightarrow> (uuid \<times> string) option" where
  "find_move_candidate E roots hash d =
     find (\<lambda>(i, path). is_under_any path roots)
       (List.map_filter
          (\<lambda>r. if fr_expected_hash r = Some hash \<and> fr_status r = ''missing''
               then map_option (Pair (fr_id r)) (fr_path r) else None)
          (se_order E (sd_files d)))"

definition recover_stub_in_tx :: "uuid \<Rightarrow> unit tx" where
  "recover_stub_in_tx i =
     tx_bind (update_files ''failed to clear dangling supersession during stub recovery''
         (\<lambda>r. fr_superseded_by r = Some i) (\<lambda>r. r\<lparr>fr_superseded_by := None\<rparr>))
     (\<lambda>_. tx_bind (delete_transitions (\<lambda>j. j = i))
     (\<lambda>_. tx_bind (delete_files ''failed to delete stub file row'' (\<lambda>r. fr_id r = i))
     (\<lambda>_. tx_return ())))"

record ingest_ctx =
  ic_now :: timestamp
  ic_session :: uuid
  ic_path :: string
  ic_filename :: string
  ic_file :: discovered_file

definition ingest_unchanged_in_tx :: "ingest_ctx \<Rightarrow> uuid \<Rightarrow> bool \<Rightarrow> uuid tx" where
  "ingest_unchanged_in_tx c i expected_hash_was_none =
     tx_bind (update_files ''failed to update unchanged file'' (\<lambda>r. fr_id r = i)
       (\<lambda>r. r\<lparr>fr_size := as_i64 (df_size (ic_file c)), fr_content_hash := df_content_hash (ic_file c),
              fr_status := ''active'', fr_missing_since := None, fr_last_seen := Some (ic_session c),
              fr_updated_at := ic_now c\<rparr>))
     (\<lambda>_. tx_bind
       (if expected_hash_was_none
        then update_files ''failed to backfill expected_hash'' (\<lambda>r. fr_id r = i)
          (\<lambda>r. r\<lparr>fr_expected_hash := Some (df_content_hash (ic_file c))\<rparr>)
        else tx_return ())
     (\<lambda>_. tx_return i))"

definition insert_active_file_in_tx :: "string \<Rightarrow> ingest_ctx \<Rightarrow> uuid \<Rightarrow> unit tx" where
  "insert_active_file_in_tx msg c new_id d =
     put_files msg (sd_files d @
       [\<lparr>fr_id = new_id, fr_path = Some (ic_path c), fr_filename = ic_filename c,
         fr_size = as_i64 (df_size (ic_file c)), fr_content_hash = df_content_hash (ic_file c),
         fr_expected_hash = Some (df_content_hash (ic_file c)), fr_status = ''active'',
         fr_missing_since = None, fr_superseded_by = None,
         fr_media = \<lparr>mc_container = ''other'', mc_duration = 0, mc_bitrate = None, mc_crop = None,
           mc_tags = [], mc_plugin_metadata = [], mc_introspected_at = ic_now c\<rparr>,
         fr_last_seen = Some (ic_session c), fr_created_at = ic_now c, fr_updated_at = ic_now c\<rparr>]) d"

text \<open>A transition with a fresh identifier, changed by \<open>f\<close> before it is stored.\<close>

definition add_transition ::
  "store_env \<Rightarrow> timestamp \<Rightarrow> uuid \<Rightarrow> string \<Rightarrow> string \<Rightarrow> u64 \<Rightarrow> transition_source
     \<Rightarrow> (file_transition \<Rightarrow> file_transition) \<Rightarrow> unit tx" where
  "add_transition E now file_id path hash sz source f =
     tx_bind (new_uuid E) (\<lambda>i. insert_transition_in_tx now
       (f (FileTransition_new \<lparr>mint_uuid = i, mint_now = now\<rparr> file_id path hash sz source)))"

definition ingest_transition ::
  "store_env \<Rightarrow> ingest_ctx \<Rightarrow> uuid \<Rightarrow> transition_source \<Rightarrow> (file_transition \<Rightarrow> file_transition) \<Rightarrow> unit tx" where
  "ingest_transition E c file_id source f =
     add_transition E (ic_now c) file_id (se_lossy E (df_path (ic_file c)))
       (df_content_hash (ic_file c)) (df_size (ic_file c)) source f"

definition ingest_externally_changed_in_tx ::
  "store_env \<Rightarrow> ingest_ctx \<Rightarrow> file_row \<Rightarrow> (uuid \<times> uuid) tx" where
  "ingest_externally_changed_in_tx E c old =
     tx_bind (new_uuid E) (\<lambda>new_id.
     tx_bind (ingest_transition E c (fr_id old) TsExternal
         (with_from (fr_expected_hash old) (Some (as_u64 (fr_size old)))))
     (\<lambda>_. tx_bind (update_files ''failed to clear old file for external change'' (\<lambda>r. fr_id r = fr_id old)
         (\<lambda>r. r\<lparr>fr_path := None, fr_status := ''missing'', fr_missing_since := Some (ic_now c),
                fr_superseded_by := Some new_id\<rparr>))
     (\<lambda>_. tx_bind (insert_active_file_in_tx ''failed to insert new file for external change'' c new_id)
     (\<lambda>_. tx_bind (ingest_transition E c new_id TsDiscovery id)
     (\<lambda>_. tx_return (new_id, fr_id old))))))"

definition ingest_moved_in_tx :: "store_env \<Rightarrow> ingest_ctx \<Rightarrow> uuid \<Rightarrow> string \<Rightarrow> uuid tx" where
  "ingest_moved_in_tx E c i prior_path =
     tx_bind (update_files ''failed to reactivate moved file'' (\<lambda>r. fr_id r = i)
       (\<lambda>r. r\<lparr>fr_path := Some (ic_path c), fr_filename := ic_filename c,
              fr_size := as_i64 (df_size (ic_file c)), fr_content_hash := df_content_hash (ic_file c),
              fr_status := ''active'', fr_missing_since := None, fr_last_seen := Some (ic_session c),
              fr_updated_at := ic_now c\<rparr>))
     (\<lambda>_. tx_bind (ingest_transition E c i TsDiscovery
         (\<lambda>t. with_detail ''detected_move'' (with_from_path prior_path t)))
     (\<lambda>_. tx_return i))"

definition ingest_new_in_tx :: "store_env \<Rightarrow> ingest_ctx \<Rightarrow> uuid tx" where
  "ingest_new_in_tx E c =
     tx_bind (new_uuid E) (\<lambda>new_id.
     tx_bind (insert_active_file_in_tx ''failed to insert new file in ingest'' c new_id)
     (\<lambda>_. tx_bind (ingest_transition E c new_id TsDiscovery id)
     (\<lambda>_. tx_return new_id)))"

text \<open>No row at the path, originally or after recovery: a move or a new file.\<close>

definition ingest_no_row :: "store_env \<Rightarrow> ingest_ctx \<Rightarrow> ingest_decision tx" where
  "ingest_no_row E c d =
     (case session_of (ic_session c) d of
        None \<Rightarrow> Inl (storage_err ''failed to load session roots for move lookup'' QueryReturnedNoRows)
      | Some s \<Rightarrow>
          (case find_move_candidate E (sr_roots s) (df_content_hash (ic_file c)) d of
             Some (i, prior_path) \<Rightarrow>
               tx_bind (ingest_moved_in_tx E c i prior_path) (\<lambda>i. tx_return (IngestMoved i prior_path)) d
           | None \<Rightarrow> tx_bind (ingest_new_in_tx E c) (\<lambda>i. tx_return (IngestNew i True)) d))"

definition ingest_existing :: "store_env \<Rightarrow> ingest_ctx \<Rightarrow> file_row \<Rightarrow> ingest_decision tx" where
  "ingest_existing E c r d =
     (if fr_last_seen r = Some (ic_session c) then Inr (IngestDuplicate (fr_id r), d)
      else if prior_session_needs_recovery (fr_last_seen r) d
      then tx_bind (recover_stub_in_tx (fr_id r)) (\<lambda>_. ingest_no_row E c) d
      else if fr_expected_hash r = None \<or> fr_expected_hash r = Some (df_content_hash (ic_file c))
      then tx_bind (ingest_unchanged_in_tx c (fr_id r) (fr_expected_hash r = None))
        (\<lambda>i. tx_return (IngestUnchanged i)) d
      else tx_bind (ingest_externally_changed_in_tx E c r)
        (\<lambda>ids. tx_return (IngestExternallyChanged (fst ids) (snd ids))) d)"

definition ingest_by_path :: "store_env \<Rightarrow> ingest_ctx \<Rightarrow> ingest_decision tx" where
  "ingest_by_path E c d =
     (case lookup_existing_file (ic_path c) d of
        None \<Rightarrow> ingest_no_row E c d | Some r \<Rightarrow> ingest_existing E c r d)"

definition ingest_in_tx :: "store_env \<Rightarrow> ingest_ctx \<Rightarrow> ingest_decision tx" where
  "ingest_in_tx E c =
     tx_bind (validate_session_in_progress_in_tx E (ic_session c)) (\<lambda>_. ingest_by_path E c)"

definition ingest_discovered_file ::
  "store_env \<Rightarrow> timestamp \<Rightarrow> uuid \<Rightarrow> discovered_file \<Rightarrow> ingest_decision store_op" where
  "ingest_discovered_file E now session f =
     run_tx (ingest_in_tx E
       \<lparr>ic_now = now, ic_session = session, ic_path = se_lossy E (df_path f),
        ic_filename = filename_string E (df_path f), ic_file = f\<rparr>)"

section \<open>Finishing a session\<close>

text \<open>The rows of this session that a query of the finish pass leaves out.\<close>

definition unseen_active :: "uuid \<Rightarrow> file_row \<Rightarrow> bool" where
  "unseen_active s r = (fr_status r = ''active'' \<and> fr_path r \<noteq> None \<and> fr_last_seen r \<noteq> Some s)"

record missing_candidate =
  mcd_id :: uuid
  mcd_path :: string
  mcd_expected_hash :: string

definition move_candidates :: "store_env \<Rightarrow> uuid \<Rightarrow> string list \<Rightarrow> store_db \<Rightarrow> missing_candidate list" where
  "move_candidates E s roots d =
     filter (\<lambda>c. is_under_any (mcd_path c) roots)
       (List.map_filter
          (\<lambda>r. case (fr_path r, fr_expected_hash r) of
                 (Some p, Some h) \<Rightarrow>
                   if unseen_active s r then Some \<lparr>mcd_id = fr_id r, mcd_path = p, mcd_expected_hash = h\<rparr>
                   else None
               | _ \<Rightarrow> None)
          (se_order E (sd_files d)))"

definition promotion_target :: "uuid \<Rightarrow> timestamp \<Rightarrow> missing_candidate \<Rightarrow> store_db \<Rightarrow> file_row \<Rightarrow> bool" where
  "promotion_target s started c d r =
     (fr_last_seen r = Some s \<and> fr_content_hash r = mcd_expected_hash c \<and> fr_created_at r \<ge> started
      \<and> fr_path r \<noteq> None \<and> fr_id r \<noteq> mcd_id c
      \<and> fr_id r \<notin> set (somes (map fr_superseded_by (sd_files d))))"

definition promoted_row ::
  "store_env \<Rightarrow> timestamp \<Rightarrow> uuid \<Rightarrow> missing_candidate \<Rightarrow> string \<Rightarrow> int \<Rightarrow> file_row \<Rightarrow> file_row" where
  "promoted_row E now s c p sz r =
     r\<lparr>fr_path := Some p, fr_filename := filename_string E p, fr_size := sz,
       fr_content_hash := mcd_expected_hash c, fr_status := ''active'', fr_missing_since := None,
       fr_last_seen := Some s, fr_updated_at := now\<rparr>"

definition promote_to ::
  "store_env \<Rightarrow> timestamp \<Rightarrow> uuid \<Rightarrow> missing_candidate \<Rightarrow> uuid \<Rightarrow> string \<Rightarrow> int \<Rightarrow> bool tx" where
  "promote_to E now s c new_id p sz =
     tx_bind (delete_transitions (\<lambda>j. j = new_id))
     (\<lambda>_. tx_bind (delete_files ''failed to delete New row for move promotion'' (\<lambda>r. fr_id r = new_id))
     (\<lambda>_. tx_bind (update_files ''failed to promote candidate to moved'' (\<lambda>r. fr_id r = mcd_id c)
         (promoted_row E now s c p sz))
     (\<lambda>_. tx_bind (add_transition E now (mcd_id c) p (mcd_expected_hash c) (as_u64 sz) TsDiscovery
         (\<lambda>t. with_detail ''detected_move'' (with_from_path (mcd_path c) t)))
     (\<lambda>_. tx_return True))))"

definition try_promote_one_move_in_tx ::
  "store_env \<Rightarrow> timestamp \<Rightarrow> uuid \<Rightarrow> timestamp \<Rightarrow> missing_candidate \<Rightarrow> bool tx" where
  "try_promote_one_move_in_tx E now s started c d =
     (case find (promotion_target s started c d) (se_order E (sd_files d)) of
        None \<Rightarrow> Inr (False, d)
      | Some n \<Rightarrow> promote_to E now s c (fr_id n) (the (fr_path n)) (fr_size n) d)"

fun promote_loop ::
  "store_env \<Rightarrow> timestamp \<Rightarrow> uuid \<Rightarrow> timestamp \<Rightarrow> missing_candidate list \<Rightarrow> u32 \<Rightarrow> u32 tx" where
  "promote_loop E now s started [] n = tx_return n"
| "promote_loop E now s started (c # cs) n =
     tx_bind (try_promote_one_move_in_tx E now s started c)
       (\<lambda>b. promote_loop E now s started cs (if b then n + 1 else n))"

definition promote_moves_in_tx ::
  "store_env \<Rightarrow> timestamp \<Rightarrow> uuid \<Rightarrow> timestamp \<Rightarrow> string list \<Rightarrow> u32 tx" where
  "promote_moves_in_tx E now s started roots d =
     promote_loop E now s started (move_candidates E s roots d) 0 d"

definition gone_row :: "uuid \<Rightarrow> string list \<Rightarrow> string set \<Rightarrow> file_row \<Rightarrow> bool" where
  "gone_row s roots voom_paths r =
     (unseen_active s r
      \<and> (case fr_path r of None \<Rightarrow> False | Some p \<Rightarrow> is_under_any p roots \<and> p \<notin> voom_paths))"

definition mark_row_missing :: "timestamp \<Rightarrow> uuid \<Rightarrow> unit tx" where
  "mark_row_missing now i =
     update_files ''failed to mark file missing in finish'' (\<lambda>r. fr_id r = i \<and> fr_status r = ''active'')
       (\<lambda>r. r\<lparr>fr_status := ''missing'', fr_missing_since := Some now, fr_updated_at := now\<rparr>)"

fun mark_rows_missing :: "timestamp \<Rightarrow> uuid list \<Rightarrow> u32 \<Rightarrow> u32 tx" where
  "mark_rows_missing now [] n = tx_return n"
| "mark_rows_missing now (i # is) n =
     tx_bind (mark_row_missing now i) (\<lambda>_. mark_rows_missing now is (n + 1))"

definition voom_paths :: "uuid \<Rightarrow> store_db \<Rightarrow> string set" where
  "voom_paths s d = set (map snd (filter (\<lambda>(i, p). i = s) (sd_mutations d)))"

definition mark_missing_in_finish_tx :: "store_env \<Rightarrow> timestamp \<Rightarrow> uuid \<Rightarrow> string list \<Rightarrow> u32 tx" where
  "mark_missing_in_finish_tx E now s roots d =
     mark_rows_missing now
       (map fr_id (filter (gone_row s roots (voom_paths s d)) (se_order E (sd_files d)))) 0 d"

definition complete_session :: "timestamp \<Rightarrow> uuid \<Rightarrow> unit tx" where
  "complete_session now s d =
     Inr ((), d\<lparr>sd_sessions := map (\<lambda>r. if sr_id r = s
        then r\<lparr>sr_status := ''completed'', sr_finished_at := Some now, sr_last_heartbeat_at := now\<rparr>
        else r) (sd_sessions d)\<rparr>)"

definition close_session :: "store_env \<Rightarrow> timestamp \<Rightarrow> session_row \<Rightarrow> scan_finish_outcome tx" where
  "close_session E now r =
     tx_bind (promote_moves_in_tx E now (sr_id r) (sr_started_at r) (sr_roots r)) (\<lambda>promoted.
     tx_bind (mark_missing_in_finish_tx E now (sr_id r) (sr_roots r)) (\<lambda>missing.
     tx_bind (complete_session now (sr_id r)) (\<lambda>_.
       tx_return \<lparr>sfo_missing = missing, sfo_promoted_moves = promoted\<rparr>)))"

definition finish_in_tx :: "store_env \<Rightarrow> timestamp \<Rightarrow> uuid \<Rightarrow> scan_finish_outcome tx" where
  "finish_in_tx E now s d =
     (case session_of s d of
        None \<Rightarrow> Inl (StorageError OtherStorage (''unknown scan session '' @ se_uuid_text E s))
      | Some r \<Rightarrow>
          if ScanSessionStatus_parse (sr_status r) = Some SsInProgress then close_session E now r d
          else Inl (StorageError OtherStorage (''scan session '' @ se_uuid_text E s
                 @ '' is not in_progress (status: '' @ sr_status r @ '')'')))"

definition finish_scan_session :: "store_env \<Rightarrow> timestamp \<Rightarrow> uuid \<Rightarrow> scan_finish_outcome store_op" where
  "finish_scan_session E now s = run_tx (finish_in_tx E now s)"

section \<open>A whole scan\<close>

text \<open>
  \<open>reconcile_discovered_files\<close> within \<open>with_scan_session\<close>; the times of the calls are arguments: of the
  begin, of each ingest, of the finish and of the cancellation after an error.
\<close>

definition count_decision :: "ingest_decision \<Rightarrow> string \<Rightarrow> reconcile_result \<Rightarrow> reconcile_result" where
  "count_decision d path r =
     (let r = (case d of
                 IngestNew _ _ \<Rightarrow> r\<lparr>rcr_new_files := rcr_new_files r + 1\<rparr>
               | IngestUnchanged _ \<Rightarrow> r\<lparr>rcr_unchanged := rcr_unchanged r + 1\<rparr>
               | IngestExternallyChanged _ _ \<Rightarrow> r\<lparr>rcr_external_changes := rcr_external_changes r + 1\<rparr>
               | IngestMoved _ _ \<Rightarrow> r\<lparr>rcr_moved := rcr_moved r + 1\<rparr>
               | IngestDuplicate _ \<Rightarrow> r)
      in r\<lparr>rcr_needs_introspection := rcr_needs_introspection r
          @ (case needs_introspection_path d path of Some p \<Rightarrow> [p] | None \<Rightarrow> [])\<rparr>)"

fun ingest_loop ::
  "store_env \<Rightarrow> uuid \<Rightarrow> (timestamp \<times> discovered_file) list \<Rightarrow> reconcile_result \<Rightarrow> reconcile_result store_op" where
  "ingest_loop E s [] r d = (Inr r, d)"
| "ingest_loop E s ((now, f) # fs) r d =
     (case ingest_discovered_file E now s f d of
        (Inl e, d) \<Rightarrow> (Inl e, d)
      | (Inr dec, d) \<Rightarrow> ingest_loop E s fs (count_decision dec (df_path f) r) d)"

definition ReconcileResult_default :: reconcile_result where
  "ReconcileResult_default =
     \<lparr>rcr_new_files = 0, rcr_unchanged = 0, rcr_moved = 0, rcr_external_changes = 0, rcr_missing = 0,
      rcr_needs_introspection = []\<rparr>"

definition scan_body ::
  "store_env \<Rightarrow> timestamp \<Rightarrow> (timestamp \<times> discovered_file) list \<Rightarrow> uuid \<Rightarrow> reconcile_result store_op" where
  "scan_body E finish_at fs s d =
     (case ingest_loop E s fs ReconcileResult_default d of
        (Inl e, d) \<Rightarrow> (Inl e, d)
      | (Inr r, d) \<Rightarrow>
          (case finish_scan_session E finish_at s d of
             (Inl e, d) \<Rightarrow> (Inl e, d)
           | (Inr out, d) \<Rightarrow>
               (Inr (r\<lparr>rcr_missing := sfo_missing out,
                      rcr_new_files := rcr_new_files r - sfo_promoted_moves out,
                      rcr_moved := rcr_moved r + sfo_promoted_moves out\<rparr>), d)))"

definition reconcile_discovered_files ::
  "store_env \<Rightarrow> timestamp \<Rightarrow> timestamp \<Rightarrow> timestamp \<Rightarrow> (timestamp \<times> discovered_file) list \<Rightarrow> string list
     \<Rightarrow> reconcile_result store_op" where
  "reconcile_discovered_files E begin_at finish_at cancel_at fs roots d =
     (case begin_scan_session E begin_at roots d of
        (Inl e, d) \<Rightarrow> (Inl e, d)
      | (Inr s, d) \<Rightarrow>
          (case scan_body E finish_at fs s d of
             (Inr r, d) \<Rightarrow> (Inr r, d)
           | (Inl e, d) \<Rightarrow> (Inl e, snd (cancel_scan_session cancel_at s d))))"

end
