(* ===== verification/Scan_Invariant.thy ===== *)
theory Scan_Invariant
  imports Scan_Session
begin

text \<open>
  What every sequence of store operations keeps: the unique columns of the file table, distinct
  identifiers of sessions and transitions, the references of transcode outcomes, and that at most one
  scan session is in progress.
\<close>

section \<open>Transactions that keep an invariant\<close>

definition tx_keeps :: "(store_db \<Rightarrow> bool) \<Rightarrow> 'a tx \<Rightarrow> bool" where
  "tx_keeps I m = (\<forall>d x d'. I d \<longrightarrow> m d = Inr (x, d') \<longrightarrow> I d')"

definition op_keeps :: "(store_db \<Rightarrow> bool) \<Rightarrow> 'a store_op \<Rightarrow> bool" where
  "op_keeps I m = (\<forall>d r d'. I d \<longrightarrow> m d = (r, d') \<longrightarrow> I d')"

named_theorems keeps_rules \<open>preservation rules of store statements\<close>

lemma tx_keepsI: "(\<And>d x d'. I d \<Longrightarrow> m d = Inr (x, d') \<Longrightarrow> I d') \<Longrightarrow> tx_keeps I m"
  by (auto simp: tx_keeps_def)

lemma tx_keepsD: "tx_keeps I m \<Longrightarrow> I d \<Longrightarrow> m d = Inr (x, d') \<Longrightarrow> I d'"
  by (auto simp: tx_keeps_def)

lemma op_keepsD: "op_keeps I m \<Longrightarrow> I d \<Longrightarrow> m d = (r, d') \<Longrightarrow> I d'"
  by (auto simp: op_keeps_def)

lemma keeps_return [keeps_rules]: "tx_keeps I (tx_return x)"
  by (simp add: tx_keeps_def tx_return_def)

lemma keeps_bind [keeps_rules]:
  assumes m: "tx_keeps I m" and f: "\<And>x. tx_keeps I (f x)"
  shows "tx_keeps I (tx_bind m f)"
proof (rule tx_keepsI)
  fix d x d'
  assume "I d" "tx_bind m f d = Inr (x, d')"
  then obtain y d1 where "m d = Inr (y, d1)" "f y d1 = Inr (x, d')"
    by (auto simp: tx_bind_def split: sum.splits)
  then show "I d'" using \<open>I d\<close> tx_keepsD [OF m] tx_keepsD [OF f] by metis
qed

text \<open>
  The contract of an invariant: it does not look at the faults that are still to come, nor at the supply
  of identifiers. An operation keeps it if the body of its transaction does.
\<close>

locale store_invariant =
  fixes I :: "store_db \<Rightarrow> bool"
  assumes faults_irrelevant: "I (d\<lparr>sd_faults := fs\<rparr>) = I d"
    and supply_irrelevant: "I (d\<lparr>sd_minted := n\<rparr>) = I d"
begin

lemma store_fault_keeps: "store_fault d = (f, d') \<Longrightarrow> I d \<Longrightarrow> I d'"
  by (auto simp: store_fault_def faults_irrelevant split: list.splits)

lemma run_tx_keeps: "tx_keeps I m \<Longrightarrow> op_keeps I (run_tx m)"
  unfolding op_keeps_def run_tx_def
  by (auto dest: store_fault_keeps tx_keepsD split: prod.splits option.splits sum.splits)

lemma new_uuid_keeps: "tx_keeps I (new_uuid E)"
  by (auto simp: tx_keeps_def new_uuid_def supply_irrelevant)

lemma mark_missing_loop_keeps:
  assumes "\<And>i. tx_keeps I (update_files ''failed to mark missing'' (\<lambda>r. fr_id r = i \<and> fr_status r = ''active'')
      (\<lambda>r. r\<lparr>fr_status := ''missing'', fr_missing_since := Some now\<rparr>))"
  shows "op_keeps I (mark_missing_loop now is n)"
proof (induction "is" arbitrary: n)
  case (Cons i "is")
  let ?mark = "run_tx (update_files ''failed to mark missing'' (\<lambda>r. fr_id r = i \<and> fr_status r = ''active'')
      (\<lambda>r. r\<lparr>fr_status := ''missing'', fr_missing_since := Some now\<rparr>))"
  note step = op_keepsD [OF run_tx_keeps [OF assms [of i]]]
  show ?case
    unfolding op_keeps_def
  proof (intro allI impI)
    fix d r d'
    assume d: "I d" and run: "mark_missing_loop now (i # is) n d = (r, d')"
    obtain r1 d1 where r1: "?mark d = (r1, d1)" by fastforce
    with step d have "I d1" by blast
    with run r1 op_keepsD [OF Cons.IH] show "I d'" by (cases r1) auto
  qed
qed (simp add: op_keeps_def)

end

section \<open>The file table\<close>

text \<open>No two rows share a value in a column of optional values.\<close>

definition uniq_on :: "(file_row \<Rightarrow> 'a option) \<Rightarrow> file_row set \<Rightarrow> bool" where
  "uniq_on g R = (\<forall>r \<in> R. \<forall>r' \<in> R. \<forall>x. g r = Some x \<longrightarrow> g r' = Some x \<longrightarrow> fr_id r = fr_id r')"

lemma somes_simps [simp]:
  "somes [] = []" "somes (None # xs) = somes xs" "somes (Some x # xs) = x # somes xs"
  by (simp_all add: somes_def map_filter_simps)

lemma set_somes [simp]: "set (somes xs) = {x. Some x \<in> set xs}"
  by (induction xs) (auto simp: somes_def map_filter_simps split: option.splits)

lemma uniq_on_insert:
  "uniq_on g (insert r R) \<longleftrightarrow>
     uniq_on g R \<and> (\<forall>r' \<in> R. \<forall>x. g r = Some x \<longrightarrow> g r' = Some x \<longrightarrow> fr_id r = fr_id r')"
proof
  assume u: "uniq_on g R \<and> (\<forall>r' \<in> R. \<forall>x. g r = Some x \<longrightarrow> g r' = Some x \<longrightarrow> fr_id r = fr_id r')"
  show "uniq_on g (insert r R)"
    unfolding uniq_on_def
  proof (intro ballI allI impI)
    fix a b x
    assume ab: "a \<in> insert r R" "b \<in> insert r R" and x: "g a = Some x" "g b = Some x"
    from ab consider "a = r \<and> b = r" | "a = r \<and> b \<in> R" | "a \<in> R \<and> b = r" | "a \<in> R \<and> b \<in> R" by blast
    then show "fr_id a = fr_id b"
      using x u unfolding uniq_on_def by cases (blast | metis)+
  qed
qed (unfold uniq_on_def, blast)

lemma distinct_somes:
  assumes "distinct (map fr_id rows)"
  shows "distinct (somes (map g rows)) \<longleftrightarrow> uniq_on g (set rows)"
  using assms
proof (induction rows)
  case (Cons r rows)
  have "uniq_on g (set (r # rows)) \<longleftrightarrow> uniq_on g (set rows)
      \<and> (\<forall>r' \<in> set rows. \<forall>x. g r = Some x \<longrightarrow> g r' = Some x \<longrightarrow> fr_id r = fr_id r')"
    by (simp add: uniq_on_insert)
  moreover have "fr_id r \<noteq> fr_id r'" if "r' \<in> set rows" for r' using Cons.prems that by auto
  moreover have "distinct (somes (map g (r # rows))) \<longleftrightarrow> distinct (somes (map g rows))
      \<and> (\<forall>x. g r = Some x \<longrightarrow> (\<forall>r' \<in> set rows. g r' \<noteq> Some x))"
    by (cases "g r") (auto simp: image_iff)
  ultimately show ?case using Cons by auto
qed (simp add: uniq_on_def)

definition unique_rows :: "file_row list \<Rightarrow> bool" where
  "unique_rows rows =
     (distinct (map fr_id rows) \<and> uniq_on fr_path (set rows) \<and> uniq_on fr_superseded_by (set rows))"

lemma unique_error_iff: "unique_error rows = None \<longleftrightarrow> unique_rows rows"
  by (auto simp: unique_error_def unique_rows_def distinct_somes)

lemma unique_id: "unique_rows rows \<Longrightarrow> r \<in> set rows \<Longrightarrow> r' \<in> set rows \<Longrightarrow> fr_id r = fr_id r' \<Longrightarrow> r = r'"
  by (metis unique_rows_def distinct_map inj_onD)

lemma unique_path:
  "unique_rows rows \<Longrightarrow> r \<in> set rows \<Longrightarrow> r' \<in> set rows \<Longrightarrow> fr_path r = Some p \<Longrightarrow> fr_path r' = Some p
     \<Longrightarrow> r = r'"
  by (metis unique_id unique_rows_def uniq_on_def)

definition rows_where :: "(file_row \<Rightarrow> bool) \<Rightarrow> (file_row \<Rightarrow> file_row) \<Rightarrow> file_row list \<Rightarrow> file_row list" where
  "rows_where P f rows = map (\<lambda>r. if P r then f r else r) rows"

lemma set_rows_where: "set (rows_where P f rows) = (\<lambda>r. if P r then f r else r) ` set rows"
  by (simp add: rows_where_def)

lemma update_files_rows:
  "update_files msg P f d = put_files msg (rows_where P f (sd_files d)) d"
  by (simp add: update_files_def rows_where_def)

lemma put_files_ok: "put_files msg rows d = Inr (x, d') \<longleftrightarrow> unique_rows rows \<and> d' = d\<lparr>sd_files := rows\<rparr>"
  by (auto simp: put_files_def unique_error_iff [symmetric] split: option.splits)

lemma ids_rows_where: "(\<And>r. fr_id (f r) = fr_id r) \<Longrightarrow> map fr_id (rows_where P f rows) = map fr_id rows"
  by (auto simp: rows_where_def)

section \<open>The invariant\<close>

definition store_ok :: "store_db \<Rightarrow> bool" where
  "store_ok d =
     (unique_rows (sd_files d)
      \<and> set (sd_outcomes d) \<subseteq> fr_id ` set (sd_files d)
      \<and> distinct (map ft_id (sd_transitions d))
      \<and> distinct (map sr_id (sd_sessions d))
      \<and> length (filter session_in_progress (sd_sessions d)) \<le> 1)"

interpretation kept: store_invariant store_ok
  by unfold_locales (simp_all add: store_ok_def)

lemma keeps_update [keeps_rules]:
  assumes "\<And>r. fr_id (f r) = fr_id r"
  shows "tx_keeps store_ok (update_files msg P f)"
proof (rule tx_keepsI)
  fix d x d'
  assume ok: "store_ok d" and upd: "update_files msg P f d = Inr (x, d')"
  have "fr_id ` set (rows_where P f (sd_files d)) = fr_id ` set (sd_files d)"
    using ids_rows_where [of f P "sd_files d"] assms by (metis list.set_map)
  with ok upd show "store_ok d'" by (auto simp: update_files_rows put_files_ok store_ok_def)
qed

lemma keeps_append [keeps_rules]: "tx_keeps store_ok (\<lambda>d. put_files msg (sd_files d @ rows) d)"
  by (rule tx_keepsI) (auto simp: put_files_ok store_ok_def)

lemma keeps_insert_active [keeps_rules]: "tx_keeps store_ok (insert_active_file_in_tx msg c i)"
  unfolding insert_active_file_in_tx_def by (rule keeps_append)

lemma unique_filter: "unique_rows rows \<Longrightarrow> unique_rows (filter P rows)"
  by (auto simp: unique_rows_def uniq_on_def distinct_map_filter)

lemma keeps_delete_files [keeps_rules]: "tx_keeps store_ok (delete_files msg P)"
proof (rule tx_keepsI)
  fix d x d'
  assume ok: "store_ok d" and del: "delete_files msg P d = Inr (x, d')"
  from del have no: "\<forall>i \<in> set (sd_outcomes d). i \<notin> fr_id ` {r \<in> set (sd_files d). P r}"
    and d': "sd_files d' = filter (\<lambda>r. \<not> P r) (sd_files d)" "sd_outcomes d' = sd_outcomes d"
      "sd_transitions d' = sd_transitions d" "sd_sessions d' = sd_sessions d"
    by (auto simp: delete_files_def Let_def list_ex_iff split: if_splits)
  have "set (sd_outcomes d) \<subseteq> fr_id ` {r \<in> set (sd_files d). \<not> P r}"
    using ok no by (fastforce simp: store_ok_def)
  with ok d' show "store_ok d'" by (auto simp: store_ok_def unique_filter)
qed

lemma keeps_transition_row [keeps_rules]: "tx_keeps store_ok (insert_transition_row t)"
  by (rule tx_keepsI) (auto simp: insert_transition_row_def store_ok_def split: if_splits)

lemma keeps_delete_transitions [keeps_rules]: "tx_keeps store_ok (delete_transitions P)"
  by (rule tx_keepsI) (auto simp: delete_transitions_def store_ok_def distinct_map_filter)

lemma keeps_transition_in_tx [keeps_rules]: "tx_keeps store_ok (insert_transition_in_tx now t)"
  unfolding insert_transition_in_tx_def by (rule keeps_transition_row)

lemma keeps_full_transition [keeps_rules]: "tx_keeps store_ok (insert_full_transition_in_tx t)"
  unfolding insert_full_transition_in_tx_def by (rule keeps_transition_row)

lemma keeps_add_transition [keeps_rules]: "tx_keeps store_ok (add_transition E now i p h n src f)"
  unfolding add_transition_def by (intro keeps_rules kept.new_uuid_keeps)

lemma keeps_ingest_transition [keeps_rules]: "tx_keeps store_ok (ingest_transition E c i src f)"
  unfolding ingest_transition_def by (rule keeps_add_transition)

lemma keeps_recover [keeps_rules]: "tx_keeps store_ok (recover_stub_in_tx i)"
  unfolding recover_stub_in_tx_def by (intro keeps_rules) simp

lemma keeps_unchanged [keeps_rules]: "tx_keeps store_ok (ingest_unchanged_in_tx c i b)"
  unfolding ingest_unchanged_in_tx_def by (cases b) (simp, intro keeps_rules; simp)+

lemma keeps_external [keeps_rules]: "tx_keeps store_ok (ingest_externally_changed_in_tx E c r)"
  unfolding ingest_externally_changed_in_tx_def by (intro keeps_rules kept.new_uuid_keeps) simp

lemma keeps_moved [keeps_rules]: "tx_keeps store_ok (ingest_moved_in_tx E c i p)"
  unfolding ingest_moved_in_tx_def by (intro keeps_rules) simp

lemma keeps_new [keeps_rules]: "tx_keeps store_ok (ingest_new_in_tx E c)"
  unfolding ingest_new_in_tx_def by (intro keeps_rules kept.new_uuid_keeps)

lemma tx_keeps_if [keeps_rules]: "tx_keeps I m \<Longrightarrow> tx_keeps I n \<Longrightarrow> tx_keeps I (if b then m else n)"
  by simp

text \<open>A body that looks at the tables first.\<close>

lemma keeps_look: "(\<And>d0. tx_keeps I (f d0)) \<Longrightarrow> tx_keeps I (\<lambda>d. f d d)"
  by (auto simp: tx_keeps_def)

lemma keeps_error: "tx_keeps I (\<lambda>d. Inl (e d))"
  by (simp add: tx_keeps_def)

lemma keeps_no_row [keeps_rules]: "tx_keeps store_ok (ingest_no_row E c)"
proof (rule tx_keepsI)
  fix d x d'
  assume "store_ok d" "ingest_no_row E c d = Inr (x, d')"
  then show "store_ok d'"
    using tx_keepsD [OF keeps_bind [OF keeps_moved keeps_return]] tx_keepsD [OF keeps_bind [OF keeps_new keeps_return]]
    by (auto simp: ingest_no_row_def split: option.splits)
qed

lemma keeps_validate [keeps_rules]: "tx_keeps I (validate_session_in_progress_in_tx E s)"
  by (rule tx_keepsI)
    (auto simp: validate_session_in_progress_in_tx_def split: option.splits scan_session_status.splits)

lemma keeps_existing [keeps_rules]: "tx_keeps store_ok (ingest_existing E c r)"
proof (rule tx_keepsI)
  fix d x d'
  note kept = tx_keepsD [OF keeps_bind [OF keeps_recover keeps_no_row]]
    tx_keepsD [OF keeps_bind [OF keeps_unchanged keeps_return]]
    tx_keepsD [OF keeps_bind [OF keeps_external keeps_return]]
  assume "store_ok d" "ingest_existing E c r d = Inr (x, d')"
  then show "store_ok d'"
    unfolding ingest_existing_def by (auto split: if_splits dest: kept)
qed

lemma keeps_by_path [keeps_rules]: "tx_keeps store_ok (ingest_by_path E c)"
  by (rule tx_keepsI)
    (auto simp: ingest_by_path_def split: option.splits dest: tx_keepsD [OF keeps_no_row] tx_keepsD [OF keeps_existing])

lemma keeps_ingest [keeps_rules]: "tx_keeps store_ok (ingest_in_tx E c)"
  unfolding ingest_in_tx_def by (intro keeps_rules)

lemma keeps_promote_to [keeps_rules]: "tx_keeps store_ok (promote_to E now s c i p sz)"
  unfolding promote_to_def by (intro keeps_rules) (simp add: promoted_row_def)

lemma keeps_promote_one [keeps_rules]: "tx_keeps store_ok (try_promote_one_move_in_tx E now s started c)"
  by (rule tx_keepsI)
    (auto simp: try_promote_one_move_in_tx_def split: option.splits dest: tx_keepsD [OF keeps_promote_to])

lemma keeps_promote_loop [keeps_rules]: "tx_keeps store_ok (promote_loop E now s started cs n)"
  by (induction cs arbitrary: n) (simp_all add: keeps_rules)

lemma keeps_mark_rows [keeps_rules]: "tx_keeps store_ok (mark_rows_missing now is n)"
proof (induction "is" arbitrary: n)
  case (Cons i "is")
  have "tx_keeps store_ok (mark_row_missing now i)"
    unfolding mark_row_missing_def by (rule keeps_update) simp
  then show ?case using Cons.IH by (simp add: keeps_bind)
qed (simp add: keeps_return)

lemma in_progress_replace:
  assumes "\<And>r. \<not> session_in_progress r \<Longrightarrow> \<not> session_in_progress (g r)"
  shows "length (filter session_in_progress (map g rows)) \<le> length (filter session_in_progress rows)"
  using assms by (induction rows) (auto simp: le_Suc_eq)

lemma keeps_sessions [keeps_rules]:
  assumes "\<And>r. sr_id (g r) = sr_id r" "\<And>r. \<not> session_in_progress r \<Longrightarrow> \<not> session_in_progress (g r)"
  shows "tx_keeps store_ok (\<lambda>d. Inr (x, d\<lparr>sd_sessions := map g (sd_sessions d)\<rparr>))"
proof (rule tx_keepsI)
  fix d :: store_db and y d'
  assume ok: "store_ok d" and d': "Inr (x, d\<lparr>sd_sessions := map g (sd_sessions d)\<rparr>) = Inr (y, d')"
  have "map sr_id (map g (sd_sessions d)) = map sr_id (sd_sessions d)" using assms(1) by simp
  with ok d' in_progress_replace [of g "sd_sessions d", OF assms(2)] show "store_ok d'"
    unfolding store_ok_def by (auto simp del: map_map length_map)
qed

lemma keeps_complete [keeps_rules]: "tx_keeps store_ok (complete_session now s)"
  unfolding complete_session_def by (rule keeps_sessions) (simp_all add: session_in_progress_def)

lemma keeps_mark_missing [keeps_rules]: "tx_keeps store_ok (mark_missing_in_finish_tx E now s roots)"
  unfolding mark_missing_in_finish_tx_def by (rule keeps_look) (rule keeps_mark_rows)

lemma keeps_promote [keeps_rules]: "tx_keeps store_ok (promote_moves_in_tx E now s started roots)"
  unfolding promote_moves_in_tx_def by (rule keeps_look) (rule keeps_promote_loop)

lemma keeps_close [keeps_rules]: "tx_keeps store_ok (close_session E now r)"
  unfolding close_session_def by (intro keeps_rules)

lemma keeps_finish [keeps_rules]: "tx_keeps store_ok (finish_in_tx E now s)"
  by (rule tx_keepsI)
    (auto simp: finish_in_tx_def split: option.splits if_splits dest: tx_keepsD [OF keeps_close])

text \<open>Beginning: what was in progress is cancelled before the new session is inserted.\<close>

lemma keeps_begin [keeps_rules]: "tx_keeps store_ok (begin_in_tx E now roots)"
proof (rule tx_keepsI)
  fix d :: store_db and x d'
  let ?stop = "map (\<lambda>r. if session_in_progress r then cancelled_row now r else r) (sd_sessions d)"
  assume ok: "store_ok d" and "begin_in_tx E now roots d = Inr (x, d')"
  then have "open_session E now roots d = Inr (x, d')"
    by (auto simp: begin_in_tx_def split: option.splits if_splits)
  then obtain r where d': "sd_sessions d' = ?stop @ [r]" "sr_id r \<notin> set (map sr_id ?stop)"
      "sd_files d' = sd_files d" "sd_outcomes d' = sd_outcomes d" "sd_transitions d' = sd_transitions d"
    by (auto simp: open_session_def cancel_in_progress_def tx_bind_def new_uuid_def insert_session_def
        tx_return_def split: if_splits)
  have "filter session_in_progress ?stop = []"
    by (auto simp: filter_empty_conv cancelled_row_def session_in_progress_def)
  moreover have "map sr_id ?stop = map sr_id (sd_sessions d)" by (auto simp: cancelled_row_def)
  ultimately show "store_ok d'" using ok d' unfolding store_ok_def by (simp del: map_map set_map)
qed

section \<open>Every operation\<close>

text \<open>An operation of the store with all its arguments, and a step that runs one, whatever it returns.\<close>

inductive store_step :: "store_env \<Rightarrow> store_db \<Rightarrow> store_db \<Rightarrow> bool" for E where
  step_upsert: "upsert_file E now f d = (r, d') \<Longrightarrow> store_step E d d'"
| step_mark_missing: "mark_missing now i d = (r, d') \<Longrightarrow> store_step E d d'"
| step_reactivate: "reactivate_file E now i p d = (r, d') \<Longrightarrow> store_step E d d'"
| step_rename: "rename_file_path E now i p d = (r, d') \<Longrightarrow> store_step E d d'"
| step_purge: "purge_missing cutoff d = (rn, d') \<Longrightarrow> store_step E d d'"
| step_expected_hash: "update_expected_hash i h d = (r, d') \<Longrightarrow> store_step E d d'"
| step_set_status: "set_file_status now i st d = (r, d') \<Longrightarrow> store_step E d d'"
| step_post_execution: "record_post_execution E now np nh t d = (r, d') \<Longrightarrow> store_step E d d'"
| step_missing_paths: "mark_missing_paths E now ps ds d = (rn, d') \<Longrightarrow> store_step E d d'"
| step_outcome: "insert_transcode_outcome i d = (r, d') \<Longrightarrow> store_step E d d'"
| step_transition: "record_transition t d = (r, d') \<Longrightarrow> store_step E d d'"
| step_begin: "begin_scan_session E now roots d = (rs, d') \<Longrightarrow> store_step E d d'"
| step_ingest: "ingest_discovered_file E now s df d = (rd, d') \<Longrightarrow> store_step E d d'"
| step_finish: "finish_scan_session E now s d = (ro, d') \<Longrightarrow> store_step E d d'"
| step_cancel: "cancel_scan_session now s d = (r, d') \<Longrightarrow> store_step E d d'"
| step_heartbeat: "heartbeat_scan_session now s d = (r, d') \<Longrightarrow> store_step E d d'"

definition SqliteStore_empty :: "string option list \<Rightarrow> store_db" where
  "SqliteStore_empty faults =
     \<lparr>sd_files = [], sd_tracks = [], sd_transitions = [], sd_sessions = [], sd_mutations = [],
      sd_outcomes = [], sd_bad_files = [], sd_minted = 0, sd_faults = faults\<rparr>"

definition store_reachable :: "store_env \<Rightarrow> store_db \<Rightarrow> bool" where
  "store_reachable E d = (\<exists>faults. (store_step E)\<^sup>*\<^sup>* (SqliteStore_empty faults) d)"

lemma keeps_tracks [keeps_rules]: "tx_keeps store_ok (upsert_tracks_in_tx i ts)"
  by (rule tx_keepsI) (auto simp: upsert_tracks_in_tx_def store_ok_def split: if_splits)

lemma keeps_upsert: "op_keeps store_ok (upsert_file E now f)"
  unfolding upsert_file_def
proof (rule kept.run_tx_keeps, rule tx_keepsI)
  fix d :: store_db and x d'
  let ?here = "\<lambda>r. fr_path r = Some (se_lossy E (mf_path f))"
  let ?old = "map fr_id (filter ?here (sd_files d))"
  let ?d1 = "d\<lparr>sd_tracks := filter (\<lambda>(i, t). i \<notin> set ?old) (sd_tracks d)\<rparr>"
  let ?put = "if ?old = [] then put_files ''failed to upsert file'' (sd_files ?d1 @ [inserted_row E now f])
             else update_files ''failed to upsert file'' ?here (upserted_row E now f)"
  assume ok: "store_ok d"
    and run: "(let path = se_lossy E (mf_path f); here = (\<lambda>r. fr_path r = Some path);
           existing = map fr_id (filter here (sd_files d));
           effective_id = (case existing of i # _ \<Rightarrow> i | [] \<Rightarrow> mf_id f);
           d = d\<lparr>sd_tracks := filter (\<lambda>(i, t). i \<notin> set existing) (sd_tracks d)\<rparr>
       in tx_bind
            (if existing = [] then put_files ''failed to upsert file'' (sd_files d @ [inserted_row E now f])
             else update_files ''failed to upsert file'' here (upserted_row E now f))
            (\<lambda>_. upsert_tracks_in_tx effective_id (mf_tracks f)) d) = Inr (x, d')"
  then obtain d2 i where put: "?put ?d1 = Inr ((), d2)" and tr: "upsert_tracks_in_tx i (mf_tracks f) d2 = Inr (x, d')"
    by (auto simp: Let_def tx_bind_def split: sum.splits)
  have "store_ok ?d1" using ok by (simp add: store_ok_def)
  moreover have "tx_keeps store_ok (update_files ''failed to upsert file'' ?here (upserted_row E now f))"
    by (rule keeps_update) (simp add: upserted_row_def)
  ultimately have "store_ok d2"
    using put tx_keepsD [OF keeps_append] tx_keepsD by (cases "?old = []") (auto simp del: map_is_Nil_conv)
  then show "store_ok d'" using tr tx_keepsD [OF keeps_tracks] by blast
qed

lemma keeps_purge: "op_keeps store_ok (purge_missing t)"
proof -
  have one: "op_keeps store_ok (run_tx (\<lambda>d. delete_transitions
      (\<lambda>i. i \<in> set (map fr_id (filter (purged t) (sd_files d)))) d))"
    by (rule kept.run_tx_keeps, rule keeps_look, rule keeps_delete_transitions)
  have two: "op_keeps store_ok (run_tx (delete_files ''failed to purge missing files'' (purged t)))"
    by (rule kept.run_tx_keeps, rule keeps_delete_files)
  show ?thesis
    unfolding op_keeps_def purge_missing_def
    by (auto split: prod.splits sum.splits dest: op_keepsD [OF one] op_keepsD [OF two])
qed

lemma keeps_post_execution: "op_keeps store_ok (record_post_execution E now np nh t)"
proof -
  have last: "tx_keeps store_ok (\<lambda>d. Inr (u, d\<lparr>sd_bad_files := f (sd_bad_files d)\<rparr>))" for u f
    by (rule tx_keepsI) (auto simp: store_ok_def)
  show ?thesis
    unfolding record_post_execution_def
    by (rule kept.run_tx_keeps, cases np; cases nh) (simp, intro keeps_rules last; simp add: renamed_row_def)+
qed

lemma keeps_row_updates:
  "op_keeps store_ok (mark_missing now i)" "op_keeps store_ok (reactivate_file E now i p)"
  "op_keeps store_ok (rename_file_path E now i p)" "op_keeps store_ok (update_expected_hash i h)"
  "op_keeps store_ok (set_file_status now i st)"
  unfolding mark_missing_def reactivate_file_def rename_file_path_def update_expected_hash_def
    set_file_status_def
  by (rule kept.run_tx_keeps, rule keeps_update, simp add: renamed_row_def)+

lemma keeps_session_ops:
  "op_keeps store_ok (begin_scan_session E now roots)" "op_keeps store_ok (ingest_discovered_file E now s df)"
  "op_keeps store_ok (finish_scan_session E now s)" "op_keeps store_ok (record_transition t)"
  unfolding begin_scan_session_def ingest_discovered_file_def finish_scan_session_def record_transition_def
  by (rule kept.run_tx_keeps, rule keeps_rules)+

lemma keeps_session_updates:
  "op_keeps store_ok (cancel_scan_session now s)" "op_keeps store_ok (heartbeat_scan_session now s)"
  unfolding cancel_scan_session_def heartbeat_scan_session_def
  by (rule kept.run_tx_keeps, rule keeps_sessions; simp add: cancelled_row_def session_in_progress_def)+

lemma keeps_outcome: "op_keeps store_ok (insert_transcode_outcome i)"
  unfolding insert_transcode_outcome_def
  by (rule kept.run_tx_keeps, rule tx_keepsI) (auto simp: store_ok_def split: if_splits)

lemma keeps_missing_paths: "op_keeps store_ok (mark_missing_paths E now ps ds)"
proof -
  have "op_keeps store_ok (mark_missing_loop now is n)" for "is" n
    by (rule kept.mark_missing_loop_keeps, rule keeps_update) simp
  then show ?thesis unfolding op_keeps_def mark_missing_paths_def Let_def by blast
qed

lemmas store_ops_keep = keeps_upsert keeps_purge keeps_post_execution keeps_row_updates
  keeps_session_ops keeps_session_updates keeps_outcome keeps_missing_paths

lemma store_step_ok: "store_step E d d' \<Longrightarrow> store_ok d \<Longrightarrow> store_ok d'"
  by (cases rule: store_step.cases) (auto dest: store_ops_keep [THEN op_keepsD])

lemma store_reachable_ok:
  assumes "store_reachable E d"
  shows "store_ok d"
proof -
  from assms obtain faults where "(store_step E)\<^sup>*\<^sup>* (SqliteStore_empty faults) d"
    by (auto simp: store_reachable_def)
  then show ?thesis
    by (induction rule: rtranclp_induct)
      (simp_all add: store_step_ok, simp add: store_ok_def SqliteStore_empty_def unique_rows_def uniq_on_def)
qed

text \<open>
  C15: In every state of the store that its operations reach, with any failures of the engine: no two
  files share an identifier or a path, at most one file is superseded by a given one, every transcode
  outcome refers to a file, no two transitions and no two scan sessions share an identifier, and at
  most one scan session is in progress.
\<close>
theorem store_invariant_reachable:
  assumes "store_reachable E d"
  shows "distinct (map fr_id (sd_files d))
    \<and> distinct (somes (map fr_path (sd_files d))) \<and> distinct (somes (map fr_superseded_by (sd_files d)))
    \<and> set (sd_outcomes d) \<subseteq> fr_id ` set (sd_files d)
    \<and> distinct (map ft_id (sd_transitions d)) \<and> distinct (map sr_id (sd_sessions d))
    \<and> length (filter session_in_progress (sd_sessions d)) \<le> 1"
  using store_reachable_ok [OF assms]
  by (auto simp: store_ok_def unique_rows_def distinct_somes)

definition sample_store_env :: store_env where
  "sample_store_env =
     \<lparr>se_uuid = (\<lambda>k. 100 + k), se_uuid_text = nat_str, se_lossy = (\<lambda>s. s), se_is_utf8 = (\<lambda>_. True),
      se_order = (\<lambda>rows. rows), se_time_text = (\<lambda>_. [])\<rparr>"

definition begun_store :: store_db where
  "begun_store = snd (begin_scan_session sample_store_env 0 [''/m''] (SqliteStore_empty []))"

theorem store_invariant_reachable_witness:
  "store_reachable sample_store_env begun_store
   \<and> length (filter session_in_progress (sd_sessions begun_store)) = 1"
proof -
  have "store_step sample_store_env (SqliteStore_empty []) begun_store"
    unfolding begun_store_def by (rule step_begin [OF surjective_pairing])
  then have r: "store_reachable sample_store_env begun_store" by (auto simp: store_reachable_def)
  have "length (filter session_in_progress (sd_sessions begun_store)) \<ge> 1" by code_simp
  with store_invariant_reachable [OF r] r show ?thesis by (auto intro: le_antisym)
qed

end
