(* ===== verification/Scan_Correct.thy ===== *)
theory Scan_Correct
  imports Scan_Invariant "HOL-Library.Multiset"
begin

text \<open>
  What a scan does to the file table, proved transaction by transaction: each of them succeeds under the
  conditions of a scan, and its effect is stated on the columns that matter.
\<close>

section \<open>Views\<close>

record file_view =
  fv_id :: uuid
  fv_path :: "string option"
  fv_status :: string
  fv_hash :: string
  fv_seen :: "uuid option"
  fv_created :: timestamp

definition view :: "file_row \<Rightarrow> file_view" where
  "view r =
     \<lparr>fv_id = fr_id r, fv_path = fr_path r, fv_status = fr_status r, fv_hash = fr_content_hash r,
      fv_seen = fr_last_seen r, fv_created = fr_created_at r\<rparr>"

lemma view_simps [simp]:
  "fv_id (view r) = fr_id r" "fv_path (view r) = fr_path r" "fv_status (view r) = fr_status r"
  "fv_hash (view r) = fr_content_hash r" "fv_seen (view r) = fr_last_seen r"
  "fv_created (view r) = fr_created_at r"
  by (simp_all add: view_def)

definition views :: "store_db \<Rightarrow> file_view set" where
  "views d = view ` set (sd_files d)"

definition same_rest :: "store_db \<Rightarrow> store_db \<Rightarrow> bool" where
  "same_rest d d' =
     (sd_sessions d' = sd_sessions d \<and> sd_mutations d' = sd_mutations d
      \<and> sd_outcomes d' = sd_outcomes d \<and> sd_faults d' = sd_faults d)"

lemma same_rest_refl [simp]: "same_rest d d"
  by (simp add: same_rest_def)

lemma same_rest_trans: "same_rest d d1 \<Longrightarrow> same_rest d1 d2 \<Longrightarrow> same_rest d d2"
  by (simp add: same_rest_def)

section \<open>Fresh identifiers\<close>

definition row_ids :: "file_row \<Rightarrow> uuid set" where
  "row_ids r = insert (fr_id r) (set_option (fr_superseded_by r) \<union> set_option (fr_last_seen r))"

definition used :: "store_db \<Rightarrow> uuid set" where
  "used d =
     \<Union> (row_ids ` set (sd_files d)) \<union> ft_id ` set (sd_transitions d) \<union> sr_id ` set (sd_sessions d)
     \<union> set (sd_outcomes d) \<union> fst ` set (sd_mutations d)"

lemma row_ids_used: "r \<in> set (sd_files d) \<Longrightarrow> i \<in> row_ids r \<Longrightarrow> i \<in> used d"
  by (auto simp: used_def)

definition fresh :: "store_env \<Rightarrow> store_db \<Rightarrow> bool" where
  "fresh E d = (inj (se_uuid E) \<and> (\<forall>k \<ge> sd_minted d. se_uuid E k \<notin> used d))"

lemma fresh_now: "fresh E d \<Longrightarrow> se_uuid E (sd_minted d) \<notin> used d"
  by (simp add: fresh_def)

lemma fresh_mono:
  assumes "fresh E d" "used d' \<subseteq> used d \<union> se_uuid E ` {sd_minted d..<sd_minted d'}" "sd_minted d \<le> sd_minted d'"
  shows "fresh E d'"
  unfolding fresh_def
proof (intro conjI allI impI)
  show inj: "inj (se_uuid E)" using assms(1) by (simp add: fresh_def)
  fix k assume k: "sd_minted d' \<le> k"
  show "se_uuid E k \<notin> used d'"
  proof
    assume "se_uuid E k \<in> used d'"
    moreover have "se_uuid E k \<notin> used d" using assms(1,3) k by (simp add: fresh_def)
    ultimately have "se_uuid E k \<in> se_uuid E ` {sd_minted d..<sd_minted d'}" using assms(2) by blast
    then obtain j where "j < sd_minted d'" "se_uuid E k = se_uuid E j" by auto
    with inj k show False by (metis injD leD)
  qed
qed

lemma add_transition_ok:
  assumes "fresh E d" "\<And>t. ft_id (f t) = ft_id t"
  shows "\<exists>t. add_transition E now i p h sz src f d
      = Inr ((), d\<lparr>sd_minted := Suc (sd_minted d), sd_transitions := sd_transitions d @ [t]\<rparr>)
    \<and> ft_id t = se_uuid E (sd_minted d)"
proof -
  let ?t = "(f (FileTransition_new \<lparr>mint_uuid = se_uuid E (sd_minted d), mint_now = now\<rparr> i p h sz src))
    \<lparr>ft_created_at := now, ft_error_message := None, ft_session_id := None\<rparr>"
  have id: "ft_id ?t = se_uuid E (sd_minted d)" by (simp add: assms(2) FileTransition_new_def)
  moreover have "ft_id ?t \<notin> set (map ft_id (sd_transitions d))"
    using fresh_now [OF assms(1)] unfolding id by (auto simp: used_def)
  ultimately show ?thesis
    by (intro exI [of _ ?t])
      (simp add: add_transition_def tx_bind_def new_uuid_def insert_transition_in_tx_def insert_transition_row_def)
qed

lemma put_files_Inr: "unique_rows rows \<Longrightarrow> put_files msg rows d = Inr ((), d\<lparr>sd_files := rows\<rparr>)"
  by (simp add: put_files_ok)

section \<open>Unique columns under single changes\<close>

lemma uniq_on_update_row:
  assumes u: "uniq_on g R" and ids: "\<And>r. fr_id (f r) = fr_id r"
    and other: "\<And>r r' x. r \<in> R \<Longrightarrow> r' \<in> R \<Longrightarrow> fr_id r = i \<Longrightarrow> fr_id r' \<noteq> i \<Longrightarrow> g (f r) = Some x
      \<Longrightarrow> g r' \<noteq> Some x"
  shows "uniq_on g ((\<lambda>r. if fr_id r = i then f r else r) ` R)"
  unfolding uniq_on_def
proof (intro ballI allI impI)
  let ?h = "\<lambda>r. if fr_id r = i then f r else r"
  fix y y' x
  assume "y \<in> ?h ` R" "y' \<in> ?h ` R"
  then obtain r r' where r: "r \<in> R" "y = ?h r" and r': "r' \<in> R" "y' = ?h r'" by blast
  assume g: "g y = Some x" "g y' = Some x"
  have "fr_id r = fr_id r'"
  proof (cases "fr_id r = i")
    case True
    with other [OF r(1) r'(1)] r(2) r'(2) g show ?thesis by (cases "fr_id r' = i") auto
  next
    case False
    with other [OF r'(1) r(1)] r(2) r'(2) g u [unfolded uniq_on_def, rule_format, OF r(1) r'(1)]
    show ?thesis by (cases "fr_id r' = i") auto
  qed
  then show "fr_id y = fr_id y'" using r(2) r'(2) ids by simp
qed

lemma unique_superseded:
  "unique_rows rows \<Longrightarrow> r \<in> set rows \<Longrightarrow> r' \<in> set rows \<Longrightarrow> fr_superseded_by r = Some x
     \<Longrightarrow> fr_superseded_by r' = Some x \<Longrightarrow> fr_id r = fr_id r'"
  unfolding unique_rows_def uniq_on_def by blast

lemma unique_update_row:
  assumes "unique_rows rows" "\<And>r. fr_id (f r) = fr_id r"
    and "\<And>r r' x. r \<in> set rows \<Longrightarrow> r' \<in> set rows \<Longrightarrow> fr_id r = i \<Longrightarrow> fr_id r' \<noteq> i
      \<Longrightarrow> fr_path (f r) = Some x \<Longrightarrow> fr_path r' \<noteq> Some x"
    and "\<And>r r' x. r \<in> set rows \<Longrightarrow> r' \<in> set rows \<Longrightarrow> fr_id r = i \<Longrightarrow> fr_id r' \<noteq> i
      \<Longrightarrow> fr_superseded_by (f r) = Some x \<Longrightarrow> fr_superseded_by r' \<noteq> Some x"
  shows "unique_rows (rows_where (\<lambda>r. fr_id r = i) f rows)"
proof -
  have "distinct (map fr_id (rows_where (\<lambda>r. fr_id r = i) f rows))"
    using assms(1) ids_rows_where [of f "\<lambda>r. fr_id r = i" rows] assms(2) by (simp add: unique_rows_def)
  moreover have "uniq_on fr_path (set (rows_where (\<lambda>r. fr_id r = i) f rows))"
    unfolding set_rows_where using assms(1-3) by (intro uniq_on_update_row) (auto simp: unique_rows_def)
  moreover have "uniq_on fr_superseded_by (set (rows_where (\<lambda>r. fr_id r = i) f rows))"
    unfolding set_rows_where using assms(1,2,4) by (intro uniq_on_update_row) (auto simp: unique_rows_def)
  ultimately show ?thesis by (simp add: unique_rows_def)
qed

text \<open>A change that only clears values cannot make two rows share one.\<close>

lemma uniq_on_weaker:
  assumes u: "uniq_on g R" and ids: "\<And>r. fr_id (h r) = fr_id r"
    and weaker: "\<And>r x. g (h r) = Some x \<Longrightarrow> g r = Some x"
  shows "uniq_on g (h ` R)"
  unfolding uniq_on_def
proof (intro ballI allI impI)
  fix y y' x
  assume "y \<in> h ` R" "y' \<in> h ` R"
  then obtain r r' where r: "r \<in> R" "y = h r" and r': "r' \<in> R" "y' = h r'" by blast
  assume "g y = Some x" "g y' = Some x"
  then have "g r = Some x" "g r' = Some x" unfolding r(2) r'(2) by (blast dest: weaker)+
  then have "fr_id r = fr_id r'" by (rule u [unfolded uniq_on_def, rule_format, OF r(1) r'(1)])
  then show "fr_id y = fr_id y'" unfolding r(2) r'(2) ids .
qed

lemma unique_weaker:
  assumes "unique_rows rows" "\<And>r. fr_id (f r) = fr_id r"
    and "\<And>r x. fr_path (f r) = Some x \<Longrightarrow> fr_path r = Some x"
    and "\<And>r x. fr_superseded_by (f r) = Some x \<Longrightarrow> fr_superseded_by r = Some x"
  shows "unique_rows (rows_where P f rows)"
proof -
  let ?h = "\<lambda>r. if P r then f r else r"
  have "uniq_on fr_path (?h ` set rows)" "uniq_on fr_superseded_by (?h ` set rows)"
    using assms(1) unfolding unique_rows_def
    by (elim conjE, intro uniq_on_weaker; simp only: assms(2) split: if_splits; blast dest: assms(3,4))+
  with assms(1) ids_rows_where [of f P rows] assms(2) show ?thesis
    unfolding unique_rows_def set_rows_where by simp
qed

lemma unique_append:
  assumes "unique_rows rows" "fr_id n \<notin> fr_id ` set rows" "fr_superseded_by n = None"
    "\<And>r. r \<in> set rows \<Longrightarrow> fr_path r \<noteq> fr_path n"
  shows "unique_rows (rows @ [n])"
proof -
  have "uniq_on fr_path (insert n (set rows))" "uniq_on fr_superseded_by (insert n (set rows))"
    unfolding uniq_on_insert using assms by (auto simp: unique_rows_def) (metis+)?
  with assms show ?thesis by (simp add: unique_rows_def)
qed

section \<open>Views under single changes\<close>

lemma in_rows_where: "r \<in> set rows \<Longrightarrow> (if P r then f r else r) \<in> set (rows_where P f rows)"
  unfolding set_rows_where by (rule imageI)

lemma rows_whereE:
  assumes "x \<in> set (rows_where P f rows)"
  obtains r where "r \<in> set rows" "x = (if P r then f r else r)"
  using assms unfolding set_rows_where by (rule imageE) blast

lemma used_update:
  assumes "\<And>r. row_ids (f r) \<subseteq> row_ids r \<union> X"
  shows "used (d\<lparr>sd_files := rows_where P f (sd_files d)\<rparr>) \<subseteq> used d \<union> X"
proof
  fix i assume i: "i \<in> used (d\<lparr>sd_files := rows_where P f (sd_files d)\<rparr>)"
  show "i \<in> used d \<union> X"
  proof (cases "i \<in> \<Union> (row_ids ` set (rows_where P f (sd_files d)))")
    case True
    then obtain x where "x \<in> set (rows_where P f (sd_files d))" "i \<in> row_ids x" by blast
    then obtain r where "r \<in> set (sd_files d)" "i \<in> row_ids (if P r then f r else r)"
      by (elim rows_whereE) simp
    then show ?thesis using assms [of r] row_ids_used [of r d i] by (cases "P r") auto
  next
    case False
    with i show ?thesis by (simp add: used_def)
  qed
qed

lemma update_files_Inr:
  "unique_rows (rows_where P f (sd_files d))
     \<Longrightarrow> update_files msg P f d = Inr ((), d\<lparr>sd_files := rows_where P f (sd_files d)\<rparr>)"
  by (simp add: update_files_rows put_files_Inr)

lemma view_update_row:
  assumes "unique_rows rows" "r \<in> set rows"
  shows "view ` set (rows_where (\<lambda>x. fr_id x = fr_id r) f rows)
    = (view ` set rows - {view r}) \<union> {view (f r)}"
proof -
  have eq: "x = r" if "x \<in> set rows" "fr_id x = fr_id r" for x
    using unique_id [OF assms(1) that(1) assms(2) that(2)] .
  have ne: "view x \<noteq> view r" if "fr_id x \<noteq> fr_id r" for x using that by (metis view_simps(1))
  show ?thesis
  proof (intro equalityI subsetI)
    fix v assume "v \<in> view ` set (rows_where (\<lambda>x. fr_id x = fr_id r) f rows)"
    then obtain x where x: "x \<in> set rows" "v = view (if fr_id x = fr_id r then f x else x)"
      by (elim imageE rows_whereE) simp
    show "v \<in> (view ` set rows - {view r}) \<union> {view (f r)}"
    proof (cases "fr_id x = fr_id r")
      case True with eq x show ?thesis by auto
    next
      case False with ne x show ?thesis by auto
    qed
  next
    fix v assume "v \<in> (view ` set rows - {view r}) \<union> {view (f r)}"
    then consider "v = view (f r)" | x where "x \<in> set rows" "v = view x" "v \<noteq> view r" by blast
    then show "v \<in> view ` set (rows_where (\<lambda>x. fr_id x = fr_id r) f rows)"
    proof cases
      case 1
      with in_rows_where [OF assms(2), of "\<lambda>x. fr_id x = fr_id r" f] show ?thesis by simp
    next
      case (2 x)
      then have "fr_id x \<noteq> fr_id r" using eq by blast
      with 2 in_rows_where [OF 2(1), of "\<lambda>x. fr_id x = fr_id r" f] show ?thesis by simp
    qed
  qed
qed

lemma view_same:
  assumes "\<And>r. view (f r) = view r"
  shows "view ` set (rows_where P f rows) = view ` set rows"
proof -
  have "view (if P r then f r else r) = view r" for r using assms by simp
  then show ?thesis unfolding set_rows_where image_image by simp
qed

lemma view_delete_row:
  assumes "unique_rows rows" "r \<in> set rows"
  shows "view ` set (filter (\<lambda>x. fr_id x \<noteq> fr_id r) rows) = view ` set rows - {view r}"
proof (intro equalityI subsetI)
  fix v assume "v \<in> view ` set (filter (\<lambda>x. fr_id x \<noteq> fr_id r) rows)"
  then obtain y where "y \<in> set rows" "fr_id y \<noteq> fr_id r" "v = view y" by auto
  then show "v \<in> view ` set rows - {view r}" by (metis DiffI imageI singletonD view_simps(1))
next
  fix v assume "v \<in> view ` set rows - {view r}"
  then obtain y where y: "y \<in> set rows" "v = view y" "v \<noteq> view r" by blast
  then have "fr_id y \<noteq> fr_id r" using unique_id [OF assms(1) y(1) assms(2)] by blast
  with y show "v \<in> view ` set (filter (\<lambda>x. fr_id x \<noteq> fr_id r) rows)" by simp
qed

section \<open>Ingesting one file\<close>

definition ingested :: "ingest_ctx \<Rightarrow> file_view \<Rightarrow> bool" where
  "ingested c v =
     (fv_path v = Some (ic_path c) \<and> fv_status v = ''active'' \<and> fv_seen v = Some (ic_session c)
      \<and> fv_hash v = df_content_hash (ic_file c))"

definition superseded :: "ingest_ctx \<Rightarrow> file_view \<Rightarrow> bool" where
  "superseded c v =
     (fv_path v = None \<and> fv_status v = ''missing'' \<and> fv_seen v \<noteq> Some (ic_session c))"

text \<open>
  The effect on the views: those in \<open>A\<close>, at the path or not active, give way to those in \<open>B\<close>, one of which is
  the ingested file. A row in \<open>B\<close> is one of \<open>A\<close> or was created now.
\<close>

definition from_row :: "store_env \<Rightarrow> ingest_ctx \<Rightarrow> file_view set \<Rightarrow> store_db \<Rightarrow> file_view \<Rightarrow> bool" where
  "from_row E c A d v =
     ((\<exists>a \<in> A. fv_id a = fv_id v \<and> fv_created a = fv_created v)
      \<or> fv_created v = ic_now c \<and> fv_id v \<in> se_uuid E ` {sd_minted d..})"

definition ingest_views ::
  "store_env \<Rightarrow> ingest_ctx \<Rightarrow> store_db \<Rightarrow> store_db \<Rightarrow> file_view set \<Rightarrow> file_view set \<Rightarrow> bool" where
  "ingest_views E c d d' A B =
     (views d' = (views d - A) \<union> B \<and> A \<subseteq> views d
      \<and> (\<forall>v \<in> A. fv_path v = Some (ic_path c) \<or> fv_status v \<noteq> ''active'')
      \<and> (\<forall>v \<in> B. (ingested c v \<or> superseded c v) \<and> from_row E c A d v)
      \<and> (\<exists>v \<in> B. ingested c v))"

definition ingest_effect :: "store_env \<Rightarrow> ingest_ctx \<Rightarrow> store_db \<Rightarrow> store_db \<Rightarrow> bool" where
  "ingest_effect E c d d' =
     (unique_rows (sd_files d') \<and> same_rest d d' \<and> fresh E d' \<and> (\<exists>A B. ingest_views E c d d' A B))"

lemma ingest_effectI:
  assumes "unique_rows (sd_files d')" "same_rest d d'" "fresh E d'" "ingest_views E c d d' A B"
  shows "ingest_effect E c d d'"
  using assms by (auto simp: ingest_effect_def)

lemma unchanged_effect:
  assumes "unique_rows (sd_files d)" "fresh E d" "ic_session c \<in> sr_id ` set (sd_sessions d)"
    and r: "r \<in> set (sd_files d)" "fr_path r = Some (ic_path c)"
  shows "\<exists>x d'. ingest_unchanged_in_tx c (fr_id r) b d = Inr (x, d') \<and> ingest_effect E c d d'"
proof -
  let ?P = "\<lambda>x. fr_id x = fr_id r"
  let ?f = "\<lambda>r. r\<lparr>fr_size := as_i64 (df_size (ic_file c)), fr_content_hash := df_content_hash (ic_file c),
    fr_status := ''active'', fr_missing_since := None, fr_last_seen := Some (ic_session c),
    fr_updated_at := ic_now c\<rparr>"
  let ?g = "\<lambda>r. r\<lparr>fr_expected_hash := Some (df_content_hash (ic_file c))\<rparr>"
  let ?rows1 = "rows_where ?P ?f (sd_files d)"
  let ?rows = "if b then rows_where ?P ?g ?rows1 else ?rows1"
  let ?d = "d\<lparr>sd_files := ?rows\<rparr>"
  have u1: "unique_rows ?rows1" by (rule unique_weaker [OF assms(1)]) simp_all
  then have u2: "unique_rows (rows_where ?P ?g ?rows1)" by (rule unique_weaker) simp_all
  have run: "ingest_unchanged_in_tx c (fr_id r) b d = Inr (fr_id r, ?d)"
    using u1 u2 by (simp add: ingest_unchanged_in_tx_def tx_bind_def tx_return_def update_files_Inr)
  have "view ` set ?rows = view ` set ?rows1"
    using view_same [of ?g ?P ?rows1] by (simp add: view_def)
  also have "\<dots> = (view ` set (sd_files d) - {view r}) \<union> {view (?f r)}"
    by (rule view_update_row [OF assms(1) r(1)])
  finally have "ingest_views E c d ?d {view r} {view (?f r)}"
    using r by (auto simp: ingest_views_def views_def ingested_def from_row_def)
  moreover have "fresh E ?d"
  proof (rule fresh_mono [OF assms(2)])
    have "used (d\<lparr>sd_files := ?rows1\<rparr>) \<subseteq> used d \<union> {ic_session c}"
      by (rule used_update) (auto simp: row_ids_def)
    moreover have "used (d\<lparr>sd_files := rows_where ?P ?g ?rows1\<rparr>) \<subseteq> used (d\<lparr>sd_files := ?rows1\<rparr>) \<union> {}"
      using used_update [of ?g "{}" ?P "d\<lparr>sd_files := ?rows1\<rparr>"] by (simp add: row_ids_def)
    moreover have "ic_session c \<in> used d" using assms(3) by (simp add: used_def)
    ultimately show "used ?d \<subseteq> used d \<union> se_uuid E ` {sd_minted d..<sd_minted ?d}"
      by (cases b) auto
  qed simp
  moreover have "same_rest d ?d" by (simp add: same_rest_def)
  moreover have "unique_rows (sd_files ?d)" using u1 u2 by simp
  ultimately show ?thesis using run ingest_effectI by blast
qed

text \<open>A transition that is added afterwards does not touch the files.\<close>

lemma transition_effect:
  assumes "ingest_effect E c d d1" "\<And>t. ft_id (f t) = ft_id t"
  shows "\<exists>d'. ingest_transition E c i src f d1 = Inr ((), d') \<and> ingest_effect E c d d'"
proof -
  from assms(1) obtain A B where eff: "unique_rows (sd_files d1)" "same_rest d d1" "fresh E d1"
    "ingest_views E c d d1 A B" by (auto simp: ingest_effect_def)
  obtain t where t: "ingest_transition E c i src f d1
      = Inr ((), d1\<lparr>sd_minted := Suc (sd_minted d1), sd_transitions := sd_transitions d1 @ [t]\<rparr>)"
      "ft_id t = se_uuid E (sd_minted d1)"
    unfolding ingest_transition_def using add_transition_ok [OF eff(3) assms(2)] by blast
  let ?d = "d1\<lparr>sd_minted := Suc (sd_minted d1), sd_transitions := sd_transitions d1 @ [t]\<rparr>"
  have "fresh E ?d"
    by (rule fresh_mono [OF eff(3)]) (auto simp: used_def t(2))
  moreover have "ingest_views E c d ?d A B" using eff(4) by (simp add: ingest_views_def views_def)
  moreover have "same_rest d ?d" using eff(2) by (simp add: same_rest_def)
  ultimately show ?thesis using t(1) eff(1) ingest_effectI [of ?d] by auto
qed

lemma new_effect:
  assumes "unique_rows (sd_files d)" "fresh E d" "ic_session c \<in> sr_id ` set (sd_sessions d)"
    and free: "\<And>r. r \<in> set (sd_files d) \<Longrightarrow> fr_path r \<noteq> Some (ic_path c)"
  shows "\<exists>x d'. ingest_new_in_tx E c d = Inr (x, d') \<and> ingest_effect E c d d'"
proof -
  let ?i = "se_uuid E (sd_minted d)"
  let ?d1 = "d\<lparr>sd_minted := Suc (sd_minted d)\<rparr>"
  obtain n where ins: "insert_active_file_in_tx ''failed to insert new file in ingest'' c ?i ?d1
      = put_files ''failed to insert new file in ingest'' (sd_files ?d1 @ [n]) ?d1"
    and n: "fr_id n = ?i" "fr_path n = Some (ic_path c)" "fr_superseded_by n = None" "ingested c (view n)"
      "fr_created_at n = ic_now c" "fr_last_seen n = Some (ic_session c)"
    by (simp add: insert_active_file_in_tx_def ingested_def)
  let ?d2 = "?d1\<lparr>sd_files := sd_files d @ [n]\<rparr>"
  have i: "?i \<notin> used d" by (rule fresh_now [OF assms(2)])
  then have "?i \<notin> fr_id ` set (sd_files d)" by (auto simp: used_def row_ids_def)
  then have u: "unique_rows (sd_files d @ [n])"
    using free n by (intro unique_append [OF assms(1)]) auto
  have "ingest_views E c d ?d2 {} {view n}"
    using n i by (auto simp: ingest_views_def views_def from_row_def)
  moreover have "ic_session c \<in> used d" using assms(3) by (simp add: used_def)
  then have "fresh E ?d2"
    by (intro fresh_mono [OF assms(2)]) (auto simp: used_def row_ids_def n)
  moreover have "same_rest d ?d2" by (simp add: same_rest_def)
  ultimately have eff: "ingest_effect E c d ?d2" using u by (auto simp: ingest_effect_def)
  obtain d' where "ingest_transition E c ?i TsDiscovery id ?d2 = Inr ((), d')" "ingest_effect E c d d'"
    using transition_effect [OF eff, of id] by auto
  then show ?thesis
    using ins u by (simp add: ingest_new_in_tx_def tx_bind_def new_uuid_def tx_return_def put_files_Inr)
qed

lemma moved_effect:
  assumes "unique_rows (sd_files d)" "fresh E d" "ic_session c \<in> sr_id ` set (sd_sessions d)"
    and free: "\<And>r. r \<in> set (sd_files d) \<Longrightarrow> fr_path r \<noteq> Some (ic_path c)"
    and r: "r \<in> set (sd_files d)" "fr_status r \<noteq> ''active''"
  shows "\<exists>x d'. ingest_moved_in_tx E c (fr_id r) q d = Inr (x, d') \<and> ingest_effect E c d d'"
proof -
  let ?P = "\<lambda>x. fr_id x = fr_id r"
  let ?f = "\<lambda>r. r\<lparr>fr_path := Some (ic_path c), fr_filename := ic_filename c,
              fr_size := as_i64 (df_size (ic_file c)), fr_content_hash := df_content_hash (ic_file c),
              fr_status := ''active'', fr_missing_since := None, fr_last_seen := Some (ic_session c),
              fr_updated_at := ic_now c\<rparr>"
  let ?d = "d\<lparr>sd_files := rows_where ?P ?f (sd_files d)\<rparr>"
  have u: "unique_rows (rows_where ?P ?f (sd_files d))"
  proof (rule unique_update_row [OF assms(1)])
    fix a b x
    assume "a \<in> set (sd_files d)" "b \<in> set (sd_files d)" "fr_id a = fr_id r" "fr_id b \<noteq> fr_id r"
      "fr_superseded_by (?f a) = Some x"
    then show "fr_superseded_by b \<noteq> Some x"
      using unique_superseded [OF assms(1), of a b x] by auto
  qed (use free in auto)
  have "ingest_views E c d ?d {view r} {view (?f r)}"
    using r view_update_row [OF assms(1) r(1), of ?f]
    by (auto simp: ingest_views_def views_def ingested_def from_row_def)
  moreover have "ic_session c \<in> used d" using assms(3) by (simp add: used_def)
  then have "fresh E ?d"
    using used_update [of ?f "{ic_session c}" ?P d] by (intro fresh_mono [OF assms(2)]) (auto simp: row_ids_def)
  moreover have "same_rest d ?d" by (simp add: same_rest_def)
  ultimately have eff: "ingest_effect E c d ?d" using u by (auto simp: ingest_effect_def)
  obtain d' where "ingest_transition E c (fr_id r) TsDiscovery
      (\<lambda>t. with_detail ''detected_move'' (with_from_path q t)) ?d = Inr ((), d')" "ingest_effect E c d d'"
    using transition_effect [OF eff, of "\<lambda>t. with_detail ''detected_move'' (with_from_path q t)"]
    by (auto simp: with_detail_def with_from_path_def)
  then show ?thesis
    using u by (simp add: ingest_moved_in_tx_def tx_bind_def tx_return_def update_files_Inr)
qed

lemma external_effect:
  assumes "unique_rows (sd_files d)" "fresh E d" "ic_session c \<in> sr_id ` set (sd_sessions d)"
    and r: "r \<in> set (sd_files d)" "fr_path r = Some (ic_path c)" "fr_last_seen r \<noteq> Some (ic_session c)"
  shows "\<exists>x d'. ingest_externally_changed_in_tx E c r d = Inr (x, d') \<and> ingest_effect E c d d'"
proof -
  let ?i = "se_uuid E (sd_minted d)" and ?P = "\<lambda>x. fr_id x = fr_id r"
  let ?f = "\<lambda>r. r\<lparr>fr_path := None, fr_status := ''missing'', fr_missing_since := Some (ic_now c),
                fr_superseded_by := Some ?i\<rparr>"
  let ?msg = "''failed to insert new file for external change''"
  let ?d1 = "d\<lparr>sd_minted := Suc (sd_minted d)\<rparr>"
  have i: "?i \<notin> used d" by (rule fresh_now [OF assms(2)])
  have "fresh E ?d1" by (rule fresh_mono [OF assms(2)]) (auto simp: used_def)
  moreover have "ft_id (with_from h sz t) = ft_id t" for h sz t by (simp add: with_from_def)
  ultimately obtain t where t: "ingest_transition E c (fr_id r) TsExternal
      (with_from (fr_expected_hash r) (Some (as_u64 (fr_size r)))) ?d1
    = Inr ((), ?d1\<lparr>sd_minted := Suc (sd_minted ?d1), sd_transitions := sd_transitions ?d1 @ [t]\<rparr>)"
      "ft_id t = se_uuid E (sd_minted ?d1)"
    unfolding ingest_transition_def using add_transition_ok [of E ?d1] by blast
  let ?d2 = "?d1\<lparr>sd_minted := Suc (sd_minted ?d1), sd_transitions := sd_transitions ?d1 @ [t]\<rparr>"
  let ?rows = "rows_where ?P ?f (sd_files d)"
  have u: "unique_rows ?rows"
  proof (rule unique_update_row [OF assms(1)])
    fix a b x
    assume "b \<in> set (sd_files d)" "fr_superseded_by (?f a) = Some x"
    then show "fr_superseded_by b \<noteq> Some x" using i row_ids_used [of b d] by (auto simp: row_ids_def)
  qed auto
  have mark: "update_files ''failed to clear old file for external change'' ?P ?f ?d2
      = Inr ((), ?d2\<lparr>sd_files := ?rows\<rparr>)"
    using update_files_Inr [of ?P ?f ?d2] u by simp
  let ?d3 = "?d2\<lparr>sd_files := ?rows\<rparr>"
  obtain n where ins: "insert_active_file_in_tx ?msg c ?i ?d3 = put_files ?msg (sd_files ?d3 @ [n]) ?d3"
    and n: "fr_id n = ?i" "fr_path n = Some (ic_path c)" "fr_superseded_by n = None" "ingested c (view n)"
      "fr_created_at n = ic_now c" "fr_last_seen n = Some (ic_session c)"
    by (simp add: insert_active_file_in_tx_def ingested_def)
  have ids: "fr_id ` set ?rows = fr_id ` set (sd_files d)"
    using ids_rows_where [of ?f ?P "sd_files d"] by (metis (no_types, lifting) file_row.select_convs(1)
        file_row.surjective file_row.update_convs(2,7,8,9) list.set_map)
  have free: "fr_path x \<noteq> Some (ic_path c)" if x: "x \<in> set ?rows" for x
  proof -
    obtain y where y: "y \<in> set (sd_files d)" "x = (if ?P y then ?f y else y)" using x by (rule rows_whereE)
    show ?thesis
    proof (cases "?P y")
      case True with y show ?thesis by simp
    next
      case False
      then have "fr_path y \<noteq> Some (ic_path c)" using unique_path [OF assms(1) y(1) r(1)] r(2) by blast
      with False y(2) show ?thesis by simp
    qed
  qed
  have u4: "unique_rows (?rows @ [n])"
    using free n i ids by (intro unique_append [OF u]) (auto simp: used_def row_ids_def)
  let ?d4 = "?d3\<lparr>sd_files := ?rows @ [n]\<rparr>"
  have "ingest_views E c d ?d4 {view r} {view (?f r), view n}"
    using n i r view_update_row [OF assms(1) r(1), of ?f]
    by (auto simp: ingest_views_def views_def from_row_def superseded_def)
  moreover have "fresh E ?d4"
  proof (rule fresh_mono [OF assms(2)])
    have "used (d\<lparr>sd_files := ?rows\<rparr>) \<subseteq> used d \<union> {?i}" by (rule used_update) (auto simp: row_ids_def)
    moreover have "ic_session c \<in> used d" using assms(3) by (simp add: used_def)
    moreover have "used ?d4 \<subseteq> used (d\<lparr>sd_files := ?rows\<rparr>) \<union> {?i, ft_id t, ic_session c}"
      by (auto simp: used_def row_ids_def n)
    moreover have "?i \<in> se_uuid E ` {sd_minted d..<sd_minted ?d4}" "ft_id t \<in> se_uuid E ` {sd_minted d..<sd_minted ?d4}"
      by (auto simp: t(2))
    ultimately show "used ?d4 \<subseteq> used d \<union> se_uuid E ` {sd_minted d..<sd_minted ?d4}"
      by blast
  qed simp
  moreover have "same_rest d ?d4" by (simp add: same_rest_def)
  ultimately have eff: "ingest_effect E c d ?d4" using u4 by (auto simp: ingest_effect_def)
  obtain d' where d': "ingest_transition E c ?i TsDiscovery id ?d4 = Inr ((), d')" "ingest_effect E c d d'"
    using transition_effect [OF eff, of id] by auto
  have "insert_active_file_in_tx ?msg c ?i ?d3 = Inr ((), ?d4)" using ins u4 by (simp add: put_files_Inr)
  with t(1) mark d'(1) have "ingest_externally_changed_in_tx E c r d = Inr ((?i, fr_id r), d')"
    unfolding ingest_externally_changed_in_tx_def tx_bind_def new_uuid_def tx_return_def
    by (simp only: sum.case prod.case)
  with d'(2) show ?thesis by blast
qed

definition order_ok :: "store_env \<Rightarrow> bool" where
  "order_ok E = (\<forall>rows. mset (se_order E rows) = mset rows)"

lemma order_set [simp]: "order_ok E \<Longrightarrow> set (se_order E rows) = set rows"
  by (metis order_ok_def set_mset_mset)

lemma move_candidate_row:
  assumes "order_ok E" "find_move_candidate E roots h d = Some (i, q)"
  shows "\<exists>r \<in> set (sd_files d). fr_id r = i \<and> fr_status r = ''missing'' \<and> fr_path r = Some q"
proof -
  from assms(2) have "(i, q) \<in> set (List.map_filter
      (\<lambda>r. if fr_expected_hash r = Some h \<and> fr_status r = ''missing''
           then map_option (Pair (fr_id r)) (fr_path r) else None) (se_order E (sd_files d)))"
    unfolding find_move_candidate_def by (auto simp: find_Some_iff in_set_conv_nth)
  then show ?thesis using assms(1) by (auto simp: map_filter_def split: if_splits)
qed

lemma no_row_effect:
  assumes "order_ok E" "unique_rows (sd_files d)" "fresh E d" "session_of (ic_session c) d = Some S"
    and free: "\<And>r. r \<in> set (sd_files d) \<Longrightarrow> fr_path r \<noteq> Some (ic_path c)"
  shows "\<exists>dec d'. ingest_no_row E c d = Inr (dec, d') \<and> ingest_effect E c d d'"
proof -
  have s: "ic_session c \<in> sr_id ` set (sd_sessions d)"
    using assms(4) by (auto simp: session_of_def find_Some_iff) (metis imageI nth_mem)
  show ?thesis
  proof (cases "find_move_candidate E (sr_roots S) (df_content_hash (ic_file c)) d")
    case None
    with new_effect [OF assms(2,3) s free] assms(4) show ?thesis
      by (auto simp: ingest_no_row_def tx_bind_def tx_return_def)
  next
    case (Some m)
    obtain i q where m: "m = (i, q)" by fastforce
    then obtain r where r: "r \<in> set (sd_files d)" "fr_id r = i" "fr_status r = ''missing''"
      using move_candidate_row [OF assms(1)] Some by blast
    from moved_effect [OF assms(2,3) s free r(1), of q] r Some m assms(4) show ?thesis
      by (auto simp: ingest_no_row_def tx_bind_def tx_return_def)
  qed
qed

lemma recover_effect:
  assumes "unique_rows (sd_files d)" "fresh E d" and r: "r \<in> set (sd_files d)"
    and out: "fr_id r \<notin> set (sd_outcomes d)"
  shows "\<exists>d'. recover_stub_in_tx (fr_id r) d = Inr ((), d') \<and> unique_rows (sd_files d') \<and> fresh E d'
    \<and> same_rest d d' \<and> views d' = views d - {view r} \<and> sd_minted d' = sd_minted d"
proof -
  let ?P = "\<lambda>x. fr_superseded_by x = Some (fr_id r)" and ?f = "\<lambda>x. x\<lparr>fr_superseded_by := None\<rparr>"
  let ?rows = "rows_where ?P ?f (sd_files d)" and ?i = "fr_id r"
  have u: "unique_rows ?rows" by (rule unique_weaker [OF assms(1)]) simp_all
  obtain r' where r': "r' \<in> set ?rows" "fr_id r' = ?i" "view r' = view r"
    using in_rows_where [OF r, of ?P ?f] by (metis (no_types, lifting) view_def file_row.select_convs
        file_row.surjective file_row.update_convs(9))
  let ?gone = "set (map fr_id (filter (\<lambda>x. fr_id x = ?i) ?rows))"
  let ?d = "d\<lparr>sd_files := filter (\<lambda>x. fr_id x \<noteq> ?i) ?rows,
      sd_transitions := filter (\<lambda>t. ft_file_id t \<noteq> ?i) (sd_transitions d),
      sd_tracks := filter (\<lambda>(j, t). j \<notin> ?gone) (sd_tracks d)\<rparr>"
  have "recover_stub_in_tx ?i d = Inr ((), ?d)"
    using out update_files_Inr [OF u]
    by (auto simp: recover_stub_in_tx_def tx_bind_def tx_return_def delete_transitions_def delete_files_def
        Let_def list_ex_iff)
  moreover have "unique_rows (sd_files ?d)" using unique_filter [OF u] by simp
  moreover have "fresh E ?d"
  proof (rule fresh_mono [OF assms(2)])
    have "used (d\<lparr>sd_files := ?rows\<rparr>) \<subseteq> used d \<union> {}" by (rule used_update) (auto simp: row_ids_def)
    moreover have "used ?d \<subseteq> used (d\<lparr>sd_files := ?rows\<rparr>)" by (auto simp: used_def)
    ultimately show "used ?d \<subseteq> used d \<union> se_uuid E ` {sd_minted d..<sd_minted ?d}" by blast
  qed simp
  moreover have "views ?d = views d - {view r}"
    using view_delete_row [OF u r'(1)] r'(2,3) view_same [of ?f ?P "sd_files d"]
    by (simp add: views_def view_def)
  moreover have "same_rest d ?d" by (simp add: same_rest_def)
  ultimately show ?thesis by (intro exI [of _ ?d]) simp
qed

definition already_seen :: "ingest_ctx \<Rightarrow> store_db \<Rightarrow> bool" where
  "already_seen c d =
     (\<exists>v \<in> views d. fv_path v = Some (ic_path c) \<and> fv_seen v = Some (ic_session c))"

lemma recovered_effect:
  assumes "order_ok E" "unique_rows (sd_files d)" "fresh E d" "session_of (ic_session c) d = Some S"
    and r: "r \<in> set (sd_files d)" "fr_path r = Some (ic_path c)" "fr_id r \<notin> set (sd_outcomes d)"
  shows "\<exists>dec d'. tx_bind (recover_stub_in_tx (fr_id r)) (\<lambda>_. ingest_no_row E c) d = Inr (dec, d')
    \<and> ingest_effect E c d d'"
proof -
  obtain d1 where d1: "recover_stub_in_tx (fr_id r) d = Inr ((), d1)" "unique_rows (sd_files d1)" "fresh E d1"
      "same_rest d d1" "views d1 = views d - {view r}" "sd_minted d1 = sd_minted d"
    using recover_effect [OF assms(2,3) r(1,3)] by blast
  have "fr_path x \<noteq> Some (ic_path c)" if "x \<in> set (sd_files d1)" for x
  proof
    assume p: "fr_path x = Some (ic_path c)"
    have "view x \<in> views d - {view r}" using that d1(5) by (auto simp: views_def)
    then obtain y where y: "y \<in> set (sd_files d)" "view y = view x" "view x \<noteq> view r"
      by (auto simp: views_def)
    then have "fr_path y = Some (ic_path c)" using p by (metis view_simps(2))
    then have "y = r" using unique_path [OF assms(2) y(1) r(1)] r(2) by blast
    with y show False by simp
  qed
  moreover have "session_of (ic_session c) d1 = Some S"
    using assms(4) d1(4) by (simp add: session_of_def same_rest_def)
  ultimately obtain dec d' where d': "ingest_no_row E c d1 = Inr (dec, d')" "ingest_effect E c d1 d'"
    using no_row_effect [OF assms(1) d1(2,3)] by blast
  then obtain A B where eff: "unique_rows (sd_files d')" "same_rest d1 d'" "fresh E d'" "ingest_views E c d1 d' A B"
    by (auto simp: ingest_effect_def)
  have "ingest_views E c d d' (insert (view r) A) B"
    using eff(4) d1(5,6) r(1,2) unfolding ingest_views_def
    by (auto simp: views_def from_row_def)
  then have "ingest_effect E c d d'"
    using eff(1-3) same_rest_trans [OF d1(4)] by (auto simp: ingest_effect_def)
  with d1(1) d'(1) show ?thesis by (simp add: tx_bind_def)
qed

lemma ingest_ok:
  assumes "order_ok E" "unique_rows (sd_files d)" "fresh E d"
    and S: "session_of (ic_session c) d = Some S" "sr_status S = ''in_progress''"
    and out: "\<And>r. r \<in> set (sd_files d) \<Longrightarrow> fr_id r \<in> set (sd_outcomes d) \<Longrightarrow> fr_path r = Some (ic_path c)
      \<Longrightarrow> fr_last_seen r = Some (ic_session c) \<or> \<not> prior_session_needs_recovery (fr_last_seen r) d"
  shows "\<exists>dec d'. ingest_in_tx E c d = Inr (dec, d')
    \<and> (if already_seen c d then d' = d else ingest_effect E c d d')"
proof -
  have valid: "ingest_in_tx E c d = ingest_by_path E c d"
    by (simp add: ingest_in_tx_def tx_bind_def validate_session_in_progress_in_tx_def S
        ScanSessionStatus_parse_def)
  have s: "ic_session c \<in> sr_id ` set (sd_sessions d)"
    using S(1) by (auto simp: session_of_def find_Some_iff) (metis imageI nth_mem)
  show ?thesis
  proof (cases "lookup_existing_file (ic_path c) d")
    case None
    then have free: "fr_path r \<noteq> Some (ic_path c)" if "r \<in> set (sd_files d)" for r
      using that by (auto simp: lookup_existing_file_def find_None_iff)
    then have "\<not> already_seen c d" by (auto simp: already_seen_def views_def)
    with no_row_effect [OF assms(1-3) S(1) free] None show ?thesis
      unfolding valid by (auto simp: ingest_by_path_def)
  next
    case (Some r)
    then have r: "r \<in> set (sd_files d)" "fr_path r = Some (ic_path c)"
      by (auto simp: lookup_existing_file_def find_Some_iff)
    have by_row: "ingest_in_tx E c d = ingest_existing E c r d"
      unfolding valid using Some by (simp add: ingest_by_path_def)
    have seen: "already_seen c d \<longleftrightarrow> fr_last_seen r = Some (ic_session c)"
    proof
      assume "already_seen c d"
      then obtain x where x: "x \<in> set (sd_files d)" "fr_path x = Some (ic_path c)"
        "fr_last_seen x = Some (ic_session c)" by (auto simp: already_seen_def views_def)
      from unique_path [OF assms(2) x(1) r(1) x(2) r(2)] x(3) show "fr_last_seen r = Some (ic_session c)"
        by simp
    qed (use r in \<open>auto simp: already_seen_def views_def\<close>)
    consider (dup) "fr_last_seen r = Some (ic_session c)"
      | (rec) "fr_last_seen r \<noteq> Some (ic_session c)" "prior_session_needs_recovery (fr_last_seen r) d"
      | (rest) "fr_last_seen r \<noteq> Some (ic_session c)" "\<not> prior_session_needs_recovery (fr_last_seen r) d"
      by blast
    then show ?thesis
    proof cases
      case dup
      with seen show ?thesis unfolding by_row by (auto simp: ingest_existing_def)
    next
      case rec
      with out r have "fr_id r \<notin> set (sd_outcomes d)" by blast
      with recovered_effect [OF assms(1-3) S(1) r] rec seen show ?thesis
        unfolding by_row by (auto simp: ingest_existing_def)
    next
      case rest
      obtain x d1 where "ingest_unchanged_in_tx c (fr_id r) (fr_expected_hash r = None) d = Inr (x, d1)"
          "ingest_effect E c d d1"
        using unchanged_effect [OF assms(2,3) s r] by blast
      moreover obtain y d2 where "ingest_externally_changed_in_tx E c r d = Inr (y, d2)"
          "ingest_effect E c d d2"
        using external_effect [OF assms(2,3) s r rest(1)] by blast
      ultimately show ?thesis
        using rest seen unfolding by_row by (simp add: ingest_existing_def tx_bind_def tx_return_def)
    qed
  qed
qed

end
