(* ===== verification/Scan_Reconcile.thy ===== *)
theory Scan_Reconcile
  imports Scan_Correct
begin

text \<open>
  A whole scan refines its specification: afterwards the active files under the scanned roots are the
  discovered ones, with the discovered contents, and what VOOM itself has touched during the session.
\<close>

section \<open>The table during a scan\<close>

definition active_path :: "store_db \<Rightarrow> string \<Rightarrow> bool" where
  "active_path d p = (\<exists>v \<in> views d. fv_status v = ''active'' \<and> fv_path v = Some p)"

text \<open>What was discovered so far: paths with the contents of their first occurrence.\<close>

type_synonym found = "(string \<times> string) list"

definition seen_ok :: "uuid \<Rightarrow> found \<Rightarrow> store_db \<Rightarrow> bool" where
  "seen_ok s D d =
     ((\<forall>v \<in> views d. fv_seen v = Some s \<longrightarrow> fv_status v = ''active''
         \<and> (\<exists>p. fv_path v = Some p \<and> map_of D p = Some (fv_hash v)))
      \<and> (\<forall>p \<in> fst ` set D. \<exists>v \<in> views d. fv_path v = Some p \<and> fv_seen v = Some s))"

text \<open>Files with a transcode outcome are older than the session.\<close>

definition outcomes_old :: "timestamp \<Rightarrow> store_db \<Rightarrow> bool" where
  "outcomes_old t d = (\<forall>v \<in> views d. fv_id v \<in> set (sd_outcomes d) \<longrightarrow> fv_created v < t)"

definition outcomes_settled :: "uuid \<Rightarrow> store_db \<Rightarrow> bool" where
  "outcomes_settled s d =
     (\<forall>v \<in> views d. fv_path v \<noteq> None \<longrightarrow> fv_id v \<in> set (sd_outcomes d)
        \<longrightarrow> fv_seen v = Some s \<or> \<not> prior_session_needs_recovery (fv_seen v) d)"

text \<open>The active rows at paths that were not discovered stay as they are.\<close>

definition untouched :: "(string \<Rightarrow> bool) \<Rightarrow> store_db \<Rightarrow> store_db \<Rightarrow> bool" where
  "untouched Q d0 d =
     (\<forall>v \<in> views d0. \<forall>p. fv_status v = ''active'' \<longrightarrow> fv_path v = Some p \<longrightarrow> Q p \<longrightarrow> v \<in> views d)"

lemma untouchedD:
  "untouched Q d0 d \<Longrightarrow> v \<in> views d0 \<Longrightarrow> fv_status v = ''active'' \<Longrightarrow> fv_path v = Some p \<Longrightarrow> Q p \<Longrightarrow> v \<in> views d"
  by (simp add: untouched_def)

lemma untouchedI:
  "(\<And>v p. v \<in> views d0 \<Longrightarrow> fv_status v = ''active'' \<Longrightarrow> fv_path v = Some p \<Longrightarrow> Q p \<Longrightarrow> v \<in> views d) \<Longrightarrow> untouched Q d0 d"
  by (simp add: untouched_def)

definition scanning :: "store_env \<Rightarrow> uuid \<Rightarrow> timestamp \<Rightarrow> found \<Rightarrow> store_db \<Rightarrow> store_db \<Rightarrow> bool" where
  "scanning E s t D d0 d =
     (unique_rows (sd_files d) \<and> fresh E d \<and> same_rest d0 d \<and> seen_ok s D d \<and> outcomes_old t d
      \<and> outcomes_settled s d \<and> untouched (\<lambda>p. p \<notin> fst ` set D) d0 d
      \<and> (\<forall>p. active_path d p \<longleftrightarrow> active_path d0 p \<or> p \<in> fst ` set D))"

lemma needs_recovery_same: "same_rest d d' \<Longrightarrow> prior_session_needs_recovery x d' = prior_session_needs_recovery x d"
  by (simp add: prior_session_needs_recovery_def session_of_def same_rest_def split: option.splits)

lemma scanning_step:
  assumes sc: "scanning E s t D d0 d" and s: "ic_session c = s" and new: "\<not> already_seen c d" and eff: "ingest_effect E c d d'"
  shows "scanning E s t (D @ [(ic_path c, df_content_hash (ic_file c))]) d0 d'"
proof -
  let ?p = "ic_path c" and ?h = "df_content_hash (ic_file c)"
  from eff obtain A B where e: "unique_rows (sd_files d')" "same_rest d d'" "fresh E d'"
    and v: "views d' = (views d - A) \<union> B" "A \<subseteq> views d"
      "\<And>v. v \<in> A \<Longrightarrow> fv_path v = Some ?p \<or> fv_status v \<noteq> ''active''"
      "\<And>v. v \<in> B \<Longrightarrow> ingested c v \<or> superseded c v" "\<And>v. v \<in> B \<Longrightarrow> from_row E c A d v"
      "\<exists>v \<in> B. ingested c v"
    unfolding ingest_effect_def ingest_views_def by blast
  have sd: "seen_ok s D d" and old: "outcomes_old t d" and settled: "outcomes_settled s d"
    and rest: "same_rest d0 d" and fr: "fresh E d" and same: "untouched (\<lambda>p. p \<notin> fst ` set D) d0 d"
    and act: "\<And>p. active_path d p \<longleftrightarrow> active_path d0 p \<or> p \<in> fst ` set D"
    using sc by (simp_all add: scanning_def)
  have outs: "sd_outcomes d' = sd_outcomes d" using e(2) by (simp add: same_rest_def)
  have unseen: "fv_seen v \<noteq> Some s" if "v \<in> A" for v
  proof
    assume "fv_seen v = Some s"
    with that v(2) sd have "fv_status v = ''active''" by (auto simp: seen_ok_def)
    with v(3) [OF that] have "fv_path v = Some ?p" by simp
    with \<open>fv_seen v = Some s\<close> that v(2) s new show False by (auto simp: already_seen_def)
  qed
  have p: "?p \<notin> fst ` set D" using sd new s by (auto simp: seen_ok_def already_seen_def)
  then have none: "map_of D ?p = None" by (simp add: map_of_eq_None_iff)
  have seen: "seen_ok s (D @ [(?p, ?h)]) d'"
    unfolding seen_ok_def
  proof (intro conjI ballI impI)
    fix v assume v': "v \<in> views d'" and sv: "fv_seen v = Some s"
    show "fv_status v = ''active''"
      using v' sv sd v(1) v(4) s by (auto simp: seen_ok_def ingested_def superseded_def)
    show "\<exists>p. fv_path v = Some p \<and> map_of (D @ [(?p, ?h)]) p = Some (fv_hash v)"
    proof (cases "v \<in> B")
      case True
      with v(4) sv s have "ingested c v" by (auto simp: superseded_def)
      with none show ?thesis by (auto simp: ingested_def map_add_def)
    next
      case False
      with v' v(1) have "v \<in> views d" by blast
      with sd sv show ?thesis by (auto simp: seen_ok_def)
    qed
  next
    fix q assume q: "q \<in> fst ` set (D @ [(?p, ?h)])"
    show "\<exists>v \<in> views d'. fv_path v = Some q \<and> fv_seen v = Some s"
    proof (cases "q \<in> fst ` set D")
      case True
      with sd obtain w where w: "w \<in> views d" "fv_path w = Some q" "fv_seen w = Some s"
        by (auto simp: seen_ok_def)
      with unseen v(1) have "w \<in> views d'" by blast
      with w show ?thesis by blast
    next
      case False
      with q v(1,6) s show ?thesis by (auto simp: ingested_def)
    qed
  qed
  have not_out: "i \<notin> set (sd_outcomes d)" if "i \<in> se_uuid E ` {sd_minted d..}" for i
    using that fr by (auto simp: fresh_def used_def)
  have old': "outcomes_old t d'"
    unfolding outcomes_old_def outs
  proof (intro ballI impI)
    fix v assume v': "v \<in> views d'" and o: "fv_id v \<in> set (sd_outcomes d)"
    show "fv_created v < t"
    proof (cases "v \<in> B")
      case True
      with v(5) not_out o obtain a where "a \<in> A" "fv_id a = fv_id v" "fv_created a = fv_created v"
        by (auto simp: from_row_def)
      with old o v(2) show ?thesis by (auto simp: outcomes_old_def) (metis subsetD)
    next
      case False
      with v' v(1) old o show ?thesis by (auto simp: outcomes_old_def)
    qed
  qed
  have settled': "outcomes_settled s d'"
    unfolding outcomes_settled_def outs needs_recovery_same [OF e(2)]
  proof (intro ballI impI)
    fix v assume v': "v \<in> views d'" and path: "fv_path v \<noteq> None" and o: "fv_id v \<in> set (sd_outcomes d)"
    show "fv_seen v = Some s \<or> \<not> prior_session_needs_recovery (fv_seen v) d"
    proof (cases "v \<in> B")
      case True
      with v(4) [OF True] path s show ?thesis by (auto simp: ingested_def superseded_def)
    next
      case False
      with v' v(1) settled path o show ?thesis by (auto simp: outcomes_settled_def)
    qed
  qed
  have "active_path d' q \<longleftrightarrow> active_path d0 q \<or> q \<in> fst ` set (D @ [(?p, ?h)])" for q
  proof -
    have "active_path d' q \<longleftrightarrow> active_path d q \<or> q = ?p"
    proof
      assume "active_path d' q"
      then obtain w where w: "w \<in> views d'" "fv_status w = ''active''" "fv_path w = Some q"
        by (auto simp: active_path_def)
      show "active_path d q \<or> q = ?p"
      proof (cases "w \<in> B")
        case True
        with v(4) [OF True] w show ?thesis by (auto simp: ingested_def superseded_def)
      next
        case False
        with w v(1) show ?thesis by (auto simp: active_path_def)
      qed
    next
      assume "active_path d q \<or> q = ?p"
      then show "active_path d' q"
      proof (cases "q = ?p")
        case True
        with v(1,6) show ?thesis by (auto simp: active_path_def ingested_def)
      next
        case False
        with \<open>active_path d q \<or> q = ?p\<close> obtain w
          where w: "w \<in> views d" "fv_status w = ''active''" "fv_path w = Some q"
          by (auto simp: active_path_def)
        have "w \<notin> A" using v(3) [of w] w(2,3) False by auto
        then have "w \<in> views d'" using w(1) v(1) by blast
        with w show ?thesis by (auto simp: active_path_def)
      qed
    qed
    then show ?thesis using act by auto
  qed
  moreover have "untouched (\<lambda>q. q \<notin> fst ` set (D @ [(?p, ?h)])) d0 d'"
  proof (rule untouchedI)
    fix w q assume w: "w \<in> views d0" "fv_status w = ''active''" "fv_path w = Some q" "q \<notin> fst ` set (D @ [(?p, ?h)])"
    have "w \<in> views d" using w by (intro untouchedD [OF same w(1-3)]) simp
    moreover have "w \<notin> A" using v(3) [of w] w(2-4) by auto
    ultimately show "w \<in> views d'" using v(1) by blast
  qed
  ultimately show ?thesis
    using e seen old' settled' same_rest_trans [OF rest e(2)] by (simp add: scanning_def)
qed

lemma scanning_again:
  assumes "scanning E s t D d0 d" "p \<in> fst ` set D"
  shows "scanning E s t (D @ [(p, h)]) d0 d"
proof -
  have "map_of (D @ [(p, h)]) q = map_of D q" for q
  proof (cases "map_of D q")
    case None
    with assms(2) have "q \<noteq> p" by (auto simp: map_of_eq_None_iff)
    with None show ?thesis by (simp add: map_add_def)
  qed (simp add: map_add_def)
  moreover have "fst ` set (D @ [(p, h)]) = fst ` set D" using assms(2) by auto
  ultimately show ?thesis using assms(1) unfolding scanning_def seen_ok_def by simp
qed

lemma run_tx_no_fault:
  "sd_faults d = [] \<Longrightarrow> m d = Inr (x, d') \<Longrightarrow> run_tx m d = (Inr x, d')"
  by (simp add: run_tx_def store_fault_def)

definition found_in :: "store_env \<Rightarrow> (timestamp \<times> discovered_file) list \<Rightarrow> found" where
  "found_in E fs = map (\<lambda>(now, f). (se_lossy E (df_path f), df_content_hash f)) fs"

lemma ingest_scanning:
  assumes sc: "scanning E s t D d0 d" and "order_ok E" "sd_faults d0 = []"
    and S: "session_of s d0 = Some S" "sr_status S = ''in_progress''"
  shows "\<exists>dec d'. ingest_discovered_file E now s f d = (Inr dec, d')
    \<and> scanning E s t (D @ [(se_lossy E (df_path f), df_content_hash f)]) d0 d'"
proof -
  let ?c = "\<lparr>ic_now = now, ic_session = s, ic_path = se_lossy E (df_path f),
    ic_filename = filename_string E (df_path f), ic_file = f\<rparr>"
  have sc': "unique_rows (sd_files d)" "fresh E d" "same_rest d0 d" "seen_ok s D d" "outcomes_settled s d"
    using sc by (simp_all add: scanning_def)
  have "sd_faults d = []" "session_of s d = Some S"
    using sc'(3) assms(3) S(1) by (simp_all add: same_rest_def session_of_def)
  moreover have "fr_last_seen r = Some s \<or> \<not> prior_session_needs_recovery (fr_last_seen r) d"
    if "r \<in> set (sd_files d)" "fr_id r \<in> set (sd_outcomes d)" "fr_path r = Some (se_lossy E (df_path f))" for r
    using sc'(5) that by (fastforce simp: outcomes_settled_def views_def)
  ultimately obtain dec d' where run: "ingest_in_tx E ?c d = Inr (dec, d')"
    and eff: "if already_seen ?c d then d' = d else ingest_effect E ?c d d'"
    using ingest_ok [OF assms(2) sc'(1,2), of ?c S] S(2) by auto
  have "scanning E s t (D @ [(se_lossy E (df_path f), df_content_hash f)]) d0 d'"
  proof (cases "already_seen ?c d")
    case True
    then obtain v where "v \<in> views d" "fv_path v = Some (se_lossy E (df_path f))" "fv_seen v = Some s"
      by (auto simp: already_seen_def)
    with sc'(4) obtain h where "map_of D (se_lossy E (df_path f)) = Some h" by (fastforce simp: seen_ok_def)
    then have "se_lossy E (df_path f) \<in> fst ` set D" by (metis map_of_eq_None_iff option.distinct(1))
    with sc scanning_again eff True show ?thesis by simp
  next
    case False
    with scanning_step [OF sc _ False] eff show ?thesis by simp
  qed
  with run_tx_no_fault [of d "ingest_in_tx E ?c", OF \<open>sd_faults d = []\<close> run] show ?thesis
    by (auto simp: ingest_discovered_file_def)
qed

lemma ingest_loop_scanning:
  assumes "scanning E s t D d0 d" "order_ok E" "sd_faults d0 = []"
    and "session_of s d0 = Some S" "sr_status S = ''in_progress''"
  shows "\<exists>r d'. ingest_loop E s fs r0 d = (Inr r, d') \<and> scanning E s t (D @ found_in E fs) d0 d'"
  using assms(1)
proof (induction fs arbitrary: D d r0)
  case Nil
  then show ?case by (simp add: found_in_def)
next
  case (Cons x fs)
  obtain now f where x: "x = (now, f)" by fastforce
  obtain dec d1 where d1: "ingest_discovered_file E now s f d = (Inr dec, d1)"
      "scanning E s t (D @ [(se_lossy E (df_path f), df_content_hash f)]) d0 d1"
    using ingest_scanning [OF Cons.prems assms(2-)] by blast
  from Cons.IH [OF d1(2)] show ?case using x d1(1) by (simp add: found_in_def)
qed

section \<open>Promoting moves\<close>

definition is_candidate :: "uuid \<Rightarrow> string list \<Rightarrow> store_db \<Rightarrow> missing_candidate \<Rightarrow> bool" where
  "is_candidate s roots d c =
     (is_under_any (mcd_path c) roots
      \<and> (\<exists>v \<in> views d. fv_id v = mcd_id c \<and> fv_path v = Some (mcd_path c) \<and> fv_seen v \<noteq> Some s))"

definition promoting ::
  "store_env \<Rightarrow> uuid \<Rightarrow> timestamp \<Rightarrow> found \<Rightarrow> string list \<Rightarrow> store_db \<Rightarrow> store_db \<Rightarrow> bool" where
  "promoting E s t D roots d1 d =
     (unique_rows (sd_files d) \<and> fresh E d \<and> same_rest d1 d \<and> seen_ok s D d \<and> outcomes_old t d
      \<and> untouched (\<lambda>p. \<not> is_under_any p roots \<and> p \<notin> fst ` set D) d1 d
      \<and> (\<forall>p. active_path d p \<longrightarrow> active_path d1 p)
      \<and> (\<forall>p. active_path d1 p \<longrightarrow> active_path d p \<or> is_under_any p roots \<and> p \<notin> fst ` set D))"

lemma promote_to_effect:
  assumes "unique_rows (sd_files d)" "fresh E d" "s \<in> sr_id ` set (sd_sessions d)"
    and n: "n \<in> set (sd_files d)" "fr_id n \<notin> set (sd_outcomes d)" "fr_path n = Some p"
    and r: "r \<in> set (sd_files d)" "fr_id r = mcd_id c" "fr_id n \<noteq> fr_id r"
  shows "\<exists>d'. promote_to E now s c (fr_id n) p sz d = Inr (True, d') \<and> unique_rows (sd_files d') \<and> fresh E d'
    \<and> same_rest d d'
    \<and> views d' = views d - {view n, view r} \<union> {view (promoted_row E now s c p sz r)}"
proof -
  let ?P = "\<lambda>x. fr_id x = mcd_id c" and ?f = "promoted_row E now s c p sz"
  let ?left = "filter (\<lambda>x. fr_id x \<noteq> fr_id n) (sd_files d)"
  let ?gone = "set (map fr_id (filter (\<lambda>x. fr_id x = fr_id n) (sd_files d)))"
  let ?d1 = "d\<lparr>sd_transitions := filter (\<lambda>t. ft_file_id t \<noteq> fr_id n) (sd_transitions d), sd_files := ?left,
      sd_tracks := filter (\<lambda>(j, t). j \<notin> ?gone) (sd_tracks d)\<rparr>"
  let ?rows = "rows_where ?P ?f ?left"
  let ?d2 = "?d1\<lparr>sd_files := ?rows\<rparr>"
  have u1: "unique_rows ?left" by (rule unique_filter [OF assms(1)])
  have rl: "r \<in> set ?left" using r by auto
  have u2: "unique_rows ?rows"
  proof (rule unique_update_row [OF u1])
    fix a b x assume "b \<in> set ?left" "fr_path (?f a) = Some x"
    then show "fr_path b \<noteq> Some x"
      using unique_path [OF assms(1) _ n(1) _ n(3)] by (auto simp: promoted_row_def)
  next
    fix a b x assume "a \<in> set ?left" "b \<in> set ?left" "fr_id a = mcd_id c" "fr_id b \<noteq> mcd_id c"
      "fr_superseded_by (?f a) = Some x"
    then show "fr_superseded_by b \<noteq> Some x"
      using unique_superseded [OF u1, of a b x] by (auto simp: promoted_row_def)
  qed (simp add: promoted_row_def)
  have f1: "fresh E ?d2"
  proof (rule fresh_mono [OF assms(2)])
    have "used (?d1\<lparr>sd_files := rows_where ?P ?f (sd_files ?d1)\<rparr>) \<subseteq> used ?d1 \<union> {s}"
      by (rule used_update) (auto simp: row_ids_def promoted_row_def)
    moreover have "used ?d1 \<subseteq> used d" by (auto simp: used_def)
    moreover have "s \<in> used d" using assms(3) by (simp add: used_def)
    ultimately show "used ?d2 \<subseteq> used d \<union> se_uuid E ` {sd_minted d..<sd_minted ?d2}" by auto
  qed simp
  have ids: "ft_id (with_detail ''detected_move'' (with_from_path q t)) = ft_id t" for q t
    by (simp add: with_detail_def with_from_path_def)
  obtain t where t: "add_transition E now (mcd_id c) p (mcd_expected_hash c) (as_u64 sz) TsDiscovery
      (\<lambda>t. with_detail ''detected_move'' (with_from_path (mcd_path c) t)) ?d2
    = Inr ((), ?d2\<lparr>sd_minted := Suc (sd_minted ?d2), sd_transitions := sd_transitions ?d2 @ [t]\<rparr>)"
      "ft_id t = se_uuid E (sd_minted ?d2)"
    using add_transition_ok [OF f1, of "\<lambda>t. with_detail ''detected_move'' (with_from_path (mcd_path c) t)"] ids
    by blast
  let ?d3 = "?d2\<lparr>sd_minted := Suc (sd_minted ?d2), sd_transitions := sd_transitions ?d2 @ [t]\<rparr>"
  have del: "delete_files ''failed to delete New row for move promotion'' (\<lambda>r. fr_id r = fr_id n)
      (d\<lparr>sd_transitions := filter (\<lambda>t. ft_file_id t \<noteq> fr_id n) (sd_transitions d)\<rparr>)
    = Inr (length (filter (\<lambda>x. fr_id x = fr_id n) (sd_files d)), ?d1)"
    using n(2) by (auto simp: delete_files_def Let_def list_ex_iff)
  have upd: "update_files ''failed to promote candidate to moved'' ?P ?f ?d1 = Inr ((), ?d2)"
    using update_files_Inr [of ?P ?f ?d1] u2 by simp
  have run: "promote_to E now s c (fr_id n) p sz d = Inr (True, ?d3)"
    using del upd t(1) by (simp only: promote_to_def tx_bind_def delete_transitions_def tx_return_def sum.case prod.case)
  have "view ` set ?rows = (view ` set ?left - {view r}) \<union> {view (?f r)}"
    using view_update_row [OF u1 rl, of ?f] r(2) by simp
  then have "views ?d3 = views d - {view n, view r} \<union> {view (?f r)}"
    using view_delete_row [OF assms(1) n(1)] by (auto simp: views_def)
  moreover have "fresh E ?d3" by (rule fresh_mono [OF f1]) (auto simp: used_def t(2))
  moreover have "same_rest d ?d3" by (simp add: same_rest_def)
  ultimately show ?thesis using run u2 by (intro exI [of _ ?d3]) simp
qed

lemma promote_one_promoting:
  assumes pr: "promoting E s t D roots d1 d" and "order_ok E" "s \<in> sr_id ` set (sd_sessions d1)"
    and c: "is_candidate s roots d c"
  shows "\<exists>b d'. try_promote_one_move_in_tx E now s t c d = Inr (b, d') \<and> promoting E s t D roots d1 d'
    \<and> (\<forall>v \<in> views d. fv_seen v \<noteq> Some s \<longrightarrow> fv_id v \<noteq> mcd_id c \<longrightarrow> v \<in> views d')"
proof (cases "find (promotion_target s t c d) (se_order E (sd_files d))")
  case None
  then have "try_promote_one_move_in_tx E now s t c d = Inr (False, d)"
    by (simp add: try_promote_one_move_in_tx_def)
  with pr show ?thesis by blast
next
  case (Some n)
  have pr': "unique_rows (sd_files d)" "fresh E d" "same_rest d1 d" "seen_ok s D d" "outcomes_old t d"
      "\<And>p. active_path d p \<Longrightarrow> active_path d1 p"
      "\<And>p. active_path d1 p \<Longrightarrow> active_path d p \<or> is_under_any p roots \<and> p \<notin> fst ` set D"
      "untouched (\<lambda>p. \<not> is_under_any p roots \<and> p \<notin> fst ` set D) d1 d"
    using pr by (auto simp: promoting_def)
  have "n \<in> set (se_order E (sd_files d)) \<and> promotion_target s t c d n"
    using Some by (auto simp: find_Some_iff)
  then have n: "n \<in> set (sd_files d)" "fr_last_seen n = Some s" "fr_content_hash n = mcd_expected_hash c"
      "t \<le> fr_created_at n" "fr_path n \<noteq> None" "fr_id n \<noteq> mcd_id c"
    using assms(2) by (auto simp: promotion_target_def)
  obtain p where p: "fr_path n = Some p" using n(5) by blast
  have vn: "view n \<in> views d" using n(1) by (simp add: views_def)
  have "fr_id n \<notin> set (sd_outcomes d)"
    using pr'(5) vn n(4) by (fastforce simp: outcomes_old_def)
  moreover obtain r where r: "r \<in> set (sd_files d)" "fr_id r = mcd_id c" "fr_path r = Some (mcd_path c)"
      "fr_last_seen r \<noteq> Some s" and under: "is_under_any (mcd_path c) roots"
    using c by (auto simp: is_candidate_def views_def)
  moreover have "s \<in> sr_id ` set (sd_sessions d)" using assms(3) pr'(3) by (simp add: same_rest_def)
  ultimately obtain d' where d': "promote_to E now s c (fr_id n) p (fr_size n) d = Inr (True, d')"
      "unique_rows (sd_files d')" "fresh E d'" "same_rest d d'"
      "views d' = views d - {view n, view r} \<union> {view (promoted_row E now s c p (fr_size n) r)}"
    using promote_to_effect [OF pr'(1,2) _ n(1) _ p r(1,2), of s now "fr_size n"] n(6) r(2) by auto
  let ?new = "view (promoted_row E now s c p (fr_size n) r)"
  have new: "fv_id ?new = mcd_id c" "fv_path ?new = Some p" "fv_status ?new = ''active''"
      "fv_hash ?new = fr_content_hash n" "fv_seen ?new = Some s" "fv_created ?new = fr_created_at r"
    by (simp_all add: promoted_row_def r n(3))
  have pd: "map_of D p = Some (fr_content_hash n)" "fr_status n = ''active''"
    using pr'(4) vn n(2) p by (auto simp: seen_ok_def)
  have seen: "seen_ok s D d'"
    unfolding seen_ok_def
  proof (intro conjI ballI impI)
    fix v assume v: "v \<in> views d'" and sv: "fv_seen v = Some s"
    from v d'(5) have "v = ?new \<or> v \<in> views d" by blast
    then show "fv_status v = ''active''" "\<exists>q. fv_path v = Some q \<and> map_of D q = Some (fv_hash v)"
      using new pd(1) pr'(4) sv by (auto simp: seen_ok_def)
  next
    fix q assume "q \<in> fst ` set D"
    with pr'(4) obtain w where w: "w \<in> views d" "fv_path w = Some q" "fv_seen w = Some s"
      by (auto simp: seen_ok_def)
    show "\<exists>v \<in> views d'. fv_path v = Some q \<and> fv_seen v = Some s"
    proof (cases "w = view n")
      case True
      with w p new d'(5) show ?thesis by auto
    next
      case False
      moreover have "w \<noteq> view r" using w(3) r(4) by auto
      ultimately show ?thesis using w d'(5) by blast
    qed
  qed
  have old: "outcomes_old t d'"
    using pr'(5) d'(4,5) new r(1,2) unfolding outcomes_old_def same_rest_def views_def
    by (auto simp: views_def)
  have act1: "active_path d1 q" if "active_path d' q" for q
  proof -
    from that obtain v where "v \<in> views d'" "fv_status v = ''active''" "fv_path v = Some q"
      by (auto simp: active_path_def)
    with d'(5) new vn p pd(2) have "active_path d q" by (auto simp: active_path_def) (metis view_simps(2,3))
    then show ?thesis by (rule pr'(6))
  qed
  have act2: "active_path d' q \<or> is_under_any q roots \<and> q \<notin> fst ` set D" if "active_path d1 q" for q
  proof (cases "active_path d q")
    case True
    then obtain v where v: "v \<in> views d" "fv_status v = ''active''" "fv_path v = Some q"
      by (auto simp: active_path_def)
    consider "v = view n" | "v = view r" | "v \<in> views d'" using v(1) d'(5) by blast
    then show ?thesis
    proof cases
      case 1
      with v p new d'(5) show ?thesis by (auto simp: active_path_def)
    next
      case 2
      with v r have q: "q = mcd_path c" by simp
      show ?thesis
      proof (cases "q \<in> fst ` set D")
        case True
        with seen obtain w where "w \<in> views d'" "fv_path w = Some q" "fv_seen w = Some s"
          by (auto simp: seen_ok_def)
        with seen show ?thesis by (auto simp: active_path_def seen_ok_def)
      next
        case False
        with q under show ?thesis by simp
      qed
    next
      case 3
      with v show ?thesis by (auto simp: active_path_def)
    qed
  next
    case False
    with that pr'(7) show ?thesis by blast
  qed
  have out: "untouched (\<lambda>p. \<not> is_under_any p roots \<and> p \<notin> fst ` set D) d1 d'"
  proof (rule untouchedI)
    fix v q assume v: "v \<in> views d1" "fv_status v = ''active''" "fv_path v = Some q"
      and q: "\<not> is_under_any q roots \<and> q \<notin> fst ` set D"
    have "v \<in> views d" by (rule untouchedD [OF pr'(8) v q])
    moreover have "v \<noteq> view n" using v(3) q p pd(1) by (metis map_of_eq_None_iff option.distinct(1) option.inject view_simps(2))
    moreover have "v \<noteq> view r" using v(3) q under r(3) by (metis option.inject view_simps(2))
    ultimately show "v \<in> views d'" unfolding d'(5) by blast
  qed
  have "promoting E s t D roots d1 d'"
    using d'(2,3) same_rest_trans [OF pr'(3) d'(4)] seen old out act1 act2 by (auto simp: promoting_def)
  moreover have "v \<in> views d'" if "v \<in> views d" "fv_seen v \<noteq> Some s" "fv_id v \<noteq> mcd_id c" for v
  proof -
    have "v \<noteq> view n" using that(2) n(2) by (metis view_simps(5))
    moreover have "v \<noteq> view r" using that(3) r(2) by (metis view_simps(1))
    ultimately show ?thesis unfolding d'(5) using that(1) by blast
  qed
  moreover have "try_promote_one_move_in_tx E now s t c d = Inr (True, d')"
    using Some d'(1) p by (simp add: try_promote_one_move_in_tx_def)
  ultimately show ?thesis by blast
qed


lemma candidate_kept:
  assumes "is_candidate s roots d c'" "mcd_id c' \<noteq> mcd_id c"
    and "\<forall>v \<in> views d. fv_seen v \<noteq> Some s \<longrightarrow> fv_id v \<noteq> mcd_id c \<longrightarrow> v \<in> views d'"
  shows "is_candidate s roots d' c'"
proof -
  from assms(1) obtain v where "v \<in> views d" "fv_id v = mcd_id c'" "fv_path v = Some (mcd_path c')"
      "fv_seen v \<noteq> Some s" and "is_under_any (mcd_path c') roots"
    by (auto simp: is_candidate_def)
  with assms(2,3) show ?thesis unfolding is_candidate_def by metis
qed

lemma promote_loop_promoting:
  assumes "order_ok E" "s \<in> sr_id ` set (sd_sessions d1)"
    and "promoting E s t D roots d1 d" "distinct (map mcd_id cs)"
    and "\<And>c. c \<in> set cs \<Longrightarrow> is_candidate s roots d c"
  shows "\<exists>m d'. promote_loop E now s t cs n d = Inr (m, d') \<and> promoting E s t D roots d1 d'"
  using assms(3-)
proof (induction cs arbitrary: d n)
  case Nil
  then show ?case by (simp add: tx_return_def)
next
  case (Cons c cs)
  obtain b d2 where d2: "try_promote_one_move_in_tx E now s t c d = Inr (b, d2)" "promoting E s t D roots d1 d2"
      "\<forall>v \<in> views d. fv_seen v \<noteq> Some s \<longrightarrow> fv_id v \<noteq> mcd_id c \<longrightarrow> v \<in> views d2"
    using promote_one_promoting [OF Cons.prems(1) assms(1,2) Cons.prems(3) [of c], of now] by auto
  have "is_candidate s roots d2 c'" if "c' \<in> set cs" for c'
  proof (rule candidate_kept [OF Cons.prems(3) _ d2(3)])
    show "c' \<in> set (c # cs)" using that by simp
    show "mcd_id c' \<noteq> mcd_id c" using that Cons.prems(2) by (metis distinct.simps(2) image_eqI list.set_map list.simps(9))
  qed
  with Cons.IH [OF d2(2), of "if b then n + 1 else n"] Cons.prems(2) d2(1) show ?case
    by (auto simp: tx_bind_def)
qed

lemma distinct_map_filter_ids:
  assumes "distinct (map fr_id rows)" "\<And>r c. f r = Some c \<Longrightarrow> mcd_id c = fr_id r"
  shows "distinct (map mcd_id (List.map_filter f rows))"
  using assms(1)
proof (induction rows)
  case (Cons r rows)
  have "mcd_id ` set (List.map_filter f rows) \<subseteq> fr_id ` set rows"
    using assms(2) by (force simp: map_filter_def)
  with Cons assms(2) show ?case by (auto simp: map_filter_simps split: option.split)
qed (simp add: map_filter_simps)

lemma move_candidates_ok:
  assumes "order_ok E" "unique_rows (sd_files d)"
  shows "distinct (map mcd_id (move_candidates E s roots d))"
    and "c \<in> set (move_candidates E s roots d) \<Longrightarrow> is_candidate s roots d c"
proof -
  have "mset (map fr_id (se_order E (sd_files d))) = mset (map fr_id (sd_files d))"
    using assms(1) by (simp add: order_ok_def)
  then have "distinct (map fr_id (se_order E (sd_files d)))"
    using assms(2) by (metis mset_eq_imp_distinct_iff unique_rows_def)
  then show "distinct (map mcd_id (move_candidates E s roots d))"
    unfolding move_candidates_def
    by (intro distinct_map_filter distinct_map_filter_ids) (auto split: option.splits if_splits)
  assume "c \<in> set (move_candidates E s roots d)"
  then obtain r where "r \<in> set (sd_files d)" "mcd_id c = fr_id r" "fr_path r = Some (mcd_path c)"
      "unseen_active s r" "is_under_any (mcd_path c) roots"
    using assms(1) unfolding move_candidates_def
    by (auto simp: map_filter_def split: option.splits if_splits)
  then show "is_candidate s roots d c"
    unfolding is_candidate_def views_def unseen_active_def by force
qed

section \<open>Marking the rest\<close>

definition marked :: "timestamp \<Rightarrow> file_row \<Rightarrow> file_row" where
  "marked now r = r\<lparr>fr_status := ''missing'', fr_missing_since := Some now, fr_updated_at := now\<rparr>"

lemma marked_simps [simp]:
  "fr_id (marked now r) = fr_id r" "fr_path (marked now r) = fr_path r"
  "fr_superseded_by (marked now r) = fr_superseded_by r" "fr_status (marked now r) = ''missing''"
  "fr_last_seen (marked now r) = fr_last_seen r" "fr_content_hash (marked now r) = fr_content_hash r"
  by (simp_all add: marked_def)

lemma mark_rows_effect:
  assumes "unique_rows (sd_files d)"
  shows "\<exists>m. mark_rows_missing now is n d
    = Inr (m, d\<lparr>sd_files := rows_where (\<lambda>r. fr_id r \<in> set is \<and> fr_status r = ''active'') (marked now) (sd_files d)\<rparr>)"
  using assms
proof (induction "is" arbitrary: d n)
  case Nil
  then show ?case by (simp add: tx_return_def rows_where_def)
next
  case (Cons i "is")
  let ?P = "\<lambda>X r. fr_id r \<in> X \<and> fr_status r = ''active''"
  let ?rows = "rows_where (?P {i}) (marked now) (sd_files d)"
  have u: "unique_rows ?rows" by (rule unique_weaker [OF Cons.prems]) simp_all
  have P: "(\<lambda>r. fr_id r = i \<and> fr_status r = ''active'') = ?P {i}" by auto
  have f: "(\<lambda>r. r\<lparr>fr_status := ''missing'', fr_missing_since := Some now, fr_updated_at := now\<rparr>) = marked now"
    by (rule ext) (simp add: marked_def)
  have step: "mark_row_missing now i d = Inr ((), d\<lparr>sd_files := ?rows\<rparr>)"
    unfolding mark_row_missing_def P f by (rule update_files_Inr [OF u])
  have "rows_where (?P (set is)) (marked now) ?rows = rows_where (?P (set (i # is))) (marked now) (sd_files d)"
    by (auto simp: rows_where_def)
  with Cons.IH [of "d\<lparr>sd_files := ?rows\<rparr>" "n + 1"] u step show ?case by (simp add: tx_bind_def)
qed

lemma mark_missing_effect:
  assumes "order_ok E" "unique_rows (sd_files d)"
  shows "\<exists>m d'. mark_missing_in_finish_tx E now s roots d = Inr (m, d')
    \<and> d' = d\<lparr>sd_files := rows_where (gone_row s roots (voom_paths s d)) (marked now) (sd_files d)\<rparr>"
proof -
  let ?gone = "gone_row s roots (voom_paths s d)"
  let ?is = "map fr_id (filter ?gone (se_order E (sd_files d)))"
  have "(fr_id r \<in> set ?is \<and> fr_status r = ''active'') = ?gone r" if r: "r \<in> set (sd_files d)" for r
  proof
    assume "fr_id r \<in> set ?is \<and> fr_status r = ''active''"
    then obtain r' where "r' \<in> set (sd_files d)" "?gone r'" "fr_id r = fr_id r'" using assms(1) by auto
    with unique_id [OF assms(2) r] show "?gone r" by blast
  next
    assume "?gone r"
    with r assms(1) show "fr_id r \<in> set ?is \<and> fr_status r = ''active''"
      by (auto simp: gone_row_def unseen_active_def)
  qed
  then have "rows_where (\<lambda>r. fr_id r \<in> set ?is \<and> fr_status r = ''active'') (marked now) (sd_files d)
      = rows_where ?gone (marked now) (sd_files d)"
    unfolding rows_where_def by (intro map_cong refl) simp
  with mark_rows_effect [OF assms(2), of now ?is 0] show ?thesis
    by (auto simp: mark_missing_in_finish_tx_def)
qed


lemma view_marked:
  assumes "r \<in> set (sd_files d)"
    "d' = d\<lparr>sd_files := rows_where (gone_row s roots V) (marked now) (sd_files d)\<rparr>" "\<not> gone_row s roots V r"
  shows "view r \<in> views d'"
  using in_rows_where [OF assms(1), of "gone_row s roots V" "marked now"] assms(2,3)
  by (simp add: views_def)

lemma active_marked:
  assumes "active_path (d\<lparr>sd_files := rows_where (gone_row s roots V) (marked now) (sd_files d)\<rparr>) p"
  obtains r where "r \<in> set (sd_files d)" "fr_status r = ''active''" "fr_path r = Some p" "\<not> gone_row s roots V r"
proof -
  from assms obtain x where x: "x \<in> set (rows_where (gone_row s roots V) (marked now) (sd_files d))"
      "fr_status x = ''active''" "fr_path x = Some p"
    by (auto simp: active_path_def views_def)
  obtain r where r: "r \<in> set (sd_files d)" "x = (if gone_row s roots V r then marked now r else r)"
    using x(1) by (rule rows_whereE)
  show thesis
  proof (cases "gone_row s roots V r")
    case True
    with r(2) x(2) show thesis by simp
  next
    case False
    with r x that show thesis by simp
  qed
qed

text \<open>
  The end of a scan: afterwards the discovered paths are active with the discovered contents, and so are the
  paths outside the roots that were active before; of the others only what VOOM itself touched may remain.
\<close>

definition scanned ::
  "found \<Rightarrow> string list \<Rightarrow> string set \<Rightarrow> store_db \<Rightarrow> store_db \<Rightarrow> bool" where
  "scanned D roots V d0 d =
     ((\<forall>p. p \<in> fst ` set D \<or> active_path d0 p \<and> \<not> is_under_any p roots \<longrightarrow> active_path d p)
      \<and> (\<forall>p. active_path d p
           \<longrightarrow> p \<in> fst ` set D \<or> active_path d0 p \<and> (is_under_any p roots \<longrightarrow> p \<in> V))
      \<and> untouched (\<lambda>p. \<not> is_under_any p roots \<and> p \<notin> fst ` set D) d0 d
      \<and> (\<forall>p h. map_of D p = Some h
           \<longrightarrow> (\<exists>v \<in> views d. fv_path v = Some p \<and> fv_status v = ''active'' \<and> fv_hash v = h)))"

lemma marked_scanned:
  assumes sc: "scanning E s t D d0 d" and pr: "promoting E s t D roots d d2"
    and d3: "d3 = d2\<lparr>sd_files := rows_where (gone_row s roots V) (marked now) (sd_files d2)\<rparr>"
  shows "scanned D roots V d0 d3"
proof -
  have pr': "seen_ok s D d2" "\<And>p. active_path d2 p \<Longrightarrow> active_path d p"
      "\<And>p. active_path d p \<Longrightarrow> active_path d2 p \<or> is_under_any p roots \<and> p \<notin> fst ` set D"
    using pr by (auto simp: promoting_def)
  have act: "active_path d p \<longleftrightarrow> active_path d0 p \<or> p \<in> fst ` set D" for p
    using sc by (simp add: scanning_def)
  have found: "\<exists>v \<in> views d3. fv_path v = Some p \<and> fv_status v = ''active'' \<and> map_of D p = Some (fv_hash v)"
    if "p \<in> fst ` set D" for p
  proof -
    from that pr'(1) obtain r where r: "r \<in> set (sd_files d2)" "fr_path r = Some p" "fr_last_seen r = Some s"
      by (auto simp: seen_ok_def views_def)
    then have "view r \<in> views d2" by (simp add: views_def)
    then have ok: "fr_status r = ''active''" "map_of D p = Some (fr_content_hash r)"
      using pr'(1) r(2,3) by (auto simp: seen_ok_def)
    have "\<not> gone_row s roots V r" using r(3) by (simp add: gone_row_def unseen_active_def)
    then have "view r \<in> views d3" by (rule view_marked [OF r(1) d3])
    then show ?thesis using ok r(2) by force
  qed
  have kept: "active_path d3 p" if "active_path d0 p" "\<not> is_under_any p roots" for p
  proof -
    have "active_path d2 p" using pr'(3) [of p] act that by blast
    then obtain r where r: "r \<in> set (sd_files d2)" "fr_status r = ''active''" "fr_path r = Some p"
      by (auto simp: active_path_def views_def)
    then have "\<not> gone_row s roots V r" using that(2) by (simp add: gone_row_def)
    then have "view r \<in> views d3" by (rule view_marked [OF r(1) d3])
    then show ?thesis using r(2,3) by (force simp: active_path_def)
  qed
  have only: "p \<in> fst ` set D \<or> active_path d0 p \<and> (is_under_any p roots \<longrightarrow> p \<in> V)"
    if act3: "active_path d3 p" for p
  proof -
    obtain r where r: "r \<in> set (sd_files d2)" "fr_status r = ''active''" "fr_path r = Some p"
        "\<not> gone_row s roots V r"
      using act3 unfolding d3 by (rule active_marked)
    then have v: "view r \<in> views d2" by (simp add: views_def)
    show ?thesis
    proof (cases "fr_last_seen r = Some s")
      case True
      with v pr'(1) r(3) have "map_of D p = Some (fr_content_hash r)" by (auto simp: seen_ok_def)
      then show ?thesis by (metis map_of_eq_None_iff option.distinct(1))
    next
      case False
      have "active_path d2 p" using v r(2,3) by (force simp: active_path_def)
      then have "active_path d0 p \<or> p \<in> fst ` set D" using pr'(2) act by blast
      moreover have "is_under_any p roots \<longrightarrow> p \<in> V"
        using False r by (auto simp: gone_row_def unseen_active_def)
      ultimately show ?thesis by blast
    qed
  qed
  have "\<exists>v \<in> views d3. fv_path v = Some p \<and> fv_status v = ''active'' \<and> fv_hash v = h"
    if "map_of D p = Some h" for p h
    using found [of p] that by (metis map_of_eq_None_iff option.distinct(1) option.inject)
  moreover have "active_path d3 p" if "p \<in> fst ` set D" for p
    using found [OF that] by (auto simp: active_path_def)
  moreover have "untouched (\<lambda>p. \<not> is_under_any p roots \<and> p \<notin> fst ` set D) d0 d3"
  proof (rule untouchedI)
    fix v q assume v: "v \<in> views d0" "fv_status v = ''active''" "fv_path v = Some q"
      and q: "\<not> is_under_any q roots \<and> q \<notin> fst ` set D"
    have "untouched (\<lambda>p. p \<notin> fst ` set D) d0 d" "untouched (\<lambda>p. \<not> is_under_any p roots \<and> p \<notin> fst ` set D) d d2"
      using sc pr by (simp_all add: scanning_def promoting_def)
    then have "v \<in> views d2" using v q untouchedD by metis
    then obtain r where r: "r \<in> set (sd_files d2)" "v = view r" by (auto simp: views_def)
    have "\<not> gone_row s roots V r" using q v(3) r(2) by (simp add: gone_row_def)
    with view_marked [OF r(1) d3] r(2) show "v \<in> views d3" by simp
  qed
  ultimately show ?thesis using kept only by (auto simp: scanned_def)
qed

section \<open>Finishing and beginning\<close>

lemma finish_scanned:
  assumes sc: "scanning E s t D d0 d" and "order_ok E" "sd_faults d0 = []"
    and S: "session_of s d0 = Some S" "sr_status S = ''in_progress''" "sr_started_at S = t"
  shows "\<exists>out d'. finish_scan_session E now s d = (Inr out, d')
    \<and> unique_rows (sd_files d') \<and> scanned D (sr_roots S) (voom_paths s d0) d0 d'"
proof -
  have sc': "unique_rows (sd_files d)" "fresh E d" "same_rest d0 d" "seen_ok s D d" "outcomes_old t d"
    using sc by (simp_all add: scanning_def)
  have id: "sr_id S = s" using S(1) by (auto simp: session_of_def find_Some_iff)
  have rest: "sd_faults d = []" "session_of s d = Some S" "sd_mutations d = sd_mutations d0"
    using sc'(3) assms(3) S(1) by (simp_all add: same_rest_def session_of_def)
  have s: "s \<in> sr_id ` set (sd_sessions d)"
    using rest(2) id by (auto simp: session_of_def find_Some_iff)
  have "promoting E s t D (sr_roots S) d d" using sc' by (simp add: promoting_def untouched_def)
  then obtain m d2 where d2: "promote_loop E now s t (move_candidates E s (sr_roots S) d) 0 d = Inr (m, d2)"
      "promoting E s t D (sr_roots S) d d2"
    using promote_loop_promoting [OF assms(2) s _ move_candidates_ok(1) [OF assms(2) sc'(1)]
        move_candidates_ok(2) [OF assms(2) sc'(1)]] by blast
  have u2: "unique_rows (sd_files d2)" "same_rest d d2" using d2(2) by (simp_all add: promoting_def)
  have V: "voom_paths s d2 = voom_paths s d0"
    using u2(2) rest(3) by (simp add: voom_paths_def same_rest_def)
  obtain k d3 where d3: "mark_missing_in_finish_tx E now s (sr_roots S) d2 = Inr (k, d3)"
      "d3 = d2\<lparr>sd_files := rows_where (gone_row s (sr_roots S) (voom_paths s d2)) (marked now) (sd_files d2)\<rparr>"
    using mark_missing_effect [OF assms(2) u2(1)] by blast
  obtain d4 where d4: "complete_session now s d3 = Inr ((), d4)" "sd_files d4 = sd_files d3"
    by (simp add: complete_session_def)
  have run: "finish_in_tx E now s d = Inr (\<lparr>sfo_missing = k, sfo_promoted_moves = m\<rparr>, d4)"
    using rest(2) S id d2(1) d3(1) d4(1)
    by (simp add: finish_in_tx_def close_session_def tx_bind_def tx_return_def promote_moves_in_tx_def
        ScanSessionStatus_parse_def)
  have "views d4 = views d3" using d4(2) by (simp add: views_def)
  with marked_scanned [OF sc d2(2) d3(2)] have "scanned D (sr_roots S) (voom_paths s d0) d0 d4"
    by (simp add: scanned_def active_path_def untouched_def V)
  moreover have "unique_rows (sd_files d4)"
    using unique_weaker [OF u2(1), of "marked now"] by (simp add: d4(2) d3(2))
  ultimately show ?thesis using run_tx_no_fault [of d "finish_in_tx E now s", OF rest(1) run]
    by (auto simp: finish_scan_session_def)
qed


text \<open>
  What a scan that starts at \<open>t\<close> relies on: an intact store with a supply of fresh identifiers, no failing
  statement, no other live scan, roots that can be stored, and no transcode outcome of a file that is newer
  than the scan or was last seen by an interrupted one (a foreign key then blocks its recovery).
\<close>

definition scan_ready :: "store_env \<Rightarrow> timestamp \<Rightarrow> string list \<Rightarrow> store_db \<Rightarrow> bool" where
  "scan_ready E t roots d =
     (order_ok E \<and> store_ok d \<and> fresh E d \<and> sd_faults d = [] \<and> list_all (se_is_utf8 E) roots
      \<and> list_all (\<lambda>r. \<not> session_live t r) (sd_sessions d)
      \<and> list_all (\<lambda>r. fr_id r \<in> set (sd_outcomes d)
           \<longrightarrow> fr_created_at r < t \<and> \<not> prior_session_needs_recovery (fr_last_seen r) d) (sd_files d))"

definition opened_session :: "uuid \<Rightarrow> timestamp \<Rightarrow> string list \<Rightarrow> session_row" where
  "opened_session s t roots =
     \<lparr>sr_id = s, sr_roots = roots, sr_status = ''in_progress'', sr_started_at = t, sr_finished_at = None,
      sr_last_heartbeat_at = t\<rparr>"

definition settle :: "timestamp \<Rightarrow> session_row \<Rightarrow> session_row" where
  "settle t r = (if session_in_progress r then cancelled_row t r else r)"

definition begun :: "store_env \<Rightarrow> timestamp \<Rightarrow> string list \<Rightarrow> store_db \<Rightarrow> store_db" where
  "begun E t roots d =
     d\<lparr>sd_sessions := map (settle t) (sd_sessions d) @ [opened_session (se_uuid E (sd_minted d)) t roots],
       sd_minted := Suc (sd_minted d)\<rparr>"

lemma settle_id [simp]: "sr_id (settle t r) = sr_id r"
  by (simp add: settle_def cancelled_row_def)

lemma settle_completed:
  "ScanSessionStatus_parse (sr_status (settle t r)) = Some SsCompleted
     \<longleftrightarrow> ScanSessionStatus_parse (sr_status r) = Some SsCompleted"
  by (simp add: settle_def cancelled_row_def session_in_progress_def ScanSessionStatus_parse_def)

lemma find_settled:
  "find (\<lambda>r. sr_id r = s) (map (settle t) rs) = map_option (settle t) (find (\<lambda>r. sr_id r = s) rs)"
  by (induction rs) auto

lemma find_appended: "find P (xs @ ys) = (case find P xs of None \<Rightarrow> find P ys | Some x \<Rightarrow> Some x)"
  by (induction xs) auto

lemma begin_begun:
  assumes "scan_ready E t roots d"
  shows "begin_scan_session E t roots d = (Inr (se_uuid E (sd_minted d)), begun E t roots d)"
proof -
  let ?s = "se_uuid E (sd_minted d)"
  have a: "fresh E d" "sd_faults d = []" "list_all (se_is_utf8 E) roots"
      "list_all (\<lambda>r. \<not> session_live t r) (sd_sessions d)"
    using assms by (simp_all add: scan_ready_def)
  have "find (session_live t) (sd_sessions d) = None"
    using a(4) by (simp add: find_None_iff list_all_iff)
  moreover have "?s \<notin> sr_id ` set (sd_sessions d)" using fresh_now [OF a(1)] by (auto simp: used_def)
  then have "?s \<notin> set (map sr_id (map (settle t) (sd_sessions d)))" by (simp add: image_image)
  ultimately have "begin_in_tx E t roots d = Inr (?s, begun E t roots d)"
    using a(3)
    by (simp add: begin_in_tx_def open_session_def tx_bind_def cancel_in_progress_def new_uuid_def
        insert_session_def tx_return_def begun_def opened_session_def settle_def)
  then show ?thesis using a(2) by (simp add: begin_scan_session_def run_tx_no_fault)
qed

lemma begun_session:
  assumes "fresh E d"
  shows "session_of (se_uuid E (sd_minted d)) (begun E t roots d)
    = Some (opened_session (se_uuid E (sd_minted d)) t roots)"
proof -
  have "se_uuid E (sd_minted d) \<notin> sr_id ` set (sd_sessions d)" using fresh_now [OF assms] by (auto simp: used_def)
  then have "find (\<lambda>r. sr_id r = se_uuid E (sd_minted d)) (sd_sessions d) = None"
    unfolding find_None_iff by (metis imageI)
  then show ?thesis by (simp add: session_of_def begun_def find_appended find_settled opened_session_def)
qed

lemma begun_recovery:
  assumes "fresh E d" "x \<noteq> Some (se_uuid E (sd_minted d))"
  shows "prior_session_needs_recovery x (begun E t roots d) = prior_session_needs_recovery x d"
proof (cases x)
  case (Some i)
  with assms(2) have "i \<noteq> se_uuid E (sd_minted d)" by simp
  then have "session_of i (begun E t roots d) = map_option (settle t) (session_of i d)"
    by (cases "session_of i d")
      (simp_all add: session_of_def begun_def find_appended find_settled opened_session_def split: option.splits)
  with Some settle_completed show ?thesis
    by (cases "session_of i d") (simp_all add: prior_session_needs_recovery_def)
qed (simp add: prior_session_needs_recovery_def)

lemma begun_scanning:
  assumes ready: "scan_ready E t roots d"
  shows "scanning E (se_uuid E (sd_minted d)) t [] (begun E t roots d) (begun E t roots d)"
proof -
  let ?s = "se_uuid E (sd_minted d)" and ?d = "begun E t roots d"
  have a: "unique_rows (sd_files d)" "fresh E d"
    "list_all (\<lambda>r. fr_id r \<in> set (sd_outcomes d)
       \<longrightarrow> fr_created_at r < t \<and> \<not> prior_session_needs_recovery (fr_last_seen r) d) (sd_files d)"
    using ready by (simp_all add: scan_ready_def store_ok_def)
  have same: "views ?d = views d" "sd_outcomes ?d = sd_outcomes d" "sd_files ?d = sd_files d"
    by (simp_all add: views_def begun_def)
  have unseen: "fv_seen v \<noteq> Some ?s" if "v \<in> views d" for v
  proof
    assume "fv_seen v = Some ?s"
    with that obtain r where "r \<in> set (sd_files d)" "?s \<in> row_ids r" by (auto simp: views_def row_ids_def)
    then show False using row_ids_used fresh_now [OF a(2)] by blast
  qed
  have "used ?d \<subseteq> used d \<union> {?s}" by (auto simp: used_def begun_def opened_session_def)
  then have "fresh E ?d" by (intro fresh_mono [OF a(2)]) (auto simp: begun_def)
  moreover have "seen_ok ?s [] ?d" using unseen by (simp add: seen_ok_def same)
  moreover have "outcomes_old t ?d"
    using a(3) by (auto simp: outcomes_old_def same list_all_iff views_def)
  moreover have "outcomes_settled ?s ?d"
    unfolding outcomes_settled_def same
  proof (intro ballI impI)
    fix v assume v: "v \<in> views d" and o: "fv_id v \<in> set (sd_outcomes d)"
    then have "\<not> prior_session_needs_recovery (fv_seen v) d" using a(3) by (auto simp: list_all_iff views_def)
    with begun_recovery [OF a(2) unseen [OF v]]
    show "fv_seen v = Some ?s \<or> \<not> prior_session_needs_recovery (fv_seen v) ?d" by simp
  qed
  ultimately show ?thesis using a(1) same(3) by (simp add: scanning_def untouched_def)
qed


section \<open>Refinement\<close>

text \<open>The library as the user sees it: the active paths with the hashes of their contents.\<close>

definition library :: "store_db \<Rightarrow> string \<rightharpoonup> string" where
  "library d =
     map_of (List.map_filter (\<lambda>r. if fr_status r = ''active''
       then map_option (\<lambda>p. (p, fr_content_hash r)) (fr_path r) else None) (sd_files d))"

text \<open>A scan, on the library: what was there under the roots gives way to what was found.\<close>

definition rescan :: "(string \<rightharpoonup> string) \<Rightarrow> string list \<Rightarrow> found \<Rightarrow> string \<rightharpoonup> string" where
  "rescan L roots D = (\<lambda>p. if is_under_any p roots then None else L p) ++ map_of D"

lemma library_Some:
  assumes "unique_rows (sd_files d)"
  shows "library d p = Some h
    \<longleftrightarrow> (\<exists>v \<in> views d. fv_status v = ''active'' \<and> fv_path v = Some p \<and> fv_hash v = h)"
proof -
  let ?f = "\<lambda>r. if fr_status r = ''active'' then map_option (\<lambda>p. (p, fr_content_hash r)) (fr_path r) else None"
  have f: "?f r = Some (q, h) \<longleftrightarrow> fr_status r = ''active'' \<and> fr_path r = Some q \<and> fr_content_hash r = h" for r q h
    by auto
  have set: "(q, h) \<in> set (List.map_filter ?f rows) \<longleftrightarrow> (\<exists>r \<in> set rows. ?f r = Some (q, h))" for q h rows
    by (induction rows) (auto simp: map_filter_simps split: option.splits)
  show ?thesis
  proof
    assume "library d p = Some h"
    then have "(p, h) \<in> set (List.map_filter ?f (sd_files d))" unfolding library_def by (rule map_of_SomeD)
    then show "\<exists>v \<in> views d. fv_status v = ''active'' \<and> fv_path v = Some p \<and> fv_hash v = h"
      unfolding set f by (auto simp: views_def)
  next
    assume "\<exists>v \<in> views d. fv_status v = ''active'' \<and> fv_path v = Some p \<and> fv_hash v = h"
    then obtain r where r: "r \<in> set (sd_files d)" "fr_status r = ''active''" "fr_path r = Some p" "fr_content_hash r = h"
      by (auto simp: views_def)
    then have "(p, h) \<in> set (List.map_filter ?f (sd_files d))" unfolding set f by blast
    then obtain h' where h': "library d p = Some h'"
      unfolding library_def by (blast dest: weak_map_of_SomeI)
    then have "(p, h') \<in> set (List.map_filter ?f (sd_files d))" unfolding library_def by (rule map_of_SomeD)
    then obtain r' where "r' \<in> set (sd_files d)" "fr_path r' = Some p" "fr_content_hash r' = h'"
      unfolding set f by blast
    with unique_path [OF assms r(1) _ r(3)] r(4) h' show "library d p = Some h" by blast
  qed
qed

lemma library_active: "unique_rows (sd_files d) \<Longrightarrow> library d p \<noteq> None \<longleftrightarrow> active_path d p"
  unfolding active_path_def not_None_eq by (auto simp: library_Some)

lemma scanned_rescan:
  assumes "scanned D roots {} d0 d" "unique_rows (sd_files d0)" "unique_rows (sd_files d)"
  shows "library d = rescan (library d0) roots D"
proof
  fix p
  have a: "active_path d p \<Longrightarrow> p \<in> fst ` set D \<or> active_path d0 p \<and> \<not> is_under_any p roots"
      "untouched (\<lambda>p. \<not> is_under_any p roots \<and> p \<notin> fst ` set D) d0 d"
      "\<And>h. map_of D p = Some h \<Longrightarrow> \<exists>v \<in> views d. fv_path v = Some p \<and> fv_status v = ''active'' \<and> fv_hash v = h"
    using assms(1) by (auto simp: scanned_def)
  show "library d p = rescan (library d0) roots D p"
  proof (cases "map_of D p")
    case (Some h)
    with a(3) have "library d p = Some h" unfolding library_Some [OF assms(3)] by blast
    with Some show ?thesis by (simp add: rescan_def map_add_def)
  next
    case None
    then have p: "p \<notin> fst ` set D" by (simp add: map_of_eq_None_iff)
    show ?thesis
    proof (cases "library d0 p \<noteq> None \<and> \<not> is_under_any p roots")
      case True
      then obtain h where h: "library d0 p = Some h" by blast
      then obtain v where "v \<in> views d0" "fv_status v = ''active''" "fv_path v = Some p" "fv_hash v = h"
        unfolding library_Some [OF assms(2)] by blast
      with untouchedD [OF a(2)] True p have "library d p = Some h"
        unfolding library_Some [OF assms(3)] by blast
      with h True None show ?thesis by (simp add: rescan_def map_add_def)
    next
      case False
      with a(1) p library_active [OF assms(2)] have "\<not> active_path d p" by blast
      with library_active [OF assms(3)] have "library d p = None" by blast
      with False None show ?thesis by (auto simp: rescan_def map_add_def)
    qed
  qed
qed

lemma reconcile_rescan:
  assumes ready: "scan_ready E t roots d"
  shows "\<exists>r d'. reconcile_discovered_files E t finish_at cancel_at fs roots d = (Inr r, d')
    \<and> library d' = rescan (library d) roots (found_in E fs)"
proof -
  let ?s = "se_uuid E (sd_minted d)" and ?d = "begun E t roots d"
  have a: "order_ok E" "fresh E d" "sd_faults ?d = []" "unique_rows (sd_files d)"
    using ready by (simp_all add: scan_ready_def store_ok_def begun_def)
  note S = begun_session [OF a(2), of t roots]
  have st: "sr_status (opened_session ?s t roots) = ''in_progress''"
      "sr_started_at (opened_session ?s t roots) = t" "sr_roots (opened_session ?s t roots) = roots"
    by (simp_all add: opened_session_def)
  have "?s \<notin> fst ` set (sd_mutations d)" using fresh_now [OF a(2)] by (simp add: used_def)
  then have V: "voom_paths ?s ?d = {}" by (force simp: voom_paths_def begun_def)
  have same: "library ?d = library d" "sd_files ?d = sd_files d" by (simp_all add: library_def begun_def)
  obtain r d1 where d1: "ingest_loop E ?s fs ReconcileResult_default ?d = (Inr r, d1)"
      "scanning E ?s t (found_in E fs) ?d d1"
    using ingest_loop_scanning [OF begun_scanning [OF ready] a(1,3) S st(1), of fs ReconcileResult_default]
    by auto
  obtain out d2 where d2: "finish_scan_session E finish_at ?s d1 = (Inr out, d2)" "unique_rows (sd_files d2)"
      "scanned (found_in E fs) roots {} ?d d2"
    using finish_scanned [OF d1(2) a(1,3) S st(1,2)] unfolding st(3) V by blast
  have "library d2 = rescan (library d) roots (found_in E fs)"
    using scanned_rescan [OF d2(3) _ d2(2)] a(4) same by simp
  with begin_begun [OF ready] d1(1) d2(1) show ?thesis
    by (simp add: reconcile_discovered_files_def scan_body_def)
qed

text \<open>
  C3: A scan of a store that is ready for it succeeds and refines replacement on the library: afterwards the
  active paths under the roots are exactly the discovered ones, with the content hash of their first
  occurrence, and every active path outside the roots keeps its hash. This holds through all cases of the
  ingest (unchanged, externally changed, moved, new, recovered), the promotion of moves, and the marking of
  missing files.
\<close>

theorem scan_reconciles:
  assumes "scan_ready E t roots d"
  shows "\<exists>r d'. reconcile_discovered_files E t finish_at cancel_at fs roots d = (Inr r, d')
    \<and> library d' = rescan (library d) roots (found_in E fs)"
  using assms by (rule reconcile_rescan)


definition found_file :: "string \<Rightarrow> string \<Rightarrow> discovered_file" where
  "found_file p h = \<lparr>df_path = p, df_size = 7, df_content_hash = h\<rparr>"

definition first_scan :: store_db where
  "first_scan =
     snd (reconcile_discovered_files sample_store_env 10 20 20
       [(11, found_file ''/m/a'' ''A''), (12, found_file ''/m/b'' ''B'')] [''/m''] (SqliteStore_empty []))"

lemma first_scan_ready: "scan_ready sample_store_env 30 [''/m''] first_scan"
proof -
  have "unique_error (sd_files first_scan) = None" by code_simp
  then have u: "unique_rows (sd_files first_scan)" by (simp add: unique_error_iff)
  have "used first_scan = {100, 101, 102, 103, 104}" by code_simp
  moreover have "sd_minted first_scan = 5" by code_simp
  ultimately have f: "fresh sample_store_env first_scan"
    by (auto simp: fresh_def sample_store_env_def inj_def)
  have "set (sd_outcomes first_scan) \<subseteq> fr_id ` set (sd_files first_scan)"
      "distinct (map ft_id (sd_transitions first_scan))" "distinct (map sr_id (sd_sessions first_scan))"
      "length (filter session_in_progress (sd_sessions first_scan)) \<le> 1"
    by code_simp+
  with u have "store_ok first_scan" by (simp add: store_ok_def)
  moreover have "sd_faults first_scan = []" "list_all (se_is_utf8 sample_store_env) [''/m'']"
      "list_all (\<lambda>r. \<not> session_live 30 r) (sd_sessions first_scan)"
      "list_all (\<lambda>r. fr_id r \<in> set (sd_outcomes first_scan)
         \<longrightarrow> fr_created_at r < 30 \<and> \<not> prior_session_needs_recovery (fr_last_seen r) first_scan)
         (sd_files first_scan)"
    by code_simp+
  moreover have "order_ok sample_store_env" by (simp add: order_ok_def sample_store_env_def)
  ultimately show ?thesis using f by (simp add: scan_ready_def)
qed

theorem scan_reconciles_witness:
  "library first_scan ''/m/a'' = Some ''A''
   \<and> (\<exists>r d'. reconcile_discovered_files sample_store_env 30 40 40
        [(31, found_file ''/m/b'' ''C''), (32, found_file ''/m/c'' ''A'')] [''/m''] first_scan = (Inr r, d')
        \<and> library d' ''/m/a'' = None \<and> library d' ''/m/b'' = Some ''C'' \<and> library d' ''/m/c'' = Some ''A'')"
proof -
  let ?D = "found_in sample_store_env [(31, found_file ''/m/b'' ''C''), (32, found_file ''/m/c'' ''A'')]"
  have "library first_scan ''/m/a'' = Some ''A''" by code_simp
  moreover have "rescan (library first_scan) [''/m''] ?D ''/m/a'' = None"
      "rescan (library first_scan) [''/m''] ?D ''/m/b'' = Some ''C''"
      "rescan (library first_scan) [''/m''] ?D ''/m/c'' = Some ''A''"
    by code_simp+
  ultimately show ?thesis
    using scan_reconciles [OF first_scan_ready, of 40 40
        "[(31, found_file ''/m/b'' ''C''), (32, found_file ''/m/c'' ''A'')]"] by auto
qed

section \<open>Two cases in which a scan loses data or fails\<close>

text \<open>
  A file that was seen again by a scan that was cancelled counts as a stub afterwards: the next scan deletes
  its row and its history and starts over with a new identifier, although the contents did not change.
\<close>

definition cancelled_rescan :: store_db where
  "cancelled_rescan =
     (let d = snd (begin_scan_session sample_store_env 30 [''/m''] first_scan);
          d = snd (ingest_discovered_file sample_store_env 31 105 (found_file ''/m/a'' ''A'') d)
      in snd (cancel_scan_session 35 105 d))"

definition third_scan :: "store_db \<Rightarrow> (voom_error + reconcile_result) \<times> store_db" where
  "third_scan =
     reconcile_discovered_files sample_store_env 50 60 60
       [(51, found_file ''/m/a'' ''A''), (52, found_file ''/m/b'' ''B'')] [''/m'']"

lemma cancelled_scan_loses_history:
  "map fr_id (filter (\<lambda>r. fr_path r = Some ''/m/a'') (sd_files cancelled_rescan)) = [101]
   \<and> length (transitions_for_file 101 cancelled_rescan) = 1
   \<and> 101 \<notin> set (map fr_id (sd_files (snd (third_scan cancelled_rescan))))
   \<and> transitions_for_file 101 (snd (third_scan cancelled_rescan)) = []"
  by code_simp

text \<open>If the file has a transcode outcome, the foreign key makes that deletion, and with it every later scan, fail.\<close>

lemma outcome_blocks_scan:
  "fst (third_scan (snd (insert_transcode_outcome 101 cancelled_rescan)))
     = Inl (storage_err ''failed to delete stub file row'' (SqliteConstraint ''FOREIGN KEY constraint failed''))"
  by code_simp

text \<open>The same key stops a purge after it has deleted the history of the files.\<close>

lemma outcome_blocks_purge:
  "let d = snd (insert_transcode_outcome 101 (snd (mark_missing 30 101 first_scan)))
   in isl (fst (purge_missing 40 d)) \<and> transitions_for_file 101 d \<noteq> []
      \<and> transitions_for_file 101 (snd (purge_missing 40 d)) = []
      \<and> 101 \<in> set (map fr_id (sd_files (snd (purge_missing 40 d))))"
  by code_simp

end
