(* ===== verification/Spec2Isabelle.thy ===== *)
theory Spec2Isabelle
  imports Evaluator_Props Call_Plugins Dsl_Props Job_Props Session_Props Scan_Reconcile
begin

text \<open>
  A verification development for VOOM, a manager of video libraries. Policies written in a small
  language say what the files of a library should look like; plugins around an event kernel find
  files, introspect them, evaluate policies and execute the resulting plans. The program is
  modelled by functions on records and datatypes that follow the Rust sources; paths below are
  relative to \<open>src/\<close>.

  \<^bold>\<open>How the parts interact.\<close> The text of a policy is parsed, its parents are resolved and merged, the
  merged tree is validated and compiled into a \<open>compiled_policy\<close> whose phases are in dependency
  order. The command line addresses a call to a capability; the kernel routes it to the plugin that
  registered the capability. The policy evaluator turns a policy, a media file and what executors
  announced about themselves into one plan per phase; the phase orchestrator turns the plans into
  phase outcomes. Events are dispatched by the bus to the subscribed plugins in priority order, and
  the events that handlers produce are dispatched in turn. The files of a library are kept in tables:
  a scan session takes what was discovered, file by file, and marks what is gone when it finishes. The
  job manager runs one job per file on a pool of workers; the executors turn a plan into commands of
  \<open>ffmpeg\<close>, \<open>mkvmerge\<close> and \<open>mkvpropedit\<close>, replace the file by the output, and record the change
  first, so that a scan in progress does not take it for one made by somebody else.

  \<^bold>\<open>Data.\<close>
  \<^item> \<open>Prelude\<close>: scalar types, string functions of Rust's standard library, hash maps as association
    lists, shared lemmas.
  \<^item> \<open>Media\<close>, \<open>Plan\<close>, \<open>Compiled\<close>, \<open>Capability\<close>, \<open>Codecs\<close>, \<open>Events\<close>, \<open>Claims\<close>:
    \<open>crates/voom-domain/src\<close>, that is \<open>media.rs\<close>, \<open>plan.rs\<close>, \<open>safeguard.rs\<close>, \<open>compiled.rs\<close>,
    \<open>capability_map.rs\<close>, \<open>utils/codecs.rs\<close>, \<open>utils/language.rs\<close>, \<open>events.rs\<close>, \<open>capabilities.rs\<close>
    and \<open>capability_resolution.rs\<close>.
  \<^item> \<open>Edit_Distance\<close>: the two dynamic programs behind the suggestions for misspelled names, each
    equal to the least length of an edit script (an inductive relation).

  \<^bold>\<open>The policy language\<close>, \<open>crates/voom-dsl/src\<close>.
  \<^item> \<open>Ast\<close> (\<open>ast.rs\<close>, \<open>errors.rs\<close>), \<open>Composition\<close> (\<open>composition.rs\<close>, \<open>bundled.rs\<close>), \<open>Validator\<close>
    (\<open>validator.rs\<close>), \<open>Compiler\<close> and \<open>Topo\<close> (\<open>compiler.rs\<close>), \<open>Pipeline\<close> (\<open>lib.rs\<close>,
    \<open>service.rs\<close>): one definition per function and per loop.
  \<^item> \<open>Composition_Props\<close>: the phases of a merged policy in closed form; the resolution of parents
    ends on every set of sources, cyclic ones included.
  \<^item> \<open>Topo\<close>: Kahn's algorithm returns an order of all phases with dependencies first, exactly if
    there is one, and otherwise names the phases that no order places. \<open>Cycle_Detection\<close>: the validator's depth-first search finds a cycle exactly if
    there is one, so that the two checks agree.
  \<^item> \<open>Validator_Correct\<close>, \<open>Transcode_Settings\<close>, \<open>Dsl_Props\<close>: a validated policy compiles without an
    error and without reaching an \<open>unreachable!\<close>, except through the parts that the validator does
    not look at; the bounds that validated transcode settings satisfy; the suggestions.

  \<^bold>\<open>Evaluation\<close>, \<open>plugins/policy-evaluator/src\<close> and \<open>plugins/phase-orchestrator/src\<close>.
  \<^item> \<open>Condition\<close> (\<open>condition.rs\<close>, \<open>filter.rs\<close>), \<open>Container_Compat\<close> (\<open>container_compat.rs\<close>),
    \<open>Evaluator\<close> (\<open>evaluator.rs\<close>), \<open>Orchestrator\<close> (\<open>lib.rs\<close> of the orchestrator).
  \<^item> \<open>Evaluator_Invariants\<close>: the locale \<open>plan_invariant\<close>, the contract of a property of plans that
    survives evaluation; \<open>Evaluator_Correct\<close> interprets it four times. \<open>Evaluator_Props\<close>: plans are
    well formed, critical tracks survive, container conversions are possible, filters and
    strategies do what they say. \<open>Samples\<close> has the files and policies of the witnesses.

  \<^bold>\<open>The kernel\<close>, \<open>crates/voom-kernel/src\<close>.
  \<^item> \<open>Bus\<close> (\<open>bus.rs\<close>): stable priority order, delivery, claims, cascades up to a depth limit.
  \<^item> \<open>Kernel\<close> (\<open>registry.rs\<close>, \<open>lib.rs\<close>): an invariant of the registry under every operation, the
    routing of calls. \<open>Call_Plugins\<close>: the evaluator and the orchestrator as plugins of the kernel.

  \<^bold>\<open>Jobs\<close>, \<open>crates/voom-domain/src/job.rs\<close>, \<open>plugins/sqlite-store\<close> and \<open>plugins/job-manager\<close>.
  \<^item> \<open>Jobs\<close> (\<open>job.rs\<close>, \<open>storage.rs\<close>, \<open>store/job_storage.rs\<close>): the job table as a list of rows and its
    statements, each of which may fail. \<open>Job_Queue\<close> (\<open>queue.rs\<close>): the queue on the contract of the store,
    a locale that the table interprets. \<open>Worker_Pool\<close> (\<open>worker.rs\<close>): the tasks of a batch as an
    interleaving step relation.
  \<^item> \<open>Worker_Pool_Correct\<close>, \<open>Job_Props\<close>: no job runs twice, a finished batch has one result per job that
    agrees with the table, and every run ends; deletions and prunings remove what they say.

  \<^bold>\<open>The file store\<close>, \<open>plugins/sqlite-store/src/store\<close> and \<open>crates/voom-domain/src\<close>.
  \<^item> \<open>Scan_Store\<close> (\<open>file_storage.rs\<close>, \<open>file_transition_storage.rs\<close>, \<open>transition.rs\<close>): the tables of files,
    tracks, transitions, sessions and outcomes as the record \<open>store_db\<close>; a transaction is a function
    that gives an error or a value and the new tables, and an operation runs it and rolls back.
  \<^item> \<open>Scan_Session\<close> (\<open>file_storage.rs\<close>, \<open>storage.rs\<close>): begin, ingest, finish, cancel, heartbeat, and the
    reconciliation of a whole scan.
  \<^item> \<open>Scan_Invariant\<close>: the locale \<open>store_invariant\<close>, interpreted by \<open>store_ok\<close>, and the states that all
    operations reach. \<open>Scan_Correct\<close>: the effect of each transaction on the columns that matter.
    \<open>Scan_Reconcile\<close>: a scan refines replacement on the map from active paths to contents.

  \<^bold>\<open>The executors\<close>, \<open>plugins/ffmpeg-executor/src\<close>, \<open>plugins/mkvtoolnix-executor/src\<close>, \<open>crates/voom-process\<close>.
  \<^item> \<open>Process\<close> (\<open>voom-process\<close>): capture with a bound, timeouts, quoting. \<open>Exec_World\<close> (\<open>temp_file.rs\<close>,
    \<open>scan_session_mutations.rs\<close> and its table): files by path, recorded changes, and a list that says
    which operation fails next.
  \<^item> \<open>Ffmpeg_Command\<close> (\<open>command.rs\<close>, \<open>hwaccel.rs\<close>), \<open>Vmaf\<close> (\<open>vmaf.rs\<close>, \<open>vmaf_iterate.rs\<close>),
    \<open>Ffmpeg_Executor\<close> (\<open>executor.rs\<close>), \<open>Ffmpeg_Probe\<close> (\<open>probe.rs\<close>), \<open>Ffmpeg_Plugin\<close> (\<open>lib.rs\<close>),
    \<open>Mkvtoolnix\<close> (\<open>merge.rs\<close>, \<open>propedit.rs\<close>, \<open>lib.rs\<close>).
  \<^item> \<open>Ffmpeg_Props\<close>: the command of a plan in closed form and its errors. \<open>Vmaf\<close>: the bisection converges.
    \<open>Executor_Props\<close>: an execution changes nothing unless it succeeds. \<open>Mkvtoolnix_Props\<close>: what merges and
    added subtitles change is recorded, what is edited in place is not. \<open>Ffmpeg_Plugin_Props\<close>: routing of
    subtitles and the announced capabilities. \<open>Session_Props\<close>: the locale \<open>recording_executor\<close>, interpreted
    by the handlers of both plugins, and its consequence for a whole scan session.

  \<^bold>\<open>This theory\<close> joins them: a policy in a valid order is evaluated completely, a policy that
  the validator accepts runs, and a call that asks for an evaluation is answered with it.

  \<^bold>\<open>Bounds and fuel.\<close> Cascades of events stop at \<open>MAX_CASCADE_DEPTH\<close> in the code itself. Kahn's loop
  has a measure (open in-degrees plus queue). The resolution of parents takes fuel and is proved
  to end with six levels per chain of bundled sources, or one more than the readable files; the
  depth-first search takes \<open>cycle_fuel\<close>, the number of names, which is proved to be enough. A batch of
  jobs takes at most seven steps per item and one more; the bisection at most the attempts it is given.
  Machine integers are natural numbers with the casts, saturations and wrap-arounds of the code
  written out where they can matter.

  \<^bold>\<open>Parameters.\<close> Regular expressions, Unicode lower-casing, JSON and float printing, the parser, the
  \<open>xxh3\<close> hash, the file system, the clock, \<open>partition_point\<close> and \<open>binary_search\<close> of the standard
  library, the order of iteration over hash tables and of rows in a query without \<open>ORDER BY\<close>, the external
  tools, the supply of identifiers and the failures of engine and file system are arguments, with the documented behaviour
  that a theorem needs as its hypothesis.

  \<^bold>\<open>Not modelled.\<close> The pest grammar and the builders on its parse trees, the formatter, serde encodings;
  queries that only read and the tables of logs, statistics and estimates; what the external tools do
  with a media file; crop detection and progress parsing; HTTP, terminal output, the command line and the
  WASM bindings; the backup manager and the small plugins around external tools.
\<close>

section \<open>Properties that span components\<close>

text \<open>The order that the compiler stores in a policy: the sort of its phases.\<close>

definition policy_graph :: "compiled_policy \<Rightarrow> dep_graph" where
  "policy_graph policy = map (\<lambda>ph. (cp_name ph, cp_depends_on ph)) (pol_phases policy)"

lemma policy_graph_names: "map fst (policy_graph policy) = map cp_name (pol_phases policy)"
  by (simp add: policy_graph_def)

lemma find_phase_map_of:
  "map_of (policy_graph policy) n = map_option cp_depends_on (find_phase policy n)"
proof -
  have "map_of (map (\<lambda>ph. (cp_name ph, cp_depends_on ph)) phs) n
      = map_option cp_depends_on (find (\<lambda>ph. cp_name ph = n) phs)" for phs
    by (induction phs) auto
  then show ?thesis by (simp add: policy_graph_def find_phase_def)
qed

lemma deps_of_policy_graph: "deps_of (policy_graph policy) = phase_deps policy"
  by (rule ext) (simp add: deps_of_def phase_deps_def find_phase_map_of split: option.split)

context phase_ordering
begin

lemma evaluate_sorted:
  assumes "distinct (map cp_name (pol_phases policy))"
    and "sorter (policy_graph policy) = Inr (pol_phase_order policy)"
  shows "distinct (pol_phase_order policy)
    \<and> (\<forall>n \<in> set (pol_phase_order policy). find_phase policy n \<noteq> None)
    \<and> order_respects (phase_deps policy) (pol_phase_order policy)
    \<and> length (pol_phase_order policy) = length (pol_phases policy)"
proof -
  have d: "distinct (map fst (policy_graph policy))" using assms(1) by (simp add: policy_graph_names)
  note o = sorted_order [OF d assms(2)]
  have "find_phase policy n \<noteq> None" if "n \<in> set (pol_phase_order policy)" for n
  proof -
    have "n \<in> fst ` set (policy_graph policy)" using o that by simp
    then have "map_of (policy_graph policy) n \<noteq> None" by (simp add: map_of_eq_None_iff)
    then show ?thesis by (auto simp: find_phase_map_of)
  qed
  moreover have "length (policy_graph policy) = length (pol_phases policy)"
    by (simp add: policy_graph_def)
  ultimately show ?thesis
    using o order_length [OF d assms(2)] by (simp add: deps_of_policy_graph)
qed

end

lemma topo_ordering: "pp_bounded pp \<Longrightarrow> phase_ordering (topological_sort pp)"
  by unfold_locales (rule topo_sound)

lemma sorted_policy_runs:
  assumes "pp_bounded pp" "distinct (map cp_name (pol_phases policy))"
    and "topological_sort pp (policy_graph policy) = Inr (pol_phase_order policy)"
  shows "\<exists>plans. evaluate_with_phase_outputs E mints policy f caps lookup = Inr plans
    \<and> map pl_phase_name plans = pol_phase_order policy
    \<and> length plans = length (pol_phases policy)
    \<and> (\<forall>i < length plans. \<exists>phase. find_phase policy (pol_phase_order policy ! i) = Some phase
         \<and> evaluate_phase E (mints i) phase policy f
             (outcomes_before (pol_phase_order policy) plans i)
             \<lparr>ctx_capabilities = caps, ctx_phase_output_lookup = lookup\<rparr> = Inr (plans ! i)
         \<and> (\<forall>d. pl_skip_reason (plans ! i) \<noteq> Some (dependency_reason d)))"
proof -
  note o = phase_ordering.evaluate_sorted [OF topo_ordering [OF assms(1)] assms(2,3)]
  let ?order = "pol_phase_order policy"
  let ?ctx = "\<lparr>ctx_capabilities = caps, ctx_phase_output_lookup = lookup\<rparr>"
  obtain plans where plans: "evaluate_phases E mints policy f ?ctx ?order [] [] = Inr plans"
    "length plans = length ?order"
    "\<forall>i < length ?order. \<exists>phase. find_phase policy (?order ! i) = Some phase
       \<and> evaluate_phase E (mints i) phase policy f (outcomes_before ?order plans i) ?ctx
         = Inr (plans ! i)"
    using evaluate_phases_spec [of "[]" ?order policy "[]" E mints f ?ctx] o by auto
  have run: "evaluate_with_phase_outputs E mints policy f caps lookup = Inr plans"
    by (simp add: evaluate_with_phase_outputs_def plans(1))
  have "map pl_phase_name plans = filter (\<lambda>n. find_phase policy n \<noteq> None) ?order"
    using evaluate_phases_total [of E mints policy f ?ctx ?order "[]" "[]"] plans(1) by auto
  then have names: "map pl_phase_name plans = ?order" using o by simp
  have known: "hm_get (outcomes_before ?order plans i) d \<noteq> None"
    if "i < length ?order" "find_phase policy (?order ! i) = Some phase" "d \<in> set (cp_depends_on phase)"
    for i phase d
  proof -
    have "d \<in> set (take i ?order)" using o that unfolding order_respects_def phase_deps_def by fastforce
    then obtain j where "j < i" "d = ?order ! j" using that(1) by (auto simp: in_set_conv_nth)
    then show ?thesis using outcomes_before_get [of ?order plans i j] o plans(2) that(1) by simp
  qed
  have "\<exists>phase. find_phase policy (?order ! i) = Some phase
      \<and> evaluate_phase E (mints i) phase policy f (outcomes_before ?order plans i) ?ctx = Inr (plans ! i)
      \<and> (\<forall>d. pl_skip_reason (plans ! i) \<noteq> Some (dependency_reason d))" if i: "i < length plans" for i
    using plans(3) i known plan_not_skipped_for_dependency unfolding plans(2) by meson
  then show ?thesis using run names o plans(2) by auto
qed

text \<open>
  C8: compiler and evaluator agree on phase order. For a policy with distinct phase names whose
  stored order is what the topological sort returns for its phases, evaluation gives every phase
  exactly one plan, in that order. Each plan is made with the outcomes of exactly the plans before
  it, and none is skipped because a phase it depends on has not been evaluated.
\<close>

theorem sorted_policy_evaluates:
  assumes "pp_bounded pp" "distinct (map cp_name (pol_phases policy))"
    and "topological_sort pp (policy_graph policy) = Inr (pol_phase_order policy)"
  shows "\<exists>plans. evaluate_with_phase_outputs E mints policy f caps lookup = Inr plans
    \<and> map pl_phase_name plans = pol_phase_order policy
    \<and> length plans = length (pol_phases policy)
    \<and> (\<forall>i < length plans. \<exists>phase. find_phase policy (pol_phase_order policy ! i) = Some phase
         \<and> evaluate_phase E (mints i) phase policy f
             (outcomes_before (pol_phase_order policy) plans i)
             \<lparr>ctx_capabilities = caps, ctx_phase_output_lookup = lookup\<rparr> = Inr (plans ! i)
         \<and> (\<forall>d. pl_skip_reason (plans ! i) \<noteq> Some (dependency_reason d)))"
  using assms by (rule sorted_policy_runs)

theorem sorted_policy_evaluates_witness:
  "\<exists>plans. evaluate_with_phase_outputs sample_env (\<lambda>_. sample_mint) two_phases sample_file None None
       = Inr plans \<and> map pl_phase_name plans = [''a'', ''b'']"
proof -
  have "distinct (map cp_name (pol_phases two_phases))" by code_simp
  moreover have "topological_sort linear_partition_point (policy_graph two_phases)
      = Inr (pol_phase_order two_phases)" by code_simp
  ultimately show ?thesis
    using sorted_policy_evaluates [OF linear.pp_ok, of two_phases sample_env "\<lambda>_. sample_mint"
        sample_file None None]
    by (auto simp: two_phases_def sample_policy_def sample_phase_def)
qed

text \<open>
  C7: from source to plans. A policy that passes validation, and whose parts the validator does not
  look at are valid, compiles; evaluating the compiled policy on any file yields exactly one plan
  for every phase of the source, each after the plans of the phases it depends on. Each plan is made
  with the outcomes of exactly the plans before it, and none is skipped for want of a dependency.
\<close>

theorem validated_policy_runs:
  assumes "pp_bounded (partition_point_of D)" "validate D ast = Some (Inr ())" "skipped_parts_ok D ast"
  shows "\<exists>policy plans. compile_ast D ast = Inr policy
    \<and> evaluate_with_phase_outputs E mints policy f caps lookup = Inr plans
    \<and> distinct (map pl_phase_name plans) \<and> set (map pl_phase_name plans) = phase_name_set ast
    \<and> order_respects (deps_of (ast_graph ast)) (map pl_phase_name plans)
    \<and> (\<forall>i < length plans. \<exists>phase. find_phase policy (pl_phase_name (plans ! i)) = Some phase
         \<and> evaluate_phase E (mints i) phase policy f
             (outcomes_before (map pl_phase_name plans) plans i)
             \<lparr>ctx_capabilities = caps, ctx_phase_output_lookup = lookup\<rparr> = Inr (plans ! i)
         \<and> (\<forall>d. pl_skip_reason (plans ! i) \<noteq> Some (dependency_reason d)))"
proof -
  obtain policy where policy: "compile_ast D ast = Inr policy"
    using validated_compiles [OF assms, of "[]" "[]"] by (auto simp: compile_ast_def succeeds_def)
  note shape = compile_ast_shape [OF policy [unfolded compile_ast_def]]
  have graph: "policy_graph policy = ast_graph ast"
    unfolding policy_graph_def ast_graph_def by (rule corresponding_graph [OF shape(1)])
  have d: "distinct (map ph_name (ast_phases ast))"
    using assms(2) by (simp add: validate_Ok validate_phase_names_Nil)
  have order: "distinct (pol_phase_order policy)" "set (pol_phase_order policy) = phase_name_set ast"
      "order_respects (deps_of (ast_graph ast)) (pol_phase_order policy)"
    using topo_sound [OF assms(1) _ shape(2)] d
    by (auto simp: ast_graph_names phase_name_set_def) (auto simp: ast_graph_def image_image)
  have "distinct (map cp_name (pol_phases policy))"
    using d corresponding_names [OF shape(1)] by simp
  from sorted_policy_runs [OF assms(1) this, unfolded graph, OF shape(2), of E mints f caps lookup]
  obtain plans where plans: "evaluate_with_phase_outputs E mints policy f caps lookup = Inr plans"
      "map pl_phase_name plans = pol_phase_order policy"
      "\<forall>i < length plans. \<exists>phase. find_phase policy (pol_phase_order policy ! i) = Some phase
         \<and> evaluate_phase E (mints i) phase policy f
             (outcomes_before (pol_phase_order policy) plans i)
             \<lparr>ctx_capabilities = caps, ctx_phase_output_lookup = lookup\<rparr> = Inr (plans ! i)
         \<and> (\<forall>d. pl_skip_reason (plans ! i) \<noteq> Some (dependency_reason d))"
    by blast
  have "pol_phase_order policy ! i = pl_phase_name (plans ! i)" if "i < length plans" for i
    using that by (simp add: plans(2) [symmetric])
  then show ?thesis
    using policy plans(1,3) order
    by (intro exI [of _ policy] exI [of _ plans]) (simp add: plans(2) del: set_map)
qed

theorem validated_policy_runs_witness:
  "\<exists>policy plans. compile_ast plain_dsl_env layered_policy = Inr policy
    \<and> evaluate_with_phase_outputs sample_env (\<lambda>_. sample_mint) policy sample_file None None = Inr plans
    \<and> set (map pl_phase_name plans) = {''audio'', ''init''}"
proof -
  have "skipped_parts_ok plain_dsl_env layered_policy"
    by (simp add: skipped_parts_ok_def skipped_parts_valid_def layered_policy_def policy_of_def phase_of_def)
  then show ?thesis
    using validated_policy_runs [OF plain_partition_point layered_policy_valid, of sample_env
        "\<lambda>_. sample_mint" sample_file None None]
    by (auto simp: phase_name_set_def layered_policy_def policy_of_def phase_of_def)
qed

text \<open>
  C27: the route of an evaluation call. In a kernel that satisfies its invariant and has the
  policy evaluator registered, a call to the exclusive capability \<open>evaluate_policy\<close> is answered
  by that plugin, without error or panic, with one sound plan for each phase asked for; the state
  of the plugins is unchanged and one statistics record of a successful invocation is added.
\<close>

theorem evaluation_call_answered:
  assumes "kernel_ok k"
    and "(''policy-evaluator'', policy_evaluator_plugin E mints discriminant) \<in> set (k_registry k)"
  shows "\<exists>plans st' r. dispatch_to_capability clk dbg call_kind_str k (QExclusive ''evaluate_policy'')
        (CallEvaluatePolicy c) st = (Inr (RespEvaluatePolicy plans), st')
    \<and> map pl_phase_name plans = phases_asked c
    \<and> list_all (\<lambda>p. \<exists>phase. phase_plan_ok (epc_policy c) phase (epc_file c) p) plans
    \<and> ds_world st' = ds_world st \<and> ds_stats st' = ds_stats st @ [r]
    \<and> ps_plugin_id r = ''policy-evaluator'' \<and> ps_outcome r = InvOk"
proof -
  let ?p = "policy_evaluator_plugin E mints discriminant"
  have "resolve_capability dbg k (QExclusive ''evaluate_policy'') = Inr ?p"
    using resolve_owner [OF assms(1), of "QExclusive ''evaluate_policy''" dbg ?p] assms(2)
    by (auto simp: policy_evaluator_plugin_def matches_query_def Capability_kind_def
        Capability_resolution_def)
  moreover obtain plans where plans: "evaluate_call E mints c (cw_evaluator_cache (ds_world st)) = Inr plans"
    "map pl_phase_name plans = phases_asked c"
    "list_all (\<lambda>p. \<exists>phase. phase_plan_ok (epc_policy c) phase (epc_file c) p) plans"
    using evaluate_call_ok by blast
  moreover have "pg_on_call ?p (CallEvaluatePolicy c) (ds_world st)
      = (Returned (RespEvaluatePolicy plans), ds_world st)" "pg_name ?p = ''policy-evaluator''"
    using plans(1) by (simp_all add: policy_evaluator_plugin_def)
  ultimately show ?thesis by (simp add: dispatch_to_capability_def)
qed

definition core_kernel :: "(core_world, call, call_response) kernel" where
  "core_kernel =
     fst (register_plugin linear_search
            (policy_evaluator_plugin sample_env (\<lambda>_. sample_mint) (\<lambda>_. [])) 10 Kernel_new)"

definition core_state :: "core_world dispatch_state" where
  "core_state = \<lparr>ds_world = \<lparr>cw_evaluator_cache = CapabilityMap_new\<rparr>, ds_stats = []\<rparr>"

theorem evaluation_call_answered_witness:
  "\<exists>plans st'. dispatch_to_capability (\<lambda>_. (0, 0)) (\<lambda>_. []) call_kind_str core_kernel
       (QExclusive ''evaluate_policy'')
       (CallEvaluatePolicy
          \<lparr>epc_policy = two_phases, epc_file = sample_file, epc_phase = None, epc_phase_outputs = None,
           epc_phase_outcomes = None, epc_capabilities_override = None\<rparr>) core_state
     = (Inr (RespEvaluatePolicy plans), st')"
proof -
  have "kernel_reachable (\<lambda>_. (0, 0)) linear_search (core_kernel, core_state)"
    unfolding kernel_reachable_def core_kernel_def
    by (intro exI r_into_rtranclp) (rule step_register)
  then have "kernel_ok core_kernel" using linear_bs.reachable_ok by fastforce
  moreover have "(''policy-evaluator'', policy_evaluator_plugin sample_env (\<lambda>_. sample_mint) (\<lambda>_. []))
      \<in> set (k_registry core_kernel)"
    by (simp add: core_kernel_def register_plugin_def verify_registration_invariants_def
        check_capability_collisions_def iter_all_def Kernel_new_def PluginRegistry_register_def
        policy_evaluator_plugin_def hm_contains_key_def hm_insert_def)
  ultimately show ?thesis
    using evaluation_call_answered [of core_kernel sample_env "\<lambda>_. sample_mint" "\<lambda>_. []"] by blast
qed

end
